(* ===== verification/Prelude.thy ===== *)
theory Prelude
  imports Main
begin

text \<open>
  Shared notions of the development.

  JavaScript strings are \<^typ>\<open>string\<close> (text outside ASCII is written as its UTF-8
  bytes with \<open>utf8\<close>); \<open>undefined\<close> and \<open>null\<close> are \<open>None\<close>; a thrown exception
  is the left value of a sum.  The truth tests \<open>if (s)\<close> and \<open>a || b\<close> of the source
  are \<open>truthy\<close> and \<open>js_or\<close>.  An object used as a dictionary is an association
  list with distinct keys in insertion order, because \<open>Object.entries\<close> shows the order.
\<close>

named_theorems js_simps "unfolding rules for the JavaScript truth tests"

definition utf8 :: "nat list \<Rightarrow> string" where
  "utf8 bs = map char_of bs"

fun truthy :: "string option \<Rightarrow> bool" where
  "truthy None = False"
| "truthy (Some s) = (s \<noteq> [])"

definition js_or :: "string option \<Rightarrow> string \<Rightarrow> string" where
  "js_or x d = (case x of None \<Rightarrow> d | Some s \<Rightarrow> if s = [] then d else s)"

definition js_or_opt :: "string option \<Rightarrow> string option \<Rightarrow> string option" where
  "js_or_opt x y = (if truthy x then x else y)"

lemma js_or_simps [simp, js_simps]:
  "js_or None d = d" "js_or (Some []) d = d" "js_or (Some (c # s)) d = c # s"
  by (simp_all add: js_or_def)

lemma js_or_truthy [js_simps]: "truthy x \<Longrightarrow> js_or x d = the x"
  by (cases x) (auto simp: js_or_def)

lemma js_or_not_truthy [js_simps]: "\<not> truthy x \<Longrightarrow> js_or x d = d"
  by (cases x) (auto simp: js_or_def)

section \<open>Association lists\<close>

fun alist_get :: "('k \<times> 'v) list \<Rightarrow> 'k \<Rightarrow> 'v option" where
  "alist_get [] k = None"
| "alist_get ((a, b) # xs) k = (if a = k then Some b else alist_get xs k)"

text \<open>\<open>obj[k] = v\<close>: a present key keeps its place, a new key goes last.\<close>

fun alist_put :: "('k \<times> 'v) list \<Rightarrow> 'k \<Rightarrow> 'v \<Rightarrow> ('k \<times> 'v) list" where
  "alist_put [] k v = [(k, v)]"
| "alist_put ((a, b) # xs) k v = (if a = k then (k, v) # xs else (a, b) # alist_put xs k v)"

definition alist_del :: "('k \<times> 'v) list \<Rightarrow> 'k \<Rightarrow> ('k \<times> 'v) list" where
  "alist_del xs k = filter (\<lambda>p. fst p \<noteq> k) xs"

text \<open>\<open>{ ...xs, ...ys }\<close>.\<close>

definition alist_merge :: "('k \<times> 'v) list \<Rightarrow> ('k \<times> 'v) list \<Rightarrow> ('k \<times> 'v) list" where
  "alist_merge xs ys = foldl (\<lambda>m p. alist_put m (fst p) (snd p)) xs ys"

lemma alist_get_put [simp]:
  "alist_get (alist_put xs k v) k' = (if k = k' then Some v else alist_get xs k')"
  by (induction xs) auto

lemma alist_get_del [simp]:
  "alist_get (alist_del xs k) k' = (if k = k' then None else alist_get xs k')"
  unfolding alist_del_def by (induction xs) auto

lemma key_in_fst: "(k, v) \<in> set xs \<Longrightarrow> k \<in> fst ` set xs"
  by force

lemma keys_alist_put:
  "map fst (alist_put xs k v) =
     (if k \<in> fst ` set xs then map fst xs else map fst xs @ [k])"
  by (induction xs) (auto dest: key_in_fst)

lemma distinct_alist_put [simp]:
  "distinct (map fst xs) \<Longrightarrow> distinct (map fst (alist_put xs k v))"
  by (auto simp: keys_alist_put)

lemma alist_get_None: "alist_get xs k = None \<longleftrightarrow> k \<notin> fst ` set xs"
proof (induction xs)
  case (Cons x xs)
  then show ?case by (cases x) (cases "fst x = k", auto)
qed simp

lemma alist_get_SomeD: "alist_get xs k = Some v \<Longrightarrow> (k, v) \<in> set xs"
  by (induction xs) (auto split: if_splits)

lemma alist_get_eq_Some:
  "distinct (map fst xs) \<Longrightarrow> alist_get xs k = Some v \<longleftrightarrow> (k, v) \<in> set xs"
  by (induction xs) (auto dest: alist_get_SomeD key_in_fst)

lemma alist_put_new: "k \<notin> fst ` set xs \<Longrightarrow> alist_put xs k v = xs @ [(k, v)]"
  by (induction xs) auto

lemma distinct_alist_merge [simp]:
  "distinct (map fst xs) \<Longrightarrow> distinct (map fst (alist_merge xs ys))"
  unfolding alist_merge_def by (induction ys arbitrary: xs) simp_all

lemma alist_get_merge:
  "alist_get (alist_merge xs ys) k =
     (case alist_get (rev ys) k of None \<Rightarrow> alist_get xs k | Some v \<Rightarrow> Some v)"
proof (induction ys rule: rev_induct)
  case (snoc y ys)
  then show ?case by (cases y) (auto simp: alist_merge_def)
qed (simp add: alist_merge_def)

section \<open>Lists\<close>

definition find_index :: "('a \<Rightarrow> bool) \<Rightarrow> 'a list \<Rightarrow> int" where
  "find_index p xs = (let n = length (takeWhile (\<lambda>x. \<not> p x) xs)
                      in if n < length xs then int n else -1)"

lemma find_index_pos:
  "0 \<le> find_index p xs \<Longrightarrow>
     nat (find_index p xs) < length xs \<and> p (xs ! nat (find_index p xs))"
  unfolding find_index_def Let_def
  by (auto split: if_splits dest: nth_length_takeWhile)

lemma find_index_neg: "find_index p xs < 0 \<longleftrightarrow> (\<forall>x \<in> set xs. \<not> p x)"
proof -
  have "length (takeWhile (\<lambda>x. \<not> p x) xs) < length xs \<longleftrightarrow> (\<exists>x \<in> set xs. p x)"
    by (induction xs) auto
  then show ?thesis by (auto simp: find_index_def Let_def)
qed

lemma find_Some_in: "List.find p xs = Some x \<Longrightarrow> x \<in> set xs \<and> p x"
  by (induction xs) (auto split: if_splits)

lemma find_None_all: "List.find p xs = None \<longleftrightarrow> (\<forall>x \<in> set xs. \<not> p x)"
  by (induction xs) auto

end
