(* ===== verification/JsNumber.thy ===== *)
theory JsNumber
  imports Prelude Complex_Main "HOL-Library.Log_Nat"
begin

text \<open>
  JavaScript numbers.  A number is NaN, an infinity, or a finite value, which is a rational
  (the two zeros are one value: no code modelled here tells them apart).  An arithmetic
  operation computes the exact rational result and rounds it to the nearest IEEE double,
  ties to even (\<open>fl\<close>), overflowing to an infinity from \<open>2 ^ 1024\<close> on.

  \<open>js_Number\<close> is \<open>Number(s)\<close> on strings and \<open>js_toFixed2\<close> is \<open>x.toFixed(2)\<close>.
\<close>

datatype jsnum = NaN | PosInf | NegInf | Fin rat

section \<open>Rounding to double\<close>

definition ilog2 :: "rat \<Rightarrow> int" where
  "ilog2 x = (let (n, d) = quotient_of x; c = bitlen n - bitlen d
              in if 2 powi c \<le> x then c else c - 1)"

definition round_even :: "rat \<Rightarrow> int" where
  "round_even x = (let f = \<lfloor>x\<rfloor>; d = x - of_int f
     in if d < 1 / 2 then f else if 1 / 2 < d then f + 1 else if even f then f else f + 1)"

definition fl_exp :: "rat \<Rightarrow> int" where
  "fl_exp x = max (-1074) (ilog2 \<bar>x\<bar> - 52)"

definition fl :: "rat \<Rightarrow> rat" where
  "fl x = (if x = 0 then 0
           else of_int (round_even (x / 2 powi fl_exp x)) * 2 powi fl_exp x)"

definition to_double :: "rat \<Rightarrow> jsnum" where
  "to_double x = (let y = fl x
     in if 2 ^ 1024 \<le> y then PosInf else if y \<le> - (2 ^ 1024) then NegInf else Fin y)"

fun js_neg :: "jsnum \<Rightarrow> jsnum" where
  "js_neg NaN = NaN"
| "js_neg PosInf = NegInf"
| "js_neg NegInf = PosInf"
| "js_neg (Fin x) = Fin (- x)"

fun js_add :: "jsnum \<Rightarrow> jsnum \<Rightarrow> jsnum" where
  "js_add NaN y = NaN"
| "js_add x NaN = NaN"
| "js_add PosInf NegInf = NaN"
| "js_add NegInf PosInf = NaN"
| "js_add PosInf y = PosInf"
| "js_add x PosInf = PosInf"
| "js_add NegInf y = NegInf"
| "js_add x NegInf = NegInf"
| "js_add (Fin x) (Fin y) = to_double (x + y)"

definition js_sub :: "jsnum \<Rightarrow> jsnum \<Rightarrow> jsnum" where
  "js_sub x y = js_add x (js_neg y)"

fun js_sign :: "jsnum \<Rightarrow> int" where
  "js_sign NaN = 0"
| "js_sign PosInf = 1"
| "js_sign NegInf = -1"
| "js_sign (Fin x) = (if x < 0 then -1 else if x = 0 then 0 else 1)"

fun js_mul :: "jsnum \<Rightarrow> jsnum \<Rightarrow> jsnum" where
  "js_mul (Fin x) (Fin y) = to_double (x * y)"
| "js_mul x y =
     (if x = NaN \<or> y = NaN \<or> js_sign x * js_sign y = 0 then NaN
      else if js_sign x * js_sign y = 1 then PosInf else NegInf)"

section \<open>Numbers from strings\<close>

definition is_digit :: "char \<Rightarrow> bool" where
  "is_digit c = (48 \<le> (of_char c :: int) \<and> (of_char c :: int) \<le> 57)"

definition digit_val :: "char \<Rightarrow> int" where
  "digit_val c = of_char c - 48"

definition digits_val :: "string \<Rightarrow> int" where
  "digits_val s = foldl (\<lambda>n c. 10 * n + digit_val c) 0 s"

definition is_js_space :: "char \<Rightarrow> bool" where
  "is_js_space c = ((of_char c :: int) \<in> {9, 10, 11, 12, 13, 32})"

definition js_trim :: "string \<Rightarrow> string" where
  "js_trim s = rev (dropWhile is_js_space (rev (dropWhile is_js_space s)))"

definition parse_exp :: "string \<Rightarrow> int option" where
  "parse_exp s =
     (case s of
        [] \<Rightarrow> Some 0
      | c # r \<Rightarrow>
          if c \<noteq> CHR ''e'' \<and> c \<noteq> CHR ''E'' then None
          else let neg = (r \<noteq> [] \<and> hd r = CHR ''-'');
                   ds = (if r \<noteq> [] \<and> (hd r = CHR ''-'' \<or> hd r = CHR ''+'') then tl r else r)
               in if ds = [] \<or> \<not> list_all is_digit ds then None
                  else Some (if neg then - digits_val ds else digits_val ds))"

definition parse_decimal :: "string \<Rightarrow> rat option" where
  "parse_decimal s =
     (let i = takeWhile is_digit s; r = dropWhile is_digit s;
          f = (if r \<noteq> [] \<and> hd r = CHR ''.'' then takeWhile is_digit (tl r) else []);
          r' = (if r \<noteq> [] \<and> hd r = CHR ''.'' then dropWhile is_digit (tl r) else r)
      in if i = [] \<and> f = [] then None
         else map_option
                (\<lambda>e. of_int (digits_val (i @ f)) * 10 powi (e - int (length f)))
                (parse_exp r'))"

definition radix_digit :: "char \<Rightarrow> int" where
  "radix_digit c = (let n = of_char c
     in if 48 \<le> n \<and> n \<le> 57 then n - 48 else if 97 \<le> n \<and> n \<le> 102 then n - 87
        else if 65 \<le> n \<and> n \<le> 70 then n - 55 else 99)"

definition parse_radix :: "int \<Rightarrow> string \<Rightarrow> rat option" where
  "parse_radix b s =
     (if s = [] \<or> \<not> list_all (\<lambda>c. radix_digit c < b) s then None
      else Some (of_int (foldl (\<lambda>n c. b * n + radix_digit c) 0 s)))"

definition js_Number :: "string \<Rightarrow> jsnum" where
  "js_Number str =
     (let s = js_trim str
      in if s = [] then Fin 0
         else if take 2 s \<in> {''0x'', ''0X''} then (case parse_radix 16 (drop 2 s) of None \<Rightarrow> NaN | Some v \<Rightarrow> to_double v)
         else if take 2 s \<in> {''0o'', ''0O''} then (case parse_radix 8 (drop 2 s) of None \<Rightarrow> NaN | Some v \<Rightarrow> to_double v)
         else if take 2 s \<in> {''0b'', ''0B''} then (case parse_radix 2 (drop 2 s) of None \<Rightarrow> NaN | Some v \<Rightarrow> to_double v)
         else let neg = (hd s = CHR ''-'');
                  u = (if hd s = CHR ''-'' \<or> hd s = CHR ''+'' then tl s else s)
              in if u = ''Infinity'' then (if neg then NegInf else PosInf)
                 else case parse_decimal u of
                        None \<Rightarrow> NaN
                      | Some v \<Rightarrow> to_double (if neg then - v else v))"

section \<open>Numbers to strings\<close>

function int_digits :: "int \<Rightarrow> string" where
  "int_digits n =
     (if n < 10 then [char_of (n + 48)] else int_digits (n div 10) @ [char_of (n mod 10 + 48)])"
  by pat_completeness auto
termination
  by (relation "measure nat") auto

declare int_digits.simps [simp del]

text \<open>The digits of \<open>n\<close> hundredths with the point before the last two.\<close>

definition two_digits :: "int \<Rightarrow> string" where
  "two_digits n = [char_of (n div 10 mod 10 + 48), char_of (n mod 10 + 48)]"

definition cents_str :: "int \<Rightarrow> string" where
  "cents_str n = int_digits (n div 100) @ CHR ''.'' # two_digits n"

text \<open>
  \<open>Number.prototype.toString\<close> of a finite positive number: the shortest decimal
  \<open>s * 10 ^ (n - k)\<close> with \<open>k\<close> digits that rounds back to the number, tried from one
  digit to seventeen, then laid out by the size of \<open>n\<close>.
\<close>

definition ilog10 :: "rat \<Rightarrow> int" where
  "ilog10 x = (if 1 \<le> x then int (length (int_digits \<lfloor>x\<rfloor>)) - 1
               else - int (length (int_digits (\<lceil>1 / x\<rceil> - 1))))"

fun shortest_from :: "nat \<Rightarrow> int \<Rightarrow> int \<Rightarrow> rat \<Rightarrow> int \<times> int \<times> int" where
  "shortest_from 0 k n x = (\<lfloor>x / 10 powi (n - k) + 1 / 2\<rfloor>, k, n)"
| "shortest_from (Suc fuel) k n x =
     (let s = \<lfloor>x / 10 powi (n - k) + 1 / 2\<rfloor>
      in if fl (of_int s * 10 powi (n - k)) = x then (s, k, n)
         else shortest_from fuel (k + 1) n x)"

fun strip_zeros :: "nat \<Rightarrow> int \<Rightarrow> int \<Rightarrow> int \<times> int" where
  "strip_zeros 0 s k = (s, k)"
| "strip_zeros (Suc fuel) s k =
     (if 1 < k \<and> s mod 10 = 0 then strip_zeros fuel (s div 10) (k - 1) else (s, k))"

definition pos_to_string :: "rat \<Rightarrow> string" where
  "pos_to_string x =
     (let (s0, k0, n0) = shortest_from 16 1 (ilog10 x + 1) x;
          carry = (s0 = 10 ^ nat k0);
          n = (if carry then n0 + 1 else n0);
          (s, k) = strip_zeros 17 s0 (if carry then k0 + 1 else k0);
          ds = int_digits s
      in if k \<le> n \<and> n \<le> 21 then ds @ replicate (nat (n - k)) CHR ''0''
         else if 0 < n \<and> n \<le> 21 then take (nat n) ds @ ''.'' @ drop (nat n) ds
         else if -6 < n \<and> n \<le> 0 then ''0.'' @ replicate (nat (- n)) CHR ''0'' @ ds
         else let e = n - 1;
                  es = (if e < 0 then ''-'' else ''+'') @ int_digits \<bar>e\<bar>
              in if k = 1 then ds @ ''e'' @ es else take 1 ds @ ''.'' @ drop 1 ds @ ''e'' @ es)"

fun js_toString :: "jsnum \<Rightarrow> string" where
  "js_toString NaN = ''NaN''"
| "js_toString PosInf = ''Infinity''"
| "js_toString NegInf = ''-Infinity''"
| "js_toString (Fin x) =
     (if x = 0 then ''0'' else if x < 0 then ''-'' @ pos_to_string (- x) else pos_to_string x)"

fun js_toFixed2 :: "jsnum \<Rightarrow> string" where
  "js_toFixed2 (Fin x) =
     (if 10 ^ 21 \<le> \<bar>x\<bar> then js_toString (Fin x)
      else (if x < 0 then ''-'' else '''') @ cents_str \<lfloor>\<bar>x\<bar> * 100 + 1 / 2\<rfloor>)"
| "js_toFixed2 x = js_toString x"

end
