(* ===== verification/Fetch.thy ===== *)
theory Fetch
  imports JsNumber
begin

text \<open>
  \<open>packages/fetch\<close>: a \<open>fetch\<close> wrapper built from decorators.  A fetch function takes an
  address, options and the state of the network \<open>'w\<close> and returns a response or an error.
  Platform code is an argument: \<open>date_parse\<close> and \<open>now\<close> (\<open>Date.parse\<close>, \<open>Date.now\<close>),
  \<open>usp\<close> (\<open>URLSearchParams\<close> to text) and \<open>platform_fetch\<close>.
\<close>

datatype HttpMethods = GET | POST | PUT | PATCH | HEAD | DELETE

record response =
  res_url :: string
  res_status :: int
  res_statusText :: string
  res_retryAfter :: "string option"
  res_requestId :: "string option"

text \<open>
  Errors.  \<open>FetchHttpIgnoredError\<close> gets the prototype of \<open>FetchTimeoutError\<close>; like it, it is
  not an \<open>instanceof FetchHttpError\<close>.  \<open>AbortError\<close> is either of the two forms the retry loop
  tests for.
\<close>

datatype fetch_error =
    FetchHttpError response string "HttpMethods option"
  | FetchTimeoutError
  | FetchHttpIgnoredError string
  | AbortError
  | PlainError string string

definition http_error :: "response \<Rightarrow> HttpMethods option \<Rightarrow> fetch_error" where
  "http_error r m =
     FetchHttpError r (if res_statusText r \<noteq> [] then res_statusText r
                       else js_toString (Fin (of_int (res_status r)))) m"

record http_error_json =
  he_url :: string
  he_status :: int
  he_statusText :: string
  he_method :: "HttpMethods option"
  he_requestId :: "string option"

fun http_error_toJSON :: "fetch_error \<Rightarrow> http_error_json option" where
  "http_error_toJSON (FetchHttpError r msg m) =
     Some \<lparr>he_url = res_url r, he_status = res_status r, he_statusText = res_statusText r,
           he_method = m, he_requestId = res_requestId r\<rparr>"
| "http_error_toJSON _ = None"

datatype status_filter = StatusFn "int \<Rightarrow> bool" | StatusList "int list"

record retry_options =
  ro_limit :: "int option"
  ro_methods :: "HttpMethods list option"
  ro_statuses :: "status_filter option"
  ro_maxTimeout :: "nat option"
  ro_delay :: "(nat \<Rightarrow> jsnum) option"

record 'd fetch_options =
  fo_method :: "HttpMethods option"
  fo_headers :: "(string \<times> string) list option"
  fo_mode :: "string option"
  fo_credentials :: "string option"
  fo_searchParams :: "'d option"
  fo_body :: "'d option"
  fo_signal :: "nat option"
  fo_errorByStatus :: "(int \<Rightarrow> bool) option"
  fo_retry :: "retry_options option"

type_synonym ('d, 'w) fetch_fn = "string \<Rightarrow> 'd fetch_options \<Rightarrow> 'w \<Rightarrow> (fetch_error + response) \<times> 'w"

section \<open>The retry decorator: delays\<close>

abbreviation MAX_RETRIES :: nat where "MAX_RETRIES \<equiv> 5"

definition exponentialDelay :: "nat \<Rightarrow> jsnum" where
  "exponentialDelay sz = to_double (2 powi (int sz - 1) * 1000 * (1 / 2))"

text \<open>\<open>x || -1\<close> on numbers.\<close>

definition num_or_neg1 :: "jsnum \<Rightarrow> jsnum" where
  "num_or_neg1 x = (if x = NaN \<or> x = Fin 0 then Fin (-1) else x)"

definition getDelayFromHeader :: "(string \<Rightarrow> jsnum) \<Rightarrow> jsnum \<Rightarrow> string \<Rightarrow> jsnum" where
  "getDelayFromHeader date_parse now header =
     (let delay = js_Number header
      in if delay = NaN then num_or_neg1 (js_sub (date_parse header) now)
         else js_mul delay (Fin 1000))"

definition getDelay ::
  "(string \<Rightarrow> jsnum) \<Rightarrow> jsnum \<Rightarrow> retry_options \<Rightarrow> HttpMethods option \<Rightarrow> fetch_error \<Rightarrow> nat \<Rightarrow> jsnum" where
  "getDelay date_parse now opts verb err retry =
     (let limit = (case ro_limit opts of None \<Rightarrow> 0 | Some l \<Rightarrow> l);
          by_fn = (case ro_delay opts of Some f \<Rightarrow> f retry | None \<Rightarrow> exponentialDelay retry)
      in if limit < int retry \<or> MAX_RETRIES < retry then Fin (-1)
         else case err of
                FetchHttpError r msg m \<Rightarrow>
                  if (case ro_statuses opts of
                        None \<Rightarrow> False
                      | Some (StatusFn f) \<Rightarrow> \<not> f (res_status r)
                      | Some (StatusList l) \<Rightarrow> res_status r \<notin> set l) then Fin (-1)
                  else if (case ro_methods opts of
                             None \<Rightarrow> False
                           | Some ms \<Rightarrow> (case verb of None \<Rightarrow> True | Some x \<Rightarrow> x \<notin> set ms)) then Fin (-1)
                  else if truthy (res_retryAfter r)
                       then getDelayFromHeader date_parse now (the (res_retryAfter r))
                  else by_fn
              | _ \<Rightarrow> by_fn)"

fun is_negative :: "jsnum \<Rightarrow> bool" where
  "is_negative (Fin x) = (x < 0)"
| "is_negative NegInf = True"
| "is_negative _ = False"

fun is_abort :: "fetch_error \<Rightarrow> bool" where
  "is_abort AbortError = True"
| "is_abort (PlainError n m) = (m = ''Abort: AbortError'')"
| "is_abort _ = False"

lemma getDelay_over:
  "MAX_RETRIES < retry \<Longrightarrow> is_negative (getDelay date_parse now opts verb err retry)"
  by (simp add: getDelay_def)

lemma getDelay_limit:
  "\<not> is_negative (getDelay date_parse now opts verb err retry) \<Longrightarrow>
     retry \<le> MAX_RETRIES \<and> int retry \<le> (case ro_limit opts of None \<Rightarrow> 0 | Some l \<Rightarrow> l)"
  by (auto simp: getDelay_def Let_def split: if_splits)

section \<open>The retry loop\<close>

text \<open>
  \<open>retryFn\<close> calls \<open>fetchFn\<close> again until it succeeds, the error is an abort, or the delay is
  negative.  The waits between the calls are recorded in the second component of the result; the
  clock \<open>now\<close> reads the state of the network.  The recursion stops because \<open>getDelay\<close> is negative
  once \<open>retry\<close> is past \<open>MAX_RETRIES\<close>.
\<close>

function retryFn ::
  "(string \<Rightarrow> jsnum) \<Rightarrow> ('w \<Rightarrow> jsnum) \<Rightarrow> retry_options \<Rightarrow> HttpMethods option
    \<Rightarrow> ('w \<Rightarrow> (fetch_error + response) \<times> 'w) \<Rightarrow> nat \<Rightarrow> 'w
    \<Rightarrow> (fetch_error + response) \<times> jsnum list \<times> 'w" where
  "retryFn date_parse now opts verb fetchFn retry w =
     (case fetchFn w of
        (Inr r, w') \<Rightarrow> (Inr r, [], w')
      | (Inl err, w') \<Rightarrow>
          if is_abort err then (Inl err, [], w')
          else let ms = getDelay date_parse (now w') opts verb err retry
               in if is_negative ms then (Inl err, [], w')
                  else let (res, waits, w'') =
                             retryFn date_parse now opts verb fetchFn (Suc retry) w'
                       in (res, ms # waits, w''))"
  by pat_completeness auto
termination
  by (relation "measure (\<lambda>(d, n, opts, m, f, retry, w). 6 - retry)")
    (auto dest: getDelay_limit)

declare retryFn.simps [simp del]

text \<open>\<open>getTimeoutFetchFn\<close> gives the function that one attempt runs (see \<open>TimeoutFetch\<close>).\<close>

definition retryDecorator ::
  "(string \<Rightarrow> jsnum) \<Rightarrow> ('w \<Rightarrow> jsnum)
    \<Rightarrow> (('d, 'w) fetch_fn \<Rightarrow> string \<Rightarrow> 'd fetch_options \<Rightarrow> 'w \<Rightarrow> (fetch_error + response) \<times> 'w)
    \<Rightarrow> ('d, 'w) fetch_fn \<Rightarrow> ('d, 'w) fetch_fn" where
  "retryDecorator date_parse now timeoutFetch fn url options w =
     (case fo_retry options of
        None \<Rightarrow> fn url options w
      | Some ro \<Rightarrow>
          (let (res, waits, w') =
                 retryFn date_parse now ro (fo_method options) (timeoutFetch fn url options) 1 w
           in (res, w')))"

section \<open>The other decorators and the base request\<close>

definition errorByStatusDecorator :: "('d, 'w) fetch_fn \<Rightarrow> ('d, 'w) fetch_fn" where
  "errorByStatusDecorator fn url options w =
     (case fn url options w of
        (Inl e, w') \<Rightarrow> (Inl e, w')
      | (Inr res, w') \<Rightarrow>
          (case fo_errorByStatus options of
             Some f \<Rightarrow> if f (res_status res) then (Inl (http_error res (fo_method options)), w')
                       else (Inr res, w')
           | None \<Rightarrow> (Inr res, w')))"

definition opt_over :: "'a option \<Rightarrow> 'a option \<Rightarrow> 'a option" where
  "opt_over d x = (case x of None \<Rightarrow> d | Some v \<Rightarrow> Some v)"

text \<open>\<open>{ ...defaults, ...options }\<close>.\<close>

definition merge_options :: "'d fetch_options \<Rightarrow> 'd fetch_options \<Rightarrow> 'd fetch_options" where
  "merge_options d x =
     \<lparr>fo_method = opt_over (fo_method d) (fo_method x), fo_headers = opt_over (fo_headers d) (fo_headers x),
      fo_mode = opt_over (fo_mode d) (fo_mode x), fo_credentials = opt_over (fo_credentials d) (fo_credentials x),
      fo_searchParams = opt_over (fo_searchParams d) (fo_searchParams x), fo_body = opt_over (fo_body d) (fo_body x),
      fo_signal = opt_over (fo_signal d) (fo_signal x),
      fo_errorByStatus = opt_over (fo_errorByStatus d) (fo_errorByStatus x),
      fo_retry = opt_over (fo_retry d) (fo_retry x)\<rparr>"

definition applyDecorators ::
  "('d, 'w) fetch_fn \<Rightarrow> (('d, 'w) fetch_fn \<Rightarrow> ('d, 'w) fetch_fn) list \<Rightarrow> ('d, 'w) fetch_fn" where
  "applyDecorators fn decorators = foldl (\<lambda>f dec. dec f) fn decorators"

definition createInstance ::
  "'d fetch_options \<Rightarrow> (('d, 'w) fetch_fn \<Rightarrow> ('d, 'w) fetch_fn) list \<Rightarrow> ('d, 'w) fetch_fn \<Rightarrow> ('d, 'w) fetch_fn" where
  "createInstance defaults decorators baseFetch url options =
     applyDecorators baseFetch decorators url (merge_options defaults options)"

text \<open>
  \<open>prepareUrl\<close>: the query of the address is replaced, the fragment kept.  \<open>usp\<close> never yields a
  line end or a dollar sign, so the replacement text is taken literally; addresses have no line ends.
\<close>

definition prepareUrl :: "('d \<Rightarrow> string) \<Rightarrow> string \<Rightarrow> 'd option \<Rightarrow> string" where
  "prepareUrl usp url params =
     (case params of
        None \<Rightarrow> url
      | Some d \<Rightarrow> takeWhile (\<lambda>c. c \<noteq> CHR ''?'' \<and> c \<noteq> CHR ''#'') url @ CHR ''?'' # usp d
                   @ dropWhile (\<lambda>c. c \<noteq> CHR ''#'') url)"

fun contains_text :: "string \<Rightarrow> string \<Rightarrow> bool" where
  "contains_text pat [] = (pat = [])"
| "contains_text pat (c # s) = (take (length pat) (c # s) = pat \<or> contains_text pat s)"

datatype 'd body = BodyText string | BodyData 'd

definition prepareBody ::
  "('d \<Rightarrow> string) \<Rightarrow> ('d \<Rightarrow> string) \<Rightarrow> ('d \<Rightarrow> bool) \<Rightarrow> 'd option \<Rightarrow> string option \<Rightarrow> 'd body option" where
  "prepareBody usp json_stringify isPlainObject body contentType =
     (case body of
        None \<Rightarrow> None
      | Some b \<Rightarrow>
          if isPlainObject b \<and> contains_text ''application/x-www-form-urlencode'' (js_or contentType [])
          then Some (BodyText (usp b))
          else if isPlainObject b then Some (BodyText (json_stringify b))
          else Some (BodyData b))"

definition createFakeResponse :: "string \<Rightarrow> string \<Rightarrow> string \<Rightarrow> response" where
  "createFakeResponse url err_name err_message =
     \<lparr>res_url = url, res_status = -1,
      res_statusText = (if contains_text ''Error'' err_name then err_name @ '': '' @ err_message else err_message),
      res_retryAfter = None, res_requestId = None\<rparr>"

record 'd platform_request =
  pq_url :: string
  pq_method :: HttpMethods
  pq_headers :: "(string \<times> string) list option"
  pq_body :: "'d body option"
  pq_credentials :: "string option"
  pq_signal :: "nat option"
  pq_mode :: "string option"

text \<open>\<open>requestFn\<close>: a failed platform call becomes a response with status -1.\<close>

definition requestFn ::
  "('d \<Rightarrow> string) \<Rightarrow> ('d \<Rightarrow> string) \<Rightarrow> ('d \<Rightarrow> bool)
    \<Rightarrow> ('d platform_request \<Rightarrow> 'w \<Rightarrow> (string \<times> string + response) \<times> 'w)
    \<Rightarrow> ('d, 'w) fetch_fn" where
  "requestFn usp json_stringify isPlainObject platform_fetch baseUrl options w =
     (let verb = (case fo_method options of None \<Rightarrow> GET | Some m \<Rightarrow> m);
          url = prepareUrl usp baseUrl (fo_searchParams options);
          ctype = (case fo_headers options of None \<Rightarrow> None | Some hs \<Rightarrow> alist_get hs ''content-type'');
          body = prepareBody usp json_stringify isPlainObject (fo_body options) ctype
      in case platform_fetch
                \<lparr>pq_url = url, pq_method = verb, pq_headers = fo_headers options, pq_body = body,
                 pq_credentials = fo_credentials options, pq_signal = fo_signal options,
                 pq_mode = fo_mode options\<rparr> w of
           (Inr r, w') \<Rightarrow> (Inr r, w')
         | (Inl (n, m), w') \<Rightarrow> (Inr (createFakeResponse url n m), w'))"

section \<open>Facts about retrying\<close>

lemma retryFn_waits:
  "length (fst (snd (retryFn date_parse now opts verb fetchFn retry w))) + retry \<le> max retry (Suc MAX_RETRIES)
   \<and> int (length (fst (snd (retryFn date_parse now opts verb fetchFn retry w)))) + int retry
       \<le> max (int retry) ((case ro_limit opts of None \<Rightarrow> 0 | Some l \<Rightarrow> l) + 1)"
proof (induction date_parse now opts verb fetchFn retry w rule: retryFn.induct)
  case (1 date_parse now opts verb fetchFn retry w)
  obtain res w' where f: "fetchFn w = (res, w')" by (cases "fetchFn w")
  show ?case
  proof (cases res)
    case (Inr r)
    then show ?thesis by (subst (1 2) retryFn.simps) (simp add: f)
  next
    case (Inl err)
    let ?ms = "getDelay date_parse (now w') opts verb err retry"
    show ?thesis
    proof (cases "is_abort err \<or> is_negative ?ms")
      case True
      then show ?thesis by (subst (1 2) retryFn.simps) (auto simp: f Inl Let_def)
    next
      case False
      note lim = getDelay_limit [of date_parse "now w'" opts verb err retry]
      obtain r ws w'' where rec: "retryFn date_parse now opts verb fetchFn (Suc retry) w' = (r, ws, w'')"
        by (cases "retryFn date_parse now opts verb fetchFn (Suc retry) w'") auto
      have ih: "length ws + Suc retry \<le> max (Suc retry) (Suc MAX_RETRIES)"
        "int (length ws) + int (Suc retry) \<le> max (int (Suc retry)) ((case ro_limit opts of None \<Rightarrow> 0 | Some l \<Rightarrow> l) + 1)"
        using "1.IH" [OF f [symmetric] Inl] False rec by (auto simp: Let_def)
      have "fst (snd (retryFn date_parse now opts verb fetchFn retry w)) = ?ms # ws"
        using False by (subst retryFn.simps) (simp add: f Inl Let_def rec)
      then show ?thesis using ih lim False by auto
    qed
  qed
qed

lemma retryFn_abort:
  "fetchFn w = (Inl e, w') \<Longrightarrow> is_abort e \<Longrightarrow>
     retryFn date_parse now opts verb fetchFn retry w = (Inl e, [], w')"
  by (subst retryFn.simps) simp

lemma retryFn_ok:
  "fetchFn w = (Inr r, w') \<Longrightarrow> retryFn date_parse now opts verb fetchFn retry w = (Inr r, [], w')"
  by (subst retryFn.simps) simp

lemma retryFn_again:
  assumes "fetchFn w = (Inl e, w')" "\<not> is_abort e"
    "\<not> is_negative (getDelay date_parse (now w') opts verb e retry)"
  shows "fst (retryFn date_parse now opts verb fetchFn retry w)
       = fst (retryFn date_parse now opts verb fetchFn (Suc retry) w')"
  using assms by (subst retryFn.simps) (simp add: Let_def split: prod.splits)

lemma applyDecorators_snoc: "applyDecorators fn (ds @ [d]) = d (applyDecorators fn ds)"
  by (simp add: applyDecorators_def)

text \<open>The results of the first \<open>n\<close> attempts, in order, if each follows the one before.\<close>

fun attempts :: "('w \<Rightarrow> 'r \<times> 'w) \<Rightarrow> nat \<Rightarrow> 'w \<Rightarrow> 'r list" where
  "attempts fetchFn 0 w = []"
| "attempts fetchFn (Suc n) w = (case fetchFn w of (r, w') \<Rightarrow> r # attempts fetchFn n w')"

lemma length_attempts [simp]: "length (attempts fetchFn n w) = n"
  by (induction n arbitrary: w) (simp_all split: prod.split)

text \<open>A call is a row of attempts with a pause before each but the first: its result is that of the last one,
  and every one but the last has failed, and not by an abort.\<close>

lemma retryFn_attempts:
  "\<exists>rs. attempts fetchFn (Suc (length (fst (snd (retryFn date_parse now opts verb fetchFn retry w))))) w
          = rs @ [fst (retryFn date_parse now opts verb fetchFn retry w)]
      \<and> (\<forall>r \<in> set rs. \<exists>e. r = Inl e \<and> \<not> is_abort e)"
proof (induction date_parse now opts verb fetchFn retry w rule: retryFn.induct)
  case (1 date_parse now opts verb fetchFn retry w)
  obtain res w' where f: "fetchFn w = (res, w')" by (cases "fetchFn w")
  show ?case
  proof (cases res)
    case (Inr r)
    then show ?thesis by (subst (1 2) retryFn.simps) (simp add: f)
  next
    case (Inl err)
    let ?ms = "getDelay date_parse (now w') opts verb err retry"
    show ?thesis
    proof (cases "is_abort err \<or> is_negative ?ms")
      case True
      then show ?thesis by (subst (1 2) retryFn.simps) (auto simp: f Inl Let_def)
    next
      case False
      obtain r ws w'' where rec: "retryFn date_parse now opts verb fetchFn (Suc retry) w' = (r, ws, w'')"
        by (cases "retryFn date_parse now opts verb fetchFn (Suc retry) w'") auto
      have "retryFn date_parse now opts verb fetchFn retry w = (r, ?ms # ws, w'')"
        using False by (subst retryFn.simps) (simp add: f Inl Let_def rec)
      moreover obtain rs where "attempts fetchFn (Suc (length ws)) w' = rs @ [r]"
        "\<forall>r \<in> set rs. \<exists>e. r = Inl e \<and> \<not> is_abort e"
        using "1.IH" [OF f [symmetric] Inl] False rec by (auto simp: Let_def)
      ultimately show ?thesis
        using False by (intro exI [of _ "Inl err # rs"]) (simp add: f Inl)
    qed
  qed
qed

text \<open>
  C38: whatever the network answers, one call makes at most \<open>MAX_RETRIES\<close> repetitions and at most
  as many as the option \<open>limit\<close> allows.  Its result is that of its last attempt, and every attempt that
  was repeated had failed, and not because it was aborted: an abort, at whatever attempt, is the last one
  and the result.
\<close>

theorem retries_bounded:
  "length (fst (snd (retryFn date_parse now opts verb fetchFn 1 w))) \<le> MAX_RETRIES
   \<and> int (length (fst (snd (retryFn date_parse now opts verb fetchFn 1 w))))
       \<le> max 0 (case ro_limit opts of None \<Rightarrow> 0 | Some l \<Rightarrow> l)
   \<and> (\<exists>rs. attempts fetchFn (Suc (length (fst (snd (retryFn date_parse now opts verb fetchFn 1 w))))) w
              = rs @ [fst (retryFn date_parse now opts verb fetchFn 1 w)]
         \<and> (\<forall>r \<in> set rs. \<exists>e. r = Inl e \<and> \<not> is_abort e))"
  using retryFn_waits [of date_parse now opts verb fetchFn 1 w]
    retryFn_attempts [of fetchFn date_parse now opts verb 1 w] by auto

text \<open>A network that fails once and then aborts: there is at most one repetition, whatever the limit.\<close>

theorem retries_bounded_witness:
  "length (fst (snd (retryFn (\<lambda>_. NaN) (\<lambda>_. Fin 0) \<lparr>ro_limit = Some 3, ro_methods = None, ro_statuses = None,
      ro_maxTimeout = None, ro_delay = None\<rparr> (Some GET)
      (\<lambda>w :: nat. (if w = 0 then Inl (PlainError ''Error'' ''failed'') else Inl AbortError, Suc w)) 1 0))) \<le> 1"
proof -
  let ?net = "\<lambda>w :: nat. (if w = 0 then Inl (PlainError ''Error'' ''failed'') else Inl AbortError, Suc w) :: (fetch_error + response) \<times> nat"
  let ?opts = "\<lparr>ro_limit = Some 3, ro_methods = None, ro_statuses = None, ro_maxTimeout = None, ro_delay = None\<rparr>"
  let ?call = "retryFn (\<lambda>_. NaN) (\<lambda>_. Fin 0) ?opts (Some GET) ?net 1 0"
  obtain rs r where rs: "attempts ?net (Suc (length (fst (snd ?call)))) 0 = rs @ [r]"
    "\<forall>r \<in> set rs. \<exists>e. r = Inl e \<and> \<not> is_abort e"
    using retries_bounded [of "\<lambda>_. NaN" "\<lambda>_. Fin 0" ?opts "Some GET" ?net 0] by blast
  have two: "\<exists>k. n = Suc (Suc k)" if "\<not> n \<le> 1" for n :: nat using that by presburger
  show ?thesis
  proof (rule ccontr)
    assume "\<not> length (fst (snd ?call)) \<le> 1"
    from two [OF this] obtain k where "length (fst (snd ?call)) = Suc (Suc k)" ..
    with rs(1) have "attempts ?net (Suc (Suc (Suc k))) 0 = rs @ [r]" by (simp only:)
    with rs(2) show False by (auto simp: Cons_eq_append_conv)
  qed
qed

end
