(* ===== verification/TimeoutFetch.thy ===== *)
theory TimeoutFetch
  imports Fetch
begin

text \<open>
  \<open>getTimeoutFetchFn\<close> of \<open>packages/fetch/src/decorators/retry.ts\<close>: one attempt of a request that
  is limited in time and can be aborted from outside.  Four things can happen to it, in any order:
  the timer fires, the signal aborts, the inner request is answered or fails.  The state is the
  flag \<open>interrupted\<close>, the timer, the subscription to the signal, the outcome of the promise, and
  the rejections nobody handles.
\<close>

record attempt =
  interrupted :: bool
  timer_on :: bool
  listening :: bool
  in_flight :: bool
  settled :: "(fetch_error + response) option"
  unhandled :: "fetch_error list"

datatype attempt_event = TimerFires | SignalAborts | FetchResolves response | FetchRejects fetch_error

definition attempt_start :: "bool \<Rightarrow> attempt" where
  "attempt_start has_signal =
     \<lparr>interrupted = False, timer_on = True, listening = has_signal, in_flight = True,
      settled = None, unhandled = []\<rparr>"

text \<open>\<open>resolve\<close> and \<open>reject\<close> of a promise: only the first call counts.\<close>

definition settle :: "fetch_error + response \<Rightarrow> attempt \<Rightarrow> attempt" where
  "settle r a = (case settled a of None \<Rightarrow> a\<lparr>settled := Some r\<rparr> | Some _ \<Rightarrow> a)"

definition abortFetch :: "attempt \<Rightarrow> attempt" where
  "abortFetch a =
     (let a' = a\<lparr>timer_on := False\<rparr>
      in if \<not> interrupted a' then settle (Inl AbortError) (a'\<lparr>interrupted := True\<rparr>) else a')"

definition timeoutFetch :: "attempt \<Rightarrow> attempt" where
  "timeoutFetch a =
     (let a' = a\<lparr>timer_on := False\<rparr>
      in if \<not> interrupted a' then settle (Inl FetchTimeoutError) (a'\<lparr>interrupted := True\<rparr>) else a')"

definition fetch_resolved :: "response \<Rightarrow> attempt \<Rightarrow> attempt" where
  "fetch_resolved r a =
     (let a' = a\<lparr>timer_on := False, in_flight := False, listening := False\<rparr>
      in if interrupted a' then a' else settle (Inr r) a')"

definition ignored_text :: "fetch_error \<Rightarrow> string" where
  "ignored_text e =
     (case e of
        FetchHttpError r m x \<Rightarrow> ''FetchHttpIgnoredError: \"FetchError - '' @ m @ ''\"''
      | FetchTimeoutError \<Rightarrow> ''FetchHttpIgnoredError: \"Error - FetchTimeoutError\"''
      | FetchHttpIgnoredError m \<Rightarrow> ''FetchHttpIgnoredError: \"Error - '' @ m @ ''\"''
      | AbortError \<Rightarrow> ''FetchHttpIgnoredError: \"AbortError - Abort\"''
      | PlainError n m \<Rightarrow> ''FetchHttpIgnoredError: \"'' @ n @ '' - '' @ m @ ''\"'')"

definition fetch_rejected :: "fetch_error \<Rightarrow> attempt \<Rightarrow> attempt" where
  "fetch_rejected e a =
     (let a' = a\<lparr>timer_on := False, in_flight := False, listening := False\<rparr>
      in if interrupted a' then a'\<lparr>unhandled := unhandled a' @ [FetchHttpIgnoredError (ignored_text e)]\<rparr>
         else settle (Inl e) a')"

fun attempt_step :: "attempt_event \<Rightarrow> attempt \<Rightarrow> attempt" where
  "attempt_step TimerFires a = (if timer_on a then timeoutFetch a else a)"
| "attempt_step SignalAborts a = (if listening a then abortFetch a else a)"
| "attempt_step (FetchResolves r) a = (if in_flight a then fetch_resolved r a else a)"
| "attempt_step (FetchRejects e) a = (if in_flight a then fetch_rejected e a else a)"

definition attempt_run :: "attempt_event list \<Rightarrow> attempt \<Rightarrow> attempt" where
  "attempt_run es a = fold attempt_step es a"

text \<open>What the race should be: the first event that concerns the attempt decides.\<close>

fun verdict :: "bool \<Rightarrow> attempt_event list \<Rightarrow> (fetch_error + response) option" where
  "verdict sig [] = None"
| "verdict sig (TimerFires # es) = Some (Inl FetchTimeoutError)"
| "verdict sig (SignalAborts # es) = (if sig then Some (Inl AbortError) else verdict sig es)"
| "verdict sig (FetchResolves r # es) = Some (Inr r)"
| "verdict sig (FetchRejects e # es) = Some (Inl e)"

lemmas attempt_defs = timeoutFetch_def abortFetch_def fetch_resolved_def fetch_rejected_def settle_def

lemma settled_stays: "settled a = Some x \<Longrightarrow> settled (attempt_run es a) = Some x"
proof (induction es arbitrary: a)
  case (Cons e es)
  have "settled (attempt_step e a) = Some x"
    using Cons.prems by (cases e) (simp_all add: attempt_defs Let_def)
  with Cons.IH show ?case by (simp add: attempt_run_def)
qed (simp add: attempt_run_def)

text \<open>An attempt that is settled holds no timer.\<close>

definition quiet_after :: "attempt \<Rightarrow> bool" where
  "quiet_after a \<longleftrightarrow> (settled a \<noteq> None \<longrightarrow> \<not> timer_on a) \<and> (\<not> in_flight a \<longrightarrow> \<not> listening a)"

lemma quiet_step: "quiet_after a \<Longrightarrow> quiet_after (attempt_step e a)"
  by (cases e) (auto simp: quiet_after_def attempt_defs Let_def split: option.splits)

lemma quiet_run: "quiet_after a \<Longrightarrow> quiet_after (attempt_run es a)"
  by (induction es arbitrary: a) (simp_all add: attempt_run_def quiet_step)

lemma run_verdict: "settled (attempt_run es (attempt_start sig)) = verdict sig es"
proof (induction es)
  case (Cons e es)
  have run: "attempt_run (e # es) a = attempt_run es (attempt_step e a)" for a
    by (simp add: attempt_run_def)
  show ?case
  proof (cases "e = SignalAborts \<and> \<not> sig")
    case True
    then have "attempt_step e (attempt_start sig) = attempt_start sig" by (simp add: attempt_start_def)
    then have "settled (attempt_run (e # es) (attempt_start sig)) = verdict sig es"
      by (simp only: run Cons.IH)
    with True show ?thesis by simp
  next
    case False
    then have "settled (attempt_step e (attempt_start sig)) = verdict sig (e # es)"
      by (cases e) (simp_all add: attempt_start_def attempt_defs Let_def)
    moreover have "verdict sig (e # es) \<noteq> None" using False by (cases e) auto
    ultimately show ?thesis using settled_stays by (fastforce simp: run)
  qed
qed (simp add: attempt_run_def attempt_start_def)

text \<open>
  C37: in whatever order the timer, the abort signal and the reply come, the promise of an attempt
  gets the outcome of the first of them and keeps it, its timer is then cleared, and once the reply
  is there the attempt no longer listens to the signal.
\<close>

theorem attempt_race:
  "settled (attempt_run es (attempt_start sig)) = verdict sig es
   \<and> quiet_after (attempt_run es (attempt_start sig))"
proof
  show "quiet_after (attempt_run es (attempt_start sig))"
    by (rule quiet_run) (simp add: quiet_after_def attempt_start_def)
qed (rule run_verdict)

text \<open>
  A request that fails after its attempt timed out leaves a rejection that nobody handles.
\<close>

theorem late_failure_unhandled:
  "unhandled (attempt_run [TimerFires, FetchRejects e] (attempt_start sig))
     = [FetchHttpIgnoredError (ignored_text e)]"
  by (simp add: attempt_run_def attempt_start_def attempt_defs Let_def)

end
