(* ===== verification/Uri.thy ===== *)
theory Uri
  imports Prelude
begin

text \<open>
  \<open>encodeURIComponent\<close> and \<open>decodeURIComponent\<close> of the JavaScript library on UTF-8 texts.
  Decoding fails (\<open>URIError\<close>, here \<open>None\<close>) on a percent sign without two hexadecimal digits
  and on escaped bytes that are not a well-formed UTF-8 sequence.
\<close>

definition byte :: "char \<Rightarrow> int" where
  "byte c = of_char c"

definition uri_unreserved :: "char \<Rightarrow> bool" where
  "uri_unreserved c =
     (let b = byte c
      in (65 \<le> b \<and> b \<le> 90) \<or> (97 \<le> b \<and> b \<le> 122) \<or> (48 \<le> b \<and> b \<le> 57)
         \<or> c \<in> set ''-_.!~*'' \<or> b = 39 \<or> b = 40 \<or> b = 41)"

definition hex_char :: "int \<Rightarrow> char" where
  "hex_char n = char_of (if n < 10 then n + 48 else n + 55)"

definition hex_val :: "char \<Rightarrow> int option" where
  "hex_val c = (let b = byte c
     in if 48 \<le> b \<and> b \<le> 57 then Some (b - 48)
        else if 65 \<le> b \<and> b \<le> 70 then Some (b - 55)
        else if 97 \<le> b \<and> b \<le> 102 then Some (b - 87) else None)"

definition enc_char :: "char \<Rightarrow> string" where
  "enc_char c = (if uri_unreserved c then [c]
                 else [CHR ''%'', hex_char (byte c div 16), hex_char (byte c mod 16)])"

definition encodeURIComponent :: "string \<Rightarrow> string" where
  "encodeURIComponent s = concat (map enc_char s)"

text \<open>Length of the sequence a lead byte starts (0: not a lead byte), and well-formedness.\<close>

definition utf8_len :: "int \<Rightarrow> nat" where
  "utf8_len b = (if b < 128 then 1 else if 194 \<le> b \<and> b \<le> 223 then 2
                 else if 224 \<le> b \<and> b \<le> 239 then 3 else if 240 \<le> b \<and> b \<le> 244 then 4 else 0)"

definition utf8_ok :: "int list \<Rightarrow> bool" where
  "utf8_ok bs =
     (bs \<noteq> [] \<and> length bs = utf8_len (hd bs)
      \<and> list_all (\<lambda>b. 128 \<le> b \<and> b \<le> 191) (tl bs)
      \<and> (hd bs = 224 \<longrightarrow> 160 \<le> hd (tl bs)) \<and> (hd bs = 237 \<longrightarrow> hd (tl bs) \<le> 159)
      \<and> (hd bs = 240 \<longrightarrow> 144 \<le> hd (tl bs)) \<and> (hd bs = 244 \<longrightarrow> hd (tl bs) \<le> 143))"

fun read_pct :: "string \<Rightarrow> (int \<times> string) option" where
  "read_pct (p # a # b # r) =
     (if p \<noteq> CHR ''%'' then None
      else case (hex_val a, hex_val b) of
             (Some x, Some y) \<Rightarrow> Some (16 * x + y, r) | _ \<Rightarrow> None)"
| "read_pct _ = None"

fun read_pcts :: "nat \<Rightarrow> string \<Rightarrow> (int list \<times> string) option" where
  "read_pcts 0 s = Some ([], s)"
| "read_pcts (Suc n) s =
     (case read_pct s of
        None \<Rightarrow> None
      | Some (b, r) \<Rightarrow> map_option (\<lambda>(bs, r'). (b # bs, r')) (read_pcts n r))"

lemma read_pct_len: "read_pct s = Some (b, r) \<Longrightarrow> length r < length s"
  by (induction s rule: read_pct.induct) (auto split: if_splits option.splits)

lemma read_pcts_len: "read_pcts n s = Some (bs, r) \<Longrightarrow> length r \<le> length s"
  by (induction n arbitrary: s bs) (force split: option.splits dest: read_pct_len)+

function decodeURIComponent :: "string \<Rightarrow> string option" where
  "decodeURIComponent [] = Some []"
| "decodeURIComponent (c # s) =
     (if c \<noteq> CHR ''%'' then map_option (Cons c) (decodeURIComponent s)
      else case read_pct (c # s) of
             None \<Rightarrow> None
           | Some (b, r) \<Rightarrow>
               (case read_pcts (utf8_len b - 1) r of
                  None \<Rightarrow> None
                | Some (bs, r') \<Rightarrow>
                    if utf8_ok (b # bs)
                    then map_option (\<lambda>t. map char_of (b # bs) @ t) (decodeURIComponent r')
                    else None))"
  by pat_completeness auto
termination
proof (relation "measure length", goal_cases)
  case (3 c s p b r q bs r')
  then have "length r < length (c # s)" "length r' \<le> length r"
    using read_pct_len read_pcts_len by (metis prod.collapse prod.inject)+
  then show ?case by simp
qed auto

declare decodeURIComponent.simps(2) [simp del]

text \<open>A text is well formed when it is cut into well-formed sequences.\<close>

definition valid_utf8 :: "string \<Rightarrow> bool" where
  "valid_utf8 s \<longleftrightarrow> (\<exists>bss. s = concat bss \<and> (\<forall>bs \<in> set bss. utf8_ok (map byte bs)))"

lemma byte_range: "0 \<le> byte c" "byte c < 256"
proof -
  have "byte c = int (of_char c)" by (simp add: byte_def of_nat_of_char)
  then show "0 \<le> byte c" "byte c < 256" by simp_all
qed

lemma char_of_byte [simp]: "char_of (byte c) = c"
  by (simp add: byte_def)

lemma byte_char_of: "byte (char_of (n :: int)) = n mod 256"
  unfolding byte_def by (rule of_char_of)

lemma hex_val_char: "0 \<le> n \<Longrightarrow> n < 16 \<Longrightarrow> hex_val (hex_char n) = Some n"
  by (auto simp: hex_val_def hex_char_def byte_char_of Let_def)

lemma read_pct_enc:
  "\<not> uri_unreserved c \<Longrightarrow> read_pct (enc_char c @ r) = Some (byte c, r)"
  using byte_range [of c] by (simp add: enc_char_def hex_val_char)

lemma high_reserved: "128 \<le> byte c \<Longrightarrow> \<not> uri_unreserved c"
  by (auto simp: uri_unreserved_def byte_def Let_def)

lemma read_pcts_enc:
  "list_all (\<lambda>c. 128 \<le> byte c) cs \<Longrightarrow>
     read_pcts (length cs) (concat (map enc_char cs) @ r) = Some (map byte cs, r)"
  by (induction cs) (simp_all add: read_pct_enc high_reserved)

lemma decode_plain:
  "uri_unreserved c \<Longrightarrow> decodeURIComponent (c # s) = map_option (Cons c) (decodeURIComponent s)"
  by (auto simp: decodeURIComponent.simps(2) uri_unreserved_def byte_def Let_def)

lemma decode_sequence:
  assumes "utf8_ok (map byte cs)"
  shows "decodeURIComponent (concat (map enc_char cs) @ r) = map_option (append cs) (decodeURIComponent r)"
proof -
  obtain c ds where cs: "cs = c # ds" using assms by (cases cs) (auto simp: utf8_ok_def)
  have len: "length ds = utf8_len (byte c) - 1"
    using assms by (auto simp: cs utf8_ok_def)
  show ?thesis
  proof (cases "uri_unreserved c")
    case True
    then have "byte c < 128" using high_reserved by force
    then have "ds = []" using len by (simp add: utf8_len_def)
    with True show ?thesis
      by (simp add: cs enc_char_def decode_plain) (simp add: append_Cons [abs_def])
  next
    case False
    have hi: "list_all (\<lambda>c. 128 \<le> byte c) ds"
      using assms by (auto simp: cs utf8_ok_def list_all_iff)
    have e: "enc_char c @ concat (map enc_char ds) @ r
        = CHR ''%'' # hex_char (byte c div 16) # hex_char (byte c mod 16) # concat (map enc_char ds) @ r"
      using False by (simp add: enc_char_def)
    have "read_pct (enc_char c @ concat (map enc_char ds) @ r)
        = Some (byte c, concat (map enc_char ds) @ r)"
      using False by (rule read_pct_enc)
    moreover have "read_pcts (utf8_len (byte c) - 1) (concat (map enc_char ds) @ r) = Some (map byte ds, r)"
      using read_pcts_enc [OF hi] by (simp only: len)
    moreover have "utf8_ok (byte c # map byte ds)" using assms by (simp add: cs)
    ultimately have "decodeURIComponent (enc_char c @ concat (map enc_char ds) @ r)
        = map_option (append (c # ds)) (decodeURIComponent r)"
      by (cases "decodeURIComponent r") (simp_all add: e decodeURIComponent.simps(2) comp_def)
    then show ?thesis by (simp add: cs)
  qed
qed

theorem decode_encode:
  assumes "valid_utf8 s" shows "decodeURIComponent (encodeURIComponent s) = Some s"
proof -
  obtain bss where s: "s = concat bss" and ok: "\<forall>bs \<in> set bss. utf8_ok (map byte bs)"
    using assms by (auto simp: valid_utf8_def)
  have "decodeURIComponent (encodeURIComponent (concat bss)) = Some (concat bss)"
    using ok
  proof (induction bss)
    case (Cons bs bss)
    then show ?case
      using decode_sequence [of bs "encodeURIComponent (concat bss)"]
      by (simp add: encodeURIComponent_def)
  qed (simp add: encodeURIComponent_def)
  with s show ?thesis by simp
qed

text \<open>The characters an encoded text is made of never delimit anything in a query string.\<close>

lemma encode_chars:
  "c \<in> set (encodeURIComponent s) \<Longrightarrow> c \<noteq> CHR ''&'' \<and> c \<noteq> CHR ''='' \<and> c \<noteq> CHR ''#'' \<and> c \<noteq> CHR ''?''"
proof -
  assume "c \<in> set (encodeURIComponent s)"
  then obtain d where d: "c \<in> set (enc_char d)" by (auto simp: encodeURIComponent_def)
  have hex: "0 \<le> n \<Longrightarrow> n < 16 \<Longrightarrow> uri_unreserved (hex_char n)" for n
    by (auto simp: uri_unreserved_def hex_char_def byte_char_of Let_def)
  have "uri_unreserved c \<or> c = CHR ''%''"
    using d hex [of "byte d div 16"] hex [of "byte d mod 16"] byte_range [of d]
    by (auto simp: enc_char_def split: if_splits)
  then show ?thesis by (auto simp: uri_unreserved_def byte_def Let_def)
qed

lemma ascii_valid: "list_all (\<lambda>c. byte c < 128) s \<Longrightarrow> valid_utf8 s"
  unfolding valid_utf8_def
  by (rule exI [of _ "map (\<lambda>c. [c]) s"]) (auto simp: utf8_ok_def utf8_len_def list_all_iff)

lemma valid_append: "valid_utf8 s \<Longrightarrow> valid_utf8 t \<Longrightarrow> valid_utf8 (s @ t)"
  unfolding valid_utf8_def
proof (elim exE conjE)
  fix as bs
  assume "s = concat as" "\<forall>x \<in> set as. utf8_ok (map byte x)" "t = concat bs" "\<forall>x \<in> set bs. utf8_ok (map byte x)"
  then show "\<exists>bss. s @ t = concat bss \<and> (\<forall>x \<in> set bss. utf8_ok (map byte x))"
    by (intro exI [of _ "as @ bs"]) auto
qed

text \<open>
  \<open>decodeURIComponent\<close> undoes \<open>encodeURIComponent\<close> on every well-formed text.
\<close>

theorem uri_round_trip:
  assumes "valid_utf8 s" shows "decodeURIComponent (encodeURIComponent s) = Some s"
  by (rule decode_encode [OF assms])

theorem uri_round_trip_witness: "decodeURIComponent (encodeURIComponent ''a&b=100%'') = Some ''a&b=100%''"
  by (rule uri_round_trip) (simp add: ascii_valid byte_def)

end
