(* ===== verification/Url.thy ===== *)
theory Url
  imports Uri "HOL-Library.Multiset"
begin

text \<open>
  \<open>packages/utils/url/index.ts\<close>.  A dictionary of search parameters is an association list
  from keys to values, where the value \<open>None\<close> is \<open>undefined\<close>.  \<open>Object.entries\<close> lists the
  keys that are array indices first, in ascending order (\<open>own_entries\<close>).  A malformed escape makes
  \<open>decodeURIComponent\<close> throw, so the functions that read a query return an option.

  The platform's \<open>new URL(url).origin\<close> is the argument \<open>url_origin\<close> of \<open>getOrigin\<close> (\<open>None\<close> when
  the constructor throws).
\<close>

type_synonym search_params = "(string \<times> string option) list"

record url_parts =
  poorUrl :: string
  search :: string
  hash :: string

fun split_on :: "char \<Rightarrow> string \<Rightarrow> string list" where
  "split_on d [] = [[]]"
| "split_on d (c # s) =
     (if c = d then [] # split_on d s
      else (case split_on d s of [] \<Rightarrow> [[c]] | x # xs \<Rightarrow> (c # x) # xs))"

fun join_with :: "char \<Rightarrow> string list \<Rightarrow> string" where
  "join_with d [] = []"
| "join_with d [x] = x"
| "join_with d (x # y # xs) = x @ d # join_with d (y # xs)"

text \<open>Line feed, carriage return, and U+2028, U+2029 in UTF-8: what \<open>.\<close> does not match.\<close>

fun has_line_end :: "string \<Rightarrow> bool" where
  "has_line_end [] = False"
| "has_line_end (c # s) =
     (byte c = 10 \<or> byte c = 13 \<or>
      (byte c = 226 \<and> (case s of a # b # r \<Rightarrow> byte a = 128 \<and> (byte b = 168 \<or> byte b = 169) | _ \<Rightarrow> False)) \<or>
      has_line_end s)"

definition getOrigin :: "(string \<Rightarrow> string option) \<Rightarrow> string \<Rightarrow> string \<Rightarrow> string" where
  "getOrigin url_origin url def = (case url_origin url of Some o' \<Rightarrow> o' | None \<Rightarrow> def)"

definition getUrlParts :: "string \<Rightarrow> url_parts" where
  "getUrlParts url =
     (let plain = (\<lambda>c. c \<noteq> CHR ''#'' \<and> c \<noteq> CHR ''?'');
          poor = takeWhile plain url; r = dropWhile plain url;
          q = (r \<noteq> [] \<and> hd r = CHR ''?'');
          srch = (if q then takeWhile (\<lambda>c. c \<noteq> CHR ''#'') r else []);
          h = (if q then dropWhile (\<lambda>c. c \<noteq> CHR ''#'') r else r)
      in if has_line_end h then \<lparr>poorUrl = [], search = [], hash = []\<rparr>
         else \<lparr>poorUrl = poor, search = srch, hash = h\<rparr>)"

definition getSearchString :: "string \<Rightarrow> string" where
  "getSearchString url = drop 1 (search (getUrlParts url))"

definition getHash :: "string \<Rightarrow> string" where
  "getHash url = drop 1 (hash (getUrlParts url))"

text \<open>
  \<open>acc[key] = value\<close> on a plain object: assigning a string to \<open>__proto__\<close> has no effect.
  A pair without \<open>=\<close> has the value \<open>undefined\<close>, which \<open>decodeURIComponent\<close> reads as a text.
\<close>

definition obj_put :: "(string \<times> 'v) list \<Rightarrow> string \<Rightarrow> 'v \<Rightarrow> (string \<times> 'v) list" where
  "obj_put acc k v = (if k = ''__proto__'' then acc else alist_put acc k v)"

fun pair_of :: "string \<Rightarrow> string \<times> string" where
  "pair_of p = (case split_on CHR ''='' p of
      k # v # _ \<Rightarrow> (k, v) | [k] \<Rightarrow> (k, ''undefined'') | [] \<Rightarrow> ([], ''undefined''))"

fun read_pairs :: "string list \<Rightarrow> search_params \<Rightarrow> search_params option" where
  "read_pairs [] acc = Some acc"
| "read_pairs (p # ps) acc =
     (case decodeURIComponent (fst (pair_of p)) of
        None \<Rightarrow> None
      | Some k \<Rightarrow> (case decodeURIComponent (snd (pair_of p)) of
                     None \<Rightarrow> None
                   | Some v \<Rightarrow> read_pairs ps (obj_put acc k (Some v))))"

definition getSearchParams :: "string \<Rightarrow> search_params option" where
  "getSearchParams url =
     (let searchString = getSearchString url
      in if searchString = [] then Some [] else read_pairs (split_on CHR ''&'' searchString) [])"

definition index_val :: "string \<Rightarrow> int" where
  "index_val s = foldl (\<lambda>n c. 10 * n + (byte c - 48)) 0 s"

definition is_index :: "string \<Rightarrow> bool" where
  "is_index s = (s \<noteq> [] \<and> list_all (\<lambda>c. 48 \<le> byte c \<and> byte c \<le> 57) s
     \<and> (hd s = CHR ''0'' \<longrightarrow> s = ''0'') \<and> length s \<le> 10 \<and> index_val s < 4294967295)"

definition own_entries :: "(string \<times> 'v) list \<Rightarrow> (string \<times> 'v) list" where
  "own_entries xs = sort_key (\<lambda>p. index_val (fst p)) (filter (\<lambda>p. is_index (fst p)) xs)
                      @ filter (\<lambda>p. \<not> is_index (fst p)) xs"

definition createSearchString :: "search_params \<Rightarrow> string" where
  "createSearchString searchParams =
     join_with CHR ''&''
       (map (\<lambda>p. encodeURIComponent (fst p) @ ''='' @ encodeURIComponent (the (snd p)))
            (filter (\<lambda>p. snd p \<noteq> None) (own_entries searchParams)))"

definition setSearchParams :: "string \<Rightarrow> search_params \<Rightarrow> string option" where
  "setSearchParams url searchParams =
     (let parts = getUrlParts url
      in map_option
           (\<lambda>old. let next = createSearchString (alist_merge old searchParams)
                  in poorUrl parts @ (if next = [] then [] else ''?'') @ next @ hash parts)
           (getSearchParams url))"

section \<open>Splitting and joining\<close>

lemma split_on_none: "d \<notin> set s \<Longrightarrow> split_on d s = [s]"
  by (induction s) auto

lemma split_on_append: "d \<notin> set x \<Longrightarrow> split_on d (x @ d # s) = x # split_on d s"
  by (induction x) auto

lemma split_join: "xs \<noteq> [] \<Longrightarrow> \<forall>x \<in> set xs. d \<notin> set x \<Longrightarrow> split_on d (join_with d xs) = xs"
  by (induction d xs rule: join_with.induct) (auto simp: split_on_none split_on_append)

lemma set_join: "set (join_with d xs) \<subseteq> insert d (\<Union> (set ` set xs))"
  by (induction d xs rule: join_with.induct) auto

section \<open>Reading back what was written\<close>

definition entry_str :: "string \<times> string \<Rightarrow> string" where
  "entry_str p = encodeURIComponent (fst p) @ ''='' @ encodeURIComponent (snd p)"

lemma entry_str_chars:
  "CHR ''&'' \<notin> set (entry_str p)" "CHR ''#'' \<notin> set (entry_str p)" "entry_str p \<noteq> []"
  using encode_chars by (force simp: entry_str_def)+

lemma pair_of_entry: "pair_of (entry_str (k, v)) = (encodeURIComponent k, encodeURIComponent v)"
proof -
  have n: "CHR ''='' \<notin> set (encodeURIComponent x)" for x using encode_chars by blast
  have "split_on CHR ''='' (entry_str (k, v)) = [encodeURIComponent k, encodeURIComponent v]"
    by (simp add: entry_str_def split_on_append [OF n] split_on_none [OF n])
  then show ?thesis by simp
qed

lemma read_entries:
  "\<forall>p \<in> set es. valid_utf8 (fst p) \<and> valid_utf8 (snd p) \<Longrightarrow>
     read_pairs (map entry_str es) acc = Some (foldl (\<lambda>m p. obj_put m (fst p) (Some (snd p))) acc es)"
proof (induction es arbitrary: acc)
  case (Cons e es)
  then show ?case
    by (cases e) (simp del: pair_of.simps add: pair_of_entry decode_encode)
qed simp

lemma getUrlParts_build:
  assumes "\<forall>c \<in> set poor. c \<noteq> CHR ''#'' \<and> c \<noteq> CHR ''?''" "CHR ''#'' \<notin> set q"
    "h = [] \<or> hd h = CHR ''#''" "\<not> has_line_end h"
  shows "getUrlParts (poor @ (if q = [] then [] else ''?'') @ q @ h)
       = \<lparr>poorUrl = poor, search = (if q = [] then [] else CHR ''?'' # q), hash = h\<rparr>"
proof -
  let ?plain = "\<lambda>c. c \<noteq> CHR ''#'' \<and> c \<noteq> CHR ''?''"
  have tk: "takeWhile P (xs @ ys) = xs" and dr: "dropWhile P (xs @ ys) = ys"
    if "\<forall>x \<in> set xs. P x" "ys = [] \<or> \<not> P (hd ys)" for P :: "char \<Rightarrow> bool" and xs ys
    using that by (induction xs; cases ys; auto)+
  let ?r = "(if q = [] then [] else ''?'') @ q @ h"
  have r: "?r = [] \<or> \<not> ?plain (hd ?r)" using assms(3) by auto
  have h: "h = [] \<or> \<not> hd h \<noteq> CHR ''#''" using assms(3) by auto
  have q: "\<forall>x \<in> set (CHR ''?'' # q). x \<noteq> CHR ''#''" using assms(2) by auto
  show ?thesis
    using assms(3,4) tk [OF assms(1) r] dr [OF assms(1) r] tk [OF q h] dr [OF q h]
    by (cases "q = []") (auto simp: getUrlParts_def Let_def)
qed

lemma getUrlParts_shape:
  fixes url defines "p \<equiv> getUrlParts url"
  shows "\<forall>c \<in> set (poorUrl p). c \<noteq> CHR ''#'' \<and> c \<noteq> CHR ''?''"
    and "hash p = [] \<or> hd (hash p) = CHR ''#''" and "\<not> has_line_end (hash p)"
proof -
  have 1: "dropWhile P s = [] \<or> \<not> P (hd (dropWhile P s))" for P and s :: string
    using hd_dropWhile by blast
  show "\<forall>c \<in> set (poorUrl p). c \<noteq> CHR ''#'' \<and> c \<noteq> CHR ''?''"
    by (auto simp: p_def getUrlParts_def Let_def dest: set_takeWhileD)
  show "hash p = [] \<or> hd (hash p) = CHR ''#''"
    using 1 [of "\<lambda>c. c \<noteq> CHR ''#''" "dropWhile (\<lambda>c. c \<noteq> CHR ''#'' \<and> c \<noteq> CHR ''?'') url"]
      1 [of "\<lambda>c. c \<noteq> CHR ''#'' \<and> c \<noteq> CHR ''?''" url]
    by (auto simp: p_def getUrlParts_def Let_def)
  show "\<not> has_line_end (hash p)"
    by (simp add: p_def getUrlParts_def Let_def)
qed

definition string_entries :: "search_params \<Rightarrow> (string \<times> string) list" where
  "string_entries ps = map (\<lambda>p. (fst p, the (snd p))) (filter (\<lambda>p. snd p \<noteq> None) (own_entries ps))"

lemma createSearchString_entries:
  "createSearchString ps = join_with CHR ''&'' (map entry_str (string_entries ps))"
  by (simp add: createSearchString_def string_entries_def entry_str_def comp_def)

lemma mset_own_entries: "mset (own_entries xs) = mset xs"
  by (simp add: own_entries_def mset_filter union_filter_mset_complement)

lemma set_own_entries [simp]: "set (own_entries xs) = set xs"
  by (rule mset_eq_setD [OF mset_own_entries])

lemma distinct_own_entries:
  assumes "distinct (map fst xs)" shows "distinct (map fst (own_entries xs))"
proof -
  have "mset (map fst (own_entries xs)) = mset (map fst xs)" by (simp add: mset_own_entries)
  with assms show ?thesis by (metis mset_eq_imp_distinct_iff)
qed

lemma distinct_string_entries:
  assumes "distinct (map fst xs)" shows "distinct (map fst (string_entries xs))"
proof -
  have "map fst (string_entries xs) = map fst (filter (\<lambda>p. snd p \<noteq> None) (own_entries xs))"
    by (simp add: string_entries_def)
  then show ?thesis using distinct_own_entries [OF assms] by (simp add: distinct_map_filter)
qed

lemma in_string_entries: "(k, v) \<in> set (string_entries xs) \<longleftrightarrow> (k, Some v) \<in> set xs"
  by (force simp: string_entries_def)

lemma get_fold_obj_put:
  assumes "distinct (map fst es)" "k \<noteq> ''__proto__''"
  shows "alist_get (foldl (\<lambda>m p. obj_put m (fst p) (Some (snd p))) acc es) k
       = (case alist_get es k of None \<Rightarrow> alist_get acc k | Some v \<Rightarrow> Some (Some v))"
  using assms
proof (induction es arbitrary: acc)
  case (Cons e es)
  then show ?case
    by (cases e) (auto simp: obj_put_def alist_get_None [THEN iffD2] split: option.splits)
qed simp

lemma distinct_obj_put: "distinct (map fst xs) \<Longrightarrow> distinct (map fst (obj_put xs k v))"
  by (simp add: obj_put_def)

lemma distinct_read_pairs:
  "read_pairs ps acc = Some r \<Longrightarrow> distinct (map fst acc) \<Longrightarrow> distinct (map fst r)"
  by (induction ps arbitrary: acc) (auto split: option.splits simp del: pair_of.simps simp: distinct_obj_put)

lemma distinct_getSearchParams: "getSearchParams url = Some ps \<Longrightarrow> distinct (map fst ps)"
  by (auto simp: getSearchParams_def Let_def split: if_splits intro: distinct_read_pairs)

text \<open>The value a dictionary shows once it went through a query string.\<close>

definition visible :: "search_params \<Rightarrow> string \<Rightarrow> string option" where
  "visible ps k = (case alist_get ps k of Some (Some v) \<Rightarrow> Some v | _ \<Rightarrow> None)"

definition all_valid :: "search_params \<Rightarrow> bool" where
  "all_valid ps \<longleftrightarrow> (\<forall>p \<in> set ps. valid_utf8 (fst p) \<and> (case snd p of None \<Rightarrow> True | Some v \<Rightarrow> valid_utf8 v))"

lemma get_string_entries:
  assumes "distinct (map fst ps)" shows "alist_get (string_entries ps) k = visible ps k"
proof -
  have "alist_get (string_entries ps) k = Some v \<longleftrightarrow> visible ps k = Some v" for v
    by (simp add: alist_get_eq_Some [OF distinct_string_entries [OF assms]] in_string_entries
        visible_def flip: alist_get_eq_Some [OF assms]) (auto split: option.splits)
  then show ?thesis by (metis not_None_eq)
qed

lemma set_alist_put: "set (alist_put m k v) \<subseteq> insert (k, v) (set m)"
  by (induction m) (auto split: if_splits)

lemma set_alist_merge: "set (alist_merge xs ys) \<subseteq> set xs \<union> set ys"
proof (induction ys rule: rev_induct)
  case (snoc y ys)
  then show ?case
    using set_alist_put [of "alist_merge xs ys" "fst y" "snd y"] by (auto simp: alist_merge_def)
qed (simp add: alist_merge_def)

lemma search_of_built:
  assumes "CHR ''#'' \<notin> set q" fixes url defines "p \<equiv> getUrlParts url"
  shows "getSearchString (poorUrl p @ (if q = [] then [] else ''?'') @ q @ hash p) = q"
  using getUrlParts_build [OF getUrlParts_shape(1) assms(1) getUrlParts_shape(2,3), of url url]
  by (simp add: getSearchString_def p_def)

lemma read_created:
  assumes "distinct (map fst ps)" "all_valid ps"
  shows "(if createSearchString ps = [] then Some []
          else read_pairs (split_on CHR ''&'' (createSearchString ps)) [])
       = Some (foldl (\<lambda>m p. obj_put m (fst p) (Some (snd p))) [] (string_entries ps))"
proof (cases "string_entries ps = []")
  case True
  then show ?thesis by (simp add: createSearchString_entries)
next
  case False
  then obtain e es where es: "string_entries ps = e # es" by (cases "string_entries ps") auto
  have "split_on CHR ''&'' (createSearchString ps) = map entry_str (string_entries ps)"
    unfolding createSearchString_entries
    by (rule split_join) (use False entry_str_chars in auto)
  moreover have "createSearchString ps \<noteq> []"
    using entry_str_chars(3) by (cases es) (simp_all add: createSearchString_entries es)
  moreover have "\<forall>p \<in> set (string_entries ps). valid_utf8 (fst p) \<and> valid_utf8 (snd p)"
    using assms(2) by (fastforce simp: all_valid_def in_string_entries split: option.splits)
  ultimately show ?thesis using read_entries by simp
qed

lemma setSearchParams_get:
  assumes "getSearchParams url = Some old" "all_valid old" "all_valid ps"
  shows "\<exists>url' new. setSearchParams url ps = Some url' \<and> getSearchParams url' = Some new
           \<and> (\<forall>k. k \<noteq> ''__proto__'' \<longrightarrow> alist_get new k = map_option Some (visible (alist_merge old ps) k))"
proof -
  let ?m = "alist_merge old ps" and ?p = "getUrlParts url"
  let ?q = "createSearchString ?m"
  let ?url = "poorUrl ?p @ (if ?q = [] then [] else ''?'') @ ?q @ hash ?p"
  let ?new = "foldl (\<lambda>m p. obj_put m (fst p) (Some (snd p))) [] (string_entries ?m)"
  have dist: "distinct (map fst ?m)"
    using assms(1) by (simp add: distinct_getSearchParams)
  have val: "all_valid ?m"
    using assms(2,3) set_alist_merge [of old ps] by (auto simp: all_valid_def)
  have "CHR ''#'' \<notin> set ?q"
    using set_join [of "CHR ''&''" "map entry_str (string_entries ?m)"] entry_str_chars(2)
    by (auto simp: createSearchString_entries)
  then have "getSearchString ?url = ?q" by (rule search_of_built)
  then have "getSearchParams ?url = Some ?new"
    using read_created [OF dist val] by (simp only: getSearchParams_def Let_def)
  moreover have "alist_get ?new k = map_option Some (visible ?m k)" if "k \<noteq> ''__proto__''" for k
    using get_fold_obj_put [OF distinct_string_entries [OF dist] that, of "[]"]
    by (simp add: get_string_entries [OF dist] split: option.splits)
  moreover have "setSearchParams url ps = Some ?url"
    by (simp add: setSearchParams_def assms(1) Let_def)
  ultimately show ?thesis by blast
qed

section \<open>Keys and values read from an ASCII address are well formed\<close>

lemma hex_val_range: "hex_val c = Some n \<Longrightarrow> 0 \<le> n \<and> n < 16"
  by (auto simp: hex_val_def Let_def split: if_splits)

lemma read_pct_range: "read_pct s = Some (b, r) \<Longrightarrow> 0 \<le> b \<and> b < 256 \<and> set r \<subseteq> set s"
  by (induction s rule: read_pct.induct)
    (auto split: if_splits option.splits dest!: hex_val_range)

lemma read_pcts_range:
  "read_pcts n s = Some (bs, r) \<Longrightarrow> (\<forall>b \<in> set bs. 0 \<le> b \<and> b < 256) \<and> set r \<subseteq> set s"
  by (induction n arbitrary: s bs) (fastforce split: option.splits dest: read_pct_range)+

lemma decode_valid:
  "decodeURIComponent s = Some t \<Longrightarrow> list_all (\<lambda>c. byte c < 128) s \<Longrightarrow> valid_utf8 t"
proof (induction s arbitrary: t rule: decodeURIComponent.induct)
  case 1
  then show ?case by (simp add: ascii_valid)
next
  case (2 c s)
  show ?case
  proof (cases "c = CHR ''%''")
    case False
    then obtain u where u: "decodeURIComponent s = Some u" "t = c # u"
      using "2.prems"(1) by (auto simp: decodeURIComponent.simps(2))
    then have "valid_utf8 u" using "2.IH"(1) False "2.prems"(2) by simp
    moreover have "valid_utf8 [c]" using "2.prems"(2) by (intro ascii_valid) simp
    ultimately show ?thesis using valid_append [of "[c]" u] by (simp add: u)
  next
    case True
    then obtain b r bs r' u where d: "read_pct (c # s) = Some (b, r)"
      "read_pcts (utf8_len b - 1) r = Some (bs, r')" "utf8_ok (b # bs)"
      "decodeURIComponent r' = Some u" "t = map char_of (b # bs) @ u"
      using "2.prems"(1) by (auto simp: decodeURIComponent.simps(2) split: option.splits if_splits)
    have "set r' \<subseteq> set (c # s)" using read_pct_range [OF d(1)] read_pcts_range [OF d(2)] by blast
    then have "list_all (\<lambda>c. byte c < 128) r'" using "2.prems"(2) by (auto simp: list_all_iff)
    then have "valid_utf8 u" using "2.IH"(2) True d by blast
    moreover have "map byte (map char_of (b # bs)) = b # bs"
      using read_pct_range [OF d(1)] read_pcts_range [OF d(2)]
      by (auto simp: byte_char_of intro!: map_idI)
    then have "valid_utf8 (map char_of (b # bs))"
      unfolding valid_utf8_def using d(3) by (intro exI [of _ "[map char_of (b # bs)]"]) simp
    ultimately show ?thesis using valid_append d(5) by blast
  qed
qed

definition ascii :: "string \<Rightarrow> bool" where
  "ascii s = list_all (\<lambda>c. byte c < 128) s"

lemma ascii_subset: "ascii s \<Longrightarrow> set t \<subseteq> set s \<Longrightarrow> ascii t"
  by (auto simp: ascii_def list_all_iff)

lemma set_split_on: "x \<in> set (split_on d s) \<Longrightarrow> set x \<subseteq> set s"
  by (induction d s arbitrary: x rule: split_on.induct) (fastforce split: if_splits list.splits)+

lemma ascii_pair_of:
  assumes "ascii p" shows "ascii (fst (pair_of p))" "ascii (snd (pair_of p))"
proof -
  have u: "ascii ''undefined''" "ascii []" by (simp_all add: ascii_def byte_def)
  have "\<forall>x \<in> set (split_on CHR ''='' p). ascii x" using assms set_split_on ascii_subset by blast
  then show "ascii (fst (pair_of p))" "ascii (snd (pair_of p))" using u by (auto split: list.splits)
qed

lemma all_valid_obj_put:
  "all_valid acc \<Longrightarrow> valid_utf8 k \<Longrightarrow> valid_utf8 v \<Longrightarrow> all_valid (obj_put acc k (Some v))"
  using set_alist_put [of acc k "Some v"] by (auto simp: all_valid_def obj_put_def)

lemma all_valid_read_pairs:
  "read_pairs ps acc = Some r \<Longrightarrow> \<forall>p \<in> set ps. ascii p \<Longrightarrow> all_valid acc \<Longrightarrow> all_valid r"
proof (induction ps arbitrary: acc)
  case (Cons p ps)
  then obtain k v where d: "decodeURIComponent (fst (pair_of p)) = Some k"
    "decodeURIComponent (snd (pair_of p)) = Some v" "read_pairs ps (obj_put acc k (Some v)) = Some r"
    by (auto simp del: pair_of.simps split: option.splits)
  have "valid_utf8 k" "valid_utf8 v"
    using d(1,2) ascii_pair_of [of p] Cons.prems(2) decode_valid by (auto simp: ascii_def)
  then show ?case using Cons.IH [OF d(3)] Cons.prems(2,3) all_valid_obj_put by simp
qed simp

lemma all_valid_getSearchParams:
  assumes "getSearchParams url = Some ps" "ascii url" shows "all_valid ps"
proof -
  have "set (search (getUrlParts url)) \<subseteq> set url"
    by (auto simp: getUrlParts_def Let_def dest: set_takeWhileD set_dropWhileD)
  then have "set (getSearchString url) \<subseteq> set url"
    unfolding getSearchString_def using set_drop_subset by fastforce
  then have "ascii (getSearchString url)" using assms(2) ascii_subset by blast
  then have "\<forall>p \<in> set (split_on CHR ''&'' (getSearchString url)). ascii p"
    using set_split_on ascii_subset by blast
  then show ?thesis
    using assms(1) all_valid_read_pairs [of _ "[]"]
    by (auto simp: getSearchParams_def Let_def all_valid_def split: if_splits)
qed

text \<open>
  \<open>setSearchParams\<close> then \<open>getSearchParams\<close> is the merge of the old and the new parameters: a
  new value replaces an old one, an \<open>undefined\<close> removes it, every other parameter keeps its value.
\<close>

theorem search_params_set_get:
  assumes "getSearchParams url = Some old" "all_valid old" "all_valid ps"
  shows "\<exists>url' new. setSearchParams url ps = Some url' \<and> getSearchParams url' = Some new
           \<and> (\<forall>k. k \<noteq> ''__proto__'' \<longrightarrow> alist_get new k = map_option Some (visible (alist_merge old ps) k))"
  by (rule setSearchParams_get [OF assms])

theorem search_params_set_get_witness:
  "\<exists>url' new. setSearchParams ''/p'' [(''a'', Some ''1'')] = Some url' \<and> getSearchParams url' = Some new
     \<and> alist_get new ''a'' = Some (Some ''1'')"
proof -
  have g: "getSearchParams ''/p'' = Some []"
    by (simp add: getSearchParams_def getSearchString_def getUrlParts_def Let_def)
  have v: "all_valid [(''a'', Some ''1'')]" "all_valid []" by (simp_all add: all_valid_def ascii_valid byte_def)
  show ?thesis using search_params_set_get [OF g v(2,1)]
    by (auto simp: alist_merge_def visible_def dest!: spec [of _ "''a''"])
qed

end
