(* ===== verification/Emitter.thy ===== *)
theory Emitter
  imports Prelude
begin

text \<open>
  \<open>packages/utils/event-emitter\<close>.  A listener is a function object, compared by reference:
  it is a value of the type \<open>'fn\<close>, and the closure that \<open>once\<close> creates is \<open>OnceFn r fn\<close> with
  a reference \<open>r\<close> of its own.  What a listener does when called is the argument \<open>call\<close>: it may
  change the emitter (subscribe, unsubscribe, emit again), change the world and throw.

  \<open>off\<close> stores a new array, so an emission that is under way goes on over the array it
  started with: \<open>emit\<close> runs over the list read at its start.  The interface the clients use is
  the locale \<open>registry\<close>, interpreted on both emitters of the source.
\<close>

datatype 'fn listener = Plain 'fn | OnceFn nat 'fn

record ('ev, 'fn) emitter =
  listeners :: "'ev \<Rightarrow> 'fn listener list option"
  next_ref :: nat

definition new_emitter :: "('ev, 'fn) emitter" where
  "new_emitter = \<lparr>listeners = (\<lambda>_. None), next_ref = 0\<rparr>"

definition listeners_of :: "('ev, 'fn) emitter \<Rightarrow> 'ev \<Rightarrow> 'fn listener list" where
  "listeners_of em ev = (case listeners em ev of None \<Rightarrow> [] | Some ls \<Rightarrow> ls)"

definition em_push :: "'ev \<Rightarrow> 'fn listener \<Rightarrow> ('ev, 'fn) emitter \<Rightarrow> ('ev, 'fn) emitter" where
  "em_push ev l em = em\<lparr>listeners := (listeners em)(ev := Some (listeners_of em ev @ [l]))\<rparr>"

definition em_on :: "'ev \<Rightarrow> 'fn \<Rightarrow> ('ev, 'fn) emitter \<Rightarrow> 'fn listener \<times> ('ev, 'fn) emitter" where
  "em_on ev fn em = (Plain fn, em_push ev (Plain fn) em)"

definition em_once :: "'ev \<Rightarrow> 'fn \<Rightarrow> ('ev, 'fn) emitter \<Rightarrow> 'fn listener \<times> ('ev, 'fn) emitter" where
  "em_once ev fn em =
     (let l = OnceFn (next_ref em) fn
      in (l, em_push ev l (em\<lparr>next_ref := Suc (next_ref em)\<rparr>)))"

definition em_off :: "'ev \<Rightarrow> 'fn listener option \<Rightarrow> ('ev, 'fn) emitter \<Rightarrow> ('ev, 'fn) emitter" where
  "em_off ev fn em =
     (case fn of
        Some l \<Rightarrow> em\<lparr>listeners := (listeners em)
                       (ev := Some (filter (\<lambda>l'. l \<noteq> l') (listeners_of em ev)))\<rparr>
      | None \<Rightarrow> em\<lparr>listeners := (listeners em)(ev := None)\<rparr>)"

definition em_clear :: "('ev, 'fn) emitter \<Rightarrow> ('ev, 'fn) emitter" where
  "em_clear em = em\<lparr>listeners := (\<lambda>_. None)\<rparr>"

definition em_destroy :: "('ev, 'fn) emitter \<Rightarrow> ('ev, 'fn) emitter" where
  "em_destroy em = em_clear em"

type_synonym ('ev, 'fn, 'p, 'w, 'x) handler =
  "'fn \<Rightarrow> 'p \<Rightarrow> ('ev, 'fn) emitter \<times> 'w \<Rightarrow> 'x option \<times> (('ev, 'fn) emitter \<times> 'w)"

fun invoke ::
  "('ev, 'fn, 'p, 'w, 'x) handler \<Rightarrow> 'ev \<Rightarrow> 'p \<Rightarrow> 'fn listener
    \<Rightarrow> ('ev, 'fn) emitter \<times> 'w \<Rightarrow> 'x option \<times> (('ev, 'fn) emitter \<times> 'w)" where
  "invoke call ev p (Plain fn) st = call fn p st"
| "invoke call ev p (OnceFn r fn) (em, w) = call fn p (em_off ev (Some (OnceFn r fn)) em, w)"

fun run_listeners ::
  "('ev, 'fn, 'p, 'w, 'x) handler \<Rightarrow> 'ev \<Rightarrow> 'p \<Rightarrow> 'fn listener list
    \<Rightarrow> ('ev, 'fn) emitter \<times> 'w \<Rightarrow> 'x option \<times> (('ev, 'fn) emitter \<times> 'w)" where
  "run_listeners call ev p [] st = (None, st)"
| "run_listeners call ev p (l # ls) st =
     (case invoke call ev p l st of
        (Some x, st') \<Rightarrow> (Some x, st')
      | (None, st') \<Rightarrow> run_listeners call ev p ls st')"

definition em_emit ::
  "('ev, 'fn, 'p, 'w, 'x) handler \<Rightarrow> 'ev \<Rightarrow> 'p
    \<Rightarrow> ('ev, 'fn) emitter \<times> 'w \<Rightarrow> 'x option \<times> (('ev, 'fn) emitter \<times> 'w)" where
  "em_emit call ev p st = run_listeners call ev p (listeners_of (fst st) ev) st"

section \<open>SimpleEmitter: one list of listeners\<close>

record 'fn simple_emitter =
  se_listeners :: "'fn list"

definition se_new :: "'fn simple_emitter" where
  "se_new = \<lparr>se_listeners = []\<rparr>"

definition se_on :: "'fn \<Rightarrow> 'fn simple_emitter \<Rightarrow> 'fn simple_emitter" where
  "se_on l em = em\<lparr>se_listeners := se_listeners em @ [l]\<rparr>"

definition se_off :: "'fn \<Rightarrow> 'fn simple_emitter \<Rightarrow> 'fn simple_emitter" where
  "se_off l em = em\<lparr>se_listeners := filter (\<lambda>l'. l' \<noteq> l) (se_listeners em)\<rparr>"

definition se_destroy :: "'fn simple_emitter \<Rightarrow> 'fn simple_emitter" where
  "se_destroy em = em\<lparr>se_listeners := []\<rparr>"

fun se_run :: "('fn \<Rightarrow> 'st \<Rightarrow> 'x option \<times> 'st) \<Rightarrow> 'fn list \<Rightarrow> 'st \<Rightarrow> 'x option \<times> 'st" where
  "se_run call [] st = (None, st)"
| "se_run call (l # ls) st =
     (case call l st of (Some x, st') \<Rightarrow> (Some x, st') | (None, st') \<Rightarrow> se_run call ls st')"

definition se_emit ::
  "('fn \<Rightarrow> 'st \<Rightarrow> 'x option \<times> 'st) \<Rightarrow> 'fn simple_emitter \<Rightarrow> 'st \<Rightarrow> 'x option \<times> 'st" where
  "se_emit call em st = se_run call (se_listeners em) st"

section \<open>The subscription interface\<close>

locale registry =
  fixes registered :: "'st \<Rightarrow> 'l list"
    and add :: "'l \<Rightarrow> 'st \<Rightarrow> 'st" and remove :: "'l \<Rightarrow> 'st \<Rightarrow> 'st" and reset :: "'st \<Rightarrow> 'st"
  assumes registered_add: "registered (add l s) = registered s @ [l]"
    and registered_remove: "registered (remove l s) = filter (\<lambda>l'. l' \<noteq> l) (registered s)"
    and registered_reset: "registered (reset s) = []"
begin

lemma remove_gone: "l \<notin> set (registered (remove l s))"
  by (simp add: registered_remove)

lemma remove_other: "l \<noteq> k \<Longrightarrow> k \<in> set (registered (remove l s)) \<longleftrightarrow> k \<in> set (registered s)"
  by (auto simp: registered_remove)

lemma unsubscribe_restores:
  "l \<notin> set (registered s) \<Longrightarrow> registered (remove l (add l s)) = registered s"
  by (auto simp: registered_add registered_remove filter_id_conv)

lemma unsubscribe_twice: "registered (remove l (remove l s)) = registered (remove l s)"
  by (simp add: registered_remove)

lemma fold_add: "registered (fold add ls s) = registered s @ ls"
  by (induction ls arbitrary: s) (simp_all add: registered_add)

lemma fold_remove: "registered (fold remove ls s) = filter (\<lambda>l. l \<notin> set ls) (registered s)"
  by (induction ls arbitrary: s) (auto simp: registered_remove intro: filter_cong)

end

lemma listeners_of_simps [simp]:
  "listeners_of new_emitter ev = []"
  "listeners_of (em_push ev l em) ev' = (if ev = ev' then listeners_of em ev @ [l] else listeners_of em ev')"
  "listeners_of (em_off ev (Some l) em) ev' =
     (if ev = ev' then filter (\<lambda>l'. l' \<noteq> l) (listeners_of em ev) else listeners_of em ev')"
  "listeners_of (em_off ev None em) ev' = (if ev = ev' then [] else listeners_of em ev')"
  "listeners_of (em_clear em) ev = []"
  "listeners_of (em\<lparr>next_ref := n\<rparr>) ev = listeners_of em ev"
  by (auto simp: listeners_of_def new_emitter_def em_push_def em_off_def em_clear_def
      intro!: filter_cong)

interpretation event_registry: registry "\<lambda>em. listeners_of em ev" "em_push ev"
    "\<lambda>l. em_off ev (Some l)" em_clear for ev
  by unfold_locales simp_all

interpretation simple_registry: registry se_listeners se_on se_off se_destroy
  by unfold_locales (simp_all add: se_on_def se_off_def se_destroy_def)

section \<open>Delivery\<close>

text \<open>A listener that only logs its call.\<close>

definition log_call :: "('ev, 'fn, 'p, ('fn \<times> 'p) list, 'x) handler" where
  "log_call fn p st = (None, (fst st, snd st @ [(fn, p)]))"

fun fn_of :: "'fn listener \<Rightarrow> 'fn" where
  "fn_of (Plain fn) = fn"
| "fn_of (OnceFn r fn) = fn"

fun is_once :: "'fn listener \<Rightarrow> bool" where
  "is_once (Plain fn) = False"
| "is_once (OnceFn r fn) = True"

lemma run_listeners_log:
  "run_listeners log_call ev p ls (em, w) =
     (None, (fold (\<lambda>l. em_off ev (Some l)) (filter is_once ls) em, w @ map (\<lambda>l. (fn_of l, p)) ls))"
proof (induction ls arbitrary: em w)
  case (Cons l ls)
  then show ?case by (cases l) (simp_all add: log_call_def)
qed simp

lemma emit_log:
  "em_emit log_call ev p (em, w) =
     (None, (fold (\<lambda>l. em_off ev (Some l)) (filter is_once (listeners_of em ev)) em,
             w @ map (\<lambda>l. (fn_of l, p)) (listeners_of em ev)))"
  by (simp add: em_emit_def run_listeners_log)

lemma emit_drops_once:
  "listeners_of (fst (snd (em_emit log_call ev p (em, w)))) ev =
     filter (\<lambda>l. \<not> is_once l) (listeners_of em ev)"
  by (auto simp: emit_log event_registry.fold_remove intro: filter_cong)

lemma run_listeners_throw:
  "run_listeners call ev p (ls @ ks) st =
     (case run_listeners call ev p ls st of
        (Some x, st') \<Rightarrow> (Some x, st') | (None, st') \<Rightarrow> run_listeners call ev p ks st')"
  by (induction ls arbitrary: st) (auto split: prod.splits option.splits)

section \<open>Emitting from a listener\<close>

text \<open>A listener \<open>0\<close> that, the first time it is called, emits the event it is called for.\<close>

definition re_emitter :: "'ev \<Rightarrow> ('ev, nat, 'p, (nat \<times> 'p) list, 'x) handler" where
  "re_emitter ev fn p st =
     (case st of (em, w) \<Rightarrow>
        if fn = 0 \<and> w = [] then em_emit log_call ev p (em, [(0, p)]) else log_call fn p (em, w))"

text \<open>
  A \<open>once\<close> listener can be called twice: when a listener before it emits the same event, the
  inner emission calls and removes it, and the outer one, which runs over the array it read at its
  start, calls it again.
\<close>

theorem once_called_twice:
  "snd (snd (em_emit (re_emitter ev) ev p
      (snd (em_once ev 1 (snd (em_on ev 0 new_emitter))), [])))
   = [(0, p), (0, p), (1, p), (1, p)]"
  by (simp add: em_emit_def em_once_def em_on_def em_push_def new_emitter_def listeners_of_def
      re_emitter_def log_call_def em_off_def Let_def)

text \<open>
  With listeners that do not touch the emitter, an emission calls the listeners of the event once
  each, in the order they subscribed, and afterwards exactly the ones added by \<open>once\<close> are gone.
\<close>

theorem emission_in_order:
  "em_emit log_call ev p (em, w) =
     (None, (fst (snd (em_emit log_call ev p (em, w))), w @ map (\<lambda>l. (fn_of l, p)) (listeners_of em ev)))
   \<and> listeners_of (fst (snd (em_emit log_call ev p (em, w)))) ev
      = filter (\<lambda>l. \<not> is_once l) (listeners_of em ev)"
  using emit_drops_once [of ev p em w] by (simp add: emit_log)

end
