(* ===== verification/Connections.thy ===== *)
theory Connections
  imports Url Emitter
begin

text \<open>
  \<open>packages/utils/connections\<close>: the link between a merchant page and the payment form, over
  \<open>postMessage\<close>, over a query parameter of a redirect, or over a native handler.

  Parameters of the model: \<open>url_origin\<close> (the platform's \<open>new URL(u).origin\<close>, \<open>None\<close> when it
  throws), \<open>stringify\<close> and \<open>parse\<close> (\<open>JSON.stringify\<close> and \<open>JSON.parse\<close> on messages, \<open>None\<close> when
  parsing throws).  The page is a record with its address and a log of what was done to it.
\<close>

abbreviation ANY_ORIGIN :: string where "ANY_ORIGIN \<equiv> ''*''"
abbreviation ANY_CHANNEL :: string where "ANY_CHANNEL \<equiv> ''*''"
abbreviation DEFAULT_URL :: string where "DEFAULT_URL \<equiv> ''/''"
abbreviation QUERY_KEY :: string where "QUERY_KEY \<equiv> ''__YP__''"

type_synonym url_api = "string \<Rightarrow> string option"

section \<open>Options and messages\<close>

record conn_options =
  targetUrl :: string
  channel :: string

definition new_options :: "string option \<Rightarrow> string option \<Rightarrow> conn_options" where
  "new_options t c = \<lparr>targetUrl = (case t of None \<Rightarrow> DEFAULT_URL | Some u \<Rightarrow> u),
                      channel = (case c of None \<Rightarrow> ANY_CHANNEL | Some x \<Rightarrow> x)\<rparr>"

definition targetOrigin :: "url_api \<Rightarrow> conn_options \<Rightarrow> string" where
  "targetOrigin url_origin opts = js_or (Some (getOrigin url_origin (targetUrl opts) [])) ANY_ORIGIN"

definition isInitialized :: "conn_options \<Rightarrow> bool" where
  "isInitialized opts = (targetUrl opts \<noteq> DEFAULT_URL)"

record 'p conn_message =
  payload :: 'p
  msg_channel :: string
  sourceUrl :: "string option"

definition new_message :: "'p \<Rightarrow> string option \<Rightarrow> string option \<Rightarrow> 'p conn_message" where
  "new_message p c u = \<lparr>payload = p, msg_channel = (case c of None \<Rightarrow> ANY_CHANNEL | Some x \<Rightarrow> x),
                        sourceUrl = u\<rparr>"

definition message_origin :: "url_api \<Rightarrow> 'p conn_message \<Rightarrow> string" where
  "message_origin url_origin m =
     (if truthy (sourceUrl m)
      then js_or (Some (getOrigin url_origin (the (sourceUrl m)) [])) ANY_ORIGIN
      else ANY_ORIGIN)"

text \<open>\<open>toJSON\<close>: the source address is left out when it is empty or missing.\<close>

record 'p message_json =
  j_payload :: 'p
  j_channel :: "string option"
  j_sourceUrl :: "string option"

definition message_toJSON :: "'p conn_message \<Rightarrow> 'p message_json" where
  "message_toJSON m = \<lparr>j_payload = payload m, j_channel = Some (msg_channel m),
                       j_sourceUrl = (if truthy (sourceUrl m) then sourceUrl m else None)\<rparr>"

type_synonym 'p stringify = "'p message_json \<Rightarrow> string"
type_synonym 'p parse = "string \<Rightarrow> 'p message_json option"

section \<open>helpers.ts\<close>

definition getDataFromUrl :: "string \<Rightarrow> string option" where
  "getDataFromUrl url =
     map_option (\<lambda>ps. js_or (case alist_get ps QUERY_KEY of None \<Rightarrow> None | Some v \<Rightarrow> v) [])
       (getSearchParams url)"

definition setDataToUrl :: "string \<Rightarrow> string \<Rightarrow> string option" where
  "setDataToUrl url data = setSearchParams url [(QUERY_KEY, Some data)]"

definition removeDataFromUrl :: "string \<Rightarrow> string option" where
  "removeDataFromUrl url = setSearchParams url [(QUERY_KEY, None)]"

section \<open>Listeners\<close>

datatype listen_error = DifferentOrigin | DifferentChannel | BadData

definition processMessage ::
  "url_api \<Rightarrow> conn_options \<Rightarrow> 'p conn_message \<Rightarrow> listen_error + 'p \<times> 'p conn_message" where
  "processMessage url_origin opts m =
     (let o' = message_origin url_origin m; t = targetOrigin url_origin opts
      in if o' \<noteq> t \<and> o' \<noteq> ANY_ORIGIN \<and> t \<noteq> ANY_ORIGIN then Inl DifferentOrigin
         else if msg_channel m \<noteq> channel opts \<and> msg_channel m \<noteq> ANY_CHANNEL
                 \<and> channel opts \<noteq> ANY_CHANNEL then Inl DifferentChannel
         else Inr (payload m, m))"

record message_event =
  ev_origin :: string
  ev_data :: string

definition ml_createMessage ::
  "url_api \<Rightarrow> 'p parse \<Rightarrow> message_event \<Rightarrow> listen_error + 'p conn_message" where
  "ml_createMessage url_origin parse e =
     (case parse (ev_data e) of
        None \<Rightarrow> Inl BadData
      | Some d \<Rightarrow>
          let src = (if truthy (j_sourceUrl d)
                        \<and> getOrigin url_origin (the (j_sourceUrl d)) [] = ev_origin e
                     then j_sourceUrl d else Some (ev_origin e))
          in Inr (new_message (j_payload d) (j_channel d) src))"

text \<open>\<open>onMessage\<close> catches every error: the result is what the listener emits, if anything.\<close>

definition ml_onMessage ::
  "url_api \<Rightarrow> 'p parse \<Rightarrow> conn_options \<Rightarrow> message_event \<Rightarrow> ('p \<times> 'p conn_message) option" where
  "ml_onMessage url_origin parse opts e =
     (case ml_createMessage url_origin parse e of
        Inl _ \<Rightarrow> None
      | Inr m \<Rightarrow> (case processMessage url_origin opts m of Inl _ \<Rightarrow> None | Inr r \<Rightarrow> Some r))"

definition ql_createMessage :: "'p parse \<Rightarrow> string \<Rightarrow> listen_error + 'p conn_message" where
  "ql_createMessage parse location =
     (case getDataFromUrl location of
        None \<Rightarrow> Inl BadData
      | Some json \<Rightarrow> (case parse json of
            None \<Rightarrow> Inl BadData
          | Some d \<Rightarrow> Inr (new_message (j_payload d) (j_channel d) (j_sourceUrl d))))"

definition ql_onProcess ::
  "url_api \<Rightarrow> 'p parse \<Rightarrow> conn_options \<Rightarrow> string \<Rightarrow> ('p \<times> 'p conn_message) option" where
  "ql_onProcess url_origin parse opts location =
     (case ql_createMessage parse location of
        Inl _ \<Rightarrow> None
      | Inr m \<Rightarrow> (case processMessage url_origin opts m of Inl _ \<Rightarrow> None | Inr r \<Rightarrow> Some r))"

section \<open>Emitters\<close>

text \<open>
  The peer window: \<open>posts\<close> logs what was posted to it, \<open>throws\<close> says that \<open>postMessage\<close>
  throws (the emitter swallows it with \<open>tryToCall\<close>).
\<close>

record peer =
  closed :: bool
  throws :: bool
  posts :: "(string \<times> string) list"

definition post :: "string \<Rightarrow> string \<Rightarrow> peer \<Rightarrow> peer" where
  "post text origin w = (if throws w then w else w\<lparr>posts := posts w @ [(text, origin)]\<rparr>)"

record message_emitter =
  me_options :: conn_options
  me_location :: string
  me_attached :: bool
  me_peer :: peer

definition me_isConnected :: "message_emitter \<Rightarrow> bool" where
  "me_isConnected em = (me_attached em \<and> \<not> closed (me_peer em))"

text \<open>The constructor: \<open>setTarget\<close> throws (here \<open>None\<close>) when the target is missing or closed.\<close>

definition me_new :: "conn_options \<Rightarrow> string \<Rightarrow> peer option \<Rightarrow> message_emitter option" where
  "me_new opts location target =
     (case target of
        None \<Rightarrow> None
      | Some w \<Rightarrow> if closed w then None
                  else Some \<lparr>me_options = opts, me_location = location, me_attached = True, me_peer = w\<rparr>)"

definition emitter_message :: "conn_options \<Rightarrow> string option \<Rightarrow> 'p \<Rightarrow> 'p message_json" where
  "emitter_message opts src p = message_toJSON (new_message p (Some (channel opts)) src)"

definition me_send :: "url_api \<Rightarrow> 'p stringify \<Rightarrow> 'p \<Rightarrow> message_emitter \<Rightarrow> message_emitter" where
  "me_send url_origin stringify p em =
     (if me_isConnected em
      then em\<lparr>me_peer := post (stringify (emitter_message (me_options em) (Some (me_location em)) p))
                             (targetOrigin url_origin (me_options em)) (me_peer em)\<rparr>
      else em)"

definition me_destroy :: "message_emitter \<Rightarrow> message_emitter" where
  "me_destroy em = em\<lparr>me_attached := False\<rparr>"

record query_emitter =
  qe_options :: conn_options
  qe_location :: string
  noEmitSourceUrl :: bool
  isSent :: bool
  redirects :: "string list"

definition qe_new :: "conn_options \<Rightarrow> string \<Rightarrow> bool \<Rightarrow> query_emitter" where
  "qe_new opts location noSrc =
     \<lparr>qe_options = opts, qe_location = location, noEmitSourceUrl = noSrc, isSent = False, redirects = []\<rparr>"

definition qe_constructUrl :: "'p stringify \<Rightarrow> query_emitter \<Rightarrow> 'p \<Rightarrow> string option" where
  "qe_constructUrl stringify em p =
     setDataToUrl (targetUrl (qe_options em))
       (stringify (emitter_message (qe_options em)
                     (if noEmitSourceUrl em then None else Some (qe_location em)) p))"

text \<open>A malformed target address makes \<open>constructUrl\<close> throw before anything is changed.\<close>

definition qe_send :: "'p stringify \<Rightarrow> 'p \<Rightarrow> query_emitter \<Rightarrow> query_emitter" where
  "qe_send stringify p em =
     (if isSent em then em
      else case qe_constructUrl stringify em p of
             None \<Rightarrow> em
           | Some url \<Rightarrow> em\<lparr>redirects := redirects em @ [url], isSent := True\<rparr>)"

definition qe_destroy :: "query_emitter \<Rightarrow> query_emitter" where
  "qe_destroy em = em\<lparr>isSent := True\<rparr>"

record native_emitter =
  ne_options :: conn_options
  ne_location :: string
  ne_peer :: peer

definition ne_send :: "url_api \<Rightarrow> 'p stringify \<Rightarrow> 'p \<Rightarrow> native_emitter \<Rightarrow> native_emitter" where
  "ne_send url_origin stringify p em =
     em\<lparr>ne_peer := post (stringify (emitter_message (ne_options em) (Some (ne_location em)) p))
                       (targetOrigin url_origin (ne_options em)) (ne_peer em)\<rparr>"

definition ne_destroy :: "native_emitter \<Rightarrow> native_emitter" where
  "ne_destroy em = em"

section \<open>The emitter interface\<close>

text \<open>
  What a client of \<open>IConnectionEmitter\<close> may rely on for the two emitters that can be shut
  down: nothing leaves the page after \<open>destroy\<close>.  (\<open>NativeConnectionEmitter\<close> does not promise
  it: its \<open>destroy\<close> does nothing.)
\<close>

locale connection =
  fixes send :: "'p \<Rightarrow> 'st \<Rightarrow> 'st" and destroy :: "'st \<Rightarrow> 'st"
    and sent_out :: "'st \<Rightarrow> 'o list" and dead :: "'st \<Rightarrow> bool"
  assumes dead_destroy: "dead (destroy s)"
    and sent_out_destroy: "sent_out (destroy s) = sent_out s"
    and dead_send: "dead s \<Longrightarrow> dead (send p s)"
    and sent_out_dead: "dead s \<Longrightarrow> sent_out (send p s) = sent_out s"
begin

lemma dead_sends: "dead s \<Longrightarrow> dead (fold send ps s) \<and> sent_out (fold send ps s) = sent_out s"
  by (induction ps arbitrary: s) (simp_all add: dead_send sent_out_dead)

lemma silent_after_destroy: "sent_out (fold send ps (destroy s)) = sent_out s"
  using dead_sends [OF dead_destroy] by (simp add: sent_out_destroy)

end

locale one_shot_connection = connection +
  assumes shot: "\<not> dead s \<Longrightarrow> sent_out (send p s) = sent_out s
                   \<or> (\<exists>x. sent_out (send p s) = sent_out s @ [x] \<and> dead (send p s))"
begin

lemma at_most_once: "length (sent_out (fold send ps s)) \<le> Suc (length (sent_out s))"
proof (induction ps arbitrary: s)
  case (Cons p ps)
  show ?case
  proof (cases "dead s")
    case True
    then show ?thesis using dead_sends [of s "p # ps"] by simp
  next
    case False
    from shot [OF this, of p] show ?thesis
    proof
      assume "sent_out (send p s) = sent_out s"
      with Cons.IH [of "send p s"] show ?thesis by simp
    next
      assume "\<exists>x. sent_out (send p s) = sent_out s @ [x] \<and> dead (send p s)"
      then show ?thesis using dead_sends [of "send p s" ps] by auto
    qed
  qed
qed simp

end

interpretation message_conn: connection "me_send url_origin stringify" me_destroy
    "\<lambda>em. posts (me_peer em)" "\<lambda>em. \<not> me_isConnected em" for url_origin stringify
  by unfold_locales (auto simp: me_send_def me_destroy_def me_isConnected_def)

interpretation query_conn: one_shot_connection "qe_send stringify" qe_destroy redirects isSent
    for stringify
  by unfold_locales (auto simp: qe_send_def qe_destroy_def split: option.splits)

section \<open>What a message listener accepts\<close>

lemma new_message_simps [simp]:
  "payload (new_message p c u) = p" "sourceUrl (new_message p c u) = u"
  "msg_channel (new_message p c u) = (case c of None \<Rightarrow> ANY_CHANNEL | Some x \<Rightarrow> x)"
  by (simp_all add: new_message_def)

text \<open>Whatever address the sender claims, the message counts as coming from the event's origin.\<close>

lemma ml_message_origin:
  assumes "ml_createMessage url_origin parse e = Inr m"
    and "ev_origin e \<noteq> []" "url_origin (ev_origin e) = Some (ev_origin e)"
  shows "message_origin url_origin m = ev_origin e"
  using assms
  by (auto simp: ml_createMessage_def message_origin_def getOrigin_def js_or_def Let_def
      split: option.splits if_splits)

lemma ml_message_opaque:
  assumes "ml_createMessage url_origin parse e = Inr m" "url_origin (ev_origin e) = None"
    and "\<And>u. url_origin u \<noteq> Some (ev_origin e)" "ev_origin e \<noteq> []"
  shows "message_origin url_origin m = ANY_ORIGIN"
  using assms
  by (auto simp: ml_createMessage_def message_origin_def getOrigin_def js_or_def Let_def
      split: option.splits if_splits)

lemma ml_onMessage_Some:
  "ml_onMessage url_origin parse opts e = Some r \<longleftrightarrow>
     (\<exists>m. ml_createMessage url_origin parse e = Inr m \<and> processMessage url_origin opts m = Inr r)"
  by (auto simp: ml_onMessage_def split: sum.splits)

lemma processMessage_Inr:
  "processMessage url_origin opts m = Inr r \<longleftrightarrow>
     r = (payload m, m)
     \<and> (message_origin url_origin m = targetOrigin url_origin opts
          \<or> message_origin url_origin m = ANY_ORIGIN \<or> targetOrigin url_origin opts = ANY_ORIGIN)
     \<and> (msg_channel m = channel opts \<or> msg_channel m = ANY_CHANNEL \<or> channel opts = ANY_CHANNEL)"
  by (auto simp: processMessage_def Let_def)

section \<open>Data in an address\<close>

lemma visible_merge:
  "visible (alist_merge old [(k, v)]) k' = (if k = k' then v else visible old k')"
  by (auto simp: visible_def alist_get_merge split: option.splits)

lemma getDataFromUrl_visible:
  assumes "getSearchParams url = Some ps"
    "\<And>k. k \<noteq> ''__proto__'' \<Longrightarrow> alist_get ps k = map_option Some (visible qs k)"
  shows "getDataFromUrl url = Some (js_or (visible qs QUERY_KEY) [])"
  using assms(2) [of QUERY_KEY] by (cases "visible qs QUERY_KEY") (simp_all add: getDataFromUrl_def assms(1))

lemma get_set_data:
  assumes "getSearchParams url = Some old" "ascii url" "valid_utf8 data"
  shows "\<exists>url'. setDataToUrl url data = Some url' \<and> getDataFromUrl url' = Some data"
proof -
  have "all_valid [(QUERY_KEY, Some data)]"
    using assms(3) by (simp add: all_valid_def ascii_valid byte_def)
  then obtain url' new where u: "setSearchParams url [(QUERY_KEY, Some data)] = Some url'"
    "getSearchParams url' = Some new"
    "\<And>k. k \<noteq> ''__proto__'' \<Longrightarrow>
       alist_get new k = map_option Some (visible (alist_merge old [(QUERY_KEY, Some data)]) k)"
    using setSearchParams_get [OF assms(1) all_valid_getSearchParams [OF assms(1,2)]] by blast
  have "getDataFromUrl url' = Some data"
    using getDataFromUrl_visible [OF u(2,3)] by (cases data) (simp_all add: visible_merge)
  with u(1) show ?thesis by (auto simp: setDataToUrl_def)
qed

lemma remove_data:
  assumes "getSearchParams url = Some old" "ascii url"
  shows "\<exists>url' new. removeDataFromUrl url = Some url' \<and> getDataFromUrl url' = Some []
    \<and> getSearchParams url' = Some new
    \<and> (\<forall>k. k \<noteq> QUERY_KEY \<and> k \<noteq> ''__proto__'' \<longrightarrow> alist_get new k = map_option Some (visible old k))"
proof -
  have "all_valid [(QUERY_KEY, None)]" by (simp add: all_valid_def ascii_valid byte_def)
  then obtain url' new where u: "setSearchParams url [(QUERY_KEY, None)] = Some url'"
    "getSearchParams url' = Some new"
    "\<And>k. k \<noteq> ''__proto__'' \<Longrightarrow>
       alist_get new k = map_option Some (visible (alist_merge old [(QUERY_KEY, None)]) k)"
    using setSearchParams_get [OF assms(1) all_valid_getSearchParams [OF assms]] by blast
  have "getDataFromUrl url' = Some []"
    using getDataFromUrl_visible [OF u(2,3)] by (simp add: visible_merge)
  with u show ?thesis by (auto simp: removeDataFromUrl_def visible_merge)
qed

section \<open>Properties of the channels\<close>

definition accepts :: "url_api \<Rightarrow> 'p parse \<Rightarrow> conn_options \<Rightarrow> message_event \<Rightarrow> bool" where
  "accepts url_origin parse opts e \<longleftrightarrow> ml_onMessage url_origin parse opts e \<noteq> None"

text \<open>
  C40: a window message from a page with a real origin is accepted by an initialised listener only if
  that origin is the one the listener expects, whatever the message says about itself.
\<close>

theorem foreign_origin_refused:
  assumes "accepts url_origin parse opts e"
    and "ev_origin e \<noteq> []" "url_origin (ev_origin e) = Some (ev_origin e)" "ev_origin e \<noteq> ANY_ORIGIN"
    and "targetOrigin url_origin opts \<noteq> ANY_ORIGIN"
  shows "ev_origin e = targetOrigin url_origin opts"
proof -
  obtain r m where m: "ml_createMessage url_origin parse e = Inr m" "processMessage url_origin opts m = Inr r"
    using assms(1) by (auto simp: accepts_def ml_onMessage_Some)
  have "message_origin url_origin m = ev_origin e" by (rule ml_message_origin [OF m(1) assms(2,3)])
  then show ?thesis using m(2) assms(4,5) by (auto simp: processMessage_Inr)
qed

text \<open>
  A message from an opaque origin (a sandboxed frame, whose origin is the text \<open>null\<close>) passes
  the origin check of every listener.
\<close>

theorem opaque_origin_accepted:
  assumes "parse (ev_data e) = Some j" "url_origin (ev_origin e) = None"
    and "ev_origin e \<noteq> []" "j_sourceUrl j = None" "j_channel j = None"
  shows "accepts url_origin parse opts e"
proof -
  have c: "ml_createMessage url_origin parse e
      = Inr (new_message (j_payload j) (j_channel j) (Some (ev_origin e)))"
    using assms by (auto simp: ml_createMessage_def)
  have "message_origin url_origin (new_message (j_payload j) (j_channel j) (Some (ev_origin e))) = ANY_ORIGIN"
    using assms(2,3) by (auto simp: message_origin_def getOrigin_def js_or_def split: list.splits)
  then show ?thesis using c assms(5) by (auto simp: accepts_def ml_onMessage_Some processMessage_Inr)
qed

definition sample_origin :: url_api where
  "sample_origin u = (if take 11 u = ''https://pay'' then Some ''https://pay'' else None)"

definition sample_parse :: "string parse" where
  "sample_parse s = Some \<lparr>j_payload = s, j_channel = None, j_sourceUrl = None\<rparr>"

theorem foreign_origin_refused_witness:
  "accepts sample_origin sample_parse \<lparr>targetUrl = ''https://pay/form'', channel = ANY_CHANNEL\<rparr>
       \<lparr>ev_origin = ''https://pay'', ev_data = ''x''\<rparr>
   \<and> ''https://pay'' = targetOrigin sample_origin \<lparr>targetUrl = ''https://pay/form'', channel = ANY_CHANNEL\<rparr>"
proof -
  let ?o = "\<lparr>targetUrl = ''https://pay/form'', channel = ANY_CHANNEL\<rparr>"
  let ?e = "\<lparr>ev_origin = ''https://pay'', ev_data = ''x''\<rparr>"
  have a: "accepts sample_origin sample_parse ?o ?e"
    by (simp add: accepts_def ml_onMessage_def ml_createMessage_def processMessage_def sample_origin_def
        sample_parse_def message_origin_def targetOrigin_def getOrigin_def)
  have "ev_origin ?e = targetOrigin sample_origin ?o"
    by (rule foreign_origin_refused [OF a]) (simp_all add: sample_origin_def targetOrigin_def getOrigin_def)
  with a show ?thesis by simp
qed

theorem opaque_origin_accepted_witness:
  "accepts sample_origin sample_parse \<lparr>targetUrl = ''https://pay/form'', channel = ''form''\<rparr>
     \<lparr>ev_origin = ''null'', ev_data = ''x''\<rparr>"
  by (rule opaque_origin_accepted [of sample_parse _ "\<lparr>j_payload = ''x'', j_channel = None, j_sourceUrl = None\<rparr>"])
    (simp_all add: sample_origin_def sample_parse_def)

text \<open>
  After \<open>destroy\<close> a window channel posts nothing and a query channel redirects nowhere, and a
  query channel redirects at most once in its life.
\<close>

theorem destroyed_channels_silent:
  "posts (me_peer (fold (me_send url_origin stringify) ps (me_destroy em))) = posts (me_peer em)
   \<and> redirects (fold (qe_send stringify) ps (qe_destroy q)) = redirects q
   \<and> length (redirects (fold (qe_send stringify) ps q)) \<le> Suc (length (redirects q))"
  using message_conn.silent_after_destroy query_conn.silent_after_destroy query_conn.at_most_once by blast

end
