(* ===== verification/ConnectionManager.thy ===== *)
theory ConnectionManager
  imports Connections
begin

text \<open>
  \<open>packages/utils/connections/connection-manager.ts\<close> and the two agents.  The manager's
  state is its options, the address of the page it runs in, what it emitted to its subscribers,
  and which of its two listeners are alive.  \<open>mg_query_timer\<close> is the deferred call of the query
  listener's \<open>onProcess\<close>, \<open>mg_message_event\<close> the \<open>message\<close> event of the window.
\<close>

record 'p manager =
  mg_options :: conn_options
  mg_location :: string
  mg_emitted :: "('p \<times> 'p conn_message) list"
  mg_query_pending :: bool
  mg_listening :: bool

definition mg_new :: "conn_options \<Rightarrow> string \<Rightarrow> 'p manager" where
  "mg_new opts location =
     \<lparr>mg_options = opts, mg_location = location, mg_emitted = [],
      mg_query_pending = True, mg_listening = True\<rparr>"

text \<open>A malformed address makes \<open>clearSource\<close> throw, which \<open>onProcess\<close> swallows.\<close>

definition mg_clearSource :: "'p manager \<Rightarrow> 'p manager" where
  "mg_clearSource mg =
     (case removeDataFromUrl (mg_location mg) of None \<Rightarrow> mg | Some u \<Rightarrow> mg\<lparr>mg_location := u\<rparr>)"

definition mg_updateOptions :: "'p conn_message \<Rightarrow> 'p manager \<Rightarrow> 'p manager" where
  "mg_updateOptions m mg =
     mg\<lparr>mg_options := (mg_options mg)\<lparr>targetUrl := js_or (sourceUrl m) DEFAULT_URL\<rparr>\<rparr>"

definition mg_onMessage :: "'p \<times> 'p conn_message \<Rightarrow> 'p manager \<Rightarrow> 'p manager" where
  "mg_onMessage r mg = mg\<lparr>mg_emitted := mg_emitted mg @ [r]\<rparr>"

definition mg_onOptionsMessage :: "'p \<times> 'p conn_message \<Rightarrow> 'p manager \<Rightarrow> 'p manager" where
  "mg_onOptionsMessage r mg =
     (if isInitialized (mg_options mg) then mg_clearSource mg else mg_updateOptions (snd r) mg)"

definition mg_query_timer :: "url_api \<Rightarrow> 'p parse \<Rightarrow> 'p manager \<Rightarrow> 'p manager" where
  "mg_query_timer url_origin parse mg =
     (if \<not> mg_query_pending mg then mg
      else let mg' = mg\<lparr>mg_query_pending := False\<rparr>
           in case ql_onProcess url_origin parse (mg_options mg) (mg_location mg) of
                None \<Rightarrow> mg'
              | Some r \<Rightarrow> mg_onOptionsMessage r (mg_onMessage r mg'))"

definition mg_message_event ::
  "url_api \<Rightarrow> 'p parse \<Rightarrow> message_event \<Rightarrow> 'p manager \<Rightarrow> 'p manager" where
  "mg_message_event url_origin parse e mg =
     (if \<not> mg_listening mg then mg
      else case ml_onMessage url_origin parse (mg_options mg) e of
             None \<Rightarrow> mg | Some r \<Rightarrow> mg_onMessage r mg)"

definition mg_destroy :: "'p manager \<Rightarrow> 'p manager" where
  "mg_destroy mg = mg\<lparr>mg_query_pending := False, mg_listening := False\<rparr>"

datatype any_emitter =
    NativeEmitter native_emitter | MessageEmitter message_emitter | QueryEmitter query_emitter

record connect_params =
  cp_native :: "peer option"
  cp_message :: "peer option"
  cp_noEmitSourceUrl :: bool

definition mg_connect :: "peer option \<Rightarrow> connect_params \<Rightarrow> 'p manager \<Rightarrow> any_emitter" where
  "mg_connect opener params mg =
     (case cp_native params of
        Some t \<Rightarrow> NativeEmitter \<lparr>ne_options = mg_options mg, ne_location = mg_location mg, ne_peer = t\<rparr>
      | None \<Rightarrow>
          (case me_new (mg_options mg) (mg_location mg)
                  (case cp_message params of None \<Rightarrow> opener | Some t \<Rightarrow> Some t) of
             Some em \<Rightarrow> MessageEmitter em
           | None \<Rightarrow> QueryEmitter (qe_new (mg_options mg) (mg_location mg) (cp_noEmitSourceUrl params))))"

text \<open>
  The agents that open the payment form: a window opened with the message in its address, or,
  when that is refused, a redirect, put off by half a second if \<open>beforeQuery\<close> asks for it (the
  payload that waits is the second component).
\<close>

definition ma_new ::
  "'p stringify \<Rightarrow> conn_options \<Rightarrow> string \<Rightarrow> (string \<Rightarrow> peer option) \<Rightarrow> 'p \<Rightarrow> message_emitter option" where
  "ma_new stringify opts location openWindow p =
     (case setDataToUrl (targetUrl opts) (stringify (emitter_message opts (Some location) p)) of
        None \<Rightarrow> None
      | Some url \<Rightarrow> me_new opts location (openWindow url))"

definition qa_new ::
  "'p stringify \<Rightarrow> conn_options \<Rightarrow> string \<Rightarrow> 'p \<Rightarrow> bool \<Rightarrow> query_emitter \<times> 'p option" where
  "qa_new stringify opts location p delaySending =
     (if delaySending then (qe_new opts location False, Some p)
      else (qe_send stringify p (qe_new opts location False), None))"

definition qa_timer :: "'p stringify \<Rightarrow> query_emitter \<times> 'p option \<Rightarrow> query_emitter \<times> 'p option" where
  "qa_timer stringify a =
     (case snd a of None \<Rightarrow> a | Some p \<Rightarrow> (qe_send stringify p (fst a), None))"

datatype 'p agent = MessageAgent message_emitter | QueryAgent "query_emitter \<times> 'p option"

definition mg_open ::
  "'p stringify \<Rightarrow> (string \<Rightarrow> peer option) \<Rightarrow> (unit \<Rightarrow> bool) option \<Rightarrow> 'p \<Rightarrow> 'p manager \<Rightarrow> 'p agent" where
  "mg_open stringify openWindow beforeQuery p mg =
     (case ma_new stringify (mg_options mg) (mg_location mg) openWindow p of
        Some em \<Rightarrow> MessageAgent em
      | None \<Rightarrow> QueryAgent (qa_new stringify (mg_options mg) (mg_location mg) p
                    (case beforeQuery of None \<Rightarrow> False | Some f \<Rightarrow> f ())))"

lemmas mg_defs = mg_onMessage_def mg_onOptionsMessage_def mg_updateOptions_def mg_clearSource_def
  mg_new_def mg_destroy_def

section \<open>Facts about the manager\<close>

lemma mg_destroyed_silent:
  assumes "\<not> mg_query_pending mg" "\<not> mg_listening mg"
  shows "mg_query_timer url_origin parse mg = mg" "mg_message_event url_origin parse e mg = mg"
  using assms by (simp_all add: mg_query_timer_def mg_message_event_def)

text \<open>The options change only through the first query message of an uninitialised manager.\<close>

lemma mg_message_keeps_options:
  "mg_options (mg_message_event url_origin parse e mg) = mg_options mg"
  by (simp add: mg_message_event_def mg_onMessage_def split: option.splits)

lemma mg_initialised_stays:
  "isInitialized (mg_options mg) \<Longrightarrow>
     mg_options (mg_query_timer url_origin parse mg) = mg_options mg"
  by (auto simp: mg_query_timer_def mg_defs Let_def split: option.splits)

lemma emitter_message_fields:
  "j_payload (emitter_message opts src p) = p"
  "j_channel (emitter_message opts src p) = Some (channel opts)"
  "j_sourceUrl (emitter_message opts src p) = (if truthy src then src else None)"
  by (simp_all add: emitter_message_def message_toJSON_def)

lemma qe_send_fresh:
  assumes "setDataToUrl (targetUrl opts) (stringify (emitter_message opts (Some location) p)) = Some url"
  shows "redirects (qe_send stringify p (qe_new opts location False)) = [url]"
  using assms by (simp add: qe_send_def qe_new_def qe_constructUrl_def)

lemma query_message_received:
  assumes codec: "parse (stringify (emitter_message opts (Some location) p))
                    = Some (emitter_message opts (Some location) p)"
    and "location \<noteq> []"
    and url: "getDataFromUrl url = Some (stringify (emitter_message opts (Some location) p))"
  shows "ql_createMessage parse url = Inr \<lparr>payload = p, msg_channel = channel opts, sourceUrl = Some location\<rparr>"
  using assms by (simp add: ql_createMessage_def emitter_message_fields new_message_def)

lemma targetOrigin_default:
  assumes "url_origin DEFAULT_URL = None" "\<not> isInitialized opts"
  shows "targetOrigin url_origin opts = ANY_ORIGIN"
  using assms by (simp add: targetOrigin_def getOrigin_def isInitialized_def)

section \<open>The handshake over the address\<close>

text \<open>
  C39: the protocol the manager documents, for pages that redirect to each other: the payload that A
  puts into B's address reaches the subscribers of a fresh manager on B once, with A's address, and
  B's manager from then on targets A.
\<close>

theorem query_handshake:
  assumes codec: "parse (stringify (emitter_message opts (Some location) p)) = Some (emitter_message opts (Some location) p)"
    and utf8: "valid_utf8 (stringify (emitter_message opts (Some location) p))"
    and "getSearchParams (targetUrl opts) = Some old" "ascii (targetUrl opts)"
    and "location \<noteq> []" "url_origin DEFAULT_URL = None"
  shows "\<exists>url. redirects (qe_send stringify p (qe_new opts location False)) = [url]
    \<and> mg_emitted (mg_query_timer url_origin parse (mg_new (new_options None None) url))
        = [(p, \<lparr>payload = p, msg_channel = channel opts, sourceUrl = Some location\<rparr>)]
    \<and> targetUrl (mg_options (mg_query_timer url_origin parse (mg_new (new_options None None) url))) = location"
proof -
  let ?m = "emitter_message opts (Some location) p"
  obtain url where u: "setDataToUrl (targetUrl opts) (stringify ?m) = Some url"
    "getDataFromUrl url = Some (stringify ?m)"
    using get_set_data [OF assms(3,4) utf8] by blast
  have r: "redirects (qe_send stringify p (qe_new opts location False)) = [url]"
    using u(1) by (rule qe_send_fresh)
  have "ql_createMessage parse url = Inr \<lparr>payload = p, msg_channel = channel opts, sourceUrl = Some location\<rparr>"
    using codec assms(5) u(2) by (rule query_message_received)
  moreover have "targetOrigin url_origin (new_options None None) = ANY_ORIGIN"
    by (rule targetOrigin_default, rule assms(6)) (simp add: isInitialized_def new_options_def)
  ultimately have q: "ql_onProcess url_origin parse (new_options None None) url
      = Some (p, \<lparr>payload = p, msg_channel = channel opts, sourceUrl = Some location\<rparr>)"
    by (simp add: ql_onProcess_def processMessage_Inr new_options_def split: sum.splits)
      (auto simp: processMessage_def Let_def)
  have "mg_emitted (mg_query_timer url_origin parse (mg_new (new_options None None) url))
        = [(p, \<lparr>payload = p, msg_channel = channel opts, sourceUrl = Some location\<rparr>)]
    \<and> targetUrl (mg_options (mg_query_timer url_origin parse (mg_new (new_options None None) url))) = location"
    using assms(5)
    by (cases location) (simp_all add: mg_query_timer_def mg_defs q [unfolded new_options_def, simplified]
        isInitialized_def new_options_def Let_def)
  with r show ?thesis by blast
qed

theorem query_handshake_witness:
  "\<exists>url. redirects (qe_send (\<lambda>_. ''m'') ''pay'' (qe_new \<lparr>targetUrl = ''/form'', channel = ''c''\<rparr> ''/shop'' False)) = [url]
    \<and> targetUrl (mg_options (mg_query_timer sample_origin
         (\<lambda>_. Some (emitter_message \<lparr>targetUrl = ''/form'', channel = ''c''\<rparr> (Some ''/shop'') ''pay''))
         (mg_new (new_options None None) url))) = ''/shop''"
proof -
  have "getSearchParams ''/form'' = Some []"
    by (simp add: getSearchParams_def getSearchString_def getUrlParts_def Let_def)
  then show ?thesis
    using query_handshake [of "\<lambda>_. Some (emitter_message \<lparr>targetUrl = ''/form'', channel = ''c''\<rparr> (Some ''/shop'') ''pay'')"
        "\<lambda>_. ''m''" "\<lparr>targetUrl = ''/form'', channel = ''c''\<rparr>" "''/shop''" "''pay''" "[]" sample_origin]
    by (auto simp: ascii_def ascii_valid byte_def sample_origin_def)
qed

end
