(* ===== verification/PayTypes.thy ===== *)
theory PayTypes
  imports JsNumber
begin

text \<open>
  The data the checkout exchanges with its server and with the merchant's page:
  \<open>packages/pay-api/api/checkout-server-api\<close> (orders, carts, options, transactions),
  \<open>services/sdk/src/typings\<close> (payment sheets, shipping options, pickup points) and
  \<open>packages/utils/payment-methods/typings.ts\<close>.  A record has the interface's fields in its
  order, each with a prefix, since Isabelle field names share one name space; an optional
  field is an option; a price is the decimal text the program carries.
\<close>

type_synonym Price = string

datatype CurrencyCode =
    RUB | BYN | USD | EUR | KZT | UAH | AMD | GEL | AZN | KGS | GBP | SEK | PLN | INR | CZK | CAD
  | BRL | AUD | UZS | CHF | TRY | CNY | ZAR | BGN | RON | HKD | AED

datatype ApiPaymentMethodType = API_CARD | API_SPLIT | API_CASH_ON_DELIVERY | API_CARD_ON_DELIVERY

datatype ShippingMethodType = COURIER | PICKUP | YANDEX_DELIVERY

datatype CouponStatus = VALID | INVALID | EXPIRED

datatype TransactionStatus = NEW | AUTHORIZED | CHARGED | THREEDS_CHALLENGE | FAILED

record GeoPoint =
  gp_latitude :: jsnum
  gp_longitude :: jsnum

record GeoBounds =
  gb_sw :: GeoPoint
  gb_ne :: GeoPoint

section \<open>The checkout server: carts and orders\<close>

record ApiCoupon =
  ac_value :: string
  ac_status :: CouponStatus
  ac_description :: string

record OrderCartTotal =
  oct_label :: "string option"
  oct_amount :: Price

record Discount =
  dc_description :: string
  dc_discountId :: string
  dc_amount :: Price

record OrderItemQuantity =
  oiq_count :: string
  oiq_available :: "string option"
  oiq_label :: "string option"

record Measurements =
  ms_width :: "jsnum option"
  ms_height :: "jsnum option"
  ms_length :: "jsnum option"
  ms_weight :: "jsnum option"

record Receipt =
  rc_title :: "string option"
  rc_tax :: jsnum
  rc_measure :: jsnum

record ApiOrderItem =
  oi_title :: "string option"
  oi_measurements :: "Measurements option"
  oi_total :: Price
  oi_unitPrice :: "Price option"
  oi_subtotal :: "Price option"
  oi_productId :: string
  oi_discountedUnitPrice :: "Price option"
  oi_quantity :: OrderItemQuantity
  oi_receipt :: "Receipt option"

record OrderCart =
  cart_cartId :: string
  cart_externalId :: "string option"
  cart_items :: "ApiOrderItem list"
  cart_measurements :: "Measurements option"
  cart_coupons :: "ApiCoupon list option"
  cart_discounts :: "Discount list option"
  cart_total :: "OrderCartTotal option"

record Schedule =
  sch_label :: string
  sch_fromTime :: string
  sch_toTime :: string

record PickupOption =
  po_location :: GeoPoint
  po_title :: string
  po_toDate :: "string option"
  po_address :: string
  po_amount :: "Price option"
  po_schedule :: "Schedule list option"
  po_provider :: string
  po_pickupPointId :: string
  po_phones :: "string list option"
  po_description :: "string option"
  po_fromDate :: "string option"
  po_storagePeriod :: "jsnum option"

record ShippingCourierOption =
  co_courierOptionId :: string
  co_title :: string
  co_amount :: Price
  co_toTime :: "string option"
  co_category :: string
  co_fromDate :: string
  co_toDate :: "string option"
  co_provider :: string
  co_fromTime :: "string option"

record OrderPaymentMethod =
  opm_cardNetwork :: "string option"
  opm_cardLast4 :: "string option"
  opm_methodType :: ApiPaymentMethodType

record Shipping =
  sp_pickupOption :: "PickupOption option"
  sp_methodType :: ShippingMethodType
  sp_courierOption :: "ShippingCourierOption option"

record RequiredContact =
  rq_phone :: bool
  rq_email :: bool
  rq_name :: bool

record OrderRequiredFields =
  orf_billingContact :: "RequiredContact option"
  orf_shippingContact :: "RequiredContact option"

record OrderShipping =
  os_availableCourierOptions :: "ShippingCourierOption list option"
  os_availableMethods :: "ShippingMethodType list"

record CartRequestItem =
  cri_productId :: string
  cri_count :: string

record RenderCartRequest =
  rcr_externalId :: "string option"
  rcr_items :: "CartRequestItem list"
  rcr_coupons :: "string list option"

record RenderOrderRequest =
  ror_merchantId :: string
  ror_currencyCode :: CurrencyCode
  ror_cart :: RenderCartRequest
  ror_shippingAddressId :: "string option"
  ror_metadata :: "string option"

record RenderOrderResponse =
  ro_currencyCode :: CurrencyCode
  ro_cart :: OrderCart
  ro_merchantId :: "string option"
  ro_requiredFields :: "OrderRequiredFields option"
  ro_enableCoupons :: "bool option"
  ro_enableCommentField :: "bool option"
  ro_availablePaymentMethods :: "ApiPaymentMethodType list option"
  ro_shipping :: "OrderShipping option"
  ro_metadata :: "string option"

record BillingContact =
  bc_email :: "string option"
  bc_phone :: "string option"

record CreateOrderRequest =
  cor_merchantId :: string
  cor_currencyCode :: CurrencyCode
  cor_cart :: OrderCart
  cor_orderAmount :: "Price option"
  cor_paymentMethod :: "OrderPaymentMethod option"
  cor_shippingMethod :: "Shipping option"
  cor_shippingAddressId :: "string option"
  cor_shippingContactId :: "string option"
  cor_billingContact :: "BillingContact option"
  cor_metadata :: "string option"

section \<open>The merchant's side: payment sheets\<close>

datatype OrderItemType = ItPickup | ItShipping | ItDiscount | ItPromocode

record SheetItem =
  si_id :: string
  si_amount :: Price
  si_type :: "OrderItemType option"
  si_label :: "string option"
  si_quantity :: "OrderItemQuantity option"

record SheetTotal =
  st_amount :: Price
  st_label :: "string option"

record SheetOrder =
  so_id :: string
  so_items :: "SheetItem list"
  so_total :: SheetTotal

datatype AllowedAuthMethod = CloudToken | PanOnly

datatype AllowedCardNetwork =
    NetAmericanExpress | NetDiscover | NetJcb | NetMastercard | NetVisa | NetVisaElectron
  | NetMaestro | NetMir | NetUnionPay | NetUzcard

datatype SheetPaymentMethod =
    CardMethod (cm_gateway: string) (cm_gatewayMerchantId: string)
      (cm_allowedAuthMethods: "AllowedAuthMethod list")
      (cm_allowedCardNetworks: "AllowedCardNetwork list") (cm_verificationDetails: "bool option")
  | CashMethod
  | SplitMethod

record Merchant =
  mr_id :: string
  mr_name :: string
  mr_url :: "string option"

datatype CountryCode = CountryRu | CountryUs | CountryBy

record SheetRequiredFields =
  srf_billing_name :: bool
  srf_billing_email :: bool
  srf_shipping_name :: bool
  srf_shipping_email :: bool
  srf_shipping_phone :: bool
  srf_direct :: bool
  srf_pickup :: bool

record InitPaymentSheet =
  is_version :: nat
  is_merchant :: Merchant
  is_order :: SheetOrder
  is_metadata :: "string option"
  is_currencyCode :: CurrencyCode
  is_paymentMethods :: "SheetPaymentMethod list option"

record PaymentSheet =
  ps_version :: nat
  ps_merchant :: Merchant
  ps_currencyCode :: CurrencyCode
  ps_countryCode :: CountryCode
  ps_requiredFields :: SheetRequiredFields
  ps_coupons :: bool
  ps_comment :: bool
  ps_order :: SheetOrder
  ps_paymentMethods :: "SheetPaymentMethod list"

section \<open>Shipping options and pickup points\<close>

record ShippingOption =
  sho_id :: string
  sho_provider :: string
  sho_amount :: Price
  sho_category :: "string option"
  sho_date :: "int option"
  sho_time :: "(int \<times> int) option"
  sho_label :: "string option"
  sho_raw :: ShippingCourierOption

record PickupPointSchedule =
  pps_label :: string
  pps_timeFrom :: string
  pps_timeTo :: string

record PickupPointInfo =
  ppi_schedule :: "PickupPointSchedule list option"
  ppi_contacts :: "string list option"
  ppi_description :: "string option"
  ppi_tripDescription :: "string option"

record PickupPoint =
  pp_id :: string
  pp_label :: string
  pp_provider :: "string option"
  pp_address :: string
  pp_deliveryDate :: "int option"
  pp_storagePeriod :: "jsnum option"
  pp_amount :: "Price option"
  pp_coordinates :: GeoPoint
  pp_info :: "PickupPointInfo option"
  pp_raw :: PickupOption

section \<open>Payment methods, addresses and contacts of the user\<close>

datatype PaymentMethodType = PmtCard | PmtNewCard | PmtCash | PmtSplit

text \<open>What the server tells of the payment method of a token.\<close>

datatype PaymentMethodInfo =
    CardPaymentMethodInfo (cmi_cardLast4: string) (cmi_cardNetwork: string)
  | SplitPaymentMethodInfo (smi_orderId: string) (smi_checkoutUrl: string) string string
  | CashPaymentMethodInfo

record CardPaymentMethod =
  pm_type :: PaymentMethodType
  pm_key :: string
  pm_disabled :: bool
  pm_id :: string
  pm_uid :: string
  pm_lastDigits :: string
  pm_system :: string
  pm_issuer :: string

record Address =
  ad_id :: string
  ad_ownerService :: string
  ad_type :: string
  ad_zip :: string
  ad_country :: string
  ad_region :: string
  ad_locality :: string
  ad_street :: string
  ad_building :: string
  ad_room :: string
  ad_entrance :: string
  ad_floor :: string
  ad_intercom :: string
  ad_comment :: string
  ad_location :: GeoPoint

record Contact =
  ct_id :: string
  ct_ownerService :: string
  ct_firstName :: string
  ct_lastName :: string
  ct_secondName :: string
  ct_email :: string
  ct_phoneNumber :: string

end
