(* ===== verification/Rounding.thy ===== *)
theory Rounding
  imports JsNumber
begin

text \<open>
  Facts about the number model that the amount code needs: how far rounding to double can be
  from the exact value, and that the two-decimal texts the back end sends (\<open>cents_str c\<close>
  for \<open>c\<close> hundredths) are read and printed exactly.
\<close>

section \<open>Error of one rounding\<close>

lemma round_even_err: "\<bar>of_int (round_even x) - x\<bar> \<le> 1 / 2"
proof -
  have "of_int \<lfloor>x\<rfloor> \<le> x" "x < of_int \<lfloor>x\<rfloor> + 1" by linarith+
  then show ?thesis by (auto simp: round_even_def Let_def abs_le_iff)
qed

lemma round_even_nonneg: "0 \<le> x \<Longrightarrow> 0 \<le> round_even x"
  by (auto simp: round_even_def Let_def)

lemma ilog2_le:
  assumes "0 < x" shows "2 powi ilog2 x \<le> x"
proof -
  obtain n d where q: "quotient_of x = (n, d)" by (cases "quotient_of x")
  have d: "0 < d" using quotient_of_denom_pos [OF q] .
  have x: "x = of_int n / of_int d" using quotient_of_div [OF q] .
  then have n: "0 < n" using assms d by (simp add: zero_less_divide_iff)
  have bn: "2 ^ nat (bitlen n - 1) \<le> n" using bitlen_bounds [OF n] by simp
  have bd: "d < 2 ^ nat (bitlen d)" using bitlen_bounds [OF d] by simp
  have n1: "1 \<le> bitlen n" and d1: "0 \<le> bitlen d"
    using n by (simp_all add: bitlen_def floorlog_def)
  let ?c = "bitlen n - bitlen d"
  obtain p where p: "bitlen n - 1 = int p" using n1 by (metis diff_ge_0_iff_ge nonneg_int_cases)
  obtain q where q': "bitlen d = int q" using d1 by (metis nonneg_int_cases)
  have "(2::rat) powi (?c - 1) = 2 powi (int p - int q)" using p q' by (simp add: algebra_simps)
  also have "\<dots> = 2 ^ p / 2 ^ q" by (simp add: power_int_diff)
  also have "\<dots> = 2 ^ nat (bitlen n - 1) / 2 ^ nat (bitlen d)" by (simp add: p q')
  also have "\<dots> \<le> of_int n / of_int d"
  proof (rule frac_le)
    show "(2::rat) ^ nat (bitlen n - 1) \<le> of_int n"
      using bn by (metis of_int_le_iff of_int_numeral of_int_power)
    show "(0::rat) < of_int d" using d by simp
    show "of_int d \<le> (2::rat) ^ nat (bitlen d)"
      using bd by (metis less_le of_int_le_iff of_int_numeral of_int_power)
  qed (use n in simp)
  finally have "2 powi (?c - 1) \<le> x" by (simp add: x)
  then show ?thesis by (auto simp: ilog2_def q Let_def)
qed

lemma fl_exp_bound:
  assumes "x \<noteq> 0" shows "2 powi fl_exp x \<le> \<bar>x\<bar> / 2 ^ 52 + 1 / 2 ^ 59"
proof (cases "-1074 \<le> ilog2 \<bar>x\<bar> - 52")
  case True
  have "(2::rat) powi (ilog2 \<bar>x\<bar> - 52) = 2 powi ilog2 \<bar>x\<bar> / 2 ^ 52"
    by (simp add: power_int_diff)
  also have "\<dots> \<le> \<bar>x\<bar> / 2 ^ 52"
    using ilog2_le [of "\<bar>x\<bar>"] assms by (simp add: divide_right_mono)
  finally show ?thesis using True by (simp add: fl_exp_def max_def)
next
  case False
  then have "(2::rat) powi fl_exp x = 2 powi (-1074)" by (simp add: fl_exp_def max_def)
  also have "\<dots> = 1 / 2 ^ 1074" by (simp add: power_int_minus_divide)
  also have "\<dots> \<le> 1 / 2 ^ 59" by (rule divide_left_mono) (simp_all add: power_increasing)
  finally show ?thesis by (simp add: add_increasing)
qed

lemma fl_err: "\<bar>fl x - x\<bar> \<le> \<bar>x\<bar> / 2 ^ 53 + 1 / 2 ^ 60"
proof (cases "x = 0")
  case False
  let ?u = "(2::rat) powi fl_exp x"
  have u: "0 < ?u" by simp
  have "fl x - x = (of_int (round_even (x / ?u)) - x / ?u) * ?u"
    using False u by (simp add: fl_def field_simps)
  then have "\<bar>fl x - x\<bar> = \<bar>of_int (round_even (x / ?u)) - x / ?u\<bar> * ?u"
    using u by (simp add: abs_mult)
  also have "\<dots> \<le> 1 / 2 * ?u"
    using round_even_err u by (intro mult_right_mono) auto
  also have "\<dots> \<le> 1 / 2 * (\<bar>x\<bar> / 2 ^ 52 + 1 / 2 ^ 59)"
    using fl_exp_bound [OF False] by simp
  finally show ?thesis by simp
qed (simp add: fl_def)

lemma fl_nonneg: "0 \<le> x \<Longrightarrow> 0 \<le> fl x"
  by (simp add: fl_def round_even_nonneg)

lemma fl_0 [simp]: "fl 0 = 0"
  by (simp add: fl_def)

lemma to_double_0 [simp]: "to_double 0 = Fin 0"
  by (simp add: to_double_def)

lemma to_double_small:
  assumes "\<bar>x\<bar> \<le> 2 ^ 100" shows "to_double x = Fin (fl x)"
proof -
  have "\<bar>fl x - x\<bar> \<le> 2 ^ 100 / 2 ^ 53 + 1 / 2 ^ 60"
    using fl_err [of x] assms by (simp add: field_simps)
  also have "\<dots> \<le> 2 ^ 100" by (simp add: field_simps)
  finally have b: "\<bar>fl x\<bar> \<le> 2 ^ 101" using assms by (simp add: abs_le_iff)
  have "(2::rat) ^ 101 < 2 ^ 1024" by (rule power_strict_increasing) simp_all
  with b have "\<bar>fl x\<bar> < 2 ^ 1024" by (rule le_less_trans)
  then show ?thesis by (auto simp: to_double_def Let_def abs_less_iff not_le)
qed

section \<open>Reading and printing hundredths\<close>

lemma of_char_int_char_of: "(of_char (char_of (k :: int) :: char) :: int) = k mod 256"
  by (rule of_char_of)

lemma digit_char:
  "0 \<le> n \<Longrightarrow> n \<le> 9 \<Longrightarrow> is_digit (char_of (n + 48 :: int)) \<and> digit_val (char_of (n + 48)) = n"
  by (simp add: is_digit_def digit_val_def of_char_int_char_of)

lemma int_digits_digit: "0 \<le> n \<Longrightarrow> list_all is_digit (int_digits n)"
proof (induction n rule: int_digits.induct)
  case (1 n)
  show ?case
    by (subst int_digits.simps) (use 1 in \<open>auto simp: digit_char pos_imp_zdiv_nonneg_iff\<close>)
qed

lemma int_digits_nonempty: "int_digits n \<noteq> []"
  by (subst int_digits.simps) simp

lemma digits_val_append:
  "digits_val (xs @ ys) = digits_val xs * 10 ^ length ys + digits_val ys"
proof (induction ys rule: rev_induct)
  case (snoc y ys)
  have "digits_val (xs @ ys @ [y]) = 10 * digits_val (xs @ ys) + digit_val y"
    by (simp add: digits_val_def)
  moreover have "digits_val (ys @ [y]) = 10 * digits_val ys + digit_val y"
    by (simp add: digits_val_def)
  ultimately show ?case using snoc by (simp add: algebra_simps)
qed (simp add: digits_val_def)

lemma digits_val_int_digits: "0 \<le> n \<Longrightarrow> digits_val (int_digits n) = n"
proof (induction n rule: int_digits.induct)
  case (1 n)
  show ?case
  proof (cases "n < 10")
    case True
    with 1 show ?thesis by (subst int_digits.simps) (simp add: digits_val_def digit_char)
  next
    case False
    with 1 have "digits_val (int_digits (n div 10)) = n div 10" by (simp add: pos_imp_zdiv_nonneg_iff)
    with False show ?thesis
      by (subst int_digits.simps) (simp add: digits_val_append digits_val_def digit_char)
  qed
qed

lemma two_digits_val:
  "digits_val (two_digits c) = c mod 100" "list_all is_digit (two_digits c)" "length (two_digits c) = 2"
proof -
  have "c mod 100 = 10 * (c div 10 mod 10) + c mod 10"
    using zmod_zmult2_eq [of 10 c 10] by simp
  then show "digits_val (two_digits c) = c mod 100"
    by (simp add: two_digits_def digits_val_def digit_char)
qed (simp_all add: two_digits_def digit_char)

lemma digit_not_special:
  "is_digit c \<Longrightarrow> \<not> is_js_space c \<and> c \<noteq> CHR ''-'' \<and> c \<noteq> CHR ''+'' \<and> c \<noteq> CHR ''.''
     \<and> c \<noteq> CHR ''x'' \<and> c \<noteq> CHR ''X'' \<and> c \<noteq> CHR ''o'' \<and> c \<noteq> CHR ''O'' \<and> c \<noteq> CHR ''b''
     \<and> c \<noteq> CHR ''B'' \<and> c \<noteq> CHR ''I''"
  by (auto simp: is_digit_def is_js_space_def)

lemma takeWhile_digits:
  "list_all P xs \<Longrightarrow> \<not> P c \<Longrightarrow> takeWhile P (xs @ c # ys) = xs"
  "list_all P xs \<Longrightarrow> \<not> P c \<Longrightarrow> dropWhile P (xs @ c # ys) = c # ys"
  by (induction xs) auto

lemma list_all_while:
  "list_all P xs \<Longrightarrow> takeWhile P xs = xs" "list_all P xs \<Longrightarrow> dropWhile P xs = []"
  by (induction xs) auto

lemma js_trim_id:
  assumes "s \<noteq> []" "\<not> is_js_space (hd s)" "\<not> is_js_space (last s)"
  shows "js_trim s = s"
proof -
  have "dropWhile is_js_space s = s" using assms(1,2) by (cases s) auto
  moreover have "dropWhile is_js_space (rev s) = rev s"
    using assms(1,3) by (cases s rule: rev_cases) auto
  ultimately show ?thesis by (simp add: js_trim_def)
qed

lemma parse_cents: "0 \<le> c \<Longrightarrow> parse_decimal (cents_str c) = Some (of_int c / 100)"
proof -
  assume c: "0 \<le> c"
  let ?i = "int_digits (c div 100)"
  have i: "list_all is_digit ?i" "?i \<noteq> []"
    using c by (simp_all add: int_digits_digit int_digits_nonempty pos_imp_zdiv_nonneg_iff)
  have dot: "\<not> is_digit CHR ''.''" by (simp add: is_digit_def)
  have v: "digits_val (?i @ two_digits c) = c"
    using c by (simp add: digits_val_append digits_val_int_digits two_digits_val
        pos_imp_zdiv_nonneg_iff mult.commute)
  show ?thesis
    using i v by (simp add: parse_decimal_def cents_str_def takeWhile_digits [OF i(1) dot]
        list_all_while two_digits_val Let_def parse_exp_def power_int_minus_divide)
qed

lemma js_Number_plain:
  assumes "js_trim s = s" "s \<noteq> []" "take 2 s \<notin> {''0x'', ''0X''}" "take 2 s \<notin> {''0o'', ''0O''}"
    "take 2 s \<notin> {''0b'', ''0B''}" "hd s \<noteq> CHR ''-''" "hd s \<noteq> CHR ''+''" "s \<noteq> ''Infinity''"
  shows "js_Number s = (case parse_decimal s of None \<Rightarrow> NaN | Some v \<Rightarrow> to_double v)"
  by (simp only: js_Number_def Let_def assms if_False simp_thms)

lemma js_Number_cents:
  assumes "0 \<le> c" shows "js_Number (cents_str c) = to_double (of_int c / 100)"
proof -
  let ?i = "int_digits (c div 100)"
  have i: "list_all is_digit ?i" "?i \<noteq> []"
    using assms by (simp_all add: int_digits_digit int_digits_nonempty pos_imp_zdiv_nonneg_iff)
  then obtain a as where ia: "?i = a # as" and a: "is_digit a" and as: "list_all is_digit as"
    by (cases ?i) auto
  have two: "two_digits c = [char_of (c div 10 mod 10 + 48), char_of (c mod 10 + 48)]"
    by (simp add: two_digits_def)
  have lst: "is_digit (char_of (c mod 10 + 48))" by (simp add: digit_char)
  have hd: "cents_str c \<noteq> []" "hd (cents_str c) = a" by (simp_all add: cents_str_def ia)
  have last: "last (cents_str c) = char_of (c mod 10 + 48)"
    by (simp only: cents_str_def two last_append list.simps last.simps if_False if_True simp_thms)
  have trim: "js_trim (cents_str c) = cents_str c"
    using digit_not_special [OF a] digit_not_special [OF lst]
    by (intro js_trim_id hd(1)) (simp_all only: hd last simp_thms)
  obtain b where b: "take 2 (cents_str c) = [a, b]" "is_digit b \<or> b = CHR ''.''"
    using as by (cases as) (auto simp: cents_str_def ia)
  from b(2) have "b \<notin> {CHR ''x'', CHR ''X'', CHR ''o'', CHR ''O'', CHR ''b'', CHR ''B''}"
  proof
    assume "is_digit b"
    then show ?thesis by (simp add: digit_not_special)
  qed simp
  then have take2: "take 2 (cents_str c) \<notin> {''0x'', ''0X''}"
    "take 2 (cents_str c) \<notin> {''0o'', ''0O''}" "take 2 (cents_str c) \<notin> {''0b'', ''0B''}"
    by (simp_all add: b(1))
  have inf: "cents_str c \<noteq> ''Infinity''"
  proof
    assume "cents_str c = ''Infinity''"
    then have "a = CHR ''I''" using hd by simp
    with digit_not_special [OF a] show False by simp
  qed
  have "hd (cents_str c) \<noteq> CHR ''-''" "hd (cents_str c) \<noteq> CHR ''+''"
    using digit_not_special [OF a] hd by simp_all
  then have "js_Number (cents_str c)
      = (case parse_decimal (cents_str c) of None \<Rightarrow> NaN | Some v \<Rightarrow> to_double v)"
    by (rule js_Number_plain [OF trim hd(1) take2 _ _ inf])
  then show ?thesis by (simp only: parse_cents [OF assms] option.case)
qed

lemma toFixed_near:
  assumes "0 \<le> y" "\<bar>y - of_int c / 100\<bar> < 1 / 200" "c < 10 ^ 20"
  shows "js_toFixed2 (Fin y) = cents_str c"
proof -
  have "(of_int c :: rat) < of_int (10 ^ 20)" using assms(3) by (simp only: of_int_less_iff)
  then have "(of_int c :: rat) < 10 ^ 20" by (simp only: of_int_power of_int_numeral)
  then have "of_int c / 100 + 1 / 200 < (10 ^ 20 / 100 + 1 / 200 :: rat)"
    by (intro add_strict_right_mono divide_strict_right_mono) simp_all
  moreover have "y < of_int c / 100 + 1 / 200" using assms(2) by (simp only: abs_less_iff) linarith
  ultimately have "y < 10 ^ 20 / 100 + 1 / 200" by (rule order.strict_trans [rotated])
  also have "\<dots> < (10 ^ 21 :: rat)" by simp
  finally have "y < 10 ^ 21" .
  moreover have "\<lfloor>y * 100 + 1 / 2\<rfloor> = c"
  proof (rule floor_unique)
    have "- (1 / 200) < y - of_int c / 100" "y - of_int c / 100 < 1 / 200"
      using assms(2) by (simp_all only: abs_less_iff) linarith+
    then show "of_int c \<le> y * 100 + 1 / 2" "y * 100 + 1 / 2 < of_int c + 1" by linarith+
  qed
  ultimately show ?thesis using assms(1) by simp
qed

end
