(* ===== verification/Amount.thy ===== *)
theory Amount
  imports Rounding "HOL-Library.Multiset"
begin

text \<open>
  \<open>packages/utils/math/index.ts\<close> and \<open>packages/utils/math/amount.ts\<close>: prices are decimal
  texts, added and multiplied as JavaScript numbers and printed with two decimals.

  The contract of this component is an interpretation of \<open>money\<close>: on texts that encode a
  number of hundredths, sums and differences are those of the encoded integers.
\<close>

type_synonym price = string

section \<open>math/index.ts\<close>

definition toNum :: "string \<Rightarrow> jsnum \<Rightarrow> jsnum" where
  "toNum val def = (let num = js_Number val in if num = NaN then def else num)"

text \<open>\<open>Math.round(x) = floor(x + 1/2)\<close> on the exact value.\<close>

fun js_round :: "jsnum \<Rightarrow> jsnum" where
  "js_round (Fin x) = Fin (of_int \<lfloor>x + 1 / 2\<rfloor>)"
| "js_round x = x"

fun js_div_pos :: "jsnum \<Rightarrow> rat \<Rightarrow> jsnum" where
  "js_div_pos (Fin x) b = to_double (x / b)"
| "js_div_pos x b = x"

definition roundAmount :: "jsnum \<Rightarrow> nat \<Rightarrow> jsnum" where
  "roundAmount value precision =
     (let decimalBase = 10 ^ precision
      in js_div_pos (js_round (js_mul value (Fin decimalBase))) decimalBase)"

definition amountSum :: "jsnum \<Rightarrow> jsnum \<Rightarrow> jsnum" where
  "amountSum valA valB = roundAmount (js_add valA valB) 2"

definition amountDiff :: "jsnum \<Rightarrow> jsnum \<Rightarrow> jsnum" where
  "amountDiff valA valB = roundAmount (js_sub valA valB) 2"

section \<open>math/amount.ts\<close>

definition isFree :: "string \<Rightarrow> bool" where
  "isFree amount = (js_Number amount = Fin 0)"

definition sum_num :: "jsnum \<Rightarrow> price list \<Rightarrow> jsnum" where
  "sum_num = foldl (\<lambda>res amount. js_add res (toNum amount (Fin 0)))"

definition sumAmount :: "price list \<Rightarrow> price" where
  "sumAmount amounts = js_toFixed2 (sum_num (Fin 0) amounts)"

definition diffAmount :: "price \<Rightarrow> price \<Rightarrow> price" where
  "diffAmount amountA amountB =
     js_toFixed2 (js_sub (toNum amountA (Fin 0)) (toNum amountB (Fin 0)))"

definition mulAmount :: "price list \<Rightarrow> price" where
  "mulAmount amounts =
     js_toFixed2 (foldl (\<lambda>res amount. js_mul res (toNum amount (Fin 0))) (Fin 1) amounts)"

section \<open>Sums of hundredths are exact\<close>

text \<open>
  \<open>sum_bound\<close> is \<open>2 ^ 33\<close> currency units, in hundredths; with at most 1024 summands the
  accumulated rounding error stays below half a hundredth.
\<close>

definition sum_bound :: int where
  "sum_bound = 100 * 2 ^ 33"

lemma toNum_cents:
  assumes "0 \<le> c" "c \<le> sum_bound"
  shows "toNum (cents_str c) d = Fin (fl (of_int c / 100))"
proof -
  have "(of_int c :: rat) \<le> of_int (100 * 2 ^ 33)"
    using assms(2) by (simp only: of_int_le_iff sum_bound_def)
  then have "\<bar>(of_int c :: rat) / 100\<bar> \<le> 2 ^ 100" using assms(1) by simp
  then have "js_Number (cents_str c) = Fin (fl (of_int c / 100))"
    by (simp only: js_Number_cents [OF assms(1)] to_double_small)
  then show ?thesis by (simp add: toNum_def Let_def)
qed

text \<open>One addition: the error grows by at most \<open>2 ^ -18\<close>.\<close>

lemma add_step_err:
  fixes y s c :: rat
  assumes "0 \<le> y" "0 \<le> s" "0 \<le> c" "s + c \<le> 2 ^ 33" "\<bar>y - s\<bar> \<le> e" "e \<le> 1 / 2"
  shows "js_add (Fin y) (Fin (fl c)) = Fin (fl (y + fl c))"
    and "0 \<le> fl (y + fl c)"
    and "\<bar>fl (y + fl c) - (s + c)\<bar> \<le> e + 1 / 2 ^ 18"
proof -
  have c1: "\<bar>fl c - c\<bar> \<le> c / 2 ^ 53 + 1 / 2 ^ 60" using fl_err [of c] assms(3) by simp
  have cu: "c \<le> 2 ^ 33" using assms(2,4) by linarith
  have c2: "\<bar>fl c - c\<bar> \<le> 1 / 2 ^ 19" using c1 cu by (simp add: field_simps)
  have z0: "0 \<le> y + fl c" using assms(1,3) fl_nonneg by simp
  have zu: "y + fl c \<le> 2 ^ 33 + 1" 
  proof -
    have "fl c \<le> c + 1 / 2 ^ 19" "y \<le> s + e" using c2 assms(5) by (simp_all only: abs_le_iff) linarith+
    moreover have "1 / 2 ^ 19 \<le> (1 / 2 :: rat)" by simp
    ultimately show ?thesis using assms(4,6) by linarith
  qed
  have z1: "\<bar>fl (y + fl c) - (y + fl c)\<bar> \<le> (y + fl c) / 2 ^ 53 + 1 / 2 ^ 60"
    using fl_err [of "y + fl c"] z0 by simp
  have z2: "\<bar>fl (y + fl c) - (y + fl c)\<bar> \<le> 1 / 2 ^ 19" using z1 zu by (simp add: field_simps)
  show "js_add (Fin y) (Fin (fl c)) = Fin (fl (y + fl c))"
    using z0 zu by (simp add: to_double_small)
  show "0 \<le> fl (y + fl c)" using z0 by (rule fl_nonneg)
  have "\<bar>fl (y + fl c) - (s + c)\<bar> \<le> \<bar>fl (y + fl c) - (y + fl c)\<bar> + \<bar>y - s\<bar> + \<bar>fl c - c\<bar>"
    by linarith
  also have "\<dots> \<le> 1 / 2 ^ 19 + e + 1 / 2 ^ 19" using z2 c2 assms(5) by linarith
  finally show "\<bar>fl (y + fl c) - (s + c)\<bar> \<le> e + 1 / 2 ^ 18" by simp
qed

lemma sum_num_err:
  fixes y s :: rat
  assumes "0 \<le> y" "0 \<le> s" "\<forall>c \<in> set cs. 0 \<le> c" "k + length cs \<le> 1024"
    "\<bar>y - s\<bar> \<le> of_nat k / 2 ^ 18" "s + of_int (sum_list cs) / 100 \<le> 2 ^ 33"
  shows "\<exists>z. sum_num (Fin y) (map cents_str cs) = Fin z \<and> 0 \<le> z
           \<and> \<bar>z - (s + of_int (sum_list cs) / 100)\<bar> \<le> of_nat (k + length cs) / 2 ^ 18"
  using assms
proof (induction cs arbitrary: y s k)
  case Nil
  then show ?case by (simp add: sum_num_def)
next
  case (Cons c cs)
  have c0: "0 \<le> c" and rest: "0 \<le> sum_list cs"
    using Cons.prems(3) by (auto intro: sum_list_nonneg)
  have cq: "(0::rat) \<le> of_int c / 100" "(0::rat) \<le> of_int (sum_list cs) / 100"
    using c0 rest by simp_all
  have sc: "s + of_int c / 100 + of_int (sum_list cs) / 100 \<le> 2 ^ 33"
    using Cons.prems(6) by (simp add: add_divide_distrib algebra_simps)
  then have sc1: "s + of_int c / 100 \<le> 2 ^ 33" using cq by linarith
  have "(of_int c :: rat) \<le> of_int (100 * 2 ^ 33)" using sc1 Cons.prems(2) by simp
  then have cb: "c \<le> sum_bound" by (simp only: of_int_le_iff sum_bound_def)
  have k: "of_nat k / 2 ^ 18 \<le> (1 / 2 :: rat)" using Cons.prems(4) by simp
  note step = add_step_err [OF Cons.prems(1,2) cq(1) sc1 Cons.prems(5) k]
  let ?y = "fl (y + fl (of_int c / 100))"
  have "\<bar>?y - (s + of_int c / 100)\<bar> \<le> of_nat (Suc k) / 2 ^ 18"
    using step(3) by (simp add: add_divide_distrib add.commute)
  moreover have "0 \<le> s + of_int c / 100" using Cons.prems(2) cq(1) by simp
  ultimately obtain z where z: "sum_num (Fin ?y) (map cents_str cs) = Fin z" "0 \<le> z"
    "\<bar>z - (s + of_int c / 100 + of_int (sum_list cs) / 100)\<bar> \<le> of_nat (Suc k + length cs) / 2 ^ 18"
    using Cons.IH [of ?y "s + of_int c / 100" "Suc k"] Cons.prems(3,4) step(2) sc by auto
  have "sum_num (Fin y) (map cents_str (c # cs)) = sum_num (Fin ?y) (map cents_str cs)"
    by (simp only: sum_num_def list.map foldl_Cons toNum_cents [OF c0 cb] step(1))
  with z show ?case by (auto simp: add_divide_distrib algebra_simps)
qed

text \<open>What the price texts encode, and when sums of them are exact.\<close>

definition exact_range :: "int list \<Rightarrow> bool" where
  "exact_range cs \<longleftrightarrow> length cs \<le> 1024 \<and> (\<forall>c \<in> set cs. 0 \<le> c) \<and> sum_list cs \<le> sum_bound"

lemma sumAmount_cents:
  assumes "exact_range cs" shows "sumAmount (map cents_str cs) = cents_str (sum_list cs)"
proof -
  have b: "(of_int (sum_list cs) :: rat) \<le> of_int (100 * 2 ^ 33)"
    using assms by (simp only: exact_range_def of_int_le_iff sum_bound_def)
  then obtain z where z: "sum_num (Fin 0) (map cents_str cs) = Fin z" "0 \<le> z"
    "\<bar>z - of_int (sum_list cs) / 100\<bar> \<le> of_nat (length cs) / 2 ^ 18"
    using sum_num_err [of 0 0 cs 0] assms by (auto simp: exact_range_def)
  have "(of_nat (length cs) :: rat) / 2 ^ 18 \<le> 1024 / 2 ^ 18"
    using assms by (simp add: exact_range_def)
  also have "\<dots> < 1 / 200" by simp
  finally have near: "\<bar>z - of_int (sum_list cs) / 100\<bar> < 1 / 200" using z(3) by linarith
  have "sum_list cs < 10 ^ 20" using assms by (simp add: exact_range_def sum_bound_def)
  with z near show ?thesis by (simp only: sumAmount_def toFixed_near)
qed

section \<open>Differences and sign changes of hundredths\<close>

lemma cents_bound: "0 \<le> c \<Longrightarrow> c \<le> sum_bound \<Longrightarrow> (of_int c :: rat) / 100 \<le> 2 ^ 33"
proof -
  assume "0 \<le> c" "c \<le> sum_bound"
  then have "(of_int c :: rat) \<le> of_int (100 * 2 ^ 33)" by (simp only: of_int_le_iff sum_bound_def)
  then show ?thesis by simp
qed

lemma fl_cents:
  assumes "0 \<le> c" "c \<le> sum_bound"
  shows "\<bar>fl (of_int c / 100) - of_int c / 100\<bar> \<le> 1 / 2 ^ 19"
proof -
  have "\<bar>fl (of_int c / 100) - of_int c / 100\<bar> \<le> (of_int c / 100) / 2 ^ 53 + 1 / 2 ^ 60"
    using fl_err [of "of_int c / 100"] assms(1) by simp
  also have "\<dots> \<le> 2 ^ 33 / 2 ^ 53 + 1 / 2 ^ 60"
    by (intro add_right_mono divide_right_mono cents_bound assms) simp
  also have "\<dots> \<le> 1 / 2 ^ 19" by simp
  finally show ?thesis .
qed

lemma fl_small_err: "\<bar>x\<bar> \<le> 2 ^ 34 \<Longrightarrow> \<bar>fl x - x\<bar> \<le> 1 / 2 ^ 18"
proof -
  assume x: "\<bar>x\<bar> \<le> 2 ^ 34"
  have "\<bar>fl x - x\<bar> \<le> \<bar>x\<bar> / 2 ^ 53 + 1 / 2 ^ 60" by (rule fl_err)
  also have "\<dots> \<le> 2 ^ 34 / 2 ^ 53 + 1 / 2 ^ 60"
    by (intro add_right_mono divide_right_mono x) simp
  also have "\<dots> \<le> 1 / 2 ^ 18" by simp
  finally show ?thesis .
qed

lemma near_trans:
  fixes x y z :: rat
  assumes "\<bar>x - y\<bar> \<le> 1 / 2 ^ 18" "\<bar>y - z\<bar> \<le> 1 / 2 ^ 18" shows "\<bar>x - z\<bar> < 1 / 200"
proof -
  have "\<bar>x - z\<bar> \<le> 1 / 2 ^ 18 + 1 / 2 ^ 18" using assms by linarith
  also have "\<dots> < 1 / 200" by simp
  finally show ?thesis .
qed

lemma sum_bound_digits: "c \<le> sum_bound \<Longrightarrow> c < 10 ^ 20"
  by (simp add: sum_bound_def)

lemma diffAmount_cents:
  assumes "0 \<le> b" "b \<le> a" "a \<le> sum_bound"
  shows "diffAmount (cents_str a) (cents_str b) = cents_str (a - b)"
proof -
  let ?A = "fl (of_int a / 100)" let ?B = "fl (of_int b / 100)" let ?d = "?A - ?B"
  have ab: "0 \<le> a" "b \<le> sum_bound" using assms by simp_all
  have A: "\<bar>?A - of_int a / 100\<bar> \<le> 1 / 2 ^ 19" using fl_cents ab(1) assms(3) .
  have B: "\<bar>?B - of_int b / 100\<bar> \<le> 1 / 2 ^ 19" using fl_cents assms(1) ab(2) .
  have eq: "of_int (a - b) / 100 = (of_int a / 100 - of_int b / 100 :: rat)"
    by (simp add: diff_divide_distrib)
  have near: "\<bar>?d - of_int (a - b) / 100\<bar> \<le> 1 / 2 ^ 18"
  proof -
    have "\<bar>?d - of_int (a - b) / 100\<bar> \<le> 1 / 2 ^ 19 + 1 / 2 ^ 19" using A B unfolding eq by linarith
    then show ?thesis by simp
  qed
  have "0 \<le> ?d"
  proof (cases "a = b")
    case False
    then have "(1::rat) \<le> of_int (a - b)" using assms by (simp del: of_int_diff)
    then have "(1 / 100 :: rat) \<le> of_int (a - b) / 100" by simp
    moreover have "1 / 2 ^ 18 \<le> (1 / 100 :: rat)" by simp
    ultimately show ?thesis using near by linarith
  qed simp
  have "0 \<le> ?B" using assms(1) by (simp add: fl_nonneg)
  then have "?d \<le> 2 ^ 33 + 1 / 2 ^ 19" using A cents_bound [OF ab(1) assms(3)] by linarith
  also have "\<dots> \<le> (2 ^ 34 :: rat)" by simp
  finally have "?d \<le> 2 ^ 34" .
  with \<open>0 \<le> ?d\<close> have d: "\<bar>?d\<bar> \<le> 2 ^ 34" by simp
  have dd: "to_double ?d = Fin (fl ?d)" by (rule to_double_small) (use d in simp)
  have "diffAmount (cents_str a) (cents_str b) = js_toFixed2 (Fin (fl ?d))"
    by (simp only: diffAmount_def toNum_cents ab assms js_sub_def js_neg.simps js_add.simps
        diff_conv_add_uminus [symmetric] dd)
  moreover have "\<bar>fl ?d - of_int (a - b) / 100\<bar> < 1 / 200"
    using near_trans [OF fl_small_err [OF d] near] .
  ultimately show ?thesis
    using toFixed_near [OF fl_nonneg [OF \<open>0 \<le> ?d\<close>]] sum_bound_digits [of "a - b"] assms by simp
qed

lemma ilog2_1: "ilog2 1 = 0"
  by (simp add: ilog2_def Let_def)

lemma to_double_minus1: "to_double (-1) = Fin (-1)"
  by (simp add: to_double_def fl_def fl_exp_def ilog2_1 Let_def round_even_def power_int_minus)

lemma parse_one: "parse_decimal ''1'' = Some 1"
  by (simp add: parse_decimal_def is_digit_def digits_val_def digit_val_def parse_exp_def Let_def)

lemma toNum_minus1: "toNum ''-1'' d = Fin (-1)"
  by (simp add: toNum_def js_Number_def js_trim_def is_js_space_def to_double_minus1 parse_one)

lemma one_times_minus1: "js_mul (Fin 1) (Fin (-1)) = Fin (-1)"
  by (simp add: to_double_minus1)

lemma mulAmount_minus:
  assumes "0 < c" "c \<le> sum_bound"
  shows "mulAmount [''-1'', cents_str c] = CHR ''-'' # cents_str c"
proof -
  let ?C = "fl (of_int c / 100)"
  have c: "\<bar>?C - of_int c / 100\<bar> \<le> 1 / 2 ^ 19" using fl_cents assms by simp
  have "(1 / 100 :: rat) \<le> of_int c / 100" using assms(1) by simp
  moreover have "1 / 2 ^ 19 + 1 / 200 \<le> (1 / 100 :: rat)" by simp
  ultimately have lo: "1 / 200 \<le> ?C" using c by linarith
  have "?C \<le> 2 ^ 33 + 1 / 2 ^ 19" using c cents_bound [of c] assms by linarith
  also have "\<dots> \<le> (2 ^ 34 :: rat)" by simp
  finally have b: "\<bar>- ?C\<bar> \<le> 2 ^ 34" using lo by simp
  have m: "js_mul (Fin (-1)) (Fin ?C) = Fin (fl (- ?C))"
    using to_double_small [of "- ?C"] b by simp
  let ?w = "fl (- ?C)"
  have w: "\<bar>?w - (- ?C)\<bar> \<le> 1 / 2 ^ 18" by (rule fl_small_err [OF b])
  moreover have "1 / 2 ^ 18 < (1 / 200 :: rat)" by simp
  ultimately have neg: "?w < 0" using lo by linarith
  have "\<bar>- ?w - ?C\<bar> \<le> 1 / 2 ^ 18" using w by linarith
  moreover have "\<bar>?C - of_int c / 100\<bar> \<le> 1 / 2 ^ 18" using c by (rule order_trans) simp
  ultimately have near: "\<bar>- ?w - of_int c / 100\<bar> < 1 / 200" by (rule near_trans)
  then have t: "js_toFixed2 (Fin (- ?w)) = cents_str c"
    using toFixed_near [of "- ?w" c] near neg sum_bound_digits [OF assms(2)] by simp
  have "mulAmount [''-1'', cents_str c] = js_toFixed2 (Fin ?w)"
    by (simp only: mulAmount_def foldl_Cons foldl_Nil toNum_minus1 one_times_minus1 m
        toNum_cents [OF less_imp_le [OF assms(1)] assms(2)])
  moreover have "\<bar>?w\<bar> \<le> 2 ^ 34 + 1 / 2 ^ 18" using w b by linarith
  then have "\<bar>?w\<bar> < 10 ^ 21" by simp
  ultimately show ?thesis using t neg by simp
qed
section \<open>The contract of prices\<close>

locale money =
  fixes enc :: "int \<Rightarrow> price" and total :: "price list \<Rightarrow> price" and fits :: "int list \<Rightarrow> bool"
  assumes total_enc: "fits cs \<Longrightarrow> total (map enc cs) = enc (sum_list cs)"
    and fits_perm: "fits cs \<Longrightarrow> mset cs = mset ds \<Longrightarrow> fits ds"
    and fits_split: "fits (cs @ ds) \<Longrightarrow> fits cs"
    and fits_group: "fits (cs @ ds) \<Longrightarrow> cs \<noteq> [] \<Longrightarrow> fits (sum_list cs # ds)"
begin

lemma total_perm: "fits cs \<Longrightarrow> mset cs = mset ds \<Longrightarrow> total (map enc cs) = total (map enc ds)"
  by (metis sum_mset_sum_list total_enc fits_perm)

lemma total_grouped:
  assumes "fits (cs @ ds)" "cs \<noteq> []"
  shows "total (total (map enc cs) # map enc ds) = total (map enc (cs @ ds))"
proof -
  have "total (map enc cs) = enc (sum_list cs)" using assms(1) fits_split total_enc by blast
  then have "total (total (map enc cs) # map enc ds) = total (map enc (sum_list cs # ds))" by simp
  also have "\<dots> = enc (sum_list (sum_list cs # ds))" using assms fits_group total_enc by blast
  also have "\<dots> = enc (sum_list (cs @ ds))" by simp
  also have "\<dots> = total (map enc (cs @ ds))" using total_enc [OF assms(1)] by (rule sym)
  finally show ?thesis .
qed

end

interpretation kopecks: money cents_str sumAmount exact_range
proof unfold_locales
  show "mset cs = mset ds \<Longrightarrow> exact_range cs \<Longrightarrow> exact_range ds" for cs ds
  proof -
    assume m: "mset cs = mset ds" and e: "exact_range cs"
    have "sum_list cs = sum_list ds" using m by (metis sum_mset_sum_list)
    with e mset_eq_length [OF m] mset_eq_setD [OF m] show ?thesis by (simp add: exact_range_def)
  qed
  show "exact_range (cs @ ds) \<Longrightarrow> exact_range cs" for cs ds
  proof -
    assume e: "exact_range (cs @ ds)"
    have "0 \<le> sum_list ds" by (rule sum_list_nonneg) (use e in \<open>simp add: exact_range_def\<close>)
    with e show ?thesis by (simp add: exact_range_def)
  qed
  show "exact_range (cs @ ds) \<Longrightarrow> cs \<noteq> [] \<Longrightarrow> exact_range (sum_list cs # ds)" for cs ds
  proof -
    assume e: "exact_range (cs @ ds)" and c: "cs \<noteq> []"
    have "0 \<le> sum_list cs" by (rule sum_list_nonneg) (use e in \<open>simp add: exact_range_def\<close>)
    moreover have "1 \<le> length cs" using c by (cases cs) simp_all
    ultimately show ?thesis using e by (simp add: exact_range_def)
  qed
qed (auto simp: sumAmount_cents)

text \<open>
  C36: a sum of prices is exact: the text \<open>sumAmount\<close> computes in floating point from the texts of
  hundredths is the text of their integer sum, for up to 1024 prices that sum to at most
  \<open>2 ^ 33\<close> units.
\<close>

theorem sum_of_prices_exact:
  assumes "exact_range cs" shows "sumAmount (map cents_str cs) = cents_str (sum_list cs)"
  by (rule kopecks.total_enc [OF assms])

theorem sum_of_prices_exact_witness: "sumAmount [cents_str 10, cents_str 20] = cents_str 30"
  using sum_of_prices_exact [of "[10, 20]"] by (simp add: exact_range_def sum_bound_def)

text \<open>So is the difference of two prices whose difference is not negative.\<close>

theorem difference_of_prices_exact:
  assumes "0 \<le> b" "b \<le> a" "a \<le> sum_bound"
  shows "diffAmount (cents_str a) (cents_str b) = cents_str (a - b)"
  by (rule diffAmount_cents [OF assms])

theorem difference_of_prices_exact_witness: "diffAmount (cents_str 110) (cents_str 99) = cents_str 11"
  using difference_of_prices_exact [of 99 110] by (simp add: sum_bound_def)

end
