(* ===== verification/JsDate.thy ===== *)
theory JsDate
  imports Rounding "HOL-Library.Word"
begin

text \<open>
  \<open>Date\<close> as the program uses it.  A time value is milliseconds since the epoch, \<open>None\<close> is an
  Invalid Date.  The zone of the machine is an offset \<open>tz\<close> in milliseconds east of UTC.
  \<open>new Date('YYYY-MM-DD')\<close> reads the date as UTC midnight; every other spelling is up to the
  platform and is the argument \<open>other_dates\<close>.

  \<open>x | 0\<close> keeps the low 32 bits of the integral part, read as a signed word.
\<close>

definition js_trunc :: "rat \<Rightarrow> int" where
  "js_trunc x = (if x < 0 then - \<lfloor>- x\<rfloor> else \<lfloor>x\<rfloor>)"

fun js_bit_or_0 :: "jsnum \<Rightarrow> int" where
  "js_bit_or_0 (Fin x) = sint (word_of_int (js_trunc x) :: 32 word)"
| "js_bit_or_0 _ = 0"

text \<open>Days from the epoch of a civil date, and the form \<open>YYYY-MM-DD\<close>.\<close>

definition days_from_civil :: "int \<Rightarrow> int \<Rightarrow> int \<Rightarrow> int" where
  "days_from_civil y m d =
     (let y' = (if m \<le> 2 then y - 1 else y); era = y' div 400; yoe = y' mod 400;
          doy = (153 * (if 2 < m then m - 3 else m + 9) + 2) div 5 + d - 1;
          doe = yoe * 365 + yoe div 4 - yoe div 100 + doy
      in era * 146097 + doe - 719468)"

definition days_in_month :: "int \<Rightarrow> int \<Rightarrow> int" where
  "days_in_month y m =
     (if m = 2 then if y mod 4 = 0 \<and> (y mod 100 \<noteq> 0 \<or> y mod 400 = 0) then 29 else 28
      else if m \<in> {4, 6, 9, 11} then 30 else 31)"

definition iso_date :: "string \<Rightarrow> int option" where
  "iso_date s =
     (let y = take 4 s; m = take 2 (drop 5 s); d = take 2 (drop 8 s)
      in if length s = 10 \<and> s ! 4 = CHR ''-'' \<and> s ! 7 = CHR ''-'' \<and> list_all is_digit (y @ m @ d)
            \<and> 1 \<le> digits_val m \<and> digits_val m \<le> 12 \<and> 1 \<le> digits_val d
            \<and> digits_val d \<le> days_in_month (digits_val y) (digits_val m)
         then Some (days_from_civil (digits_val y) (digits_val m) (digits_val d)) else None)"

type_synonym time = "int option"

definition new_Date :: "(string \<Rightarrow> time) \<Rightarrow> string \<Rightarrow> time" where
  "new_Date other_dates s =
     (case iso_date s of Some d \<Rightarrow> Some (d * 86400000) | None \<Rightarrow> other_dates s)"

text \<open>
  \<open>setHours\<close>, \<open>setMinutes\<close> and \<open>setSeconds\<close> replace one field of the local time: \<open>unit\<close> is
  the field's length and \<open>whole\<close> the length of the next one.  A field that is not a finite number
  makes the date invalid.
\<close>

definition set_field :: "int \<Rightarrow> int \<Rightarrow> int \<Rightarrow> jsnum \<Rightarrow> time \<Rightarrow> time" where
  "set_field tz whole unit n t =
     (case (t, n) of
        (Some ms, Fin x) \<Rightarrow>
          let l = ms + tz
          in Some ((l - l mod whole) + js_trunc x * unit + l mod unit - tz)
      | _ \<Rightarrow> None)"

definition setHours :: "int \<Rightarrow> jsnum \<Rightarrow> time \<Rightarrow> time" where
  "setHours tz = set_field tz 86400000 3600000"

definition setMinutes :: "int \<Rightarrow> jsnum \<Rightarrow> time \<Rightarrow> time" where
  "setMinutes tz = set_field tz 3600000 60000"

definition setSeconds :: "int \<Rightarrow> jsnum \<Rightarrow> time \<Rightarrow> time" where
  "setSeconds tz = set_field tz 60000 1000"

definition getTime :: "time \<Rightarrow> jsnum" where
  "getTime t = (case t of None \<Rightarrow> NaN | Some ms \<Rightarrow> Fin (of_int ms))"

definition toUnixTs :: "time \<Rightarrow> int" where
  "toUnixTs t = js_bit_or_0 (js_mul (getTime t) (to_double (1 / 1000)))"

section \<open>Whole seconds survive \<open>toUnixTs\<close>\<close>

lemma ilog2_gt:
  assumes "0 < x" shows "x < 2 powi (ilog2 x + 1)"
proof -
  obtain n d where q: "quotient_of x = (n, d)" by (cases "quotient_of x")
  have d: "0 < d" using quotient_of_denom_pos [OF q] .
  have x: "x = of_int n / of_int d" using quotient_of_div [OF q] .
  then have n: "0 < n" using assms d by (simp add: zero_less_divide_iff)
  have bn: "n < 2 ^ nat (bitlen n)" using bitlen_bounds [OF n] by simp
  have bd: "2 ^ nat (bitlen d - 1) \<le> d" using bitlen_bounds [OF d] by simp
  have n1: "0 \<le> bitlen n" and d1: "1 \<le> bitlen d"
    using d by (simp_all add: bitlen_def floorlog_def)
  obtain p where p: "bitlen n = int p" using n1 by (metis nonneg_int_cases)
  obtain r where r: "bitlen d - 1 = int r" using d1 by (metis diff_ge_0_iff_ge nonneg_int_cases)
  have "x < 2 ^ nat (bitlen n) / 2 ^ nat (bitlen d - 1)"
    unfolding x
  proof (rule frac_less)
    show "of_int n < (2::rat) ^ nat (bitlen n)"
      using bn by (metis of_int_less_iff of_int_numeral of_int_power)
    show "(2::rat) ^ nat (bitlen d - 1) \<le> of_int d"
      using bd by (metis of_int_le_iff of_int_numeral of_int_power)
  qed (use n in simp_all)
  also have "\<dots> = 2 powi (int p - int r)" by (simp add: p r power_int_diff)
  also have "int p - int r = bitlen n - bitlen d + 1" using p r by simp
  finally show ?thesis by (auto simp: ilog2_def q Let_def not_le)
qed

text \<open>
  A value just above a whole number of seconds rounds to the whole number: the doubles near
  \<open>n < 2 ^ 31\<close> are multiples of a power of two that divides 1.
\<close>

lemma fl_just_above:
  assumes n: "1 \<le> n" "n < 2 ^ 31" and x: "of_int n \<le> x" "x - of_int n \<le> of_int n / 2 ^ 55"
  shows "fl x = of_int n"
proof -
  have x0: "0 < x" using n x by linarith
  let ?k = "ilog2 x"
  have up: "x < 2 powi (?k + 1)" and lo: "2 powi ?k \<le> x" using ilog2_gt ilog2_le x0 by auto
  have k0: "0 \<le> ?k"
  proof (rule ccontr)
    assume "\<not> 0 \<le> ?k"
    then have "(2::rat) powi (?k + 1) \<le> 2 powi 0" by (intro power_int_increasing) auto
    moreover have "(1::rat) \<le> x" using n x by linarith
    ultimately show False using up by simp
  qed
  have k52: "?k \<le> 52"
  proof (rule ccontr)
    assume "\<not> ?k \<le> 52"
    then have "(2::rat) powi 52 \<le> 2 powi ?k" by (intro power_int_increasing) auto
    moreover have "x < 2 ^ 32" using n x by simp
    ultimately show False using lo by simp
  qed
  obtain m where m: "52 - ?k = int m" using k52 by (metis diff_ge_0_iff_ge nonneg_int_cases)
  have e: "fl_exp x = - int m" using x0 k0 m by (simp add: fl_exp_def)
  have pm: "(2::rat) powi - int m = 1 / 2 ^ m" by (simp add: power_int_minus divide_inverse)
  let ?r = "round_even (x * 2 ^ m)"
  have f: "fl x = of_int ?r / 2 ^ m" using x0 by (simp add: fl_def e pm)
  have "x * 2 ^ m < 2 powi (?k + 1) * 2 powi int m" using up by simp
  also have "\<dots> = 2 powi (?k + 1 + int m)" by (simp add: power_int_add)
  also have "?k + 1 + int m = 53" using m by simp
  finally have xm: "x * 2 ^ m < 2 ^ 53" by simp
  have "(x - of_int n) * 2 ^ m \<le> (of_int n / 2 ^ 55) * 2 ^ m"
    using x by (intro mult_right_mono) auto
  also have "\<dots> \<le> (x / 2 ^ 55) * 2 ^ m"
    using x by (intro mult_right_mono divide_right_mono) auto
  also have "\<dots> < 1 / 4" using xm by simp
  finally have d: "(x - of_int n) * 2 ^ m < 1 / 4" .
  have d0: "0 \<le> (x - of_int n) * 2 ^ m" using x by simp
  have "\<bar>of_int ?r - x * 2 ^ m\<bar> \<le> 1 / 2" by (rule round_even_err)
  moreover have "(x - of_int n) * 2 ^ m = x * 2 ^ m - of_int n * 2 ^ m" by (simp add: left_diff_distrib)
  ultimately have "\<bar>of_int ?r - of_int n * 2 ^ m\<bar> < (1::rat)" using d d0 by linarith
  then have "of_int \<bar>?r - n * 2 ^ m\<bar> < (1::rat)" by simp
  then have "\<bar>?r - n * 2 ^ m\<bar> < 1" by (simp only: of_int_less_1_iff)
  then have "?r = n * 2 ^ m" by simp
  then show ?thesis by (simp add: f)
qed

definition milli :: rat where
  "milli = 1152921504606847 / 1152921504606846976"

lemma ilog2_unique: "2 powi k \<le> x \<Longrightarrow> x < 2 powi (k + 1) \<Longrightarrow> ilog2 x = k"
proof -
  assume k: "2 powi k \<le> x" "x < 2 powi (k + 1)"
  have p: "0 < x" using k(1) less_le_trans [of 0 "2 powi k" x] by simp
  note b = ilog2_le [OF p] ilog2_gt [OF p]
  have mono: "(2::rat) powi a \<le> 2 powi c" if "a \<le> c" for a c
    using that by (intro power_int_increasing) auto
  have "k < ilog2 x + 1"
    using mono [of "ilog2 x + 1" k] k b by (meson leD le_less_trans linorder_not_le order.strict_trans2)
  moreover have "ilog2 x < k + 1"
    using mono [of "k + 1" "ilog2 x"] k b by (meson leD le_less_trans linorder_not_le order.strict_trans2)
  ultimately show ?thesis by simp
qed

lemma ilog2_milli: "ilog2 (1/1000) = -10"
  by (rule ilog2_unique) (simp_all add: power_int_minus)

lemma floor_milli: "\<lfloor>576460752303423488 / 125 :: rat\<rfloor> = 4611686018427387"
  by (rule floor_unique) simp_all

lemma to_double_milli: "to_double (1 / 1000) = Fin milli"
  by (simp add: to_double_def fl_def fl_exp_def ilog2_milli milli_def Let_def round_even_def
      power_int_minus floor_milli)

lemma toUnixTs_whole:
  assumes "0 \<le> n" "n < 2 ^ 31" shows "toUnixTs (Some (1000 * n)) = n"
proof (cases "n = 0")
  case True
  then show ?thesis by (simp add: toUnixTs_def getTime_def to_double_milli js_trunc_def)
next
  case False
  let ?x = "of_int (1000 * n) * milli"
  have x: "of_int n \<le> ?x" "?x - of_int n \<le> of_int n / 2 ^ 55" "\<bar>?x\<bar> \<le> 2 ^ 100"
    using assms by (simp_all add: milli_def abs_le_iff)
  have f: "fl ?x = of_int n" using fl_just_above [OF _ assms(2) x(1,2)] False assms(1) by simp
  have "js_mul (getTime (Some (1000 * n))) (to_double (1 / 1000)) = Fin (of_int n)"
    using to_double_small [OF x(3)] f by (simp add: getTime_def to_double_milli)
  moreover have "sint (word_of_int n :: 32 word) = n"
    using assms by (simp add: signed_of_int signed_take_bit_int_eq_self)
  ultimately show ?thesis using assms(1) by (simp add: toUnixTs_def js_trunc_def)
qed

end
