(* ===== verification/Transform.thy ===== *)
theory Transform
  imports PayTypes Amount JsDate Url
begin

text \<open>
  \<open>packages/pay-common/transform\<close>: the conversions between the payment sheet of the merchant's
  page and the orders of the checkout server.  \<open>pathOr\<close> of \<open>@tinkoff/utils\<close> is the argument
  \<open>path_or\<close>, applied to the default and to the value at the path, if there is one; what the code
  relies on is \<open>path_or_spec\<close>.
\<close>

definition path_or_spec :: "('v \<Rightarrow> 'v option \<Rightarrow> 'v) \<Rightarrow> bool" where
  "path_or_spec path_or \<longleftrightarrow> (\<forall>d. path_or d None = d) \<and> (\<forall>d v. path_or d (Some v) = v)"

definition discount_label :: string where
  "discount_label = utf8 [208, 161, 208, 186, 208, 184, 208, 180, 208, 186, 208, 176]"

definition courier_prefix :: string where
  "courier_prefix = utf8 [208, 148, 208, 190, 209, 129, 209, 130, 208, 176, 208, 178, 208, 186, 208, 176, 32]"

definition pickup_prefix :: string where
  "pickup_prefix = utf8 [208, 161, 208, 176, 208, 188, 208, 190, 208, 178, 209, 139, 208, 178, 208, 190, 208,
      183, 32]"

definition bad_coupon_text :: string where
  "bad_coupon_text =
     utf8 [208, 157, 208, 181, 208, 186, 208, 190, 209, 128, 209, 128, 208, 181, 209, 130, 208,
      189, 209, 139, 208, 185, 32, 208, 191, 209, 128, 208, 190, 208, 188, 208, 190, 208,
      186, 208, 190, 208, 180]"

text \<open>\<open>String(x)\<close> and \<open>`${x}`\<close> of an optional string.\<close>

definition js_string_of :: "string option \<Rightarrow> string" where
  "js_string_of x = (case x of None \<Rightarrow> ''undefined'' | Some s \<Rightarrow> s)"

definition js_upper_char :: "char \<Rightarrow> char" where
  "js_upper_char c = (let n = of_char c in if 97 \<le> n \<and> n \<le> 122 then char_of (n - 32 :: int) else c)"

definition js_lower_char :: "char \<Rightarrow> char" where
  "js_lower_char c = (let n = of_char c in if 65 \<le> n \<and> n \<le> 90 then char_of (n + 32 :: int) else c)"

section \<open>From an order to a payment sheet\<close>

record ShippingOptions =
  opt_courier :: "ShippingCourierOption option"
  opt_pickup :: "PickupOption option"

definition COUPON_ID :: string where "COUPON_ID = ''__coupon_pay''"
definition DISCOUNT_ID :: string where "DISCOUNT_ID = ''__discount_pay''"
definition SHIPPING_ID :: string where "SHIPPING_ID = ''__shipping_pay''"

definition getOrderItems :: "RenderOrderResponse \<Rightarrow> SheetItem list" where
  "getOrderItems order =
     map (\<lambda>item. \<lparr>si_id = oi_productId item, si_amount = js_or (oi_subtotal item) (oi_total item),
                   si_type = None, si_label = oi_title item, si_quantity = Some (oi_quantity item)\<rparr>)
       (cart_items (ro_cart order))"

definition getOrderItemsTotalAmounts :: "RenderOrderResponse \<Rightarrow> Price list" where
  "getOrderItemsTotalAmounts order =
     (case cart_total (ro_cart order) of
        Some t \<Rightarrow> [oct_amount t]
      | None \<Rightarrow> map oi_total (cart_items (ro_cart order)))"

definition getDiscountsItems :: "RenderOrderResponse \<Rightarrow> SheetItem list" where
  "getDiscountsItems order =
     map (\<lambda>d. \<lparr>si_id = DISCOUNT_ID, si_amount = dc_amount d, si_type = Some ItDiscount,
               si_label = Some (dc_description d), si_quantity = None\<rparr>)
       (case cart_discounts (ro_cart order) of None \<Rightarrow> [] | Some ds \<Rightarrow> ds)"

definition couponDiscount :: "ApiOrderItem list \<Rightarrow> Price" where
  "couponDiscount items =
     foldl (\<lambda>total item. sumAmount [total, diffAmount (the (oi_subtotal item)) (oi_total item)])
       ''0.00'' (filter (\<lambda>item. truthy (oi_subtotal item)) items)"

definition getCouponItems :: "RenderOrderResponse \<Rightarrow> SheetItem list" where
  "getCouponItems order =
     (let items = cart_items (ro_cart order);
          coupons = (case cart_coupons (ro_cart order) of None \<Rightarrow> [] | Some cs \<Rightarrow> cs);
          discount = couponDiscount items
      in if discount = ''0.00'' then []
         else let coupon = find (\<lambda>c. ac_status c = VALID) coupons
              in [\<lparr>si_id = COUPON_ID, si_amount = mulAmount [''-1'', discount],
                   si_type = Some ItDiscount,
                   si_label = Some (case coupon of Some c \<Rightarrow> ac_description c | None \<Rightarrow> discount_label),
                   si_quantity = None\<rparr>])"

definition getShippingOrderItems :: "ShippingOptions \<Rightarrow> SheetItem list" where
  "getShippingOrderItems so =
     (case (opt_courier so, opt_pickup so) of
        (None, None) \<Rightarrow> []
      | (Some c, _) \<Rightarrow>
          [\<lparr>si_id = SHIPPING_ID, si_amount = co_amount c, si_type = Some ItShipping,
            si_label = Some (courier_prefix @ co_title c), si_quantity = None\<rparr>]
      | (None, Some p) \<Rightarrow>
          [\<lparr>si_id = SHIPPING_ID, si_amount = js_string_of (po_amount p), si_type = Some ItShipping,
            si_label = Some (pickup_prefix @ po_title p), si_quantity = None\<rparr>])"

definition getPaymentSheetOrder :: "RenderOrderResponse \<Rightarrow> ShippingOptions \<Rightarrow> SheetOrder" where
  "getPaymentSheetOrder order so =
     (let shipping = getShippingOrderItems so; cart = ro_cart order
      in \<lparr>so_id = js_or (cart_externalId cart) (cart_cartId cart),
          so_items = getOrderItems order @ shipping @ getDiscountsItems order @ getCouponItems order,
          so_total =
            \<lparr>st_amount = sumAmount (getOrderItemsTotalAmounts order @ map si_amount shipping),
             st_label = Some (js_or (Option.bind (cart_total cart) oct_label) [])\<rparr>\<rparr>)"

definition getPaymentMethods :: "RenderOrderResponse \<Rightarrow> SheetPaymentMethod list" where
  "getPaymentMethods order =
     (let ms = (case ro_availablePaymentMethods order of None \<Rightarrow> [] | Some l \<Rightarrow> l)
      in (if API_CARD \<in> set ms
          then [CardMethod ''payture'' ''payture-merchant-id'' [PanOnly]
                  [NetVisa, NetMastercard, NetMir, NetUzcard] None] else []) @
         (if API_CASH_ON_DELIVERY \<in> set ms \<or> API_CARD_ON_DELIVERY \<in> set ms then [CashMethod] else []) @
         (if API_SPLIT \<in> set ms then [SplitMethod] else []))"

definition orderToPaymentSheet ::
  "InitPaymentSheet \<Rightarrow> RenderOrderResponse \<Rightarrow> ShippingOptions \<Rightarrow> PaymentSheet" where
  "orderToPaymentSheet initSheet order so =
     (let billing = Option.bind (ro_requiredFields order) orf_billingContact;
          contact = Option.bind (ro_requiredFields order) orf_shippingContact;
          flag = (\<lambda>f c. case c of None \<Rightarrow> False | Some r \<Rightarrow> f r);
          methods = (case ro_shipping order of None \<Rightarrow> [] | Some s \<Rightarrow> os_availableMethods s)
      in \<lparr>ps_version = 2,
          ps_merchant = \<lparr>mr_id = mr_id (is_merchant initSheet), mr_name = mr_name (is_merchant initSheet),
                         mr_url = None\<rparr>,
          ps_currencyCode = ro_currencyCode order,
          ps_countryCode = CountryRu,
          ps_requiredFields =
            \<lparr>srf_billing_name = flag rq_name billing, srf_billing_email = flag rq_email billing,
             srf_shipping_name = flag rq_name contact, srf_shipping_email = flag rq_email contact,
             srf_shipping_phone = flag rq_phone contact,
             srf_direct = (COURIER \<in> set methods \<or> YANDEX_DELIVERY \<in> set methods),
             srf_pickup = (PICKUP \<in> set methods)\<rparr>,
          ps_coupons = (ro_enableCoupons order = Some True),
          ps_comment = (ro_enableCommentField order = Some True),
          ps_order = getPaymentSheetOrder order so,
          ps_paymentMethods = getPaymentMethods order\<rparr>)"

section \<open>From a payment sheet to an order\<close>

definition paymentSheetToOrder ::
  "(string \<Rightarrow> string option \<Rightarrow> string) \<Rightarrow> InitPaymentSheet \<Rightarrow> Address option \<Rightarrow> string option
    \<Rightarrow> RenderOrderRequest" where
  "paymentSheetToOrder path_or initSheet address coupon =
     \<lparr>ror_merchantId = mr_id (is_merchant initSheet),
      ror_currencyCode = is_currencyCode initSheet,
      ror_cart =
        \<lparr>rcr_externalId = Some (so_id (is_order initSheet)),
         rcr_items =
           map (\<lambda>item. \<lparr>cri_productId = si_id item,
                         cri_count = path_or ''1'' (map_option oiq_count (si_quantity item))\<rparr>)
             (so_items (is_order initSheet)),
         rcr_coupons = (if truthy coupon then Some [the coupon] else None)\<rparr>,
      ror_shippingAddressId = map_option ad_id address,
      ror_metadata = is_metadata initSheet\<rparr>"

text \<open>
  \<open>couponStatus\<close> assigns in its search: \<open>find((item) => (item.value = couponValue))\<close> writes the
  value into each coupon it visits and stops at the first one when the value is not empty.  The
  order it changes is returned with its result.
\<close>

fun find_assign :: "string \<Rightarrow> ApiCoupon list \<Rightarrow> ApiCoupon option \<times> ApiCoupon list" where
  "find_assign v [] = (None, [])"
| "find_assign v (c # cs) =
     (let c' = c\<lparr>ac_value := v\<rparr>
      in if v \<noteq> [] then (Some c', c' # cs)
         else let (r, cs') = find_assign v cs in (r, c' # cs'))"

definition couponStatus ::
  "string \<Rightarrow> RenderOrderResponse \<Rightarrow> (CouponStatus \<times> string) \<times> RenderOrderResponse" where
  "couponStatus v order =
     (case cart_coupons (ro_cart order) of
        None \<Rightarrow> ((INVALID, bad_coupon_text), order)
      | Some cs \<Rightarrow>
          let (r, cs') = find_assign v cs
          in (case r of
                Some c \<Rightarrow> (ac_status c, ac_description c)
              | None \<Rightarrow> (INVALID, bad_coupon_text),
              order\<lparr>ro_cart := (ro_cart order)\<lparr>cart_coupons := Some cs'\<rparr>\<rparr>))"

section \<open>The order that is created\<close>

definition getTotalAmount :: "RenderOrderResponse \<Rightarrow> Price option \<Rightarrow> Price" where
  "getTotalAmount order shippingAmount =
     sumAmount ((case shippingAmount of None \<Rightarrow> ''0'' | Some a \<Rightarrow> a)
                # map oi_total (cart_items (ro_cart order)))"

definition paymentSheetToOrderCreate ::
  "InitPaymentSheet \<Rightarrow> RenderOrderResponse \<Rightarrow> PaymentMethodType \<Rightarrow> CardPaymentMethod option
    \<Rightarrow> Address option \<Rightarrow> string option \<Rightarrow> BillingContact option
    \<Rightarrow> ShippingOptions \<Rightarrow> CreateOrderRequest" where
  "paymentSheetToOrderCreate initSheet order methodType verb address contact billing so =
     \<lparr>cor_merchantId = mr_id (is_merchant initSheet),
      cor_currencyCode = ro_currencyCode order,
      cor_cart = ro_cart order,
      cor_orderAmount =
        Some (case (opt_courier so, opt_pickup so) of
                (Some c, _) \<Rightarrow> getTotalAmount order (Some (co_amount c))
              | (None, Some p) \<Rightarrow> getTotalAmount order (po_amount p)
              | (None, None) \<Rightarrow> getTotalAmount order None),
      cor_paymentMethod =
        (if methodType = PmtCash
         then Some \<lparr>opm_cardNetwork = None, opm_cardLast4 = None, opm_methodType = API_CASH_ON_DELIVERY\<rparr>
         else case verb of
                Some m \<Rightarrow>
                  if methodType = PmtCard
                  then Some \<lparr>opm_cardNetwork = Some (map js_upper_char (pm_system m)),
                             opm_cardLast4 = Some (pm_lastDigits m), opm_methodType = API_CARD\<rparr>
                  else None
              | None \<Rightarrow> None),
      cor_shippingMethod =
        (case (opt_courier so, opt_pickup so) of
           (Some c, _) \<Rightarrow> Some \<lparr>sp_pickupOption = None, sp_methodType = COURIER, sp_courierOption = Some c\<rparr>
         | (None, Some p) \<Rightarrow> Some \<lparr>sp_pickupOption = Some p, sp_methodType = PICKUP, sp_courierOption = None\<rparr>
         | (None, None) \<Rightarrow> None),
      cor_shippingAddressId = map_option ad_id address,
      cor_shippingContactId = contact,
      cor_billingContact = billing,
      cor_metadata = js_or_opt (ro_metadata order) (is_metadata initSheet)\<rparr>"

section \<open>Courier options and pickup points\<close>

definition transformCategory :: "string option \<Rightarrow> string" where
  "transformCategory category =
     (case category of
        Some c \<Rightarrow> if c \<in> {''STANDARD'', ''EXPRESS'', ''TODAY''} then map js_lower_char c else ''standart''
      | None \<Rightarrow> ''standart'')"

definition transformCourierProvider :: "string \<Rightarrow> string" where
  "transformCourierProvider p = (if p \<in> {''COURIER'', ''CDEK'', ''EMS'', ''DHL''} then p else ''COURIER'')"

definition nth_part :: "string list \<Rightarrow> nat \<Rightarrow> jsnum" where
  "nth_part parts i = (if i < length parts then js_Number (parts ! i) else NaN)"

definition transformTime :: "(string \<Rightarrow> time) \<Rightarrow> int \<Rightarrow> string \<Rightarrow> string \<Rightarrow> int" where
  "transformTime dates tz time fromDate =
     (let parts = split_on CHR '':'' time
      in toUnixTs (setSeconds tz (Fin 0) (setMinutes tz (nth_part parts 1)
           (setHours tz (nth_part parts 0) (new_Date dates fromDate)))))"

definition orderToShippingOptions ::
  "(ShippingCourierOption list \<Rightarrow> ShippingCourierOption list option \<Rightarrow> ShippingCourierOption list)
    \<Rightarrow> (string \<Rightarrow> time) \<Rightarrow> int \<Rightarrow> RenderOrderResponse \<Rightarrow> ShippingOption list" where
  "orderToShippingOptions path_or dates tz order =
     map (\<lambda>co.
         \<lparr>sho_id = co_courierOptionId co, sho_provider = transformCourierProvider (co_provider co),
          sho_amount = co_amount co, sho_category = Some (transformCategory (Some (co_category co))),
          sho_date = (if co_fromDate co \<noteq> [] then Some (toUnixTs (new_Date dates (co_fromDate co))) else None),
          sho_time =
            (if truthy (co_fromTime co) \<and> truthy (co_toTime co)
             then Some (transformTime dates tz (the (co_fromTime co)) (co_fromDate co),
                        transformTime dates tz (the (co_toTime co)) (co_fromDate co))
             else None),
          sho_label = Some (co_title co), sho_raw = co\<rparr>)
       (path_or [] (Option.bind (ro_shipping order) os_availableCourierOptions))"

definition transformPickupProvider :: "PickupOption \<Rightarrow> string option" where
  "transformPickupProvider opt = (if po_provider opt = ''PICKPOINT'' then Some ''pickpoint'' else None)"

definition transformInfo :: "PickupOption \<Rightarrow> PickupPointInfo option" where
  "transformInfo opt =
     (if \<not> (po_phones opt \<noteq> None \<or> truthy (po_description opt) \<or> po_schedule opt \<noteq> None) then None
      else Some \<lparr>ppi_schedule =
                   map_option (map (\<lambda>s. \<lparr>pps_label = sch_label s, pps_timeFrom = sch_fromTime s,
                                         pps_timeTo = sch_toTime s\<rparr>)) (po_schedule opt),
                 ppi_contacts = po_phones opt, ppi_description = po_description opt,
                 ppi_tripDescription = None\<rparr>)"

definition transformDeliveryDate :: "(string \<Rightarrow> time) \<Rightarrow> PickupOption \<Rightarrow> int option" where
  "transformDeliveryDate dates opt =
     (if truthy (po_fromDate opt) then Some (toUnixTs (new_Date dates (the (po_fromDate opt)))) else None)"

definition pickupOptionsToPickupPoints :: "(string \<Rightarrow> time) \<Rightarrow> PickupOption list \<Rightarrow> PickupPoint list" where
  "pickupOptionsToPickupPoints dates =
     map (\<lambda>opt. \<lparr>pp_id = po_pickupPointId opt, pp_label = po_title opt,
        pp_provider = transformPickupProvider opt, pp_address = po_address opt,
        pp_deliveryDate = transformDeliveryDate dates opt, pp_storagePeriod = po_storagePeriod opt,
        pp_amount = po_amount opt, pp_coordinates = po_location opt,
        pp_info = transformInfo opt, pp_raw = opt\<rparr>)"

section \<open>Totals\<close>

lemma toNum_zero: "toNum ''0'' d = Fin 0"
  by (simp add: toNum_def js_Number_def js_trim_def is_js_space_def parse_decimal_def is_digit_def
      digits_val_def digit_val_def parse_exp_def Let_def)

lemma sumAmount_zero: "sumAmount (''0'' # xs) = sumAmount xs"
  by (simp add: sumAmount_def sum_num_def toNum_zero)

text \<open>The price of the chosen way of delivery, as both sides read it.\<close>

definition shipping_price :: "ShippingOptions \<Rightarrow> Price option" where
  "shipping_price so =
     (case (opt_courier so, opt_pickup so) of
        (Some c, _) \<Rightarrow> Some (co_amount c)
      | (None, Some p) \<Rightarrow> po_amount p
      | (None, None) \<Rightarrow> None)"

definition priced :: "ShippingOptions \<Rightarrow> bool" where
  "priced so \<longleftrightarrow> (opt_courier so = None \<and> opt_pickup so \<noteq> None \<longrightarrow> shipping_price so \<noteq> None)"

lemma orderAmount_shipping:
  "cor_orderAmount (paymentSheetToOrderCreate sh order ty m ad ct bc so) = Some (getTotalAmount order (shipping_price so))"
  by (simp add: paymentSheetToOrderCreate_def shipping_price_def split: option.splits)

lemma shipping_items_amount:
  "priced so \<Longrightarrow> map si_amount (getShippingOrderItems so)
     = (case shipping_price so of None \<Rightarrow> [] | Some a \<Rightarrow> [a])"
  by (auto simp: priced_def shipping_price_def getShippingOrderItems_def js_string_of_def split: option.splits)

lemma getTotalAmount_cents:
  assumes "map oi_total (cart_items (ro_cart order)) = map cents_str cs"
    and "exact_range (case s of None \<Rightarrow> cs | Some c \<Rightarrow> c # cs)"
  shows "getTotalAmount order (map_option cents_str s)
     = cents_str (sum_list cs + (case s of None \<Rightarrow> 0 | Some c \<Rightarrow> c))"
proof (cases s)
  case None
  with assms show ?thesis by (simp add: getTotalAmount_def sumAmount_zero kopecks.total_enc)
next
  case (Some c)
  with assms kopecks.total_enc [of "c # cs"] show ?thesis by (simp add: getTotalAmount_def add.commute)
qed

lemma sheet_total_cents:
  assumes "cart_total (ro_cart order) = None" "priced so"
    and "map oi_total (cart_items (ro_cart order)) = map cents_str cs"
    and "shipping_price so = map_option cents_str s"
    and "exact_range (case s of None \<Rightarrow> cs | Some c \<Rightarrow> c # cs)"
  shows "st_amount (so_total (getPaymentSheetOrder order so))
     = cents_str (sum_list cs + (case s of None \<Rightarrow> 0 | Some c \<Rightarrow> c))"
proof (cases s)
  case None
  with assms shipping_items_amount [of so] show ?thesis
    by (simp add: getPaymentSheetOrder_def getOrderItemsTotalAmounts_def Let_def kopecks.total_enc)
next
  case (Some c)
  then have e: "exact_range (c # cs)" using assms(5) by simp
  have "sumAmount (map cents_str (cs @ [c])) = sumAmount (map cents_str (c # cs))"
    by (rule kopecks.total_perm [symmetric]) (use e in simp_all)
  with Some e assms shipping_items_amount [of so] kopecks.total_enc [OF e] show ?thesis
    by (simp add: getPaymentSheetOrder_def getOrderItemsTotalAmounts_def Let_def add.commute)
qed

text \<open>
  The total on the payment sheet and the amount of the created order are the same text, the
  sum of the item totals and of the delivery price.
\<close>

theorem sheet_total_is_order_amount:
  assumes "cart_total (ro_cart order) = None" "priced so"
    and "map oi_total (cart_items (ro_cart order)) = map cents_str cs"
    and "shipping_price so = map_option cents_str s"
    and "exact_range (case s of None \<Rightarrow> cs | Some c \<Rightarrow> c # cs)"
  shows "cor_orderAmount (paymentSheetToOrderCreate sh order ty m ad ct bc so)
           = Some (st_amount (so_total (ps_order (orderToPaymentSheet sh order so))))
         \<and> st_amount (so_total (ps_order (orderToPaymentSheet sh order so)))
           = cents_str (sum_list cs + (case s of None \<Rightarrow> 0 | Some c \<Rightarrow> c))"
  using getTotalAmount_cents [OF assms(3,5)] sheet_total_cents [OF assms]
  by (simp_all add: orderAmount_shipping orderToPaymentSheet_def Let_def assms(4))

section \<open>The coupon line\<close>

definition discounted :: "ApiOrderItem \<Rightarrow> int \<Rightarrow> int \<Rightarrow> bool" where
  "discounted item sub tot \<longleftrightarrow> 0 \<le> tot \<and> tot \<le> sub \<and> sub \<le> sum_bound
     \<and> oi_subtotal item = Some (cents_str sub) \<and> oi_total item = cents_str tot"

lemma cents_str_nonempty: "cents_str c \<noteq> []"
  by (simp add: cents_str_def int_digits_nonempty Let_def)

lemma cents_str_inj:
  assumes "0 \<le> a" "0 \<le> b" "cents_str a = cents_str b" shows "a = b"
proof -
  have "Some (of_int a / 100 :: rat) = Some (of_int b / 100)"
    unfolding parse_cents [OF assms(1), symmetric] parse_cents [OF assms(2), symmetric]
    by (simp only: assms(3))
  then show ?thesis by simp
qed

lemma cents_str_0: "cents_str 0 = ''0.00''"
  by (simp add: cents_str_def two_digits_def Let_def int_digits.simps char_of_def)

lemma coupon_fold:
  assumes "list_all2 (\<lambda>i (s, t). discounted i s t) items ps"
    and "0 \<le> acc" "acc + (\<Sum>(s, t) \<leftarrow> ps. s - t) \<le> sum_bound"
  shows "foldl (\<lambda>total item. sumAmount [total, diffAmount (the (oi_subtotal item)) (oi_total item)])
           (cents_str acc) items = cents_str (acc + (\<Sum>(s, t) \<leftarrow> ps. s - t))"
  using assms
proof (induction items ps arbitrary: acc rule: list_all2_induct)
  case Nil
  then show ?case by simp
next
  case (Cons i its p ps)
  obtain s t where p: "p = (s, t)" by (cases p)
  have d: "discounted i s t" using Cons.hyps(1) p by simp
  have rest: "0 \<le> (\<Sum>(s, t) \<leftarrow> ps. s - t)"
    using Cons.hyps(2) by (induction rule: list_all2_induct) (auto simp: discounted_def)
  have diff: "diffAmount (the (oi_subtotal i)) (oi_total i) = cents_str (s - t)"
    using d by (simp add: discounted_def diffAmount_cents)
  have e: "exact_range [acc, s - t]"
    using d Cons.prems rest p by (simp add: exact_range_def discounted_def)
  have step: "sumAmount [cents_str acc, cents_str (s - t)] = cents_str (acc + (s - t))"
    using kopecks.total_enc [OF e] by simp
  have "0 \<le> acc + (s - t)" using Cons.prems(1) d by (simp add: discounted_def)
  then show ?case using Cons.IH [of "acc + (s - t)"] Cons.prems p by (simp add: diff step algebra_simps)
qed

lemma couponDiscount_cents:
  assumes "list_all2 (\<lambda>i (s, t). discounted i s t) items ps" "(\<Sum>(s, t) \<leftarrow> ps. s - t) \<le> sum_bound"
  shows "couponDiscount items = cents_str (\<Sum>(s, t) \<leftarrow> ps. s - t)"
proof -
  have "filter (\<lambda>item. truthy (oi_subtotal item)) items = items"
    using assms(1)
    by (induction rule: list_all2_induct) (auto simp: discounted_def cents_str_nonempty)
  then show ?thesis using coupon_fold [OF assms(1), of 0] assms(2)
    by (simp add: couponDiscount_def cents_str_0)
qed

text \<open>
  When every item carries its price before the discount, the sheet has one coupon line, for
  minus the sum of the discounts, and none when nothing was discounted.
\<close>

theorem coupon_line:
  assumes "list_all2 (\<lambda>i (s, t). discounted i s t) (cart_items (ro_cart order)) ps"
    and "(\<Sum>(s, t) \<leftarrow> ps. s - t) = d" "d \<le> sum_bound"
  shows "map si_amount (getCouponItems order) = (if d = 0 then [] else [CHR ''-'' # cents_str d])"
proof -
  have "0 \<le> d"
    unfolding assms(2) [symmetric] using assms(1)
    by (induction rule: list_all2_induct) (auto simp: discounted_def)
  moreover have "couponDiscount (cart_items (ro_cart order)) = cents_str d"
    using couponDiscount_cents [OF assms(1)] assms(2,3) by simp
  ultimately show ?thesis
    using cents_str_inj [of d 0] assms(3)
    by (auto simp: getCouponItems_def Let_def cents_str_0 mulAmount_minus)
qed

text \<open>
  A request with a coupon code always gets the status of the first coupon of the order, and
  the order's first coupon is renamed to the requested code, whatever it was.
\<close>

theorem couponStatus_first:
  assumes "v \<noteq> []" "cart_coupons (ro_cart order) = Some (c # cs)"
  shows "couponStatus v order =
    ((ac_status c, ac_description c),
     order\<lparr>ro_cart := (ro_cart order)\<lparr>cart_coupons := Some (c\<lparr>ac_value := v\<rparr> # cs)\<rparr>\<rparr>)"
  using assms by (simp add: couponStatus_def Let_def)

section \<open>Sample data\<close>

definition sample_item :: "string \<Rightarrow> Price option \<Rightarrow> Price \<Rightarrow> ApiOrderItem" where
  "sample_item p sub tot =
     \<lparr>oi_title = None, oi_measurements = None, oi_total = tot, oi_unitPrice = None, oi_subtotal = sub,
      oi_productId = p, oi_discountedUnitPrice = None,
      oi_quantity = \<lparr>oiq_count = ''1'', oiq_available = None, oiq_label = None\<rparr>, oi_receipt = None\<rparr>"

definition sample_cart :: "ApiOrderItem list \<Rightarrow> OrderCart" where
  "sample_cart items =
     \<lparr>cart_cartId = ''cart'', cart_externalId = None, cart_items = items, cart_measurements = None,
      cart_coupons = None, cart_discounts = None, cart_total = None\<rparr>"

definition sample_order :: "ApiOrderItem list \<Rightarrow> RenderOrderResponse" where
  "sample_order items =
     \<lparr>ro_currencyCode = RUB, ro_cart = sample_cart items, ro_merchantId = None, ro_requiredFields = None,
      ro_enableCoupons = None, ro_enableCommentField = None, ro_availablePaymentMethods = Some [API_CARD],
      ro_shipping = None, ro_metadata = None\<rparr>"

definition sample_courier :: "Price \<Rightarrow> ShippingCourierOption" where
  "sample_courier a =
     \<lparr>co_courierOptionId = ''c1'', co_title = ''courier'', co_amount = a, co_toTime = None,
      co_category = ''EXPRESS'', co_fromDate = ''2022-06-15'', co_toDate = None,
      co_provider = ''DHL'', co_fromTime = None\<rparr>"

definition sample_sheet :: InitPaymentSheet where
  "sample_sheet =
     \<lparr>is_version = 2, is_merchant = \<lparr>mr_id = ''m'', mr_name = ''shop'', mr_url = None\<rparr>,
      is_order = \<lparr>so_id = ''o'', so_items = [], so_total = \<lparr>st_amount = ''0'', st_label = None\<rparr>\<rparr>,
      is_metadata = None, is_currencyCode = RUB, is_paymentMethods = None\<rparr>"

lemmas sample_defs = sample_item_def sample_cart_def sample_order_def sample_courier_def

theorem sheet_total_is_order_amount_witness:
  "st_amount (so_total (ps_order (orderToPaymentSheet sample_sheet
      (sample_order [sample_item ''a'' None (cents_str 1010), sample_item ''b'' None (cents_str 205)])
      \<lparr>opt_courier = Some (sample_courier (cents_str 300)), opt_pickup = None\<rparr>))) = cents_str 1515"
  using sheet_total_is_order_amount
    [of "sample_order [sample_item ''a'' None (cents_str 1010), sample_item ''b'' None (cents_str 205)]"
        "\<lparr>opt_courier = Some (sample_courier (cents_str 300)), opt_pickup = None\<rparr>" "[1010, 205]" "Some 300"
        sample_sheet PmtCash None None None None]
  by (simp add: sample_defs priced_def shipping_price_def exact_range_def sum_bound_def)

theorem coupon_line_witness:
  "map si_amount (getCouponItems (sample_order
      [sample_item ''a'' (Some (cents_str 1000)) (cents_str 900), sample_item ''b'' (Some (cents_str 50)) (cents_str 50)]))
    = [CHR ''-'' # cents_str 100]"
  using coupon_line [of "sample_order [sample_item ''a'' (Some (cents_str 1000)) (cents_str 900),
        sample_item ''b'' (Some (cents_str 50)) (cents_str 50)]" "[(1000, 900), (50, 50)]" 100]
  by (simp add: sample_defs discounted_def sum_bound_def)

theorem couponStatus_first_witness:
  "fst (couponStatus ''NEW'' (sample_order []\<lparr>ro_cart := sample_cart []\<lparr>cart_coupons :=
      Some [\<lparr>ac_value = ''OLD'', ac_status = VALID, ac_description = ''old''\<rparr>]\<rparr>\<rparr>)) = (VALID, ''old'')"
  using couponStatus_first [of "''NEW''" "sample_order []\<lparr>ro_cart := sample_cart []\<lparr>cart_coupons :=
      Some [\<lparr>ac_value = ''OLD'', ac_status = VALID, ac_description = ''old''\<rparr>]\<rparr>\<rparr>"
      "\<lparr>ac_value = ''OLD'', ac_status = VALID, ac_description = ''old''\<rparr>" "[]"]
  by simp

end
