(* ===== verification/ServerApi.thy ===== *)
theory ServerApi
  imports Transform
begin

text \<open>
  \<open>packages/pay-common/checkout-process/module.ts\<close>: \<open>ServerApiModule\<close>, the object that answers
  the checkout form's questions by asking the checkout server.  The state is the private fields
  of the class.  A method that awaits a request is two definitions: what it does up to the
  request (\<open>*_start\<close>) and what it does with the reply (\<open>*_done\<close>); \<open>module_step\<close> interleaves the
  calls and the replies in any order.  The answer to a request is an input of the model.
\<close>

datatype 'e failure = TypeError | ApiError 'e | Rejected string

record module_state =
  lastRender :: "RenderOrderResponse option"
  initSheet :: "InitPaymentSheet option"
  address :: "Address option"
  coupon :: "string option"
  courierOption :: "ShippingCourierOption option"
  pickupOption :: "PickupOption option"

definition new_module :: module_state where
  "new_module = \<lparr>lastRender = None, initSheet = None, address = None, coupon = None,
                 courierOption = None, pickupOption = None\<rparr>"

text \<open>\<open>onReject(cb, f)\<close>: a rejection is replaced by what the callback returns.\<close>

definition onReject :: "('e \<Rightarrow> 'e + 'r) \<Rightarrow> ('q \<Rightarrow> 'e + 'r) \<Rightarrow> 'q \<Rightarrow> 'e + 'r" where
  "onReject cb f q = (case f q of Inl e \<Rightarrow> cb e | Inr r \<Rightarrow> Inr r)"

text \<open>The calls of the form, the requests to the server and its replies.\<close>

record CreateOrderArgs =
  ca_paymentMethodType :: PaymentMethodType
  ca_paymentMethod :: "CardPaymentMethod option"
  ca_billingContact :: "BillingContact option"
  ca_shippingContact :: "string option"

datatype module_call =
    WaitSheet InitPaymentSheet
  | Setup
  | ShippingAddressChange Address
  | ShippingOptionChange ShippingOption
  | PickupBoundsChange GeoBounds GeoPoint
  | PickupInfoRequest string
  | PickupPointChange PickupPoint
  | ShippingOptionReset
  | CouponChange string
  | CouponReset
  | CreateOrder CreateOrderArgs

record PickupOptionsRequest =
  pr_merchantId :: string
  pr_cart :: RenderCartRequest
  pr_boundingBox :: GeoBounds
  pr_metadata :: "string option"
  pr_currencyCode :: CurrencyCode

record PickupDetailsRequest =
  pd_merchantId :: string
  pd_cart :: RenderCartRequest
  pd_pickupPointId :: string
  pd_metadata :: "string option"
  pd_currencyCode :: CurrencyCode

record CreatedOrder =
  cr_checkoutOrderId :: string
  cr_orderId :: string
  cr_metadata :: "string option"

datatype module_request =
    RenderRequest RenderOrderRequest
  | PickupRequest PickupOptionsRequest
  | DetailsRequest PickupDetailsRequest
  | CreateRequest CreateOrderRequest

datatype module_reply =
    RenderReply RenderOrderResponse
  | PickupReply "PickupOption list"
  | DetailsReply PickupOption
  | CreateReply CreatedOrder

datatype module_result =
    SheetResult PaymentSheet
  | SetupResult
  | OptionsResult "ShippingOption list"
  | PointsResult "PickupPoint list"
  | PointResult PickupPoint
  | OrderResult CreatedOrder

text \<open>A method returns at once, or sends a request and waits.\<close>

datatype 'e outcome = Returned "'e failure + module_result" | Sent module_request

section \<open>The private helpers\<close>

text \<open>The platform and \<open>pathOr\<close>.\<close>

record module_env =
  env_pathOr :: "string \<Rightarrow> string option \<Rightarrow> string"
  env_pathOrOptions ::
    "ShippingCourierOption list \<Rightarrow> ShippingCourierOption list option \<Rightarrow> ShippingCourierOption list"
  env_dates :: "string \<Rightarrow> time"
  env_tz :: int

definition renderOrder_start :: "module_env \<Rightarrow> module_state \<Rightarrow> 'e outcome" where
  "renderOrder_start env s =
     (case initSheet s of
        None \<Rightarrow> Returned (Inl TypeError)
      | Some sh \<Rightarrow> Sent (RenderRequest (paymentSheetToOrder (env_pathOr env) sh (address s) (coupon s))))"

definition renderOrder_done :: "RenderOrderResponse \<Rightarrow> module_state \<Rightarrow> module_state" where
  "renderOrder_done order s =
     s\<lparr>lastRender := Some order,
       initSheet := (if truthy (ro_metadata order)
                     then map_option (\<lambda>sh. sh\<lparr>is_metadata := ro_metadata order\<rparr>) (initSheet s)
                     else initSheet s)\<rparr>"

definition chosen_options :: "module_state \<Rightarrow> ShippingOptions" where
  "chosen_options s = \<lparr>opt_courier = courierOption s, opt_pickup = pickupOption s\<rparr>"

definition getPaymentSheet :: "module_state \<Rightarrow> 'e failure + module_result" where
  "getPaymentSheet s =
     (case (initSheet s, lastRender s) of
        (Some sh, Some order) \<Rightarrow> Inr (SheetResult (orderToPaymentSheet sh order (chosen_options s)))
      | _ \<Rightarrow> Inl TypeError)"

section \<open>The public methods\<close>

definition shippingOptionChange :: "ShippingOption \<Rightarrow> module_state \<Rightarrow> module_state" where
  "shippingOptionChange opt s = s\<lparr>pickupOption := None, courierOption := Some (sho_raw opt)\<rparr>"

definition pickupPointChange :: "PickupPoint \<Rightarrow> module_state \<Rightarrow> module_state" where
  "pickupPointChange p s = s\<lparr>courierOption := None, pickupOption := Some (pp_raw p)\<rparr>"

definition shippingOptionReset :: "module_state \<Rightarrow> module_state" where
  "shippingOptionReset s = s\<lparr>courierOption := None\<rparr>"

definition pickup_request :: "module_env \<Rightarrow> GeoBounds \<Rightarrow> InitPaymentSheet \<Rightarrow> PickupOptionsRequest" where
  "pickup_request env bounds sh =
     (let order = paymentSheetToOrder (env_pathOr env) sh None None
      in \<lparr>pr_merchantId = ror_merchantId order, pr_cart = ror_cart order, pr_boundingBox = bounds,
          pr_metadata = ror_metadata order, pr_currencyCode = ror_currencyCode order\<rparr>)"

definition details_request :: "module_env \<Rightarrow> string \<Rightarrow> InitPaymentSheet \<Rightarrow> PickupDetailsRequest" where
  "details_request env pid sh =
     (let order = paymentSheetToOrder (env_pathOr env) sh None None
      in \<lparr>pd_merchantId = ror_merchantId order, pd_cart = ror_cart order, pd_pickupPointId = pid,
          pd_metadata = ror_metadata order, pd_currencyCode = ror_currencyCode order\<rparr>)"

definition createOrder_start :: "CreateOrderArgs \<Rightarrow> module_state \<Rightarrow> 'e outcome" where
  "createOrder_start args s =
     (case (initSheet s, lastRender s) of
        (Some sh, Some order) \<Rightarrow>
          Sent (CreateRequest (paymentSheetToOrderCreate sh order (ca_paymentMethodType args)
            (ca_paymentMethod args) (address s) (ca_shippingContact args) (ca_billingContact args)
            (chosen_options s)))
      | _ \<Rightarrow> Returned (Inl TypeError))"

definition with_sheet :: "(InitPaymentSheet \<Rightarrow> module_request) \<Rightarrow> module_state \<Rightarrow> 'e outcome" where
  "with_sheet f s = (case initSheet s of None \<Rightarrow> Returned (Inl TypeError) | Some sh \<Rightarrow> Sent (f sh))"

fun call_start :: "module_env \<Rightarrow> module_call \<Rightarrow> module_state \<Rightarrow> module_state \<times> 'e outcome" where
  "call_start env (WaitSheet sh) s =
     (let s' = s\<lparr>initSheet := Some sh\<rparr> in (s', renderOrder_start env s'))"
| "call_start env Setup s = (s, Returned (Inr SetupResult))"
| "call_start env (ShippingAddressChange a) s =
     (let s' = s\<lparr>address := Some a\<rparr> in (s', renderOrder_start env s'))"
| "call_start env (ShippingOptionChange opt) s =
     (let s' = shippingOptionChange opt s in (s', Returned (getPaymentSheet s')))"
| "call_start env (PickupBoundsChange b c) s = (s, with_sheet (\<lambda>sh. PickupRequest (pickup_request env b sh)) s)"
| "call_start env (PickupInfoRequest pid) s = (s, with_sheet (\<lambda>sh. DetailsRequest (details_request env pid sh)) s)"
| "call_start env (PickupPointChange p) s =
     (let s' = pickupPointChange p s in (s', Returned (getPaymentSheet s')))"
| "call_start env ShippingOptionReset s =
     (let s' = shippingOptionReset s in (s', Returned (getPaymentSheet s')))"
| "call_start env (CouponChange c) s =
     (let s' = s\<lparr>coupon := Some c\<rparr> in (s', renderOrder_start env s'))"
| "call_start env CouponReset s =
     (let s' = s\<lparr>coupon := None\<rparr> in (s', renderOrder_start env s'))"
| "call_start env (CreateOrder args) s = (s, createOrder_start args s)"

text \<open>
  \<open>couponChange\<close> reads the coupon's status from the rendered order, and in doing so changes that
  order, which is also \<open>lastRender\<close>.
\<close>

definition couponChange_done ::
  "string \<Rightarrow> RenderOrderResponse \<Rightarrow> module_state \<Rightarrow> module_state \<times> ('e failure + module_result)" where
  "couponChange_done c order s =
     (let ((status, description), order') = couponStatus c order;
          s' = (renderOrder_done order s)\<lparr>lastRender := Some order'\<rparr>
      in if status = EXPIRED \<or> status = INVALID then (s', Inl (Rejected description))
         else (s', getPaymentSheet s'))"

text \<open>A reply of the wrong kind does not occur; it is a \<open>TypeError\<close> that leaves the state alone.\<close>

fun call_done ::
  "module_env \<Rightarrow> module_call \<Rightarrow> 'e + module_reply \<Rightarrow> module_state
    \<Rightarrow> module_state \<times> ('e failure + module_result)" where
  "call_done env c (Inl e) s = (s, Inl (ApiError e))"
| "call_done env (WaitSheet sh) (Inr (RenderReply order)) s =
     (let s' = renderOrder_done order s in (s', getPaymentSheet s'))"
| "call_done env (ShippingAddressChange a) (Inr (RenderReply order)) s =
     (let s' = renderOrder_done order s
      in (s', Inr (OptionsResult (orderToShippingOptions (env_pathOrOptions env) (env_dates env) (env_tz env) order))))"
| "call_done env (PickupBoundsChange b c) (Inr (PickupReply opts)) s =
     (s, Inr (PointsResult (pickupOptionsToPickupPoints (env_dates env) opts)))"
| "call_done env (PickupInfoRequest pid) (Inr (DetailsReply opt)) s =
     (s, Inr (PointResult (hd (pickupOptionsToPickupPoints (env_dates env) [opt]))))"
| "call_done env (CouponChange c) (Inr (RenderReply order)) s = couponChange_done c order s"
| "call_done env CouponReset (Inr (RenderReply order)) s =
     (let s' = renderOrder_done order s in (s', getPaymentSheet s'))"
| "call_done env (CreateOrder args) (Inr (CreateReply order)) s = (s, Inr (OrderResult order))"
| "call_done env _ _ s = (s, Inl TypeError)"

section \<open>Interleaved calls\<close>

record 'e module_run =
  rn_state :: module_state
  rn_pending :: "(nat \<times> module_call) list"
  rn_next :: nat
  rn_sent :: "(nat \<times> module_request) list"
  rn_results :: "(nat \<times> ('e failure + module_result)) list"

datatype 'e module_input = Invoke module_call | Reply nat "'e + module_reply"

definition new_run :: "'e module_run" where
  "new_run = \<lparr>rn_state = new_module, rn_pending = [], rn_next = 0, rn_sent = [], rn_results = []\<rparr>"

fun module_step :: "module_env \<Rightarrow> 'e module_input \<Rightarrow> 'e module_run \<Rightarrow> 'e module_run" where
  "module_step env (Invoke c) r =
     (let (s', out) = call_start env c (rn_state r); n = rn_next r
      in case out of
           Returned x \<Rightarrow> r\<lparr>rn_state := s', rn_next := Suc n, rn_results := rn_results r @ [(n, x)]\<rparr>
         | Sent q \<Rightarrow> r\<lparr>rn_state := s', rn_next := Suc n, rn_pending := rn_pending r @ [(n, c)],
                       rn_sent := rn_sent r @ [(n, q)]\<rparr>)"
| "module_step env (Reply n reply) r =
     (case map_of (rn_pending r) n of
        None \<Rightarrow> r
      | Some c \<Rightarrow>
          let (s', x) = call_done env c reply (rn_state r)
          in r\<lparr>rn_state := s', rn_pending := filter (\<lambda>p. fst p \<noteq> n) (rn_pending r),
               rn_results := rn_results r @ [(n, x)]\<rparr>)"

definition module_run :: "module_env \<Rightarrow> 'e module_input list \<Rightarrow> 'e module_run \<Rightarrow> 'e module_run" where
  "module_run env ins r = fold (module_step env) ins r"

section \<open>At most one delivery option\<close>

definition one_option :: "module_state \<Rightarrow> bool" where
  "one_option s \<longleftrightarrow> courierOption s = None \<or> pickupOption s = None"

lemma one_option_start: "one_option s \<Longrightarrow> one_option (fst (call_start env c s :: module_state \<times> 'e outcome))"
  by (cases c) (auto simp: one_option_def Let_def shippingOptionChange_def pickupPointChange_def
      shippingOptionReset_def)

lemma render_keeps [simp]:
  "courierOption (renderOrder_done order s) = courierOption s"
  "pickupOption (renderOrder_done order s) = pickupOption s"
  "address (renderOrder_done order s) = address s"
  "coupon (renderOrder_done order s) = coupon s"
  "lastRender (renderOrder_done order s) = Some order"
  by (simp_all add: renderOrder_done_def)

lemma couponChange_keeps [simp]:
  "courierOption (fst (couponChange_done c order s)) = courierOption s"
  "pickupOption (fst (couponChange_done c order s)) = pickupOption s"
  "address (fst (couponChange_done c order s)) = address s"
  "coupon (fst (couponChange_done c order s)) = coupon s"
  by (simp_all add: couponChange_done_def Let_def split: prod.splits)

lemma call_done_options:
  "courierOption (fst (call_done env c reply s)) = courierOption s
   \<and> pickupOption (fst (call_done env c reply s)) = pickupOption s"
  by (induction env c reply s rule: call_done.induct) (simp_all add: Let_def)

lemma one_option_step:
  fixes r :: "'e module_run"
  shows "one_option (rn_state r) \<Longrightarrow> one_option (rn_state (module_step env i r))"
proof (cases i)
  case (Invoke c)
  assume a: "one_option (rn_state r)"
  obtain s' and out :: "'e outcome" where e: "call_start env c (rn_state r) = (s', out)" by fastforce
  have "one_option s'" using one_option_start [OF a, where 'e = 'e and env = env and c = c] by (simp add: e)
  then show ?thesis using Invoke by (simp add: e Let_def split: outcome.splits)
next
  case (Reply n reply)
  assume "one_option (rn_state r)"
  then have "one_option (fst (call_done env c reply (rn_state r)))" for c
    using call_done_options [of env c reply "rn_state r"] by (simp add: one_option_def)
  with \<open>one_option (rn_state r)\<close> Reply show ?thesis
    by (auto simp: Let_def split: prod.splits option.splits) (metis fst_conv)
qed

lemma module_run_append: "module_run env (xs @ ys) r = module_run env ys (module_run env xs r)"
  by (simp add: module_run_def)

lemma module_run_one_option: "one_option (rn_state (module_run env ins new_run))"
proof (induction ins rule: rev_induct)
  case Nil
  then show ?case by (simp add: module_run_def new_run_def new_module_def one_option_def)
next
  case (snoc i ins)
  then show ?case by (simp add: module_run_append one_option_step) (simp add: module_run_def one_option_step)
qed

text \<open>
  However the calls and the replies interleave, a courier option and a pickup option are never
  chosen together, and so the order that is created is delivered in at most one way.
\<close>

theorem one_delivery_option:
  "\<not> (courierOption (rn_state (module_run env ins new_run)) \<noteq> None
      \<and> pickupOption (rn_state (module_run env ins new_run)) \<noteq> None)"
  using module_run_one_option [of env ins] by (auto simp: one_option_def)

section \<open>What the user sees is what is ordered\<close>

text \<open>The sheet shows the total the server gives for the cart, if it gives one, and the sum of the items otherwise.\<close>

lemma shown_total_cents:
  assumes "map_option oct_amount (cart_total (ro_cart order)) = map_option cents_str t" "priced so"
    and "map oi_total (cart_items (ro_cart order)) = map cents_str cs"
    and "shipping_price so = map_option cents_str d"
    and "exact_range (case d of None \<Rightarrow> cs | Some c \<Rightarrow> c # cs)"
    and "exact_range (case_option [] (\<lambda>c. [c]) t @ case_option [] (\<lambda>c. [c]) d)"
  shows "st_amount (so_total (getPaymentSheetOrder order so))
     = cents_str ((case t of None \<Rightarrow> sum_list cs | Some c \<Rightarrow> c) + (case d of None \<Rightarrow> 0 | Some c \<Rightarrow> c))"
proof (cases t)
  case None
  with assms sheet_total_cents [of order so cs d] show ?thesis by simp
next
  case (Some c)
  with assms(1) obtain o' where o': "cart_total (ro_cart order) = Some o'" "oct_amount o' = cents_str c" by auto
  have "sumAmount (map cents_str (case_option [] (\<lambda>c. [c]) t @ case_option [] (\<lambda>c. [c]) d))
      = cents_str (sum_list (case_option [] (\<lambda>c. [c]) t @ case_option [] (\<lambda>c. [c]) d))"
    by (rule kopecks.total_enc [OF assms(6)])
  with Some assms(2,4) o' shipping_items_amount [of so] show ?thesis
    by (cases d) (simp_all add: getPaymentSheetOrder_def getOrderItemsTotalAmounts_def Let_def)
qed

text \<open>
  C34: in a state where the sheet is known and the order was rendered, \<open>createOrder\<close> sends as the
  amount of the order the sum of the item totals and the delivery price, while the sheet the form shows
  in that state has the total the server gave for the cart, if it gave one, and the delivery price.  So the
  amount ordered is the one shown exactly when the server gave no total for the cart or one that is the sum
  of its items.
\<close>

theorem created_amount_is_shown:
  assumes "initSheet s = Some sh" "lastRender s = Some order" "priced (chosen_options s)"
    and "map oi_total (cart_items (ro_cart order)) = map cents_str cs"
    and "map_option oct_amount (cart_total (ro_cart order)) = map_option cents_str t"
    and "shipping_price (chosen_options s) = map_option cents_str d"
    and "exact_range (case d of None \<Rightarrow> cs | Some c \<Rightarrow> c # cs)"
    and "exact_range (case_option [] (\<lambda>c. [c]) t @ case_option [] (\<lambda>c. [c]) d)"
  shows "\<exists>q p. createOrder_start args s = Sent (CreateRequest q)
           \<and> getPaymentSheet s = Inr (SheetResult p)
           \<and> cor_orderAmount q = Some (cents_str (sum_list cs + (case d of None \<Rightarrow> 0 | Some c \<Rightarrow> c)))
           \<and> st_amount (so_total (ps_order p))
               = cents_str ((case t of None \<Rightarrow> sum_list cs | Some c \<Rightarrow> c) + (case d of None \<Rightarrow> 0 | Some c \<Rightarrow> c))
           \<and> (cor_orderAmount q = Some (st_amount (so_total (ps_order p))) \<longleftrightarrow> t = None \<or> t = Some (sum_list cs))"
proof -
  let ?D = "case d of None \<Rightarrow> 0 | Some c \<Rightarrow> c" and ?T = "case t of None \<Rightarrow> sum_list cs | Some c \<Rightarrow> c"
  let ?p = "orderToPaymentSheet sh order (chosen_options s)"
  have amounts: "st_amount (so_total (ps_order ?p)) = cents_str (?T + ?D)"
    using shown_total_cents [OF assms(5,3,4,6-8)] by (simp add: orderToPaymentSheet_def Let_def)
  have pos: "0 \<le> sum_list cs" "0 \<le> ?D" "0 \<le> ?T"
    using assms(7,8) by (auto simp: exact_range_def sum_list_nonneg split: option.splits)
  then have "cents_str (sum_list cs + ?D) = cents_str (?T + ?D) \<longleftrightarrow> t = None \<or> t = Some (sum_list cs)"
    using cents_str_inj [of "sum_list cs + ?D" "?T + ?D"] by (auto split: option.split)
  then show ?thesis
    using assms(1,2) getTotalAmount_cents [OF assms(4,7)] amounts
    by (simp add: createOrder_start_def getPaymentSheet_def orderAmount_shipping assms(6))
qed

section \<open>Replies out of order\<close>

text \<open>
  Of two address changes that overlap, the reply that arrives last wins, whichever address it
  is for: the form can end with the second address and the order rendered for the first.
\<close>

theorem overlapping_renders:
  assumes "initSheet (rn_state r) = Some sh" "rn_pending r = []"
  shows "let r' = module_run env [Invoke (ShippingAddressChange a1), Invoke (ShippingAddressChange a2),
              Reply (Suc (rn_next r)) (Inr (RenderReply o2)), Reply (rn_next r) (Inr (RenderReply o1))] r
         in address (rn_state r') = Some a2 \<and> lastRender (rn_state r') = Some o1"
  using assms by (simp add: module_run_def Let_def renderOrder_start_def)

section \<open>Coupons\<close>

text \<open>
  A coupon the server calls expired or invalid is refused with the server's text, but stays in
  the module: the next request to render the order carries it again.
\<close>

theorem refused_coupon_stays:
  assumes "v \<noteq> []" "initSheet s = Some sh"
    and "cart_coupons (ro_cart order) = Some (c # cs)" "ac_status c \<in> {EXPIRED, INVALID}"
  shows "let (s', out) = call_done env (CouponChange v) (Inr (RenderReply order)) (fst (call_start env (CouponChange v) s :: module_state \<times> 'e outcome))
         in out = (Inl (Rejected (ac_description c)) :: 'e failure + module_result)
            \<and> (\<exists>q. renderOrder_start env s' = (Sent (RenderRequest q) :: 'e outcome) \<and> rcr_coupons (ror_cart q) = Some [v])"
  using assms
  by (cases v) (auto simp: couponChange_done_def couponStatus_def renderOrder_start_def renderOrder_done_def
      paymentSheetToOrder_def Let_def)

text \<open>The metadata the server returned last is what the next request carries.\<close>

text \<open>
  After a rendered order with metadata, every later request to render or to create an order
  carries that metadata, until another order is rendered.
\<close>

theorem metadata_forwarded:
  assumes "initSheet s = Some sh" "truthy (ro_metadata order)"
  shows "(\<exists>q. renderOrder_start env (renderOrder_done order s) = (Sent (RenderRequest q) :: 'e outcome)
              \<and> ror_metadata q = ro_metadata order)
       \<and> (\<exists>q. createOrder_start args (renderOrder_done order s) = (Sent (CreateRequest q) :: 'e outcome)
              \<and> cor_metadata q = ro_metadata order)"
  using assms
  by (simp add: renderOrder_start_def createOrder_start_def renderOrder_done_def paymentSheetToOrder_def
      paymentSheetToOrderCreate_def js_or_opt_def)

section \<open>Sample runs\<close>

definition sample_env :: module_env where
  "sample_env = \<lparr>env_pathOr = (\<lambda>d v. case v of None \<Rightarrow> d | Some x \<Rightarrow> x),
     env_pathOrOptions = (\<lambda>d v. case v of None \<Rightarrow> d | Some x \<Rightarrow> x), env_dates = (\<lambda>_. None), env_tz = 10800000\<rparr>"

definition sample_address :: "string \<Rightarrow> Address" where
  "sample_address i = \<lparr>ad_id = i, ad_ownerService = [], ad_type = [], ad_zip = [], ad_country = [],
     ad_region = [], ad_locality = [], ad_street = [], ad_building = [], ad_room = [], ad_entrance = [],
     ad_floor = [], ad_intercom = [], ad_comment = [],
     ad_location = \<lparr>gp_latitude = Fin 0, gp_longitude = Fin 0\<rparr>\<rparr>"

definition ready_module :: "RenderOrderResponse \<Rightarrow> module_state" where
  "ready_module order = new_module\<lparr>initSheet := Some sample_sheet, lastRender := Some order,
     courierOption := Some (sample_courier (cents_str 300))\<rparr>"

text \<open>A cart of one item for 10.10 with delivery for 3.00: ordered as shown when the server gives no total for it,
  and ordered for 13.10 but shown as 13.00 when it gives 10.00.\<close>

definition totalled_order :: "Price option \<Rightarrow> RenderOrderResponse" where
  "totalled_order given_total = (let order = sample_order [sample_item ''a'' None (cents_str 1010)]
     in order\<lparr>ro_cart := (ro_cart order)\<lparr>cart_total := map_option (\<lambda>a. \<lparr>oct_label = None, oct_amount = a\<rparr>) given_total\<rparr>\<rparr>)"

theorem created_amount_is_shown_witness:
  "\<forall>given. \<exists>q p. createOrder_start \<lparr>ca_paymentMethodType = PmtCash, ca_paymentMethod = None,
             ca_billingContact = None, ca_shippingContact = None\<rparr>
           (ready_module (totalled_order (if given then Some (cents_str 1000) else None)))
           = (Sent (CreateRequest q) :: string outcome)
       \<and> getPaymentSheet (ready_module (totalled_order (if given then Some (cents_str 1000) else None)))
           = (Inr (SheetResult p) :: string failure + module_result)
       \<and> cor_orderAmount q = Some (cents_str 1310)
       \<and> st_amount (so_total (ps_order p)) = (if given then cents_str 1300 else cents_str 1310)"
proof
  fix given
  let ?t = "if given then Some (1000 :: int) else None"
  let ?order = "totalled_order (map_option cents_str ?t)"
  have "map_option cents_str ?t = (if given then Some (cents_str 1000) else None)" by simp
  moreover have "\<exists>q p. createOrder_start \<lparr>ca_paymentMethodType = PmtCash, ca_paymentMethod = None,
             ca_billingContact = None, ca_shippingContact = None\<rparr> (ready_module ?order)
           = (Sent (CreateRequest q) :: string outcome)
       \<and> getPaymentSheet (ready_module ?order) = (Inr (SheetResult p) :: string failure + module_result)
       \<and> cor_orderAmount q = Some (cents_str (sum_list [1010] + (case Some 300 of None \<Rightarrow> 0 | Some c \<Rightarrow> c)))
       \<and> st_amount (so_total (ps_order p))
           = cents_str ((case ?t of None \<Rightarrow> sum_list [1010] | Some c \<Rightarrow> c) + (case Some 300 of None \<Rightarrow> 0 | Some c \<Rightarrow> c))
       \<and> (cor_orderAmount q = Some (st_amount (so_total (ps_order p))) \<longleftrightarrow> ?t = None \<or> ?t = Some (sum_list [1010]))"
    by (rule created_amount_is_shown [of "ready_module ?order" sample_sheet ?order "[1010]" ?t "Some 300"])
      (simp_all add: totalled_order_def ready_module_def new_module_def chosen_options_def sample_defs priced_def
        shipping_price_def exact_range_def sum_bound_def Let_def option.map_comp o_def)
  ultimately show "\<exists>q p. createOrder_start \<lparr>ca_paymentMethodType = PmtCash, ca_paymentMethod = None,
             ca_billingContact = None, ca_shippingContact = None\<rparr>
           (ready_module (totalled_order (if given then Some (cents_str 1000) else None)))
           = (Sent (CreateRequest q) :: string outcome)
       \<and> getPaymentSheet (ready_module (totalled_order (if given then Some (cents_str 1000) else None)))
           = (Inr (SheetResult p) :: string failure + module_result)
       \<and> cor_orderAmount q = Some (cents_str 1310)
       \<and> st_amount (so_total (ps_order p)) = (if given then cents_str 1300 else cents_str 1310)"
    by (cases given) (simp_all, blast+)
qed

theorem overlapping_renders_witness:
  "address (rn_state (module_run sample_env
      [Invoke (ShippingAddressChange (sample_address ''1'')), Invoke (ShippingAddressChange (sample_address ''2'')),
       Reply (Suc 0) (Inr (RenderReply (sample_order [sample_item ''b'' None ''2.00'']))),
       Reply 0 (Inr (RenderReply (sample_order [sample_item ''a'' None ''1.00''])))]
      ((new_run :: string module_run)\<lparr>rn_state := ready_module (sample_order [])\<rparr>))) = Some (sample_address ''2'')"
  using overlapping_renders [of "(new_run :: string module_run)\<lparr>rn_state := ready_module (sample_order [])\<rparr>"
      sample_sheet sample_env "sample_address ''1''" "sample_address ''2''"
      "sample_order [sample_item ''b'' None ''2.00'']" "sample_order [sample_item ''a'' None ''1.00'']"]
  by (simp add: ready_module_def new_run_def new_module_def Let_def)

definition bad_coupon_order :: RenderOrderResponse where
  "bad_coupon_order = sample_order []\<lparr>ro_cart := sample_cart []\<lparr>cart_coupons :=
     Some [\<lparr>ac_value = ''X'', ac_status = EXPIRED, ac_description = ''too late''\<rparr>]\<rparr>\<rparr>"

theorem refused_coupon_stays_witness:
  "snd (call_done sample_env (CouponChange ''X'') (Inr (RenderReply bad_coupon_order))
     (fst (call_start sample_env (CouponChange ''X'') (ready_module (sample_order [])) :: module_state \<times> string outcome)))
    = (Inl (Rejected ''too late'') :: string failure + module_result)"
  using refused_coupon_stays [where 'e = string, of "''X''" "ready_module (sample_order [])" sample_sheet bad_coupon_order
      "\<lparr>ac_value = ''X'', ac_status = EXPIRED, ac_description = ''too late''\<rparr>" "[]" sample_env]
  by (simp add: ready_module_def new_module_def bad_coupon_order_def Let_def split_beta)

theorem metadata_forwarded_witness:
  "\<exists>q. (renderOrder_start sample_env (renderOrder_done (sample_order []\<lparr>ro_metadata := Some ''m''\<rparr>)
          (ready_module (sample_order []))) :: string outcome) = Sent (RenderRequest q) \<and> ror_metadata q = Some ''m''"
  using metadata_forwarded [where 'e = string, of "ready_module (sample_order [])" sample_sheet "sample_order []\<lparr>ro_metadata := Some ''m''\<rparr>" sample_env]
  by (simp add: ready_module_def new_module_def)

end
