(* ===== verification/CheckoutProcess.thy ===== *)
theory CheckoutProcess
  imports ServerApi Emitter
begin

text \<open>
  \<open>packages/pay-common\<close>: \<open>checkout-process/index.ts\<close> (\<open>CheckoutProcess\<close>, the payment itself),
  \<open>challenge/index.ts\<close>, \<open>config.ts\<close>, \<open>transform/payment.ts\<close> and the polling loop
  \<open>packages/utils/fn/do-until.ts\<close>.

  The process is an event emitter with two fields.  Its asynchronous methods run up to an
  \<open>await\<close> and are then a job waiting for a reply or for the timer of the polling loop; the input
  \<open>cp_step\<close> takes is a call, a reply to a job or the tick of its timer, in any order.  A listener
  may do anything to the emitter and to the fields and may throw: what it does is \<open>call\<close> of the
  environment, as in the theory \<open>Emitter\<close>.
\<close>

section \<open>Challenge redirects\<close>

definition MAX_CHALLENGE_REDIRECT :: nat where
  "MAX_CHALLENGE_REDIRECT = 3"

text \<open>\<open>CHALLENGE_NUM\<close> is read from the address of the page when the program starts.\<close>

definition challenge_num :: "(string option \<Rightarrow> string option option \<Rightarrow> string option) \<Rightarrow> search_params \<Rightarrow> jsnum" where
  "challenge_num path_or params =
     js_Number (js_or (path_or None (map_option Some (visible params ''chn''))) ''0'')"

fun js_ge :: "jsnum \<Rightarrow> rat \<Rightarrow> bool" where
  "js_ge (Fin x) b = (b \<le> x)"
| "js_ge PosInf b = True"
| "js_ge _ b = False"

definition limit_exceeded :: "jsnum \<Rightarrow> bool" where
  "limit_exceeded num = js_ge num (of_nat MAX_CHALLENGE_REDIRECT)"

definition getChallengeReturnPath :: "string \<Rightarrow> jsnum \<Rightarrow> string \<Rightarrow> string option" where
  "getChallengeReturnPath href num cardId =
     setSearchParams href
       [(''chn'', Some (js_toString (js_add num (Fin 1)))), (''chnCardId'', Some cardId)]"

text \<open>An error of the API, as far as the program looks into it.\<close>

record api_error =
  err_text :: string
  err_message :: "string option"
  err_challengeUrl :: "string option"

definition getChallengeParams :: "(string \<Rightarrow> string option \<Rightarrow> string) \<Rightarrow> api_error \<Rightarrow> bool \<times> string" where
  "getChallengeParams path_or e =
     (path_or [] (err_message e) = ''CHALLENGE_REQUIRED'', path_or [] (err_challengeUrl e))"

definition plain_error :: "string \<Rightarrow> api_error" where
  "plain_error t = \<lparr>err_text = t, err_message = None, err_challengeUrl = None\<rparr>"

section \<open>The process\<close>

datatype CheckoutProcessType =
    startServerPayment | startClientPayment | startWatchServerPayment | paymentOrder | error
  | transactionStatusChanged | transaction3ds | paymentData | challengeRedirect

record Order =
  ord_orderId :: string
  ord_checkoutOrderId :: string
  ord_transactionId :: "string option"
  ord_metadata :: "string option"

datatype error_state = wait_transaction | start_checkout | create_payment

record payment_result =
  pay_token :: string
  pay_info :: PaymentMethodInfo

datatype cp_event =
    StartServerPayment
  | StartClientPayment
  | StartWatchServerPayment
  | PaymentOrder "Order option"
  | ErrorEvent error_state api_error
  | TransactionStatusChanged TransactionStatus
  | Transaction3ds string string
  | PaymentData payment_result
  | ChallengeRedirect string

fun event_type :: "cp_event \<Rightarrow> CheckoutProcessType" where
  "event_type StartServerPayment = startServerPayment"
| "event_type StartClientPayment = startClientPayment"
| "event_type StartWatchServerPayment = startWatchServerPayment"
| "event_type (PaymentOrder p) = paymentOrder"
| "event_type (ErrorEvent s e) = error"
| "event_type (TransactionStatusChanged s) = transactionStatusChanged"
| "event_type (Transaction3ds m u) = transaction3ds"
| "event_type (PaymentData d) = paymentData"
| "event_type (ChallengeRedirect p) = challengeRedirect"

record Transaction =
  tr_status :: TransactionStatus
  tr_action :: "string option"
  tr_actionUrl :: "string option"

record StartPaymentData =
  sd_paymentMethod :: "CardPaymentMethod option"
  sd_isServerApi :: bool
  sd_paymentMethodType :: PaymentMethodType
  sd_billingContact :: "BillingContact option"
  sd_shippingContact :: "string option"
  sd_merchantOrigin :: string

datatype cp_request =
    ReqCreateOrder CreateOrderArgs
  | ReqCreateTransaction string string string
  | ReqTransactionStatus string
  | ReqCheckout string string PaymentMethodType string

datatype cp_job =
    AwaitOrder StartPaymentData
  | AwaitTransaction StartPaymentData CreatedOrder
  | AwaitStatus
  | LoopTimer
  | AwaitCheckout

record cp_core =
  order :: "Order option"
  lastTransactionStatus :: "TransactionStatus option"
  jobs :: "(nat \<times> cp_job) list"
  next_job :: nat
  requests :: "(nat \<times> cp_request) list"

type_synonym ('fn, 'w) cp_state = "(CheckoutProcessType, 'fn) emitter \<times> cp_core \<times> 'w"

text \<open>
  \<open>call\<close>: what a listener does with an event.  \<open>return_path\<close> is \<open>getChallengeReturnPath\<close> at
  the current address of the page, \<open>exceeded\<close> is \<open>CHALLENGE_LIMIT_EXCEEDED\<close>.
\<close>

record ('fn, 'w) cp_env =
  call :: "(CheckoutProcessType, 'fn, cp_event, cp_core \<times> 'w, api_error) handler"
  return_path :: "string \<Rightarrow> string option"
  exceeded :: bool
  path_or_str :: "string \<Rightarrow> string option \<Rightarrow> string"

text \<open>A piece of code either throws or ends, and changes the state.\<close>

type_synonym ('fn, 'w) cp_code = "('fn, 'w) cp_state \<Rightarrow> api_error option \<times> ('fn, 'w) cp_state"

definition and_then :: "('fn, 'w) cp_code \<Rightarrow> ('fn, 'w) cp_code \<Rightarrow> ('fn, 'w) cp_code" where
  "and_then m k st = (case m st of (Some x, st') \<Rightarrow> (Some x, st') | (None, st') \<Rightarrow> k st')"

definition try_catch :: "('fn, 'w) cp_code \<Rightarrow> (api_error \<Rightarrow> ('fn, 'w) cp_code) \<Rightarrow> ('fn, 'w) cp_code" where
  "try_catch m h st = (case m st of (Some x, st') \<Rightarrow> h x st' | (None, st') \<Rightarrow> (None, st'))"

definition update :: "(cp_core \<Rightarrow> cp_core) \<Rightarrow> ('fn, 'w) cp_code" where
  "update f st = (None, (fst st, f (fst (snd st)), snd (snd st)))"

definition throw :: "api_error \<Rightarrow> ('fn, 'w) cp_code" where
  "throw e st = (Some e, st)"

definition skip :: "('fn, 'w) cp_code" where
  "skip st = (None, st)"

definition reading :: "(cp_core \<Rightarrow> ('fn, 'w) cp_code) \<Rightarrow> ('fn, 'w) cp_code" where
  "reading f st = f (fst (snd st)) st"

definition emit :: "('fn, 'w) cp_env \<Rightarrow> cp_event \<Rightarrow> ('fn, 'w) cp_code" where
  "emit env ev st = em_emit (call env) (event_type ev) ev st"

definition push_job :: "cp_job \<Rightarrow> cp_core \<Rightarrow> cp_core" where
  "push_job j c = c\<lparr>jobs := jobs c @ [(next_job c, j)], next_job := Suc (next_job c)\<rparr>"

definition suspend :: "cp_request \<Rightarrow> cp_job \<Rightarrow> ('fn, 'w) cp_code" where
  "suspend q j = update (\<lambda>c. push_job j (c\<lparr>requests := requests c @ [(next_job c, q)]\<rparr>))"

text \<open>\<open>getChallengeReturnPath\<close> throws where the address is not decodable.\<close>

definition with_path :: "('fn, 'w) cp_env \<Rightarrow> string \<Rightarrow> (string \<Rightarrow> ('fn, 'w) cp_code) \<Rightarrow> ('fn, 'w) cp_code" where
  "with_path env key k =
     (case return_path env key of None \<Rightarrow> throw (plain_error ''URIError'') | Some p \<Rightarrow> k p)"

text \<open>An asynchronous call that is not awaited: what it throws does not reach the caller.\<close>

definition detach :: "('fn, 'w) cp_code \<Rightarrow> ('fn, 'w) cp_code" where
  "detach m st = (None, snd (m st))"

lemmas code_defs = and_then_def try_catch_def update_def throw_def skip_def reading_def detach_def

section \<open>The methods\<close>

definition reset :: "cp_core \<Rightarrow> cp_core" where
  "reset c = c\<lparr>order := None, lastTransactionStatus := None\<rparr>"

definition cancelPayment :: "('fn, 'w) cp_code" where
  "cancelPayment st = (case st of (em, c, w) \<Rightarrow> (None, (em_clear em, reset c, w)))"

text \<open>
  \<open>doUntil\<close>: one turn of the loop sends the status request, or ends the loop when the payment was
  cancelled; between two turns the loop waits for its timer.
\<close>

definition watch_turn :: "('fn, 'w) cp_code" where
  "watch_turn =
     reading (\<lambda>c. case order c of
        None \<Rightarrow> skip
      | Some ord \<Rightarrow>
          suspend (ReqTransactionStatus (case ord_transactionId ord of None \<Rightarrow> [] | Some t \<Rightarrow> t)) AwaitStatus)"

definition watch_error :: "('fn, 'w) cp_env \<Rightarrow> api_error \<Rightarrow> ('fn, 'w) cp_code" where
  "watch_error env e = emit env (ErrorEvent wait_transaction e)"

definition watchServerPayment :: "('fn, 'w) cp_env \<Rightarrow> ('fn, 'w) cp_code" where
  "watchServerPayment env =
     try_catch
       (reading (\<lambda>c. case order c of
          None \<Rightarrow> throw (plain_error ''Unable to watch transaction status: order not set'')
        | Some ord \<Rightarrow>
            if \<not> truthy (ord_transactionId ord)
            then throw (plain_error ''Unable to watch transaction status: order not set'')
            else and_then (emit env StartWatchServerPayment) watch_turn))
       (watch_error env)"

definition watch_again :: "('fn, 'w) cp_code" where
  "watch_again = update (push_job LoopTimer)"

text \<open>The rest of a turn, after the status request was answered.\<close>

definition watch_reply :: "('fn, 'w) cp_env \<Rightarrow> Transaction \<Rightarrow> ('fn, 'w) cp_code" where
  "watch_reply env t =
     reading (\<lambda>c.
       if lastTransactionStatus c = Some (tr_status t) then watch_again
       else and_then (update (\<lambda>c. c\<lparr>lastTransactionStatus := Some (tr_status t)\<rparr>))
         (if tr_status t = FAILED \<or> tr_status t = AUTHORIZED \<or> tr_status t = CHARGED
          then emit env (TransactionStatusChanged (tr_status t))
          else if truthy (tr_action t) \<and> truthy (tr_actionUrl t) \<and> tr_status t = THREEDS_CHALLENGE
          then and_then (emit env (TransactionStatusChanged (tr_status t)))
                 (and_then (emit env (Transaction3ds (the (tr_action t)) (the (tr_actionUrl t)))) watch_again)
          else watch_again))"

definition status_done :: "('fn, 'w) cp_env \<Rightarrow> api_error + Transaction \<Rightarrow> ('fn, 'w) cp_code" where
  "status_done env r =
     try_catch (case r of Inl e \<Rightarrow> throw e | Inr t \<Rightarrow> watch_reply env t) (watch_error env)"

definition start_error :: "('fn, 'w) cp_env \<Rightarrow> api_error \<Rightarrow> ('fn, 'w) cp_code" where
  "start_error env e = emit env (ErrorEvent start_checkout e)"

definition start_server_payment :: "('fn, 'w) cp_env \<Rightarrow> StartPaymentData \<Rightarrow> ('fn, 'w) cp_code" where
  "start_server_payment env d =
     try_catch
       (if sd_paymentMethod d = None \<and> sd_paymentMethodType d \<noteq> PmtCash
        then throw (plain_error ''Unable to create order: payment-method not set'')
        else and_then (emit env StartServerPayment)
               (suspend (ReqCreateOrder
                  \<lparr>ca_paymentMethodType = sd_paymentMethodType d, ca_paymentMethod = sd_paymentMethod d,
                   ca_billingContact = sd_billingContact d, ca_shippingContact = sd_shippingContact d\<rparr>)
                 (AwaitOrder d)))
       (start_error env)"

text \<open>The end of \<open>startServerPayment\<close>, common to cash and card.\<close>

definition announce_order :: "('fn, 'w) cp_env \<Rightarrow> StartPaymentData \<Rightarrow> ('fn, 'w) cp_code" where
  "announce_order env d =
     and_then (reading (\<lambda>c. emit env (PaymentOrder (order c))))
       (if sd_paymentMethodType d \<noteq> PmtCash then detach (watchServerPayment env) else skip)"

definition order_done ::
  "('fn, 'w) cp_env \<Rightarrow> StartPaymentData \<Rightarrow> api_error + CreatedOrder \<Rightarrow> ('fn, 'w) cp_code" where
  "order_done env d r =
     try_catch
       (case r of
          Inl e \<Rightarrow> throw e
        | Inr o' \<Rightarrow>
            and_then
              (update (\<lambda>c. c\<lparr>order := Some \<lparr>ord_orderId = cr_orderId o',
                  ord_checkoutOrderId = cr_checkoutOrderId o', ord_transactionId = None, ord_metadata = None\<rparr>\<rparr>))
              (if sd_paymentMethodType d \<noteq> PmtCash
               then case sd_paymentMethod d of
                      None \<Rightarrow> throw (plain_error ''TypeError'')
                    | Some m \<Rightarrow> with_path env (pm_id m)
                        (\<lambda>path. suspend (ReqCreateTransaction (cr_checkoutOrderId o') (pm_id m) path)
                                  (AwaitTransaction d o'))
               else announce_order env d))
       (start_error env)"

definition transaction_done ::
  "('fn, 'w) cp_env \<Rightarrow> StartPaymentData \<Rightarrow> CreatedOrder \<Rightarrow> api_error + string \<Rightarrow> ('fn, 'w) cp_code" where
  "transaction_done env d o' r =
     try_catch
       (case r of
          Inl e \<Rightarrow> throw e
        | Inr tid \<Rightarrow>
            and_then
              (reading (\<lambda>c. case order c of
                 None \<Rightarrow> throw (plain_error ''TypeError'')
               | Some ord \<Rightarrow>
                   update (\<lambda>c. c\<lparr>order := Some (ord\<lparr>ord_transactionId := Some tid,
                                                     ord_metadata := cr_metadata o'\<rparr>)\<rparr>)))
              (announce_order env d))
       (start_error env)"

text \<open>The client payment: the token is asked for directly.\<close>

definition CASH_KEY :: string where "CASH_KEY = ''__CASH__''"

definition client_error :: "('fn, 'w) cp_env \<Rightarrow> api_error \<Rightarrow> ('fn, 'w) cp_code" where
  "client_error env e =
     (let (required, path) = getChallengeParams (path_or_str env) e
      in if required \<and> \<not> exceeded env \<and> path \<noteq> [] then emit env (ChallengeRedirect path)
         else emit env (ErrorEvent create_payment e))"

definition start_client_payment :: "('fn, 'w) cp_env \<Rightarrow> StartPaymentData \<Rightarrow> ('fn, 'w) cp_code" where
  "start_client_payment env d =
     (let mid = map_option pm_id (sd_paymentMethod d)
      in try_catch
           (if \<not> truthy mid \<and> sd_paymentMethodType d \<noteq> PmtCash
            then throw (plain_error ''Unable to create order: payment-method-id not set'')
            else let key = js_or mid CASH_KEY
                 in with_path env key (\<lambda>path.
                      and_then (emit env StartClientPayment)
                        (suspend (ReqCheckout (sd_merchantOrigin d) key (sd_paymentMethodType d) path)
                          AwaitCheckout)))
           (client_error env))"

definition checkout_done :: "('fn, 'w) cp_env \<Rightarrow> api_error + payment_result \<Rightarrow> ('fn, 'w) cp_code" where
  "checkout_done env r =
     try_catch (case r of Inl e \<Rightarrow> throw e | Inr p \<Rightarrow> emit env (PaymentData p)) (client_error env)"

definition startPayment :: "('fn, 'w) cp_env \<Rightarrow> StartPaymentData \<Rightarrow> ('fn, 'w) cp_code" where
  "startPayment env d =
     and_then (update reset)
       (if sd_isServerApi d then start_server_payment env d else start_client_payment env d)"

section \<open>The machine\<close>

datatype 'fn cp_input =
    Subscribe CheckoutProcessType 'fn
  | Start StartPaymentData
  | Cancel
  | OrderReply nat "api_error + CreatedOrder"
  | TransactionReply nat "api_error + string"
  | StatusReply nat "api_error + Transaction"
  | Tick nat
  | CheckoutReply nat "api_error + payment_result"

definition take_job :: "nat \<Rightarrow> cp_core \<Rightarrow> cp_core" where
  "take_job n c = c\<lparr>jobs := filter (\<lambda>p. fst p \<noteq> n) (jobs c)\<rparr>"

definition resume :: "nat \<Rightarrow> ('fn, 'w) cp_code \<Rightarrow> ('fn, 'w) cp_code" where
  "resume n m = and_then (update (take_job n)) m"

text \<open>An error nobody catches ends the asynchronous call and is lost: only the state goes on.\<close>

fun cp_code_of :: "('fn, 'w) cp_env \<Rightarrow> 'fn cp_input \<Rightarrow> ('fn, 'w) cp_code" where
  "cp_code_of env (Subscribe ev fn) = (\<lambda>(em, s). (None, (snd (em_on ev fn em), s)))"
| "cp_code_of env (Start d) = startPayment env d"
| "cp_code_of env Cancel = cancelPayment"
| "cp_code_of env (OrderReply n r) =
     reading (\<lambda>c. case map_of (jobs c) n of
        Some (AwaitOrder d) \<Rightarrow> resume n (order_done env d r) | _ \<Rightarrow> skip)"
| "cp_code_of env (TransactionReply n r) =
     reading (\<lambda>c. case map_of (jobs c) n of
        Some (AwaitTransaction d o') \<Rightarrow> resume n (transaction_done env d o' r) | _ \<Rightarrow> skip)"
| "cp_code_of env (StatusReply n r) =
     reading (\<lambda>c. case map_of (jobs c) n of
        Some AwaitStatus \<Rightarrow> resume n (status_done env r) | _ \<Rightarrow> skip)"
| "cp_code_of env (Tick n) =
     reading (\<lambda>c. case map_of (jobs c) n of
        Some LoopTimer \<Rightarrow> resume n watch_turn | _ \<Rightarrow> skip)"
| "cp_code_of env (CheckoutReply n r) =
     reading (\<lambda>c. case map_of (jobs c) n of
        Some AwaitCheckout \<Rightarrow> resume n (checkout_done env r) | _ \<Rightarrow> skip)"

definition cp_step :: "('fn, 'w) cp_env \<Rightarrow> 'fn cp_input \<Rightarrow> ('fn, 'w) cp_state \<Rightarrow> ('fn, 'w) cp_state" where
  "cp_step env i st = snd (cp_code_of env i st)"

definition cp_run :: "('fn, 'w) cp_env \<Rightarrow> 'fn cp_input list \<Rightarrow> ('fn, 'w) cp_state \<Rightarrow> ('fn, 'w) cp_state" where
  "cp_run env ins st = fold (cp_step env) ins st"

definition new_core :: cp_core where
  "new_core = \<lparr>order = None, lastTransactionStatus = None, jobs = [], next_job = 0, requests = []\<rparr>"

section \<open>After \<open>cancelPayment\<close> nobody is told anything\<close>

definition no_listeners :: "(CheckoutProcessType, 'fn) emitter \<Rightarrow> bool" where
  "no_listeners em \<longleftrightarrow> listeners em = (\<lambda>_. None)"

text \<open>Code that tells nobody: with no listeners, it leaves the emitter and the world alone.\<close>

definition mute :: "('fn, 'w) cp_code \<Rightarrow> bool" where
  "mute m \<longleftrightarrow> (\<forall>em c w. no_listeners em \<longrightarrow> (\<exists>x c'. m (em, c, w) = (x, (em, c', w))))"

lemma mute_emit [simp]: "mute (emit env ev)"
  by (auto simp: mute_def no_listeners_def emit_def em_emit_def listeners_of_def)

lemma mute_prims [simp]: "mute (update f)" "mute (throw e)" "mute skip" "mute (suspend q j)"
  by (simp_all add: mute_def code_defs suspend_def)

lemma muteE:
  assumes "mute m" "no_listeners em"
  obtains x c' where "m (em, c, w) = (x, (em, c', w))"
  using assms unfolding mute_def by blast

lemma mute_and_then [intro!]:
  assumes "mute m" "mute k" shows "mute (and_then m k)"
  unfolding mute_def
proof (intro allI impI)
  fix em :: "(CheckoutProcessType, 'a) emitter" and c and w :: 'b
  assume n: "no_listeners em"
  obtain x c' where m: "m (em, c, w) = (x, (em, c', w))" using muteE [OF assms(1) n] .
  obtain y d where k: "k (em, c', w) = (y, (em, d, w))" using muteE [OF assms(2) n] .
  show "\<exists>x c'. and_then m k (em, c, w) = (x, em, c', w)"
    by (cases x) (simp_all add: and_then_def m k)
qed

lemma mute_try [intro!]:
  assumes "mute m" "\<And>e. mute (h e)" shows "mute (try_catch m h)"
  unfolding mute_def
proof (intro allI impI)
  fix em :: "(CheckoutProcessType, 'a) emitter" and c and w :: 'b
  assume n: "no_listeners em"
  obtain x c' where m: "m (em, c, w) = (x, (em, c', w))" using muteE [OF assms(1) n] .
  show "\<exists>x c'. try_catch m h (em, c, w) = (x, em, c', w)"
  proof (cases x)
    case (Some e)
    obtain y d where "h e (em, c', w) = (y, (em, d, w))" using muteE [OF assms(2) n] .
    then show ?thesis using Some by (simp add: try_catch_def m)
  qed (simp add: try_catch_def m)
qed

lemma mute_reading [intro!]: "(\<And>c. mute (f c)) \<Longrightarrow> mute (reading f)"
  by (simp add: mute_def reading_def)

lemma mute_detach [intro!]:
  assumes "mute m" shows "mute (detach m)"
  unfolding mute_def
proof (intro allI impI)
  fix em :: "(CheckoutProcessType, 'a) emitter" and c and w :: 'b
  assume "no_listeners em"
  then obtain x c' where "m (em, c, w) = (x, (em, c', w))" by (rule muteE [OF assms])
  then show "\<exists>x c'. detach m (em, c, w) = (x, em, c', w)" by (simp add: detach_def)
qed

lemma mute_with_path [intro!]: "(\<And>p. mute (k p)) \<Longrightarrow> mute (with_path env key k)"
  by (simp add: with_path_def split: option.splits)

lemma mute_watch [simp]: "mute watch_turn" "mute watch_again" "mute (watch_error env e)"
  "mute (start_error env e)" "mute (client_error env e)"
  by (auto simp: watch_turn_def watch_again_def watch_error_def start_error_def client_error_def
      split: option.splits prod.splits)

lemma mute_watchServer [simp]: "mute (watchServerPayment env)"
  by (auto simp: watchServerPayment_def split: option.splits)

lemma mute_announce [simp]: "mute (announce_order env d)"
  by (auto simp: announce_order_def)

lemma mute_replies [simp]: "mute (status_done env r)" "mute (order_done env d r2)"
  "mute (transaction_done env d o' r3)" "mute (checkout_done env r4)"
  by (auto simp: status_done_def watch_reply_def order_done_def transaction_done_def checkout_done_def
      split: sum.splits option.splits)

lemma mute_start [simp]: "mute (startPayment env d)"
  by (auto simp: startPayment_def start_server_payment_def start_client_payment_def Let_def)

fun is_subscribe :: "'fn cp_input \<Rightarrow> bool" where
  "is_subscribe (Subscribe ev fn) = True"
| "is_subscribe _ = False"

lemma mute_resume [intro!]: "mute m \<Longrightarrow> mute (resume n m)"
  by (auto simp: resume_def)

lemma mute_cancel: "mute cancelPayment"
  by (simp add: mute_def cancelPayment_def em_clear_def no_listeners_def)

lemma mute_code: "\<not> is_subscribe i \<Longrightarrow> mute (cp_code_of env i)"
  by (cases i) (auto simp: mute_cancel split: option.splits cp_job.splits)

lemma cp_run_mute:
  assumes "no_listeners em" "\<forall>i \<in> set ins. \<not> is_subscribe i"
  shows "\<exists>c'. cp_run env ins (em, c, w) = (em, c', w)"
  using assms
proof (induction ins arbitrary: c)
  case Nil
  then show ?case by (simp add: cp_run_def)
next
  case (Cons i ins)
  obtain x c' where "cp_code_of env i (em, c, w) = (x, (em, c', w))"
    using muteE [OF mute_code Cons.prems(1)] Cons.prems(2) by (metis list.set_intros(1))
  with Cons show ?case by (simp add: cp_run_def cp_step_def)
qed

text \<open>
  C6: once a payment was cancelled, no reply that is still on its way, no timer and no later payment
  reaches a listener of before: until somebody subscribes again, the listeners and the world they
  act on stay as the cancellation left them.
\<close>

theorem cancelled_is_silent:
  assumes "\<forall>i \<in> set ins. \<not> is_subscribe i"
  shows "let after = cp_step env Cancel st in
           fst (cp_run env ins after) = fst after \<and> snd (snd (cp_run env ins after)) = snd (snd st)"
proof -
  obtain em c w where st: "st = (em, c, w)" by (cases st) auto
  have "no_listeners (em_clear em)" by (simp add: no_listeners_def em_clear_def)
  then obtain c' where "cp_run env ins (em_clear em, reset c, w) = (em_clear em, c', w)"
    using cp_run_mute [OF _ assms, of "em_clear em" env "reset c" w] by auto
  then show ?thesis by (simp add: st cp_step_def cancelPayment_def)
qed

section \<open>Listeners that only listen\<close>

text \<open>
  What is delivered is seen with listeners that record the event and do nothing else: the world is
  the list of the deliveries.
\<close>

definition recorder :: "(CheckoutProcessType, 'fn, cp_event, cp_core \<times> ('fn \<times> cp_event) list, api_error) handler" where
  "recorder fn ev st = (case st of (em, c, w) \<Rightarrow> (None, (em, c, w @ [(fn, ev)])))"

definition recording :: "('fn, ('fn \<times> cp_event) list) cp_env \<Rightarrow> bool" where
  "recording env \<longleftrightarrow> call env = recorder"

text \<open>Listeners put in place with \<open>on\<close>.\<close>

definition on_only :: "(CheckoutProcessType, 'fn) emitter \<Rightarrow> bool" where
  "on_only em \<longleftrightarrow> (\<forall>ev. \<forall>l \<in> set (listeners_of em ev). \<exists>fn. l = Plain fn)"

definition delivered :: "(CheckoutProcessType, 'fn) emitter \<Rightarrow> cp_event list \<Rightarrow> ('fn \<times> cp_event) list" where
  "delivered em evs = concat (map (\<lambda>e. map (\<lambda>l. (fn_of l, e)) (listeners_of em (event_type e))) evs)"

lemma run_recorder:
  assumes "\<forall>l \<in> set ls. \<exists>fn. l = Plain fn"
  shows "run_listeners recorder ev e ls (em, c, w) = (None, (em, c, w @ map (\<lambda>l. (fn_of l, e)) ls))"
  using assms by (induction ls arbitrary: w) (auto simp: recorder_def)

lemma emit_recorded:
  assumes "recording env" "on_only em"
  shows "emit env e (em, c, w) = (None, (em, c, w @ delivered em [e]))"
  using assms by (simp add: recording_def on_only_def emit_def em_emit_def run_recorder delivered_def)

section \<open>The polling loop\<close>

definition final_status :: "TransactionStatus \<Rightarrow> bool" where
  "final_status s \<longleftrightarrow> s = FAILED \<or> s = AUTHORIZED \<or> s = CHARGED"

definition needs_3ds :: "Transaction \<Rightarrow> bool" where
  "needs_3ds t \<longleftrightarrow> truthy (tr_action t) \<and> truthy (tr_actionUrl t) \<and> tr_status t = THREEDS_CHALLENGE"

text \<open>
  The specification: from the statuses the server reports, one after the other, the events the
  merchant's page gets.
\<close>

fun watched :: "TransactionStatus option \<Rightarrow> Transaction list \<Rightarrow> cp_event list" where
  "watched prev [] = []"
| "watched prev (t # ts) =
     (if prev = Some (tr_status t) then watched prev ts
      else if final_status (tr_status t) then [TransactionStatusChanged (tr_status t)]
      else if needs_3ds t
      then TransactionStatusChanged (tr_status t)
           # Transaction3ds (the (tr_action t)) (the (tr_actionUrl t)) # watched (Some (tr_status t)) ts
      else watched (Some (tr_status t)) ts)"

text \<open>Each reply is followed by the tick of the loop's timer.\<close>

fun polls :: "nat \<Rightarrow> Transaction list \<Rightarrow> 'fn cp_input list" where
  "polls n [] = []"
| "polls n (t # ts) = StatusReply n (Inr t) # Tick (Suc n) # polls (Suc (Suc n)) ts"

lemma status_reply_step:
  assumes "recording env" "on_only em" "jobs c = [(n, AwaitStatus)]"
  shows "cp_step env (StatusReply n (Inr t)) (em, c, w) =
    (let c0 = c\<lparr>jobs := []\<rparr>; c1 = c0\<lparr>lastTransactionStatus := Some (tr_status t)\<rparr> in
     if lastTransactionStatus c = Some (tr_status t) then (em, push_job LoopTimer c0, w)
     else if final_status (tr_status t) then (em, c1, w @ delivered em [TransactionStatusChanged (tr_status t)])
     else if needs_3ds t
     then (em, push_job LoopTimer c1, w @ delivered em [TransactionStatusChanged (tr_status t),
             Transaction3ds (the (tr_action t)) (the (tr_actionUrl t))])
     else (em, push_job LoopTimer c1, w))"
  using assms
  by (simp add: cp_step_def code_defs resume_def take_job_def status_done_def watch_reply_def
      final_status_def needs_3ds_def watch_again_def emit_recorded delivered_def Let_def)

lemma tick_step:
  assumes "jobs c = [(n, LoopTimer)]" "order c = Some ord"
  shows "cp_step env (Tick n) (em, c, w) =
    (em, push_job AwaitStatus (c\<lparr>jobs := [], requests := requests c @
       [(next_job c, ReqTransactionStatus (case ord_transactionId ord of None \<Rightarrow> [] | Some t \<Rightarrow> t))]\<rparr>), w)"
  using assms by (simp add: cp_step_def code_defs resume_def take_job_def watch_turn_def suspend_def)

lemma no_job_step:
  assumes "jobs c = []"
  shows "cp_step env (StatusReply n r) (em, c, w) = (em, c, w)" "cp_step env (Tick n) (em, c, w) = (em, c, w)"
  using assms by (simp_all add: cp_step_def code_defs)

lemma polls_idle: "jobs c = [] \<Longrightarrow> cp_run env (polls n ts) (em, c, w) = (em, c, w)"
  by (induction n ts rule: polls.induct) (simp_all add: cp_run_def no_job_step)

lemma polls_delivered:
  assumes "recording env" "on_only em" "jobs c = [(n, AwaitStatus)]" "next_job c = Suc n" "order c = Some ord"
  shows "snd (snd (cp_run env (polls n ts) (em, c, w)))
           = w @ delivered em (watched (lastTransactionStatus c) ts)"
  using assms(3-5)
proof (induction ts arbitrary: n c w)
  case Nil
  then show ?case by (simp add: cp_run_def delivered_def)
next
  case (Cons t ts)
  note reply = status_reply_step [OF assms(1,2) Cons.prems(1)]
  have run: "cp_run env (polls n (t # ts)) (em, c, w) = cp_run env (polls (Suc (Suc n)) ts)
      (cp_step env (Tick (Suc n)) (cp_step env (StatusReply n (Inr t)) (em, c, w)))"
    by (simp add: cp_run_def)
  show ?case
  proof (cases "lastTransactionStatus c \<noteq> Some (tr_status t) \<and> final_status (tr_status t)")
    case True
    then show ?thesis
      unfolding run by (simp add: reply Let_def no_job_step polls_idle delivered_def)
  next
    case False
    define c1 where "c1 = c\<lparr>jobs := [], lastTransactionStatus := Some (tr_status t)\<rparr>"
    define w' where "w' = w @ (if lastTransactionStatus c \<noteq> Some (tr_status t) \<and> needs_3ds t
        then delivered em [TransactionStatusChanged (tr_status t),
             Transaction3ds (the (tr_action t)) (the (tr_actionUrl t))] else [])"
    have s1: "cp_step env (StatusReply n (Inr t)) (em, c, w) = (em, push_job LoopTimer c1, w')"
    proof (cases "lastTransactionStatus c = Some (tr_status t)")
      case True
      then have "c\<lparr>jobs := []\<rparr> = c1" by (cases c) (simp add: c1_def)
      with True show ?thesis by (simp add: reply Let_def w'_def)
    next
      case changed: False
      with False show ?thesis by (auto simp: reply Let_def c1_def w'_def)
    qed
    have "jobs (push_job LoopTimer c1) = [(Suc n, LoopTimer)]" "order (push_job LoopTimer c1) = Some ord"
      using Cons.prems by (simp_all add: c1_def push_job_def)
    note s2 = tick_step [OF this, of env em w']
    define c2 where "c2 = push_job AwaitStatus ((push_job LoopTimer c1)\<lparr>jobs := [],
       requests := requests (push_job LoopTimer c1) @ [(next_job (push_job LoopTimer c1),
         ReqTransactionStatus (case ord_transactionId ord of None \<Rightarrow> [] | Some t \<Rightarrow> t))]\<rparr>)"
    have c2: "jobs c2 = [(Suc (Suc n), AwaitStatus)]" "next_job c2 = Suc (Suc (Suc n))" "order c2 = Some ord"
      "lastTransactionStatus c2 = Some (tr_status t)"
      using Cons.prems by (simp_all add: c2_def c1_def push_job_def)
    have "snd (snd (cp_run env (polls n (t # ts)) (em, c, w)))
        = w' @ delivered em (watched (lastTransactionStatus c2) ts)"
      unfolding run s1 s2 c2_def [symmetric] by (rule Cons.IH [OF c2(1-3)])
    then show ?thesis using False by (auto simp: w'_def c2(4) delivered_def)
  qed
qed

text \<open>
  C2: with listeners that only listen, the events the polling loop delivers are exactly those of the
  specification \<open>watched\<close>, whatever statuses the server reports: an unchanged status is not
  reported again, a challenge is reported with its address, and after a final status the loop ends.
\<close>

theorem polling_loop_events:
  assumes "recording env" "on_only em" "jobs c = [(n, AwaitStatus)]" "next_job c = Suc n" "order c = Some ord"
  shows "snd (snd (cp_run env (polls n ts) (em, c, w)))
           = w @ delivered em (watched (lastTransactionStatus c) ts)"
  by (rule polls_delivered [OF assms])


section \<open>What a cancelled payment can still do\<close>

text \<open>
  A turn of the polling loop that waits for its reply is not stopped by \<open>cancelPayment\<close>: the reply
  is reported to whoever listens when it comes.
\<close>

text \<open>
  A status request of a payment that was cancelled is answered after the next payment started:
  the final status of the old transaction is delivered to the listeners of the new payment, whose
  own order does not exist yet.
\<close>

theorem stale_status_reported:
  assumes "recording env" "jobs c = [(n, AwaitStatus)]" "n < next_job c"
    and "sd_isServerApi d" "sd_paymentMethodType d = PmtCash" "final_status (tr_status t)"
  shows "let st = cp_run env [Cancel, Subscribe transactionStatusChanged fn, Start d, StatusReply n (Inr t)] (em, c, w)
         in snd (snd st) = w @ [(fn, TransactionStatusChanged (tr_status t))] \<and> order (fst (snd st)) = None"
proof -
  define em' where "em' = snd (em_on transactionStatusChanged fn (em_clear em))"
  have em': "on_only em'" "listeners_of em' transactionStatusChanged = [Plain fn]"
    "listeners_of em' startServerPayment = []"
    by (auto simp: em'_def on_only_def em_on_def em_push_def em_clear_def listeners_of_def)
  have "map_of (jobs (push_job (AwaitOrder d) (reset c'))) n = Some AwaitStatus"
    if "jobs c' = jobs c" "next_job c' = next_job c" for c'
    using that assms(2,3) by (simp add: push_job_def reset_def)
  then show ?thesis
    using assms em'
    by (simp add: cp_run_def cp_step_def cancelPayment_def em'_def [symmetric] startPayment_def
        start_server_payment_def suspend_def reset_def push_job_def code_defs emit_recorded delivered_def
        resume_def take_job_def status_done_def watch_reply_def final_status_def Let_def)
qed

section \<open>Two loops on one status\<close>

text \<open>
  The loops of two payments share \<open>lastTransactionStatus\<close>.  When one has seen the final status,
  the other only sees a status it already knows, and goes on.
\<close>

fun rounds :: "nat \<Rightarrow> nat \<Rightarrow> nat \<Rightarrow> Transaction \<Rightarrow> 'fn cp_input list" where
  "rounds 0 n m t = []"
| "rounds (Suc k) n m t = [Tick n, StatusReply m (Inr t)] @ rounds k (Suc m) (Suc (Suc m)) t"

text \<open>
  A loop whose timer is pending when another loop has already recorded the final status of the
  payment never ends: after any number of further rounds, each answered with that status, it is
  still waiting for its timer and nobody was told anything.
\<close>

theorem second_loop_never_ends:
  assumes "jobs c = [(n, LoopTimer)]" "n < next_job c" "order c = Some ord"
    and "lastTransactionStatus c = Some (tr_status t)"
  shows "\<exists>c' j. cp_run env (rounds k n (next_job c) t) (em, c, w) = (em, c', w) \<and> jobs c' = [(j, LoopTimer)]"
  using assms
proof (induction k arbitrary: n c)
  case 0
  then show ?case by (simp add: cp_run_def)
next
  case (Suc k)
  define c1 where "c1 = push_job LoopTimer ((push_job AwaitStatus (c\<lparr>jobs := [], requests := requests c @
       [(next_job c, ReqTransactionStatus (case ord_transactionId ord of None \<Rightarrow> [] | Some t \<Rightarrow> t))]\<rparr>))\<lparr>jobs := []\<rparr>)"
  have "cp_step env (StatusReply (next_job c) (Inr t)) (cp_step env (Tick n) (em, c, w)) = (em, c1, w)"
    using Suc.prems tick_step [OF Suc.prems(1,3), of env em w]
    by (simp add: cp_step_def code_defs resume_def take_job_def status_done_def watch_reply_def
        watch_again_def push_job_def c1_def)
  moreover have "jobs c1 = [(Suc (next_job c), LoopTimer)]" "next_job c1 = Suc (Suc (next_job c))"
    "order c1 = Some ord" "lastTransactionStatus c1 = Some (tr_status t)"
    using Suc.prems by (simp_all add: c1_def push_job_def)
  ultimately show ?case using Suc.IH [of c1 "Suc (next_job c)"] by (simp add: cp_run_def)
qed

section \<open>Errors of the methods\<close>

text \<open>
  A card payment without a card is reported as one error of \<open>start_checkout\<close>, and no request is
  sent and no job is left.
\<close>

theorem server_payment_without_method:
  assumes "recording env" "on_only em" "sd_isServerApi d" "sd_paymentMethod d = None" "sd_paymentMethodType d \<noteq> PmtCash"
  shows "cp_step env (Start d) (em, c, w) =
    (em, reset c, w @ delivered em
       [ErrorEvent start_checkout (plain_error ''Unable to create order: payment-method not set'')])"
  using assms
  by (simp add: cp_step_def startPayment_def start_server_payment_def start_error_def code_defs emit_recorded)

text \<open>
  When the request for the token fails, the page is sent to the challenge exactly if the server
  asks for one, gives its address, and the page was not redirected too often already; in every
  other case the listeners get one \<open>create_payment\<close> error.
\<close>

theorem challenge_or_error:
  assumes "recording env" "on_only em" "map_of (jobs c) n = Some AwaitCheckout" "path_or_spec (path_or_str env)"
  shows "cp_step env (CheckoutReply n (Inl e)) (em, c, w) =
    (em, take_job n c, w @ delivered em
       [if err_message e = Some ''CHALLENGE_REQUIRED'' \<and> truthy (err_challengeUrl e) \<and> \<not> exceeded env
        then ChallengeRedirect (the (err_challengeUrl e)) else ErrorEvent create_payment e])"
  using assms
  by (cases "err_challengeUrl e"; cases "err_message e")
    (auto simp: cp_step_def code_defs resume_def checkout_done_def client_error_def getChallengeParams_def
      path_or_spec_def emit_recorded)

section \<open>Sample runs\<close>

definition sample_cp_env :: "(string, (string \<times> cp_event) list) cp_env" where
  "sample_cp_env = \<lparr>call = recorder, return_path = (\<lambda>_. Some ''/back''), exceeded = False,
     path_or_str = (\<lambda>d v. case v of None \<Rightarrow> d | Some x \<Rightarrow> x)\<rparr>"

definition sample_data :: "PaymentMethodType \<Rightarrow> CardPaymentMethod option \<Rightarrow> StartPaymentData" where
  "sample_data ty m = \<lparr>sd_paymentMethod = m, sd_isServerApi = True, sd_paymentMethodType = ty,
     sd_billingContact = None, sd_shippingContact = None, sd_merchantOrigin = ''https://shop''\<rparr>"

definition sample_card :: CardPaymentMethod where
  "sample_card = \<lparr>pm_type = PmtCard, pm_key = ''k'', pm_disabled = False, pm_id = ''card'', pm_uid = ''1'',
     pm_lastDigits = ''4444'', pm_system = ''Visa'', pm_issuer = ''UNKNOWN''\<rparr>"

definition sample_created :: CreatedOrder where
  "sample_created = \<lparr>cr_checkoutOrderId = ''co'', cr_orderId = ''o'', cr_metadata = None\<rparr>"

definition status_only :: "TransactionStatus \<Rightarrow> Transaction" where
  "status_only s = \<lparr>tr_status = s, tr_action = None, tr_actionUrl = None\<rparr>"

lemma sample_recording [simp]: "recording sample_cp_env"
  by (simp add: recording_def sample_cp_env_def)

lemma sample_cp_path: "path_or_spec (path_or_str sample_cp_env)" "\<not> exceeded sample_cp_env"
  by (simp_all add: path_or_spec_def sample_cp_env_def)

lemma on_only_empty [simp]: "on_only new_emitter"
  by (simp add: on_only_def new_emitter_def listeners_of_def)

text \<open>A card payment is polled, cancelled between two polls, and started again; the new payment fails.\<close>

definition two_payments :: "string cp_input list" where
  "two_payments =
     (let go = (\<lambda>n. [Start (sample_data PmtCard (Some sample_card)), OrderReply n (Inr sample_created),
                     TransactionReply (Suc n) (Inr ''tr'')])
      in go 0 @ [StatusReply 2 (Inr (status_only NEW)), Cancel] @ go 4
         @ [StatusReply 6 (Inr (status_only FAILED))])"

definition after_two_payments :: "(string, (string \<times> cp_event) list) cp_state" where
  "after_two_payments = cp_run sample_cp_env two_payments (new_emitter, new_core, [])"

lemma emit_silent: "no_listeners em \<Longrightarrow> emit env e (em, c, w) = (None, (em, c, w))"
  by (simp add: no_listeners_def emit_def em_emit_def listeners_of_def)

lemma no_listeners_new [simp]: "no_listeners new_emitter" "em_clear new_emitter = new_emitter"
  by (simp_all add: no_listeners_def new_emitter_def em_clear_def)

lemma two_payments_state:
  "fst after_two_payments = new_emitter
   \<and> jobs (fst (snd after_two_payments)) = [(3, LoopTimer)]
   \<and> lastTransactionStatus (fst (snd after_two_payments)) = Some FAILED
   \<and> next_job (fst (snd after_two_payments)) = 7
   \<and> (\<exists>ord. order (fst (snd after_two_payments)) = Some ord)"
  by (simp add: after_two_payments_def two_payments_def cp_run_def cp_step_def startPayment_def
      start_server_payment_def order_done_def transaction_done_def announce_order_def watchServerPayment_def
      watch_turn_def status_done_def watch_reply_def watch_again_def cancelPayment_def code_defs resume_def
      take_job_def with_path_def suspend_def push_job_def reset_def emit_silent new_core_def
      sample_data_def sample_card_def sample_created_def status_only_def sample_cp_env_def Let_def)

theorem second_loop_never_ends_witness:
  "\<exists>c' j. cp_run sample_cp_env (rounds 1000 3 7 (status_only FAILED)) after_two_payments
            = (fst after_two_payments, c', snd (snd after_two_payments)) \<and> jobs c' = [(j, LoopTimer)]"
proof -
  obtain em c w where st: "after_two_payments = (em, c, w)" by (cases after_two_payments) auto
  obtain ord where "order (fst (snd after_two_payments)) = Some ord" using two_payments_state by blast
  then have "order c = Some ord" by (simp add: st)
  then show ?thesis
    using second_loop_never_ends [of c 3 ord "status_only FAILED" sample_cp_env 1000 em w] two_payments_state
    by (simp add: st status_only_def)
qed

definition watching :: "string option \<Rightarrow> cp_core" where
  "watching tid = new_core\<lparr>jobs := [(0, AwaitStatus)], next_job := 1,
     order := Some \<lparr>ord_orderId = ''o'', ord_checkoutOrderId = ''co'', ord_transactionId = tid, ord_metadata = None\<rparr>\<rparr>"

definition one_listener :: "CheckoutProcessType \<Rightarrow> (CheckoutProcessType, string) emitter" where
  "one_listener ev = snd (em_on ev ''page'' new_emitter)"

lemma on_only_one [simp]: "on_only (one_listener ev)"
  by (auto simp: on_only_def one_listener_def em_on_def em_push_def listeners_of_def new_emitter_def)

lemma delivered_one [simp]:
  "delivered (one_listener ev) [e] = (if event_type e = ev then [(''page'', e)] else [])"
  by (simp add: delivered_def one_listener_def em_on_def em_push_def listeners_of_def new_emitter_def)

theorem cancelled_is_silent_witness:
  "snd (snd (cp_run sample_cp_env [StatusReply 0 (Inr (status_only CHARGED))]
      (cp_step sample_cp_env Cancel (one_listener transactionStatusChanged, watching (Some ''t''), [])))) = []"
  using cancelled_is_silent [of "[StatusReply 0 (Inr (status_only CHARGED))]" sample_cp_env
      "(one_listener transactionStatusChanged, watching (Some ''t''), [])"]
  by (simp add: Let_def)

theorem polling_loop_events_witness:
  "snd (snd (cp_run sample_cp_env (polls 0 [status_only NEW, status_only NEW, status_only CHARGED])
      (one_listener transactionStatusChanged, watching (Some ''t''), [])))
    = [(''page'', TransactionStatusChanged CHARGED)]"
proof -
  have "snd (snd (cp_run sample_cp_env (polls 0 [status_only NEW, status_only NEW, status_only CHARGED])
      (one_listener transactionStatusChanged, watching (Some ''t''), [])))
    = [] @ delivered (one_listener transactionStatusChanged)
        (watched (lastTransactionStatus (watching (Some ''t''))) [status_only NEW, status_only NEW, status_only CHARGED])"
    by (rule polling_loop_events) (simp_all add: watching_def new_core_def)
  also have "\<dots> = [(''page'', TransactionStatusChanged CHARGED)]"
    by (simp add: watching_def new_core_def status_only_def final_status_def needs_3ds_def)
  finally show ?thesis .
qed

theorem stale_status_reported_witness:
  "snd (snd (cp_run sample_cp_env [Cancel, Subscribe transactionStatusChanged ''new page'',
       Start (sample_data PmtCash None), StatusReply 0 (Inr (status_only FAILED))]
       (one_listener transactionStatusChanged, watching (Some ''t''), [])))
    = [(''new page'', TransactionStatusChanged FAILED)]"
  using stale_status_reported [of sample_cp_env "watching (Some ''t'')" 0 "sample_data PmtCash None"
      "status_only FAILED" "''new page''" "one_listener transactionStatusChanged" "[]"]
  by (simp add: watching_def new_core_def status_only_def final_status_def sample_data_def Let_def)

theorem server_payment_without_method_witness:
  "snd (snd (cp_step sample_cp_env (Start (sample_data PmtCard None)) (one_listener error, new_core, [])))
    = [(''page'', ErrorEvent start_checkout (plain_error ''Unable to create order: payment-method not set''))]"
  using server_payment_without_method [of sample_cp_env "one_listener error" "sample_data PmtCard None" new_core "[]"]
  by (simp add: sample_data_def)

theorem challenge_or_error_witness:
  "snd (snd (cp_step sample_cp_env (CheckoutReply 0
        (Inl \<lparr>err_text = [], err_message = Some ''CHALLENGE_REQUIRED'', err_challengeUrl = Some ''/3ds''\<rparr>))
      (one_listener challengeRedirect, new_core\<lparr>jobs := [(0, AwaitCheckout)]\<rparr>, [])))
    = [(''page'', ChallengeRedirect ''/3ds'')]"
  using challenge_or_error [of sample_cp_env "one_listener challengeRedirect" "new_core\<lparr>jobs := [(0, AwaitCheckout)]\<rparr>" 0
      "\<lparr>err_text = [], err_message = Some ''CHALLENGE_REQUIRED'', err_challengeUrl = Some ''/3ds''\<rparr>" "[]"]
  by (simp add: sample_cp_path)

section \<open>The redirects are counted in the address\<close>

lemma fl_nat: "1 \<le> n \<Longrightarrow> n < 2 ^ 31 \<Longrightarrow> fl (of_int n) = of_int n"
  by (rule fl_just_above) simp_all

lemma js_toString_digit:
  assumes "1 \<le> d" "d \<le> 9" shows "js_toString (Fin (of_int d)) = int_digits d"
proof -
  have f: "fl (of_int d) = of_int d" using assms by (intro fl_nat) simp_all
  have i: "ilog10 (of_int d) = 0" using assms by (simp add: ilog10_def int_digits.simps)
  have fl2: "\<lfloor>(of_int d :: rat) + 1 / 2\<rfloor> = d" by (rule floor_unique) simp_all
  have n: "(16::nat) = Suc 15" "(17::nat) = Suc 16" by simp_all
  have s: "shortest_from 16 1 1 (of_int d) = (d, 1, 1)" unfolding n(1) by (subst shortest_from.simps) (simp add: f fl2)
  have z: "strip_zeros 17 d 1 = (d, 1)" unfolding n(2) by (subst strip_zeros.simps) simp
  show ?thesis using assms by (simp add: pos_to_string_def i s z)
qed

lemma js_Number_digit:
  assumes "1 \<le> d" "d \<le> 9" shows "js_Number (int_digits d) = Fin (of_int d)"
proof -
  have ds: "int_digits d = [char_of (d + 48)]" using assms by (simp add: int_digits.simps)
  have d: "is_digit (char_of (d + 48))" "digit_val (char_of (d + 48)) = d" using digit_char assms by simp_all
  note sp = digit_not_special [OF d(1)]
  have p: "parse_decimal [char_of (d + 48)] = Some (of_int d)"
    using d by (simp add: parse_decimal_def digits_val_def parse_exp_def)
  have t: "js_trim [char_of (d + 48)] = [char_of (d + 48)]" using sp by (simp add: js_trim_def)
  have f: "to_double (of_int d) = Fin (of_int d)"
    using to_double_small [of "of_int d"] fl_nat [of d] assms by simp
  have "js_Number [char_of (d + 48)] = (case parse_decimal [char_of (d + 48)] of None \<Rightarrow> NaN | Some v \<Rightarrow> to_double v)"
    by (rule js_Number_plain [OF t]) (use sp in simp_all)
  then show ?thesis by (simp only: ds p option.case f)
qed

lemma js_add_one: "0 \<le> k \<Longrightarrow> k < 9 \<Longrightarrow> js_add (Fin (of_int k)) (Fin 1) = Fin (of_int (k + 1))"
  using to_double_small [of "of_int k + 1"] fl_nat [of "k + 1"] by simp

lemma digits_ascii: "1 \<le> d \<Longrightarrow> d \<le> 9 \<Longrightarrow> valid_utf8 (int_digits d)"
proof -
  assume a: "1 \<le> d" "d \<le> 9"
  have "list_all (\<lambda>c. byte c < 128) (int_digits d)"
    using a by (simp add: int_digits.simps byte_char_of)
  then show ?thesis by (rule ascii_valid)
qed

text \<open>
  Following a challenge adds one to the counter: when the page at \<open>href\<close>, opened after \<open>k\<close>
  redirects, builds its return address, the program started there reads \<open>k + 1\<close>, and from the third
  redirect on it refuses to be redirected again.
\<close>

theorem challenge_counted:
  assumes "0 \<le> k" "k < 9" "getSearchParams href = Some old" "all_valid old" "valid_utf8 cardId"
    and "path_or_spec path_or"
  shows "\<exists>url ps. getChallengeReturnPath href (Fin (of_int k)) cardId = Some url \<and> getSearchParams url = Some ps
           \<and> challenge_num path_or ps = Fin (of_int (k + 1))
           \<and> (limit_exceeded (challenge_num path_or ps) \<longleftrightarrow> 3 \<le> k + 1)"
proof -
  let ?d = "int_digits (k + 1)"
  let ?new = "[(''chn'', Some ?d), (''chnCardId'', Some cardId)]"
  have k: "1 \<le> k + 1" "k + 1 \<le> 9" using assms by simp_all
  have s: "js_toString (js_add (Fin (of_int k)) (Fin 1)) = ?d"
    by (simp only: js_add_one [OF assms(1,2)] js_toString_digit [OF k])
  have "valid_utf8 ''chn''" "valid_utf8 ''chnCardId''" by (rule ascii_valid, simp add: byte_def)+
  then have v: "all_valid ?new" using assms(5) digits_ascii [OF k] by (simp add: all_valid_def)
  obtain url ps where u: "setSearchParams href ?new = Some url" "getSearchParams url = Some ps"
    and g: "\<And>key. key \<noteq> ''__proto__'' \<Longrightarrow> alist_get ps key = map_option Some (visible (alist_merge old ?new) key)"
    using setSearchParams_get [OF assms(3,4) v] by blast
  have "alist_get (alist_merge old ?new) ''chn'' = Some (Some ?d)"
    by (simp add: alist_merge_def)
  then have "visible ps ''chn'' = Some ?d" using g [of "''chn''"] by (simp add: visible_def)
  then have n: "challenge_num path_or ps = Fin (of_int (k + 1))"
    using assms(6) js_Number_digit [OF k] int_digits_nonempty [of "k + 1"]
    by (cases ?d) (simp_all add: challenge_num_def path_or_spec_def)
  have l: "limit_exceeded (Fin (of_int (k + 1))) \<longleftrightarrow> 3 \<le> k + 1"
    proof -
    have "(of_nat 3 \<le> (of_int (k + 1) :: rat)) = (3 \<le> k + 1)"
      using of_int_le_iff [of 3 "k + 1", where 'a = rat] by (simp del: of_int_add)
    then show ?thesis by (simp only: limit_exceeded_def MAX_CHALLENGE_REDIRECT_def js_ge.simps)
  qed
  have ret: "getChallengeReturnPath href (Fin (of_int k)) cardId = Some url"
    by (simp only: getChallengeReturnPath_def s u(1))
  show ?thesis using ret u(2) n l by metis
qed

lemma plain_href: "getSearchParams ''/pay'' = Some []"
  by (simp add: getSearchParams_def getSearchString_def getUrlParts_def Let_def)

theorem challenge_counted_witness:
  "\<exists>url ps. getChallengeReturnPath ''/pay'' (Fin (of_int 2)) ''card'' = Some url \<and> getSearchParams url = Some ps
     \<and> challenge_num (\<lambda>d v. case v of None \<Rightarrow> d | Some x \<Rightarrow> x) ps = Fin (of_int (2 + 1))
     \<and> (limit_exceeded (challenge_num (\<lambda>d v. case v of None \<Rightarrow> d | Some x \<Rightarrow> x) ps) \<longleftrightarrow> 3 \<le> (2 + 1 :: int))"
  by (rule challenge_counted [OF _ _ plain_href])
    (simp_all add: all_valid_def path_or_spec_def ascii_valid byte_def)

end
