(* ===== verification/CheckoutHelpers.thy ===== *)
theory CheckoutHelpers
  imports Transform
begin

text \<open>
  The pure helpers of \<open>services/checkout/src\<close>: reading a payment sheet
  (\<open>packages/utils/payment-sheet\<close>), cards (\<open>packages/utils/cards\<close>,
  \<open>packages/utils/payment-methods\<close>, \<open>helpers/user-card.ts\<close>, \<open>helpers/payment-method.ts\<close>),
  addresses, contacts, the user's settings, errors of the API, quantities, split payments and the
  onboarding (\<open>helpers/*.ts\<close>, \<open>api-transform/*.ts\<close>).

  Functions of \<open>@tinkoff/utils\<close> that the code calls are not in the repository.  \<open>pathOr\<close>, \<open>sort\<close>
  and \<open>equal\<close> are arguments, collected in \<open>tinkoff\<close> at the types they are used at; what the
  code relies on is \<open>tinkoff_ok\<close>.  \<open>pick\<close> and \<open>omit\<close> with literal field lists are the projections to
  those fields.
\<close>

section \<open>Payment sheets as the form sees them\<close>

text \<open>
  The sheet comes from the merchant's page, so every part of it may be missing; \<open>{}\<close>, the initial
  value in the store, is \<open>empty_sheet\<close>.
\<close>

record RequiredBillingContactFields =
  rbf_email :: "bool option"
  rbf_name :: "bool option"

record RequiredShippingContactFields =
  rsf_name :: "bool option"
  rsf_email :: "bool option"
  rsf_phone :: "bool option"

record RequiredShippingTypes =
  rst_direct :: "bool option"
  rst_pickup :: "bool option"

record RequiredFields =
  rf_billingContact :: "RequiredBillingContactFields option"
  rf_shippingContact :: "RequiredShippingContactFields option"
  rf_shippingTypes :: "RequiredShippingTypes option"

record AdditionalFields =
  af_comment :: "bool option"
  af_coupons :: "bool option"

record Sheet =
  sh_merchant :: "Merchant option"
  sh_order :: "SheetOrder option"
  sh_currencyCode :: "CurrencyCode option"
  sh_paymentMethods :: "SheetPaymentMethod list option"
  sh_additionalFields :: "AdditionalFields option"
  sh_requiredFields :: "RequiredFields option"

definition empty_sheet :: Sheet where
  "empty_sheet = \<lparr>sh_merchant = None, sh_order = None, sh_currencyCode = None,
     sh_paymentMethods = None, sh_additionalFields = None, sh_requiredFields = None\<rparr>"

text \<open>The picked fields \<open>isEqual\<close> compares; an absent field is \<open>None\<close>.\<close>

type_synonym compared = "string option list"

record tinkoff =
  po_str :: "string \<Rightarrow> string option \<Rightarrow> string"
  po_bool :: "bool \<Rightarrow> bool option \<Rightarrow> bool"
  po_methods :: "SheetPaymentMethod list \<Rightarrow> SheetPaymentMethod list option \<Rightarrow> SheetPaymentMethod list"
  po_items :: "SheetItem list \<Rightarrow> SheetItem list option \<Rightarrow> SheetItem list"
  po_strs :: "string list \<Rightarrow> string list option \<Rightarrow> string list"
  po_types :: "RequiredShippingTypes \<Rightarrow> RequiredShippingTypes option \<Rightarrow> RequiredShippingTypes"
  tk_uniq :: "string list \<Rightarrow> string list"
  tk_intersection :: "string list \<Rightarrow> string list \<Rightarrow> string list"
  tk_sort :: "(Address \<Rightarrow> Address \<Rightarrow> bool) \<Rightarrow> Address list \<Rightarrow> Address list"
  tk_equal :: "compared \<Rightarrow> compared \<Rightarrow> bool"

text \<open>
  The comparison function \<open>sort\<close> is called with is not consistent, so all the language promises is a
  rearrangement.
\<close>

definition tinkoff_ok :: "tinkoff \<Rightarrow> bool" where
  "tinkoff_ok L \<longleftrightarrow>
     path_or_spec (po_str L) \<and> path_or_spec (po_bool L) \<and> path_or_spec (po_methods L)
     \<and> path_or_spec (po_items L) \<and> path_or_spec (po_types L) \<and> path_or_spec (po_strs L)
     \<and> (\<forall>xs. set (tk_uniq L xs) = set xs)
     \<and> (\<forall>xs ys. set (tk_intersection L xs ys) = set xs \<inter> set ys)
     \<and> (\<forall>f xs. mset (tk_sort L f xs) = mset xs)
     \<and> (\<forall>a b. tk_equal L a b \<longleftrightarrow> a = b)"

definition or_default :: "'v \<Rightarrow> 'v option \<Rightarrow> 'v" where
  "or_default d x = (case x of None \<Rightarrow> d | Some v \<Rightarrow> v)"

lemma or_default_spec [simp]: "path_or_spec or_default"
  by (simp add: path_or_spec_def or_default_def)

text \<open>An instance; a sort that only moves what the comparison calls less leaves the list alone.\<close>

definition std_tinkoff :: tinkoff where
  "std_tinkoff =
     \<lparr>po_str = or_default, po_bool = or_default, po_methods = or_default, po_items = or_default,
      po_strs = or_default, po_types = or_default, tk_uniq = remdups,
      tk_intersection = (\<lambda>xs ys. filter (\<lambda>x. x \<in> set ys) xs), tk_sort = (\<lambda>f xs. xs), tk_equal = (=)\<rparr>"

lemma std_tinkoff_ok [simp]: "tinkoff_ok std_tinkoff"
  by (auto simp: tinkoff_ok_def std_tinkoff_def)

lemma tinkoff_simps:
  assumes "tinkoff_ok L"
  shows "po_str L d None = d" "po_str L d (Some v) = v" "po_bool L b None = b" "po_bool L b (Some c) = c"
    "po_methods L m None = m" "po_methods L m (Some n) = n" "po_items L i None = i"
    "po_items L i (Some j) = j" "po_types L t None = t" "po_types L t (Some u) = u"
    "po_strs L s None = s" "po_strs L s (Some s') = s'" "set (tk_uniq L us) = set us"
    "set (tk_intersection L us vs) = set us \<inter> set vs"
    "tk_equal L x y \<longleftrightarrow> x = y" "mset (tk_sort L f xs) = mset xs"
  using assms by (simp_all add: tinkoff_ok_def path_or_spec_def)

text \<open>The path of field names below an optional value.\<close>

definition path_in :: "'a option \<Rightarrow> ('a \<Rightarrow> 'b option) \<Rightarrow> 'b option" where
  "path_in x f = Option.bind x f"

lemma path_in_simps [simp]: "path_in None f = None" "path_in (Some x) f = f x"
  by (simp_all add: path_in_def)

definition getOrderAmount :: "tinkoff \<Rightarrow> Sheet \<Rightarrow> string" where
  "getOrderAmount L sheet = po_str L [] (map_option (\<lambda>o'. st_amount (so_total o')) (sh_order sheet))"

definition getMerchantUrl :: "tinkoff \<Rightarrow> Sheet \<Rightarrow> string" where
  "getMerchantUrl L sheet = po_str L [] (path_in (sh_merchant sheet) mr_url)"

definition getMerchantId :: "tinkoff \<Rightarrow> Sheet \<Rightarrow> string" where
  "getMerchantId L sheet = po_str L [] (map_option mr_id (sh_merchant sheet))"

definition getRequiredShippingTypes :: "tinkoff \<Rightarrow> Sheet \<Rightarrow> (bool \<times> bool) option" where
  "getRequiredShippingTypes L sheet =
     map_option (\<lambda>f. (po_bool L False (rst_direct f), po_bool L False (rst_pickup f)))
       (path_in (sh_requiredFields sheet) rf_shippingTypes)"

definition getRequiredBillingFields :: "tinkoff \<Rightarrow> Sheet \<Rightarrow> bool option" where
  "getRequiredBillingFields L sheet =
     map_option (\<lambda>f. po_bool L False (rbf_email f)) (path_in (sh_requiredFields sheet) rf_billingContact)"

text \<open>The fields name, email and phone.\<close>

definition getRequiredShippingContactFields :: "tinkoff \<Rightarrow> Sheet \<Rightarrow> (bool \<times> bool \<times> bool) option" where
  "getRequiredShippingContactFields L sheet =
     map_option (\<lambda>f. (po_bool L True (rsf_name f), po_bool L True (rsf_email f), po_bool L False (rsf_phone f)))
       (path_in (sh_requiredFields sheet) rf_shippingContact)"

text \<open>The fields coupons and comment.\<close>

definition getAdditionalFields :: "tinkoff \<Rightarrow> Sheet \<Rightarrow> (bool \<times> bool) option" where
  "getAdditionalFields L sheet =
     map_option (\<lambda>f. (po_bool L False (af_coupons f), po_bool L False (af_comment f)))
       (sh_additionalFields sheet)"

fun is_cash :: "SheetPaymentMethod \<Rightarrow> bool" where
  "is_cash CashMethod = True" | "is_cash _ = False"

fun is_split :: "SheetPaymentMethod \<Rightarrow> bool" where
  "is_split SplitMethod = True" | "is_split _ = False"

fun is_verified_card :: "SheetPaymentMethod \<Rightarrow> bool" where
  "is_verified_card (CardMethod g i a n v) = (v = Some True)" | "is_verified_card _ = False"

definition sheet_methods :: "tinkoff \<Rightarrow> Sheet \<Rightarrow> SheetPaymentMethod list" where
  "sheet_methods L sheet = po_methods L [] (sh_paymentMethods sheet)"

definition hasCashPaymentMethod :: "tinkoff \<Rightarrow> Sheet \<Rightarrow> bool" where
  "hasCashPaymentMethod L sheet = list_ex is_cash (sheet_methods L sheet)"

definition hasPaymentMethodVerification :: "tinkoff \<Rightarrow> Sheet \<Rightarrow> bool" where
  "hasPaymentMethodVerification L sheet = list_ex is_verified_card (sheet_methods L sheet)"

definition isCheckout :: "tinkoff \<Rightarrow> Sheet \<Rightarrow> bool" where
  "isCheckout L sheet =
     (getRequiredShippingContactFields L sheet \<noteq> None \<or> getRequiredShippingTypes L sheet \<noteq> None)"

definition hasSplit :: "tinkoff \<Rightarrow> Sheet \<Rightarrow> bool" where
  "hasSplit L sheet = list_ex is_split (sheet_methods L sheet)"

text \<open>A sheet the server module builds, in the form's view.\<close>

definition sheet_of :: "PaymentSheet \<Rightarrow> Sheet" where
  "sheet_of p =
     \<lparr>sh_merchant = Some (ps_merchant p), sh_order = Some (ps_order p),
      sh_currencyCode = Some (ps_currencyCode p), sh_paymentMethods = Some (ps_paymentMethods p),
      sh_additionalFields = Some \<lparr>af_comment = Some (ps_comment p), af_coupons = Some (ps_coupons p)\<rparr>,
      sh_requiredFields = Some
        \<lparr>rf_billingContact = Some \<lparr>rbf_email = Some (srf_billing_email (ps_requiredFields p)),
                                   rbf_name = Some (srf_billing_name (ps_requiredFields p))\<rparr>,
         rf_shippingContact = Some \<lparr>rsf_name = Some (srf_shipping_name (ps_requiredFields p)),
                                    rsf_email = Some (srf_shipping_email (ps_requiredFields p)),
                                    rsf_phone = Some (srf_shipping_phone (ps_requiredFields p))\<rparr>,
         rf_shippingTypes = Some \<lparr>rst_direct = Some (srf_direct (ps_requiredFields p)),
                                  rst_pickup = Some (srf_pickup (ps_requiredFields p))\<rparr>\<rparr>\<rparr>"

lemmas sheet_readers = getOrderAmount_def getMerchantUrl_def getMerchantId_def
  getRequiredShippingTypes_def getRequiredBillingFields_def getRequiredShippingContactFields_def
  getAdditionalFields_def

end
