(* ===== verification/ArrayUtils.thy ===== *)
theory ArrayUtils
  imports Prelude "HOL-Library.Multiset"
begin

text \<open>
  \<open>packages/utils/array/index.ts\<close>.  The functions \<open>swap\<close> and \<open>move\<close> update the array
  in place; here they return the new list.  JavaScript indices are numbers: the guards of the
  source reject every index outside \<open>0 .. length - 1\<close>, so they are \<^typ>\<open>int\<close> and the
  guards are kept.  The \<open>while\<close> loop of \<open>move\<close> is \<open>move_loop\<close>, whose measure is the
  distance between the two indices.
\<close>

definition swap :: "'a list \<Rightarrow> int \<Rightarrow> int \<Rightarrow> 'a list" where
  "swap xs a b =
     (if a \<noteq> b \<and> 0 \<le> a \<and> a < int (length xs) \<and> 0 \<le> b \<and> b < int (length xs)
      then xs[nat a := xs ! nat b, nat b := xs ! nat a]
      else xs)"

function move_loop :: "'a list \<Rightarrow> int \<Rightarrow> int \<Rightarrow> 'a list" where
  "move_loop xs from to =
     (if from = to then xs
      else let m = (if from < to then 1 else -1)
           in move_loop (swap xs from (from + m)) (from + m) to)"
  by pat_completeness auto
termination
  by (relation "measure (\<lambda>(xs, from, to). nat \<bar>from - to\<bar>)") auto

declare move_loop.simps [simp del]

definition move :: "'a list \<Rightarrow> int \<Rightarrow> int \<Rightarrow> 'a list" where
  "move xs from to =
     (if 0 \<le> from \<and> from < int (length xs) \<and> 0 \<le> to \<and> to < int (length xs)
      then move_loop xs from to else xs)"

text \<open>
  The index of a least element.  The test is \<open><=\<close>, so among equal elements the last wins.
\<close>

function find_min_from :: "'a::linorder list \<Rightarrow> nat \<Rightarrow> nat \<Rightarrow> nat" where
  "find_min_from xs i idx =
     (if i < length xs
      then find_min_from xs (Suc i) (if xs ! i \<le> xs ! idx then i else idx)
      else idx)"
  by pat_completeness auto
termination
  by (relation "measure (\<lambda>(xs, i, idx). length xs - i)") auto

declare find_min_from.simps [simp del]

definition findMinIndex :: "'a::linorder list \<Rightarrow> int" where
  "findMinIndex xs = (if xs = [] then -1 else int (find_min_from xs 0 0))"

text \<open>
  \<open>arrayToObj\<close>.  An element is a record of string-keyed properties.  With \<open>valueProp\<close>
  given the source still reads \<open>keyProp\<close>, so the value stored is the key itself.
\<close>

datatype 'v obj_value = PropValue 'v | WholeItem "(string \<times> 'v) list"

fun array_to_obj_loop ::
  "('v \<Rightarrow> string option) \<Rightarrow> string \<Rightarrow> string option \<Rightarrow> (string \<times> 'v) list list
    \<Rightarrow> (string \<times> 'v obj_value) list \<Rightarrow> (string \<times> 'v obj_value) list" where
  "array_to_obj_loop as_key keyProp valueProp [] obj = obj"
| "array_to_obj_loop as_key keyProp valueProp (item # items) obj =
     (case alist_get item keyProp of
        None \<Rightarrow> array_to_obj_loop as_key keyProp valueProp items obj
      | Some kv \<Rightarrow>
          if truthy (as_key kv)
          then array_to_obj_loop as_key keyProp valueProp items
                 (alist_put obj (the (as_key kv))
                    (if truthy valueProp then PropValue kv else WholeItem item))
          else array_to_obj_loop as_key keyProp valueProp items obj)"

definition arrayToObj ::
  "('v \<Rightarrow> string option) \<Rightarrow> (string \<times> 'v) list list \<Rightarrow> string \<Rightarrow> string option
    \<Rightarrow> (string \<times> 'v obj_value) list" where
  "arrayToObj as_key items keyProp valueProp =
     array_to_obj_loop as_key keyProp valueProp items []"

text \<open>\<open>contain(arr)\<close>: the membership test as a predicate.\<close>

definition contain :: "'v list \<Rightarrow> 'v \<Rightarrow> bool" where
  "contain arr v = (v \<in> set arr)"

section \<open>Swap and move permute\<close>

lemma length_swap [simp]: "length (swap xs a b) = length xs"
  by (simp add: swap_def)

lemma mset_swap_js [simp]: "mset (swap xs a b) = mset xs"
proof -
  have "nat a < length xs \<Longrightarrow> nat b < length xs \<Longrightarrow>
          mset (xs[nat a := xs ! nat b, nat b := xs ! nat a]) = mset xs"
    by (rule Multiset.mset_swap)
  then show ?thesis by (auto simp: swap_def)
qed

lemma mset_move_loop: "mset (move_loop xs from to) = mset xs"
  by (induction xs "from" to rule: move_loop.induct) (subst move_loop.simps, simp add: Let_def)

lemma swap_comm: "swap xs a b = swap xs b a"
  by (auto simp: swap_def intro!: list_update_swap)

lemma swap_adjacent:
  "swap (as @ b # c # bs) (int (length as)) (int (length as) + 1) = as @ c # b # bs"
  by (simp add: swap_def nat_add_distrib nth_append list_update_append)

lemma move_loop_up:
  "move_loop (as @ x # ms @ bs) (int (length as)) (int (length as + length ms)) = as @ ms @ x # bs"
proof (induction ms arbitrary: as)
  case Nil
  show ?case by (simp add: move_loop.simps)
next
  case (Cons m ms)
  have "move_loop (as @ x # (m # ms) @ bs) (int (length as)) (int (length as + length (m # ms)))
      = move_loop (as @ m # x # ms @ bs) (int (length as) + 1) (int (length as + length (m # ms)))"
    by (subst move_loop.simps) (simp add: Let_def swap_adjacent)
  also have "\<dots> = as @ (m # ms) @ x # bs"
    using Cons.IH [of "as @ [m]"] by (simp add: add.commute add.left_commute)
  finally show ?case .
qed

lemma move_loop_down:
  "move_loop (as @ ms @ x # bs) (int (length as + length ms)) (int (length as)) = as @ x # ms @ bs"
proof (induction ms arbitrary: bs rule: rev_induct)
  case Nil
  show ?case by (simp add: move_loop.simps)
next
  case (snoc m ms)
  let ?k = "int (length as + length ms)"
  have sw: "swap (as @ ms @ m # x # bs) (?k + 1) ?k = as @ ms @ x # m # bs"
    using swap_adjacent [of "as @ ms" m x bs] by (simp add: swap_comm)
  have "move_loop (as @ (ms @ [m]) @ x # bs) (?k + 1) (int (length as))
      = move_loop (as @ ms @ x # m # bs) ?k (int (length as))"
    by (subst move_loop.simps) (use sw in \<open>simp add: Let_def\<close>)
  also have "\<dots> = as @ x # (ms @ [m]) @ bs"
    using snoc.IH [of "m # bs"] by simp
  finally show ?case by (simp add: add.commute add.left_commute)
qed

lemma move_out_of_range:
  "\<not> (0 \<le> i \<and> i < int (length xs) \<and> 0 \<le> j \<and> j < int (length xs)) \<Longrightarrow> move xs i j = xs"
  by (simp only: move_def if_False)

lemma mset_move: "mset (move xs i j) = mset xs"
  by (simp add: move_def mset_move_loop)

text \<open>Removing position \<open>i\<close> and inserting the element so that it ends at position \<open>j\<close>.\<close>

definition relocate :: "'a list \<Rightarrow> nat \<Rightarrow> nat \<Rightarrow> 'a list" where
  "relocate xs i j = (let ys = take i xs @ drop (Suc i) xs in take j ys @ xs ! i # drop j ys)"

lemma split_two:
  assumes "i \<le> j" "j < length xs"
  shows "xs = take i xs @ take (j - i) (drop i xs) @ drop j xs"
  using assms by (metis append_take_drop_id drop_drop le_add_diff_inverse2)

lemma move_eq_relocate:
  assumes "i < length xs" "j < length xs"
  shows "move xs (int i) (int j) = relocate xs i j"
proof (cases "i \<le> j")
  case True
  define as ms bs where "as = take i xs" and "ms = take (j - i) (drop (Suc i) xs)"
    and "bs = drop (Suc j) xs"
  have "drop (Suc i) xs = ms @ bs"
    using True assms unfolding ms_def bs_def
    by (metis Suc_le_mono append_take_drop_id diff_Suc_Suc drop_drop le_add_diff_inverse2)
  then have xs: "xs = as @ xs ! i # ms @ bs"
    unfolding as_def using assms(1) by (metis id_take_nth_drop)
  have len: "length as = i" "length ms = j - i"
    using True assms by (auto simp: as_def ms_def)
  have "move_loop xs (int i) (int j) = as @ ms @ xs ! i # bs"
    using move_loop_up [of as "xs ! i" ms bs] True xs len by simp
  moreover have "relocate xs i j = as @ ms @ xs ! i # bs"
  proof -
    have "take i xs @ drop (Suc i) xs = as @ ms @ bs"
      using \<open>drop (Suc i) xs = ms @ bs\<close> by (simp add: as_def)
    then show ?thesis using len True by (simp add: relocate_def Let_def)
  qed
  ultimately show ?thesis using assms by (simp add: move_def)
next
  case False
  define as ms bs where "as = take j xs" and "ms = take (i - j) (drop j xs)"
    and "bs = drop (Suc i) xs"
  have "take i xs = as @ ms"
    using False unfolding as_def ms_def by (metis le_add_diff_inverse nat_le_linear take_add)
  then have xs: "xs = as @ ms @ xs ! i # bs"
    unfolding bs_def using assms(1) by (metis append.assoc id_take_nth_drop)
  have len: "length as = j" "length ms = i - j"
    using False assms by (auto simp: as_def ms_def)
  have "move_loop xs (int i) (int j) = as @ xs ! i # ms @ bs"
    using move_loop_down [of as ms "xs ! i" bs] False xs len by simp
  moreover have "relocate xs i j = as @ xs ! i # ms @ bs"
    using \<open>take i xs = as @ ms\<close> len by (simp add: relocate_def Let_def bs_def)
  ultimately show ?thesis using assms by (simp add: move_def)
qed

section \<open>The last least element\<close>

lemma find_min_from_spec:
  assumes "idx < length xs" "\<forall>j < i. j < length xs \<longrightarrow> xs ! idx \<le> xs ! j"
    "\<forall>j. idx < j \<and> j < i \<and> j < length xs \<longrightarrow> xs ! idx < xs ! j"
  shows "find_min_from xs i idx < length xs
    \<and> (\<forall>j < length xs. xs ! find_min_from xs i idx \<le> xs ! j)
    \<and> (\<forall>j. find_min_from xs i idx < j \<and> j < length xs \<longrightarrow> xs ! find_min_from xs i idx < xs ! j)"
  using assms
proof (induction xs i idx rule: find_min_from.induct)
  case (1 xs i idx)
  show ?case
  proof (cases "i < length xs")
    case False
    with "1.prems" show ?thesis by (simp add: find_min_from.simps [of xs i idx])
  next
    case True
    let ?k = "if xs ! i \<le> xs ! idx then i else idx"
    have "\<forall>j < Suc i. j < length xs \<longrightarrow> xs ! ?k \<le> xs ! j"
      using "1.prems"(2) True by (auto simp: less_Suc_eq intro: order_trans)
    moreover have "\<forall>j. ?k < j \<and> j < Suc i \<and> j < length xs \<longrightarrow> xs ! ?k < xs ! j"
      using "1.prems"(3) by (auto simp: less_Suc_eq not_le)
    ultimately show ?thesis
      using "1.IH" [OF True] "1.prems"(1) True by (simp add: find_min_from.simps [of xs i idx])
  qed
qed

lemma findMinIndex_spec:
  assumes "xs \<noteq> []"
  obtains k where "findMinIndex xs = int k" "k < length xs"
    "\<forall>j < length xs. xs ! k \<le> xs ! j" "\<forall>j. k < j \<and> j < length xs \<longrightarrow> xs ! k < xs ! j"
  using assms find_min_from_spec [of 0 xs 0] by (auto simp: findMinIndex_def)

text \<open>
  The in-place \<open>move\<close>, a chain of swaps of neighbours, takes the element out of its place and
  puts it in at the new one, keeping the order of all others; a move from or to a place outside the
  array changes nothing.
\<close>

theorem move_relocates:
  "move xs i j =
     (if 0 \<le> i \<and> i < int (length xs) \<and> 0 \<le> j \<and> j < int (length xs)
      then relocate xs (nat i) (nat j) else xs)"
  using move_eq_relocate [of "nat i" xs "nat j"] move_out_of_range [of i xs j] by auto

text \<open>
  \<open>findMinIndex\<close> gives the last position of a least element, and -1 on the empty array.
\<close>

theorem findMinIndex_last_minimum:
  "findMinIndex ([] :: 'a::linorder list) = -1
   \<and> (\<forall>xs :: 'a list. xs \<noteq> [] \<longrightarrow> (\<exists>k < length xs. findMinIndex xs = int k
        \<and> (\<forall>j < length xs. xs ! k \<le> xs ! j) \<and> (\<forall>j. k < j \<and> j < length xs \<longrightarrow> xs ! k < xs ! j)))"
  using findMinIndex_spec by (fastforce simp: findMinIndex_def)

theorem findMinIndex_last_minimum_witness:
  "\<exists>k < 3. findMinIndex [2 :: nat, 1, 1] = int k \<and> (\<forall>j < 3. [2, 1, 1] ! k \<le> [2 :: nat, 1, 1] ! j)"
  using findMinIndex_last_minimum [where 'a = nat] by (auto dest!: spec [of _ "[2, 1, 1]"])

end
