(* ===== verification/Cards.thy ===== *)
theory Cards
  imports CheckoutHelpers ArrayUtils
begin

text \<open>
  Bank cards: \<open>packages/bank-cards\<close> (issuers), \<open>packages/utils/cards\<close> (payment systems),
  \<open>packages/utils/payment-methods\<close> (the cards a sheet allows and the payment methods made of them),
  \<open>helpers/payment-method.ts\<close>, \<open>helpers/user-card.ts\<close> of the checkout.

  \<open>toLower\<close> and the patterns treat text outside ASCII as not being letters, as the source's
  \<open>[^a-zA-Z]\<close> does.  A text that spells \<open>constructor\<close>, a property every object inherits, is not
  considered in the look-up of issuers.
\<close>

section \<open>Issuers\<close>

datatype (plugins only: code) CardIssuer =
  IssAkBars | IssAlfabank | IssAtb | IssAvangard | IssBankrossiya | IssBelarusbank | IssBelinvest
  | IssBinbank | IssCitibank | IssCreditEurope | IssGazprombank | IssHomeCredit | IssKaspi |
  IssLevoberezhny | IssMinbank | IssMkb | IssModulbank | IssMtbank | IssMtsbank | IssNovikombank
  | IssOrient | IssOtkritie | IssOtpbank | IssPochtabank | IssPriorbank | IssPrivatbank | IssPsb
  | IssQazkom | IssQiwi | IssRaiffeisen | IssRenaissance | IssRnkb | IssRosbank | IssRosselkhoz |
  IssRoundbank | IssRusstandard | IssSberbank | IssSkb | IssSovcombank | IssSpbbank | IssSwedbank
  | IssTinkoff | IssUbrr | IssUnicredit | IssUralsib | IssVbrr | IssVozrozhdenie | IssVtb |
  IssYoomoney | IssUnknown

primrec issuer_str :: "CardIssuer \<Rightarrow> string" where
  "issuer_str IssAkBars = ''AK_BARS''"
| "issuer_str IssAlfabank = ''ALFABANK''"
| "issuer_str IssAtb = ''ATB''"
| "issuer_str IssAvangard = ''AVANGARD''"
| "issuer_str IssBankrossiya = ''BANKROSSIYA''"
| "issuer_str IssBelarusbank = ''BELARUSBANK''"
| "issuer_str IssBelinvest = ''BELINVEST''"
| "issuer_str IssBinbank = ''BINBANK''"
| "issuer_str IssCitibank = ''CITIBANK''"
| "issuer_str IssCreditEurope = ''CREDIT_EUROPE''"
| "issuer_str IssGazprombank = ''GAZPROMBANK''"
| "issuer_str IssHomeCredit = ''HOME_CREDIT''"
| "issuer_str IssKaspi = ''KASPI''"
| "issuer_str IssLevoberezhny = ''LEVOBEREZHNY''"
| "issuer_str IssMinbank = ''MINBANK''"
| "issuer_str IssMkb = ''MKB''"
| "issuer_str IssModulbank = ''MODULBANK''"
| "issuer_str IssMtbank = ''MTBANK''"
| "issuer_str IssMtsbank = ''MTSBANK''"
| "issuer_str IssNovikombank = ''NOVIKOMBANK''"
| "issuer_str IssOrient = ''ORIENT''"
| "issuer_str IssOtkritie = ''OTKRITIE''"
| "issuer_str IssOtpbank = ''OTPBANK''"
| "issuer_str IssPochtabank = ''POCHTABANK''"
| "issuer_str IssPriorbank = ''PRIORBANK''"
| "issuer_str IssPrivatbank = ''PRIVATBANK''"
| "issuer_str IssPsb = ''PSB''"
| "issuer_str IssQazkom = ''QAZKOM''"
| "issuer_str IssQiwi = ''QIWI''"
| "issuer_str IssRaiffeisen = ''RAIFFEISEN''"
| "issuer_str IssRenaissance = ''RENAISSANCE''"
| "issuer_str IssRnkb = ''RNKB''"
| "issuer_str IssRosbank = ''ROSBANK''"
| "issuer_str IssRosselkhoz = ''ROSSELKHOZ''"
| "issuer_str IssRoundbank = ''ROUNDBANK''"
| "issuer_str IssRusstandard = ''RUSSTANDARD''"
| "issuer_str IssSberbank = ''SBERBANK''"
| "issuer_str IssSkb = ''SKB''"
| "issuer_str IssSovcombank = ''SOVCOMBANK''"
| "issuer_str IssSpbbank = ''SPBBANK''"
| "issuer_str IssSwedbank = ''SWEDBANK''"
| "issuer_str IssTinkoff = ''TINKOFF''"
| "issuer_str IssUbrr = ''UBRR''"
| "issuer_str IssUnicredit = ''UNICREDIT''"
| "issuer_str IssUralsib = ''URALSIB''"
| "issuer_str IssVbrr = ''VBRR''"
| "issuer_str IssVozrozhdenie = ''VOZROZHDENIE''"
| "issuer_str IssVtb = ''VTB''"
| "issuer_str IssYoomoney = ''YOOMONEY''"
| "issuer_str IssUnknown = ''UNKNOWN''"

text \<open>\<open>Object.values(CardIssuer)\<close>.\<close>

definition all_issuers :: "CardIssuer list" where
  "all_issuers =
     [IssAkBars, IssAlfabank, IssAtb, IssAvangard, IssBankrossiya, IssBelarusbank, IssBelinvest,
      IssBinbank, IssCitibank, IssCreditEurope, IssGazprombank, IssHomeCredit, IssKaspi,
      IssLevoberezhny, IssMinbank, IssMkb, IssModulbank, IssMtbank, IssMtsbank, IssNovikombank,
      IssOrient, IssOtkritie, IssOtpbank, IssPochtabank, IssPriorbank, IssPrivatbank, IssPsb,
      IssQazkom, IssQiwi, IssRaiffeisen, IssRenaissance, IssRnkb, IssRosbank, IssRosselkhoz,
      IssRoundbank, IssRusstandard, IssSberbank, IssSkb, IssSovcombank, IssSpbbank, IssSwedbank,
      IssTinkoff, IssUbrr, IssUnicredit, IssUralsib, IssVbrr, IssVozrozhdenie, IssVtb, IssYoomoney,
      IssUnknown]"

definition is_letter :: "char \<Rightarrow> bool" where
  "is_letter c = (let n = of_char c :: int in 65 \<le> n \<and> n \<le> 90 \<or> 97 \<le> n \<and> n \<le> 122)"

definition toId :: "string \<Rightarrow> string" where
  "toId str = filter is_letter (map js_lower_char str)"

definition ISSUER_MAP :: "(string \<times> CardIssuer) list" where
  "ISSUER_MAP = foldl (\<lambda>res v. alist_put res (toId (issuer_str v)) v) [] all_issuers"

definition getCardIssuer :: "string \<Rightarrow> CardIssuer" where
  "getCardIssuer issuer =
     (case alist_get ISSUER_MAP (toId issuer) of None \<Rightarrow> IssUnknown | Some i \<Rightarrow> i)"

text \<open>\<open>number.substr(-4)\<close>.\<close>

definition getPan4 :: "string \<Rightarrow> string" where
  "getPan4 number = drop (length number - 4) number"

section \<open>Payment systems\<close>

datatype CardSystem =
  SysAmericanExpress | SysDiscover | SysJCB | SysMaestro | SysMastercard | SysMastercardElite |
  SysMir | SysUnionPay | SysUnknown | SysUzcard | SysVisa | SysVisaElectron

primrec system_str :: "CardSystem \<Rightarrow> string" where
  "system_str SysAmericanExpress = ''AmericanExpress''"
| "system_str SysDiscover = ''Discover''"
| "system_str SysJCB = ''JCB''"
| "system_str SysMaestro = ''Maestro''"
| "system_str SysMastercard = ''Mastercard''"
| "system_str SysMastercardElite = ''MastercardElite''"
| "system_str SysMir = ''MIR''"
| "system_str SysUnionPay = ''UnionPay''"
| "system_str SysUnknown = ''Unknown''"
| "system_str SysUzcard = ''Uzcard''"
| "system_str SysVisa = ''Visa''"
| "system_str SysVisaElectron = ''VisaElectron''"

text \<open>\<open>contain(val, true)\<close>: the pattern \<open>\bval\b\<close> occurs.\<close>

definition is_word_char :: "char \<Rightarrow> bool" where
  "is_word_char c = (is_letter c \<or> is_digit c \<or> c = CHR ''_'')"

definition word_at :: "string \<Rightarrow> nat \<Rightarrow> bool" where
  "word_at s i = (i < length s \<and> is_word_char (s ! i))"

definition boundary :: "string \<Rightarrow> nat \<Rightarrow> bool" where
  "boundary s i = ((0 < i \<and> word_at s (i - 1)) \<noteq> word_at s i)"

definition contain_word :: "string \<Rightarrow> string \<Rightarrow> bool" where
  "contain_word val str =
     list_ex (\<lambda>i. take (length val) (drop i str) = val \<and> boundary str i \<and> boundary str (i + length val))
       [0..<Suc (length str)]"

definition system_patterns :: "(string \<times> CardSystem) list" where
  "system_patterns =
     [(''americanexpress'', SysAmericanExpress),
      (''discover'', SysDiscover),
      (''jcb'', SysJCB),
      (''maestro'', SysMaestro),
      (''mastercard'', SysMastercard),
      (''mastercardelite'', SysMastercardElite),
      (''mir'', SysMir),
      (''unionpay'', SysUnionPay),
      (''uzcard'', SysUzcard),
      (''visa'', SysVisa),
      (''visaelectron'', SysVisaElectron)]"

definition getCardSystem :: "string \<Rightarrow> CardSystem" where
  "getCardSystem network =
     (let s = toId network
      in case List.find (\<lambda>p. contain_word (fst p) s) system_patterns of
           None \<Rightarrow> SysUnknown | Some p \<Rightarrow> snd p)"

fun getCardSystemName :: "CardSystem \<Rightarrow> string" where
  "getCardSystemName SysAmericanExpress = ''American Express''"
| "getCardSystemName SysMastercardElite = ''Mastercard Elite''"
| "getCardSystemName SysVisa = ''VISA''"
| "getCardSystemName SysVisaElectron = ''VISA Electron''"
| "getCardSystemName system = system_str system"

section \<open>The cards a sheet allows\<close>

record UserCard =
  uc_id :: string
  uc_uid :: int
  uc_last4 :: string
  uc_cardNetwork :: string
  uc_issuerBank :: string
  uc_allowedAuthMethods :: "string list"

record BankCard =
  bk_id :: string
  bk_uid :: string
  bk_lastDigits :: string
  bk_system :: CardSystem
  bk_issuer :: CardIssuer
  bk_disabled :: bool

definition toLower :: "string \<Rightarrow> string" where
  "toLower = map js_lower_char"

fun auth_str :: "AllowedAuthMethod \<Rightarrow> string" where
  "auth_str CloudToken = ''CLOUD_TOKEN''"
| "auth_str PanOnly = ''PAN_ONLY''"

fun network_str :: "AllowedCardNetwork \<Rightarrow> string" where
  "network_str NetAmericanExpress = ''AMEX''"
| "network_str NetDiscover = ''DISCOVER''"
| "network_str NetJcb = ''JCB''"
| "network_str NetMastercard = ''MASTERCARD''"
| "network_str NetVisa = ''VISA''"
| "network_str NetVisaElectron = ''VISAELECTRON''"
| "network_str NetMaestro = ''MAESTRO''"
| "network_str NetMir = ''MIR''"
| "network_str NetUnionPay = ''UNIONPAY''"
| "network_str NetUzcard = ''UZCARD''"

text \<open>\<open>allowedAuthMethods\<close> and \<open>allowedCardNetworks\<close> of a payment method; only cards have them.\<close>

fun method_auths :: "SheetPaymentMethod \<Rightarrow> string list option" where
  "method_auths (CardMethod g i a n v) = Some (map auth_str a)" | "method_auths _ = None"

fun method_networks :: "SheetPaymentMethod \<Rightarrow> string list option" where
  "method_networks (CardMethod g i a n v) = Some (map network_str n)" | "method_networks _ = None"

definition getAllowedAuthMethods :: "tinkoff \<Rightarrow> Sheet \<Rightarrow> string list" where
  "getAllowedAuthMethods L sheet =
     tk_uniq L (concat (map (\<lambda>m. po_strs L [] (method_auths m)) (po_methods L [] (sh_paymentMethods sheet))))"

definition getAllowedCardNetworks :: "tinkoff \<Rightarrow> Sheet \<Rightarrow> string list" where
  "getAllowedCardNetworks L sheet =
     tk_uniq L (concat (map (\<lambda>m. po_strs L [] (method_networks m)) (po_methods L [] (sh_paymentMethods sheet))))"

definition createAvailableUserCardsFilter :: "tinkoff \<Rightarrow> Sheet \<Rightarrow> UserCard \<Rightarrow> bool" where
  "createAvailableUserCardsFilter L sheet =
     (let allowedCardNetworks = map toLower (getAllowedCardNetworks L sheet);
          allowedAuthMethods = map toLower (getAllowedAuthMethods L sheet)
      in (\<lambda>card.
        let cardNetwork = toLower (uc_cardNetwork card)
        in if 0 < length allowedCardNetworks \<and> cardNetwork \<notin> set allowedCardNetworks then False
           else let cardAuthMethods = map toLower (filter (\<lambda>a. a \<noteq> []) (uc_allowedAuthMethods card))
                in \<not> (0 < length allowedAuthMethods
                        \<and> length (tk_intersection L allowedAuthMethods cardAuthMethods) = 0)))"

definition sortUserCards :: "UserCard list \<Rightarrow> string \<Rightarrow> UserCard list" where
  "sortUserCards cards cardId =
     (let savedCardIndex = find_index (\<lambda>card. uc_id card = cardId) cards
      in if 0 < savedCardIndex then move cards savedCardIndex 0 else cards)"

definition getDisabledCardsIds :: "tinkoff \<Rightarrow> UserCard list \<Rightarrow> Sheet \<Rightarrow> string list" where
  "getDisabledCardsIds L cards sheet =
     map uc_id (filter (\<lambda>card. \<not> createAvailableUserCardsFilter L sheet card) cards)"

definition checkIsCardAllowed :: "tinkoff \<Rightarrow> Sheet \<Rightarrow> string option \<Rightarrow> bool" where
  "checkIsCardAllowed L sheet cardNetwork =
     (let allowedCardNetworks = map toLower (getAllowedCardNetworks L sheet)
      in \<not> truthy cardNetwork \<or> toLower (the cardNetwork) \<in> set allowedCardNetworks)"

section \<open>Payment methods\<close>

definition NEW_CARD_KEY :: string where "NEW_CARD_KEY = ''__NEW_CARD__''"

definition getBankCardByUserCard :: "UserCard \<Rightarrow> string list \<Rightarrow> BankCard" where
  "getBankCardByUserCard userCard disabledCardIds =
     \<lparr>bk_id = uc_id userCard, bk_uid = js_toString (Fin (of_int (uc_uid userCard))), bk_lastDigits = uc_last4 userCard,
      bk_system = getCardSystem (uc_cardNetwork userCard), bk_issuer = getCardIssuer (uc_issuerBank userCard),
      bk_disabled = uc_id userCard \<in> set disabledCardIds\<rparr>"

definition getPaymentMethodByBankCard :: "BankCard \<Rightarrow> CardPaymentMethod" where
  "getPaymentMethodByBankCard bankCard =
     \<lparr>pm_type = PmtCard, pm_key = ''CARD'' @ bk_id bankCard, pm_disabled = bk_disabled bankCard, pm_id = bk_id bankCard,
      pm_uid = bk_uid bankCard, pm_lastDigits = bk_lastDigits bankCard, pm_system = system_str (bk_system bankCard),
      pm_issuer = issuer_str (bk_issuer bankCard)\<rparr>"

definition getPaymentMethodByUserCard :: "UserCard \<Rightarrow> string list \<Rightarrow> CardPaymentMethod" where
  "getPaymentMethodByUserCard userCard disabledCardIds =
     getPaymentMethodByBankCard (getBankCardByUserCard userCard disabledCardIds)"

definition getPaymentMethodsByUserCards :: "UserCard list \<Rightarrow> string list \<Rightarrow> CardPaymentMethod list" where
  "getPaymentMethodsByUserCards cards disabledCardIds =
     map (\<lambda>card. getPaymentMethodByUserCard card disabledCardIds) cards"

record NewCardPaymentMethod =
  nc_type :: PaymentMethodType
  nc_key :: string
  nc_disabled :: bool

definition createNewCardPaymentMethod :: NewCardPaymentMethod where
  "createNewCardPaymentMethod = \<lparr>nc_type = PmtNewCard, nc_key = NEW_CARD_KEY, nc_disabled = False\<rparr>"

section \<open>What the enumerations recognise\<close>

lemma issuer_map_eval: "ISSUER_MAP = map (\<lambda>i. (toId (issuer_str i), i)) all_issuers"
  by code_simp

lemma distinct_issuer_ids: "distinct (map (\<lambda>i. toId (issuer_str i)) all_issuers)"
  by code_simp

lemma in_all_issuers: "i \<in> set all_issuers"
  by (cases i) (simp_all add: all_issuers_def)

lemma alist_get_keyed:
  "distinct (map f xs) \<Longrightarrow> x \<in> set xs \<Longrightarrow> alist_get (map (\<lambda>x. (f x, x)) xs) (f x) = Some x"
  by (induction xs) auto

text \<open>Every way of writing an issuer's name is recognised: a text with the same letters, whatever
  the case and whatever else stands between them, is that issuer.\<close>

theorem issuer_recognised:
  "toId issuer = toId (issuer_str i) \<Longrightarrow> getCardIssuer issuer = i"
  using alist_get_keyed [OF distinct_issuer_ids in_all_issuers, of i]
  by (simp add: getCardIssuer_def issuer_map_eval)

lemma issuer_recognised_witness: "getCardIssuer ''Credit-Europe bank'' = IssUnknown \<and> getCardIssuer ''Credit Europe'' = IssCreditEurope"
  using issuer_recognised [of "''Credit Europe''" IssCreditEurope] by code_simp

lemma letters_are_words: "list_all is_letter s \<Longrightarrow> word_at s i = (i < length s)"
  by (auto simp: word_at_def is_word_char_def list_all_length)

lemma contain_word_letters:
  assumes "list_all is_letter s" "val \<noteq> []"
  shows "contain_word val s \<longleftrightarrow> s = val"
proof
  assume "contain_word val s"
  then have "\<exists>i \<in> {0..<Suc (length s)}. take (length val) (drop i s) = val \<and> boundary s i
      \<and> boundary s (i + length val)"
    by (simp add: contain_word_def list_ex_iff del: upt_Suc)
  then obtain i where i: "i \<le> length s" "take (length val) (drop i s) = val"
    "boundary s i" "boundary s (i + length val)"
    by (metis atLeastLessThan_iff less_Suc_eq_le)
  have "i + length val \<le> length s"
    using i(1) arg_cong [OF i(2), of length] by simp
  moreover have "i = 0"
    using i(3) \<open>i + length val \<le> length s\<close> assms
    by (cases val) (auto simp: boundary_def letters_are_words)
  moreover have "i + length val = length s"
    using i(4) \<open>i + length val \<le> length s\<close> assms
    by (cases val) (auto simp: boundary_def letters_are_words)
  ultimately show "s = val" using i(2) by simp
next
  assume "s = val"
  then show "contain_word val s"
    using assms by (auto simp: contain_word_def list_ex_iff boundary_def letters_are_words simp del: upt_Suc
        intro!: bexI [of _ 0])
qed

lemma toId_letters: "list_all is_letter (toId s)"
  by (simp add: toId_def list_all_iff)

lemma find_contain_word:
  assumes "list_all is_letter s" "\<forall>p \<in> set ps. fst p \<noteq> []"
  shows "List.find (\<lambda>p. contain_word (fst p) s) ps = map_option (\<lambda>v. (s, v)) (alist_get ps s)"
  using assms by (induction ps) (auto simp: contain_word_letters)

text \<open>The chain of patterns that recognises a payment system is a table look-up: no pattern
  matches inside a longer name, so \<open>mastercardelite\<close> and \<open>visaelectron\<close> are reached although the
  patterns \<open>mastercard\<close> and \<open>visa\<close> are tried before them.\<close>

theorem card_system_table:
  "getCardSystem network =
     (case alist_get system_patterns (toId network) of None \<Rightarrow> SysUnknown | Some s \<Rightarrow> s)"
proof -
  have "\<forall>p \<in> set system_patterns. fst p \<noteq> []" by (simp add: system_patterns_def)
  from find_contain_word [OF toId_letters this, of network] show ?thesis
    by (simp add: getCardSystem_def Let_def split: option.split)
qed

end
