(* ===== verification/UserHelpers.thy ===== *)
theory UserHelpers
  imports CheckoutHelpers ArrayUtils
begin

text \<open>
  Helpers about the user: \<open>helpers/adresses.ts\<close>, \<open>contacts.ts\<close>, \<open>api-error.ts\<close>, \<open>user-state.ts\<close>,
  \<open>order.ts\<close>, \<open>split.ts\<close>, \<open>onboarding.ts\<close> and \<open>api-transform/addresses.ts\<close>, \<open>contacts.ts\<close>,
  \<open>user-settings.ts\<close> of the checkout, with \<open>packages/utils/object/readable-values.ts\<close>.
\<close>

section \<open>Addresses\<close>

definition SERVICE_OWNER_PAY :: string where "SERVICE_OWNER_PAY = ''pay''"
definition SERVICE_OWNER_PASSPORT :: string where "SERVICE_OWNER_PASSPORT = ''passport''"
definition SERVICE_OWNER_MARKET :: string where "SERVICE_OWNER_MARKET = ''market''"

text \<open>\<open>Object.entries\<close> of an object whose values are strings; the dictionary is an object too.\<close>

fun readableValues ::
  "(string \<times> string) list \<Rightarrow> (string \<times> string) list option \<Rightarrow> string list \<Rightarrow> string list" where
  "readableValues dictionary None names = []"
| "readableValues dictionary (Some entries) names =
     map (\<lambda>(key, v). (if truthy (alist_get dictionary key) then the (alist_get dictionary key) @ '' '' else []) @ v)
       (filter (\<lambda>(key, v). v \<noteq> [] \<and> (names = [] \<or> key \<in> set names)) entries)"

definition address_entries :: "Address \<Rightarrow> (string \<times> string) list" where
  "address_entries a =
     [(''id'', ad_id a), (''ownerService'', ad_ownerService a), (''type'', ad_type a), (''zip'', ad_zip a),
      (''country'', ad_country a), (''region'', ad_region a), (''locality'', ad_locality a),
      (''street'', ad_street a), (''building'', ad_building a), (''room'', ad_room a),
      (''entrance'', ad_entrance a), (''floor'', ad_floor a), (''intercom'', ad_intercom a),
      (''comment'', ad_comment a)]"

fun join_str :: "string \<Rightarrow> string list \<Rightarrow> string" where
  "join_str sep [] = []"
| "join_str sep [x] = x"
| "join_str sep (x # y # ys) = x @ sep @ join_str sep (y # ys)"

definition entrance_word :: string where
  "entrance_word =
     utf8 [208, 191, 208, 190, 208, 180, 209, 138, 208, 181, 208, 183, 208, 180]"

definition intercom_word :: string where
  "intercom_word =
     utf8 [208, 180, 208, 190, 208, 188, 208, 190, 209, 132, 208, 190, 208, 189]"

definition floor_word :: string where
  "floor_word =
     utf8 [209, 141, 209, 130, 208, 176, 208, 182]"

definition READABLE_ADDRESS_FIELDS :: "(string \<times> string) list" where
  "READABLE_ADDRESS_FIELDS =
     [(''entrance'', entrance_word), (''intercom'', intercom_word), (''floor'', floor_word)]"

definition getReadableAddress :: "Address option \<Rightarrow> string" where
  "getReadableAddress address =
     join_str '', '' (readableValues [] (map_option address_entries address)
       [''locality'', ''street'', ''building'', ''room''])"

definition getReadableAddressAdditional :: "Address option \<Rightarrow> string" where
  "getReadableAddressAdditional address =
     join_str '', '' (readableValues READABLE_ADDRESS_FIELDS (map_option address_entries address)
       [''entrance'', ''intercom'', ''floor''])"

definition addr_isPayOwner :: "Address option \<Rightarrow> bool" where
  "addr_isPayOwner address = (map_option ad_ownerService address = Some SERVICE_OWNER_PAY)"

text \<open>\<open>indexOf\<close> of the element found before: the same object, so its first position.\<close>

definition sortAddressList :: "tinkoff \<Rightarrow> Address list \<Rightarrow> string option \<Rightarrow> Address list" where
  "sortAddressList L list selectedId =
     (let sortedList = tk_sort L (\<lambda>address1 address2. addr_isPayOwner (Some address2)) list;
          selectedAddress = List.find (\<lambda>item. Some (ad_id item) = selectedId) sortedList
      in if selectedAddress \<noteq> None \<and> addr_isPayOwner selectedAddress
         then move sortedList (find_index (\<lambda>item. Some (ad_id item) = selectedId) sortedList) 0
         else sortedList)"

definition isGeoAddressWithoutRoom :: "Address option \<Rightarrow> bool" where
  "isGeoAddressWithoutRoom address =
     (case address of None \<Rightarrow> False
      | Some a \<Rightarrow> ad_type a \<in> set [''home'', ''work''] \<and> ad_room a = [])"

text \<open>
  What \<open>isEqual\<close> compares: the picked fields, in the order building, comment, country, entrance,
  floor, intercom, region, locality, room, street.
\<close>

definition getAddressForCompare :: "Address \<Rightarrow> compared" where
  "getAddressForCompare a =
     map Some [ad_building a, ad_comment a, ad_country a, ad_entrance a, ad_floor a, ad_intercom a,
               ad_region a, ad_locality a, ad_room a, ad_street a]"

text \<open>
  The values of the address form, after \<open>omit(['address'], {...formData, ...pick(...)})\<close>: the fields
  of the form, overwritten by what the geocoder knows.  The form of a new address has no region;
  the form of an edited one starts from the address and keeps its region.
\<close>

record AddressFormData =
  fd_address :: string
  fd_room :: string
  fd_entrance :: string
  fd_floor :: string
  fd_intercom :: string
  fd_comment :: string
  fd_region :: "string option"
  fd_country :: "string option"
  fd_locality :: "string option"
  fd_street :: "string option"
  fd_building :: "string option"

record Geocode =
  gc_country :: "string option"
  gc_locality :: "string option"
  gc_street :: "string option"
  gc_building :: "string option"

definition geocoded :: "AddressFormData \<Rightarrow> Geocode \<Rightarrow> AddressFormData" where
  "geocoded f g =
     (let over = (\<lambda>new old. if new = None then old else new)
      in f\<lparr>fd_address := [], fd_country := over (gc_country g) (fd_country f),
           fd_locality := over (gc_locality g) (fd_locality f),
           fd_street := over (gc_street g) (fd_street f),
           fd_building := over (gc_building g) (fd_building f)\<rparr>)"

definition form_for_compare :: "AddressFormData \<Rightarrow> compared" where
  "form_for_compare f =
     [fd_building f, Some (fd_comment f), fd_country f, Some (fd_entrance f), Some (fd_floor f),
      Some (fd_intercom f), fd_region f, fd_locality f, Some (fd_room f), fd_street f]"

definition addr_isEqual :: "tinkoff \<Rightarrow> Address \<Rightarrow> AddressFormData \<Rightarrow> bool" where
  "addr_isEqual L address1 address2 =
     tk_equal L (getAddressForCompare address1) (form_for_compare address2)"

section \<open>Addresses of the API\<close>

record ApiAddress =
  aa_id :: string
  aa_ownerService :: "string option"
  aa_type :: "string option"
  aa_zip :: "string option"
  aa_country :: "string option"
  aa_region :: "string option"
  aa_locality :: "string option"
  aa_street :: "string option"
  aa_building :: "string option"
  aa_room :: "string option"
  aa_entrance :: "string option"
  aa_floor :: "string option"
  aa_intercom :: "string option"
  aa_comment :: "string option"
  aa_location :: "(jsnum option \<times> jsnum option) option"

text \<open>\<open>x ?? d\<close>.\<close>

definition or_else :: "'a option \<Rightarrow> 'a \<Rightarrow> 'a" where
  "or_else x d = (case x of None \<Rightarrow> d | Some v \<Rightarrow> v)"

definition parseAddress :: "ApiAddress \<Rightarrow> Address" where
  "parseAddress a =
     \<lparr>ad_id = aa_id a, ad_ownerService = or_else (aa_ownerService a) [], ad_type = or_else (aa_type a) [],
      ad_zip = or_else (aa_zip a) [], ad_country = or_else (aa_country a) [],
      ad_region = or_else (aa_region a) [], ad_locality = or_else (aa_locality a) [],
      ad_street = or_else (aa_street a) [], ad_building = or_else (aa_building a) [],
      ad_room = or_else (aa_room a) [], ad_entrance = or_else (aa_entrance a) [],
      ad_floor = or_else (aa_floor a) [], ad_intercom = or_else (aa_intercom a) [],
      ad_comment = or_else (aa_comment a) [],
      ad_location = \<lparr>gp_latitude = or_else (Option.bind (aa_location a) fst) (Fin 0),
                     gp_longitude = or_else (Option.bind (aa_location a) snd) (Fin 0)\<rparr>\<rparr>"

definition addressesList :: "ApiAddress list \<Rightarrow> Address list" where
  "addressesList results = map parseAddress results"

record ShippingAddress =
  sa_country :: string
  sa_region :: string
  sa_locality :: string
  sa_street :: string
  sa_building :: string
  sa_room :: string
  sa_entrance :: string
  sa_floor :: string
  sa_intercom :: string
  sa_zip :: string
  sa_location :: GeoPoint

definition toShippingAddress :: "Address \<Rightarrow> ShippingAddress" where
  "toShippingAddress a =
     \<lparr>sa_country = ad_country a, sa_region = ad_region a, sa_locality = ad_locality a,
      sa_street = ad_street a, sa_building = ad_building a, sa_room = ad_room a,
      sa_entrance = ad_entrance a, sa_floor = ad_floor a, sa_intercom = ad_intercom a,
      sa_zip = ad_zip a, sa_location = ad_location a\<rparr>"

record ShippingMethodDataAddress =
  ma_id :: string
  ma_country :: string
  ma_locality :: string
  ma_region :: string

definition toShippingMethodDataAddress :: "Address \<Rightarrow> ShippingMethodDataAddress" where
  "toShippingMethodDataAddress a =
     \<lparr>ma_id = ad_id a, ma_country = ad_country a, ma_locality = ad_locality a, ma_region = ad_region a\<rparr>"

section \<open>Contacts\<close>

record ApiContact =
  ac_id :: string
  ac_ownerService :: "string option"
  ac_firstName :: "string option"
  ac_lastName :: "string option"
  ac_secondName :: "string option"
  ac_email :: "string option"
  ac_phoneNumber :: "string option"

definition parseContact :: "ApiContact \<Rightarrow> Contact" where
  "parseContact c =
     \<lparr>ct_id = ac_id c, ct_ownerService = or_else (ac_ownerService c) [],
      ct_firstName = or_else (ac_firstName c) [], ct_lastName = or_else (ac_lastName c) [],
      ct_secondName = or_else (ac_secondName c) [], ct_email = or_else (ac_email c) [],
      ct_phoneNumber = or_else (ac_phoneNumber c) []\<rparr>"

definition contactsList :: "ApiContact list \<Rightarrow> Contact list" where
  "contactsList results = map parseContact results"

definition getReadableContact :: "Contact option \<Rightarrow> string" where
  "getReadableContact contact =
     (case contact of None \<Rightarrow> []
      | Some c \<Rightarrow> join_str '' '' [ct_lastName c, ct_firstName c, ct_secondName c])"

definition contact_isPayOwner :: "Contact option \<Rightarrow> bool" where
  "contact_isPayOwner contact = (map_option ct_ownerService contact = Some SERVICE_OWNER_PAY)"

definition isPassportOwner :: "Contact option \<Rightarrow> bool" where
  "isPassportOwner contact = (map_option ct_ownerService contact = Some SERVICE_OWNER_PASSPORT)"

text \<open>The form of an edited contact starts from the contact and keeps its id and owner.\<close>

record ContactFormData =
  cf_id :: "string option"
  cf_ownerService :: "string option"
  cf_firstName :: string
  cf_lastName :: string
  cf_secondName :: string
  cf_phoneNumber :: string
  cf_email :: string

definition form_of_contact :: "Contact \<Rightarrow> ContactFormData" where
  "form_of_contact c =
     \<lparr>cf_id = Some (ct_id c), cf_ownerService = Some (ct_ownerService c), cf_firstName = ct_firstName c,
      cf_lastName = ct_lastName c, cf_secondName = ct_secondName c, cf_phoneNumber = ct_phoneNumber c,
      cf_email = ct_email c\<rparr>"

text \<open>\<open>isEqual(contact, formData)\<close>: all fields, and none of them missing on one side only.\<close>

definition form_fields :: "ContactFormData \<Rightarrow> compared" where
  "form_fields f =
     [cf_id f, cf_ownerService f, Some (cf_firstName f), Some (cf_lastName f), Some (cf_secondName f),
      Some (cf_phoneNumber f), Some (cf_email f)]"

definition contact_isEqual :: "tinkoff \<Rightarrow> Contact option \<Rightarrow> ContactFormData \<Rightarrow> bool" where
  "contact_isEqual L contact f =
     (case contact of None \<Rightarrow> False
      | Some c \<Rightarrow> tk_equal L (form_fields (form_of_contact c)) (form_fields f))"

section \<open>The user's settings\<close>

record UserState =
  us_contactId :: string
  us_cardId :: string
  us_addressId :: string
  us_isCheckoutOnboarded :: bool

definition getEmptyUserState :: UserState where
  "getEmptyUserState =
     \<lparr>us_contactId = [], us_cardId = [], us_addressId = [], us_isCheckoutOnboarded = False\<rparr>"

record UserSettings =
  ut_cardId :: "string option"
  ut_addressId :: "string option"
  ut_contactId :: "string option"
  ut_isCheckoutOnboarded :: "bool option"

definition userState :: "UserSettings \<Rightarrow> UserState" where
  "userState u =
     \<lparr>us_contactId = or_else (ut_contactId u) (us_contactId getEmptyUserState),
      us_cardId = or_else (ut_cardId u) (us_cardId getEmptyUserState),
      us_addressId = or_else (ut_addressId u) (us_addressId getEmptyUserState),
      us_isCheckoutOnboarded = or_else (ut_isCheckoutOnboarded u) (us_isCheckoutOnboarded getEmptyUserState)\<rparr>"

definition hasId :: "('a \<Rightarrow> string) \<Rightarrow> 'a list \<Rightarrow> string \<Rightarrow> bool" where
  "hasId prop_id list i = list_ex (\<lambda>item. prop_id item = i) list"

section \<open>Errors of the API\<close>

text \<open>What the helpers read of a caught error: \<open>response.code\<close> and \<open>response.data\<close>.\<close>

record caught =
  cg_text :: string
  cg_is_string :: bool
  cg_code :: "int option"
  cg_message :: "string option"
  cg_params :: "string option"

definition errorCode :: "(int \<Rightarrow> int option \<Rightarrow> int) \<Rightarrow> caught \<Rightarrow> int" where
  "errorCode path_or data = path_or 0 (cg_code data)"

definition errorReason :: "tinkoff \<Rightarrow> caught \<Rightarrow> string" where
  "errorReason L data = po_str L ''UNKNOWN_ERROR'' (cg_message data)"

definition errorDetails :: "caught \<Rightarrow> string option" where
  "errorDetails data = cg_params data"

definition isError4xx :: "(int \<Rightarrow> int option \<Rightarrow> int) \<Rightarrow> caught \<Rightarrow> bool" where
  "isError4xx path_or data = (let c = errorCode path_or data in 400 \<le> c \<and> c < 500)"

section \<open>Split payments\<close>

fun js_le :: "jsnum \<Rightarrow> jsnum \<Rightarrow> bool" where
  "js_le NaN y = False"
| "js_le x NaN = False"
| "js_le NegInf y = True"
| "js_le x PosInf = True"
| "js_le PosInf y = False"
| "js_le x NegInf = False"
| "js_le (Fin x) (Fin y) = (x \<le> y)"

text \<open>The page's settings the store reads.  A bound missing in the range is \<open>undefined\<close>, like \<open>NaN\<close>.\<close>

record checkout_config =
  USER_EMAIL :: string
  IS_CHECKOUT_SERVER :: bool
  CHALLENGE_NUM :: jsnum
  CHALLENGE_CARD_ID :: string
  IS_SPLIT_AVAILABLE :: bool
  SPLIT_MERCHANT_WHITELIST :: "string list"
  SPLIT_AVAILABLE_AMOUNT_RANGE :: "jsnum list"
  USER_LOCATION_COORDS :: GeoPoint
  innerSize :: "rat \<times> rat"

definition nth_num :: "jsnum list \<Rightarrow> nat \<Rightarrow> jsnum" where
  "nth_num xs i = (if i < length xs then xs ! i else NaN)"

definition sheet_isSplitAvailable :: "checkout_config \<Rightarrow> tinkoff \<Rightarrow> Sheet \<Rightarrow> bool" where
  "sheet_isSplitAvailable cfg L sheet =
     (let minAmount = nth_num (SPLIT_AVAILABLE_AMOUNT_RANGE cfg) 0;
          maxAmount = nth_num (SPLIT_AVAILABLE_AMOUNT_RANGE cfg) 1;
          amount = js_Number (getOrderAmount L sheet);
          merchantAvailable = getMerchantId L sheet \<in> set (SPLIT_MERCHANT_WHITELIST cfg)
      in IS_SPLIT_AVAILABLE cfg \<and> merchantAvailable \<and> hasSplit L sheet
         \<and> js_le minAmount amount \<and> js_le amount maxAmount)"

section \<open>Onboarding\<close>

text \<open>The paths of the form, \<open>router/paths.ts\<close>; \<open>query\<close> is the query of the current address.\<close>

definition BASE_ROUTE :: string where "BASE_ROUTE = ''/web/checkout''"

definition path_Main :: "string \<Rightarrow> string" where "path_Main query = BASE_ROUTE @ query"
definition path_Addresses :: "string \<Rightarrow> string" where
  "path_Addresses query = BASE_ROUTE @ ''/addresses'' @ query"
definition path_AddressesAdd :: "string \<Rightarrow> string" where
  "path_AddressesAdd query = BASE_ROUTE @ ''/addresses/add'' @ query"
definition path_Contacts :: "string \<Rightarrow> string" where
  "path_Contacts query = BASE_ROUTE @ ''/contacts'' @ query"
definition path_ContactsAdd :: "string \<Rightarrow> string" where
  "path_ContactsAdd query = BASE_ROUTE @ ''/contacts/add'' @ query"

record PathObj =
  pth_pathname :: string
  pth_search :: "string option"

definition pathObj :: "string \<Rightarrow> PathObj" where
  "pathObj path =
     (let parts = split_on (CHR ''?'') path; srch = (if 1 < length parts then parts ! 1 else [])
      in \<lparr>pth_pathname = parts ! 0, pth_search = (if srch \<noteq> [] then Some (''?'' @ srch) else None)\<rparr>)"

record ObStep =
  ob_step :: nat
  ob_prevHref :: "string option"
  ob_addPrevHref :: "string option"
  ob_completeHref :: string

record ObContactStep = ObStep +
  ob_addFillForm :: "bool option"

record ObSteps =
  obs_active :: bool
  obs_addressOnboarded :: bool
  obs_contactOnboarded :: bool
  obs_pickupOnboarded :: bool
  obs_startHref :: "PathObj option"
  obs_totalSteps :: "nat option"
  obs_address :: "ObStep option"
  obs_contact :: "ObContactStep option"

text \<open>The empty object of the initial state: its flags read as false.\<close>

definition no_ob_steps :: ObSteps where
  "no_ob_steps = \<lparr>obs_active = False, obs_addressOnboarded = False, obs_contactOnboarded = False,
     obs_pickupOnboarded = False, obs_startHref = None, obs_totalSteps = None, obs_address = None,
     obs_contact = None\<rparr>"

record UserData =
  ud_addressId :: string
  ud_contactId :: string
  ud_contactsList :: "Contact list"
  ud_addressesList :: "Address list"

definition getObSteps :: "string \<Rightarrow> UserState \<Rightarrow> UserData \<Rightarrow> ObSteps" where
  "getObSteps query lastState userData =
     (let hasSelectedAddress = (ud_addressId userData \<noteq> []);
          hasSelectedContact = (ud_contactId userData \<noteq> []);
          obAddress = (\<not> (hasSelectedAddress \<and> us_addressId lastState = ud_addressId userData));
          obContact = (\<not> (hasSelectedContact \<and> us_contactId lastState = ud_contactId userData));
          addressHref = (if hasSelectedAddress then path_Addresses query else path_AddressesAdd query);
          contactHref = (if hasSelectedContact then path_Contacts query else path_ContactsAdd query);
          addressAddPrevHref = (if addressHref = path_AddressesAdd query then None
                                else Some (path_Addresses query));
          contactAddPrevHref = (if contactHref = path_ContactsAdd query then None
                                else Some (path_Contacts query));
          completeHref = path_Main query;
          fillContactAddForm = (\<not> hasSelectedContact \<and> length (ud_contactsList userData) = 0)
      in if obAddress \<and> obContact
         then \<lparr>obs_active = True, obs_addressOnboarded = \<not> obAddress, obs_contactOnboarded = \<not> obContact,
               obs_pickupOnboarded = False, obs_startHref = Some (pathObj addressHref),
               obs_totalSteps = Some 3,
               obs_address = Some \<lparr>ob_step = 1, ob_prevHref = None,
                 ob_addPrevHref = addressAddPrevHref, ob_completeHref = contactHref\<rparr>,
               obs_contact = Some \<lparr>ob_step = 2, ob_prevHref = Some (path_Addresses query),
                 ob_addPrevHref = contactAddPrevHref, ob_completeHref = completeHref,
                 ob_addFillForm = Some fillContactAddForm\<rparr>\<rparr>
         else if obAddress \<or> obContact
         then \<lparr>obs_active = True, obs_addressOnboarded = \<not> obAddress, obs_contactOnboarded = \<not> obContact,
               obs_pickupOnboarded = False,
               obs_startHref = Some (pathObj (if obAddress then addressHref else contactHref)),
               obs_totalSteps = Some 2,
               obs_address = Some \<lparr>ob_step = 1, ob_prevHref = None,
                 ob_addPrevHref = addressAddPrevHref, ob_completeHref = completeHref\<rparr>,
               obs_contact = Some \<lparr>ob_step = 1, ob_prevHref = None,
                 ob_addPrevHref = contactAddPrevHref, ob_completeHref = completeHref,
                 ob_addFillForm = Some fillContactAddForm\<rparr>\<rparr>
         else \<lparr>obs_active = False, obs_addressOnboarded = \<not> obAddress, obs_contactOnboarded = \<not> obContact,
               obs_pickupOnboarded = False, obs_startHref = Some (pathObj completeHref),
               obs_totalSteps = Some 0,
               obs_address = Some \<lparr>ob_step = 0, ob_prevHref = None, ob_addPrevHref = None,
                 ob_completeHref = completeHref\<rparr>,
               obs_contact = Some \<lparr>ob_step = 0, ob_prevHref = None, ob_addPrevHref = None,
                 ob_completeHref = completeHref, ob_addFillForm = None\<rparr>\<rparr>)"

definition getIsFullOnboarded :: "ObSteps \<Rightarrow> bool" where
  "getIsFullOnboarded obSteps =
     (obs_contactOnboarded obSteps \<and> (obs_addressOnboarded obSteps \<or> obs_pickupOnboarded obSteps))"

section \<open>Quantities\<close>

definition default_label :: string where "default_label = utf8 [209, 136, 209, 130]"

text \<open>\<open>parseFloat\<close> is the platform's; \<open>parse_float\<close> is the number it reads at the front of a text.\<close>

definition checkQuantity :: "(string \<Rightarrow> jsnum) \<Rightarrow> string \<Rightarrow> bool" where
  "checkQuantity parse_float quantity = (quantity \<noteq> [] \<and> parse_float quantity \<noteq> NaN)"

definition getQuantityWithLabel :: "(string \<Rightarrow> jsnum) \<Rightarrow> string \<Rightarrow> string \<Rightarrow> string" where
  "getQuantityWithLabel parse_float quantity label = js_toString (parse_float quantity) @ '' '' @ label"

definition getReadableQuantity :: "tinkoff \<Rightarrow> (string \<Rightarrow> jsnum) \<Rightarrow> OrderItemQuantity option \<Rightarrow> string" where
  "getReadableQuantity L parse_float quantity =
     (let c = po_str L [] (map_option oiq_count quantity)
      in if checkQuantity parse_float c
         then getQuantityWithLabel parse_float c (po_str L default_label (Option.bind quantity oiq_label))
         else [])"

section \<open>The onboarding asks exactly for what is missing\<close>

lemma getObSteps_flags:
  "obs_active (getObSteps query u d) \<longleftrightarrow> \<not> getIsFullOnboarded (getObSteps query u d)"
  by (simp add: getObSteps_def getIsFullOnboarded_def Let_def)

text \<open>The onboarding is active exactly when the user is not fully onboarded; it is active exactly
  when the address or the contact selected now is missing or is not the one of the last visit; and it
  then starts on the page of the first thing that is missing and has one step for each, and one more.\<close>

theorem onboarding_asks_for_missing:
  "obs_active (getObSteps query u d) = (\<not> getIsFullOnboarded (getObSteps query u d))
   \<and> obs_active (getObSteps query u d) =
       (\<not> (ud_addressId d \<noteq> [] \<and> us_addressId u = ud_addressId d
           \<and> ud_contactId d \<noteq> [] \<and> us_contactId u = ud_contactId d))
   \<and> obs_totalSteps (getObSteps query u d) = Some (let missing =
         (if obs_addressOnboarded (getObSteps query u d) then 0 else 1)
         + (if obs_contactOnboarded (getObSteps query u d) then 0 else 1)
       in if missing = 0 then 0 else missing + 1)
   \<and> obs_startHref (getObSteps query u d) = Some (pathObj
       (if \<not> obs_addressOnboarded (getObSteps query u d)
        then if ud_addressId d = [] then path_AddressesAdd query else path_Addresses query
        else if \<not> obs_contactOnboarded (getObSteps query u d)
        then if ud_contactId d = [] then path_ContactsAdd query else path_Contacts query
        else path_Main query))"
  unfolding getObSteps_def getIsFullOnboarded_def Let_def
  by (intro conjI; cases "ud_addressId d = []"; cases "ud_contactId d = []"; auto)

section \<open>The list of addresses\<close>

lemma find_find_index:
  "List.find p xs = Some x \<Longrightarrow> 0 \<le> find_index p xs \<and> xs ! nat (find_index p xs) = x"
proof (induction xs)
  case (Cons a xs)
  then show ?case
    by (auto simp: find_index_def Let_def split: if_splits)
qed simp

lemma move_to_front:
  assumes "0 \<le> i" "i < int (length xs)"
  shows "hd (move xs i 0) = xs ! nat i"
proof -
  have "nat i < length xs" "0 < length xs" using assms by linarith+
  then have "move xs i 0 = relocate xs (nat i) 0"
    using move_eq_relocate [of "nat i" xs 0] assms(1) by simp
  then show ?thesis by (simp add: relocate_def Let_def)
qed

text \<open>Sorting the list of addresses keeps every address, and an address of the user's own that is
  selected comes first.\<close>

theorem sortAddressList_selected_first:
  assumes "tinkoff_ok L"
  shows "mset (sortAddressList L xs sel) = mset xs
    \<and> (\<forall>a \<in> set xs. sel = Some (ad_id a) \<longrightarrow> distinct (map ad_id xs) \<longrightarrow>
         addr_isPayOwner (Some a) \<longrightarrow> hd (sortAddressList L xs sel) = a)"
proof (intro conjI ballI impI)
  let ?ys = "tk_sort L (\<lambda>address1 address2. addr_isPayOwner (Some address2)) xs"
  have perm: "mset ?ys = mset xs" using assms by (simp add: tinkoff_simps)
  show "mset (sortAddressList L xs sel) = mset xs"
    by (simp add: sortAddressList_def Let_def mset_move perm)
  fix a
  assume a: "a \<in> set xs" "sel = Some (ad_id a)" "distinct (map ad_id xs)" "addr_isPayOwner (Some a)"
  have "a \<in> set ?ys" using a(1) perm by (metis set_mset_mset)
  have "distinct (map ad_id ?ys)"
    using a(3) perm by (metis mset_map mset_eq_imp_distinct_iff)
  define i where "i = find_index (\<lambda>item. Some (ad_id item) = sel) ?ys"
  obtain b where b: "List.find (\<lambda>item. Some (ad_id item) = sel) ?ys = Some b"
    using \<open>a \<in> set ?ys\<close> a(2) by (cases "List.find (\<lambda>item. Some (ad_id item) = sel) ?ys") (auto simp: find_None_all)
  have i: "0 \<le> i" "?ys ! nat i = b" using find_find_index [OF b] by (simp_all add: i_def)
  have "nat i < length ?ys" using find_index_pos i(1) unfolding i_def by blast
  have "b = a"
    using find_Some_in [OF b] \<open>a \<in> set ?ys\<close> \<open>distinct (map ad_id ?ys)\<close> a(2)
    by (metis inj_onD distinct_map option.inject)
  then show "hd (sortAddressList L xs sel) = a"
    using move_to_front [of i ?ys] i \<open>nat i < length ?ys\<close> a(4) b
    by (simp add: sortAddressList_def Let_def flip: i_def)
qed

definition sample_address :: "string \<Rightarrow> string \<Rightarrow> Address" where
  "sample_address i owner = parseAddress
     \<lparr>aa_id = i, aa_ownerService = Some owner, aa_type = Some ''home'', aa_zip = None,
      aa_country = Some ''RU'', aa_region = None, aa_locality = Some ''Moscow'', aa_street = Some ''Street'',
      aa_building = Some ''1'', aa_room = None, aa_entrance = None, aa_floor = None, aa_intercom = None,
      aa_comment = None, aa_location = None\<rparr>"

lemma sortAddressList_selected_first_witness:
  "hd (sortAddressList std_tinkoff [sample_address ''a'' ''market'', sample_address ''b'' ''pay''] (Some ''b''))
     = sample_address ''b'' ''pay''"
  using sortAddressList_selected_first [OF std_tinkoff_ok,
      of "[sample_address ''a'' ''market'', sample_address ''b'' ''pay'']" "Some ''b''"]
  by (simp add: sample_address_def parseAddress_def or_else_def addr_isPayOwner_def SERVICE_OWNER_PAY_def)

text \<open>The address form for a new address never matches a saved address: the saved one has a
  region, the form has none.  The look-up of an equal address is then always empty.\<close>

theorem new_address_never_matches:
  assumes "tinkoff_ok L" "fd_region f = None"
  shows "List.find (\<lambda>item. addr_isEqual L item (geocoded f g)) xs = None"
  using assms
  by (simp add: find_None_all addr_isEqual_def getAddressForCompare_def form_for_compare_def
      geocoded_def Let_def tinkoff_simps)

definition sample_form :: AddressFormData where
  "sample_form = \<lparr>fd_address = ''RU, Moscow, Street, 1'', fd_room = [], fd_entrance = [], fd_floor = [],
     fd_intercom = [], fd_comment = [], fd_region = None, fd_country = None, fd_locality = None,
     fd_street = None, fd_building = None\<rparr>"

definition sample_geocode :: Geocode where
  "sample_geocode = \<lparr>gc_country = Some ''RU'', gc_locality = Some ''Moscow'', gc_street = Some ''Street'',
     gc_building = Some ''1''\<rparr>"

lemma new_address_never_matches_witness:
  "List.find (\<lambda>item. addr_isEqual std_tinkoff item (geocoded sample_form sample_geocode))
     [sample_address ''a'' ''pay''] = None"
  by (rule new_address_never_matches) (simp_all add: sample_form_def)

end
