(* ===== verification/ShippingHelpers.thy ===== *)
theory ShippingHelpers
  imports UserHelpers
begin

text \<open>
  Delivery: \<open>helpers/date.ts\<close>, \<open>helpers/shippings.ts\<close> (choosing a delivery option),
  \<open>helpers/geo.ts\<close>, \<open>lib/geo.ts\<close>, \<open>helpers/pickup.ts\<close> and \<open>api-transform/pickup.ts\<close> (points on the
  map) of the checkout.

  The zone of the machine is an offset \<open>tz\<close> in milliseconds; a time stamp is a number of seconds.
  What the platform computes, the sine and the cosine, and the random shuffle are arguments.
\<close>

section \<open>Dates\<close>

text \<open>An invalid date, like \<open>NaN\<close>, is \<open>None\<close>, and equal to nothing.\<close>

definition in_range :: "int \<Rightarrow> time" where
  "in_range ms = (if \<bar>ms\<bar> \<le> 8640000000000000 then Some ms else None)"

definition toUnixTimestamp :: "time \<Rightarrow> int option" where
  "toUnixTimestamp date = map_option (\<lambda>ms. ms div 1000) date"

definition fromUnixTimestamp :: "int option \<Rightarrow> time" where
  "fromUnixTimestamp timestamp = Option.bind timestamp (\<lambda>t. in_range (t * 1000))"

definition round_local :: "int \<Rightarrow> int \<Rightarrow> time \<Rightarrow> time" where
  "round_local tz unit t = Option.bind t (\<lambda>ms. in_range ((ms + tz) - (ms + tz) mod unit - tz))"

definition getPureDate :: "int \<Rightarrow> time \<Rightarrow> time" where
  "getPureDate tz date = round_local tz 86400000 date"

text \<open>The minute of the day, and of the date: the date is kept.\<close>

definition getPureTime :: "int \<Rightarrow> time \<Rightarrow> time" where
  "getPureTime tz time = round_local tz 60000 time"

definition num_eq :: "'a option \<Rightarrow> 'a option \<Rightarrow> bool" where
  "num_eq a b = (a \<noteq> None \<and> a = b)"

definition isToday :: "int \<Rightarrow> int \<Rightarrow> time \<Rightarrow> bool" where
  "isToday tz now date = num_eq (getPureDate tz date) (getPureDate tz (in_range now))"

definition isTomorrow :: "int \<Rightarrow> int \<Rightarrow> time \<Rightarrow> bool" where
  "isTomorrow tz now date = num_eq (getPureDate tz date) (getPureDate tz (in_range (now + 86400000)))"

section \<open>Delivery options\<close>

definition getPureDateOfTimestamp :: "int \<Rightarrow> int option \<Rightarrow> int option" where
  "getPureDateOfTimestamp tz timestamp = toUnixTimestamp (getPureDate tz (fromUnixTimestamp timestamp))"

definition getPureTimeOfTimestamp :: "int \<Rightarrow> int option \<Rightarrow> int option" where
  "getPureTimeOfTimestamp tz timestamp = toUnixTimestamp (getPureTime tz (fromUnixTimestamp timestamp))"

definition hasDate :: "ShippingOption \<Rightarrow> bool" where
  "hasDate opt = (case sho_date opt of None \<Rightarrow> False | Some d \<Rightarrow> d \<noteq> 0)"

definition hasDateAndTime :: "ShippingOption \<Rightarrow> bool" where
  "hasDateAndTime opt = (hasDate opt \<and> sho_time opt \<noteq> None)"

definition time_from :: "ShippingOption \<Rightarrow> int option" where
  "time_from opt = map_option fst (sho_time opt)"

definition time_to :: "ShippingOption \<Rightarrow> int option" where
  "time_to opt = map_option snd (sho_time opt)"

definition inSameDay :: "int \<Rightarrow> ShippingOption \<Rightarrow> ShippingOption \<Rightarrow> bool" where
  "inSameDay tz option1 option2 =
     num_eq (getPureDateOfTimestamp tz (sho_date option1)) (getPureDateOfTimestamp tz (sho_date option2))"

text \<open>As in the source, the second time is rounded to its date.\<close>

definition inSameTime :: "int \<Rightarrow> int option \<Rightarrow> int option \<Rightarrow> bool" where
  "inSameTime tz time1 time2 =
     num_eq (getPureTimeOfTimestamp tz time1) (getPureDateOfTimestamp tz time2)"

definition inSameDateAndTime :: "int \<Rightarrow> ShippingOption \<Rightarrow> ShippingOption \<Rightarrow> bool" where
  "inSameDateAndTime tz option1 option2 =
     (inSameDay tz option1 option2 \<and> inSameTime tz (time_from option1) (time_from option2)
      \<and> inSameTime tz (time_to option1) (time_to option2))"

definition inSameSlot :: "int \<Rightarrow> ShippingOption \<Rightarrow> ShippingOption \<Rightarrow> bool" where
  "inSameSlot tz option1 option2 =
     (if hasDateAndTime option1 \<and> hasDateAndTime option2 then inSameDateAndTime tz option1 option2
      else if hasDate option1 \<and> sho_time option1 = None \<and> hasDate option2 \<and> sho_time option2 = None
      then inSameDay tz option1 option2
      else False)"

definition js_less :: "jsnum \<Rightarrow> jsnum \<Rightarrow> bool" where
  "js_less x y = (js_le x y \<and> \<not> js_le y x)"

definition isCheaper :: "ShippingOption \<Rightarrow> ShippingOption \<Rightarrow> bool" where
  "isCheaper opt than = js_less (js_Number (sho_amount opt)) (js_Number (sho_amount than))"

definition num_str :: "int option \<Rightarrow> string" where
  "num_str n = (case n of None \<Rightarrow> ''NaN'' | Some k \<Rightarrow> js_toString (Fin (of_int k)))"

definition slot_key :: "int \<Rightarrow> ShippingOption \<Rightarrow> string" where
  "slot_key tz opt =
     (if hasDateAndTime opt
      then num_str (getPureTimeOfTimestamp tz (time_from opt)) @ ''-''
             @ num_str (getPureTimeOfTimestamp tz (time_to opt))
      else num_str (getPureDateOfTimestamp tz (sho_date opt)))"

definition filterCheapest :: "int \<Rightarrow> ShippingOption list \<Rightarrow> ShippingOption list" where
  "filterCheapest tz options =
     map snd (foldl (\<lambda>acc curr.
       let key = slot_key tz curr
       in case alist_get acc key of
            None \<Rightarrow> alist_put acc key curr
          | Some current \<Rightarrow>
              if js_less (js_Number (sho_amount curr)) (js_Number (sho_amount current))
              then alist_put acc key curr else acc) [] options)"

definition isYandexExpress :: "ShippingOption \<Rightarrow> bool" where
  "isYandexExpress opt =
     (hasDate opt \<and> sho_provider opt = ''YANDEX'' \<and> sho_category opt = Some ''express'')"

definition isNotYandexExpress :: "ShippingOption \<Rightarrow> bool" where
  "isNotYandexExpress opt = (\<not> isYandexExpress opt)"

text \<open>
  \<open>Array.prototype.sort\<close> with a comparison function, as a stable insertion sort: the language fixes
  the result where the comparison is consistent, and any stable sort then gives it.
\<close>

fun js_insert :: "('a \<Rightarrow> 'a \<Rightarrow> jsnum) \<Rightarrow> 'a \<Rightarrow> 'a list \<Rightarrow> 'a list" where
  "js_insert cmp x [] = [x]"
| "js_insert cmp x (y # ys) =
     (if 0 < js_sign (cmp y x) then x # y # ys else y # js_insert cmp x ys)"

definition js_sort :: "('a \<Rightarrow> 'a \<Rightarrow> jsnum) \<Rightarrow> 'a list \<Rightarrow> 'a list" where
  "js_sort cmp xs = foldl (\<lambda>ys x. js_insert cmp x ys) [] xs"

definition date_number :: "int \<Rightarrow> ShippingOption \<Rightarrow> jsnum" where
  "date_number tz opt = getTime (getPureDate tz (fromUnixTimestamp (sho_date opt)))"

definition sortOptions :: "int \<Rightarrow> ShippingOption \<Rightarrow> ShippingOption \<Rightarrow> jsnum" where
  "sortOptions tz a b =
     (let bothTimes = (sho_time a \<noteq> None \<and> sho_time b \<noteq> None);
          num = (\<lambda>t. getTime (getPureTime tz (fromUnixTimestamp t)))
      in if bothTimes \<and> inSameSlot tz a b
         then js_sub (js_Number (sho_amount a)) (js_Number (sho_amount b))
         else if bothTimes \<and> inSameDay tz a b \<and> inSameTime tz (time_from a) (time_from b)
         then js_sub (num (time_to a)) (num (time_to b))
         else if bothTimes \<and> inSameDay tz a b
         then js_sub (num (time_from a)) (num (time_from b))
         else if sho_time a \<noteq> None \<and> sho_time b = None then Fin 1
         else if sho_time a = None \<and> sho_time b \<noteq> None then Fin (-1)
         else js_sub (date_number tz a) (date_number tz b))"

definition prepareOptions :: "int \<Rightarrow> ShippingOption list \<Rightarrow> ShippingOption list" where
  "prepareOptions tz options =
     (let onlyWithDate = filter hasDate options;
          yandexExpressOptions = filter isYandexExpress onlyWithDate;
          otherOptions = filterCheapest tz (filter isNotYandexExpress onlyWithDate)
      in js_sort (sortOptions tz) yandexExpressOptions @ js_sort (sortOptions tz) otherOptions)"

definition not_post :: "ShippingOption \<Rightarrow> bool" where
  "not_post opt = (sho_provider opt \<noteq> ''RUSSIAN_POST'')"

text \<open>\<open>None\<close>: reading \<open>id\<close> of the missing first option throws.\<close>

definition getOptionIdToSelect :: "int \<Rightarrow> string \<Rightarrow> ShippingOption list \<Rightarrow> string option" where
  "getOptionIdToSelect tz selectId options =
     (if list_ex (\<lambda>opt. sho_id opt = selectId) options then Some selectId
      else if list_ex hasDate options
      then (case prepareOptions tz (filter not_post options) of [] \<Rightarrow> None | opt # _ \<Rightarrow> Some (sho_id opt))
      else let courierOptions = js_sort (\<lambda>a b. js_sub (js_Number (sho_amount a)) (js_Number (sho_amount b)))
                                  (filter not_post options)
           in Some (case courierOptions of [] \<Rightarrow> [] | opt # _ \<Rightarrow> sho_id opt))"

definition js_set :: "'a list \<Rightarrow> 'a list" where
  "js_set xs = foldl (\<lambda>acc x. if x \<in> set acc then acc else acc @ [x]) [] xs"

definition getDateGroups :: "int \<Rightarrow> ShippingOption list \<Rightarrow> int option list" where
  "getDateGroups tz options =
     js_sort (\<lambda>a b. case (a, b) of (Some x, Some y) \<Rightarrow> Fin (of_int (x - y)) | _ \<Rightarrow> NaN)
       (js_set (map (\<lambda>opt. toUnixTimestamp (getPureDate tz (fromUnixTimestamp (sho_date opt)))) options))"

definition getDateGroupOfOption :: "int \<Rightarrow> ShippingOption \<Rightarrow> int option" where
  "getDateGroupOfOption tz opt = toUnixTimestamp (getPureDate tz (fromUnixTimestamp (sho_date opt)))"

definition getOptionsOfDateGroup :: "int \<Rightarrow> ShippingOption list \<Rightarrow> int \<Rightarrow> ShippingOption list" where
  "getOptionsOfDateGroup tz options dateGroup =
     filter (\<lambda>opt. hasDate opt \<and>
       num_eq (toUnixTimestamp (getPureDate tz (fromUnixTimestamp (sho_date opt)))) (Some dateGroup)) options"

section \<open>Choosing an option\<close>

lemma mset_js_insert [simp]: "mset (js_insert cmp x ys) = add_mset x (mset ys)"
  by (induction ys) auto

lemma mset_js_sort [simp]: "mset (js_sort cmp xs) = mset xs"
proof -
  have "mset (foldl (\<lambda>ys x. js_insert cmp x ys) acc xs) = mset acc + mset xs" for acc
    by (induction xs arbitrary: acc) auto
  then show ?thesis by (simp add: js_sort_def)
qed

lemma set_js_sort [simp]: "set (js_sort cmp xs) = set xs"
  by (metis mset_js_sort set_mset_mset)

text \<open>One turn of the reduction in \<open>filterCheapest\<close>.\<close>

definition cheap_step :: "int \<Rightarrow> (string \<times> ShippingOption) list \<Rightarrow> ShippingOption \<Rightarrow> (string \<times> ShippingOption) list" where
  "cheap_step tz acc opt =
     (case alist_get acc (slot_key tz opt) of
        None \<Rightarrow> alist_put acc (slot_key tz opt) opt
      | Some current \<Rightarrow>
          if js_less (js_Number (sho_amount opt)) (js_Number (sho_amount current))
          then alist_put acc (slot_key tz opt) opt else acc)"

lemma filterCheapest_fold: "filterCheapest tz options = map snd (foldl (cheap_step tz) [] options)"
  by (simp add: filterCheapest_def cheap_step_def [abs_def] Let_def)

definition finite_price :: "ShippingOption \<Rightarrow> bool" where
  "finite_price opt \<longleftrightarrow> (\<exists>x. js_Number (sho_amount opt) = Fin x)"

definition no_dearer :: "ShippingOption \<Rightarrow> ShippingOption \<Rightarrow> bool" where
  "no_dearer a b \<longleftrightarrow> js_le (js_Number (sho_amount a)) (js_Number (sho_amount b))"

lemma no_dearer_refl: "finite_price a \<Longrightarrow> no_dearer a a"
  by (auto simp: finite_price_def no_dearer_def)

lemma no_dearer_trans:
  "finite_price a \<Longrightarrow> finite_price b \<Longrightarrow> finite_price c \<Longrightarrow> no_dearer a b \<Longrightarrow> no_dearer b c \<Longrightarrow> no_dearer a c"
  by (auto simp: finite_price_def no_dearer_def)

lemma js_less_no_dearer:
  "finite_price a \<Longrightarrow> finite_price b \<Longrightarrow>
     js_less (js_Number (sho_amount a)) (js_Number (sho_amount b)) \<longleftrightarrow> \<not> no_dearer b a"
  by (auto simp: finite_price_def no_dearer_def js_less_def)

lemma no_dearer_linear: "finite_price a \<Longrightarrow> finite_price b \<Longrightarrow> no_dearer a b \<or> no_dearer b a"
  by (auto simp: finite_price_def no_dearer_def)

text \<open>What holds of the map after some options: each key is that of its option, and every option so
  far has one in the map that is no dearer.\<close>

definition cheap_inv :: "int \<Rightarrow> ShippingOption set \<Rightarrow> (string \<times> ShippingOption) list \<Rightarrow> bool" where
  "cheap_inv tz seen acc \<longleftrightarrow> distinct (map fst acc) \<and> snd ` set acc \<subseteq> seen
     \<and> (\<forall>(k, v) \<in> set acc. k = slot_key tz v)
     \<and> (\<forall>v \<in> seen. \<exists>w. alist_get acc (slot_key tz v) = Some w \<and> no_dearer w v)"

lemma alist_put_entries: "set (alist_put xs k v) \<subseteq> insert (k, v) (set xs)"
  by (induction xs) (auto split: if_splits)

lemma cheap_invD:
  assumes "cheap_inv tz seen acc"
  shows "distinct (map fst acc)" "(k, v) \<in> set acc \<Longrightarrow> v \<in> seen \<and> k = slot_key tz v"
    "v \<in> seen \<Longrightarrow> \<exists>w. alist_get acc (slot_key tz v) = Some w \<and> no_dearer w v"
  using assms by (auto simp: cheap_inv_def)

lemma cheap_invI:
  assumes "distinct (map fst acc)" "\<And>k v. (k, v) \<in> set acc \<Longrightarrow> v \<in> seen \<and> k = slot_key tz v"
    "\<And>v. v \<in> seen \<Longrightarrow> \<exists>w. alist_get acc (slot_key tz v) = Some w \<and> no_dearer w v"
  shows "cheap_inv tz seen acc"
  using assms by (auto simp: cheap_inv_def)

lemma cheap_put_inv:
  assumes inv: "cheap_inv tz seen acc" and fin: "\<forall>v \<in> insert c seen. finite_price v"
    and best: "\<And>w. alist_get acc (slot_key tz c) = Some w \<Longrightarrow> no_dearer c w"
  shows "cheap_inv tz (insert c seen) (alist_put acc (slot_key tz c) c)"
proof (rule cheap_invI)
  show "distinct (map fst (alist_put acc (slot_key tz c) c))" using cheap_invD(1) [OF inv] by simp
next
  fix k v assume "(k, v) \<in> set (alist_put acc (slot_key tz c) c)"
  then have "(k, v) = (slot_key tz c, c) \<or> (k, v) \<in> set acc" using alist_put_entries by fastforce
  then show "v \<in> insert c seen \<and> k = slot_key tz v" using cheap_invD(2) [OF inv] by auto
next
  fix v assume v: "v \<in> insert c seen"
  show "\<exists>w. alist_get (alist_put acc (slot_key tz c) c) (slot_key tz v) = Some w \<and> no_dearer w v"
  proof (cases "v = c")
    case True
    then show ?thesis using fin by (simp add: no_dearer_refl)
  next
    case False
    then obtain w where w: "alist_get acc (slot_key tz v) = Some w" "no_dearer w v"
      using v cheap_invD(3) [OF inv, of v] by auto
    have "w \<in> seen" using alist_get_SomeD [OF w(1)] cheap_invD(2) [OF inv] by blast
    show ?thesis
    proof (cases "slot_key tz v = slot_key tz c")
      case True
      then have "no_dearer c w" using best w(1) by simp
      then have "no_dearer c v" using no_dearer_trans [of c w v] w(2) \<open>w \<in> seen\<close> fin v by blast
      then show ?thesis using True by simp
    next
      case False
      then show ?thesis using w by simp
    qed
  qed
qed

lemma cheap_step_inv:
  assumes inv: "cheap_inv tz seen acc" and fin: "\<forall>v \<in> insert c seen. finite_price v"
  shows "cheap_inv tz (insert c seen) (cheap_step tz acc c)"
proof -
  let ?k = "slot_key tz c"
  note put = cheap_put_inv [OF inv fin]
  show ?thesis
  proof (cases "alist_get acc ?k")
    case None
    then show ?thesis using put by (simp add: cheap_step_def)
  next
    case (Some w)
    have "w \<in> seen" using alist_get_SomeD [OF Some] cheap_invD(2) [OF inv] by blast
    then have less: "js_less (js_Number (sho_amount c)) (js_Number (sho_amount w)) \<longleftrightarrow> \<not> no_dearer w c"
      using js_less_no_dearer fin by blast
    show ?thesis
    proof (cases "no_dearer w c")
      case True
      have "cheap_inv tz (insert c seen) acc"
        by (rule cheap_invI) (use cheap_invD [OF inv] Some True in auto)
      then show ?thesis using Some less True by (simp add: cheap_step_def)
    next
      case False
      then have "no_dearer c w" using no_dearer_linear \<open>w \<in> seen\<close> fin by blast
      then show ?thesis using put Some less False by (simp add: cheap_step_def)
    qed
  qed
qed

lemma cheap_fold_inv:
  "cheap_inv tz seen acc \<Longrightarrow> \<forall>v \<in> seen \<union> set os. finite_price v \<Longrightarrow>
     cheap_inv tz (seen \<union> set os) (foldl (cheap_step tz) acc os)"
proof (induction os arbitrary: seen acc)
  case (Cons c os)
  then have "cheap_inv tz (insert c seen) (cheap_step tz acc c)" by (simp add: cheap_step_inv)
  from Cons.IH [OF this] Cons.prems show ?case by simp
qed simp

text \<open>C35: Where every price is a number, \<open>filterCheapest\<close> keeps only options it was given, one per
  delivery slot, and for every option one of the same slot that is no dearer.\<close>

theorem filterCheapest_per_slot:
  assumes "\<forall>opt \<in> set options. finite_price opt"
  shows "set (filterCheapest tz options) \<subseteq> set options
    \<and> distinct (map (slot_key tz) (filterCheapest tz options))
    \<and> (\<forall>opt \<in> set options. \<exists>kept \<in> set (filterCheapest tz options).
          slot_key tz kept = slot_key tz opt \<and> no_dearer kept opt)"
proof -
  let ?m = "foldl (cheap_step tz) [] options"
  have inv: "cheap_inv tz (set options) ?m"
    using cheap_fold_inv [of tz "{}" "[]" options] assms by (simp add: cheap_inv_def)
  have keys: "map (slot_key tz) (map snd ?m) = map fst ?m"
    unfolding map_map by (rule map_cong [OF refl]) (use cheap_invD(2) [OF inv] in force)
  have "\<exists>kept \<in> snd ` set ?m. slot_key tz kept = slot_key tz opt \<and> no_dearer kept opt"
    if opt: "opt \<in> set options" for opt
  proof -
    from cheap_invD(3) [OF inv opt] obtain w
      where w: "alist_get ?m (slot_key tz opt) = Some w" "no_dearer w opt" by blast
    from alist_get_SomeD [OF w(1)] have "(slot_key tz opt, w) \<in> set ?m" .
    with cheap_invD(2) [OF inv] have "slot_key tz opt = slot_key tz w" by blast
    with \<open>(slot_key tz opt, w) \<in> set ?m\<close> w(2) show ?thesis by force
  qed
  moreover have "snd ` set ?m \<subseteq> set options" using cheap_invD(2) [OF inv] by auto
  ultimately show ?thesis using cheap_invD(1) [OF inv] unfolding filterCheapest_fold keys set_map by blast
qed

definition sample_option :: "string \<Rightarrow> string \<Rightarrow> string \<Rightarrow> ShippingOption" where
  "sample_option i provider amount = \<lparr>sho_id = i, sho_provider = provider, sho_amount = amount,
     sho_category = None, sho_date = Some 86400, sho_time = None, sho_label = None,
     sho_raw = sample_courier amount\<rparr>"

lemma js_Number_zero: "js_Number ''0'' = Fin 0"
  by (simp add: js_Number_def js_trim_def is_js_space_def parse_decimal_def is_digit_def
      digits_val_def digit_val_def parse_exp_def Let_def)

lemma filterCheapest_per_slot_witness:
  "set (filterCheapest 0 [sample_option ''a'' ''COURIER'' ''0'']) \<subseteq> {sample_option ''a'' ''COURIER'' ''0''}"
proof -
  have "finite_price (sample_option ''a'' ''COURIER'' ''0'')"
    unfolding finite_price_def sample_option_def by (rule exI [of _ 0]) (simp add: js_Number_zero)
  then show ?thesis
    using filterCheapest_per_slot [of "[sample_option ''a'' ''COURIER'' ''0'']" 0] by simp
qed

lemma filterCheapest_nil [simp]: "filterCheapest tz options = [] \<longleftrightarrow> options = []"
proof -
  have "foldl (cheap_step tz) acc os \<noteq> []" if "acc \<noteq> []" for acc os
    using that
  proof (induction os arbitrary: acc)
    case (Cons c os)
    moreover have "alist_put acc k v \<noteq> []" for k and v :: ShippingOption
      by (cases acc) (auto split: if_splits)
    ultimately show ?case by (simp add: cheap_step_def split: option.splits)
  qed simp
  moreover have "cheap_step tz [] c \<noteq> []" for c by (simp add: cheap_step_def)
  ultimately show ?thesis by (cases options) (auto simp: filterCheapest_fold)
qed

lemma filterCheapest_subset: "set (filterCheapest tz options) \<subseteq> set options"
proof -
  have "snd ` set (foldl (cheap_step tz) acc options) \<subseteq> snd ` set acc \<union> set options" for acc
  proof (induction options arbitrary: acc)
    case (Cons c os)
    have "snd ` set (cheap_step tz acc c) \<subseteq> insert c (snd ` set acc)"
      using alist_put_entries [of acc "slot_key tz c" c]
      by (auto simp: cheap_step_def split: option.splits)
    then show ?case using Cons.IH [of "cheap_step tz acc c"] unfolding foldl.simps set_simps by blast
  qed simp
  from this [of "[]"] show ?thesis by (simp add: filterCheapest_fold)
qed

lemma prepareOptions_set: "set (prepareOptions tz os) \<subseteq> set os"
  using filterCheapest_subset [of tz "filter isNotYandexExpress (filter hasDate os)"]
  by (auto simp: prepareOptions_def Let_def)

lemma js_sort_nil [simp]: "js_sort cmp xs = [] \<longleftrightarrow> xs = []"
  by (metis mset_js_sort mset_zero_iff)

lemma prepareOptions_nil: "prepareOptions tz os = [] \<longleftrightarrow> (\<forall>opt \<in> set os. \<not> hasDate opt)"
  by (auto simp: prepareOptions_def Let_def filter_empty_conv isNotYandexExpress_def)

text \<open>Choosing the delivery option after a new list arrived.  A selected option that is still
  there stays.  Otherwise the choice fails with an exception exactly when some option has a date but
  all those with a date are by post; it is empty exactly when no option has a date and all are by
  post; and in every other case it is an option of the list that is not by post.\<close>

theorem getOptionIdToSelect_cases:
  "(selectId \<in> sho_id ` set options \<longrightarrow> getOptionIdToSelect tz selectId options = Some selectId)
   \<and> (selectId \<notin> sho_id ` set options \<longrightarrow>
       (getOptionIdToSelect tz selectId options = None \<longleftrightarrow>
          (\<exists>opt \<in> set options. hasDate opt) \<and> (\<forall>opt \<in> set options. hasDate opt \<longrightarrow> \<not> not_post opt))
       \<and> (getOptionIdToSelect tz selectId options \<noteq> None \<longrightarrow>
            (\<exists>opt \<in> set options. not_post opt \<and> getOptionIdToSelect tz selectId options = Some (sho_id opt))
            \<or> (getOptionIdToSelect tz selectId options = Some [] \<and> (\<forall>opt \<in> set options. \<not> not_post opt))))"
proof -
  define P where "P = prepareOptions tz (filter not_post options)"
  define C where "C = js_sort (\<lambda>a b. js_sub (js_Number (sho_amount a)) (js_Number (sho_amount b))) (filter not_post options)"
  have p: "P = [] \<longleftrightarrow> (\<forall>opt \<in> set options. hasDate opt \<longrightarrow> \<not> not_post opt)"
    by (auto simp: P_def prepareOptions_nil)
  have hd_p: "x \<in> set options \<and> not_post x" if "P = x # xs" for x xs
    using prepareOptions_set [of tz "filter not_post options"] that by (auto simp: P_def)
  have c: "C = [] \<longleftrightarrow> (\<forall>opt \<in> set options. \<not> not_post opt)"
    by (auto simp: C_def filter_empty_conv)
  have "set C = set (filter not_post options)" by (simp add: C_def)
  then have hd_c: "x \<in> set options \<and> not_post x" if "C = x # xs" for x xs
    using that by auto
  have has: "list_ex (\<lambda>opt. sho_id opt = selectId) options \<longleftrightarrow> selectId \<in> sho_id ` set options"
    by (auto simp: list_ex_iff)
  consider (there) "selectId \<in> sho_id ` set options"
    | (dated) "selectId \<notin> sho_id ` set options" "list_ex hasDate options"
    | (undated) "selectId \<notin> sho_id ` set options" "\<not> list_ex hasDate options" by blast
  then show ?thesis
  proof cases
    case there
    then show ?thesis by (simp add: getOptionIdToSelect_def has)
  next
    case dated
    then have "getOptionIdToSelect tz selectId options = (case P of [] \<Rightarrow> None | opt # _ \<Rightarrow> Some (sho_id opt))"
      by (simp add: getOptionIdToSelect_def has P_def)
    with dated p hd_p show ?thesis by (cases P) (auto simp: list_ex_iff)
  next
    case undated
    then have "getOptionIdToSelect tz selectId options = Some (case C of [] \<Rightarrow> [] | opt # _ \<Rightarrow> sho_id opt)"
      by (simp add: getOptionIdToSelect_def has C_def)
    with undated c hd_c show ?thesis by (cases C) (auto simp: list_ex_iff)
  qed
qed

text \<open>Two options with a time are compared by the minute on one side and by the day on the other, so
  an option whose delivery does not begin in the first minute of a day is not even in the same slot as
  itself.\<close>

theorem slot_with_time_differs_from_itself:
  assumes "hasDateAndTime opt" "time_from opt = Some f" "60000 \<le> (f * 1000 + tz) mod 86400000"
    "tz mod 1000 = 0" "\<bar>f * 1000\<bar> + \<bar>tz\<bar> \<le> 8000000000000000"
  shows "\<not> inSameSlot tz opt opt"
proof -
  let ?m = "f * 1000 + tz"
  have bounds: "0 \<le> ?m mod 60000" "?m mod 60000 < 60000" "0 \<le> ?m mod 86400000" "?m mod 86400000 < 86400000"
    by simp_all
  define A B where "A = ?m - ?m mod 60000 - tz" and "B = ?m - ?m mod 86400000 - tz"
  have tz: "1000 dvd tz" "1000 dvd ?m" using assms(4) by (auto simp: dvd_eq_mod_eq_0)
  have "1000 dvd ?m mod 60000" "1000 dvd ?m mod 86400000"
    using tz(2) by (simp_all add: dvd_mod)
  then have dv: "1000 dvd A" "1000 dvd B" using tz by (simp_all add: A_def B_def dvd_diff)
  have "B < A" using assms(3) bounds by (simp add: A_def B_def)
  then have ne: "A div 1000 \<noteq> B div 1000" using dv by (metis dvd_div_mult_self less_irrefl)
  have r1: "in_range (f * 1000) = Some (f * 1000)" using assms(5) by (simp add: in_range_def)
  have r2: "in_range (?m - ?m mod 60000 - tz) = Some (?m - ?m mod 60000 - tz)"
    "in_range (?m - ?m mod 86400000 - tz) = Some (?m - ?m mod 86400000 - tz)"
    using assms(5) bounds by (simp_all add: in_range_def abs_le_iff) linarith+
  have "getPureTimeOfTimestamp tz (Some f) = Some ((?m - ?m mod 60000 - tz) div 1000)"
    "getPureDateOfTimestamp tz (Some f) = Some ((?m - ?m mod 86400000 - tz) div 1000)"
    using r1 r2 by (simp_all add: getPureTimeOfTimestamp_def getPureDateOfTimestamp_def toUnixTimestamp_def
        fromUnixTimestamp_def getPureTime_def getPureDate_def round_local_def)
  moreover have "(?m - ?m mod 60000 - tz) div 1000 \<noteq> (?m - ?m mod 86400000 - tz) div 1000"
    using ne by (simp add: A_def B_def)
  ultimately show ?thesis
    using assms(1,2) by (simp add: inSameSlot_def inSameDateAndTime_def inSameTime_def num_eq_def)
qed

lemma slot_with_time_differs_from_itself_witness:
  "\<not> inSameSlot 10800000 (sample_option ''a'' ''COURIER'' ''0''\<lparr>sho_time := Some (1660032000, 1660039200)\<rparr>)
      (sample_option ''a'' ''COURIER'' ''0''\<lparr>sho_time := Some (1660032000, 1660039200)\<rparr>)"
  by (rule slot_with_time_differs_from_itself [where f = 1660032000])
    (simp_all add: hasDateAndTime_def hasDate_def sample_option_def time_from_def)

lemma getOptionIdToSelect_cases_witness:
  "getOptionIdToSelect 0 ''x'' [sample_option ''a'' ''RUSSIAN_POST'' ''0''] = None"
  using getOptionIdToSelect_cases [of "''x''" "[sample_option ''a'' ''RUSSIAN_POST'' ''0'']" 0]
  by (simp add: sample_option_def hasDate_def not_post_def)

end
