(* ===== verification/PickupHelpers.thy ===== *)
theory PickupHelpers
  imports ShippingHelpers
begin

text \<open>
  Points on the map: \<open>lib/geo.ts\<close> (rectangles), \<open>helpers/geo.ts\<close>, \<open>helpers/pickup.ts\<close> and
  \<open>api-transform/pickup.ts\<close> of the checkout.  \<open>Math.sin\<close>, \<open>Math.cos\<close> and the random \<open>shuffle\<close> are the
  platform's and a library's: arguments \<open>sin'\<close>, \<open>cos'\<close> and \<open>shuffle\<close>.
\<close>

section \<open>Numbers\<close>

text \<open>\<open>x.toFixed(k)\<close> for a positive number of digits.\<close>

definition frac_digits :: "nat \<Rightarrow> int \<Rightarrow> string" where
  "frac_digits k n = map (\<lambda>i. char_of (n div 10 ^ (k - 1 - i) mod 10 + 48)) [0..<k]"

fun js_toFixed :: "nat \<Rightarrow> jsnum \<Rightarrow> string" where
  "js_toFixed k (Fin x) =
     (if 10 ^ 21 \<le> \<bar>x\<bar> then js_toString (Fin x)
      else let n = \<lfloor>\<bar>x\<bar> * 10 ^ k + 1 / 2\<rfloor>
           in (if x < 0 then ''-'' else '''') @ int_digits (n div 10 ^ k) @ CHR ''.'' # frac_digits k n)"
| "js_toFixed k x = js_toString x"

fun js_min :: "jsnum \<Rightarrow> jsnum \<Rightarrow> jsnum" where
  "js_min NaN y = NaN"
| "js_min x NaN = NaN"
| "js_min x y = (if js_le x y then x else y)"

fun js_max :: "jsnum \<Rightarrow> jsnum \<Rightarrow> jsnum" where
  "js_max NaN y = NaN"
| "js_max x NaN = NaN"
| "js_max x y = (if js_le x y then y else x)"

text \<open>\<open>!x\<close> of a number.\<close>

definition js_falsy :: "jsnum \<Rightarrow> bool" where
  "js_falsy x = (x = NaN \<or> x = Fin 0)"

section \<open>Rectangles on the map\<close>

record GeoRect =
  gr_sw :: GeoPoint
  gr_ne :: GeoPoint
  gr_nw :: GeoPoint
  gr_se :: GeoPoint

definition getRectByBounds :: "GeoBounds \<Rightarrow> GeoRect" where
  "getRectByBounds bounds =
     \<lparr>gr_sw = gb_sw bounds, gr_ne = gb_ne bounds,
      gr_nw = \<lparr>gp_latitude = gp_latitude (gb_ne bounds), gp_longitude = gp_longitude (gb_sw bounds)\<rparr>,
      gr_se = \<lparr>gp_latitude = gp_latitude (gb_sw bounds), gp_longitude = gp_longitude (gb_ne bounds)\<rparr>\<rparr>"

record GeoSides =
  gs_n :: GeoPoint
  gs_e :: GeoPoint
  gs_s :: GeoPoint
  gs_w :: GeoPoint

definition getBoundsBySides :: "GeoSides \<Rightarrow> GeoBounds" where
  "getBoundsBySides sides =
     \<lparr>gb_sw = \<lparr>gp_latitude = gp_latitude (gs_s sides), gp_longitude = gp_longitude (gs_w sides)\<rparr>,
      gb_ne = \<lparr>gp_latitude = gp_latitude (gs_n sides), gp_longitude = gp_longitude (gs_e sides)\<rparr>\<rparr>"

definition normalizePoint :: "GeoPoint \<Rightarrow> GeoPoint" where
  "normalizePoint point =
     \<lparr>gp_latitude = js_Number (js_toFixed 10 (gp_latitude point)),
      gp_longitude = js_Number (js_toFixed 10 (gp_longitude point))\<rparr>"

definition normalizeBounds :: "GeoBounds \<Rightarrow> GeoBounds" where
  "normalizeBounds bounds =
     \<lparr>gb_sw = normalizePoint (gb_sw bounds), gb_ne = normalizePoint (gb_ne bounds)\<rparr>"

definition isInnerPoint :: "GeoBounds \<Rightarrow> GeoPoint \<Rightarrow> bool" where
  "isInnerPoint bounds point =
     (js_le (gp_latitude point) (gp_latitude (gb_ne bounds))
      \<and> js_le (gp_latitude (gb_sw bounds)) (gp_latitude point)
      \<and> js_le (gp_longitude point) (gp_longitude (gb_ne bounds))
      \<and> js_le (gp_longitude (gb_sw bounds)) (gp_longitude point))"

definition isInnerBounds :: "GeoBounds \<Rightarrow> GeoBounds \<Rightarrow> bool" where
  "isInnerBounds innerBounds outerBounds =
     (let isInnerNe = (js_le (gp_latitude (gb_ne innerBounds)) (gp_latitude (gb_ne outerBounds))
                       \<and> js_le (gp_longitude (gb_ne innerBounds)) (gp_longitude (gb_ne outerBounds)));
          isInnerSw = (js_le (gp_latitude (gb_sw outerBounds)) (gp_latitude (gb_sw innerBounds))
                       \<and> js_le (gp_longitude (gb_sw outerBounds)) (gp_longitude (gb_sw innerBounds)))
      in isInnerNe \<and> isInnerSw)"

text \<open>The bounds of a list of points, before they are normalised.\<close>

definition raw_bounds :: "GeoPoint \<Rightarrow> GeoPoint list \<Rightarrow> GeoBounds" where
  "raw_bounds p0 points =
     (let latList = map gp_latitude points; lonList = map gp_longitude points;
          latMin = foldl (\<lambda>m lat. js_min lat m) (gp_latitude p0) latList;
          latMax = foldl (\<lambda>m lat. js_max lat m) (gp_latitude p0) latList;
          lonMin = foldl (\<lambda>m lat. js_min lat m) (gp_longitude p0) lonList;
          lonMax = foldl (\<lambda>m lat. js_max lat m) (gp_longitude p0) lonList
      in \<lparr>gb_sw = \<lparr>gp_latitude = latMin, gp_longitude = lonMin\<rparr>,
          gb_ne = \<lparr>gp_latitude = latMax, gp_longitude = lonMax\<rparr>\<rparr>)"

definition getBoundsByPoints :: "GeoPoint list \<Rightarrow> GeoBounds option" where
  "getBoundsByPoints points =
     (case points of [] \<Rightarrow> None | p0 # _ \<Rightarrow> Some (normalizeBounds (raw_bounds p0 points)))"

definition isNullBounds :: "GeoBounds \<Rightarrow> bool" where
  "isNullBounds bounds =
     (js_falsy (gp_latitude (gb_ne bounds)) \<and> js_falsy (gp_longitude (gb_ne bounds))
      \<and> js_falsy (gp_latitude (gb_sw bounds)) \<and> js_falsy (gp_longitude (gb_sw bounds)))"

definition js_PI :: jsnum where
  "js_PI = Fin (884279719003555 / 281474976710656)"

definition deg2rad :: "jsnum \<Rightarrow> jsnum" where
  "deg2rad deg = js_div_pos (js_mul deg js_PI) 180"

definition getDistanceWeight :: "(jsnum \<Rightarrow> jsnum) \<Rightarrow> GeoPoint \<Rightarrow> GeoPoint \<Rightarrow> jsnum" where
  "getDistanceWeight cos' pointA pointB =
     (let latA = deg2rad (gp_latitude pointA); lonA = deg2rad (gp_longitude pointA);
          latB = deg2rad (gp_latitude pointB); lonB = deg2rad (gp_longitude pointB);
          x = js_mul (js_sub lonB lonA) (cos' (js_div_pos (js_add latA latB) 2));
          y = js_sub latB latA
      in js_add (js_mul x x) (js_mul y y))"

text \<open>\<open>findMinIndex\<close> on numbers: the test is \<open>arr[i] <= arr[idx]\<close>.\<close>

definition min_index :: "jsnum list \<Rightarrow> nat" where
  "min_index ws = foldl (\<lambda>idx i. if js_le (ws ! i) (ws ! idx) then i else idx) 0 [0..<length ws]"

definition getCenterByPoints ::
  "(jsnum \<Rightarrow> jsnum) \<Rightarrow> (GeoPoint list \<Rightarrow> GeoPoint list) \<Rightarrow> GeoPoint list \<Rightarrow> GeoPoint option" where
  "getCenterByPoints cos' shuffle allPoints =
     (if allPoints = [] then None
      else let shuffled = shuffle allPoints;
               points = drop (length shuffled - 100) shuffled;
               weights = map (\<lambda>w. foldl (\<lambda>acc p. js_add acc (getDistanceWeight cos' w p)) (Fin 0) points) points
           in if weights = [] then None else Some (normalizePoint (points ! min_index weights)))"

text \<open>
  Points at one place are laid out on a circle.  The two constants of the source are swapped with
  respect to their names, the radius along the meridian is used for the latitude.
\<close>

definition radiusLong :: jsnum where "radiusLong = to_double (5 / 100000)"
definition radiusLat :: jsnum where "radiusLat = to_double (95 / 1000000)"

definition pointsToRound ::
  "(jsnum \<Rightarrow> jsnum) \<Rightarrow> (jsnum \<Rightarrow> jsnum) \<Rightarrow> ('a \<Rightarrow> GeoPoint) \<Rightarrow> (GeoPoint \<Rightarrow> 'a \<Rightarrow> 'a) \<Rightarrow> 'a list \<Rightarrow> 'a list" where
  "pointsToRound sin' cos' coordinates set_coordinates pickupPoints =
     (let len = length pickupPoints
      in map (\<lambda>(point, index).
           let angle = deg2rad (js_mul (js_div_pos (Fin 360) (of_nat len)) (Fin (of_nat index)));
               diffLatitude = js_mul radiusLong (sin' angle);
               diffLongitude = js_mul radiusLat (cos' angle)
           in set_coordinates (normalizePoint
                \<lparr>gp_latitude = js_add (gp_latitude (coordinates point)) diffLatitude,
                 gp_longitude = js_add (gp_longitude (coordinates point)) diffLongitude\<rparr>) point)
         (zip pickupPoints [0..<len]))"

section \<open>Pickup points\<close>

text \<open>A point as the merchant's page sends it.\<close>

record RawSchedule =
  rs_label :: "string option"
  rs_timeFrom :: "string option"
  rs_timeTo :: "string option"

record RawPointInfo =
  ri_schedule :: "RawSchedule list option"
  ri_contacts :: "string list option"
  ri_description :: "string option"
  ri_tripDescription :: "string option"

record RawPickupPoint =
  rp_id :: string
  rp_label :: "string option"
  rp_provider :: "string option"
  rp_address :: "string option"
  rp_deliveryDate :: "int option"
  rp_storagePeriod :: "jsnum option"
  rp_amount :: "Price option"
  rp_coordinates :: "GeoPoint option"
  rp_info :: "RawPointInfo option"
  rp_raw :: PickupOption

definition normalizePointSchedule :: "RawSchedule \<Rightarrow> PickupPointSchedule" where
  "normalizePointSchedule s =
     \<lparr>pps_label = or_else (rs_label s) [], pps_timeFrom = or_else (rs_timeFrom s) [],
      pps_timeTo = or_else (rs_timeTo s) []\<rparr>"

definition or_undefined :: "string option \<Rightarrow> string option" where
  "or_undefined s = (if truthy s then s else None)"

definition normalizePointInfo :: "RawPointInfo option \<Rightarrow> PickupPointInfo option" where
  "normalizePointInfo info =
     map_option (\<lambda>i. \<lparr>ppi_schedule = map_option (map normalizePointSchedule) (ri_schedule i),
        ppi_contacts = ri_contacts i, ppi_description = or_undefined (ri_description i),
        ppi_tripDescription = or_undefined (ri_tripDescription i)\<rparr>) info"

text \<open>A point without coordinates makes the conversion throw: \<open>None\<close>.\<close>

definition parsePickupPoint :: "RawPickupPoint \<Rightarrow> PickupPoint option" where
  "parsePickupPoint p =
     map_option (\<lambda>coord. \<lparr>pp_id = rp_id p, pp_label = or_else (rp_label p) [], pp_provider = rp_provider p,
        pp_address = or_else (rp_address p) [],
        pp_deliveryDate = (case rp_deliveryDate p of None \<Rightarrow> None
                           | Some d \<Rightarrow> if d = 0 then None else Some (d * 1000)),
        pp_storagePeriod = rp_storagePeriod p, pp_amount = rp_amount p, pp_coordinates = coord,
        pp_info = normalizePointInfo (rp_info p), pp_raw = rp_raw p\<rparr>) (rp_coordinates p)"

fun pickupPointsList :: "RawPickupPoint list \<Rightarrow> PickupPoint list option" where
  "pickupPointsList [] = Some []"
| "pickupPointsList (p # ps) =
     (case parsePickupPoint p of None \<Rightarrow> None
      | Some q \<Rightarrow> map_option (\<lambda>qs. q # qs) (pickupPointsList ps))"

definition MAX_POINTS_LENGTH :: int where "MAX_POINTS_LENGTH = 2000"
definition MAX_FETCH_DISTANCE :: int where "MAX_FETCH_DISTANCE = 60"
definition EXPAND_FETCH_BOUNDS_K :: int where "EXPAND_FETCH_BOUNDS_K = 1"
definition MIN_FETCH_ZOOM :: int where "MIN_FETCH_ZOOM = 14"

definition YMAP_DISTANCE_BY_ZOOM :: "(int \<times> jsnum) list" where
  "YMAP_DISTANCE_BY_ZOOM =
     [(8, to_double (34 / 100)), (9, to_double (172 / 1000)), (10, to_double (86 / 1000)),
      (11, to_double (43 / 1000)), (12, to_double (21 / 1000)), (13, to_double (1 / 100)),
      (MIN_FETCH_ZOOM, to_double (5 / 1000))]"

definition getMinZoomForFetch :: "rat \<times> rat \<Rightarrow> int" where
  "getMinZoomForFetch inner =
     (let maxSide = max (fst inner) (snd inner);
          maxDistance = of_int MAX_FETCH_DISTANCE / of_int EXPAND_FETCH_BOUNDS_K
      in case List.find (\<lambda>(_, pxDistance). js_le (js_mul (Fin maxSide) pxDistance) (Fin maxDistance))
                YMAP_DISTANCE_BY_ZOOM of
           None \<Rightarrow> MIN_FETCH_ZOOM | Some p \<Rightarrow> fst p)"

definition isBoundsLoaded :: "GeoBounds \<Rightarrow> GeoBounds \<Rightarrow> bool" where
  "isBoundsLoaded nextBounds loadedBounds = isInnerBounds nextBounds loadedBounds"

definition getCenterByInitialPoints ::
  "(jsnum \<Rightarrow> jsnum) \<Rightarrow> (GeoPoint list \<Rightarrow> GeoPoint list) \<Rightarrow> PickupPoint list \<Rightarrow> GeoPoint option" where
  "getCenterByInitialPoints cos' shuffle pickupPoints =
     getCenterByPoints cos' shuffle (map pp_coordinates pickupPoints)"

definition getBoundsByInitialPoints :: "PickupPoint list \<Rightarrow> GeoBounds option" where
  "getBoundsByInitialPoints pickupPoints = getBoundsByPoints (map pp_coordinates pickupPoints)"

definition getCoordinateKey :: "GeoPoint \<Rightarrow> string" where
  "getCoordinateKey coord =
     js_toFixed 4 (gp_latitude coord) @ ''-'' @ js_toFixed 4 (gp_longitude coord)"

text \<open>One turn of the loop: the points kept, their keys, and the map of the others.\<close>

fun unique_step ::
  "('a \<Rightarrow> string) \<Rightarrow> 'a list \<times> string list \<times> (string \<times> 'a list) list \<Rightarrow> 'a
     \<Rightarrow> 'a list \<times> string list \<times> (string \<times> 'a list) list" where
  "unique_step key_of (uniquePoints, uniqueCoords, nonUniquePoints) point =
     (let key = key_of point
      in if key \<in> set uniqueCoords
         then (uniquePoints, uniqueCoords,
               alist_put nonUniquePoints key
                 ((case alist_get nonUniquePoints key of None \<Rightarrow> [] | Some arr \<Rightarrow> arr) @ [point]))
         else (uniquePoints @ [point], uniqueCoords @ [key], nonUniquePoints))"

definition toPointsWithUniqueCoordinates ::
  "('a list \<Rightarrow> 'a list) \<Rightarrow> ('a \<Rightarrow> GeoPoint) \<Rightarrow> 'a list \<Rightarrow> 'a list" where
  "toPointsWithUniqueCoordinates to_round coordinates pickupPoints =
     (case foldl (unique_step (\<lambda>p. getCoordinateKey (coordinates p))) ([], [], []) pickupPoints of
        (uniquePoints, _, nonUniquePoints) \<Rightarrow>
          uniquePoints @ concat (map (\<lambda>(_, points). to_round points) nonUniquePoints))"

text \<open>\<open>arr.slice(k)\<close>.\<close>

definition js_slice_from :: "int \<Rightarrow> 'a list \<Rightarrow> 'a list" where
  "js_slice_from k xs = (if k < 0 then drop (nat (int (length xs) + k)) xs else drop (nat k) xs)"

definition parsePickupPoints :: "PickupPoint list \<Rightarrow> PickupPoint list \<Rightarrow> PickupPoint list" where
  "parsePickupPoints allOldPoints allNewPoints =
     (let newPoints = allNewPoints;
          newPointsIdsMap = arrayToObj Some (map (\<lambda>p. [(''id'', pp_id p)]) newPoints) ''id'' (Some ''id'');
          oldPoints = js_slice_from (int (length newPoints) - MAX_POINTS_LENGTH)
            (filter (\<lambda>point. alist_get newPointsIdsMap (pp_id point) = None) allOldPoints)
      in oldPoints @ newPoints)"

section \<open>Merging points\<close>

lemma ids_map_get:
  "alist_get (array_to_obj_loop Some ''id'' (Some ''id'') (map (\<lambda>p. [(''id'', f p)]) ps) obj) i \<noteq> None
     \<longleftrightarrow> (i \<noteq> [] \<and> i \<in> f ` set ps) \<or> alist_get obj i \<noteq> None"
  by (induction ps arbitrary: obj) auto

lemma kept_old:
  "filter (\<lambda>p. alist_get (arrayToObj Some (map (\<lambda>p. [(''id'', pp_id p)]) new) ''id'' (Some ''id'')) (pp_id p) = None) old
     = filter (\<lambda>p. pp_id p = [] \<or> pp_id p \<notin> pp_id ` set new) old"
proof (rule filter_cong [OF refl])
  fix p assume "p \<in> set old"
  show "(alist_get (arrayToObj Some (map (\<lambda>p. [(''id'', pp_id p)]) new) ''id'' (Some ''id'')) (pp_id p) = None)
      = (pp_id p = [] \<or> pp_id p \<notin> pp_id ` set new)"
    using ids_map_get [of pp_id new "[]" "pp_id p"] by (auto simp: arrayToObj_def)
qed

lemma length_slice_from:
  "length (js_slice_from k xs) = (if k < 0 then min (length xs) (nat (- k)) else length xs - nat k)"
  by (auto simp: js_slice_from_def)

lemma set_slice_from: "set (js_slice_from k xs) \<subseteq> set xs"
  by (auto simp: js_slice_from_def dest: in_set_dropD)

text \<open>Merging newly loaded pickup points into the loaded ones: the new points are all there, at the
  end; an old point stays only if no new point has its id; and as long as fewer than 2000 points are
  new, at most 2000 remain.\<close>

theorem parsePickupPoints_merge:
  "\<exists>kept. parsePickupPoints old new = kept @ new
     \<and> set kept \<subseteq> {p \<in> set old. pp_id p = [] \<or> pp_id p \<notin> pp_id ` set new}
     \<and> (length new < 2000 \<longrightarrow> length (kept @ new) \<le> 2000)"
proof -
  let ?kept = "js_slice_from (int (length new) - 2000)
    (filter (\<lambda>p. pp_id p = [] \<or> pp_id p \<notin> pp_id ` set new) old)"
  have "parsePickupPoints old new = ?kept @ new"
    by (simp add: parsePickupPoints_def Let_def kept_old MAX_POINTS_LENGTH_def)
  moreover have "set ?kept \<subseteq> {p \<in> set old. pp_id p = [] \<or> pp_id p \<notin> pp_id ` set new}"
    using set_slice_from by fastforce
  moreover have "length new < 2000 \<Longrightarrow> length (?kept @ new) \<le> 2000"
    by (simp add: length_slice_from)
  ultimately show ?thesis by blast
qed

definition sample_point :: "string \<Rightarrow> PickupPoint" where
  "sample_point i = \<lparr>pp_id = i, pp_label = [], pp_provider = None, pp_address = [], pp_deliveryDate = None,
     pp_storagePeriod = None, pp_amount = None,
     pp_coordinates = \<lparr>gp_latitude = Fin 55, gp_longitude = Fin 37\<rparr>, pp_info = None,
     pp_raw = \<lparr>po_location = \<lparr>gp_latitude = Fin 55, gp_longitude = Fin 37\<rparr>, po_title = [], po_toDate = None,
       po_address = [], po_amount = None, po_schedule = None, po_provider = [], po_pickupPointId = i,
       po_phones = None, po_description = None, po_fromDate = None, po_storagePeriod = None\<rparr>\<rparr>"

lemma parsePickupPoints_merge_witness:
  "\<exists>kept. parsePickupPoints [sample_point ''a''] [sample_point ''b''] = kept @ [sample_point ''b'']
     \<and> length (kept @ [sample_point ''b'']) \<le> 2000"
  using parsePickupPoints_merge [of "[sample_point ''a'']" "[sample_point ''b'']"] by auto

text \<open>When exactly 2000 points are new nothing is dropped: the slice then starts at 0 and keeps every
  old point, so the list grows beyond the limit.\<close>

theorem full_page_keeps_all_old:
  assumes "length new = 2000" "\<forall>p \<in> set old. pp_id p \<notin> pp_id ` set new"
  shows "parsePickupPoints old new = old @ new"
proof -
  have "filter (\<lambda>p. pp_id p = [] \<or> pp_id p \<notin> pp_id ` set new) old = old"
    using assms(2) by (simp add: filter_id_conv)
  then show ?thesis
    using assms(1) by (simp add: parsePickupPoints_def Let_def kept_old MAX_POINTS_LENGTH_def js_slice_from_def)
qed

lemma full_page_keeps_all_old_witness:
  "length (parsePickupPoints [sample_point ''a''] (replicate 2000 (sample_point ''b''))) = 2001"
  using full_page_keeps_all_old [of "replicate 2000 (sample_point ''b'')" "[sample_point ''a'']"]
  by (simp add: sample_point_def)

text \<open>The points a page sends are converted all or none: one point without coordinates makes the
  whole conversion throw, before the filter of \<open>parsePickupPoints\<close> that is meant for such points.\<close>

theorem one_bad_point_loses_all:
  "pickupPointsList ps = None \<longleftrightarrow> (\<exists>p \<in> set ps. rp_coordinates p = None)"
  by (induction ps) (auto simp: parsePickupPoint_def split: option.splits)

section \<open>Points at one place\<close>

definition unique_inv :: "('a \<Rightarrow> string) \<Rightarrow> 'a list \<Rightarrow> 'a list \<times> string list \<times> (string \<times> 'a list) list \<Rightarrow> bool" where
  "unique_inv key_of seen s =
     (case s of (u, ks, m) \<Rightarrow> ks = map key_of u \<and> distinct ks
        \<and> mset u + mset (concat (map snd m)) = mset seen)"

lemma concat_alist_put:
  "mset (concat (map snd (alist_put m k (or_else (alist_get m k) [] @ [p]))))
     = add_mset p (mset (concat (map snd m)))"
  by (induction m) (auto simp: or_else_def)

lemma unique_step_inv:
  "unique_inv key_of seen s \<Longrightarrow> unique_inv key_of (seen @ [p]) (unique_step key_of s p)"
  using concat_alist_put [of "snd (snd s)" "key_of p" p]
  by (cases s) (auto simp: unique_inv_def Let_def or_else_def)

lemma unique_fold_inv:
  "unique_inv key_of (seen @ ps) (foldl (unique_step key_of) s ps)" if "unique_inv key_of seen s"
  using that
proof (induction ps arbitrary: seen s)
  case (Cons p ps)
  from Cons.IH [OF unique_step_inv [OF Cons.prems]] show ?case by simp
qed simp

lemma map_pointsToRound:
  assumes "\<And>c p. f (setc c p) = f p"
  shows "map f (pointsToRound sin' cos' coordinates setc ps) = map f ps"
proof -
  have "map f (pointsToRound sin' cos' coordinates setc ps) = map (f \<circ> fst) (zip ps [0..<length ps])"
    by (simp add: pointsToRound_def Let_def assms case_prod_beta comp_def)
  also have "\<dots> = map f ps" by (simp flip: map_map)
  finally show ?thesis .
qed

lemma unique_fold_keys:
  "(\<forall>p \<in> set ps. key_of p \<in> set (fst (snd (foldl (unique_step key_of) s ps))))
   \<and> set (fst (snd s)) \<subseteq> set (fst (snd (foldl (unique_step key_of) s ps)))"
proof (induction ps arbitrary: s)
  case (Cons p ps)
  have "insert (key_of p) (set (fst (snd s))) \<subseteq> set (fst (snd (unique_step key_of s p)))"
    by (cases s) (auto simp: Let_def)
  then show ?case using Cons.IH [of "unique_step key_of s p"] by auto
qed simp

text \<open>Laying out the points of the map keeps every point: whatever a new position leaves unchanged,
  like the identifiers, is the same collection before and after; and the points that keep their
  place, which come first, have coordinates that differ on the map.\<close>

theorem unique_coordinates_keep_points:
  assumes "\<And>c p. f (setc c p) = f p"
  shows "mset (map f (toPointsWithUniqueCoordinates (pointsToRound sin' cos' coordinates setc) coordinates ps))
       = mset (map f ps)
    \<and> (\<exists>u. distinct (map (\<lambda>p. getCoordinateKey (coordinates p)) u) \<and> set u \<subseteq> set ps
         \<and> take (length u) (toPointsWithUniqueCoordinates (pointsToRound sin' cos' coordinates setc) coordinates ps) = u
         \<and> (\<forall>p \<in> set ps. \<exists>q \<in> set u. getCoordinateKey (coordinates q) = getCoordinateKey (coordinates p)))"
proof -
  let ?key = "\<lambda>p. getCoordinateKey (coordinates p)" and ?round = "pointsToRound sin' cos' coordinates setc"
  obtain u ks m where r: "foldl (unique_step ?key) ([], [], []) ps = (u, ks, m)" by (cases "foldl (unique_step ?key) ([], [], []) ps") auto
  have inv: "ks = map ?key u" "distinct ks" "mset u + mset (concat (map snd m)) = mset ps"
    using unique_fold_inv [of ?key "[]" "([], [], [])" ps] unfolding r by (auto simp: unique_inv_def)
  have res: "toPointsWithUniqueCoordinates ?round coordinates ps = u @ concat (map (\<lambda>(_, points). ?round points) m)"
    by (simp add: toPointsWithUniqueCoordinates_def r)
  have "map f (concat (map (\<lambda>(_, points). ?round points) m)) = map f (concat (map snd m))"
    by (induction m) (auto simp: map_pointsToRound assms)
  then have "mset (map f (toPointsWithUniqueCoordinates ?round coordinates ps)) = mset (map f ps)"
    using arg_cong [OF inv(3), of "image_mset f"] by (simp add: res flip: mset_map mset_append)
  moreover have "set u \<subseteq> set ps" using arg_cong [OF inv(3), of set_mset] by auto
  moreover have "\<exists>q \<in> set u. ?key q = ?key p" if "p \<in> set ps" for p
    using unique_fold_keys [of ps ?key "([], [], [])"] r inv(1) that by force
  ultimately show ?thesis using inv res by (intro conjI exI [of _ u]) auto
qed


lemma unique_coordinates_keep_points_witness:
  "mset (map pp_id (toPointsWithUniqueCoordinates
       (pointsToRound (\<lambda>x. x) (\<lambda>x. x) pp_coordinates (\<lambda>c p. p\<lparr>pp_coordinates := c\<rparr>)) pp_coordinates
       [sample_point ''a'', sample_point ''b''])) = {#''a'', ''b''#}"
  using unique_coordinates_keep_points
    [of pp_id "\<lambda>c p. p\<lparr>pp_coordinates := c\<rparr>" "\<lambda>x. x" "\<lambda>x. x" pp_coordinates "[sample_point ''a'', sample_point ''b'']"]
  by (simp add: sample_point_def)

end
