(* ===== verification/AsyncData.thy ===== *)
theory AsyncData
  imports ArrayUtils
begin

text \<open>
  \<open>packages/utils/async\<close>: the state of a value that is loaded asynchronously.  The union of
  the source has one object per status; all of them are a status with an optional result and an
  optional reason, and the constructors \<open>{...data, status: S}\<close> keep what \<open>data\<close> carries.
\<close>

datatype AsyncStatus = Initial | Pending | Success | Error | Exceeded | Cancelled

record ('d, 'e) async_data =
  status :: AsyncStatus
  result :: "'d option"
  reason :: "'e option"

definition async_def :: "('d, 'e) async_data" where
  "async_def = \<lparr>status = Initial, result = None, reason = None\<rparr>"

definition async_initial :: "('d, 'e) async_data \<Rightarrow> ('d, 'e) async_data" where
  "async_initial data = data\<lparr>status := Initial\<rparr>"

definition async_pending :: "('d, 'e) async_data \<Rightarrow> ('d, 'e) async_data" where
  "async_pending data = data\<lparr>status := Pending\<rparr>"

definition async_error :: "'e \<Rightarrow> ('d, 'e) async_data \<Rightarrow> ('d, 'e) async_data" where
  "async_error r data = data\<lparr>status := Error, reason := Some r\<rparr>"

definition async_success :: "'d \<Rightarrow> ('d, 'e) async_data \<Rightarrow> ('d, 'e) async_data" where
  "async_success x data = data\<lparr>status := Success, result := Some x\<rparr>"

definition async_exceeded :: "('d, 'e) async_data \<Rightarrow> ('d, 'e) async_data" where
  "async_exceeded data = data\<lparr>status := Exceeded\<rparr>"

definition async_cancelled :: "('d, 'e) async_data \<Rightarrow> ('d, 'e) async_data" where
  "async_cancelled data = data\<lparr>status := Cancelled\<rparr>"

definition isNotComplete :: "AsyncStatus \<Rightarrow> bool" where
  "isNotComplete = contain [Initial, Pending]"

definition isComplete :: "AsyncStatus \<Rightarrow> bool" where
  "isComplete = contain [Error, Success, Exceeded, Cancelled]"

definition isInitial :: "AsyncStatus \<Rightarrow> bool" where "isInitial = contain [Initial]"
definition isPending :: "AsyncStatus \<Rightarrow> bool" where "isPending = contain [Pending]"
definition isError :: "AsyncStatus \<Rightarrow> bool" where "isError = contain [Error]"
definition isSuccess :: "AsyncStatus \<Rightarrow> bool" where "isSuccess = contain [Success]"
definition isExceeded :: "AsyncStatus \<Rightarrow> bool" where "isExceeded = contain [Exceeded]"
definition isCancelled :: "AsyncStatus \<Rightarrow> bool" where "isCancelled = contain [Cancelled]"

text \<open>
  \<open>{ ...old, ...new }\<close> on two such objects, used by the list mutators of the store: the fields
  present in \<open>new\<close> win, so a pending or failed reload keeps the list loaded before.
\<close>

definition async_merge :: "('d, 'e) async_data \<Rightarrow> ('d, 'e) async_data \<Rightarrow> ('d, 'e) async_data" where
  "async_merge old new =
     \<lparr>status = status new,
      result = (case result new of None \<Rightarrow> result old | Some x \<Rightarrow> Some x),
      reason = (case reason new of None \<Rightarrow> reason old | Some x \<Rightarrow> Some x)\<rparr>"

lemmas async_defs = async_def_def async_initial_def async_pending_def async_error_def
  async_success_def async_exceeded_def async_cancelled_def async_merge_def

lemmas async_tests = isNotComplete_def isComplete_def isInitial_def isPending_def isError_def
  isSuccess_def isExceeded_def isCancelled_def contain_def

lemma status_simps [simp]:
  "status (async_initial d) = Initial" "status (async_pending d) = Pending"
  "status (async_error r d) = Error" "status (async_success x d) = Success"
  "status (async_exceeded d) = Exceeded" "status (async_cancelled d) = Cancelled"
  "status (async_merge a b) = status b"
  by (simp_all add: async_defs)

lemma result_simps [simp]:
  "result async_def = None" "result (async_initial d) = result d" "result (async_pending d) = result d"
  "result (async_error r d) = result d" "result (async_success x d) = Some x"
  "result (async_exceeded d) = result d" "result (async_cancelled d) = result d"
  "result (async_merge a b) = (case result b of None \<Rightarrow> result a | Some x \<Rightarrow> Some x)"
  by (simp_all add: async_defs)

lemma reason_simps [simp]:
  "reason async_def = None" "reason (async_initial d) = reason d" "reason (async_pending d) = reason d"
  "reason (async_error r d) = Some r" "reason (async_success x d) = reason d"
  "reason (async_exceeded d) = reason d" "reason (async_cancelled d) = reason d"
  "reason (async_merge a b) = (case reason b of None \<Rightarrow> reason a | Some x \<Rightarrow> Some x)"
  by (simp_all add: async_defs)

lemma isComplete_iff: "isComplete s \<longleftrightarrow> \<not> isNotComplete s"
  by (cases s) (simp_all add: async_tests)

end
