(* ===== verification/CheckoutState.thy ===== *)
theory CheckoutState
  imports CheckoutProcess Cards PickupHelpers AsyncData
begin

text \<open>
  The store of the checkout form: \<open>services/checkout/src/store/state.ts\<close>, the states of its parts and
  every mutator (\<open>store/*/mutators.ts\<close>).  A mutator replaces the state by the one its recipe for
  \<open>immer\<close> describes, in one step, so it is a function on the state.

  The state of the router, which belongs to a library, is left out.  The texts of the interface are
  \<open>UiText\<close>, a constructor per literal; a callback kept in the state is the description of what it
  does, \<open>err_action\<close>.
\<close>

type_synonym 'a adata = "('a, string) async_data"

section \<open>Screens, errors and stages\<close>

datatype AppScreen =
    ScrMain | ScrOrder | ScrBindCard | ScrPaymentMethods | ScrSuccess
  | ObAddressSelect | ObAddressAdd | ObAddressEdit | AddressSelect | AddressAdd | AddressEdit
  | ObContactSelect | ObContactAdd | ObContactEdit | ContactSelect | ContactAdd | ContactEdit
  | ObPickup | ScrPickup

datatype AppPendingReason =
    SheetLoading | PaymentMethodsLoading | CardBindingFormLoading | CardBinding | CardAuthorizing
  | SplitFormLoading | PendCheckout | PendCheckoutProcess | ChallengeRequired | AddressDelete | ContactDelete

record AppPending =
  pend_reason :: AppPendingReason
  pend_message :: "string option"
  pend_description :: "string option"

datatype UiText =
    Plain string
  | TxtError | TxtRepeat | TxtBackToShop | TxtReloadPage | TxtCancel
  | TxtAddressesNotLoaded | TxtCardNotSaved | TxtAddressNotUpdated | TxtAddressNotDeleted
  | TxtContactsNotLoaded | TxtContactNotCreated | TxtContactNotUpdated | TxtContactNotDeleted
  | TxtLastContact | TxtAddContactFirst
  | TxtCardsNotLoaded | TxtCouponNotRemoved | TxtPointNotLoaded | TxtPointNotSent
  | TxtOptionsNotLoaded | TxtOptionNotSelected | TxtFormNotInitialized

fun text_truthy :: "UiText option \<Rightarrow> bool" where
  "text_truthy None = False"
| "text_truthy (Some (Plain s)) = (s \<noteq> [])"
| "text_truthy (Some _) = True"

definition text_or :: "UiText option \<Rightarrow> UiText \<Rightarrow> UiText" where
  "text_or x d = (if text_truthy x then the x else d)"

text \<open>The asynchronous parts of the state a callback resets.\<close>

datatype slot =
    SlotAddressList | SlotAddAddress | SlotEditAddress | SlotDeleteAddress
  | SlotContactList | SlotAddContact | SlotEditContact | SlotDeleteContact
  | SlotPaymentMethods | SlotSelectShipping

datatype err_action =
    ResetSlot slot
  | ResetError
  | CloseThen "err_action option"
  | RunThen "err_action option"
  | RefreshThen "err_action option"
  | GoTo string
  | GoToAndReset string slot
  | ReloadShipping
  | SendFormError string "string option"

record AppError =
  ae_reason :: string
  ae_message :: "UiText option"
  ae_description :: "UiText option"
  ae_action :: "err_action option"
  ae_actionText :: "UiText option"
  ae_useActionButton :: "bool option"

record PaymentFailedAction =
  pfa_text :: UiText
  pfa_callback :: err_action

datatype PaymentStage =
    StInitial
  | StNewCard
  | StPayment
  | StAuthYa (challengePath: string)
  | StAuth3ds (auth_verb: string) (auth_url: string)
  | StSplitPayment (splitFrameUrl: string)
  | StFailed (failed_reason: "string option") (failed_action: "PaymentFailedAction option")
  | StSuccessInfo
  | StSuccessRedirect

record ShippingContactInfo =
  sci_firstName :: string
  sci_secondName :: string
  sci_lastName :: string
  sci_email :: string
  sci_phone :: "string option"

datatype ShippingMethodInfo =
    DirectInfo (di_shippingAddress: ShippingAddress) (di_shippingOption: "ShippingOption option")
  | PickupMethodInfo (pi_pickupPoint: PickupPoint)

text \<open>\<open>CheckoutData\<close>, the event \<open>process\<close> without its token and payment method.\<close>

record CheckoutData =
  cd_orderAmount :: Price
  cd_billingContact :: BillingContact
  cd_shippingContact :: "ShippingContactInfo option"
  cd_shippingMethodInfo :: "ShippingMethodInfo option"

record PaymentProcessData = CheckoutData +
  ppd_token :: string
  ppd_paymentMethodInfo :: PaymentMethodInfo

record PaymentState =
  pst_stage :: PaymentStage
  pst_order :: "Order option"
  pst_processData :: "PaymentProcessData option"

definition initialPaymentState :: PaymentState where
  "initialPaymentState = \<lparr>pst_stage = StInitial, pst_order = None, pst_processData = None\<rparr>"

section \<open>The map\<close>

datatype MapBehavior =
    MbDrag | MbScrollZoom | MbDblClickZoom | MbMultiTouch | MbRightMouseButtonMagnifier
  | MbLeftMouseButtonMagnifier

record MapTooltipState =
  tt_visible :: bool
  tt_helper :: "string option"
  tt_title :: "string option"

record MapPlacemark =
  mp_id :: string
  mp_coordinates :: GeoPoint
  mp_variant :: string

record MapState =
  map_sdk :: "unit adata"
  map_inactive :: bool
  map_visible :: bool
  map_center :: GeoPoint
  map_zoom :: int
  map_bounds :: GeoBounds
  map_margin :: "int \<times> int \<times> int \<times> int"
  map_behaviors :: "MapBehavior list"
  map_pin :: bool
  map_tooltip :: MapTooltipState
  map_placemarks :: "MapPlacemark list"

definition MAP_INITIAL_ZOOM :: int where "MAP_INITIAL_ZOOM = 5"

definition DESKTOP_LAYOUT_MARGIN :: "int \<times> int \<times> int \<times> int" where
  "DESKTOP_LAYOUT_MARGIN = (0, 0, 0, 383 + 16 + 16)"

definition zero_point :: GeoPoint where
  "zero_point = \<lparr>gp_latitude = Fin 0, gp_longitude = Fin 0\<rparr>"

definition mapInitialState :: "checkout_config \<Rightarrow> MapState" where
  "mapInitialState cfg =
     \<lparr>map_sdk = async_initial async_def, map_inactive = False, map_visible = False,
      map_center = USER_LOCATION_COORDS cfg, map_zoom = MAP_INITIAL_ZOOM,
      map_bounds = \<lparr>gb_sw = zero_point, gb_ne = zero_point\<rparr>, map_margin = DESKTOP_LAYOUT_MARGIN,
      map_behaviors = [MbDrag, MbScrollZoom, MbDblClickZoom, MbMultiTouch], map_pin = False,
      map_tooltip = \<lparr>tt_visible = False, tt_helper = None, tt_title = None\<rparr>, map_placemarks = []\<rparr>"

section \<open>The root state\<close>

record AppState =
  app_screen :: AppScreen
  app_pending :: "AppPending option"
  app_error :: "AppError list"
  app_initialLoading :: bool
  app_userState :: UserState
  app_obSteps :: ObSteps
  app_obCurrentStep :: nat

record PaymentCashback =
  cb_amount :: string
  cb_category :: string
  cb_percents :: "string option"

record SheetState =
  sst_sheet :: Sheet
  sst_cashback :: "PaymentCashback adata"
  sst_email :: string

record MethodsState =
  mst_list :: "CardPaymentMethod list adata"
  mst_selectedId :: string

record SplitPlanPayment =
  spp_status :: string
  spp_datetime :: time
  spp_amount :: string

record SplitPlan =
  spl_id :: string
  spl_sum :: string
  spl_payments :: "SplitPlanPayment list"

record SplitPaymentState =
  sps_checkoutUrl :: string
  sps_processData :: PaymentProcessData
  sps_isSuccess :: bool
  sps_frameHeight :: int
  sps_frameLoading :: "unit adata"

record SplitState =
  spt_isAvailable :: bool
  spt_payWithSplit :: bool
  spt_splitPlan :: "SplitPlan adata"
  spt_splitPayment :: "SplitPaymentState option"

record ContactsState =
  cst_list :: "Contact list adata"
  cst_addContact :: "unit adata"
  cst_editContact :: "unit adata"
  cst_deleteContact :: "unit adata"
  cst_selectedId :: string

record AddressesState =
  ast_list :: "Address list adata"
  ast_addAddress :: "unit adata"
  ast_editAddress :: "unit adata"
  ast_deleteAddress :: "unit adata"
  ast_selectedId :: string
  ast_searchQuery :: string
  ast_searchSuggest :: "string list adata"

record DirectShippingState =
  dst_list :: "ShippingOption list adata"
  dst_selectedId :: string
  dst_selectOption :: "unit adata"
  dst_disable :: bool

datatype ShippingType = ShDirect | ShPickup

record PointData =
  ptd_bounds :: "GeoBounds option"
  ptd_list :: "PickupPoint list"

record PickupState =
  pks_mapState :: "GeoPoint \<times> int"
  pks_searchAddress :: string
  pks_suggestAddress :: "string list adata"
  pks_points :: "PointData adata"
  pks_selectedId :: "string option"
  pks_selectedPoint :: "PickupPoint option"
  pks_sendPickupPoint :: "unit adata"

record ShippingState =
  shs_type :: ShippingType
  shs_pickup :: PickupState

record CouponState =
  cps_setCoupon :: "string adata"
  cps_removeCoupon :: "unit adata"
  cps_selected :: string

record RootState =
  rt_app :: AppState
  rt_checkout :: PaymentState
  rt_payment :: SheetState
  rt_paymentMethods :: MethodsState
  rt_split :: SplitState
  rt_contacts :: ContactsState
  rt_addresses :: AddressesState
  rt_directShipping :: DirectShippingState
  rt_shipping :: ShippingState
  rt_coupon :: CouponState
  rt_map :: MapState

text \<open>\<open>asyncData.initial()\<close> and the others without an argument.\<close>

abbreviation a_initial :: "'a adata" where "a_initial \<equiv> async_initial async_def"
abbreviation a_pending :: "'a adata" where "a_pending \<equiv> async_pending async_def"
abbreviation a_success :: "'a \<Rightarrow> 'a adata" where "a_success x \<equiv> async_success x async_def"
abbreviation a_error :: "string \<Rightarrow> 'a adata" where "a_error r \<equiv> async_error r async_def"

definition initialState :: "checkout_config \<Rightarrow> RootState" where
  "initialState cfg =
     \<lparr>rt_app = \<lparr>app_screen = ScrMain, app_pending = None, app_error = [], app_initialLoading = True,
        app_userState = getEmptyUserState, app_obSteps = no_ob_steps, app_obCurrentStep = 1\<rparr>,
      rt_checkout = initialPaymentState,
      rt_payment = \<lparr>sst_sheet = empty_sheet, sst_cashback = a_initial, sst_email = []\<rparr>,
      rt_paymentMethods = \<lparr>mst_list = a_initial, mst_selectedId = []\<rparr>,
      rt_split = \<lparr>spt_isAvailable = False, spt_payWithSplit = False, spt_splitPlan = a_initial,
        spt_splitPayment = None\<rparr>,
      rt_contacts = \<lparr>cst_list = a_initial, cst_addContact = a_initial, cst_editContact = a_initial,
        cst_deleteContact = a_initial, cst_selectedId = []\<rparr>,
      rt_addresses = \<lparr>ast_list = a_initial, ast_addAddress = a_initial, ast_editAddress = a_initial,
        ast_deleteAddress = a_initial, ast_selectedId = [], ast_searchQuery = [],
        ast_searchSuggest = a_initial\<rparr>,
      rt_directShipping = \<lparr>dst_list = a_initial, dst_selectedId = [], dst_selectOption = a_initial,
        dst_disable = False\<rparr>,
      rt_shipping = \<lparr>shs_type = ShDirect, shs_pickup =
        \<lparr>pks_mapState = (USER_LOCATION_COORDS cfg, getMinZoomForFetch (innerSize cfg)),
         pks_searchAddress = [], pks_suggestAddress = a_initial, pks_points = a_initial,
         pks_selectedId = None, pks_selectedPoint = None, pks_sendPickupPoint = a_initial\<rparr>\<rparr>,
      rt_coupon = \<lparr>cps_setCoupon = a_initial, cps_removeCoupon = a_initial, cps_selected = []\<rparr>,
      rt_map = mapInitialState cfg\<rparr>"

section \<open>Mutators of the application\<close>

definition on_app :: "(AppState \<Rightarrow> AppState) \<Rightarrow> RootState \<Rightarrow> RootState" where
  "on_app f s = s\<lparr>rt_app := f (rt_app s)\<rparr>"

definition setScreen :: "AppScreen \<Rightarrow> RootState \<Rightarrow> RootState" where
  "setScreen screen = on_app (\<lambda>a. a\<lparr>app_screen := screen\<rparr>)"

definition setUserState :: "UserState \<Rightarrow> RootState \<Rightarrow> RootState" where
  "setUserState u = on_app (\<lambda>a. a\<lparr>app_userState := u\<rparr>)"

definition setObSteps :: "ObSteps \<Rightarrow> RootState \<Rightarrow> RootState" where
  "setObSteps obSteps = on_app (\<lambda>a. a\<lparr>app_obSteps := obSteps\<rparr>)"

definition setCurrentObStep :: "nat \<Rightarrow> RootState \<Rightarrow> RootState" where
  "setCurrentObStep step = on_app (\<lambda>a. a\<lparr>app_obCurrentStep := step\<rparr>)"

datatype onboarded_thing = ObdAddress | ObdContact | ObdPickup

fun mark_onboarded :: "onboarded_thing \<Rightarrow> ObSteps \<Rightarrow> ObSteps" where
  "mark_onboarded ObdAddress o' = o'\<lparr>obs_addressOnboarded := True\<rparr>"
| "mark_onboarded ObdContact o' = o'\<lparr>obs_contactOnboarded := True\<rparr>"
| "mark_onboarded ObdPickup o' = o'\<lparr>obs_pickupOnboarded := True\<rparr>"

definition setObStepOnboarded :: "onboarded_thing \<Rightarrow> RootState \<Rightarrow> RootState" where
  "setObStepOnboarded step = on_app (\<lambda>a.
     let o' = mark_onboarded step (app_obSteps a)
     in a\<lparr>app_obSteps := (if getIsFullOnboarded o' then o'\<lparr>obs_active := False\<rparr> else o')\<rparr>)"

definition setPendingScreen :: "AppPending option \<Rightarrow> RootState \<Rightarrow> RootState" where
  "setPendingScreen pending = on_app (\<lambda>a. a\<lparr>app_pending := pending\<rparr>)"

definition resetPendingScreen :: "RootState \<Rightarrow> RootState" where
  "resetPendingScreen = setPendingScreen None"

text \<open>The errors are a queue: the first is on the screen, a new one goes last.\<close>

definition setErrorScreen :: "AppError option \<Rightarrow> RootState \<Rightarrow> RootState" where
  "setErrorScreen err = on_app (\<lambda>a.
     a\<lparr>app_error := (case err of Some e \<Rightarrow> app_error a @ [e] | None \<Rightarrow> tl (app_error a))\<rparr>)"

definition resetErrorScreen :: "RootState \<Rightarrow> RootState" where
  "resetErrorScreen = setErrorScreen None"

definition setErrorScreenWithClose :: "AppError \<Rightarrow> RootState \<Rightarrow> RootState" where
  "setErrorScreenWithClose e = setErrorScreen (Some
     \<lparr>ae_reason = ae_reason e, ae_message = Some (text_or (ae_message e) TxtError),
      ae_description = ae_description e, ae_action = Some (CloseThen (ae_action e)),
      ae_actionText = Some (text_or (ae_actionText e) TxtRepeat), ae_useActionButton = None\<rparr>)"

definition setErrorScreenWithBack :: "AppError \<Rightarrow> RootState \<Rightarrow> RootState" where
  "setErrorScreenWithBack e = setErrorScreen (Some
     \<lparr>ae_reason = ae_reason e, ae_message = Some (text_or (ae_message e) TxtError),
      ae_description = ae_description e, ae_action = Some (RunThen (ae_action e)),
      ae_actionText = Some (text_or (ae_actionText e) TxtBackToShop), ae_useActionButton = Some True\<rparr>)"

definition setErrorScreenWithRefresh :: "AppError \<Rightarrow> RootState \<Rightarrow> RootState" where
  "setErrorScreenWithRefresh e = setErrorScreen (Some
     \<lparr>ae_reason = ae_reason e, ae_message = Some (text_or (ae_message e) TxtError),
      ae_description = ae_description e, ae_action = Some (RefreshThen (ae_action e)),
      ae_actionText = Some (text_or (ae_actionText e) TxtReloadPage), ae_useActionButton = None\<rparr>)"

definition resetInitialLoader :: "bool \<Rightarrow> RootState \<Rightarrow> RootState" where
  "resetInitialLoader loading = on_app (\<lambda>a. a\<lparr>app_initialLoading := loading\<rparr>)"

section \<open>Mutators of addresses and contacts\<close>

definition on_addresses :: "(AddressesState \<Rightarrow> AddressesState) \<Rightarrow> RootState \<Rightarrow> RootState" where
  "on_addresses f s = s\<lparr>rt_addresses := f (rt_addresses s)\<rparr>"

definition setAddressList :: "Address list adata \<Rightarrow> RootState \<Rightarrow> RootState" where
  "setAddressList data = on_addresses (\<lambda>a. a\<lparr>ast_list := async_merge (ast_list a) data\<rparr>)"

definition addr_setSelectedId :: "string \<Rightarrow> RootState \<Rightarrow> RootState" where
  "addr_setSelectedId i = on_addresses (\<lambda>a. a\<lparr>ast_selectedId := i\<rparr>)"

definition setAddAddress :: "unit adata \<Rightarrow> RootState \<Rightarrow> RootState" where
  "setAddAddress d = on_addresses (\<lambda>a. a\<lparr>ast_addAddress := d\<rparr>)"

definition resetAddAddress :: "RootState \<Rightarrow> RootState" where
  "resetAddAddress = on_addresses (\<lambda>a.
     a\<lparr>ast_addAddress := a_initial, ast_searchQuery := [], ast_searchSuggest := a_initial\<rparr>)"

definition setEditAddress :: "unit adata \<Rightarrow> RootState \<Rightarrow> RootState" where
  "setEditAddress d = on_addresses (\<lambda>a. a\<lparr>ast_editAddress := d\<rparr>)"

definition resetEditAddress :: "RootState \<Rightarrow> RootState" where
  "resetEditAddress = on_addresses (\<lambda>a.
     a\<lparr>ast_editAddress := a_initial, ast_searchQuery := [], ast_searchSuggest := a_initial\<rparr>)"

definition setDeleteAddress :: "unit adata \<Rightarrow> RootState \<Rightarrow> RootState" where
  "setDeleteAddress d = on_addresses (\<lambda>a. a\<lparr>ast_deleteAddress := d\<rparr>)"

definition on_contacts :: "(ContactsState \<Rightarrow> ContactsState) \<Rightarrow> RootState \<Rightarrow> RootState" where
  "on_contacts f s = s\<lparr>rt_contacts := f (rt_contacts s)\<rparr>"

definition setContactList :: "Contact list adata \<Rightarrow> RootState \<Rightarrow> RootState" where
  "setContactList data = on_contacts (\<lambda>a. a\<lparr>cst_list := async_merge (cst_list a) data\<rparr>)"

definition contact_setSelectedId :: "string \<Rightarrow> RootState \<Rightarrow> RootState" where
  "contact_setSelectedId i = on_contacts (\<lambda>a. a\<lparr>cst_selectedId := i\<rparr>)"

definition setAddContact :: "unit adata \<Rightarrow> RootState \<Rightarrow> RootState" where
  "setAddContact d = on_contacts (\<lambda>a. a\<lparr>cst_addContact := d\<rparr>)"

definition setEditContact :: "unit adata \<Rightarrow> RootState \<Rightarrow> RootState" where
  "setEditContact d = on_contacts (\<lambda>a. a\<lparr>cst_editContact := d\<rparr>)"

definition setDeleteContact :: "unit adata \<Rightarrow> RootState \<Rightarrow> RootState" where
  "setDeleteContact d = on_contacts (\<lambda>a. a\<lparr>cst_deleteContact := d\<rparr>)"

section \<open>Mutators of coupon, payment methods and payment\<close>

definition on_coupon :: "(CouponState \<Rightarrow> CouponState) \<Rightarrow> RootState \<Rightarrow> RootState" where
  "on_coupon f s = s\<lparr>rt_coupon := f (rt_coupon s)\<rparr>"

definition setCoupon :: "string adata \<Rightarrow> RootState \<Rightarrow> RootState" where
  "setCoupon data = on_coupon (\<lambda>c.
     let c' = c\<lparr>cps_setCoupon := data, cps_removeCoupon := a_initial\<rparr>
     in if isSuccess (status data) then c'\<lparr>cps_selected := or_else (result data) []\<rparr> else c')"

definition resetCouponData :: "RootState \<Rightarrow> RootState" where
  "resetCouponData = setCoupon a_initial"

definition resetCoupon :: "RootState \<Rightarrow> RootState" where
  "resetCoupon s = on_coupon (\<lambda>c. c\<lparr>cps_selected := []\<rparr>) (resetCouponData s)"

definition setRemoveCoupon :: "unit adata \<Rightarrow> RootState \<Rightarrow> RootState" where
  "setRemoveCoupon data = on_coupon (\<lambda>c.
     let c' = c\<lparr>cps_removeCoupon := data, cps_setCoupon := a_initial\<rparr>
     in if isSuccess (status data) then c'\<lparr>cps_selected := []\<rparr> else c')"

definition on_methods :: "(MethodsState \<Rightarrow> MethodsState) \<Rightarrow> RootState \<Rightarrow> RootState" where
  "on_methods f s = s\<lparr>rt_paymentMethods := f (rt_paymentMethods s)\<rparr>"

definition methods_setSelectedId :: "string \<Rightarrow> RootState \<Rightarrow> RootState" where
  "methods_setSelectedId i = on_methods (\<lambda>m. m\<lparr>mst_selectedId := i\<rparr>)"

definition setPaymentMethods :: "CardPaymentMethod list adata \<Rightarrow> RootState \<Rightarrow> RootState" where
  "setPaymentMethods data = on_methods (\<lambda>m. m\<lparr>mst_list := async_merge (mst_list m) data\<rparr>)"

definition on_payment :: "(SheetState \<Rightarrow> SheetState) \<Rightarrow> RootState \<Rightarrow> RootState" where
  "on_payment f s = s\<lparr>rt_payment := f (rt_payment s)\<rparr>"

definition setSheet :: "Sheet \<Rightarrow> RootState \<Rightarrow> RootState" where
  "setSheet sheet = on_payment (\<lambda>p. p\<lparr>sst_sheet := sheet\<rparr>)"

definition setSheetOrder :: "SheetOrder option \<Rightarrow> RootState \<Rightarrow> RootState" where
  "setSheetOrder o' = on_payment (\<lambda>p. p\<lparr>sst_sheet := (sst_sheet p)\<lparr>sh_order := o'\<rparr>\<rparr>)"

definition setEmail :: "string \<Rightarrow> RootState \<Rightarrow> RootState" where
  "setEmail email = on_payment (\<lambda>p. p\<lparr>sst_email := email\<rparr>)"

definition setCashback :: "PaymentCashback adata \<Rightarrow> RootState \<Rightarrow> RootState" where
  "setCashback data = on_payment (\<lambda>p. p\<lparr>sst_cashback := data\<rparr>)"

definition resetCashback :: "RootState \<Rightarrow> RootState" where
  "resetCashback = setCashback a_initial"

definition on_checkout :: "(PaymentState \<Rightarrow> PaymentState) \<Rightarrow> RootState \<Rightarrow> RootState" where
  "on_checkout f s = s\<lparr>rt_checkout := f (rt_checkout s)\<rparr>"

definition setPaymentStage :: "PaymentStage \<Rightarrow> RootState \<Rightarrow> RootState" where
  "setPaymentStage stage = on_checkout (\<lambda>p. p\<lparr>pst_stage := stage\<rparr>)"

definition setPaymentOrder :: "Order option \<Rightarrow> RootState \<Rightarrow> RootState" where
  "setPaymentOrder data = on_checkout (\<lambda>p. p\<lparr>pst_order := data\<rparr>)"

definition setPaymentProcessData :: "PaymentProcessData option \<Rightarrow> RootState \<Rightarrow> RootState" where
  "setPaymentProcessData data = on_checkout (\<lambda>p. p\<lparr>pst_processData := data\<rparr>)"

section \<open>Mutators of delivery\<close>

definition on_pickup :: "(PickupState \<Rightarrow> PickupState) \<Rightarrow> RootState \<Rightarrow> RootState" where
  "on_pickup f s = s\<lparr>rt_shipping := (rt_shipping s)\<lparr>shs_pickup := f (shs_pickup (rt_shipping s))\<rparr>\<rparr>"

definition setPickupPointsList :: "PickupPoint list \<Rightarrow> RootState \<Rightarrow> RootState" where
  "setPickupPointsList data = on_pickup (\<lambda>p. p\<lparr>pks_points := (pks_points p)\<lparr>result := Some
     \<lparr>ptd_bounds = Option.bind (result (pks_points p)) ptd_bounds, ptd_list = data\<rparr>\<rparr>\<rparr>)"

text \<open>The partial data of \<open>patchPickupPoints\<close>.\<close>

record PointPatch =
  ptp_bounds :: "GeoBounds option"
  ptp_list :: "PickupPoint list option"

definition first_some :: "'a option \<Rightarrow> 'a option \<Rightarrow> 'a option" where
  "first_some a b = (if a = None then b else a)"

definition patchPickupPoints :: "PointPatch adata \<Rightarrow> RootState \<Rightarrow> RootState" where
  "patchPickupPoints data = on_pickup (\<lambda>p. p\<lparr>pks_points :=
     \<lparr>status = status data,
      result = Some
        \<lparr>ptd_bounds = first_some (Option.bind (result data) ptp_bounds)
                        (Option.bind (result (pks_points p)) ptd_bounds),
         ptd_list = or_else (first_some (Option.bind (result data) ptp_list)
                        (map_option ptd_list (result (pks_points p)))) []\<rparr>,
      reason = None\<rparr>\<rparr>)"

definition setPickupPoints :: "PointData adata \<Rightarrow> RootState \<Rightarrow> RootState" where
  "setPickupPoints data = on_pickup (\<lambda>p. p\<lparr>pks_points := data\<rparr>)"

definition replace_point :: "PickupPoint \<Rightarrow> PointData \<Rightarrow> PointData" where
  "replace_point data d =
     (let index = find_index (\<lambda>p. pp_id p = pp_id data) (ptd_list d)
      in if 0 \<le> index then d\<lparr>ptd_list := (ptd_list d)[nat index := data]\<rparr> else d)"

definition updateSelectedPoint :: "PickupPoint \<Rightarrow> RootState \<Rightarrow> RootState" where
  "updateSelectedPoint data = on_pickup (\<lambda>p.
     if pks_selectedId p = Some (pp_id data)
     then p\<lparr>pks_selectedPoint := Some data,
            pks_points := (pks_points p)\<lparr>result := map_option (replace_point data) (result (pks_points p))\<rparr>\<rparr>
     else p)"

definition setSelectedPickupPoint :: "PickupPoint \<Rightarrow> RootState \<Rightarrow> RootState" where
  "setSelectedPickupPoint point = on_pickup (\<lambda>p.
     if pks_selectedId p \<noteq> Some (pp_id point)
     then p\<lparr>pks_selectedId := Some (pp_id point), pks_selectedPoint := Some point\<rparr> else p)"

definition setSendPickupPoint :: "unit adata \<Rightarrow> RootState \<Rightarrow> RootState" where
  "setSendPickupPoint d = on_pickup (\<lambda>p. p\<lparr>pks_sendPickupPoint := d\<rparr>)"

definition setPickupMapState :: "GeoPoint \<Rightarrow> int \<Rightarrow> RootState \<Rightarrow> RootState" where
  "setPickupMapState center zoom = on_pickup (\<lambda>p. p\<lparr>pks_mapState := (center, zoom)\<rparr>)"

definition on_direct :: "(DirectShippingState \<Rightarrow> DirectShippingState) \<Rightarrow> RootState \<Rightarrow> RootState" where
  "on_direct f s = s\<lparr>rt_directShipping := f (rt_directShipping s)\<rparr>"

definition setShippingOptionsList :: "ShippingOption list adata \<Rightarrow> RootState \<Rightarrow> RootState" where
  "setShippingOptionsList data = on_direct (\<lambda>d. d\<lparr>dst_list := data\<rparr>)"

definition setDisableShippingOptions :: "bool \<Rightarrow> RootState \<Rightarrow> RootState" where
  "setDisableShippingOptions disable = on_direct (\<lambda>d. d\<lparr>dst_disable := disable\<rparr>)"

definition setSelectShippingOptions :: "unit adata \<Rightarrow> RootState \<Rightarrow> RootState" where
  "setSelectShippingOptions data = on_direct (\<lambda>d. d\<lparr>dst_selectOption := data\<rparr>)"

definition shipping_setSelectedId :: "string \<Rightarrow> RootState \<Rightarrow> RootState" where
  "shipping_setSelectedId i = on_direct (\<lambda>d. d\<lparr>dst_selectedId := i\<rparr>)"

definition setSelectedShippingType :: "ShippingType \<Rightarrow> RootState \<Rightarrow> RootState" where
  "setSelectedShippingType ty s = s\<lparr>rt_shipping := (rt_shipping s)\<lparr>shs_type := ty\<rparr>\<rparr>"

section \<open>Mutators of split payments and of the map\<close>

definition on_split :: "(SplitState \<Rightarrow> SplitState) \<Rightarrow> RootState \<Rightarrow> RootState" where
  "on_split f s = s\<lparr>rt_split := f (rt_split s)\<rparr>"

definition setSplitAvailable :: "bool \<Rightarrow> RootState \<Rightarrow> RootState" where
  "setSplitAvailable data = on_split (\<lambda>p. p\<lparr>spt_isAvailable := data\<rparr>)"

definition setSplitPlan :: "SplitPlan adata \<Rightarrow> RootState \<Rightarrow> RootState" where
  "setSplitPlan data = on_split (\<lambda>p. p\<lparr>spt_splitPlan := data\<rparr>)"

definition resetSplitPlan :: "RootState \<Rightarrow> RootState" where
  "resetSplitPlan = on_split (\<lambda>p. p\<lparr>spt_splitPlan := a_initial\<rparr>)"

definition setPayWithSplit :: "bool \<Rightarrow> RootState \<Rightarrow> RootState" where
  "setPayWithSplit data = on_split (\<lambda>p. p\<lparr>spt_payWithSplit := data\<rparr>)"

definition on_map :: "(MapState \<Rightarrow> MapState) \<Rightarrow> RootState \<Rightarrow> RootState" where
  "on_map f s = s\<lparr>rt_map := f (rt_map s)\<rparr>"

definition setMapSdk :: "unit adata \<Rightarrow> RootState \<Rightarrow> RootState" where
  "setMapSdk sdk = on_map (\<lambda>m. m\<lparr>map_sdk := sdk\<rparr>)"

definition setMapPlacemarks ::
  "(jsnum \<Rightarrow> jsnum) \<Rightarrow> (jsnum \<Rightarrow> jsnum) \<Rightarrow> MapPlacemark list \<Rightarrow> RootState \<Rightarrow> RootState" where
  "setMapPlacemarks sin' cos' placemarks = on_map (\<lambda>m. m\<lparr>map_placemarks :=
     toPointsWithUniqueCoordinates
       (pointsToRound sin' cos' mp_coordinates (\<lambda>c p. p\<lparr>mp_coordinates := c\<rparr>)) mp_coordinates placemarks\<rparr>)"

text \<open>\<open>Partial<MapState>\<close>: the assignments of the fields that are there, in any combination.\<close>

datatype map_field =
    MfSdk "unit adata" | MfInactive bool | MfVisible bool | MfCenter GeoPoint | MfZoom int
  | MfBounds GeoBounds | MfMargin "int \<times> int \<times> int \<times> int" | MfBehaviors "MapBehavior list" | MfPin bool
  | MfTooltip MapTooltipState | MfPlacemarks "MapPlacemark list"

fun assign_map :: "map_field \<Rightarrow> MapState \<Rightarrow> MapState" where
  "assign_map (MfSdk x) m = m\<lparr>map_sdk := x\<rparr>"
| "assign_map (MfInactive x) m = m\<lparr>map_inactive := x\<rparr>"
| "assign_map (MfVisible x) m = m\<lparr>map_visible := x\<rparr>"
| "assign_map (MfCenter x) m = m\<lparr>map_center := x\<rparr>"
| "assign_map (MfZoom x) m = m\<lparr>map_zoom := x\<rparr>"
| "assign_map (MfBounds x) m = m\<lparr>map_bounds := x\<rparr>"
| "assign_map (MfMargin x) m = m\<lparr>map_margin := x\<rparr>"
| "assign_map (MfBehaviors x) m = m\<lparr>map_behaviors := x\<rparr>"
| "assign_map (MfPin x) m = m\<lparr>map_pin := x\<rparr>"
| "assign_map (MfTooltip x) m = m\<lparr>map_tooltip := x\<rparr>"
| "assign_map (MfPlacemarks x) m = m\<lparr>map_placemarks := x\<rparr>"

definition setMapState :: "map_field list \<Rightarrow> RootState \<Rightarrow> RootState" where
  "setMapState nextState = on_map (fold assign_map nextState)"

lemmas slice_defs = on_app_def on_addresses_def on_contacts_def on_coupon_def on_methods_def on_payment_def
  on_checkout_def on_pickup_def on_direct_def on_split_def on_map_def

end
