(* ===== verification/CheckoutSelectors.thy ===== *)
theory CheckoutSelectors
  imports CheckoutState
begin

text \<open>
  The selectors of the store, \<open>store/*/selectors.ts\<close>: pure functions of the state.  \<open>createSelector\<close>
  and \<open>memoize\<close> only cache, so a selector is the function it computes.
\<close>

section \<open>Addresses and contacts\<close>

definition getAddressList :: "RootState \<Rightarrow> Address list" where
  "getAddressList s = or_else (result (ast_list (rt_addresses s))) []"

definition getIsEmptyAddressList :: "RootState \<Rightarrow> bool" where
  "getIsEmptyAddressList s = (length (getAddressList s) = 0)"

definition getAddressListStatus :: "RootState \<Rightarrow> AsyncStatus" where
  "getAddressListStatus s = status (ast_list (rt_addresses s))"

definition getSelectedAddress :: "RootState \<Rightarrow> Address option" where
  "getSelectedAddress s = List.find (\<lambda>item. ad_id item = ast_selectedId (rt_addresses s)) (getAddressList s)"

definition getSelectedAddressId :: "RootState \<Rightarrow> string" where
  "getSelectedAddressId s = (case getSelectedAddress s of None \<Rightarrow> [] | Some a \<Rightarrow> ad_id a)"

text \<open>\<open>a || b\<close> of two objects.\<close>

definition getFirstAddressId :: "RootState \<Rightarrow> string" where
  "getFirstAddressId s =
     (let list = getAddressList s;
          marketAddress = List.find (\<lambda>item. ad_id item \<noteq> [] \<and> ad_ownerService item = SERVICE_OWNER_MARKET) list;
          homeAddress = List.find (\<lambda>item. ad_id item \<noteq> [] \<and> ad_type item = ''home'') list;
          anyAddress = List.find (\<lambda>item. ad_id item \<noteq> []) list
      in or_else (map_option ad_id (first_some marketAddress (first_some homeAddress anyAddress))) [])"

definition getAddAddressStatus :: "RootState \<Rightarrow> AsyncStatus" where
  "getAddAddressStatus s = status (ast_addAddress (rt_addresses s))"

definition getEditAddressStatus :: "RootState \<Rightarrow> AsyncStatus" where
  "getEditAddressStatus s = status (ast_editAddress (rt_addresses s))"

definition getDeleteAddressStatus :: "RootState \<Rightarrow> AsyncStatus" where
  "getDeleteAddressStatus s = status (ast_deleteAddress (rt_addresses s))"

definition getAddressById :: "RootState \<Rightarrow> string \<Rightarrow> Address option" where
  "getAddressById s addressId = List.find (\<lambda>item. ad_id item = addressId) (getAddressList s)"

definition getAddressFormData :: "RootState \<Rightarrow> string \<Rightarrow> AddressFormData option" where
  "getAddressFormData s addressId =
     map_option (\<lambda>a.
       \<lparr>fd_address = join_str '', '' [ad_country a, ad_locality a, ad_street a, ad_building a],
        fd_room = ad_room a, fd_entrance = ad_entrance a, fd_floor = ad_floor a, fd_intercom = ad_intercom a,
        fd_comment = ad_comment a, fd_region = Some (ad_region a), fd_country = Some (ad_country a),
        fd_locality = Some (ad_locality a), fd_street = Some (ad_street a), fd_building = Some (ad_building a)\<rparr>)
       (getAddressById s addressId)"

definition getContactList :: "RootState \<Rightarrow> Contact list" where
  "getContactList s = or_else (result (cst_list (rt_contacts s))) []"

definition getContactListStatus :: "RootState \<Rightarrow> AsyncStatus" where
  "getContactListStatus s = status (cst_list (rt_contacts s))"

definition getSelectedContact :: "RootState \<Rightarrow> Contact option" where
  "getSelectedContact s = List.find (\<lambda>item. ct_id item = cst_selectedId (rt_contacts s)) (getContactList s)"

definition getSelectedContactId :: "RootState \<Rightarrow> string" where
  "getSelectedContactId s = (case getSelectedContact s of None \<Rightarrow> [] | Some c \<Rightarrow> ct_id c)"

definition getFirstContactId :: "RootState \<Rightarrow> string" where
  "getFirstContactId s = or_else (map_option ct_id (List.find (\<lambda>item. ct_id item \<noteq> []) (getContactList s))) []"

definition getAddContactStatus :: "RootState \<Rightarrow> AsyncStatus" where
  "getAddContactStatus s = status (cst_addContact (rt_contacts s))"

definition getEditContactStatus :: "RootState \<Rightarrow> AsyncStatus" where
  "getEditContactStatus s = status (cst_editContact (rt_contacts s))"

definition getDeleteContactStatus :: "RootState \<Rightarrow> AsyncStatus" where
  "getDeleteContactStatus s = status (cst_deleteContact (rt_contacts s))"

definition getContactById :: "RootState \<Rightarrow> string \<Rightarrow> Contact option" where
  "getContactById s contactId = List.find (\<lambda>item. ct_id item = contactId) (getContactList s)"

definition getContactFormData :: "RootState \<Rightarrow> string \<Rightarrow> Contact option" where
  "getContactFormData s contactId = getContactById s contactId"

section \<open>The application\<close>

definition getScreen :: "RootState \<Rightarrow> AppScreen" where "getScreen s = app_screen (rt_app s)"
definition getUserState :: "RootState \<Rightarrow> UserState" where "getUserState s = app_userState (rt_app s)"
definition sel_getObSteps :: "RootState \<Rightarrow> ObSteps" where "sel_getObSteps s = app_obSteps (rt_app s)"
definition getObCurrentStep :: "RootState \<Rightarrow> nat" where "getObCurrentStep s = app_obCurrentStep (rt_app s)"
definition getPendingScreen :: "RootState \<Rightarrow> AppPending option" where
  "getPendingScreen s = app_pending (rt_app s)"

definition getErrorScreen :: "RootState \<Rightarrow> AppError option" where
  "getErrorScreen s = (case app_error (rt_app s) of [] \<Rightarrow> None | e # _ \<Rightarrow> Some e)"

definition getInitialLoadingStatus :: "RootState \<Rightarrow> bool" where
  "getInitialLoadingStatus s = app_initialLoading (rt_app s)"

definition getIsOnboardingActive :: "RootState \<Rightarrow> bool" where
  "getIsOnboardingActive s = obs_active (app_obSteps (rt_app s))"

section \<open>Payment methods\<close>

definition MAX_BOUND_CARDS :: nat where "MAX_BOUND_CARDS = 5"

definition sel_getPaymentMethods :: "RootState \<Rightarrow> CardPaymentMethod list" where
  "sel_getPaymentMethods s = or_else (result (mst_list (rt_paymentMethods s))) []"

definition getActivePaymentId :: "RootState \<Rightarrow> string" where
  "getActivePaymentId s = mst_selectedId (rt_paymentMethods s)"

definition getActivePaymentMethod :: "RootState \<Rightarrow> CardPaymentMethod option" where
  "getActivePaymentMethod s = List.find (\<lambda>m. pm_id m = getActivePaymentId s) (sel_getPaymentMethods s)"

definition getPaymentMethodById :: "RootState \<Rightarrow> string \<Rightarrow> CardPaymentMethod option" where
  "getPaymentMethodById s cardId = List.find (\<lambda>m. pm_id m = cardId) (sel_getPaymentMethods s)"

definition getInitialPaymentMethodId :: "tinkoff \<Rightarrow> RootState \<Rightarrow> Sheet \<Rightarrow> string \<Rightarrow> string" where
  "getInitialPaymentMethodId L s sheet cardId =
     (let methods = sel_getPaymentMethods s;
          savedCard = List.find (\<lambda>m. pm_id m = cardId) methods;
          firstEnabled = List.find (\<lambda>m. \<not> pm_disabled m) methods
      in if hasCashPaymentMethod L sheet \<and> cardId = CASH_KEY then cardId
         else if savedCard \<noteq> None \<and> \<not> pm_disabled (the savedCard) then pm_id (the savedCard)
         else if firstEnabled \<noteq> None then pm_id (the firstEnabled)
         else if MAX_BOUND_CARDS \<le> length methods then pm_id (methods ! 0)
         else NEW_CARD_KEY)"

section \<open>Split payments\<close>

definition hasSplitPlan :: "RootState \<Rightarrow> bool" where
  "hasSplitPlan s =
     (0 < length (or_else (map_option spl_payments (result (spt_splitPlan (rt_split s)))) []))"

definition getSplitPlan :: "RootState \<Rightarrow> SplitPlan option" where
  "getSplitPlan s = result (spt_splitPlan (rt_split s))"

definition getSplitFirstPayAmount :: "RootState \<Rightarrow> string option" where
  "getSplitFirstPayAmount s =
     Option.bind (getSplitPlan s) (\<lambda>p. case spl_payments p of [] \<Rightarrow> None | q # _ \<Rightarrow> Some (spp_amount q))"

definition getSplitRemainedAmount :: "RootState \<Rightarrow> string option" where
  "getSplitRemainedAmount s =
     map_option (\<lambda>plan. js_toString
       (foldl (\<lambda>sum (p, index). if index = (0::nat) then sum else js_add sum (js_Number (spp_amount p)))
          (Fin 0) (zip (spl_payments plan) [0..<length (spl_payments plan)]))) (getSplitPlan s)"

definition getSplitNextPaymentDate :: "RootState \<Rightarrow> time option" where
  "getSplitNextPaymentDate s =
     Option.bind (getSplitPlan s) (\<lambda>plan.
       map_option spp_datetime
         (first_some (List.find (\<lambda>p. spp_status p = ''expected'') (spl_payments plan))
                     (List.find (\<lambda>p. spp_status p = ''coming'') (spl_payments plan))))"

definition isSplitAvailable :: "RootState \<Rightarrow> bool" where
  "isSplitAvailable s = spt_isAvailable (rt_split s)"

definition isSplitDisabled :: "RootState \<Rightarrow> bool" where
  "isSplitDisabled s = (getActivePaymentId s = CASH_KEY)"

definition isPayWithSplit :: "RootState \<Rightarrow> bool" where
  "isPayWithSplit s = (isSplitAvailable s \<and> \<not> isSplitDisabled s \<and> spt_payWithSplit (rt_split s))"

definition isSplitPaymentSuccess :: "RootState \<Rightarrow> bool" where
  "isSplitPaymentSuccess s = (case spt_splitPayment (rt_split s) of None \<Rightarrow> False | Some p \<Rightarrow> sps_isSuccess p)"

definition mix_isSplitAvailable :: "RootState \<Rightarrow> bool" where
  "mix_isSplitAvailable s = (\<not> hasSplitPlan s \<or> getActivePaymentId s = CASH_KEY)"

section \<open>The sheet and the payment\<close>

definition getCashback :: "RootState \<Rightarrow> PaymentCashback adata" where
  "getCashback s = sst_cashback (rt_payment s)"

definition getCashbackAmount :: "tinkoff \<Rightarrow> RootState \<Rightarrow> string" where
  "getCashbackAmount L s = po_str L ''0'' (map_option cb_amount (result (getCashback s)))"

definition getSheet :: "RootState \<Rightarrow> Sheet" where "getSheet s = sst_sheet (rt_payment s)"

definition sel_getTotalAmount :: "tinkoff \<Rightarrow> RootState \<Rightarrow> string" where
  "sel_getTotalAmount L s = po_str L ''0'' (map_option (\<lambda>o'. st_amount (so_total o')) (sh_order (getSheet s)))"

definition getCurrencyCode :: "RootState \<Rightarrow> CurrencyCode option" where
  "getCurrencyCode s = sh_currencyCode (getSheet s)"

definition getEmail :: "RootState \<Rightarrow> string" where "getEmail s = sst_email (rt_payment s)"

definition getSheetItems :: "tinkoff \<Rightarrow> RootState \<Rightarrow> SheetItem list" where
  "getSheetItems L s = po_items L [] (map_option so_items (sh_order (getSheet s)))"

definition no_types :: RequiredShippingTypes where
  "no_types = \<lparr>rst_direct = None, rst_pickup = None\<rparr>"

definition getShippingTypes :: "tinkoff \<Rightarrow> RootState \<Rightarrow> RequiredShippingTypes" where
  "getShippingTypes L s =
     po_types L no_types (Option.bind (sh_requiredFields (getSheet s)) rf_shippingTypes)"

definition isCouponAvailable :: "tinkoff \<Rightarrow> RootState \<Rightarrow> bool" where
  "isCouponAvailable L s = (case getAdditionalFields L (getSheet s) of None \<Rightarrow> False | Some (c, _) \<Rightarrow> c)"

fun sort_order :: "OrderItemType option \<Rightarrow> int" where
  "sort_order None = 0"
| "sort_order (Some ItPickup) = 1"
| "sort_order (Some ItShipping) = 1"
| "sort_order (Some ItDiscount) = 2"
| "sort_order (Some ItPromocode) = 3"

definition getSheetItemsSorted :: "tinkoff \<Rightarrow> RootState \<Rightarrow> SheetItem list" where
  "getSheetItemsSorted L s =
     js_sort (\<lambda>a b. Fin (of_int (sort_order (si_type a) - sort_order (si_type b)))) (getSheetItems L s)"

definition sel_getMerchantId :: "tinkoff \<Rightarrow> RootState \<Rightarrow> string" where
  "sel_getMerchantId L s = getMerchantId L (getSheet s)"

definition getIsSeveralShippingTypes :: "tinkoff \<Rightarrow> RootState \<Rightarrow> bool" where
  "getIsSeveralShippingTypes L s =
     (let t = getShippingTypes L s in rst_direct t = Some True \<and> rst_pickup t = Some True)"

definition getCheckoutPaymentMethod :: "RootState \<Rightarrow> PaymentMethodType" where
  "getCheckoutPaymentMethod s =
     (if isPayWithSplit s then PmtSplit else if getActivePaymentId s = CASH_KEY then PmtCash else PmtCard)"

definition getSelectedCoupon :: "RootState \<Rightarrow> string" where
  "getSelectedCoupon s = cps_selected (rt_coupon s)"

definition isCouponActivated :: "tinkoff \<Rightarrow> RootState \<Rightarrow> bool" where
  "isCouponActivated L s =
     (getSelectedCoupon s \<noteq> [] \<or> list_ex (\<lambda>item. si_type item = Some ItPromocode) (getSheetItems L s))"

definition getCouponValue :: "RootState \<Rightarrow> string option" where
  "getCouponValue s = result (cps_setCoupon (rt_coupon s))"

definition getCouponStatus :: "RootState \<Rightarrow> AsyncStatus" where
  "getCouponStatus s = status (cps_setCoupon (rt_coupon s))"

definition getCouponError :: "RootState \<Rightarrow> string option" where
  "getCouponError s =
     (if status (cps_setCoupon (rt_coupon s)) = AsyncStatus.Error
      then reason (cps_setCoupon (rt_coupon s)) else None)"

definition getRemoveCouponStatus :: "RootState \<Rightarrow> AsyncStatus" where
  "getRemoveCouponStatus s = status (cps_removeCoupon (rt_coupon s))"

definition getPaymentStage :: "RootState \<Rightarrow> PaymentStage" where
  "getPaymentStage s = pst_stage (rt_checkout s)"

definition isShowSuccessInfo :: "RootState \<Rightarrow> bool" where
  "isShowSuccessInfo s = (pst_stage (rt_checkout s) = StSuccessInfo)"

definition getPaymentOrder :: "RootState \<Rightarrow> Order option" where
  "getPaymentOrder s = pst_order (rt_checkout s)"

definition getPaymentProcessData :: "RootState \<Rightarrow> PaymentProcessData option" where
  "getPaymentProcessData s = pst_processData (rt_checkout s)"

section \<open>Delivery\<close>

definition getPickupPointsBounds :: "RootState \<Rightarrow> GeoBounds option" where
  "getPickupPointsBounds s = Option.bind (result (pks_points (shs_pickup (rt_shipping s)))) ptd_bounds"

definition getPickupPointsList :: "RootState \<Rightarrow> PickupPoint list" where
  "getPickupPointsList s = or_else (map_option ptd_list (result (pks_points (shs_pickup (rt_shipping s))))) []"

definition getPickupMapState :: "RootState \<Rightarrow> GeoPoint \<times> int" where
  "getPickupMapState s = pks_mapState (shs_pickup (rt_shipping s))"

definition getPickupPointsStatus :: "RootState \<Rightarrow> AsyncStatus" where
  "getPickupPointsStatus s = status (pks_points (shs_pickup (rt_shipping s)))"

definition getPickupSelectedPointId :: "RootState \<Rightarrow> string option" where
  "getPickupSelectedPointId s = pks_selectedId (shs_pickup (rt_shipping s))"

definition getPickupSelectedPoint :: "RootState \<Rightarrow> PickupPoint option" where
  "getPickupSelectedPoint s = pks_selectedPoint (shs_pickup (rt_shipping s))"

text \<open>\<open>isEmpty\<close> of a text or a number: the empty text and what is absent.\<close>

definition isPickupPointHasInfo :: "(string option \<Rightarrow> bool) \<Rightarrow> (int option \<Rightarrow> bool) \<Rightarrow> RootState \<Rightarrow> bool" where
  "isPickupPointHasInfo isEmpty_str isEmpty_num s =
     (let p = getPickupSelectedPoint s
      in \<not> isEmpty_str (Option.bind p pp_amount) \<and> \<not> isEmpty_num (Option.bind p pp_deliveryDate))"

definition getIsEmptyPointList :: "RootState \<Rightarrow> bool" where
  "getIsEmptyPointList s =
     (let points = pks_points (shs_pickup (rt_shipping s))
      in isError (status points)
         \<or> (isSuccess (status points) \<and> map_option (\<lambda>d. length (ptd_list d)) (result points) = Some 0))"

definition getSendPickupPointStatus :: "RootState \<Rightarrow> AsyncStatus" where
  "getSendPickupPointStatus s = status (pks_sendPickupPoint (shs_pickup (rt_shipping s)))"

definition getShippingOptionsList :: "RootState \<Rightarrow> ShippingOption list" where
  "getShippingOptionsList s = or_else (result (dst_list (rt_directShipping s))) []"

definition getShippingOptionsListStatus :: "RootState \<Rightarrow> AsyncStatus" where
  "getShippingOptionsListStatus s = status (dst_list (rt_directShipping s))"

definition isShippingOptionsDisabled :: "RootState \<Rightarrow> bool" where
  "isShippingOptionsDisabled s = dst_disable (rt_directShipping s)"

definition findShippingOption :: "RootState \<Rightarrow> string \<Rightarrow> ShippingOption option" where
  "findShippingOption s searchId = List.find (\<lambda>item. sho_id item = searchId) (getShippingOptionsList s)"

definition getSelectedShippingOption :: "RootState \<Rightarrow> ShippingOption option" where
  "getSelectedShippingOption s = findShippingOption s (dst_selectedId (rt_directShipping s))"

definition getSelectedShippingOptionId :: "RootState \<Rightarrow> string" where
  "getSelectedShippingOptionId s = (case getSelectedShippingOption s of None \<Rightarrow> [] | Some opt \<Rightarrow> sho_id opt)"

definition getShippingType :: "RootState \<Rightarrow> ShippingType" where
  "getShippingType s = shs_type (rt_shipping s)"

definition getSelectShippingOptionsStatus :: "RootState \<Rightarrow> AsyncStatus" where
  "getSelectShippingOptionsStatus s = status (dst_selectOption (rt_directShipping s))"

section \<open>What is sent: \<open>store/mix/selectors.ts\<close>\<close>

definition isCheckoutAvailable :: "RootState \<Rightarrow> bool" where
  "isCheckoutAvailable s =
     (if getSelectedContactId s \<noteq> [] \<and> getActivePaymentId s \<noteq> []
      then if getShippingType s = ShDirect \<and> getSelectedAddressId s \<noteq> []
           then getSelectedShippingOptionId s \<noteq> [] \<or> isShippingOptionsDisabled s
           else getShippingType s = ShPickup \<and> truthy (getPickupSelectedPointId s)
      else False)"

definition getBillingContact :: "tinkoff \<Rightarrow> RootState \<Rightarrow> BillingContact" where
  "getBillingContact L s =
     (let billingFields = getRequiredBillingFields L (getSheet s)
      in \<lparr>bc_email = (if billingFields = Some True then Some (getEmail s) else None), bc_phone = None\<rparr>)"

definition getCheckoutData :: "tinkoff \<Rightarrow> RootState \<Rightarrow> CheckoutData" where
  "getCheckoutData L s =
     (let shippingContactFields = getRequiredShippingContactFields L (getSheet s);
          shippingTypes = getRequiredShippingTypes L (getSheet s)
      in \<lparr>cd_orderAmount = getOrderAmount L (getSheet s),
          cd_billingContact = getBillingContact L s,
          cd_shippingContact =
            (case (shippingContactFields, getSelectedContact s) of
               (Some (name, email, phone), Some contact) \<Rightarrow>
                 Some \<lparr>sci_firstName = ct_firstName contact, sci_secondName = ct_secondName contact,
                       sci_lastName = ct_lastName contact, sci_email = ct_email contact,
                       sci_phone = (if phone then Some (ct_phoneNumber contact) else None)\<rparr>
             | _ \<Rightarrow> None),
          cd_shippingMethodInfo =
            (case getShippingType s of
               ShDirect \<Rightarrow>
                 (case (shippingTypes, getSelectedAddress s) of
                    (Some (True, _), Some a) \<Rightarrow>
                      Some (DirectInfo (toShippingAddress a) (getSelectedShippingOption s))
                  | _ \<Rightarrow> None)
             | ShPickup \<Rightarrow>
                 (case (shippingTypes, getPickupSelectedPoint s) of
                    (Some (_, True), Some pickupPoint) \<Rightarrow> Some (PickupMethodInfo pickupPoint)
                  | _ \<Rightarrow> None))\<rparr>)"

record ShippingMethodDirect =
  smd_address :: ShippingMethodDataAddress
  smd_id :: "string option"
  smd_provider :: "string option"
  smd_category :: "string option"
  smd_amount :: "Price option"

record ShippingMethodPickup =
  smp_id :: string
  smp_provider :: "string option"
  smp_amount :: Price
  smp_formatted :: string
  smp_location :: GeoPoint

record CheckoutShippingMethodData =
  csm_type :: ShippingType
  csm_direct :: "ShippingMethodDirect option"
  csm_pickup :: "ShippingMethodPickup option"

definition direct_data :: "Address \<Rightarrow> ShippingOption option \<Rightarrow> ShippingMethodDirect" where
  "direct_data a opt =
     (case opt of
        None \<Rightarrow> \<lparr>smd_address = toShippingMethodDataAddress a, smd_id = None, smd_provider = None,
                 smd_category = None, smd_amount = None\<rparr>
      | Some opt' \<Rightarrow> \<lparr>smd_address = toShippingMethodDataAddress a, smd_id = Some (sho_id opt'),
                 smd_provider = Some (sho_provider opt'), smd_category = sho_category opt',
                 smd_amount = Some (sho_amount opt')\<rparr>)"

definition pickup_data :: "PickupPoint \<Rightarrow> ShippingMethodPickup" where
  "pickup_data p =
     \<lparr>smp_id = pp_id p, smp_provider = pp_provider p, smp_amount = js_or (pp_amount p) ''0'',
      smp_formatted = pp_address p, smp_location = pp_coordinates p\<rparr>"

definition getShippingMethodData :: "tinkoff \<Rightarrow> RootState \<Rightarrow> CheckoutShippingMethodData option" where
  "getShippingMethodData L s =
     (case getRequiredShippingTypes L (getSheet s) of
        None \<Rightarrow> None
      | Some (direct, pickup) \<Rightarrow>
          if \<not> direct \<and> \<not> pickup then None
          else Some \<lparr>csm_type = getShippingType s,
                 csm_direct = (if getShippingType s = ShDirect \<and> direct
                               then map_option (\<lambda>a. direct_data a (getSelectedShippingOption s)) (getSelectedAddress s)
                               else None),
                 csm_pickup = (if getShippingType s = ShPickup \<and> pickup
                               then map_option pickup_data (getPickupSelectedPoint s) else None)\<rparr>)"

definition getShippingMethodContactData :: "tinkoff \<Rightarrow> RootState \<Rightarrow> string option" where
  "getShippingMethodContactData L s =
     (if getRequiredShippingContactFields L (getSheet s) = None then None
      else map_option ct_id (getSelectedContact s))"

section \<open>What a selected thing is\<close>

lemma selected_address:
  "getSelectedAddress s = Some a \<Longrightarrow> a \<in> set (getAddressList s) \<and> ad_id a = ast_selectedId (rt_addresses s)"
  unfolding getSelectedAddress_def by (drule find_Some_in) simp

lemma selected_contact:
  "getSelectedContact s = Some c \<Longrightarrow> c \<in> set (getContactList s) \<and> ct_id c = cst_selectedId (rt_contacts s)"
  unfolding getSelectedContact_def by (drule find_Some_in) simp

lemma selected_option:
  "getSelectedShippingOption s = Some opt \<Longrightarrow> opt \<in> set (getShippingOptionsList s)"
  unfolding getSelectedShippingOption_def findShippingOption_def by (drule find_Some_in) simp

text \<open>C29: When the form allows to pay, what it sends is complete.  For a sheet that asks for a contact
  and for the chosen kind of delivery, the data of the payment name a contact of the loaded list, and
  either the address of the list that is selected, with a delivery option unless the merchant has
  none, or the pickup point that is selected.\<close>

theorem available_checkout_is_complete:
  assumes "isCheckoutAvailable s"
    "getRequiredShippingContactFields L (getSheet s) = Some fs"
    "getRequiredShippingTypes L (getSheet s) = Some (direct, pickup)"
    "if getShippingType s = ShDirect then direct else pickup"
    "pks_selectedId (shs_pickup (rt_shipping s)) = map_option pp_id (pks_selectedPoint (shs_pickup (rt_shipping s)))"
  shows "\<exists>c \<in> set (getContactList s). \<exists>m.
     getShippingMethodContactData L s = Some (ct_id c)
     \<and> cd_shippingContact (getCheckoutData L s) \<noteq> None
     \<and> getShippingMethodData L s = Some m \<and> csm_type m = getShippingType s
     \<and> (case getShippingType s of
          ShDirect \<Rightarrow> csm_pickup m = None \<and> (\<exists>a \<in> set (getAddressList s). \<exists>opt.
            csm_direct m = Some (direct_data a opt)
            \<and> cd_shippingMethodInfo (getCheckoutData L s) = Some (DirectInfo (toShippingAddress a) opt)
            \<and> (opt = None \<longrightarrow> isShippingOptionsDisabled s)
            \<and> (\<forall>opt'. opt = Some opt' \<longrightarrow> opt' \<in> set (getShippingOptionsList s)))
        | ShPickup \<Rightarrow> csm_direct m = None \<and> (\<exists>p. getPickupSelectedPoint s = Some p
            \<and> csm_pickup m = Some (pickup_data p)
            \<and> cd_shippingMethodInfo (getCheckoutData L s) = Some (PickupMethodInfo p)))"
proof -
  obtain c where c: "getSelectedContact s = Some c"
    using assms(1) by (auto simp: isCheckoutAvailable_def getSelectedContactId_def split: option.splits if_splits)
  have cs: "c \<in> set (getContactList s)" using selected_contact [OF c] by simp
  have contact: "getShippingMethodContactData L s = Some (ct_id c)"
      "cd_shippingContact (getCheckoutData L s) \<noteq> None"
    using assms(2) c by (auto simp: getShippingMethodContactData_def getCheckoutData_def Let_def split: prod.split)
  show ?thesis
  proof (cases "getShippingType s")
    case ShDirect
    then obtain a where a: "getSelectedAddress s = Some a"
      using assms(1) by (auto simp: isCheckoutAvailable_def getSelectedAddressId_def split: option.splits if_splits)
    have "getSelectedShippingOption s = None \<longrightarrow> isShippingOptionsDisabled s"
      using assms(1) ShDirect
      by (auto simp: isCheckoutAvailable_def getSelectedShippingOptionId_def split: if_splits)
    moreover have "direct" using assms(4) ShDirect by simp
    ultimately show ?thesis
      using cs contact assms(3) ShDirect a selected_address [OF a] selected_option
      by (intro bexI [of _ c] exI [of _ "the (getShippingMethodData L s)"])
        (auto simp: getShippingMethodData_def getCheckoutData_def Let_def)
  next
    case ShPickup
    then obtain p where p: "getPickupSelectedPoint s = Some p"
      using assms(1,5)
      by (cases "pks_selectedPoint (shs_pickup (rt_shipping s))")
        (auto simp: isCheckoutAvailable_def getPickupSelectedPointId_def getPickupSelectedPoint_def split: if_splits)
    have "pickup" using assms(4) ShPickup by simp
    then show ?thesis
      using cs contact assms(3) ShPickup p
      by (intro bexI [of _ c] exI [of _ "the (getShippingMethodData L s)"])
        (auto simp: getShippingMethodData_def getCheckoutData_def Let_def)
  qed
qed

definition sample_cfg :: checkout_config where
  "sample_cfg = \<lparr>USER_EMAIL = ''user@ya.ru'', IS_CHECKOUT_SERVER = True, CHALLENGE_NUM = Fin 0,
     CHALLENGE_CARD_ID = [], IS_SPLIT_AVAILABLE = False, SPLIT_MERCHANT_WHITELIST = [],
     SPLIT_AVAILABLE_AMOUNT_RANGE = [], USER_LOCATION_COORDS = zero_point, innerSize = (1024, 768)\<rparr>"

definition sample_contact :: "string \<Rightarrow> string \<Rightarrow> Contact" where
  "sample_contact i owner = \<lparr>ct_id = i, ct_ownerService = owner, ct_firstName = ''Ann'', ct_lastName = ''Ivanova'',
     ct_secondName = [], ct_email = ''ann@ya.ru'', ct_phoneNumber = ''+70000000000''\<rparr>"

definition full_sheet :: Sheet where
  "full_sheet = empty_sheet\<lparr>sh_requiredFields := Some
     \<lparr>rf_billingContact = None,
      rf_shippingContact = Some \<lparr>rsf_name = Some True, rsf_email = Some True, rsf_phone = Some True\<rparr>,
      rf_shippingTypes = Some \<lparr>rst_direct = Some True, rst_pickup = None\<rparr>\<rparr>\<rparr>"

definition ready_state :: RootState where
  "ready_state =
     setSheet full_sheet (setDisableShippingOptions True (methods_setSelectedId ''card''
       (setAddressList (a_success [sample_address ''a'' ''pay'']) (addr_setSelectedId ''a''
         (setContactList (a_success [sample_contact ''c'' ''pay'']) (contact_setSelectedId ''c''
           (initialState sample_cfg)))))))"

lemmas mutator_defs = setScreen_def setUserState_def setObSteps_def setCurrentObStep_def setObStepOnboarded_def
  setPendingScreen_def resetPendingScreen_def setErrorScreen_def resetErrorScreen_def
  setErrorScreenWithClose_def setErrorScreenWithBack_def setErrorScreenWithRefresh_def resetInitialLoader_def
  setAddressList_def addr_setSelectedId_def setAddAddress_def resetAddAddress_def setEditAddress_def
  resetEditAddress_def setDeleteAddress_def setContactList_def contact_setSelectedId_def setAddContact_def
  setEditContact_def setDeleteContact_def setCoupon_def resetCouponData_def resetCoupon_def
  setRemoveCoupon_def methods_setSelectedId_def setPaymentMethods_def setSheet_def setSheetOrder_def
  setEmail_def setCashback_def resetCashback_def setPaymentStage_def setPaymentOrder_def
  setPaymentProcessData_def setPickupPointsList_def patchPickupPoints_def setPickupPoints_def
  updateSelectedPoint_def setSelectedPickupPoint_def setSendPickupPoint_def setPickupMapState_def
  setShippingOptionsList_def setDisableShippingOptions_def setSelectShippingOptions_def
  shipping_setSelectedId_def setSelectedShippingType_def setSplitAvailable_def setSplitPlan_def
  resetSplitPlan_def setPayWithSplit_def setMapSdk_def setMapPlacemarks_def setMapState_def

lemma ready_lists:
  "result (cst_list (rt_contacts ready_state)) = Some [sample_contact ''c'' ''pay'']"
  "cst_selectedId (rt_contacts ready_state) = ''c''"
  "result (ast_list (rt_addresses ready_state)) = Some [sample_address ''a'' ''pay'']"
  "ast_selectedId (rt_addresses ready_state) = ''a''"
  "mst_selectedId (rt_paymentMethods ready_state) = ''card''"
  "dst_disable (rt_directShipping ready_state)" "sst_sheet (rt_payment ready_state) = full_sheet"
  "shs_type (rt_shipping ready_state) = ShDirect"
  "pks_selectedId (shs_pickup (rt_shipping ready_state)) = None"
  "pks_selectedPoint (shs_pickup (rt_shipping ready_state)) = None"
  by (simp_all add: ready_state_def mutator_defs slice_defs initialState_def)

lemma available_checkout_is_complete_witness:
  "getShippingMethodContactData std_tinkoff ready_state = Some ''c''"
proof -
  have one: "getContactList ready_state = [sample_contact ''c'' ''pay'']"
    by (simp add: getContactList_def ready_lists or_else_def)
  have "isCheckoutAvailable ready_state"
    by (simp add: isCheckoutAvailable_def getSelectedContactId_def getSelectedContact_def one
        getSelectedAddressId_def getSelectedAddress_def getAddressList_def getActivePaymentId_def
        getShippingType_def isShippingOptionsDisabled_def ready_lists or_else_def sample_contact_def
        sample_address_def parseAddress_def)
  moreover have "getRequiredShippingContactFields std_tinkoff (getSheet ready_state) = Some (True, True, True)"
    "getRequiredShippingTypes std_tinkoff (getSheet ready_state) = Some (True, False)"
    by (simp_all add: sheet_readers getSheet_def ready_lists full_sheet_def tinkoff_simps [OF std_tinkoff_ok]
        empty_sheet_def)
  ultimately obtain c where "c \<in> set (getContactList ready_state)"
    "getShippingMethodContactData std_tinkoff ready_state = Some (ct_id c)"
    using available_checkout_is_complete [of ready_state std_tinkoff "(True, True, True)" True False]
    by (auto simp: getShippingType_def ready_lists)
  then show ?thesis by (simp add: one sample_contact_def)
qed

end
