(* ===== verification/ServiceMonad.thy ===== *)
theory ServiceMonad
  imports Prelude "HOL-Library.Multiset"
begin

text \<open>
  Services: \<open>packages/react-services\<close>, the layer between the interface and the store.  A service is a
  callback that reads the state, replaces it, calls other services and waits for promises.  Here it
  is the tree of what it does: \<open>Update\<close> (\<open>setState\<close>, \<open>produce\<close>), \<open>Look\<close> (\<open>getState\<close>), \<open>Request\<close>
  (a promise of the outside world, with every reply it may have), \<open>Emit\<close> (something the outside
  sees), \<open>Spawn\<close> (a dispatch that is not awaited), \<open>All\<close> (\<open>Promise.all\<close>) and \<open>End\<close>, with the
  exception if there is one.

  Any number of services run at the same time; between two steps of one, every other may step.  That
  includes all the orders a JavaScript engine can produce, which switches only at an \<open>await\<close>.
\<close>

datatype ('s, 'q, 'a, 'o, 'e) prog =
    End "'e option"
  | Update "'s \<Rightarrow> 's" "('s, 'q, 'a, 'o, 'e) prog"
  | Look "'s \<Rightarrow> ('s, 'q, 'a, 'o, 'e) prog"
  | Request 'q "'e + 'a \<Rightarrow> ('s, 'q, 'a, 'o, 'e) prog"
  | Emit 'o "('s, 'q, 'a, 'o, 'e) prog"
  | Spawn "('s, 'q, 'a, 'o, 'e) prog" "('s, 'q, 'a, 'o, 'e) prog"
  | All "('s, 'q, 'a, 'o, 'e) prog list" "'e option \<Rightarrow> ('s, 'q, 'a, 'o, 'e) prog"

text \<open>The outcome of a service handed on; sequencing and \<open>try { .. } catch (e) { .. }\<close>.\<close>

primrec handing_on ::
  "('s, 'q, 'a, 'o, 'e) prog \<Rightarrow> ('e option \<Rightarrow> ('s, 'q, 'a, 'o, 'e) prog) \<Rightarrow> ('s, 'q, 'a, 'o, 'e) prog" where
  "handing_on (End r) k = k r"
| "handing_on (Update f p) k = Update f (handing_on p k)"
| "handing_on (Look g) k = Look (\<lambda>s. handing_on (g s) k)"
| "handing_on (Request q g) k = Request q (\<lambda>r. handing_on (g r) k)"
| "handing_on (Emit x p) k = Emit x (handing_on p k)"
| "handing_on (Spawn p q) k = Spawn p (handing_on q k)"
| "handing_on (All ps g) k = All ps (\<lambda>r. handing_on (g r) k)"

definition fin :: "('s, 'q, 'a, 'o, 'e) prog" where "fin = End None"

definition throwing :: "'e \<Rightarrow> ('s, 'q, 'a, 'o, 'e) prog" where "throwing e = End (Some e)"

definition await ::
  "('s, 'q, 'a, 'o, 'e) prog \<Rightarrow> ('s, 'q, 'a, 'o, 'e) prog \<Rightarrow> ('s, 'q, 'a, 'o, 'e) prog" where
  "await p q = handing_on p (case_option q (\<lambda>e. End (Some e)))"

definition try_catching ::
  "('s, 'q, 'a, 'o, 'e) prog \<Rightarrow> ('e \<Rightarrow> ('s, 'q, 'a, 'o, 'e) prog) \<Rightarrow> ('s, 'q, 'a, 'o, 'e) prog" where
  "try_catching p h = handing_on p (case_option (End None) h)"

definition set_state :: "('s \<Rightarrow> 's) \<Rightarrow> ('s, 'q, 'a, 'o, 'e) prog" where
  "set_state f = Update f (End None)"

text \<open>\<open>const res = await api(...)\<close>: an error is thrown.\<close>

definition asking :: "'q \<Rightarrow> ('a \<Rightarrow> ('s, 'q, 'a, 'o, 'e) prog) \<Rightarrow> ('s, 'q, 'a, 'o, 'e) prog" where
  "asking q k = Request q (case_sum (\<lambda>e. End (Some e)) k)"

lemmas prog_defs = fin_def throwing_def await_def try_catching_def set_state_def asking_def

section \<open>Steps\<close>

text \<open>The rejection of a promise \<open>Promise.all\<close> no longer waits for is handled all the same.\<close>

definition hush :: "('s, 'q, 'a, 'o, 'e) prog \<Rightarrow> ('s, 'q, 'a, 'o, 'e) prog" where
  "hush p = try_catching p (\<lambda>e. End None)"

text \<open>
  One step of a service: from its state and itself to the next ones, the services it has started, and
  what the outside sees.  \<open>ok q r\<close>: the outside may answer \<open>q\<close> with \<open>r\<close>.
\<close>

inductive pstep ::
  "('q \<Rightarrow> 'e + 'a \<Rightarrow> bool) \<Rightarrow> 's \<Rightarrow> ('s, 'q, 'a, 'o, 'e) prog
    \<Rightarrow> 's \<Rightarrow> ('s, 'q, 'a, 'o, 'e) prog \<Rightarrow> ('s, 'q, 'a, 'o, 'e) prog list \<Rightarrow> 'o list \<Rightarrow> bool"
  for ok :: "'q \<Rightarrow> 'e + 'a \<Rightarrow> bool" where
  update: "pstep ok s (Update f p) (f s) p [] []"
| look: "pstep ok s (Look g) s (g s) [] []"
| request: "ok q r \<Longrightarrow> pstep ok s (Request q g) s (g r) [] []"
| emit: "pstep ok s (Emit x p) s p [] [x]"
| spawn: "pstep ok s (Spawn p q) s q [p] []"
| all_step: "i < length ps \<Longrightarrow> pstep ok s (ps ! i) s' p' sp xs \<Longrightarrow>
     pstep ok s (All ps g) s' (All (ps[i := p']) g) sp xs"
| all_done: "\<forall>p \<in> set ps. p = End None \<Longrightarrow> pstep ok s (All ps g) s (g None) [] []"
| all_fail: "i < length ps \<Longrightarrow> ps ! i = End (Some e) \<Longrightarrow>
     pstep ok s (All ps g) s (g (Some e)) (map hush (take i ps) @ map hush (drop (Suc i) ps)) []"

inductive_cases pstep_EndE [elim!]: "pstep ok s (End r) s' p' sp xs"
inductive_cases pstep_UpdateE: "pstep ok s (Update f p) s' p' sp xs"
inductive_cases pstep_LookE: "pstep ok s (Look g) s' p' sp xs"
inductive_cases pstep_RequestE: "pstep ok s (Request q g) s' p' sp xs"
inductive_cases pstep_EmitE: "pstep ok s (Emit x p) s' p' sp xs"
inductive_cases pstep_SpawnE: "pstep ok s (Spawn p q) s' p' sp xs"
inductive_cases pstep_AllE: "pstep ok s (All ps g) s' p' sp xs"

lemmas pstep_cases = pstep_UpdateE pstep_LookE pstep_RequestE pstep_EmitE pstep_SpawnE

text \<open>A configuration: the state, the running services, and what the outside has seen.\<close>

type_synonym ('s, 'q, 'a, 'o, 'e) config = "'s \<times> ('s, 'q, 'a, 'o, 'e) prog multiset \<times> 'o list"

inductive cstep ::
  "('q \<Rightarrow> 'e + 'a \<Rightarrow> bool) \<Rightarrow> ('s, 'q, 'a, 'o, 'e) config \<Rightarrow> ('s, 'q, 'a, 'o, 'e) config \<Rightarrow> bool"
  for ok :: "'q \<Rightarrow> 'e + 'a \<Rightarrow> bool" where
  "pstep ok s p s' p' sp xs \<Longrightarrow>
     cstep ok (s, add_mset p ps, seen) (s', add_mset p' (mset sp + ps), seen @ xs)"

section \<open>Invariants\<close>

text \<open>Every update of the service, whatever it has read and whatever was answered, keeps \<open>I\<close>.\<close>

primrec keeps :: "('s \<Rightarrow> bool) \<Rightarrow> ('q \<Rightarrow> 'e + 'a \<Rightarrow> bool) \<Rightarrow> ('s, 'q, 'a, 'o, 'e) prog \<Rightarrow> bool" where
  "keeps I ok (End r) = True"
| "keeps I ok (Update f p) = ((\<forall>s. I s \<longrightarrow> I (f s)) \<and> keeps I ok p)"
| "keeps I ok (Look g) = (\<forall>s. I s \<longrightarrow> keeps I ok (g s))"
| "keeps I ok (Request q g) = (\<forall>r. ok q r \<longrightarrow> keeps I ok (g r))"
| "keeps I ok (Emit x p) = keeps I ok p"
| "keeps I ok (Spawn p q) = (keeps I ok p \<and> keeps I ok q)"
| "keeps I ok (All ps g) = (list_all (\<lambda>b. b) (map (keeps I ok) ps) \<and> (\<forall>r. keeps I ok (g r)))"

lemma keeps_All [simp]:
  "keeps I ok (All ps g) \<longleftrightarrow> (\<forall>p \<in> set ps. keeps I ok p) \<and> (\<forall>r. keeps I ok (g r))"
  by (simp add: list_all_iff)

declare keeps.simps(7) [simp del]

lemma keeps_handing_on: "keeps I ok p \<Longrightarrow> (\<And>r. keeps I ok (k r)) \<Longrightarrow> keeps I ok (handing_on p k)"
  by (induction p) auto

lemma keeps_await [intro]: "keeps I ok p \<Longrightarrow> keeps I ok q \<Longrightarrow> keeps I ok (await p q)"
  unfolding await_def by (rule keeps_handing_on) (auto split: option.split)

lemma keeps_try [intro]: "keeps I ok p \<Longrightarrow> (\<And>e. keeps I ok (h e)) \<Longrightarrow> keeps I ok (try_catching p h)"
  unfolding try_catching_def by (rule keeps_handing_on) (auto split: option.split)

lemma keeps_hush [intro]: "keeps I ok p \<Longrightarrow> keeps I ok (hush p)"
  unfolding hush_def by (rule keeps_try) simp_all

lemma keeps_prims [simp]:
  "keeps I ok fin" "keeps I ok (throwing e)"
  "keeps I ok (set_state f) \<longleftrightarrow> (\<forall>s. I s \<longrightarrow> I (f s))"
  "keeps I ok (asking q k) \<longleftrightarrow> (\<forall>a. ok q (Inr a) \<longrightarrow> keeps I ok (k a))"
  by (auto simp: prog_defs split: sum.splits)

lemma pstep_keeps:
  assumes "pstep ok s p s' p' sp xs" "I s" "keeps I ok p"
  shows "I s' \<and> keeps I ok p' \<and> (\<forall>q \<in> set sp. keeps I ok q)"
  using assms
proof (induction rule: pstep.induct)
  case (all_step i ps s s' p' sp xs g)
  then have "I s' \<and> keeps I ok p' \<and> (\<forall>q \<in> set sp. keeps I ok q)" by simp
  then show ?case
    using all_step.prems by (auto dest!: set_update_subset_insert [THEN subsetD])
next
  case (all_fail i ps e s g)
  then show ?case by (auto dest: in_set_takeD in_set_dropD)
qed auto

theorem cstep_keeps:
  assumes "cstep ok c c'" "I (fst c)" "\<forall>p \<in># fst (snd c). keeps I ok p"
  shows "I (fst c') \<and> (\<forall>p \<in># fst (snd c'). keeps I ok p)"
  using assms by (induction rule: cstep.induct) (use pstep_keeps in fastforce)

theorem reachable_keeps:
  assumes "(cstep ok)\<^sup>*\<^sup>* c c'" "I (fst c)" "\<forall>p \<in># fst (snd c). keeps I ok p"
  shows "I (fst c') \<and> (\<forall>p \<in># fst (snd c'). keeps I ok p)"
  using assms by (induction rule: rtranclp_induct) (use cstep_keeps in blast)+

section \<open>What the steps do to the state\<close>

text \<open>Every update of the service, at whatever state it is done, moves the state along \<open>R\<close>.\<close>

primrec moves :: "('s \<Rightarrow> 's \<Rightarrow> bool) \<Rightarrow> ('s, 'q, 'a, 'o, 'e) prog \<Rightarrow> bool" where
  "moves R (End r) = True"
| "moves R (Update f p) = ((\<forall>s. R s (f s)) \<and> moves R p)"
| "moves R (Look g) = (\<forall>s. moves R (g s))"
| "moves R (Request q g) = (\<forall>r. moves R (g r))"
| "moves R (Emit x p) = moves R p"
| "moves R (Spawn p q) = (moves R p \<and> moves R q)"
| "moves R (All ps g) = (list_all (\<lambda>b. b) (map (moves R) ps) \<and> (\<forall>r. moves R (g r)))"

lemma moves_All [simp]:
  "moves R (All ps g) \<longleftrightarrow> (\<forall>p \<in> set ps. moves R p) \<and> (\<forall>r. moves R (g r))"
  by (simp add: list_all_iff)

declare moves.simps(7) [simp del]

lemma moves_handing_on: "moves R p \<Longrightarrow> (\<And>r. moves R (k r)) \<Longrightarrow> moves R (handing_on p k)"
  by (induction p) auto

lemma moves_combinators:
  "moves R p \<Longrightarrow> moves R q \<Longrightarrow> moves R (await p q)"
  "moves R p \<Longrightarrow> (\<And>e. moves R (h e)) \<Longrightarrow> moves R (try_catching p h)"
  "moves R p \<Longrightarrow> moves R (hush p)"
  unfolding await_def try_catching_def hush_def by (auto intro!: moves_handing_on split: option.split)

lemma moves_prims [simp]:
  "moves R fin" "moves R (throwing e)"
  "moves R (set_state f) \<longleftrightarrow> (\<forall>s. R s (f s))"
  "moves R (asking q k) \<longleftrightarrow> (\<forall>a. moves R (k a))"
  by (auto simp: prog_defs split: sum.splits)

lemma pstep_moves:
  assumes "pstep ok s p s' p' sp xs" "reflp R" "moves R p"
  shows "R s s' \<and> moves R p' \<and> (\<forall>q \<in> set sp. moves R q)"
  using assms
proof (induction rule: pstep.induct)
  case (all_step i ps s s' p' sp xs g)
  then have "R s s' \<and> moves R p' \<and> (\<forall>q \<in> set sp. moves R q)" by simp
  then show ?case
    using all_step.prems by (auto dest!: set_update_subset_insert [THEN subsetD])
next
  case (all_fail i ps e s g)
  then show ?case by (auto intro: moves_combinators reflpD dest: in_set_takeD in_set_dropD)
qed (auto intro: reflpD)

lemma cstep_moves:
  assumes "cstep ok c c'" "\<forall>p \<in># fst (snd c). moves R p" "reflp R"
  shows "R (fst c) (fst c') \<and> (\<forall>p \<in># fst (snd c'). moves R p)"
  using assms by (induction rule: cstep.induct) (use pstep_moves in fastforce)

theorem reachable_moves:
  assumes "(cstep ok)\<^sup>*\<^sup>* c c'" "\<forall>p \<in># fst (snd c). moves R p" "reflp R" "transp R"
  shows "R (fst c) (fst c') \<and> (\<forall>p \<in># fst (snd c'). moves R p)"
  using assms(1)
proof (induction rule: rtranclp_induct)
  case base
  then show ?case using assms(2,3) by (auto intro: reflpD)
next
  case (step b c')
  then show ?case using cstep_moves [OF step.hyps(2) _ assms(3)] transpD [OF assms(4)] by blast
qed

section \<open>Services come to rest\<close>

definition children :: "('q \<Rightarrow> 'e + 'a \<Rightarrow> bool) \<Rightarrow> (('s, 'q, 'a, 'o, 'e) prog \<times> ('s, 'q, 'a, 'o, 'e) prog) set" where
  "children ok = {(q, p). \<exists>s s' p' sp xs. pstep ok s p s' p' sp xs \<and> (q = p' \<or> q \<in> set sp)}"

lemma childrenI: "pstep ok s p s' p' sp xs \<Longrightarrow> q = p' \<or> q \<in> set sp \<Longrightarrow> (q, p) \<in> children ok"
  unfolding children_def by blast

lemma childrenE:
  assumes "(q, p) \<in> children ok"
  obtains s s' p' sp xs where "pstep ok s p s' p' sp xs" "q = p' \<or> q \<in> set sp"
  using assms unfolding children_def by blast

lemma wf_below_acc: "wf {(q, p). (q, p) \<in> r \<and> p \<in> Wellfounded.acc r}"
proof (rule wfUNIVI)
  fix P x
  assume step: "\<forall>x. (\<forall>y. (y, x) \<in> {(q, p). (q, p) \<in> r \<and> p \<in> Wellfounded.acc r} \<longrightarrow> P y) \<longrightarrow> P x"
  have "P x" if "x \<in> Wellfounded.acc r" for x
    using that
  proof (induction rule: Wellfounded.acc.induct)
    case (accI x)
    then show ?case using step by blast
  qed
  then show "P x" using step by blast
qed

text \<open>The steps of a service whose outcome is handed on are those of the service, until it ends.\<close>

lemma pstep_handing_on:
  assumes "pstep ok s (handing_on p k) s' q sp xs" "\<nexists>r. p = End r"
  shows "\<exists>p'. pstep ok s p s' p' sp xs \<and> q = handing_on p' k"
  using assms
proof (cases p)
  case (All ps g)
  then have "pstep ok s (All ps (\<lambda>r. handing_on (g r) k)) s' q sp xs" using assms(1) by simp
  then show ?thesis
  proof (rule pstep_AllE)
    fix i p'
    assume st: "q = All (ps[i := p']) (\<lambda>r. handing_on (g r) k)" "i < length ps" "pstep ok s (ps ! i) s' p' sp xs"
    show ?thesis
      unfolding All by (intro exI [of _ "All (ps[i := p']) g"] conjI all_step) (simp_all add: st)
  next
    assume st: "s' = s" "q = handing_on (g None) k" "sp = []" "xs = []" "\<forall>p \<in> set ps. p = End None"
    show ?thesis
      unfolding All st(1,3,4) by (intro exI [of _ "g None"] conjI all_done) (simp_all add: st(2,5))
  next
    fix i e
    assume st: "s' = s" "q = handing_on (g (Some e)) k" "sp = map hush (take i ps) @ map hush (drop (Suc i) ps)"
      "xs = []" "i < length ps" "ps ! i = End (Some e)"
    show ?thesis
      unfolding All st(1,3,4) by (intro exI [of _ "g (Some e)"] conjI all_fail) (simp_all add: st)
  qed
qed (auto elim!: pstep_cases intro: pstep.intros)

lemma acc_handing_on:
  assumes "p \<in> Wellfounded.acc (children ok)" "\<And>r. k r \<in> Wellfounded.acc (children ok)"
  shows "handing_on p k \<in> Wellfounded.acc (children ok)"
  using assms(1)
proof (induction rule: Wellfounded.acc.induct)
  case (accI p)
  show ?case
  proof (cases "\<exists>r. p = End r")
    case True
    then show ?thesis using assms(2) by auto
  next
    case False
    show ?thesis
    proof (rule Wellfounded.accI)
      fix q assume "(q, handing_on p k) \<in> children ok"
      then obtain s s' q' sp xs where st: "pstep ok s (handing_on p k) s' q' sp xs" "q = q' \<or> q \<in> set sp"
        by (rule childrenE)
      from pstep_handing_on [OF st(1) False] obtain p' where
        p': "pstep ok s p s' p' sp xs" "q' = handing_on p' k" by blast
      show "q \<in> Wellfounded.acc (children ok)"
        using st(2) accI childrenI [OF p'(1)] p'(2) by blast
    qed
  qed
qed

lemma acc_hush:
  assumes "p \<in> Wellfounded.acc (children ok)" shows "hush p \<in> Wellfounded.acc (children ok)"
proof -
  have "End None \<in> Wellfounded.acc (children ok)"
    by (rule Wellfounded.accI) (auto elim: childrenE)
  then show ?thesis
    unfolding hush_def try_catching_def by (intro acc_handing_on assms) (auto split: option.split)
qed

lemma acc_All:
  fixes ps :: "('s, 'q, 'a, 'o, 'e) prog list"
  assumes "\<And>r. g r \<in> Wellfounded.acc (children ok)" "set ps \<subseteq> Wellfounded.acc (children ok)"
  shows "All ps g \<in> Wellfounded.acc (children ok)"
proof -
  define R :: "(('s, 'q, 'a, 'o, 'e) prog \<times> ('s, 'q, 'a, 'o, 'e) prog) set" where "R = {(q, p). (q, p) \<in> children ok \<and> p \<in> Wellfounded.acc (children ok)}"
  have "wf (listrel1 R)" using wf_below_acc by (simp add: R_def)
  then have "set ps \<subseteq> Wellfounded.acc (children ok) \<longrightarrow> All ps g \<in> Wellfounded.acc (children ok)"
  proof (rule wf_induct_rule [where P = "\<lambda>ps. set ps \<subseteq> Wellfounded.acc (children ok) \<longrightarrow> All ps g \<in> Wellfounded.acc (children ok)"], intro impI)
    fix ps
    assume IH: "\<And>qs. (qs, ps) \<in> listrel1 R \<Longrightarrow>
        set qs \<subseteq> Wellfounded.acc (children ok) \<longrightarrow> All qs g \<in> Wellfounded.acc (children ok)"
      and prems: "set ps \<subseteq> Wellfounded.acc (children ok)"
    show "All ps g \<in> Wellfounded.acc (children ok)"
    proof (rule accI)
      fix q assume "(q, All ps g) \<in> children ok"
      then obtain s s' p' sp xs where st: "pstep ok s (All ps g) s' p' sp xs" "q = p' \<or> q \<in> set sp"
        by (rule childrenE)
      from st(1) show "q \<in> Wellfounded.acc (children ok)"
      proof (rule pstep_AllE)
        fix i p''
        assume 1: "p' = All (ps[i := p'']) g" "i < length ps" "pstep ok s (ps ! i) s' p'' sp xs"
        have c: "(q', ps ! i) \<in> children ok" if "q' = p'' \<or> q' \<in> set sp" for q'
          using 1(3) that by (rule childrenI)
        have acc: "ps ! i \<in> Wellfounded.acc (children ok)" using prems 1(2) by auto
        have "(ps[i := p''], ps) \<in> listrel1 R"
        proof (rule listrel1I)
          show "(p'', ps ! i) \<in> R" using c acc by (simp add: R_def)
          show "ps[i := p''] = take i ps @ p'' # drop (Suc i) ps" by (rule upd_conv_take_nth_drop [OF 1(2)])
          show "ps = take i ps @ ps ! i # drop (Suc i) ps" by (rule id_take_nth_drop [OF 1(2)])
        qed
        moreover have "set (ps[i := p'']) \<subseteq> Wellfounded.acc (children ok)"
          using set_update_subset_insert [of ps i p''] prems acc_downward [OF acc c [of p'']] by blast
        ultimately have "All (ps[i := p'']) g \<in> Wellfounded.acc (children ok)" using IH by blast
        then show "q \<in> Wellfounded.acc (children ok)" using st(2) 1(1) acc_downward [OF acc c] by blast
      next
        assume 2: "p' = g None" "sp = []"
        then show "q \<in> Wellfounded.acc (children ok)" using st(2) assms(1) by auto
      next
        fix i e
        assume 3: "p' = g (Some e)" "sp = map hush (take i ps) @ map hush (drop (Suc i) ps)"
        then show "q \<in> Wellfounded.acc (children ok)"
          using st(2) assms(1) prems by (auto intro!: acc_hush dest: in_set_takeD in_set_dropD)
      qed
    qed
  qed
  then show ?thesis using assms(2) by blast
qed

lemma acc_children:
  assumes "\<And>s s' p' sp xs q. pstep ok s p s' p' sp xs \<Longrightarrow> q = p' \<or> q \<in> set sp \<Longrightarrow>
    q \<in> Wellfounded.acc (children ok)"
  shows "p \<in> Wellfounded.acc (children ok)"
proof (rule accI)
  fix q assume "(q, p) \<in> children ok"
  then show "q \<in> Wellfounded.acc (children ok)" by (elim childrenE) (rule assms)
qed

lemma all_acc: "p \<in> Wellfounded.acc (children ok)"
proof (induction p)
  case (End r)
  show ?case by (rule acc_children) auto
next
  case (Update f p)
  then show ?case by - (rule acc_children, erule pstep_UpdateE, auto)
next
  case (Look g)
  then show ?case by - (rule acc_children, erule pstep_LookE, auto)
next
  case (Request q g)
  then show ?case by - (rule acc_children, erule pstep_RequestE, auto)
next
  case (Emit x p)
  then show ?case by - (rule acc_children, erule pstep_EmitE, auto)
next
  case (Spawn p q)
  then show ?case by - (rule acc_children, erule pstep_SpawnE, auto)
next
  case (All ps g)
  then show ?case by (intro acc_All) auto
qed

lemma wf_children: "wf (children ok)"
  using all_acc by (intro acc_wfI) blast

lemma cstep_mult1:
  assumes "cstep ok c c'" shows "(fst (snd c'), fst (snd c)) \<in> mult1 (children ok)"
  using assms
proof (cases rule: cstep.cases)
  case (1 s p s' p' sp xs ps seen)
  have "\<forall>q. q \<in># add_mset p' (mset sp) \<longrightarrow> (q, p) \<in> children ok"
    using childrenI [OF 1(3)] by auto
  moreover have "add_mset p' (mset sp + ps) = ps + add_mset p' (mset sp)" by simp
  ultimately show ?thesis unfolding 1(1,2) mult1_def fst_conv snd_conv by blast
qed

text \<open>Services that run together have no infinite run.  This rests on the type: a service here is a tree whose
  branches all end, so one that dispatches itself without end cannot be written down.  The services of the
  checkout that come back to themselves (the buttons of the error screen) do so along a smaller argument.\<close>

lemma services_come_to_rest:
  "wf {(c' :: ('s, 'q, 'a, 'o, 'e) config, c). cstep ok c c'}"
proof (rule wf_subset)
  show "wf (inv_image (mult1 (children ok)) (\<lambda>c :: ('s, 'q, 'a, 'o, 'e) config. fst (snd c)))"
    by (rule wf_inv_image [OF wf_mult1 [OF wf_children]])
  show "{(c' :: ('s, 'q, 'a, 'o, 'e) config, c). cstep ok c c'}
      \<subseteq> inv_image (mult1 (children ok)) (\<lambda>c. fst (snd c))"
    using cstep_mult1 unfolding inv_image_def by blast
qed

text \<open>At rest every service has ended, if every request can be answered.\<close>

lemma at_rest_all_ended:
  fixes c :: "('s, 'q, 'a, 'o, 'e) config"
  assumes can: "\<forall>q. \<exists>r. ok q r" and stuck: "\<nexists>c'. cstep ok c c'" and p: "p \<in># fst (snd c)"
  shows "\<exists>r. p = End r"
proof -
  have live: "(\<exists>r. p = End r) \<or> (\<exists>s' p' sp xs. pstep ok s p s' p' sp xs)"
    for s :: 's and p :: "('s, 'q, 'a, 'o, 'e) prog"
  proof (induction p)
    case (Request q g)
    then show ?case using can by (meson request)
  next
    case (All ps g)
    show ?case
    proof (cases "\<forall>p \<in> set ps. p = End None")
      case True
      then show ?thesis by (meson all_done)
    next
      case False
      then obtain i where i: "i < length ps" "ps ! i \<noteq> End None" by (metis in_set_conv_nth)
      from All.IH(1) [OF nth_mem [OF i(1)]] show ?thesis
      proof (elim disjE exE)
        fix r assume "ps ! i = End r"
        with i obtain e where "ps ! i = End (Some e)" by (cases r) auto
        then show ?thesis using all_fail [OF i(1)] by blast
      next
        fix s' p' sp xs assume "pstep ok s (ps ! i) s' p' sp xs"
        from all_step [OF i(1) this] show ?thesis by blast
      qed
    qed
  qed (blast intro: update look emit spawn)+
  obtain s ps seen where c: "c = (s, add_mset p ps, seen)"
    using p by (metis multi_member_split prod.exhaust_sel)
  have "\<not> pstep ok s p s' p' sp xs" for s' p' sp xs
    using stuck cstep.intros [of ok s p s' p' sp xs ps seen] unfolding c by blast
  then show ?thesis using live by blast
qed

section \<open>A service running alone\<close>

text \<open>
  What a service does when nothing else runs and the outside answers by \<open>orc\<close>: the next state, the
  services it started and did not wait for, what was seen, and its exception if it ends with one.
\<close>

type_synonym ('s, 'q, 'a, 'o, 'e) outcome = "'s \<times> ('s, 'q, 'a, 'o, 'e) prog list \<times> 'o list \<times> 'e option"

definition and_on ::
  "('s, 'q, 'a, 'o, 'e) outcome \<Rightarrow> ('e option \<Rightarrow> 's \<Rightarrow> ('s, 'q, 'a, 'o, 'e) outcome) \<Rightarrow> ('s, 'q, 'a, 'o, 'e) outcome" where
  "and_on m k = (case m of (s, sp, xs, r) \<Rightarrow> (case k r s of (s', sp', xs', r') \<Rightarrow> (s', sp @ sp', xs @ xs', r')))"

text \<open>The services of a \<open>Promise.all\<close> one after the other; the first error is its error.\<close>

fun one_by_one :: "('s \<Rightarrow> ('s, 'q, 'a, 'o, 'e) outcome) list \<Rightarrow> 's \<Rightarrow> ('s, 'q, 'a, 'o, 'e) outcome" where
  "one_by_one [] s = (s, [], [], None)"
| "one_by_one (m # ms) s =
     and_on (m s) (\<lambda>r s'. case one_by_one ms s' of (s'', sp, xs, r') \<Rightarrow>
       (s'', sp, xs, case r of None \<Rightarrow> r' | Some e \<Rightarrow> Some e))"

primrec run ::
  "('q \<Rightarrow> 'e + 'a) \<Rightarrow> ('s, 'q, 'a, 'o, 'e) prog \<Rightarrow> 's \<Rightarrow> ('s, 'q, 'a, 'o, 'e) outcome" where
  "run orc (End r) = (\<lambda>s. (s, [], [], r))"
| "run orc (Update f p) = (\<lambda>s. run orc p (f s))"
| "run orc (Look g) = (\<lambda>s. run orc (g s) s)"
| "run orc (Request q g) = (\<lambda>s. run orc (g (orc q)) s)"
| "run orc (Emit x p) = (\<lambda>s. and_on (s, [], [x], None) (\<lambda>r. run orc p))"
| "run orc (Spawn p q) = (\<lambda>s. and_on (s, [p], [], None) (\<lambda>r. run orc q))"
| "run orc (All ps g) = (\<lambda>s. and_on (one_by_one (map (run orc) ps) s) (\<lambda>r. run orc (g r)))"

lemma and_on_simps [simp]:
  "and_on (s, [], [], r) k = k r s"
  "and_on (and_on m k) l = and_on m (\<lambda>r s. and_on (k r s) l)"
  by (auto simp: and_on_def split: prod.split)

lemma and_on_pair: "and_on (s, sp, xs, r) k = (case k r s of (s', sp', xs', r') \<Rightarrow> (s', sp @ sp', xs @ xs', r'))"
  by (simp add: and_on_def)

lemma run_handing_on_fun: "run orc (handing_on p k) = (\<lambda>s. and_on (run orc p s) (\<lambda>r. run orc (k r)))"
  by (induction p) auto

lemma run_handing_on: "run orc (handing_on p k) s = and_on (run orc p s) (\<lambda>r. run orc (k r))"
  by (simp add: run_handing_on_fun)

lemma run_await: "run orc (await p q) s = and_on (run orc p s) (case_option (run orc q) (\<lambda>e s. (s, [], [], Some e)))"
  by (simp add: await_def run_handing_on and_on_def split: prod.split option.split)

lemma run_try: "run orc (try_catching p h) s =
    and_on (run orc p s) (case_option (\<lambda>s. (s, [], [], None)) (\<lambda>e. run orc (h e)))"
  by (simp add: try_catching_def run_handing_on and_on_def split: prod.split option.split)

lemma run_prims [simp]:
  "run orc fin s = (s, [], [], None)" "run orc (throwing e) s = (s, [], [], Some e)"
  "run orc (set_state f) s = (f s, [], [], None)"
  "run orc (asking q k) s = (case orc q of Inl e \<Rightarrow> (s, [], [], Some e) | Inr a \<Rightarrow> run orc (k a) s)"
  by (simp_all add: prog_defs split: sum.split)

lemmas run_simps = run_await run_try and_on_pair

text \<open>Such a run is one of the ways the service can go, whatever else runs.\<close>

inductive pruns ::
  "('q \<Rightarrow> 'e + 'a \<Rightarrow> bool) \<Rightarrow> 's \<Rightarrow> ('s, 'q, 'a, 'o, 'e) prog
    \<Rightarrow> 's \<Rightarrow> ('s, 'q, 'a, 'o, 'e) prog \<Rightarrow> ('s, 'q, 'a, 'o, 'e) prog multiset \<Rightarrow> 'o list \<Rightarrow> bool"
  for ok :: "'q \<Rightarrow> 'e + 'a \<Rightarrow> bool" where
  stay: "pruns ok s p s p {#} []"
| go: "pstep ok s p s' p' sp xs \<Longrightarrow> pruns ok s' p' s'' p'' sp' xs' \<Longrightarrow>
     pruns ok s p s'' p'' (mset sp + sp') (xs @ xs')"

lemma pruns_trans:
  "pruns ok s p s' p' sp xs \<Longrightarrow> pruns ok s' p' s'' p'' sp' xs' \<Longrightarrow> pruns ok s p s'' p'' (sp + sp') (xs @ xs')"
proof (induction rule: pruns.induct)
  case (go s p s1 p1 sp1 xs1 s2 p2 sp2 xs2)
  show ?case using pruns.go [OF go.hyps(1) go.IH [OF go.prems]] by (simp add: add.assoc)
qed simp

lemma pruns_one: "pstep ok s p s' p' sp xs \<Longrightarrow> pruns ok s p s' p' (mset sp) xs"
  using pruns.go [OF _ pruns.stay] by fastforce

lemma pruns_All:
  "pruns ok s p s' p' sp xs \<Longrightarrow> i < length ps \<Longrightarrow> ps ! i = p \<Longrightarrow>
   pruns ok s (All ps g) s' (All (ps[i := p']) g) sp xs"
proof (induction arbitrary: ps rule: pruns.induct)
  case (go s p s1 p1 sp1 xs1 s2 p2 sp2 xs2)
  have "pstep ok s (All ps g) s1 (All (ps[i := p1]) g) sp1 xs1"
    using go by (intro all_step) simp_all
  moreover have "pruns ok s1 (All (ps[i := p1]) g) s2 (All (ps[i := p2]) g) sp2 xs2"
    using go.IH [of "ps[i := p1]"] go.prems by simp
  ultimately show ?case by (rule pruns.go)
qed (auto simp: stay)

lemma pruns_csteps:
  assumes "pruns ok s p s' p' sp xs"
  shows "(cstep ok)\<^sup>*\<^sup>* (s, add_mset p ps, seen) (s', add_mset p' (sp + ps), seen @ xs)"
  using assms
proof (induction arbitrary: ps seen rule: pruns.induct)
  case (go s p s1 p1 sp1 xs1 s2 p2 sp2 xs2)
  have "cstep ok (s, add_mset p ps, seen) (s1, add_mset p1 (mset sp1 + ps), seen @ xs1)"
    using go.hyps(1) by (rule cstep.intros)
  also have "(cstep ok)\<^sup>*\<^sup>* (s1, add_mset p1 (mset sp1 + ps), seen @ xs1)
      (s2, add_mset p2 (sp2 + (mset sp1 + ps)), (seen @ xs1) @ xs2)" by (rule go.IH)
  finally show ?case by (simp add: ac_simps)
qed simp

text \<open>Up to services that have ended.\<close>

definition ends_like ::
  "('q \<Rightarrow> 'e + 'a \<Rightarrow> bool) \<Rightarrow> 's \<Rightarrow> ('s, 'q, 'a, 'o, 'e) prog \<Rightarrow> ('s, 'q, 'a, 'o, 'e) outcome \<Rightarrow> bool" where
  "ends_like ok s p m =
     (case m of (s', sp, xs, r) \<Rightarrow> \<exists>n. pruns ok s p s' (End r) (mset sp + replicate_mset n (End None)) xs)"

lemma replicate_mset_add: "replicate_mset (m + n) x = replicate_mset m x + replicate_mset n x"
  by (induction m) simp_all

lemma ends_like_step:
  assumes "pstep ok s p s' p' sp xs" "ends_like ok s' p' (k None s')"
  shows "ends_like ok s p (and_on (s', sp, xs, None) k)"
  using pruns.go [OF assms(1)] assms(2)
  by (fastforce simp: ends_like_def and_on_def add.assoc split: prod.splits)

lemma ends_like_mono:
  assumes "pruns ok s p s' p' (mset sp + replicate_mset n (End None)) xs" "ends_like ok s' p' (k r s')"
  shows "ends_like ok s p (and_on (s', sp, xs, r) k)"
proof -
  obtain s'' sp' xs' r' where m: "k r s' = (s'', sp', xs', r')" by (metis prod_cases4)
  then obtain n' where "pruns ok s' p' s'' (End r') (mset sp' + replicate_mset n' (End None)) xs'"
    using assms(2) by (auto simp: ends_like_def)
  from pruns_trans [OF assms(1) this]
  have "pruns ok s p s'' (End r') (mset (sp @ sp') + replicate_mset (n + n') (End None)) (xs @ xs')"
    by (simp add: ac_simps replicate_mset_add)
  then show ?thesis unfolding ends_like_def and_on_def prod.case m by (intro exI [of _ "n + n'"])
qed

primrec first_error :: "'e option list \<Rightarrow> 'e option" where
  "first_error [] = None"
| "first_error (r # rs) = (case r of None \<Rightarrow> first_error rs | Some e \<Rightarrow> Some e)"

lemma first_error_None: "first_error rs = None \<longleftrightarrow> (\<forall>r \<in> set rs. r = None)"
  by (induction rs) (auto split: option.split)

lemma first_error_Some: "first_error rs = Some e \<Longrightarrow> \<exists>i < length rs. rs ! i = Some e"
proof (induction rs)
  case (Cons r rs)
  then show ?case by (cases r) (auto simp: nth_Cons split: nat.split intro: exI [of _ 0] exI [of _ "Suc _"])
qed simp

lemma hush_End: "hush (End r) = End None"
  by (simp add: hush_def try_catching_def split: option.split)

lemma one_by_one_ends:
  assumes "\<And>p s. p \<in> set ps \<Longrightarrow> ends_like ok s p (run orc p s)"
    and "one_by_one (map (run orc) ps) s = (s', sp, xs, r)"
  shows "\<exists>rs n. length rs = length ps \<and> r = first_error rs \<and>
    pruns ok s (All (before @ ps) g) s' (All (before @ map End rs) g) (mset sp + replicate_mset n (End None)) xs"
  using assms
proof (induction ps arbitrary: before s sp xs r)
  case Nil
  then show ?case by (auto intro!: exI [of _ "[]"] exI [of _ 0] stay)
next
  case (Cons p ps)
  obtain s1 sp1 xs1 r1 where one: "run orc p s = (s1, sp1, xs1, r1)" by (metis prod_cases4)
  obtain s2 sp2 xs2 r2 where rest: "one_by_one (map (run orc) ps) s1 = (s2, sp2, xs2, r2)" by (metis prod_cases4)
  have eqs: "s' = s2" "sp = sp1 @ sp2" "xs = xs1 @ xs2" "r = (case r1 of None \<Rightarrow> r2 | Some e \<Rightarrow> Some e)"
    using Cons.prems(2) one rest by (auto simp: and_on_def)
  have "ends_like ok s p (s1, sp1, xs1, r1)"
    using Cons.prems(1) [of p s] one by simp
  then obtain n1 where "pruns ok s p s1 (End r1) (mset sp1 + replicate_mset n1 (End None)) xs1"
    by (auto simp: ends_like_def)
  from pruns_All [OF this, of "length before" "before @ p # ps" g]
  have first: "pruns ok s (All (before @ p # ps) g) s1 (All ((before @ [End r1]) @ ps) g)
      (mset sp1 + replicate_mset n1 (End None)) xs1" by simp
  obtain rs n where rs: "length rs = length ps" "r2 = first_error rs"
    "pruns ok s1 (All ((before @ [End r1]) @ ps) g) s2 (All ((before @ [End r1]) @ map End rs) g)
      (mset sp2 + replicate_mset n (End None)) xs2"
    using Cons.IH [of s1 sp2 xs2 r2 "before @ [End r1]"] Cons.prems(1) rest eqs(1) by fastforce
  from pruns_trans [OF first rs(3)]
  have "pruns ok s (All (before @ p # ps) g) s' (All (before @ map End (r1 # rs)) g)
      (mset sp + replicate_mset (n1 + n) (End None)) xs"
    by (simp add: eqs ac_simps replicate_mset_add)
  then show ?case
    using rs(1,2) eqs(4) by (intro exI [of _ "r1 # rs"] exI [of _ "n1 + n"]) (simp split: option.split)
qed

lemma ended_All:
  fixes g :: "'e option \<Rightarrow> ('s, 'q, 'a, 'o, 'e) prog"
  shows "\<exists>n. pruns ok s (All (map End rs) g) s (g (first_error rs)) (replicate_mset n (End None)) []"
proof (cases "first_error rs")
  case None
  then have "pstep ok s (All (map End rs) g) s (g None) [] []"
    by (intro all_done) (auto simp: first_error_None)
  from pruns_one [OF this] None show ?thesis by (intro exI [of _ 0]) simp
next
  case (Some e)
  from first_error_Some [OF this] obtain i where i: "i < length rs" "rs ! i = Some e" by blast
  define ws :: "('s, 'q, 'a, 'o, 'e) prog list" where
    "ws = map hush (take i (map End rs)) @ map hush (drop (Suc i) (map End rs))"
  have "pstep ok s (All (map End rs) g) s (g (Some e)) ws []"
    unfolding ws_def using i by (intro all_fail) simp_all
  from pruns_one [OF this] have "pruns ok s (All (map End rs) g) s (g (Some e)) (mset ws) []" .
  moreover have "mset ws = replicate_mset (i + (length rs - Suc i)) (End None)"
    using i by (simp add: ws_def take_map drop_map o_def hush_End map_replicate_const flip: replicate_mset_add)
  ultimately show ?thesis unfolding Some by metis
qed

theorem run_ends:
  fixes p :: "('s, 'q, 'a, 'o, 'e) prog"
  assumes "\<And>q. ok q (orc q)"
  shows "ends_like ok s p (run orc p s)"
proof (induction p arbitrary: s)
  case (End r)
  show ?case by (auto simp: ends_like_def intro!: exI [of _ 0] stay)
next
  case (Update f p)
  show ?case
    using ends_like_step [where k = "\<lambda>r. run orc p", OF update Update] by simp
next
  case (Look g)
  show ?case
    using ends_like_step [where k = "\<lambda>r. run orc (g s)", OF look] Look [of "g s" s] by simp
next
  case (Request q g)
  have "pstep ok s (Request q g) s (g (orc q)) [] []" by (rule request) (rule assms)
  from ends_like_step [where k = "\<lambda>r. run orc (g (orc q))", OF this Request] show ?case by simp
next
  case (Emit x p)
  show ?case
    using ends_like_step [where k = "\<lambda>r. run orc p", OF emit Emit] by simp
next
  case (Spawn p q)
  show ?case
    using ends_like_step [where k = "\<lambda>r. run orc q", OF spawn Spawn(2)] by simp
next
  case (All ps g)
  obtain s' sp xs r where o: "one_by_one (map (run orc) ps) s = (s', sp, xs, r)" by (metis prod_cases4)
  obtain rs n where rs: "r = first_error rs"
    "pruns ok s (prog.All ps g) s' (prog.All (map End rs) g) (mset sp + replicate_mset n (End None)) xs"
    using one_by_one_ends [where before = "[]" and g = g, OF All.IH(1) o] by auto
  obtain n' where "pruns ok s' (prog.All (map End rs) g) s' (g r) (replicate_mset n' (End None)) []"
    using ended_All [where rs = rs and g = g] rs(1) by blast
  from pruns_trans [OF rs(2) this]
  have "pruns ok s (prog.All ps g) s' (g r) (mset sp + replicate_mset (n + n') (End None)) xs"
    by (simp add: ac_simps replicate_mset_add)
  from ends_like_mono [where k = "\<lambda>r. run orc (g r)", OF this All.IH(2)] show ?case by (simp add: o)
qed

text \<open>So what is proved of a run alone can be reached in a configuration where the service waits.\<close>

corollary run_reachable:
  fixes p :: "('s, 'q, 'a, 'o, 'e) prog"
  assumes "run orc p s = (s', sp, xs, r)" "\<And>q. ok q (orc q)"
  shows "\<exists>n. (cstep ok)\<^sup>*\<^sup>* (s, add_mset p ps, seen)
    (s', add_mset (End r) (mset sp + replicate_mset n (End None) + ps), seen @ xs)"
  using run_ends [of ok orc s p] assms pruns_csteps by (fastforce simp: ends_like_def)

section \<open>Services that never reject\<close>

text \<open>Whatever they read and whatever is answered, they end without an exception.\<close>

text \<open>
  The first component: it ends without an exception; the second: what it starts without waiting does,
  so that behind a \<open>try\<close> it does too.
\<close>

primrec calmness :: "('s, 'q, 'a, 'o, 'e) prog \<Rightarrow> bool \<times> bool" where
  "calmness (End r) = (r = None, True)"
| "calmness (Update f p) = calmness p"
| "calmness (Look g) = ((\<forall>s. fst (calmness (g s))), (\<forall>s. snd (calmness (g s))))"
| "calmness (Request q g) = ((\<forall>r. fst (calmness (g r))), (\<forall>r. snd (calmness (g r))))"
| "calmness (Emit x p) = calmness p"
| "calmness (Spawn p q) = (fst (calmness p) \<and> fst (calmness q), fst (calmness p) \<and> snd (calmness q))"
| "calmness (All ps g) =
     (let firm = list_all fst (map calmness ps); soft = list_all snd (map calmness ps)
      in (firm \<and> fst (calmness (g None)) \<or> soft \<and> (\<forall>r. fst (calmness (g r))),
          firm \<and> snd (calmness (g None)) \<or> soft \<and> (\<forall>r. snd (calmness (g r)))))"

definition calm :: "('s, 'q, 'a, 'o, 'e) prog \<Rightarrow> bool" where "calm p = fst (calmness p)"

definition calm_spawns :: "('s, 'q, 'a, 'o, 'e) prog \<Rightarrow> bool" where "calm_spawns p = snd (calmness p)"

lemma calm_simps [simp]:
  "calm (End r) \<longleftrightarrow> r = None" "calm (Update f p) \<longleftrightarrow> calm p" "calm (Look h) \<longleftrightarrow> (\<forall>s. calm (h s))"
  "calm (Request q g) \<longleftrightarrow> (\<forall>r. calm (g r))" "calm (Emit x p) \<longleftrightarrow> calm p"
  "calm (Spawn p q') \<longleftrightarrow> calm p \<and> calm q'"
  "calm (All ps k) \<longleftrightarrow> (\<forall>p \<in> set ps. calm p) \<and> calm (k None)
     \<or> (\<forall>p \<in> set ps. calm_spawns p) \<and> (\<forall>r. calm (k r))"
  by (simp_all add: calm_def calm_spawns_def list_all_iff Let_def)

lemma calm_spawns_simps [simp]:
  "calm_spawns (End r)" "calm_spawns (Update f p) \<longleftrightarrow> calm_spawns p"
  "calm_spawns (Look h) \<longleftrightarrow> (\<forall>s. calm_spawns (h s))" "calm_spawns (Request q g) \<longleftrightarrow> (\<forall>r. calm_spawns (g r))"
  "calm_spawns (Emit x p) \<longleftrightarrow> calm_spawns p" "calm_spawns (Spawn p q') \<longleftrightarrow> calm p \<and> calm_spawns q'"
  "calm_spawns (All ps k) \<longleftrightarrow> (\<forall>p \<in> set ps. calm p) \<and> calm_spawns (k None)
     \<or> (\<forall>p \<in> set ps. calm_spawns p) \<and> (\<forall>r. calm_spawns (k r))"
  by (simp_all add: calm_def calm_spawns_def list_all_iff Let_def)

lemma calm_imp_spawns: "calm p \<Longrightarrow> calm_spawns p"
  by (induction p) auto

lemma calm_handing_on: "calm p \<Longrightarrow> calm (k None) \<Longrightarrow> (\<And>e. calm_spawns (k (Some e))) \<Longrightarrow> calm (handing_on p k)"
  by (induction p) auto

lemma calm_await [intro]: "calm p \<Longrightarrow> calm q \<Longrightarrow> calm (await p q)"
  by (simp add: await_def calm_handing_on)

lemma calm_spawns_handing_on:
  "calm_spawns p \<Longrightarrow> (\<And>r. calm_spawns (k r)) \<Longrightarrow> calm_spawns (handing_on p k)"
  by (induction p) auto

lemma calm_spawns_await [intro]: "calm_spawns p \<Longrightarrow> calm_spawns q \<Longrightarrow> calm_spawns (await p q)"
  unfolding await_def by (rule calm_spawns_handing_on) (auto split: option.split)

lemma calm_try:
  assumes "calm_spawns p" "\<And>e. calm (h e)" shows "calm (try_catching p h)"
  using assms(1) unfolding try_catching_def
  by (induction p) (auto simp: assms(2) split: option.split)

lemma calm_hush: "calm_spawns p \<Longrightarrow> calm (hush p)"
  unfolding hush_def by (rule calm_try) simp_all

lemma calm_prims [simp]:
  "calm fin" "calm (set_state f)" "\<not> calm (throwing e)"
  "calm_spawns fin" "calm_spawns (set_state f)" "calm_spawns (throwing e)"
  "calm_spawns (asking q k) \<longleftrightarrow> (\<forall>a. calm_spawns (k a))"
  by (auto simp: prog_defs split: sum.splits)

lemma pstep_calmness:
  fixes p :: "('s, 'q, 'a, 'o, 'e) prog"
  assumes "pstep ok s p s' p' sp xs"
  shows "(calm p \<longrightarrow> calm p') \<and> (calm_spawns p \<longrightarrow> calm_spawns p') \<and> (calm_spawns p \<longrightarrow> (\<forall>q \<in> set sp. calm q))"
  using assms
proof (induction rule: pstep.induct)
  case (all_step i ps s s' p' sp xs g)
  have "ps ! i \<in> set ps" using all_step.hyps(1) by simp
  then show ?case
    using all_step.IH calm_imp_spawns [of "ps ! i"] by (auto dest!: set_update_subset_insert [THEN subsetD])
next
  case (all_fail i ps e s g)
  have "\<not> calm (End (Some e) :: ('s, 'q, 'a, 'o, 'e) prog)" by simp
  then have "\<not> (\<forall>p \<in> set ps. calm p)" using all_fail.hyps nth_mem by metis
  then show ?case by (auto intro!: calm_hush dest: in_set_takeD in_set_dropD)
qed auto

lemma pstep_calm:
  assumes "pstep ok s p s' p' sp xs" "calm p"
  shows "calm p' \<and> (\<forall>q \<in> set sp. calm q)"
  using pstep_calmness [OF assms(1)] calm_imp_spawns assms(2) by blast

lemma reachable_calm:
  assumes "(cstep ok)\<^sup>*\<^sup>* c c'" "\<forall>p \<in># fst (snd c). calm p"
  shows "\<forall>p \<in># fst (snd c'). calm p"
  using assms
proof (induction rule: rtranclp_induct)
  case (step c' c'')
  from step(2) step.IH [OF step.prems] show ?case
    by (induction rule: cstep.induct) (use pstep_calm in fastforce)
qed

end
