(* ===== verification/CheckoutServices.thy ===== *)
theory CheckoutServices
  imports CheckoutSelectors ServiceMonad
begin

text \<open>
  The services of the checkout form, \<open>services/checkout/src/store/*/services.ts\<close>, as programs over its
  store: what they ask of the API and of the shop's page, what they do with every reply and every
  error, and which services they start without waiting for them.

  A \<open>dispatch\<close> of a mutator is one step, whether it is awaited or not.  An exception thrown by the
  code itself is \<open>type_error\<close>; so is reading a reply that lacks what the code reads.  Counters and logs
  are left out: nothing in the store depends on them.
\<close>

section \<open>What the services ask, and what may be answered\<close>

text \<open>A plan of split payments as the API sends it.\<close>

record RawPayment =
  rpm_status :: string
  rpm_datetime :: string
  rpm_amount :: string

record RawPlan =
  rpl_id :: "string option"
  rpl_sum :: "string option"
  rpl_payments :: "RawPayment list"

datatype request =
    RqSettings
  | RqUpdateSettings UserSettings
  | RqPing
  | RqCashback Sheet string
  | RqSplitPlans Sheet
  | RqAddresses
  | RqGeocode string
  | RqCreateAddress AddressFormData
  | RqUpdateAddress string AddressFormData
  | RqDeleteAddress string
  | RqContacts
  | RqCreateContact ContactFormData
  | RqUpdateContact string ContactFormData
  | RqDeleteContact string
  | RqCards
  | RqSyncCard string
  | RqShippingAddress Address
  | RqShippingOption ShippingOption
  | RqShippingReset
  | RqCoupon string
  | RqCouponReset
  | RqPickupBounds GeoBounds GeoPoint
  | RqPickupInfo string
  | RqPickupPoint PickupPoint
  | RqSetup
  | RqSheet int
  | RqServerSheet int Sheet
  | RqValidate string Sheet

datatype response =
    RsDone
  | RsSettings UserSettings
  | RsCashback PaymentCashback
  | RsPlans "RawPlan list"
  | RsAddresses "ApiAddress list"
  | RsGeocode Geocode GeoPoint
  | RsAddress ApiAddress
  | RsContacts "ApiContact list"
  | RsContact ApiContact
  | RsCards "UserCard list"
  | RsCardId string
  | RsOptions "ShippingOption list"
  | RsOrder "SheetOrder option"
  | RsPoints "RawPickupPoint list option"
  | RsPoint "PickupPoint option"
  | RsSheet Sheet

fun settings_of :: "response \<Rightarrow> UserSettings option" where
  "settings_of (RsSettings u) = Some u" | "settings_of _ = None"
fun cashback_of :: "response \<Rightarrow> PaymentCashback option" where
  "cashback_of (RsCashback c) = Some c" | "cashback_of _ = None"
fun plans_of :: "response \<Rightarrow> RawPlan list option" where
  "plans_of (RsPlans ps) = Some ps" | "plans_of _ = None"
fun addresses_of :: "response \<Rightarrow> ApiAddress list option" where
  "addresses_of (RsAddresses as) = Some as" | "addresses_of _ = None"
fun geocode_of :: "response \<Rightarrow> (Geocode \<times> GeoPoint) option" where
  "geocode_of (RsGeocode g p) = Some (g, p)" | "geocode_of _ = None"
fun address_of :: "response \<Rightarrow> ApiAddress option" where
  "address_of (RsAddress a) = Some a" | "address_of _ = None"
fun contacts_of :: "response \<Rightarrow> ApiContact list option" where
  "contacts_of (RsContacts cs) = Some cs" | "contacts_of _ = None"
fun contact_of :: "response \<Rightarrow> ApiContact option" where
  "contact_of (RsContact c) = Some c" | "contact_of _ = None"
fun cards_of :: "response \<Rightarrow> UserCard list option" where
  "cards_of (RsCards cs) = Some cs" | "cards_of _ = None"
fun card_id_of :: "response \<Rightarrow> string option" where
  "card_id_of (RsCardId i) = Some i" | "card_id_of _ = None"
fun options_of :: "response \<Rightarrow> ShippingOption list option" where
  "options_of (RsOptions opts) = Some opts" | "options_of _ = None"
fun order_of :: "response \<Rightarrow> SheetOrder option option" where
  "order_of (RsOrder o') = Some o'" | "order_of _ = None"
fun points_of :: "response \<Rightarrow> RawPickupPoint list option option" where
  "points_of (RsPoints ps) = Some ps" | "points_of _ = None"
fun point_of :: "response \<Rightarrow> PickupPoint option option" where
  "point_of (RsPoint p) = Some p" | "point_of _ = None"
fun sheet_in :: "response \<Rightarrow> Sheet option" where
  "sheet_in (RsSheet s) = Some s" | "sheet_in _ = None"
fun anything :: "response \<Rightarrow> unit option" where
  "anything _ = Some ()"

text \<open>What the rest of the page sees: navigation, the start of a payment, the map's script.\<close>

datatype effect =
    FxGoTo string
  | FxReplace "PathObj option"
  | FxStartPayment "string option"
  | FxLoadMapScript
  | FxFormError string "string option"

text \<open>
  The store, and the counter \<open>fetchPickupPointsCounter\<close> of the module; the code the checkout only
  uses: the page's settings, library functions, the time zone, the query of the page's address, the
  shop's origin, \<open>new Date(text)\<close>, cosine, \<open>shuffle\<close>, \<open>isEmpty\<close>, and \<open>pick\<close> of something undefined.
\<close>

record store =
  root :: RootState
  fetchPickupPointsCounter :: int

record env =
  ev_cfg :: checkout_config
  ev_lib :: tinkoff
  ev_tz :: int
  ev_query :: string
  ev_origin :: string
  ev_date :: "string \<Rightarrow> time"
  ev_cos :: "jsnum \<Rightarrow> jsnum"
  ev_shuffle :: "GeoPoint list \<Rightarrow> GeoPoint list"
  ev_isEmpty_str :: "string option \<Rightarrow> bool"
  ev_isEmpty_num :: "int option \<Rightarrow> bool"
  ev_pick_undefined :: "compared option"
  ev_head :: "RawPlan list \<Rightarrow> RawPlan option"
  ev_toArray :: "RawPayment list \<Rightarrow> RawPayment list"

type_synonym svc = "(store, request, response, effect, caught) prog"

definition type_error :: caught where
  "type_error = \<lparr>cg_text = ''TypeError'', cg_is_string = False, cg_code = None, cg_message = None, cg_params = None\<rparr>"

definition mut :: "(RootState \<Rightarrow> RootState) \<Rightarrow> svc" where
  "mut f = set_state (\<lambda>s. s\<lparr>root := f (root s)\<rparr>)"

definition look :: "(RootState \<Rightarrow> svc) \<Rightarrow> svc" where
  "look g = Look (\<lambda>s. g (root s))"

definition ask_for :: "request \<Rightarrow> (response \<Rightarrow> 'b option) \<Rightarrow> ('b \<Rightarrow> svc) \<Rightarrow> svc" where
  "ask_for q get k = asking q (\<lambda>a. case get a of None \<Rightarrow> throwing type_error | Some x \<Rightarrow> k x)"

definition in_order :: "svc list \<Rightarrow> svc" where
  "in_order ps = foldr await ps fin"

text \<open>\<open>if (next) { await next(); }\<close>.\<close>

definition and_then :: "svc option \<Rightarrow> svc" where
  "and_then nxt = (case nxt of None \<Rightarrow> fin | Some p \<Rightarrow> p)"

text \<open>The errors: a reason, a text, what the button does and what it says.\<close>

definition an_error :: "string \<Rightarrow> UiText \<Rightarrow> err_action option \<Rightarrow> AppError" where
  "an_error r description action =
     \<lparr>ae_reason = r, ae_message = None, ae_description = Some description, ae_action = action,
      ae_actionText = None, ae_useActionButton = None\<rparr>"

definition no_settings :: UserSettings where
  "no_settings = \<lparr>ut_cardId = None, ut_addressId = None, ut_contactId = None, ut_isCheckoutOnboarded = None\<rparr>"

definition path_DirectShipping :: "string \<Rightarrow> string" where
  "path_DirectShipping query = BASE_ROUTE @ ''/shipping'' @ query"
definition path_PickupSelected :: "string \<Rightarrow> string" where
  "path_PickupSelected query = BASE_ROUTE @ ''/pickup/selected'' @ query"
definition path_CouponSelected :: "string \<Rightarrow> string" where
  "path_CouponSelected query = BASE_ROUTE @ ''/coupon'' @ query"

section \<open>The user's settings and errors\<close>

definition loadUserState :: svc where
  "loadUserState =
     try_catching (ask_for RqSettings settings_of (\<lambda>res. mut (setUserState (userState res))))
       (\<lambda>e. mut (setUserState getEmptyUserState))"

definition saveUserState :: "UserSettings \<Rightarrow> svc" where
  "saveUserState userSettings =
     try_catching (ask_for (RqUpdateSettings userSettings) settings_of (\<lambda>res. in_order
       [if truthy (ut_addressId userSettings) then mut (setObStepOnboarded ObdAddress) else fin,
        if truthy (ut_contactId userSettings) then mut (setObStepOnboarded ObdContact) else fin]))
       (\<lambda>e. fin)"

definition setErrorWithPingOpener :: "AppError \<Rightarrow> svc option \<Rightarrow> svc" where
  "setErrorWithPingOpener err finallyFn =
     await (try_catching (ask_for RqPing anything (\<lambda>_. mut (setErrorScreenWithClose
              \<lparr>ae_reason = ae_reason err, ae_message = None, ae_description = ae_description err,
               ae_action = ae_action err, ae_actionText = ae_actionText err, ae_useActionButton = None\<rparr>)))
            (\<lambda>e. mut (setErrorScreen (Some
              \<lparr>ae_reason = ae_reason err, ae_message = None, ae_description = ae_description err,
               ae_action = None, ae_actionText = None, ae_useActionButton = None\<rparr>))))
       (and_then finallyFn)"

section \<open>The payment's conditions\<close>

definition loadCashback :: svc where
  "loadCashback =
     try_catching (look (\<lambda>s. let sheet = getSheet s; cardId = getActivePaymentId s in
         if cardId = CASH_KEY then mut resetCashback
         else ask_for (RqCashback sheet cardId) cashback_of (\<lambda>cashback. mut (setCashback (a_success cashback)))))
       (\<lambda>e. mut (setCashback (a_error ''Unable to load cashback'')))"

definition splitPlan :: "env \<Rightarrow> RawPlan list \<Rightarrow> SplitPlan option" where
  "splitPlan ev plans =
     map_option (\<lambda>plan.
       \<lparr>spl_id = or_else (rpl_id plan) [], spl_sum = or_else (rpl_sum plan) [],
        spl_payments = map (\<lambda>payment.
          \<lparr>spp_status = rpm_status payment, spp_datetime = ev_date ev (rpm_datetime payment),
           spp_amount = rpm_amount payment\<rparr>) (ev_toArray ev (rpl_payments plan))\<rparr>)
     (ev_head ev plans)"

definition togglePayWithSplit :: "bool option \<Rightarrow> svc" where
  "togglePayWithSplit forceValue = mut (\<lambda>s.
     setPayWithSplit (case forceValue of Some v \<Rightarrow> v | None \<Rightarrow> \<not> isPayWithSplit s) s)"

definition loadSplitPlan :: "env \<Rightarrow> svc" where
  "loadSplitPlan ev =
     try_catching (look (\<lambda>s. let sheet = getSheet s in
         if \<not> isSplitAvailable s then fin
         else ask_for (RqSplitPlans sheet) plans_of (\<lambda>plans.
                case splitPlan ev plans of None \<Rightarrow> fin | Some plan \<Rightarrow> mut (setSplitPlan (a_success plan)))))
       (\<lambda>e. mut (setSplitPlan (a_error ''Unable to load splitPlan'')))"

definition updatePaymentInfo :: "env \<Rightarrow> svc" where
  "updatePaymentInfo ev =
     await (mut (\<lambda>s. setSplitAvailable (sheet_isSplitAvailable (ev_cfg ev) (ev_lib ev) (getSheet s)) s))
       (All [loadCashback, loadSplitPlan ev] End)"

section \<open>Delivery options\<close>

definition resetShippingOption :: "env \<Rightarrow> svc option \<Rightarrow> svc" where
  "resetShippingOption ev nxt =
     await (try_catching (await (mut (setSelectShippingOptions a_pending))
         (ask_for RqShippingReset order_of (\<lambda>order. in_order
           [mut (shipping_setSelectedId []), mut (setSheetOrder order), updatePaymentInfo ev,
            mut (setSelectShippingOptions (a_success ()))])))
       (\<lambda>e. mut (setSelectShippingOptions (a_error ''error_reset''))))
     (and_then nxt)"

definition selectShippingOption :: "env \<Rightarrow> string \<Rightarrow> svc option \<Rightarrow> svc" where
  "selectShippingOption ev selectedId nxt =
     await (look (\<lambda>s. case findShippingOption s selectedId of
         None \<Rightarrow> fin
       | Some shippingOption \<Rightarrow>
           try_catching (await (mut (setSelectShippingOptions a_pending))
             (ask_for (RqShippingOption shippingOption) order_of (\<lambda>order. in_order
               [mut (shipping_setSelectedId selectedId), mut (setSheetOrder order), updatePaymentInfo ev,
                mut (setSelectShippingOptions (a_success ()))])))
           (\<lambda>e. Spawn (setErrorWithPingOpener
               ((an_error ''error_select_shipping_option'' TxtOptionNotSelected
                  (Some (GoToAndReset (path_DirectShipping (ev_query ev)) SlotSelectShipping)))
                \<lparr>ae_actionText := Some TxtRepeat\<rparr>)
               (Some (mut (setSelectShippingOptions (a_error ''error_select''))))) fin)))
     (and_then nxt)"

definition refreshShippingOptionsList :: "env \<Rightarrow> svc" where
  "refreshShippingOptionsList ev =
     look (\<lambda>s. case getSelectedAddress s of
       None \<Rightarrow> fin
     | Some a \<Rightarrow>
         await (mut (setShippingOptionsList a_pending))
           (try_catching (ask_for (RqShippingAddress a) options_of (\<lambda>shippingOptions. in_order
               [mut (setShippingOptionsList (a_success shippingOptions)),
                mut (setDisableShippingOptions (length shippingOptions = 0)),
                look (\<lambda>s. case getOptionIdToSelect (ev_tz ev) (getSelectedShippingOptionId s) shippingOptions of
                   None \<Rightarrow> throwing type_error
                 | Some nextOptionId \<Rightarrow>
                     if nextOptionId = [] then Spawn (resetShippingOption ev None) fin
                     else Spawn (selectShippingOption ev nextOptionId None) fin)]))
             (\<lambda>e. Spawn (setErrorWithPingOpener
                 ((an_error ''error_refresh_shipping_options_list'' TxtOptionsNotLoaded (Some ReloadShipping))
                  \<lparr>ae_actionText := Some TxtRepeat\<rparr>)
                 (Some (mut (setShippingOptionsList (a_error ''error_refresh''))))) fin)))"

definition selectShippingType :: "ShippingType \<Rightarrow> svc option \<Rightarrow> svc" where
  "selectShippingType ty nxt =
     await (mut (setSelectedShippingType ty)) (case nxt of None \<Rightarrow> fin | Some p \<Rightarrow> Spawn p fin)"

section \<open>Addresses\<close>

definition refreshAddressList :: "env \<Rightarrow> string option \<Rightarrow> svc" where
  "refreshAddressList ev selectedId =
     await (mut (setAddressList a_pending))
       (try_catching (ask_for RqAddresses addresses_of (\<lambda>results.
           mut (setAddressList (a_success (sortAddressList (ev_lib ev) (addressesList results) selectedId)))))
         (\<lambda>e. in_order
           [mut (setAddressList (a_error ''error_refresh'')),
            mut (setErrorScreenWithRefresh (an_error ''error_refresh_address_list'' TxtAddressesNotLoaded
                   (Some (ResetSlot SlotAddressList))))]))"

definition selectAddress :: "env \<Rightarrow> string \<Rightarrow> (Address option \<Rightarrow> svc) option \<Rightarrow> bool \<Rightarrow> svc" where
  "selectAddress ev selectedId nxt initialSet =
     in_order
       [mut (addr_setSelectedId selectedId), selectShippingType ShDirect None,
        look (\<lambda>s. let a = getAddressById s selectedId in in_order
          [Spawn (refreshShippingOptionsList ev) fin,
           if \<not> initialSet then saveUserState (no_settings\<lparr>ut_addressId := Some selectedId\<rparr>) else fin,
           and_then (map_option (\<lambda>k. k a) nxt)])]"

definition createAddress :: "env \<Rightarrow> AddressFormData \<Rightarrow> svc \<Rightarrow> svc" where
  "createAddress ev formData nxt =
     await (mut (setAddAddress a_pending))
       (try_catching (ask_for (RqGeocode (fd_address formData)) geocode_of (\<lambda>(info, place).
           let newAddress = geocoded formData info
           in in_order
             [look (\<lambda>s. case List.find (\<lambda>item. addr_isEqual (ev_lib ev) item newAddress) (getAddressList s) of
                 Some existingSameAddress \<Rightarrow> selectAddress ev (ad_id existingSameAddress) None False
               | None \<Rightarrow> ask_for (RqCreateAddress newAddress) address_of (\<lambda>res. in_order
                   [refreshAddressList ev None, selectAddress ev (ad_id (parseAddress res)) None False])),
              mut resetAddAddress, mut (setAddAddress (a_success ())), nxt]))
         (\<lambda>e. in_order
           [mut (setAddAddress (a_error ''error_add'')),
            mut (setErrorScreenWithClose (an_error ''error_create_address'' TxtCardNotSaved
                   (Some (ResetSlot SlotAddAddress))))]))"

definition deleteAddress :: "env \<Rightarrow> string \<Rightarrow> svc option \<Rightarrow> svc" where
  "deleteAddress ev addressId nxt =
     await (mut (setDeleteAddress a_pending))
       (try_catching (ask_for (RqDeleteAddress addressId) anything (\<lambda>_. in_order
           [refreshAddressList ev None, mut (setDeleteAddress (a_success ())), and_then nxt]))
         (\<lambda>e. in_order
           [mut (setDeleteAddress (a_error ''error_add'')),
            mut (setErrorScreenWithClose (an_error ''error_delete_address'' TxtAddressNotDeleted
                   (Some (ResetSlot SlotDeleteAddress))))]))"

text \<open>\<open>isEqual(address, form)\<close> where the address may be missing: \<open>pick\<close> of nothing may throw (\<open>None\<close>).\<close>

definition maybe_isEqual :: "env \<Rightarrow> Address option \<Rightarrow> AddressFormData \<Rightarrow> bool option" where
  "maybe_isEqual ev a f =
     (case a of Some x \<Rightarrow> Some (addr_isEqual (ev_lib ev) x f)
      | None \<Rightarrow> map_option (\<lambda>c. tk_equal (ev_lib ev) c (form_for_compare f)) (ev_pick_undefined ev))"

definition updateAddress :: "env \<Rightarrow> string \<Rightarrow> AddressFormData \<Rightarrow> svc \<Rightarrow> svc" where
  "updateAddress ev addressId formData nxt =
     await (mut (setEditAddress a_pending))
       (try_catching (ask_for (RqGeocode (fd_address formData)) geocode_of (\<lambda>(info, place).
           let nextAddressData = geocoded formData info
           in in_order
             [look (\<lambda>s.
                let a = getAddressById s addressId;
                    existingSameAddress = List.find (\<lambda>item. addr_isEqual (ev_lib ev) item nextAddressData) (getAddressList s)
                in case maybe_isEqual ev a nextAddressData of
                     None \<Rightarrow> throwing type_error
                   | Some True \<Rightarrow> await (mut resetEditAddress)
                       (case a of None \<Rightarrow> throwing type_error | Some x \<Rightarrow> selectAddress ev (ad_id x) None False)
                   | Some False \<Rightarrow>
                       (case existingSameAddress of
                          Some same \<Rightarrow> in_order
                            [deleteAddress ev addressId None, selectAddress ev (ad_id same) None False]
                        | None \<Rightarrow>
                            ask_for (if addr_isPayOwner a then RqUpdateAddress addressId nextAddressData
                                     else RqCreateAddress nextAddressData) address_of (\<lambda>res. in_order
                              [refreshAddressList ev None, selectAddress ev (ad_id (parseAddress res)) None False]))),
              mut resetEditAddress, mut (setEditAddress (a_success ())), nxt]))
         (\<lambda>e. in_order
           [mut (setEditAddress (a_error ''error_add'')),
            mut (setErrorScreenWithClose (an_error ''error_update_address'' TxtAddressNotUpdated
                   (Some (ResetSlot SlotEditAddress))))]))"

section \<open>Contacts\<close>

text \<open>\<open>contactsList.splice(i, 1)\<close>.\<close>

definition without_nth :: "int \<Rightarrow> 'a list \<Rightarrow> 'a list" where
  "without_nth i xs = take (nat i) xs @ drop (Suc (nat i)) xs"

definition refreshContactList :: svc where
  "refreshContactList =
     await (mut (setContactList a_pending))
       (try_catching (ask_for RqContacts contacts_of (\<lambda>results.
           let list = contactsList results;
               passportContactIndex = find_index (\<lambda>item. isPassportOwner (Some item)) list
           in if passportContactIndex \<noteq> -1
              then if length list = 1
                   then Request (RqCreateContact (form_of_contact (list ! 0))) (\<lambda>r.
                          case r of
                            Inr (RsContact c) \<Rightarrow> mut (setContactList (a_success [parseContact c]))
                          | _ \<Rightarrow> mut (setContactList (a_success list)))
                   else mut (setContactList (a_success (without_nth passportContactIndex list)))
              else mut (setContactList (a_success list))))
         (\<lambda>e. in_order
           [mut (setContactList (a_error ''error_refresh'')),
            mut (setErrorScreenWithRefresh (an_error ''error_refresh_contact_list'' TxtContactsNotLoaded
                   (Some (ResetSlot SlotContactList))))]))"

definition selectContact :: "string \<Rightarrow> svc option \<Rightarrow> bool \<Rightarrow> svc" where
  "selectContact selectedId nxt initialSet =
     in_order
       [mut (contact_setSelectedId selectedId),
        if \<not> initialSet then saveUserState (no_settings\<lparr>ut_contactId := Some selectedId\<rparr>) else fin,
        and_then nxt]"

definition createContact :: "ContactFormData \<Rightarrow> svc option \<Rightarrow> svc" where
  "createContact formData nxt =
     await (mut (setAddContact a_pending))
       (try_catching (ask_for (RqCreateContact formData) contact_of (\<lambda>res. in_order
           [refreshContactList, selectContact (ct_id (parseContact res)) None False,
            mut (setAddContact (a_success ())), and_then nxt]))
         (\<lambda>e. in_order
           [mut (setAddContact (a_error ''error_add'')),
            mut (setErrorScreenWithClose (an_error ''error_create_contact'' TxtContactNotCreated
                   (Some (ResetSlot SlotAddContact))))]))"

definition updateContact :: "env \<Rightarrow> string \<Rightarrow> ContactFormData \<Rightarrow> svc \<Rightarrow> svc" where
  "updateContact ev contactId formData nxt =
     await (mut (setEditContact a_pending))
       (try_catching (in_order
           [look (\<lambda>s. let contact = getContactById s contactId in
              if \<not> contact_isEqual (ev_lib ev) contact formData
              then ask_for (if contact_isPayOwner contact then RqUpdateContact contactId formData
                            else RqCreateContact formData) contact_of (\<lambda>res. in_order
                     [refreshContactList, selectContact (ct_id (parseContact res)) None False])
              else case contact of None \<Rightarrow> throwing type_error
                   | Some c \<Rightarrow> selectContact (ct_id c) None False),
            mut (setEditContact (a_success ())), nxt])
         (\<lambda>e. in_order
           [mut (setEditContact (a_error ''error_add'')),
            mut (setErrorScreenWithClose (an_error ''error_update_contact'' TxtContactNotUpdated
                   (Some (ResetSlot SlotEditContact))))]))"

definition deleteContact :: "string \<Rightarrow> svc \<Rightarrow> svc" where
  "deleteContact contactId nxt =
     await (mut (setDeleteContact a_pending))
       (look (\<lambda>s.
          if length (getContactList s) = 1
          then in_order
            [mut (setErrorScreen (Some
               \<lparr>ae_reason = ''REMOVE_LAST_CONTACT_ERROR'', ae_message = Some TxtLastContact,
                ae_description = Some TxtAddContactFirst, ae_action = Some ResetError,
                ae_actionText = Some TxtCancel, ae_useActionButton = None\<rparr>)),
             mut (setDeleteContact (a_error ''error_delete''))]
          else try_catching (ask_for (RqDeleteContact contactId) anything (\<lambda>_. in_order
                 [refreshContactList, mut (setDeleteContact (a_success ())), nxt]))
               (\<lambda>e. in_order
                 [mut (setDeleteContact (a_error ''error_add'')),
                  mut (setErrorScreenWithClose (an_error ''error_delete_contact'' TxtContactNotDeleted
                         (Some (ResetSlot SlotDeleteContact))))])))"

section \<open>Payment methods\<close>

definition selectPaymentMethod :: "string \<Rightarrow> svc option \<Rightarrow> bool \<Rightarrow> svc" where
  "selectPaymentMethod paymentMethodId nxt initialSet =
     in_order
       [mut (methods_setSelectedId paymentMethodId),
        Spawn loadCashback fin,
        if paymentMethodId \<noteq> NEW_CARD_KEY \<and> \<not> initialSet
        then saveUserState (no_settings\<lparr>ut_cardId := Some paymentMethodId\<rparr>) else fin,
        and_then nxt]"

definition refreshPaymentMethods :: "env \<Rightarrow> string \<Rightarrow> svc" where
  "refreshPaymentMethods ev cardId =
     try_catching (ask_for RqCards cards_of (\<lambda>cards0.
         let cards = sortUserCards cards0 cardId
         in look (\<lambda>s. let disabledCardsIds = getDisabledCardsIds (ev_lib ev) cards (getSheet s);
                           paymentMethods = getPaymentMethodsByUserCards cards disabledCardsIds
                       in mut (setPaymentMethods (a_success paymentMethods)))))
       (\<lambda>e. in_order
         [mut (setPaymentMethods (a_error ''error_refresh'')),
          mut (setErrorScreenWithRefresh (an_error ''error_refresh_payment_methods'' TxtCardsNotLoaded
                 (Some (ResetSlot SlotPaymentMethods))))])"

definition selectBindedCard :: "env \<Rightarrow> string \<Rightarrow> (string \<Rightarrow> svc) option \<Rightarrow> svc" where
  "selectBindedCard ev trustCardId nxt =
     ask_for (RqSyncCard trustCardId) card_id_of (\<lambda>cardId. in_order
       [refreshPaymentMethods ev cardId, Spawn (selectPaymentMethod cardId None False) fin,
        and_then (map_option (\<lambda>k. k cardId) nxt)])"

section \<open>Coupons\<close>

text \<open>
  After an error that is not a text, the field is marked whatever the ping says; the promise of the
  ping is not waited for, so if the ping fails, its error stays unhandled.
\<close>

definition validateCoupon :: "env \<Rightarrow> string \<Rightarrow> svc option \<Rightarrow> svc" where
  "validateCoupon ev code nxt =
     await (mut (setCoupon a_pending))
       (if length (js_trim code) = 0
        then mut (setCoupon (a_error ''empty_field''))
        else try_catching (ask_for (RqCoupon code) order_of (\<lambda>order. in_order
               [mut (setCoupon (a_success code)), mut (setSheetOrder order), updatePaymentInfo ev,
                and_then nxt]))
             (\<lambda>e. if cg_is_string e then mut (setCoupon (a_error (cg_text e)))
                  else Spawn (Request RqPing (\<lambda>r. await (mut (setCoupon (a_error ''coupon_check_failed'')))
                                (case r of Inl e' \<Rightarrow> throwing e' | Inr _ \<Rightarrow> fin))) fin))"

definition removeCoupon :: "env \<Rightarrow> svc option \<Rightarrow> svc" where
  "removeCoupon ev nxt =
     await (mut (setRemoveCoupon a_pending))
       (try_catching (ask_for RqCouponReset order_of (\<lambda>order. in_order
           [mut (setRemoveCoupon (a_success ())), mut (setSheetOrder order), updatePaymentInfo ev, and_then nxt]))
         (\<lambda>e. Spawn (setErrorWithPingOpener
             ((an_error ''error_remove_coupon'' TxtCouponNotRemoved
                (Some (GoTo (path_CouponSelected (ev_query ev))))) \<lparr>ae_actionText := Some TxtRepeat\<rparr>)
             (Some (mut (setRemoveCoupon (a_error ''error_send''))))) fin))"

section \<open>Pickup points\<close>

definition setNewPickupPoints :: "RawPickupPoint list option \<Rightarrow> svc" where
  "setNewPickupPoints newPickupPoints =
     (case newPickupPoints of
        None \<Rightarrow> fin
      | Some raws \<Rightarrow>
          (case pickupPointsList raws of
             None \<Rightarrow> throwing type_error
           | Some points \<Rightarrow> mut (\<lambda>s. setPickupPointsList (parsePickupPoints (getPickupPointsList s) points) s)))"

definition setInitialPickupPoints :: "env \<Rightarrow> RawPickupPoint list \<Rightarrow> svc" where
  "setInitialPickupPoints ev raws =
     (case pickupPointsList raws of
        None \<Rightarrow> throwing type_error
      | Some pickupPoints \<Rightarrow>
          let points = parsePickupPoints [] pickupPoints;
              center = getCenterByInitialPoints (ev_cos ev) (ev_shuffle ev) points;
              bounds = getBoundsByInitialPoints points
          in if center \<noteq> None \<and> bounds \<noteq> None
             then in_order
               [mut (setPickupMapState (the center) (getMinZoomForFetch (innerSize (ev_cfg ev)))),
                mut (setPickupPoints (a_success \<lparr>ptd_bounds = bounds, ptd_list = points\<rparr>))]
             else fin)"

text \<open>The counter of requests under way and the state of the list change in one go.\<close>

definition count_down :: "PointPatch adata \<Rightarrow> store \<Rightarrow> store" where
  "count_down patch s =
     (let n = fetchPickupPointsCounter s - 1
      in s\<lparr>fetchPickupPointsCounter := n,
           root := (if n = 0 then patchPickupPoints patch (root s) else root s)\<rparr>)"

definition no_patch :: PointPatch where "no_patch = \<lparr>ptp_bounds = None, ptp_list = None\<rparr>"

definition fetchPickupPoints :: "GeoBounds \<Rightarrow> GeoPoint \<Rightarrow> svc" where
  "fetchPickupPoints bounds center =
     await (mut (patchPickupPoints \<lparr>status = Pending, result = Some (no_patch\<lparr>ptp_bounds := Some bounds\<rparr>), reason = None\<rparr>))
       (try_catching (await (set_state (\<lambda>s. s\<lparr>fetchPickupPointsCounter := fetchPickupPointsCounter s + 1\<rparr>))
           (ask_for (RqPickupBounds bounds center) points_of (\<lambda>pickupPoints. in_order
             [setNewPickupPoints pickupPoints, set_state (count_down (a_success no_patch))])))
         (\<lambda>e. set_state (count_down (a_error ''Error while fetching pickup points''))))"

definition requestPickupInfo :: "env \<Rightarrow> PickupPoint \<Rightarrow> svc" where
  "requestPickupInfo ev pickupPoint =
     look (\<lambda>s.
       if \<not> isPickupPointHasInfo (ev_isEmpty_str ev) (ev_isEmpty_num ev) s
       then try_catching (ask_for (RqPickupInfo (pp_id pickupPoint)) point_of (\<lambda>res.
              case res of None \<Rightarrow> fin | Some point \<Rightarrow> mut (updateSelectedPoint point)))
            (\<lambda>e. Spawn (setErrorWithPingOpener
               ((an_error ''error_request_pickup_info'' TxtPointNotLoaded
                  (Some (GoTo (path_PickupSelected (ev_query ev))))) \<lparr>ae_actionText := Some TxtRepeat\<rparr>) None) fin)
       else fin)"

definition selectPickupPoint :: "PickupPoint \<Rightarrow> svc option \<Rightarrow> svc" where
  "selectPickupPoint pickupPoint nxt =
     await (mut (setSelectedPickupPoint pickupPoint)) (case nxt of None \<Rightarrow> fin | Some p \<Rightarrow> Spawn p fin)"

definition sendPickupPoint :: "env \<Rightarrow> svc option \<Rightarrow> svc" where
  "sendPickupPoint ev nxt =
     await (look (\<lambda>s. case getPickupSelectedPoint s of
         None \<Rightarrow> fin
       | Some pickupPoint \<Rightarrow>
           try_catching (await (mut (setSendPickupPoint a_pending))
             (ask_for (RqPickupPoint pickupPoint) order_of (\<lambda>order. in_order
               [selectShippingType ShPickup None, mut (setSheetOrder order), updatePaymentInfo ev,
                mut (setObStepOnboarded ObdPickup), mut (setSendPickupPoint (a_success ()))])))
           (\<lambda>e. Spawn (setErrorWithPingOpener
               ((an_error ''error_send_pickup_point'' TxtPointNotSent
                  (Some (GoTo (path_PickupSelected (ev_query ev))))) \<lparr>ae_actionText := Some TxtRepeat\<rparr>)
               (Some (mut (setSendPickupPoint (a_error ''error_send''))))) fin)))
     (case nxt of None \<Rightarrow> fin | Some p \<Rightarrow> Spawn p fin)"

text \<open>The watcher of the shop's messages: each message with pickup points starts this service.\<close>

definition watchPickupPoints :: "RawPickupPoint list option \<Rightarrow> svc" where
  "watchPickupPoints pickupPoints =
     (case pickupPoints of None \<Rightarrow> fin | Some ps \<Rightarrow> Spawn (setNewPickupPoints (Some ps)) fin)"

section \<open>The map\<close>

definition MAP_SUGGEST_ZOOM :: int where "MAP_SUGGEST_ZOOM = 11"
definition MAP_SUGGEST_CITY_ZOOM :: int where "MAP_SUGGEST_CITY_ZOOM = 12"
definition MAP_SUGGEST_STREET_ZOOM :: int where "MAP_SUGGEST_STREET_ZOOM = 14"
definition MAP_SUGGEST_ADDRESS_ZOOM :: int where "MAP_SUGGEST_ADDRESS_ZOOM = 16"
definition MAP_ADDRESS_ZOOM :: int where "MAP_ADDRESS_ZOOM = 17"

text \<open>\<open>loadMapSdk\<close>: the script either fails to load, or loads and is ready, or is not ready.\<close>

datatype script_event = ScriptReady | ScriptNotReady | ScriptNotLoaded

definition loadMapSdk :: svc where
  "loadMapSdk = await (mut (setMapSdk a_pending)) (Emit FxLoadMapScript fin)"

definition on_script :: "script_event \<Rightarrow> svc" where
  "on_script ev =
     mut (setMapSdk (case ev of ScriptReady \<Rightarrow> a_success ()
       | ScriptNotReady \<Rightarrow> a_error ''Can not initialize map sdk''
       | ScriptNotLoaded \<Rightarrow> a_error ''Can not load map sdk''))"

definition suggest_zoom :: "Geocode \<Rightarrow> int" where
  "suggest_zoom g =
     (let z = MAP_SUGGEST_ZOOM;
          z = (if truthy (gc_locality g) then MAP_SUGGEST_CITY_ZOOM else z);
          z = (if truthy (gc_street g) then MAP_SUGGEST_STREET_ZOOM else z)
      in if truthy (gc_building g) then MAP_SUGGEST_ADDRESS_ZOOM else z)"

definition showMapBySuggest :: "string \<Rightarrow> svc" where
  "showMapBySuggest addressStr =
     ask_for (RqGeocode addressStr) geocode_of (\<lambda>(info, place).
       mut (setMapState [MfCenter place, MfZoom (suggest_zoom info)]))"

definition resetMap :: "env \<Rightarrow> svc" where
  "resetMap ev =
     mut (on_map (\<lambda>m. m\<lparr>map_visible := map_visible (mapInitialState (ev_cfg ev)),
       map_inactive := map_inactive (mapInitialState (ev_cfg ev)),
       map_placemarks := map_placemarks (mapInitialState (ev_cfg ev)),
       map_behaviors := map_behaviors (mapInitialState (ev_cfg ev))\<rparr>))"

definition setMapStateBySelector :: "(RootState \<Rightarrow> map_field list) \<Rightarrow> svc" where
  "setMapStateBySelector selectorFn = mut (\<lambda>s. setMapState (selectorFn s) s)"

definition showSinglePlacemark :: "MapPlacemark \<Rightarrow> map_field list \<Rightarrow> svc" where
  "showSinglePlacemark placemark nextState =
     mut (on_map (\<lambda>m. (fold assign_map nextState m)
       \<lparr>map_center := mp_coordinates placemark, map_zoom := MAP_ADDRESS_ZOOM, map_placemarks := [placemark]\<rparr>))"

section \<open>The start of the form\<close>

definition PAYMENT_TIMEOUT :: int where "PAYMENT_TIMEOUT = 10000"

definition waitForSheet :: "env \<Rightarrow> svc" where
  "waitForSheet ev =
     await (mut (setPendingScreen (Some \<lparr>pend_reason = SheetLoading, pend_message = None, pend_description = None\<rparr>)))
       (ask_for (RqSheet PAYMENT_TIMEOUT) sheet_in (\<lambda>sheet.
          if IS_CHECKOUT_SERVER (ev_cfg ev)
          then ask_for (RqServerSheet 0 sheet) sheet_in (\<lambda>sheet'. All [mut (setSheet sheet')] End)
          else ask_for (RqValidate (ev_origin ev) sheet) anything (\<lambda>_. All [mut (setSheet sheet)] End)))"

definition initialData :: "env \<Rightarrow> svc" where
  "initialData ev =
     try_catching (ask_for RqSetup points_of (\<lambda>pickupPoints.
         case pickupPoints of None \<Rightarrow> fin | Some ps \<Rightarrow> setInitialPickupPoints ev ps))
       (\<lambda>e. fin)"

text \<open>\<open>await Promise.all(..)\<close> and what comes after it.\<close>

definition await_all :: "svc list \<Rightarrow> svc \<Rightarrow> svc" where
  "await_all ps q = await (All ps End) q"

definition initial_address :: "RootState \<Rightarrow> string" where
  "initial_address s =
     (if hasId ad_id (getAddressList s) (us_addressId (getUserState s)) then us_addressId (getUserState s)
      else getFirstAddressId s)"

definition initial_contact :: "RootState \<Rightarrow> string" where
  "initial_contact s =
     (if hasId ct_id (getContactList s) (us_contactId (getUserState s)) then us_contactId (getUserState s)
      else getFirstContactId s)"

definition initial_steps :: "env \<Rightarrow> RootState \<Rightarrow> ObSteps" where
  "initial_steps ev s =
     getObSteps (ev_query ev) (getUserState s)
       \<lparr>ud_addressId = initial_address s, ud_contactId = initial_contact s,
        ud_contactsList = getContactList s, ud_addressesList = getAddressList s\<rparr>"

definition initialSelect :: "env \<Rightarrow> svc" where
  "initialSelect ev =
     look (\<lambda>s.
       let sheet = getSheet s;
           paymentMethodId = getInitialPaymentMethodId (ev_lib ev) s sheet (us_cardId (getUserState s));
           obSteps = initial_steps ev s
       in await_all
            [mut (setObSteps obSteps), selectPaymentMethod paymentMethodId None True,
             selectAddress ev (initial_address s) None True, selectContact (initial_contact s) None True]
            (in_order
              [if getRequiredBillingFields (ev_lib ev) sheet = Some True
               then mut (setEmail (USER_EMAIL (ev_cfg ev))) else fin,
               if obs_active obSteps then Emit (FxReplace (obs_startHref obSteps)) fin else fin]))"

definition initializeApp :: "env \<Rightarrow> svc" where
  "initializeApp ev =
     Spawn (try_catching (ask_for RqPing anything (\<lambda>_. fin)) (\<lambda>e. fin))
       (try_catching
         (await_all [loadUserState, waitForSheet ev]
           (look (\<lambda>s. let sheet = getSheet s; userState = getUserState s in in_order
              [mut (setSplitAvailable (sheet_isSplitAvailable (ev_cfg ev) (ev_lib ev) sheet)),
               Spawn (initialData ev) fin,
               All [refreshPaymentMethods ev (us_cardId userState),
                    refreshAddressList ev (Some (us_addressId userState)), refreshContactList,
                    loadSplitPlan ev] End,
               initialSelect ev,
               mut resetPendingScreen,
               mut (resetInitialLoader False),
               if \<not> us_isCheckoutOnboarded userState
               then Spawn (saveUserState (no_settings\<lparr>ut_isCheckoutOnboarded := Some True\<rparr>)) fin else fin,
               if js_less (Fin 0) (CHALLENGE_NUM (ev_cfg ev)) \<and> CHALLENGE_CARD_ID (ev_cfg ev) \<noteq> []
               then Emit (FxStartPayment (Some (CHALLENGE_CARD_ID (ev_cfg ev)))) fin else fin])))
         (\<lambda>e. mut (setErrorScreenWithBack
            (an_error [] TxtFormNotInitialized (Some (SendFormError (errorReason (ev_lib ev) e) (errorDetails e)))))))"

section \<open>What the buttons of an error do\<close>

fun reset_slot :: "slot \<Rightarrow> RootState \<Rightarrow> RootState" where
  "reset_slot SlotAddressList = setAddressList a_initial"
| "reset_slot SlotAddAddress = setAddAddress a_initial"
| "reset_slot SlotEditAddress = setEditAddress a_initial"
| "reset_slot SlotDeleteAddress = setDeleteAddress a_initial"
| "reset_slot SlotContactList = setContactList a_initial"
| "reset_slot SlotAddContact = setAddContact a_initial"
| "reset_slot SlotEditContact = setEditContact a_initial"
| "reset_slot SlotDeleteContact = setDeleteContact a_initial"
| "reset_slot SlotPaymentMethods = setPaymentMethods a_initial"
| "reset_slot SlotSelectShipping = setSelectShippingOptions a_initial"

fun perform :: "env \<Rightarrow> err_action \<Rightarrow> svc" where
  "perform ev (ResetSlot sl) = mut (reset_slot sl)"
| "perform ev ResetError = mut resetErrorScreen"
| "perform ev (CloseThen a) = await (mut resetErrorScreen) (case a of None \<Rightarrow> fin | Some b \<Rightarrow> perform ev b)"
| "perform ev (RunThen a) = (case a of None \<Rightarrow> fin | Some b \<Rightarrow> perform ev b)"
| "perform ev (RefreshThen a) =
     Emit (FxGoTo (path_Main (ev_query ev))) (case a of None \<Rightarrow> fin | Some b \<Rightarrow> perform ev b)"
| "perform ev (GoTo p) = Emit (FxGoTo p) fin"
| "perform ev (GoToAndReset p sl) = Emit (FxGoTo p) (mut (reset_slot sl))"
| "perform ev ReloadShipping =
     await (mut (setShippingOptionsList a_initial)) (Spawn (refreshShippingOptionsList ev) fin)"
| "perform ev (SendFormError r d) = Emit (FxFormError r d) fin"

lemmas service_defs = loadUserState_def saveUserState_def setErrorWithPingOpener_def loadCashback_def
  togglePayWithSplit_def loadSplitPlan_def updatePaymentInfo_def resetShippingOption_def
  selectShippingOption_def refreshShippingOptionsList_def selectShippingType_def refreshAddressList_def
  selectAddress_def createAddress_def deleteAddress_def updateAddress_def refreshContactList_def
  selectContact_def createContact_def updateContact_def deleteContact_def selectPaymentMethod_def
  refreshPaymentMethods_def selectBindedCard_def validateCoupon_def removeCoupon_def
  setNewPickupPoints_def setInitialPickupPoints_def fetchPickupPoints_def requestPickupInfo_def
  selectPickupPoint_def sendPickupPoint_def watchPickupPoints_def

end
