(* ===== verification/ServiceInvariants.thy ===== *)
theory ServiceInvariants
  imports CheckoutServices
begin

text \<open>
  What holds of the checkout's store at every moment, whatever services run, in whatever order their
  steps come, and whatever the API and the shop's page answer; and which services never leave an
  exception unhandled.
\<close>

section \<open>What holds of the store at every moment\<close>

definition loaded :: "('a, 'b) async_data \<Rightarrow> bool" where
  "loaded d = (status d = Success \<longrightarrow> result d \<noteq> None)"

definition coupon_ok :: "CouponState \<Rightarrow> bool" where
  "coupon_ok c =
     ((status (cps_setCoupon c) = Initial \<or> status (cps_removeCoupon c) = Initial)
      \<and> (status (cps_setCoupon c) = Success \<longrightarrow> result (cps_setCoupon c) = Some (cps_selected c))
      \<and> (status (cps_removeCoupon c) = Success \<longrightarrow> cps_selected c = []))"

definition pickup_ok :: "PickupState \<Rightarrow> bool" where
  "pickup_ok p = (pks_selectedId p = map_option pp_id (pks_selectedPoint p) \<and> loaded (pks_points p))"

definition app_ok :: "AppState \<Rightarrow> bool" where
  "app_ok a = (\<not> (obs_active (app_obSteps a) \<and> getIsFullOnboarded (app_obSteps a)))"

definition store_ok :: "RootState \<Rightarrow> bool" where
  "store_ok s =
     (app_ok (rt_app s) \<and> coupon_ok (rt_coupon s) \<and> pickup_ok (shs_pickup (rt_shipping s))
      \<and> loaded (ast_list (rt_addresses s)) \<and> loaded (cst_list (rt_contacts s))
      \<and> loaded (mst_list (rt_paymentMethods s)) \<and> loaded (dst_list (rt_directShipping s))
      \<and> loaded (sst_cashback (rt_payment s)) \<and> loaded (spt_splitPlan (rt_split s)))"

lemma loaded_simps [simp]:
  "loaded (async_initial d) " "loaded (async_pending d)" "loaded (async_error r d)" "loaded (async_success x d)"
  "loaded a \<Longrightarrow> loaded b \<Longrightarrow> loaded (async_merge a b)"
  by (auto simp: loaded_def async_defs split: option.split)

text \<open>Each mutator keeps it; a mutator of a part it says nothing of does so at once.\<close>

lemma keep_app:
  "store_ok s \<Longrightarrow> store_ok (setScreen x s)" "store_ok s \<Longrightarrow> store_ok (setUserState u s)"
  "store_ok s \<Longrightarrow> store_ok (setCurrentObStep n s)" "store_ok s \<Longrightarrow> store_ok (setPendingScreen p s)"
  "store_ok s \<Longrightarrow> store_ok (resetPendingScreen s)" "store_ok s \<Longrightarrow> store_ok (resetInitialLoader l s)"
  "store_ok s \<Longrightarrow> store_ok (setErrorScreen e s)" "store_ok s \<Longrightarrow> store_ok (resetErrorScreen s)"
  by (simp_all add: store_ok_def app_ok_def mutator_defs on_app_def)

lemma keep_errors:
  "store_ok s \<Longrightarrow> store_ok (setErrorScreenWithClose ae s)"
  "store_ok s \<Longrightarrow> store_ok (setErrorScreenWithBack ae s)"
  "store_ok s \<Longrightarrow> store_ok (setErrorScreenWithRefresh ae s)"
  by (simp_all add: setErrorScreenWithClose_def setErrorScreenWithBack_def setErrorScreenWithRefresh_def keep_app)

lemma keep_obStep: "store_ok s \<Longrightarrow> store_ok (setObStepOnboarded t s)"
  by (cases t) (auto simp: store_ok_def app_ok_def setObStepOnboarded_def on_app_def Let_def getIsFullOnboarded_def)

lemma keep_obSteps: "store_ok s \<Longrightarrow> store_ok (setObSteps (getObSteps q l u) s)"
  by (auto simp: store_ok_def app_ok_def setObSteps_def on_app_def getObSteps_def Let_def getIsFullOnboarded_def)

lemma keep_users:
  "store_ok s \<Longrightarrow> store_ok (addr_setSelectedId i s)" "store_ok s \<Longrightarrow> store_ok (setAddAddress d s)"
  "store_ok s \<Longrightarrow> store_ok (resetAddAddress s)" "store_ok s \<Longrightarrow> store_ok (setEditAddress d s)"
  "store_ok s \<Longrightarrow> store_ok (resetEditAddress s)" "store_ok s \<Longrightarrow> store_ok (setDeleteAddress d s)"
  "store_ok s \<Longrightarrow> loaded al \<Longrightarrow> store_ok (setAddressList al s)"
  "store_ok s \<Longrightarrow> store_ok (contact_setSelectedId i s)" "store_ok s \<Longrightarrow> store_ok (setAddContact d s)"
  "store_ok s \<Longrightarrow> store_ok (setEditContact d s)" "store_ok s \<Longrightarrow> store_ok (setDeleteContact d s)"
  "store_ok s \<Longrightarrow> loaded cl \<Longrightarrow> store_ok (setContactList cl s)"
  "store_ok s \<Longrightarrow> store_ok (methods_setSelectedId i s)"
  "store_ok s \<Longrightarrow> loaded ml \<Longrightarrow> store_ok (setPaymentMethods ml s)"
  by (simp_all add: store_ok_def mutator_defs slice_defs)

lemma keep_payment:
  "store_ok s \<Longrightarrow> store_ok (setSheet sh s)" "store_ok s \<Longrightarrow> store_ok (setSheetOrder o' s)"
  "store_ok s \<Longrightarrow> store_ok (setEmail em s)" "store_ok s \<Longrightarrow> loaded cb \<Longrightarrow> store_ok (setCashback cb s)"
  "store_ok s \<Longrightarrow> store_ok (resetCashback s)" "store_ok s \<Longrightarrow> store_ok (setPaymentStage st s)"
  "store_ok s \<Longrightarrow> store_ok (setPaymentOrder po s)" "store_ok s \<Longrightarrow> store_ok (setPaymentProcessData pd s)"
  "store_ok s \<Longrightarrow> store_ok (setSplitAvailable b s)" "store_ok s \<Longrightarrow> store_ok (setPayWithSplit b s)"
  "store_ok s \<Longrightarrow> loaded sp \<Longrightarrow> store_ok (setSplitPlan sp s)" "store_ok s \<Longrightarrow> store_ok (resetSplitPlan s)"
  by (simp_all add: store_ok_def mutator_defs slice_defs)

lemma keep_coupon:
  "store_ok s \<Longrightarrow> loaded cd \<Longrightarrow> store_ok (setCoupon cd s)" "store_ok s \<Longrightarrow> store_ok (setRemoveCoupon rd s)"
  "store_ok s \<Longrightarrow> store_ok (resetCoupon s)"
  by (auto simp: store_ok_def coupon_ok_def loaded_def mutator_defs slice_defs Let_def or_else_def async_defs async_tests
      split: option.split)

lemma keep_delivery:
  "store_ok s \<Longrightarrow> loaded ol \<Longrightarrow> store_ok (setShippingOptionsList ol s)"
  "store_ok s \<Longrightarrow> store_ok (setDisableShippingOptions b s)" "store_ok s \<Longrightarrow> store_ok (setSelectShippingOptions so s)"
  "store_ok s \<Longrightarrow> store_ok (shipping_setSelectedId i s)" "store_ok s \<Longrightarrow> store_ok (setSelectedShippingType ty s)"
  by (simp_all add: store_ok_def mutator_defs slice_defs)

lemma keep_pickup:
  "store_ok s \<Longrightarrow> store_ok (setPickupPointsList pl s)" "store_ok s \<Longrightarrow> store_ok (patchPickupPoints pp s)"
  "store_ok s \<Longrightarrow> loaded pd' \<Longrightarrow> store_ok (setPickupPoints pd' s)" "store_ok s \<Longrightarrow> store_ok (updateSelectedPoint pt s)"
  "store_ok s \<Longrightarrow> store_ok (setSelectedPickupPoint pt s)" "store_ok s \<Longrightarrow> store_ok (setSendPickupPoint sd s)"
  "store_ok s \<Longrightarrow> store_ok (setPickupMapState c z s)"
  by (auto simp: store_ok_def pickup_ok_def loaded_def mutator_defs slice_defs)

lemma keep_map:
  "store_ok s \<Longrightarrow> store_ok (setMapSdk ms s)" "store_ok s \<Longrightarrow> store_ok (setMapState fs s)"
  "store_ok s \<Longrightarrow> store_ok (on_map mf s)"
  by (simp_all add: store_ok_def mutator_defs slice_defs)

lemmas keep_mutators = keep_app keep_errors keep_obStep keep_obSteps keep_users keep_payment keep_coupon
  keep_delivery keep_pickup keep_map

lemma initial_store_ok: "store_ok (initialState cfg)"
  by (simp add: store_ok_def initialState_def app_ok_def coupon_ok_def pickup_ok_def no_ob_steps_def initialPaymentState_def)

section \<open>Every service keeps it\<close>

definition kept :: "svc \<Rightarrow> bool" where
  "kept p = keeps (\<lambda>s :: store. store_ok (root s)) (\<lambda>q r. True) p"

lemma kept_mut: "(\<And>s. store_ok s \<Longrightarrow> store_ok (f s)) \<Longrightarrow> kept (mut f)"
  by (simp add: kept_def mut_def)

lemma kept_set_state: "(\<And>s. store_ok (root s) \<Longrightarrow> store_ok (root (f s))) \<Longrightarrow> kept (set_state f)"
  by (simp add: kept_def)

lemma kept_look: "(\<And>s. kept (g s)) \<Longrightarrow> kept (look g)"
  by (simp add: kept_def look_def)

lemma kept_request: "(\<And>r. kept (g r)) \<Longrightarrow> kept (Request q g)"
  by (simp add: kept_def)

lemma kept_ask_for: "(\<And>x. kept (k x)) \<Longrightarrow> kept (ask_for q get k)"
  by (auto simp: kept_def ask_for_def split: option.split)

lemma kept_seq:
  "kept p \<Longrightarrow> kept q \<Longrightarrow> kept (await p q)" "kept p \<Longrightarrow> (\<And>e. kept (h e)) \<Longrightarrow> kept (try_catching p h)"
  "kept p \<Longrightarrow> kept q \<Longrightarrow> kept (Spawn p q)" "kept p \<Longrightarrow> kept (Emit x p)" "kept fin" "kept (throwing e)" "kept (End r)"
  by (auto simp: kept_def)

lemma kept_in_order: "\<forall>p \<in> set ps. kept p \<Longrightarrow> kept (in_order ps)"
  unfolding in_order_def by (induction ps) (auto intro: kept_seq)

lemma kept_in_order_simps: "kept (in_order [])" "kept p \<Longrightarrow> kept (in_order ps) \<Longrightarrow> kept (in_order (p # ps))"
  by (simp_all add: in_order_def kept_seq)

lemma kept_All: "\<forall>p \<in> set ps. kept p \<Longrightarrow> (\<And>r. kept (g r)) \<Longrightarrow> kept (All ps g)"
  by (auto simp: kept_def)

lemma kept_await_all: "\<forall>p \<in> set ps. kept p \<Longrightarrow> kept q \<Longrightarrow> kept (await_all ps q)"
  unfolding await_all_def by (intro kept_seq kept_All) auto

lemma kept_and_then: "(\<And>p. nxt = Some p \<Longrightarrow> kept p) \<Longrightarrow> kept (and_then nxt)"
  by (cases nxt) (auto simp: and_then_def intro: kept_seq)

lemmas kept_rules = kept_look kept_request kept_ask_for kept_seq kept_in_order_simps kept_and_then kept_await_all

text \<open>The services of the store, each with callbacks that keep the invariant themselves.\<close>

named_theorems kept_services

lemma kept_settings [kept_services]:
  "kept loadUserState" "kept (saveUserState u)"
  unfolding loadUserState_def saveUserState_def
  by (auto intro!: kept_rules kept_mut keep_mutators split: if_split)

lemma kept_ping [kept_services]: "(\<And>p. f = Some p \<Longrightarrow> kept p) \<Longrightarrow> kept (setErrorWithPingOpener e f)"
  unfolding setErrorWithPingOpener_def
  by (intro kept_rules kept_mut keep_mutators) auto

lemma kept_payment_info [kept_services]:
  "kept loadCashback" "kept (loadSplitPlan ev)" "kept (togglePayWithSplit b)"
  unfolding loadCashback_def loadSplitPlan_def togglePayWithSplit_def Let_def
  by (auto intro!: kept_rules kept_mut keep_mutators split: if_split option.split)

lemma kept_updatePaymentInfo [kept_services]: "kept (updatePaymentInfo ev)"
  unfolding updatePaymentInfo_def
  by (auto intro!: kept_rules kept_mut keep_mutators kept_All kept_payment_info)

abbreviation next_kept :: "svc option \<Rightarrow> bool" where
  "next_kept nxt \<equiv> (\<forall>p. nxt = Some p \<longrightarrow> kept p)"

lemma kept_call_next: "next_kept nxt \<Longrightarrow> kept (case nxt of None \<Rightarrow> fin | Some p \<Rightarrow> Spawn p fin)"
  by (auto intro: kept_rules split: option.split)

lemmas kept_intros = kept_rules kept_mut keep_mutators kept_call_next

lemma kept_delivery [kept_services]:
  "next_kept nxt \<Longrightarrow> kept (resetShippingOption ev nxt)"
  "next_kept nxt \<Longrightarrow> kept (selectShippingOption ev i nxt)"
  "next_kept nxt \<Longrightarrow> kept (selectShippingType ty nxt)"
  unfolding resetShippingOption_def selectShippingOption_def selectShippingType_def
  by (auto intro!: kept_intros kept_services split: option.split)

lemma kept_refreshShipping [kept_services]: "kept (refreshShippingOptionsList ev)"
  unfolding refreshShippingOptionsList_def
  by (auto intro!: kept_intros kept_services split: option.split)

lemma kept_addresses [kept_services]:
  "kept (refreshAddressList ev oi)" "(\<And>k a. anext = Some k \<Longrightarrow> kept (k a)) \<Longrightarrow> kept (selectAddress ev i anext b)"
  unfolding refreshAddressList_def selectAddress_def
  by (auto simp: Let_def intro!: kept_intros kept_services)

lemma kept_deleteAddress [kept_services]: "next_kept nxt \<Longrightarrow> kept (deleteAddress ev i nxt)"
  unfolding deleteAddress_def by (auto intro!: kept_intros kept_services)

lemma kept_edit_address [kept_services]:
  "kept p \<Longrightarrow> kept (createAddress ev f p)" "kept p \<Longrightarrow> kept (updateAddress ev i f p)"
  unfolding createAddress_def updateAddress_def
  by (auto simp: Let_def intro!: kept_intros kept_services split: option.split bool.split prod.split)

lemma kept_contacts [kept_services]:
  "kept refreshContactList" "next_kept nxt \<Longrightarrow> kept (selectContact i nxt b)"
  unfolding refreshContactList_def selectContact_def
  by (auto simp: Let_def intro!: kept_intros kept_services split: option.split sum.split response.split)

lemma kept_edit_contact [kept_services]:
  "next_kept nxt \<Longrightarrow> kept (createContact g nxt)" "kept p \<Longrightarrow> kept (updateContact ev i g p)"
  "kept p \<Longrightarrow> kept (deleteContact i p)"
  unfolding createContact_def updateContact_def deleteContact_def
  by (auto simp: Let_def intro!: kept_intros kept_services split: option.split)

lemma kept_methods [kept_services]:
  "next_kept nxt \<Longrightarrow> kept (selectPaymentMethod i nxt b)" "kept (refreshPaymentMethods ev i)"
  unfolding selectPaymentMethod_def refreshPaymentMethods_def
  by (auto simp: Let_def intro!: kept_intros kept_services)

lemma kept_binding [kept_services]:
  "(\<And>k i. inext = Some k \<Longrightarrow> kept (k i)) \<Longrightarrow> kept (selectBindedCard ev t inext)"
  unfolding selectBindedCard_def by (auto intro!: kept_intros kept_services)

lemma kept_coupons [kept_services]:
  "next_kept nxt \<Longrightarrow> kept (validateCoupon ev c nxt)" "next_kept nxt \<Longrightarrow> kept (removeCoupon ev nxt)"
  unfolding validateCoupon_def removeCoupon_def
  by (auto intro!: kept_intros kept_services split: sum.split)

lemma kept_points [kept_services]:
  "kept (setNewPickupPoints ps)" "kept (setInitialPickupPoints ev raws)" "kept (watchPickupPoints ps)"
  unfolding setNewPickupPoints_def setInitialPickupPoints_def watchPickupPoints_def Let_def
  by (auto intro!: kept_intros split: option.split)

lemma kept_fetch [kept_services]: "kept (fetchPickupPoints b c)"
  unfolding fetchPickupPoints_def
  by (auto simp: count_down_def Let_def intro!: kept_intros kept_services kept_set_state)

lemma kept_pickup [kept_services]:
  "kept (requestPickupInfo ev pt)" "next_kept nxt \<Longrightarrow> kept (selectPickupPoint pt nxt)"
  "next_kept nxt \<Longrightarrow> kept (sendPickupPoint ev nxt)"
  unfolding requestPickupInfo_def selectPickupPoint_def sendPickupPoint_def
  by (auto intro!: kept_intros kept_services split: option.split)

lemma kept_map_services [kept_services]:
  "kept loadMapSdk" "kept (on_script se)" "kept (showMapBySuggest a)" "kept (resetMap ev)"
  "kept (setMapStateBySelector sel)" "kept (showSinglePlacemark pl fs)"
  unfolding loadMapSdk_def on_script_def showMapBySuggest_def resetMap_def setMapStateBySelector_def
    showSinglePlacemark_def
  by (auto intro!: kept_intros split: script_event.split)

lemma kept_start [kept_services]:
  "kept (waitForSheet ev)" "kept (initialData ev)" "kept (initialSelect ev)"
  unfolding waitForSheet_def initialData_def initialSelect_def initial_steps_def Let_def
  by (auto intro!: kept_intros kept_services kept_All split: option.split)

lemma kept_initializeApp [kept_services]: "kept (initializeApp ev)"
  unfolding initializeApp_def Let_def
  by (auto intro!: kept_intros kept_services kept_All)

section \<open>No service leaves an exception unhandled\<close>

lemma calm_store [simp]:
  "calm (mut f)" "calm_spawns (mut f)"
  "calm (look g) \<longleftrightarrow> (\<forall>s. calm (g s))" "calm_spawns (look g) \<longleftrightarrow> (\<forall>s. calm_spawns (g s))"
  by (auto simp: mut_def look_def split: option.split) (metis store.select_convs(1))+

lemma calm_look_I: "(\<And>s. calm (g s)) \<Longrightarrow> calm (look g)"
  by simp

lemma calm_spawns_look: "(\<And>s. calm_spawns (g s)) \<Longrightarrow> calm_spawns (look g)"
  by simp

lemma calm_spawns_ask_for: "(\<And>x. calm_spawns (k x)) \<Longrightarrow> calm_spawns (ask_for q get k)"
  by (simp add: ask_for_def split: option.split)

lemma calm_in_order: "calm (in_order [])" "calm p \<Longrightarrow> calm (in_order ps) \<Longrightarrow> calm (in_order (p # ps))"
  by (auto simp: in_order_def)

lemma calm_spawns_in_order:
  "calm_spawns (in_order [])" "calm_spawns p \<Longrightarrow> calm_spawns (in_order ps) \<Longrightarrow> calm_spawns (in_order (p # ps))"
  by (auto simp: in_order_def)

lemma calm_and_then: "(\<And>p. nxt = Some p \<Longrightarrow> calm p) \<Longrightarrow> calm (and_then nxt)"
  by (cases nxt) (auto simp: and_then_def)

lemma calm_spawns_and_then: "(\<And>p. nxt = Some p \<Longrightarrow> calm_spawns p) \<Longrightarrow> calm_spawns (and_then nxt)"
  by (cases nxt) (auto simp: and_then_def)

lemma calm_call_next: "(\<And>p. nxt = Some p \<Longrightarrow> calm p) \<Longrightarrow> calm (case nxt of None \<Rightarrow> fin | Some p \<Rightarrow> Spawn p fin)"
  by (cases nxt) auto

lemma calm_await_all: "\<forall>p \<in> set ps. calm p \<Longrightarrow> calm q \<Longrightarrow> calm (await_all ps q)"
  unfolding await_all_def by (rule calm_await) auto

lemma calm_spawns_await_all: "\<forall>p \<in> set ps. calm_spawns p \<Longrightarrow> calm_spawns q \<Longrightarrow> calm_spawns (await_all ps q)"
  unfolding await_all_def by (rule calm_spawns_await) auto

lemma calm_if: "(b \<Longrightarrow> calm p) \<Longrightarrow> (\<not> b \<Longrightarrow> calm q) \<Longrightarrow> calm (if b then p else q)"
  by simp

lemma calm_spawns_if: "(b \<Longrightarrow> calm_spawns p) \<Longrightarrow> (\<not> b \<Longrightarrow> calm_spawns q) \<Longrightarrow> calm_spawns (if b then p else q)"
  by simp

lemma calm_option:
  "calm p \<Longrightarrow> (\<And>x. calm (g x)) \<Longrightarrow> calm (case o' of None \<Rightarrow> p | Some x \<Rightarrow> g x)"
  "calm_spawns p \<Longrightarrow> (\<And>x. calm_spawns (g x)) \<Longrightarrow> calm_spawns (case o' of None \<Rightarrow> p | Some x \<Rightarrow> g x)"
  by (simp_all split: option.split)

lemmas calm_rules = calm_in_order calm_spawns_in_order calm_await calm_spawns_await calm_try
  calm_spawns_ask_for calm_and_then calm_spawns_and_then calm_call_next calm_await_all calm_spawns_await_all
  calm_look_I calm_spawns_look calm_if calm_spawns_if calm_option

named_theorems calm_services

abbreviation next_calm :: "svc option \<Rightarrow> bool" where
  "next_calm nxt \<equiv> (\<forall>p. nxt = Some p \<longrightarrow> calm p)"

lemma calm_settings [calm_services]: "calm loadUserState" "calm (saveUserState u)"
  unfolding loadUserState_def saveUserState_def by (auto intro!: calm_rules)

lemma calm_ping [calm_services]: "next_calm f \<Longrightarrow> calm (setErrorWithPingOpener e f)"
  unfolding setErrorWithPingOpener_def by (auto intro!: calm_rules)

lemma calm_payment_info [calm_services]:
  "calm loadCashback" "calm (loadSplitPlan ev)" "calm (togglePayWithSplit b)"
  unfolding loadCashback_def loadSplitPlan_def togglePayWithSplit_def Let_def
  by (auto intro!: calm_rules split: option.split)

lemma calm_updatePaymentInfo [calm_services]: "calm (updatePaymentInfo ev)"
  unfolding updatePaymentInfo_def by (rule calm_await) (simp_all add: calm_payment_info)

lemma soft_updatePaymentInfo: "calm_spawns (updatePaymentInfo ev)"
  by (rule calm_imp_spawns [OF calm_updatePaymentInfo])

lemma calm_delivery [calm_services]:
  "next_calm nxt \<Longrightarrow> calm (resetShippingOption ev nxt)"
  "next_calm nxt \<Longrightarrow> calm (selectShippingOption ev i nxt)"
  "next_calm nxt \<Longrightarrow> calm (selectShippingType ty nxt)"
  unfolding resetShippingOption_def selectShippingOption_def selectShippingType_def
  by (auto intro!: calm_rules calm_services soft_updatePaymentInfo split: option.split)

lemma calm_refreshShipping [calm_services]: "calm (refreshShippingOptionsList ev)"
  unfolding refreshShippingOptionsList_def
  by (auto intro!: calm_rules calm_services split: option.split)

lemma calm_addresses [calm_services]:
  "calm (refreshAddressList ev oi)" "(\<And>k a. anext = Some k \<Longrightarrow> calm (k a)) \<Longrightarrow> calm (selectAddress ev i anext b)"
  unfolding refreshAddressList_def selectAddress_def
  by (auto simp: Let_def intro!: calm_rules calm_services)

lemma soft_addresses:
  "calm_spawns (refreshAddressList ev oi)"
  "(\<And>k a. anext = Some k \<Longrightarrow> calm (k a)) \<Longrightarrow> calm_spawns (selectAddress ev i anext b)"
  by (auto intro!: calm_imp_spawns calm_addresses)

lemma calm_deleteAddress [calm_services]: "(\<And>p. nxt = Some p \<Longrightarrow> calm_spawns p) \<Longrightarrow> calm (deleteAddress ev i nxt)"
  unfolding deleteAddress_def by (auto intro!: calm_rules soft_addresses)

lemma calm_edit_address [calm_services]:
  "calm_spawns p \<Longrightarrow> calm (createAddress ev f p)" "calm_spawns p \<Longrightarrow> calm (updateAddress ev i f p)"
  unfolding createAddress_def updateAddress_def Let_def
  by (auto intro!: calm_rules soft_addresses calm_imp_spawns [OF calm_deleteAddress] split: bool.split prod.split)

lemma calm_contacts [calm_services]:
  "calm refreshContactList" "next_calm nxt \<Longrightarrow> calm (selectContact i nxt b)"
  unfolding refreshContactList_def selectContact_def
  by (auto simp: Let_def intro!: calm_rules calm_services split: option.split sum.split response.split)

lemma soft_contacts: "calm_spawns refreshContactList" "next_calm nxt \<Longrightarrow> calm_spawns (selectContact i nxt b)"
  by (auto intro!: calm_imp_spawns calm_contacts)

lemma calm_edit_contact [calm_services]:
  "(\<And>p. nxt = Some p \<Longrightarrow> calm_spawns p) \<Longrightarrow> calm (createContact g nxt)"
  "calm_spawns p \<Longrightarrow> calm (updateContact ev i g p)" "calm_spawns p \<Longrightarrow> calm (deleteContact i p)"
  unfolding createContact_def updateContact_def deleteContact_def Let_def
  by (auto intro!: calm_rules soft_contacts)

lemma calm_methods [calm_services]:
  "next_calm nxt \<Longrightarrow> calm (selectPaymentMethod i nxt b)" "calm (refreshPaymentMethods ev i)"
  unfolding selectPaymentMethod_def refreshPaymentMethods_def
  by (auto simp: Let_def intro!: calm_rules calm_services)

lemma calm_removeCoupon [calm_services]:
  "(\<And>p. nxt = Some p \<Longrightarrow> calm_spawns p) \<Longrightarrow> calm (removeCoupon ev nxt)"
  unfolding removeCoupon_def by (auto intro!: calm_rules calm_services soft_updatePaymentInfo)

lemma soft_points: "calm_spawns (setNewPickupPoints ps)" "calm_spawns (setInitialPickupPoints ev raws)"
  unfolding setNewPickupPoints_def setInitialPickupPoints_def Let_def by (auto intro!: calm_rules)

lemma calm_fetch [calm_services]: "calm (fetchPickupPoints b c)"
  unfolding fetchPickupPoints_def by (auto intro!: calm_rules soft_points)

lemma calm_pickup [calm_services]:
  "calm (requestPickupInfo ev pt)" "next_calm nxt \<Longrightarrow> calm (selectPickupPoint pt nxt)"
  "next_calm nxt \<Longrightarrow> calm (sendPickupPoint ev nxt)"
  unfolding requestPickupInfo_def selectPickupPoint_def sendPickupPoint_def
  by (auto intro!: calm_rules calm_services calm_imp_spawns [OF calm_delivery(3)] soft_updatePaymentInfo)

lemma calm_map_services [calm_services]:
  "calm loadMapSdk" "calm (on_script se)" "calm (resetMap ev)"
  "calm (setMapStateBySelector sel)" "calm (showSinglePlacemark pl fs)"
  unfolding loadMapSdk_def on_script_def resetMap_def setMapStateBySelector_def showSinglePlacemark_def
  by (auto intro!: calm_rules)

lemma calm_start [calm_services]: "calm (initialData ev)" "calm (initialSelect ev)"
  unfolding initialData_def initialSelect_def initial_steps_def Let_def
  by (auto intro!: calm_rules calm_services soft_points)

lemma soft_waitForSheet: "calm_spawns (waitForSheet ev)"
  unfolding waitForSheet_def by (auto intro!: calm_rules)

lemma calm_initializeApp [calm_services]: "calm (initializeApp ev)"
  unfolding initializeApp_def Let_def
  by (auto intro!: calm_rules calm_services soft_waitForSheet calm_imp_spawns [OF calm_settings(1)]
      calm_imp_spawns [OF calm_settings(2)] calm_imp_spawns [OF calm_methods(2)] soft_addresses soft_contacts
      calm_imp_spawns [OF calm_payment_info(2)] calm_imp_spawns [OF calm_start(2)])

lemma kept_reset_slot: "store_ok s \<Longrightarrow> store_ok (reset_slot sl s)"
  by (cases sl) (auto intro!: keep_mutators)

lemma kept_perform [kept_services]: "kept (perform ev a)"
  by (induction ev a rule: perform.induct)
    (auto intro!: kept_intros kept_services kept_reset_slot split: option.split)

lemma calm_perform [calm_services]: "calm (perform ev a)"
  by (induction ev a rule: perform.induct) (auto intro!: calm_rules calm_services split: option.split)

section \<open>What the interface can start\<close>

text \<open>After a service the page goes somewhere, or nothing happens.\<close>

definition going :: "string option \<Rightarrow> svc option" where
  "going place = map_option (\<lambda>p. Emit (FxGoTo p) fin) place"

definition going_with :: "string option \<Rightarrow> ('a \<Rightarrow> svc) option" where
  "going_with place = map_option (\<lambda>p x. Emit (FxGoTo p) fin) place"

text \<open>
  What the services of a payment (\<open>store/checkout/services.ts\<close>) do to this store: every one of them, and every
  listener they register, sets the stage, the order or the data for the shop, or chooses the method paid with.
  The theory \<open>PaymentFlow\<close>, which has these services themselves, proves that they do nothing else here.
\<close>

inductive payment_call :: "svc \<Rightarrow> bool" where
  "payment_call (mut (setPaymentStage stage))"
| "payment_call (mut (setPaymentOrder ord))"
| "payment_call (mut (setPaymentProcessData d))"
| "payment_call (selectPaymentMethod i None False)"

inductive safe_call :: "env \<Rightarrow> svc \<Rightarrow> bool" for ev :: env where
  "safe_call ev (initializeApp ev)"
| "safe_call ev (mut (setCurrentObStep n))"
| "safe_call ev (mut resetCouponData)"
| "safe_call ev (mut resetSplitPlan)"
| "safe_call ev (mut (setPayWithSplit b))"
| "safe_call ev (mut (setSplitAvailable b))"
| "payment_call p \<Longrightarrow> safe_call ev p"
| "safe_call ev (selectAddress ev i (going_with w) b)"
| "safe_call ev (createAddress ev f (and_then (going w)))"
| "safe_call ev (updateAddress ev i f (and_then (going w)))"
| "safe_call ev (deleteAddress ev i (going w))"
| "safe_call ev (refreshAddressList ev oi)"
| "safe_call ev (selectContact i (going w) b)"
| "safe_call ev (createContact g (going w))"
| "safe_call ev (updateContact ev i g (and_then (going w)))"
| "safe_call ev (deleteContact i (and_then (going w)))"
| "safe_call ev refreshContactList"
| "safe_call ev (selectPaymentMethod i (going w) b)"
| "safe_call ev (refreshPaymentMethods ev i)"
| "safe_call ev (togglePayWithSplit v)"
| "safe_call ev (removeCoupon ev (going w))"
| "safe_call ev (selectShippingOption ev i (going w))"
| "safe_call ev (resetShippingOption ev (going w))"
| "safe_call ev (refreshShippingOptionsList ev)"
| "safe_call ev (selectShippingType ty (going w))"
| "safe_call ev (fetchPickupPoints bounds center)"
| "safe_call ev (requestPickupInfo ev pt)"
| "safe_call ev (selectPickupPoint pt (going w))"
| "safe_call ev (sendPickupPoint ev (going w))"
| "safe_call ev loadMapSdk" | "safe_call ev (on_script se)" | "safe_call ev (resetMap ev)"
| "safe_call ev (setMapStateBySelector sel)" | "safe_call ev (showSinglePlacemark pl fs)"
| "safe_call ev (perform ev a)"

text \<open>These may leave an exception unhandled.\<close>

inductive risky_call :: "env \<Rightarrow> svc \<Rightarrow> bool" for ev :: env where
  "risky_call ev (validateCoupon ev code (going w))"
| "risky_call ev (selectBindedCard ev i (going_with w))"
| "risky_call ev (showMapBySuggest text)"
| "risky_call ev (watchPickupPoints ps)"

definition ui_call :: "env \<Rightarrow> svc \<Rightarrow> bool" where
  "ui_call ev p = (safe_call ev p \<or> risky_call ev p)"

lemma going_fine:
  "next_kept (going w)" "next_calm (going w)" "kept (and_then (going w))" "calm (and_then (going w))"
  "going w = Some p \<Longrightarrow> calm_spawns p" "calm_spawns (and_then (going w))"
  "going_with w' = Some k \<Longrightarrow> kept (k x)" "going_with w' = Some k \<Longrightarrow> calm (k x)"
  by (auto simp: going_def going_with_def and_then_def intro!: kept_rules split: option.split)

lemma kept_reset_coupon: "store_ok s \<Longrightarrow> store_ok (resetCouponData s)"
  by (simp add: resetCouponData_def keep_coupon)

lemma payment_call_kept: "payment_call p \<Longrightarrow> kept p"
  by (induction rule: payment_call.induct) (auto intro!: kept_mut keep_payment kept_services)

lemma payment_call_calm: "payment_call p \<Longrightarrow> calm p"
  by (induction rule: payment_call.induct) (auto intro!: calm_rules calm_services)

lemmas kept_calls = kept_mut [OF keep_app(3)] kept_mut [OF kept_reset_coupon] kept_mut [OF keep_payment(12)]
  kept_mut [OF keep_payment(10)] kept_mut [OF keep_payment(9)]

lemma safe_call_kept: "safe_call ev p \<Longrightarrow> kept p"
  by (induction rule: safe_call.induct)
    (erule payment_call_kept | intro kept_services kept_calls going_fine(1,3) going_fine(7); assumption?)+

lemma risky_call_kept: "risky_call ev p \<Longrightarrow> kept p"
  by (induction rule: risky_call.induct) (intro kept_services going_fine(1,3) going_fine(7); assumption?)+

lemma ui_call_kept: "ui_call ev p \<Longrightarrow> kept p"
  unfolding ui_call_def using safe_call_kept risky_call_kept by blast

lemma safe_call_calm: "safe_call ev p \<Longrightarrow> calm p"
  by (induction rule: safe_call.induct)
    (erule payment_call_calm | intro calm_services calm_store(1) going_fine(2,4,6) going_fine(5,8); assumption?)+

end
