(* ===== verification/RpcQueue.thy ===== *)
theory RpcQueue
  imports Prelude
begin

text \<open>
  \<open>services/checkout/src/lib/intercom/helpers/rpc-queue.ts\<close>: tasks that run one after the other.
  Running a task is a call of \<open>setTimeout(fn, 0)\<close>: the function to call is the second part of what an
  operation returns, and the event loop calls it later.  What the queue promises is the locale
  \<open>serial_queue\<close>, interpreted on the code's model.
\<close>

section \<open>The class\<close>

record 'f rpc_queue =
  q_idx :: nat
  q_started :: "nat option"
  q_queue :: "(nat \<times> 'f) list"

definition new_queue :: "'f rpc_queue" where
  "new_queue = \<lparr>q_idx = 0, q_started = None, q_queue = []\<rparr>"

text \<open>\<open>!this.started\<close>: the number zero counts as not started.\<close>

definition q_idle :: "'f rpc_queue \<Rightarrow> bool" where
  "q_idle q = (case q_started q of None \<Rightarrow> True | Some n \<Rightarrow> n = 0)"

definition q_run :: "'f rpc_queue \<Rightarrow> 'f rpc_queue \<times> 'f option" where
  "q_run q =
     (case q_queue q of
        [] \<Rightarrow> (q, None)
      | (i, fn) # _ \<Rightarrow> if q_idle q then (q\<lparr>q_started := Some i\<rparr>, Some fn) else (q, None))"

definition q_done :: "nat \<Rightarrow> 'f rpc_queue \<Rightarrow> 'f rpc_queue \<times> 'f option" where
  "q_done i q = q_run (q\<lparr>q_queue := filter (\<lambda>task. fst task \<noteq> i) (q_queue q), q_started := None\<rparr>)"

definition q_register :: "nat \<Rightarrow> 'f \<Rightarrow> 'f rpc_queue \<Rightarrow> 'f rpc_queue \<times> 'f option" where
  "q_register i fn q = q_run (q\<lparr>q_queue := q_queue q @ [(i, fn)]\<rparr>)"

definition q_task :: "'f rpc_queue \<Rightarrow> nat \<times> 'f rpc_queue" where
  "q_task q = (q_idx q + 1, q\<lparr>q_idx := q_idx q + 1\<rparr>)"

lemmas queue_defs = q_idle_def q_run_def q_done_def q_register_def q_task_def

section \<open>The contract\<close>

text \<open>
  A state is good when the first of the waiting tasks is the one that was started.  A task that comes
  to an empty queue starts at once; when the running task ends the next one starts.
\<close>

locale serial_queue =
  fixes good :: "'q \<Rightarrow> bool" and waiting :: "'q \<Rightarrow> (nat \<times> 'f) list"
    and take :: "'q \<Rightarrow> nat \<times> 'q"
    and register :: "nat \<Rightarrow> 'f \<Rightarrow> 'q \<Rightarrow> 'q \<times> 'f option"
    and finish :: "nat \<Rightarrow> 'q \<Rightarrow> 'q \<times> 'f option"
  assumes registered: "good q \<Longrightarrow> take q = (i, q1) \<Longrightarrow> register i f q1 = (q2, r)
      \<Longrightarrow> good q2 \<and> waiting q2 = waiting q @ [(i, f)] \<and> r = (if waiting q = [] then Some f else None)"
    and finished: "good q \<Longrightarrow> waiting q = (i, f) # rest \<Longrightarrow> finish i q = (q', r)
      \<Longrightarrow> good q' \<and> waiting q' = rest \<and> r = map_option snd (if rest = [] then None else Some (hd rest))"
begin

text \<open>A run of the queue: a new task is taken and registered, or the running task ends.\<close>

fun serve :: "'f option \<Rightarrow> 'q \<times> 'f list \<Rightarrow> 'q \<times> 'f list" where
  "serve (Some f) (q, started) =
     (let (i, q1) = take q; (q2, r) = register i f q1 in (q2, started @ (case r of None \<Rightarrow> [] | Some g \<Rightarrow> [g])))"
| "serve None (q, started) =
     (case waiting q of
        [] \<Rightarrow> (q, started)
      | (i, f) # _ \<Rightarrow> let (q1, r) = finish i q in (q1, started @ (case r of None \<Rightarrow> [] | Some g \<Rightarrow> [g])))"

lemma serve_keeps:
  assumes "good q" "started @ map snd (tl (waiting q)) = asked" "serve op (q, started) = (q', started')"
  shows "good q'" "started' @ map snd (tl (waiting q')) = asked @ (case op of None \<Rightarrow> [] | Some f \<Rightarrow> [f])"
proof -
  have "good q' \<and> started' @ map snd (tl (waiting q')) = asked @ (case op of None \<Rightarrow> [] | Some f \<Rightarrow> [f])"
  proof (cases op)
    case None
    show ?thesis
    proof (cases "waiting q")
      case (Cons t rest)
      obtain i f where t: "t = (i, f)" by fastforce
      obtain q1 r where fin: "finish i q = (q1, r)" by fastforce
      from finished [OF assms(1) Cons [unfolded t] fin] assms(2,3) None Cons t fin show ?thesis
        by (cases rest) auto
    qed (use assms None in simp)
  next
    case (Some f)
    obtain i q1 where tk: "take q = (i, q1)" by fastforce
    obtain q2 r where rg: "register i f q1 = (q2, r)" by fastforce
    from registered [OF assms(1) tk rg] assms(2,3) Some tk rg show ?thesis
      by (cases "waiting q") auto
  qed
  then show "good q'" "started' @ map snd (tl (waiting q')) = asked @ (case op of None \<Rightarrow> [] | Some f \<Rightarrow> [f])"
    by simp_all
qed

lemma serve_all:
  assumes "good q" "started @ map snd (tl (waiting q)) = asked" "fold serve ops (q, started) = (q', started')"
  shows "started' @ map snd (tl (waiting q')) = asked @ List.map_filter id ops"
  using assms
proof (induction ops arbitrary: q started asked)
  case (Cons op ops)
  obtain q1 st1 where s: "serve op (q, started) = (q1, st1)" by fastforce
  note k = serve_keeps [OF Cons.prems(1,2) s]
  have "fold serve ops (q1, st1) = (q', started')"
    using Cons.prems(3) unfolding fold_simps(2) s .
  from Cons.IH [OF k this] show ?case
    by (cases op) (simp_all add: List.map_filter_simps)
qed (simp add: List.map_filter_simps)

end

section \<open>The code keeps it\<close>

definition q_good :: "'f rpc_queue \<Rightarrow> bool" where
  "q_good q = (q_started q = (case q_queue q of [] \<Rightarrow> None | (i, _) # _ \<Rightarrow> Some i)
     \<and> distinct (map fst (q_queue q)) \<and> (\<forall>t \<in> set (q_queue q). 0 < fst t \<and> fst t \<le> q_idx q))"

lemma q_register_good:
  assumes "q_good q" "q_task q = (i, q1)" "q_register i f q1 = (q2, r)"
  shows "q_good q2 \<and> q_queue q2 = q_queue q @ [(i, f)] \<and> r = (if q_queue q = [] then Some f else None)"
  using assms by (cases "q_queue q") (force simp: queue_defs q_good_def split: prod.splits option.splits if_splits)+

lemma q_done_good:
  assumes "q_good q" "q_queue q = (i, f) # rest" "q_done i q = (q', r)"
  shows "q_good q' \<and> q_queue q' = rest \<and> r = map_option snd (if rest = [] then None else Some (hd rest))"
proof -
  have "filter (\<lambda>task. fst task \<noteq> i) (q_queue q) = rest"
    using assms(1,2) by (force simp: q_good_def filter_id_conv)
  then show ?thesis
    using assms by (cases rest) (force simp: queue_defs q_good_def split: prod.splits if_splits)+
qed

interpretation pages: serial_queue q_good q_queue q_task q_register q_done
  by unfold_locales (rule q_register_good, assumption+, rule q_done_good, assumption+)

text \<open>What a page does with its queue: it asks for one more task, or the running task ends.\<close>

fun q_serve :: "'f option \<Rightarrow> 'f rpc_queue \<times> 'f list \<Rightarrow> 'f rpc_queue \<times> 'f list" where
  "q_serve (Some f) (q, started) =
     (let (i, q1) = q_task q; (q2, r) = q_register i f q1
      in (q2, started @ (case r of None \<Rightarrow> [] | Some g \<Rightarrow> [g])))"
| "q_serve None (q, started) =
     (case q_queue q of
        [] \<Rightarrow> (q, started)
      | (i, f) # _ \<Rightarrow> let (q1, r) = q_done i q in (q1, started @ (case r of None \<Rightarrow> [] | Some g \<Rightarrow> [g])))"

lemma pages_serve: "pages.serve = q_serve"
proof (intro ext)
  fix op :: "'a option" and s
  show "pages.serve op s = q_serve op s" by (cases op; cases s) simp_all
qed

text \<open>Tasks start in the order in which they were asked for, each once: those that have not started are the
  tasks that wait behind the running one.\<close>

theorem queue_starts_in_order:
  "snd (fold q_serve ops (new_queue, []))
     @ map snd (tl (q_queue (fst (fold q_serve ops (new_queue, []))))) = List.map_filter id ops"
  using pages.serve_all [of new_queue "[]" "[]" ops]
  by (cases "fold q_serve ops (new_queue, [])") (simp add: q_good_def new_queue_def pages_serve)

end
