(* ===== verification/Intercom.thy ===== *)
theory Intercom
  imports CheckoutState RpcQueue
begin

text \<open>
  \<open>services/checkout/src/lib/intercom\<close>: \<open>FormConnection\<close> (\<open>connection.ts\<close>), the link of the form to the
  shop's page, and \<open>CheckoutClientApi\<close> (\<open>rpc.ts\<close>), which turns messages into requests: a method sends an
  event, listens for a message that looks like an answer, and gives up after a time
  (\<open>packages/utils/promise/time-race.ts\<close>).  \<open>helpers/ping.ts\<close> works the same way.

  \<open>FormConnection\<close> extends the \<open>EventEmitter\<close> of the theory \<open>Emitter\<close>; a listener is the closure a
  request made, and carries the number of its promise.  The promise a caller gets is the first of the
  answer and the timer: its verdict is set once.  What the event loop calls is the input of
  \<open>rpc_step\<close>: a call of a method, a message of the shop, a timer of a race or of the queue.  Tracking of
  times and logs are left out.
\<close>

section \<open>Messages\<close>

datatype MessageType = MtSetup | MtPayment | MtUpdate | MtComplete | MtPing

record MerchantErrors =
  mer_code :: string
  mer_message :: string

definition UpdateErrorCode_Coupon :: string where "UpdateErrorCode_Coupon = ''COUPON''"

record UpdatePaymentData =
  up_order :: "SheetOrder option"
  up_shippingOptions :: "ShippingOption list option"
  up_pickupPoints :: "RawPickupPoint list option"
  up_pickupPoint :: "PickupPoint option"
  up_errors :: "MerchantErrors list option"
  up_metadata :: "string option"

definition no_update :: UpdatePaymentData where
  "no_update = \<lparr>up_order = None, up_shippingOptions = None, up_pickupPoints = None, up_pickupPoint = None,
     up_errors = None, up_metadata = None\<rparr>"

record SetupPaymentData =
  su_pickupPoints :: "RawPickupPoint list option"

text \<open>Messages of the shop's page; their data may be missing, whatever their types say.\<close>

datatype shop_message =
    SetupMessage "SetupPaymentData option"
  | PaymentMessage Sheet
  | UpdateMessage "UpdatePaymentData option"
  | CompleteMessage string
  | PingMessage

fun message_type :: "shop_message \<Rightarrow> MessageType" where
  "message_type (SetupMessage d) = MtSetup"
| "message_type (PaymentMessage s) = MtPayment"
| "message_type (UpdateMessage u) = MtUpdate"
| "message_type (CompleteMessage r) = MtComplete"
| "message_type PingMessage = MtPing"

text \<open>Events for the shop's page.\<close>

record ChangeEventData =
  ch_shippingAddress :: "ShippingAddress option"
  ch_shippingOption :: "ShippingOption option"
  ch_coupon :: "string option"
  ch_pickupBounds :: "GeoBounds option"
  ch_pickupArea :: "(GeoBounds \<times> GeoPoint) option"
  ch_pickupInfo :: "string option"
  ch_pickupPoint :: "PickupPoint option"

definition no_change :: ChangeEventData where
  "no_change = \<lparr>ch_shippingAddress = None, ch_shippingOption = None, ch_coupon = None, ch_pickupBounds = None,
     ch_pickupArea = None, ch_pickupInfo = None, ch_pickupPoint = None\<rparr>"

record ResetEventData =
  re_shippingOption :: "bool option"
  re_coupon :: "bool option"

datatype PaymentEvent =
    ReadyEvent
  | AbortClose
  | FormErrorEvent string "string option"
  | ProcessEvent PaymentProcessData
  | SuccessEvent string "string option"
  | PingEvent
  | ChangeEvent ChangeEventData
  | ResetEvent ResetEventData
  | SetupEvent bool

section \<open>The state\<close>

datatype rpc_request =
    WaitSheet
  | Setup
  | ShippingAddressChange Address
  | CouponChange string
  | CouponReset
  | PickupBoundsChange GeoBounds GeoPoint
  | PickupInfoRequest string
  | ShippingOptionChange ShippingOption
  | PickupPointChange PickupPoint
  | ShippingOptionReset
  | PingOpener

datatype reply =
    UpdateReply UpdatePaymentData
  | SetupReply SetupPaymentData
  | EmptyReply
  | PointsReply "RawPickupPoint list"
  | SheetReply Sheet
  | PingReply

datatype verdict = Resolved reply | RejectedWith string | RejectedError string | RejectedUndefined

text \<open>The listener of a request: its promise, what was asked, and its task in the queue if it has one.\<close>

record rpc_fn =
  fn_promise :: nat
  fn_asked :: rpc_request
  fn_task :: nat

type_synonym form_emitter = "(MessageType, rpc_fn) emitter"

record rpc =
  connected :: bool
  outbox :: "PaymentEvent list"
  boundsChangeQ :: "rpc_fn rpc_queue"
  verdicts :: "nat \<Rightarrow> verdict option"
  next_promise :: nat
  race_timers :: "(nat \<times> verdict) list"
  zero_timers :: "rpc_fn list"

type_synonym rpc_state = "form_emitter \<times> rpc"

definition new_rpc :: "bool \<Rightarrow> rpc_state" where
  "new_rpc con = (new_emitter,
     \<lparr>connected = con, outbox = [], boundsChangeQ = new_queue, verdicts = (\<lambda>_. None), next_promise = 0,
      race_timers = [], zero_timers = []\<rparr>)"

section \<open>FormConnection\<close>

definition send :: "PaymentEvent \<Rightarrow> rpc \<Rightarrow> rpc" where
  "send e c = c\<lparr>outbox := outbox c @ [e]\<rparr>"

definition send_connected :: "PaymentEvent \<Rightarrow> rpc \<Rightarrow> rpc" where
  "send_connected e c = (if connected c then send e c else c)"

definition formReady :: "rpc \<Rightarrow> rpc" where "formReady = send_connected ReadyEvent"
definition formClose :: "rpc \<Rightarrow> rpc" where "formClose = send AbortClose"
definition formError :: "string \<Rightarrow> string option \<Rightarrow> rpc \<Rightarrow> rpc" where
  "formError err details = send (FormErrorEvent err details)"
definition processPayment :: "PaymentProcessData \<Rightarrow> rpc \<Rightarrow> rpc" where
  "processPayment d = send (ProcessEvent d)"
definition successCheckout :: "string \<Rightarrow> string option \<Rightarrow> rpc \<Rightarrow> rpc" where
  "successCheckout orderId metadata = send (SuccessEvent orderId metadata)"
definition form_ping :: "rpc \<Rightarrow> rpc" where "form_ping = send_connected PingEvent"
definition form_change :: "ChangeEventData \<Rightarrow> rpc \<Rightarrow> rpc" where
  "form_change d = send_connected (ChangeEvent d)"
definition form_reset :: "ResetEventData \<Rightarrow> rpc \<Rightarrow> rpc" where
  "form_reset d = send_connected (ResetEvent d)"
definition form_setup :: "bool \<Rightarrow> rpc \<Rightarrow> rpc" where
  "form_setup points = send_connected (SetupEvent points)"

section \<open>The listeners\<close>

definition settle :: "nat \<Rightarrow> verdict \<Rightarrow> rpc \<Rightarrow> rpc" where
  "settle p v c = (if verdicts c p = None then c\<lparr>verdicts := (verdicts c)(p \<mapsto> v)\<rparr> else c)"

text \<open>What a listener takes an update for: nothing, or the end of its wait.\<close>

definition order_reply :: "UpdatePaymentData option \<Rightarrow> verdict option" where
  "order_reply u = (case u of
     Some d \<Rightarrow> if up_order d \<noteq> None then Some (Resolved (UpdateReply d)) else None | None \<Rightarrow> None)"

definition coupon_error :: "UpdatePaymentData option \<Rightarrow> MerchantErrors option" where
  "coupon_error u = Option.bind u (\<lambda>d. Option.bind (up_errors d)
     (List.find (\<lambda>e. mer_code e = UpdateErrorCode_Coupon)))"

fun hears :: "rpc_request \<Rightarrow> UpdatePaymentData option \<Rightarrow> verdict option" where
  "hears (ShippingAddressChange a) u = (case u of
     Some d \<Rightarrow> if up_shippingOptions d \<noteq> None then Some (Resolved (UpdateReply d)) else None | None \<Rightarrow> None)"
| "hears (CouponChange code) u = (case coupon_error u of
     Some e \<Rightarrow> Some (RejectedWith (mer_message e)) | None \<Rightarrow> order_reply u)"
| "hears CouponReset u = order_reply u"
| "hears (ShippingOptionChange opt) u = order_reply u"
| "hears (PickupPointChange p) u = order_reply u"
| "hears ShippingOptionReset u = order_reply u"
| "hears (PickupBoundsChange b g) u = (case u of
     Some d \<Rightarrow> map_option (\<lambda>ps. Resolved (PointsReply ps)) (up_pickupPoints d) | None \<Rightarrow> None)"
| "hears (PickupInfoRequest i) u = (case u of
     Some d \<Rightarrow> if up_pickupPoint d \<noteq> None then Some (Resolved (UpdateReply d)) else None | None \<Rightarrow> None)"
| "hears _ u = None"

fun keeps_listening :: "rpc_request \<Rightarrow> bool" where
  "keeps_listening (PickupInfoRequest i) = True"
| "keeps_listening _ = False"

fun is_bounds :: "rpc_request \<Rightarrow> bool" where
  "is_bounds (PickupBoundsChange b g) = True"
| "is_bounds _ = False"

text \<open>\<open>taskQ.done()\<close>: the next task, if any, gets its \<open>setTimeout\<close>.\<close>

definition later :: "rpc_fn rpc_queue \<times> rpc_fn option \<Rightarrow> rpc \<Rightarrow> rpc" where
  "later r c = c\<lparr>boundsChangeQ := fst r,
     zero_timers := zero_timers c @ (case snd r of None \<Rightarrow> [] | Some f \<Rightarrow> [f])\<rparr>"

fun rpc_listener :: "rpc_fn \<Rightarrow> shop_message \<Rightarrow> rpc_state \<Rightarrow> string option \<times> rpc_state" where
  "rpc_listener f (UpdateMessage u) (em, c) =
     (case hears (fn_asked f) u of
        None \<Rightarrow> (None, (em, c))
      | Some v \<Rightarrow> (None,
          (if keeps_listening (fn_asked f) then em else em_off MtUpdate (Some (listener.Plain f)) em,
           settle (fn_promise f) v
             (if is_bounds (fn_asked f) then later (q_done (fn_task f) (boundsChangeQ c)) c else c))))"
| "rpc_listener f (PaymentMessage sheet) (em, c) = (None, (em, settle (fn_promise f) (Resolved (SheetReply sheet)) c))"
| "rpc_listener f (SetupMessage d) (em, c) =
     (None, (em, case d of None \<Rightarrow> c | Some x \<Rightarrow> settle (fn_promise f) (Resolved (SetupReply x)) c))"
| "rpc_listener f PingMessage (em, c) = (None, (em, settle (fn_promise f) (Resolved PingReply) c))"
| "rpc_listener f (CompleteMessage r) (em, c) = (None, (em, c))"

definition onMessage :: "shop_message \<Rightarrow> rpc_state \<Rightarrow> rpc_state" where
  "onMessage m s = snd (em_emit rpc_listener (message_type m) m s)"

section \<open>The requests\<close>

text \<open>What a request sends.\<close>

fun asks :: "rpc_request \<Rightarrow> rpc \<Rightarrow> rpc" where
  "asks WaitSheet = id"
| "asks Setup = form_setup True"
| "asks (ShippingAddressChange a) = form_change (no_change\<lparr>ch_shippingAddress := Some (toShippingAddress a)\<rparr>)"
| "asks (CouponChange code) = form_change (no_change\<lparr>ch_coupon := Some code\<rparr>)"
| "asks CouponReset = form_reset \<lparr>re_shippingOption = None, re_coupon = Some True\<rparr>"
| "asks (PickupBoundsChange b g) = form_change (no_change\<lparr>ch_pickupBounds := Some b, ch_pickupArea := Some (b, g)\<rparr>)"
| "asks (PickupInfoRequest i) = form_change (no_change\<lparr>ch_pickupInfo := Some i\<rparr>)"
| "asks (ShippingOptionChange opt) = form_change (no_change\<lparr>ch_shippingOption := Some opt\<rparr>)"
| "asks (PickupPointChange p) = form_change (no_change\<lparr>ch_pickupPoint := Some p\<rparr>)"
| "asks ShippingOptionReset = form_reset \<lparr>re_shippingOption = Some True, re_coupon = None\<rparr>"
| "asks PingOpener = form_ping"

text \<open>What the caller gets when the timer of the race comes first; two requests have no timer.\<close>

fun when_late :: "rpc_request \<Rightarrow> verdict option" where
  "when_late WaitSheet = Some (RejectedError ''The payment sheet was not provided'')"
| "when_late Setup = Some (Resolved EmptyReply)"
| "when_late (ShippingAddressChange a) = Some (RejectedError ''The shipping options were not provided'')"
| "when_late (PickupBoundsChange b g) = None"
| "when_late (PickupInfoRequest i) = Some RejectedUndefined"
| "when_late ShippingOptionReset = None"
| "when_late PingOpener = Some (RejectedError ''Ping error'')"
| "when_late _ = Some (RejectedError ''The order was not provided'')"

definition subscribe :: "rpc_fn \<Rightarrow> rpc_state \<Rightarrow> rpc_state" where
  "subscribe f s = (case s of (em, c) \<Rightarrow>
     (case fn_asked f of
        WaitSheet \<Rightarrow> (snd (em_once MtPayment f em), c)
      | Setup \<Rightarrow> (snd (em_once MtSetup f em), c)
      | PingOpener \<Rightarrow> (snd (em_on MtPing f em), c)
      | PickupBoundsChange b g \<Rightarrow> (em, later (q_register (fn_task f) f (boundsChangeQ c)) c)
      | _ \<Rightarrow> (snd (em_on MtUpdate f em), c)))"

definition start_request :: "rpc_request \<Rightarrow> rpc_state \<Rightarrow> rpc_state" where
  "start_request rq s = (case s of (em, c) \<Rightarrow>
     let (task, q) = (if is_bounds rq then q_task (boundsChangeQ c) else (0, boundsChangeQ c));
         p = next_promise c;
         (em', c') = subscribe \<lparr>fn_promise = p, fn_asked = rq, fn_task = task\<rparr>
                       (em, c\<lparr>boundsChangeQ := q, next_promise := Suc p\<rparr>)
     in (em', (asks rq c')\<lparr>race_timers := race_timers c' @ (case when_late rq of None \<Rightarrow> [] | Some v \<Rightarrow> [(p, v)])\<rparr>))"

section \<open>The event loop\<close>

datatype rpc_input = Ask rpc_request | Arrive shop_message | RaceTimer nat | ZeroTimer

text \<open>The timers of the queue are called in the order in which they were set.\<close>

fun rpc_step :: "rpc_input \<Rightarrow> rpc_state \<Rightarrow> rpc_state" where
  "rpc_step (Ask rq) s = start_request rq s"
| "rpc_step (Arrive m) s = onMessage m s"
| "rpc_step (RaceTimer p) (em, c) =
     (em, case map_of (race_timers c) p of
            None \<Rightarrow> c
          | Some v \<Rightarrow> settle p v (c\<lparr>race_timers := filter (\<lambda>t. fst t \<noteq> p) (race_timers c)\<rparr>))"
| "rpc_step ZeroTimer (em, c) =
     (case zero_timers c of
        [] \<Rightarrow> (em, c)
      | f # fs \<Rightarrow> (snd (em_on MtUpdate f em), c\<lparr>zero_timers := fs\<rparr>))"

definition rpc_run :: "rpc_input list \<Rightarrow> rpc_state \<Rightarrow> rpc_state" where
  "rpc_run ins s = fold rpc_step ins s"

section \<open>One update\<close>

text \<open>The listeners that wait for updates; what one of them does to the requests.\<close>

definition waiting_fns :: "form_emitter \<Rightarrow> rpc_fn list" where
  "waiting_fns em = map fn_of (listeners_of em MtUpdate)"

definition leaves :: "UpdatePaymentData option \<Rightarrow> rpc_fn \<Rightarrow> bool" where
  "leaves u f = (hears (fn_asked f) u \<noteq> None \<and> \<not> keeps_listening (fn_asked f))"

definition hearing :: "UpdatePaymentData option \<Rightarrow> rpc_fn \<Rightarrow> rpc \<Rightarrow> rpc" where
  "hearing u f c = (case hears (fn_asked f) u of
     None \<Rightarrow> c
   | Some v \<Rightarrow> settle (fn_promise f) v
       (if is_bounds (fn_asked f) then later (q_done (fn_task f) (boundsChangeQ c)) c else c))"

abbreviation bounds_fn :: "rpc_fn \<Rightarrow> bool" where
  "bounds_fn f \<equiv> is_bounds (fn_asked f)"

lemma run_update:
  "run_listeners rpc_listener MtUpdate (UpdateMessage u) (map listener.Plain fs) (em, c) =
     (None, (fold (\<lambda>f. em_off MtUpdate (Some f)) (map listener.Plain (filter (leaves u) fs)) em,
             fold (hearing u) fs c))"
  by (induction fs arbitrary: em c) (auto simp: leaves_def hearing_def split: option.splits)

lemma settle_simps [simp]:
  "boundsChangeQ (settle p v c) = boundsChangeQ c" "zero_timers (settle p v c) = zero_timers c"
  "race_timers (settle p v c) = race_timers c" "next_promise (settle p v c) = next_promise c"
  "verdicts (settle p v c) r = (if r = p \<and> verdicts c p = None then Some v else verdicts c r)"
  by (simp_all add: settle_def)

lemma later_simps [simp]:
  "verdicts (later r c) = verdicts c" "race_timers (later r c) = race_timers c"
  "next_promise (later r c) = next_promise c" "boundsChangeQ (later r c) = fst r"
  "zero_timers (later r c) = zero_timers c @ (case snd r of None \<Rightarrow> [] | Some f \<Rightarrow> [f])"
  by (simp_all add: later_def)

lemma hearing_simps [simp]:
  "race_timers (hearing u f c) = race_timers c" "next_promise (hearing u f c) = next_promise c"
  by (simp_all add: hearing_def split: option.splits)

lemma hearing_all [simp]:
  "race_timers (fold (hearing u) fs c) = race_timers c"
  "next_promise (fold (hearing u) fs c) = next_promise c"
  by (induction fs arbitrary: c) simp_all

lemma hearing_verdicts:
  assumes "distinct (map fn_promise fs)"
  shows "verdicts (fold (hearing u) fs c) p = (case verdicts c p of
     Some v \<Rightarrow> Some v
   | None \<Rightarrow> Option.bind (List.find (\<lambda>f. fn_promise f = p) fs) (\<lambda>f. hears (fn_asked f) u))"
  using assms
proof (induction fs arbitrary: c)
  case (Cons f fs)
  have "List.find (\<lambda>g. fn_promise g = fn_promise f) fs = None"
    using Cons.prems by (auto simp: find_None_iff) (metis image_eqI)
  then show ?case
    using Cons by (auto simp: hearing_def split: option.splits)
qed (simp split: option.splits)

text \<open>The queue is touched by the listener of a request for pickup points only.\<close>

lemma hearing_other:
  assumes "\<forall>f \<in> set fs. \<not> bounds_fn f"
  shows "boundsChangeQ (fold (hearing u) fs c) = boundsChangeQ c \<and> zero_timers (fold (hearing u) fs c) = zero_timers c"
  using assms by (induction fs arbitrary: c) (auto simp: hearing_def split: option.splits)

lemma hearing_queue:
  assumes "filter bounds_fn fs = (case found of None \<Rightarrow> [] | Some f \<Rightarrow> [f])"
  shows "boundsChangeQ (fold (hearing u) fs c) = (case found of None \<Rightarrow> boundsChangeQ c
           | Some f \<Rightarrow> boundsChangeQ (hearing u f c))
    \<and> zero_timers (fold (hearing u) fs c) = (case found of None \<Rightarrow> zero_timers c
           | Some f \<Rightarrow> zero_timers (hearing u f c))"
proof (cases found)
  case None
  then have "\<forall>f \<in> set fs. \<not> bounds_fn f" using assms by (simp add: filter_empty_conv)
  from hearing_other [OF this] None show ?thesis by simp
next
  case (Some f)
  then have "filter bounds_fn fs = f # []" using assms by simp
  from filter_eq_ConsD [OF this] obtain as bs where
    fs: "fs = as @ f # bs" "\<forall>g \<in> set as. \<not> bounds_fn g" "filter bounds_fn bs = []" by auto
  then have "\<forall>g \<in> set bs. \<not> bounds_fn g" by (simp add: filter_empty_conv)
  note fs = fs(1,2) this
  note a = hearing_other [OF fs(2), of u c] and b = hearing_other [OF fs(3), of u]
  show ?thesis using a b Some unfolding fs(1) by (auto simp: hearing_def split: option.splits)
qed

lemma update_step:
  assumes "\<forall>l \<in> set (listeners_of em MtUpdate). \<not> is_once l"
  shows "rpc_step (Arrive (UpdateMessage u)) (em, c) =
    (fold (\<lambda>f. em_off MtUpdate (Some f)) (map listener.Plain (filter (leaves u) (waiting_fns em))) em,
     fold (hearing u) (waiting_fns em) c)"
proof -
  have "l = listener.Plain (fn_of l)" if "l \<in> set (listeners_of em MtUpdate)" for l
    by (cases l; use that assms in auto)
  then have "listeners_of em MtUpdate = map listener.Plain (waiting_fns em)"
    by (auto simp: waiting_fns_def intro!: nth_equalityI)
  then show ?thesis by (simp add: onMessage_def em_emit_def run_update)
qed

section \<open>What holds whenever the event loop waits\<close>

text \<open>\<open>asked\<close> are the requests made so far; the promise of a request is its position among them.\<close>

definition made_by :: "rpc_request list \<Rightarrow> rpc_fn \<Rightarrow> bool" where
  "made_by asked f = (fn_promise f < length asked \<and> asked ! fn_promise f = fn_asked f)"

definition listeners_ok :: "rpc_request list \<Rightarrow> form_emitter \<Rightarrow> bool" where
  "listeners_ok asked em = ((\<forall>l \<in> set (listeners_of em MtUpdate). \<not> is_once l)
     \<and> distinct (map fn_promise (waiting_fns em))
     \<and> (\<forall>ty. \<forall>l \<in> set (listeners_of em ty). made_by asked (fn_of l) \<and> (ty \<noteq> MtUpdate \<longrightarrow> \<not> bounds_fn (fn_of l))))"

text \<open>Of the requests for pickup points only the oldest has a listener, or the timer that will make it.\<close>

definition bounds_tasks :: "rpc \<Rightarrow> rpc_fn list" where
  "bounds_tasks c = map snd (q_queue (boundsChangeQ c))"

definition queue_ok :: "rpc_request list \<Rightarrow> form_emitter \<Rightarrow> rpc \<Rightarrow> bool" where
  "queue_ok asked em c = (q_good (boundsChangeQ c)
     \<and> (\<forall>t \<in> set (q_queue (boundsChangeQ c)). fn_task (snd t) = fst t)
     \<and> (\<forall>f \<in> set (bounds_tasks c). bounds_fn f \<and> made_by asked f \<and> verdicts c (fn_promise f) = None)
     \<and> distinct (map fn_promise (bounds_tasks c))
     \<and> filter bounds_fn (waiting_fns em) @ zero_timers c = (case bounds_tasks c of [] \<Rightarrow> [] | f # _ \<Rightarrow> [f]))"

definition timers_ok :: "rpc_request list \<Rightarrow> rpc \<Rightarrow> bool" where
  "timers_ok asked c = (distinct (map fst (race_timers c))
     \<and> (\<forall>t \<in> set (race_timers c). fst t < length asked \<and> when_late (asked ! fst t) = Some (snd t))
     \<and> (\<forall>p < length asked. \<forall>v. when_late (asked ! p) = Some v \<longrightarrow> verdicts c p = None
          \<longrightarrow> (p, v) \<in> set (race_timers c)))"

definition rpc_inv :: "rpc_request list \<Rightarrow> rpc_state \<Rightarrow> bool" where
  "rpc_inv asked s = (next_promise (snd s) = length asked
     \<and> (\<forall>p. verdicts (snd s) p \<noteq> None \<longrightarrow> p < length asked)
     \<and> listeners_ok asked (fst s) \<and> queue_ok asked (fst s) (snd s) \<and> timers_ok asked (snd s))"

lemma rpc_inv_new: "rpc_inv [] (new_rpc con)"
  by (simp add: rpc_inv_def new_rpc_def listeners_ok_def queue_ok_def timers_ok_def waiting_fns_def
      q_good_def new_queue_def bounds_tasks_def)

lemma made_by_append: "made_by asked f \<Longrightarrow> made_by (asked @ rqs) f"
  by (auto simp: made_by_def nth_append)

lemma made_by_same: "made_by asked f \<Longrightarrow> made_by asked g \<Longrightarrow> fn_promise f = fn_promise g \<Longrightarrow> fn_asked f = fn_asked g"
  by (simp add: made_by_def)

lemma bounds_untimed: "is_bounds rq \<Longrightarrow> when_late rq = None"
  by (cases rq) auto

lemma waiting_made_by: "listeners_ok asked em \<Longrightarrow> f \<in> set (waiting_fns em) \<Longrightarrow> made_by asked f"
  by (auto simp: listeners_ok_def waiting_fns_def)

text \<open>A change of the verdicts, other than those of pickup points, and of the listeners for other messages.\<close>

lemma inv_settling:
  assumes "rpc_inv asked (em, c)" "listeners_ok asked em'" "listeners_of em' MtUpdate = listeners_of em MtUpdate"
    and "boundsChangeQ c' = boundsChangeQ c" "zero_timers c' = zero_timers c" "next_promise c' = next_promise c"
    and "distinct (map fst (race_timers c'))" "set (race_timers c') \<subseteq> set (race_timers c)"
    and "\<And>p. verdicts c' p \<noteq> verdicts c p \<Longrightarrow> p < length asked \<and> \<not> is_bounds (asked ! p)"
    and "\<And>p. verdicts c p \<noteq> None \<Longrightarrow> verdicts c' p = verdicts c p"
    and "\<And>p v. (p, v) \<in> set (race_timers c) \<Longrightarrow> verdicts c' p = None \<Longrightarrow> (p, v) \<in> set (race_timers c')"
  shows "rpc_inv asked (em', c')"
proof -
  note i = assms(1)[unfolded rpc_inv_def fst_conv snd_conv]
  have "verdicts c' (fn_promise f) = None" if "f \<in> set (bounds_tasks c)" for f
  proof -
    have "is_bounds (asked ! fn_promise f)" "verdicts c (fn_promise f) = None"
      using that i by (auto simp: queue_ok_def made_by_def)
    then show ?thesis using assms(9) [of "fn_promise f"] by metis
  qed
  then have "queue_ok asked em' c'"
    using i assms(3-5) by (simp add: queue_ok_def waiting_fns_def bounds_tasks_def)
  moreover have "timers_ok asked c'"
    using i assms(7,8,10,11) unfolding timers_ok_def by (metis (no_types, lifting) subsetD)
  moreover have "p < length asked" if "verdicts c' p \<noteq> None" for p
    using that i assms(9) [of p] by (cases "verdicts c' p = verdicts c p") auto
  ultimately show ?thesis using i assms(2,6) by (simp add: rpc_inv_def)
qed

lemma inv_race:
  assumes "rpc_inv asked (em, c)"
  shows "rpc_inv asked (rpc_step (RaceTimer p) (em, c))"
proof (cases "map_of (race_timers c) p")
  case None
  then show ?thesis using assms by simp
next
  case (Some v)
  note i = assms[unfolded rpc_inv_def fst_conv snd_conv]
  have "p < length asked \<and> \<not> is_bounds (asked ! p)"
    using map_of_SomeD [OF Some] i bounds_untimed by (fastforce simp: timers_ok_def)
  then show ?thesis
    unfolding rpc_step.simps Some option.case
    using i by (intro inv_settling [OF assms]) (auto simp: timers_ok_def distinct_map_filter split: if_splits)
qed

lemma bounds_leave: "bounds_fn f \<Longrightarrow> leaves u f = (hears (fn_asked f) u \<noteq> None)"
  by (cases "fn_asked f") (simp_all add: leaves_def)

lemma waiting_after:
  assumes "\<forall>l \<in> set (listeners_of em MtUpdate). \<not> is_once l"
  shows "waiting_fns (fold (\<lambda>f. em_off MtUpdate (Some f)) (map listener.Plain (filter P (waiting_fns em))) em)
     = filter (\<lambda>f. \<not> P f) (waiting_fns em)"
proof -
  have plain: "l = listener.Plain (fn_of l)" if "l \<in> set (listeners_of em MtUpdate)" for l
    by (cases l; use that assms in auto)
  have "filter (\<lambda>l. l \<notin> set (map listener.Plain (filter P (waiting_fns em)))) (listeners_of em MtUpdate)
      = filter (\<lambda>l. \<not> P (fn_of l)) (listeners_of em MtUpdate)"
  proof (rule filter_cong [OF refl])
    fix l assume l: "l \<in> set (listeners_of em MtUpdate)"
    have "l \<in> set (map listener.Plain (filter P (waiting_fns em))) \<longleftrightarrow> fn_of l \<in> set (filter P (waiting_fns em))"
      by (subst plain [OF l]) auto
    also have "\<dots> \<longleftrightarrow> P (fn_of l)" using l by (auto simp: waiting_fns_def)
    finally show "(l \<notin> set (map listener.Plain (filter P (waiting_fns em)))) = (\<not> P (fn_of l))" by simp
  qed
  then show ?thesis
    by (simp add: waiting_fns_def event_registry.fold_remove filter_map o_def)
qed

text \<open>The queue after an update: the oldest request for pickup points is served if it listens and the
  update has points.\<close>

lemma update_queue:
  assumes "queue_ok asked em c" and c'_def: "c' = fold (hearing u) (waiting_fns em) c"
  shows "q_good (boundsChangeQ c')
    \<and> (if zero_timers c = [] \<and> bounds_tasks c \<noteq> [] \<and> hears (fn_asked (hd (bounds_tasks c))) u \<noteq> None
       then q_queue (boundsChangeQ c') = tl (q_queue (boundsChangeQ c))
         \<and> zero_timers c' = (case bounds_tasks c' of [] \<Rightarrow> [] | f # _ \<Rightarrow> [f])
       else boundsChangeQ c' = boundsChangeQ c \<and> zero_timers c' = zero_timers c)"
proof -
  note q = assms(1)[unfolded queue_ok_def]
  show ?thesis
  proof (cases "filter bounds_fn (waiting_fns em)")
    case Nil
    then have "zero_timers c = (case bounds_tasks c of [] \<Rightarrow> [] | f # _ \<Rightarrow> [f])" using q by simp
    with hearing_queue [of "waiting_fns em" None u c] Nil q show ?thesis
      by (auto simp: c'_def split: list.splits)
  next
    case (Cons f fs)
    then obtain rest where f: "fs = []" "zero_timers c = []" "bounds_tasks c = f # rest"
      using q by (cases "bounds_tasks c") auto
    then obtain i r where qq: "q_queue (boundsChangeQ c) = (i, f) # r" "fn_task f = i"
      using q by (auto simp: bounds_tasks_def)
    note h = hearing_queue [of "waiting_fns em" "Some f" u c, unfolded option.case, folded c'_def]
    obtain q' n where d: "q_done i (boundsChangeQ c) = (q', n)" by fastforce
    from q_done_good [OF _ qq(1) d] q
    have g: "q_good q'" "q_queue q' = r" "n = map_option snd (if r = [] then None else Some (hd r))" by auto
    have "bounds_fn f" using q f by auto
    then show ?thesis
      using h Cons f q qq d g by (cases r) (auto simp: hearing_def bounds_tasks_def split: option.splits)
  qed
qed

lemma listeners_ok_shrink:
  assumes "listeners_ok asked em" "\<And>ty. set (listeners_of em' ty) \<subseteq> set (listeners_of em ty)"
    "distinct (map fn_promise (waiting_fns em'))"
  shows "listeners_ok asked em'"
  using assms unfolding listeners_ok_def by (meson subsetD)

lemma fold_off_subset:
  "set (listeners_of (fold (\<lambda>f. em_off ev (Some f)) ls em) ty) \<subseteq> set (listeners_of em ty)"
proof (induction ls arbitrary: em)
  case (Cons l ls)
  show ?case using Cons.IH [of "em_off ev (Some l) em"] by (auto split: if_splits)
qed simp

text \<open>A waiting listener of a request for points is that of the oldest.\<close>

lemma waiting_bounds_oldest:
  assumes "queue_ok asked em c" "listeners_ok asked em" "g \<in> set (bounds_tasks c)" "h \<in> set (waiting_fns em)"
    "fn_promise h = fn_promise g"
  shows "bounds_tasks c = g # tl (bounds_tasks c) \<and> h = g \<and> zero_timers c = []"
proof -
  note q = assms(1)[unfolded queue_ok_def]
  have g: "bounds_fn g" "made_by asked g" using q assms(3) by auto
  have "made_by asked h" using assms(2,4) by (rule waiting_made_by)
  with g have "bounds_fn h" using made_by_same [OF _ g(2) assms(5)] by simp
  then have "h \<in> set (filter bounds_fn (waiting_fns em))" using assms(4) by simp
  then obtain rest where t: "bounds_tasks c = h # rest" "zero_timers c = []"
    using q by (cases "bounds_tasks c"; cases "filter bounds_fn (waiting_fns em)") auto
  have "g = h"
  proof (rule ccontr)
    assume "g \<noteq> h"
    then have "g \<in> set rest" using assms(3) t by simp
    then show False using q t(1) assms(5) by (auto simp: image_iff)
  qed
  then show ?thesis using t by simp
qed

lemma queue_after_update:
  assumes q: "queue_ok asked em c" and l: "listeners_ok asked em"
    and c'_def: "c' = fold (hearing u) (waiting_fns em) c"
    and v: "\<And>p. verdicts c' p = (case verdicts c p of Some v \<Rightarrow> Some v | None \<Rightarrow>
      Option.bind (List.find (\<lambda>f. fn_promise f = p) (waiting_fns em)) (\<lambda>f. hears (fn_asked f) u))"
    and w: "waiting_fns em' = filter (\<lambda>f. \<not> leaves u f) (waiting_fns em)"
  shows "queue_ok asked em' c'"
proof -
  note q' = q[unfolded queue_ok_def]
  have b: "filter bounds_fn (waiting_fns em') = filter (\<lambda>f. \<not> leaves u f) (filter bounds_fn (waiting_fns em))"
    unfolding w filter_filter by (rule filter_cong [OF refl]) auto
  have unsettled: "verdicts c' (fn_promise g) = None"
    if g: "g \<in> set (bounds_tasks c)" "g = hd (bounds_tasks c) \<Longrightarrow> zero_timers c = [] \<Longrightarrow> hears (fn_asked g) u = None" for g
  proof (cases "List.find (\<lambda>f. fn_promise f = fn_promise g) (waiting_fns em)")
    case (Some h)
    then have h: "h \<in> set (waiting_fns em)" "fn_promise h = fn_promise g"
      by (auto simp: find_Some_iff)
    from waiting_bounds_oldest [OF q l g(1) h] g(2) have "hears (fn_asked h) u = None"
      by (metis list.sel(1))
    then show ?thesis using q' g(1) Some by (simp add: v)
  qed (use q' g(1) in \<open>simp add: v\<close>)
  show ?thesis
  proof (cases "zero_timers c = [] \<and> bounds_tasks c \<noteq> [] \<and> hears (fn_asked (hd (bounds_tasks c))) u \<noteq> None")
    case True
    then obtain f rest where f: "bounds_tasks c = f # rest" by (cases "bounds_tasks c") auto
    from update_queue [OF q c'_def] True have s: "q_good (boundsChangeQ c')"
      "q_queue (boundsChangeQ c') = tl (q_queue (boundsChangeQ c))"
      "zero_timers c' = (case bounds_tasks c' of [] \<Rightarrow> [] | f # _ \<Rightarrow> [f])" by auto
    then have tasks: "bounds_tasks c' = rest" using f by (cases "q_queue (boundsChangeQ c)") (auto simp: bounds_tasks_def)
    have "f \<notin> set rest" using q' f by auto
    then have "\<forall>g \<in> set rest. verdicts c' (fn_promise g) = None" using unsettled f by auto
    moreover have "filter bounds_fn (waiting_fns em) = [f]" using q' True f by simp
    with True f q' have "filter bounds_fn (waiting_fns em') = []" by (simp add: b bounds_leave)
    moreover have "\<forall>t \<in> set (q_queue (boundsChangeQ c')). fn_task (snd t) = fst t"
      using q' s(2) by (metis list.set_sel(2) tl_Nil)
    ultimately show ?thesis using q' s(1,3) tasks f by (simp add: queue_ok_def)
  next
    case False
    with update_queue [OF q c'_def] have s: "boundsChangeQ c' = boundsChangeQ c" "zero_timers c' = zero_timers c" by auto
    have "\<not> leaves u f" if "f \<in> set (filter bounds_fn (waiting_fns em))" for f
    proof -
      have "zero_timers c = [] \<and> bounds_tasks c \<noteq> [] \<and> f = hd (bounds_tasks c)"
        using that q' by (cases "bounds_tasks c"; cases "filter bounds_fn (waiting_fns em)") auto
      then show ?thesis using False that by (simp add: bounds_leave)
    qed
    then have "filter bounds_fn (waiting_fns em') = filter bounds_fn (waiting_fns em)"
      unfolding b by (intro filter_True) blast
    moreover have "\<forall>g \<in> set (bounds_tasks c). verdicts c' (fn_promise g) = None"
      using unsettled False by (metis empty_iff list.set(1))
    ultimately show ?thesis using q' s by (simp add: queue_ok_def bounds_tasks_def)
  qed
qed

lemma inv_update:
  assumes "rpc_inv asked (em, c)"
  shows "rpc_inv asked (rpc_step (Arrive (UpdateMessage u)) (em, c))"
proof -
  note i = assms[unfolded rpc_inv_def fst_conv snd_conv]
  then have l: "listeners_ok asked em" and q: "queue_ok asked em c" and t: "timers_ok asked c" by simp_all
  then have plain: "\<forall>l \<in> set (listeners_of em MtUpdate). \<not> is_once l"
    and d: "distinct (map fn_promise (waiting_fns em))" by (simp_all add: listeners_ok_def)
  define em' where "em' = fold (\<lambda>f. em_off MtUpdate (Some f)) (map listener.Plain (filter (leaves u) (waiting_fns em))) em"
  define c' where "c' = fold (hearing u) (waiting_fns em) c"
  have w: "waiting_fns em' = filter (\<lambda>f. \<not> leaves u f) (waiting_fns em)"
    unfolding em'_def by (rule waiting_after [OF plain])
  have v: "verdicts c' p = (case verdicts c p of Some v \<Rightarrow> Some v | None \<Rightarrow>
      Option.bind (List.find (\<lambda>f. fn_promise f = p) (waiting_fns em)) (\<lambda>f. hears (fn_asked f) u))" for p
    unfolding c'_def by (rule hearing_verdicts [OF d])
  have "listeners_ok asked em'"
  proof (rule listeners_ok_shrink [OF l])
    show "distinct (map fn_promise (waiting_fns em'))" unfolding w using d by (rule distinct_map_filter)
  qed (simp add: em'_def fold_off_subset)
  moreover have "timers_ok asked c'"
  proof -
    have "race_timers c' = race_timers c" by (simp add: c'_def)
    moreover have "verdicts c p = None" if "verdicts c' p = None" for p
      using that by (simp add: v split: option.splits)
    ultimately show ?thesis using t unfolding timers_ok_def by metis
  qed
  moreover have "p < length asked" if "verdicts c' p \<noteq> None" for p
  proof (cases "verdicts c p")
    case None
    with that obtain f where "List.find (\<lambda>f. fn_promise f = p) (waiting_fns em) = Some f"
      by (auto simp: v split: bind_splits)
    then have "f \<in> set (waiting_fns em)" "fn_promise f = p" by (auto dest: find_Some_in simp: find_Some_iff)
    then show ?thesis using waiting_made_by [OF l] by (auto simp: made_by_def)
  qed (use i in auto)
  moreover have "queue_ok asked em' c'"
    by (rule queue_after_update [OF q l c'_def v w])
  ultimately show ?thesis
    unfolding update_step [OF plain] rpc_inv_def em'_def [symmetric] c'_def [symmetric]
    using i by (simp add: c'_def)
qed

text \<open>Messages of the other types only settle promises.\<close>

lemma run_other:
  assumes "message_type m \<noteq> MtUpdate"
  shows "\<exists>em' c'. run_listeners rpc_listener (message_type m) m ls (em, c) = (None, (em', c'))
    \<and> listeners_of em' MtUpdate = listeners_of em MtUpdate
    \<and> (\<forall>ty. set (listeners_of em' ty) \<subseteq> set (listeners_of em ty))
    \<and> boundsChangeQ c' = boundsChangeQ c \<and> zero_timers c' = zero_timers c \<and> race_timers c' = race_timers c
    \<and> next_promise c' = next_promise c
    \<and> (\<forall>p. verdicts c' p \<noteq> verdicts c p \<longrightarrow> p \<in> (fn_promise \<circ> fn_of) ` set ls \<and> verdicts c p = None)"
proof (induction ls arbitrary: em c)
  case (Cons l ls)
  define em1 where "em1 = (case l of OnceFn r fn \<Rightarrow> em_off (message_type m) (Some l) em | _ \<Rightarrow> em)"
  have "\<exists>c1. invoke rpc_listener (message_type m) m l (em, c) = (None, (em1, c1))
      \<and> boundsChangeQ c1 = boundsChangeQ c \<and> zero_timers c1 = zero_timers c \<and> race_timers c1 = race_timers c
      \<and> next_promise c1 = next_promise c
      \<and> (\<forall>p. verdicts c1 p \<noteq> verdicts c p \<longrightarrow> p = fn_promise (fn_of l) \<and> verdicts c p = None)"
    using assms by (cases l; cases m) (auto simp: em1_def settle_def split: option.splits)
  then obtain c1 where c1: "invoke rpc_listener (message_type m) m l (em, c) = (None, (em1, c1))"
    "boundsChangeQ c1 = boundsChangeQ c" "zero_timers c1 = zero_timers c" "race_timers c1 = race_timers c"
    "next_promise c1 = next_promise c"
    "\<forall>p. verdicts c1 p \<noteq> verdicts c p \<longrightarrow> p = fn_promise (fn_of l) \<and> verdicts c p = None" by blast
  have em1: "listeners_of em1 MtUpdate = listeners_of em MtUpdate"
    "\<And>ty. set (listeners_of em1 ty) \<subseteq> set (listeners_of em ty)"
    using assms by (auto simp: em1_def split: listener.splits)
  obtain em' c' where ih: "run_listeners rpc_listener (message_type m) m ls (em1, c1) = (None, (em', c'))"
    "listeners_of em' MtUpdate = listeners_of em1 MtUpdate"
    "\<forall>ty. set (listeners_of em' ty) \<subseteq> set (listeners_of em1 ty)"
    "boundsChangeQ c' = boundsChangeQ c1" "zero_timers c' = zero_timers c1" "race_timers c' = race_timers c1"
    "next_promise c' = next_promise c1"
    "\<forall>p. verdicts c' p \<noteq> verdicts c1 p \<longrightarrow> p \<in> (fn_promise \<circ> fn_of) ` set ls \<and> verdicts c1 p = None"
    using Cons.IH [of em1 c1] by blast
  have "p \<in> (fn_promise \<circ> fn_of) ` set (l # ls) \<and> verdicts c p = None" if "verdicts c' p \<noteq> verdicts c p" for p
  proof (cases "verdicts c1 p = verdicts c p")
    case True
    with that have "verdicts c' p \<noteq> verdicts c1 p" by simp
    from ih(8)[rule_format, OF this] True show ?thesis by simp
  qed (use c1(6)[rule_format, of p] in auto)
  then show ?case
    using c1 em1 ih(1-7) by (intro exI [of _ em'] exI [of _ c']) (simp, meson order_trans)
qed simp

lemma run_other_distinct:
  assumes "message_type m \<noteq> MtUpdate" "rpc_inv asked (em, c)"
  shows "rpc_inv asked (rpc_step (Arrive m) (em, c))"
proof -
  obtain em' c' where r: "run_listeners rpc_listener (message_type m) m (listeners_of em (message_type m)) (em, c) = (None, (em', c'))"
    "listeners_of em' MtUpdate = listeners_of em MtUpdate"
    "\<forall>ty. set (listeners_of em' ty) \<subseteq> set (listeners_of em ty)"
    "boundsChangeQ c' = boundsChangeQ c" "zero_timers c' = zero_timers c" "race_timers c' = race_timers c"
    "next_promise c' = next_promise c"
    "\<forall>p. verdicts c' p \<noteq> verdicts c p \<longrightarrow>
       p \<in> (fn_promise \<circ> fn_of) ` set (listeners_of em (message_type m)) \<and> verdicts c p = None"
    using run_other [OF assms(1)] by blast
  have l: "listeners_ok asked em" and t: "timers_ok asked c" using assms(2) by (simp_all add: rpc_inv_def)
  have "listeners_ok asked em'"
    using r(2,3) l by (intro listeners_ok_shrink [OF l]) (auto simp: waiting_fns_def listeners_ok_def)
  moreover have "p < length asked \<and> \<not> is_bounds (asked ! p)" if changed: "verdicts c' p \<noteq> verdicts c p" for p
  proof -
    obtain k where "k \<in> set (listeners_of em (message_type m))" "p = fn_promise (fn_of k)"
      using spec [OF r(8), of p] changed by auto
    then show ?thesis using l assms(1) by (auto simp: listeners_ok_def made_by_def)
  qed
  ultimately have "rpc_inv asked (em', c')"
  proof (intro inv_settling [OF assms(2)])
    show "verdicts c' p = verdicts c p" if "verdicts c p \<noteq> None" for p using r(8) that by metis
  qed (use r(2-7) t in \<open>simp_all add: timers_ok_def\<close>)
  then show ?thesis by (simp add: onMessage_def em_emit_def r(1))
qed

lemma inv_message: "rpc_inv asked s \<Longrightarrow> rpc_inv asked (rpc_step (Arrive m) s)"
  by (cases s; cases m) (auto simp del: rpc_step.simps intro: run_other_distinct inv_update)

lemma inv_zero:
  assumes "rpc_inv asked (em, c)"
  shows "rpc_inv asked (rpc_step ZeroTimer (em, c))"
proof (cases "zero_timers c")
  case Nil
  then show ?thesis using assms by simp
next
  case (Cons f fs)
  note i = assms[unfolded rpc_inv_def fst_conv snd_conv]
  then have l: "listeners_ok asked em" and q: "queue_ok asked em c" by simp_all
  then obtain rest where f: "bounds_tasks c = f # rest" "filter bounds_fn (waiting_fns em) = []" "fs = []"
    using Cons by (cases "bounds_tasks c"; cases "filter bounds_fn (waiting_fns em)") (auto simp: queue_ok_def)
  then have fb: "bounds_fn f" "made_by asked f" using q by (auto simp: queue_ok_def)
  have fresh: "fn_promise f \<notin> fn_promise ` set (waiting_fns em)"
    using waiting_bounds_oldest [OF q l, of f] f(1) Cons by fastforce
  define em' where "em' = snd (em_on MtUpdate f em)"
  have ls: "listeners_of em' ty = (if ty = MtUpdate then listeners_of em ty @ [listener.Plain f] else listeners_of em ty)" for ty
    by (auto simp: em'_def em_on_def)
  have w: "waiting_fns em' = waiting_fns em @ [f]" by (simp add: waiting_fns_def ls)
  have "listeners_ok asked em'"
  proof -
    have "\<forall>k \<in> set (listeners_of em' MtUpdate). \<not> is_once k"
      using l by (simp add: listeners_ok_def ls)
    moreover have "distinct (map fn_promise (waiting_fns em'))"
      using l fresh by (simp add: listeners_ok_def w)
    moreover have "made_by asked (fn_of k) \<and> (ty \<noteq> MtUpdate \<longrightarrow> \<not> bounds_fn (fn_of k))"
      if "k \<in> set (listeners_of em' ty)" for k ty
    proof (cases "k \<in> set (listeners_of em ty)")
      case True
      then show ?thesis using l unfolding listeners_ok_def by blast
    next
      case False
      then have "ty = MtUpdate" "k = listener.Plain f" using that by (auto simp: ls split: if_splits)
      then show ?thesis using fb by simp
    qed
    ultimately show ?thesis unfolding listeners_ok_def by blast
  qed
  moreover have "queue_ok asked em' (c\<lparr>zero_timers := fs\<rparr>)"
  proof -
    have t: "bounds_tasks (c\<lparr>zero_timers := fs\<rparr>) = bounds_tasks c" by (simp add: bounds_tasks_def)
    have "filter bounds_fn (waiting_fns em') @ zero_timers (c\<lparr>zero_timers := fs\<rparr>) = [f]"
      using f(2,3) fb(1) by (simp add: w)
    moreover have "(case bounds_tasks c of [] \<Rightarrow> [] | f # _ \<Rightarrow> [f]) = [f]" using f(1) by simp
    ultimately show ?thesis using q unfolding queue_ok_def t by simp
  qed
  ultimately show ?thesis
    using i Cons by (simp add: rpc_inv_def timers_ok_def em'_def)
qed

lemma asks_simps [simp]:
  "boundsChangeQ (asks rq c) = boundsChangeQ c" "zero_timers (asks rq c) = zero_timers c"
  "race_timers (asks rq c) = race_timers c" "next_promise (asks rq c) = next_promise c"
  "verdicts (asks rq c) = verdicts c"
  by (cases rq; simp add: form_setup_def form_change_def form_reset_def form_ping_def send_connected_def send_def)+

definition race_of :: "nat \<Rightarrow> rpc_request \<Rightarrow> (nat \<times> verdict) list" where
  "race_of p rq = (case when_late rq of None \<Rightarrow> [] | Some v \<Rightarrow> [(p, v)])"

lemma timers_ok_ask:
  assumes "timers_ok asked c" "race_timers c' = race_timers c @ race_of (length asked) rq" "verdicts c' = verdicts c"
  shows "timers_ok (asked @ [rq]) c'"
proof -
  note t = assms(1)[unfolded timers_ok_def]
  have "fst ` set (race_timers c) \<subseteq> {..<length asked}" using t by auto
  then have "length asked \<notin> fst ` set (race_timers c)" by auto
  then have "distinct (map fst (race_timers c'))"
    using t by (auto simp: assms(2) race_of_def split: option.splits)
  moreover have "fst r < length (asked @ [rq]) \<and> when_late ((asked @ [rq]) ! fst r) = Some (snd r)"
    if "r \<in> set (race_timers c')" for r
    using that t by (auto simp: assms(2) race_of_def nth_append split: option.splits)
  moreover have "(p, v) \<in> set (race_timers c')"
    if "p < length (asked @ [rq])" "when_late ((asked @ [rq]) ! p) = Some v" "verdicts c' p = None" for p v
    using that t by (cases "p < length asked") (auto simp: assms(2,3) race_of_def nth_append less_Suc_eq)
  ultimately show ?thesis unfolding timers_ok_def by blast
qed

lemma listeners_ok_ask:
  assumes "listeners_ok asked em"
  shows "listeners_ok (asked @ [rq]) em"
  using assms made_by_append unfolding listeners_ok_def by metis

lemma listeners_ok_push:
  assumes "listeners_ok asked em" "made_by (asked @ [rq]) (fn_of k)" "fn_promise (fn_of k) = length asked"
    "\<not> bounds_fn (fn_of k)" "ty = MtUpdate \<Longrightarrow> \<not> is_once k"
    "\<And>t. listeners_of em' t = (if t = ty then listeners_of em t @ [k] else listeners_of em t)"
  shows "listeners_ok (asked @ [rq]) em'"
proof -
  note l = listeners_ok_ask [OF assms(1), of rq, unfolded listeners_ok_def]
  have "fn_promise f < length asked" if "f \<in> set (waiting_fns em)" for f
    using waiting_made_by [OF assms(1) that] by (simp add: made_by_def)
  then have "length asked \<notin> fn_promise ` set (waiting_fns em)" by (metis imageE less_irrefl)
  moreover have "waiting_fns em' = (if ty = MtUpdate then waiting_fns em @ [fn_of k] else waiting_fns em)"
    by (simp add: waiting_fns_def assms(6))
  ultimately have "distinct (map fn_promise (waiting_fns em'))" using l assms(3) by simp
  moreover have "\<forall>k \<in> set (listeners_of em' MtUpdate). \<not> is_once k"
    using l assms(5) by (auto simp: assms(6))
  moreover have "made_by (asked @ [rq]) (fn_of j) \<and> (t \<noteq> MtUpdate \<longrightarrow> \<not> bounds_fn (fn_of j))"
    if "j \<in> set (listeners_of em' t)" for j t
  proof (cases "j \<in> set (listeners_of em t)")
    case False
    then have "j = k" using that by (auto simp: assms(6) split: if_splits)
    then show ?thesis using assms(2,4) by simp
  qed (use l in blast)
  ultimately show ?thesis unfolding listeners_ok_def by blast
qed

lemma subscribe_place:
  assumes "\<not> bounds_fn f"
  shows "\<exists>em' k ty. subscribe f (em, c) = (em', c) \<and> fn_of k = f \<and> (ty = MtUpdate \<longrightarrow> \<not> is_once k)
      \<and> (\<forall>t. listeners_of em' t = (if t = ty then listeners_of em t @ [k] else listeners_of em t))"
proof -
  consider (sheet) "fn_asked f = WaitSheet" | (set_up) "fn_asked f = Setup" | (ping) "fn_asked f = PingOpener"
    | (other) "subscribe f (em, c) = (em_push MtUpdate (listener.Plain f) em, c)"
    using assms by (cases "fn_asked f") (auto simp: subscribe_def em_on_def)
  then show ?thesis
  proof cases
    case sheet
    then show ?thesis
      by (intro exI [of _ "snd (em_once MtPayment f em)"] exI [of _ "OnceFn (next_ref em) f"] exI [of _ MtPayment])
        (simp add: subscribe_def em_once_def Let_def)
  next
    case set_up
    then show ?thesis
      by (intro exI [of _ "snd (em_once MtSetup f em)"] exI [of _ "OnceFn (next_ref em) f"] exI [of _ MtSetup])
        (simp add: subscribe_def em_once_def Let_def)
  next
    case ping
    then show ?thesis
      by (intro exI [of _ "snd (em_on MtPing f em)"] exI [of _ "listener.Plain f"] exI [of _ MtPing])
        (simp add: subscribe_def em_on_def)
  next
    case other
    then show ?thesis
      by (intro exI [of _ "em_push MtUpdate (listener.Plain f) em"] exI [of _ "listener.Plain f"] exI [of _ MtUpdate]) simp
  qed
qed

lemma start_plain:
  assumes "\<not> is_bounds rq" "p = next_promise c"
    "subscribe \<lparr>fn_promise = p, fn_asked = rq, fn_task = 0\<rparr> (em, c\<lparr>next_promise := Suc p\<rparr>) = (em', c1)"
  shows "rpc_step (Ask rq) (em, c) = (em', (asks rq c1)\<lparr>race_timers := race_timers c1 @ race_of p rq\<rparr>)"
proof -
  have "c\<lparr>boundsChangeQ := boundsChangeQ c, next_promise := Suc p\<rparr> = c\<lparr>next_promise := Suc p\<rparr>" by simp
  then show ?thesis
    unfolding rpc_step.simps start_request_def race_of_def prod.case assms(2) [symmetric] Let_def
    using assms(1,3) by simp
qed

lemma start_bounds:
  assumes "is_bounds rq" "p = next_promise c" "q_task (boundsChangeQ c) = (task, q1)"
  shows "rpc_step (Ask rq) (em, c) = (em, (asks rq
      (later (q_register task \<lparr>fn_promise = p, fn_asked = rq, fn_task = task\<rparr> q1)
        (c\<lparr>boundsChangeQ := q1, next_promise := Suc p\<rparr>)))\<lparr>race_timers := race_timers c @ race_of p rq\<rparr>)"
  unfolding rpc_step.simps start_request_def race_of_def prod.case assms(2) [symmetric] Let_def
  using assms(1,3) by (cases rq) (simp_all add: subscribe_def)

lemma inv_ask_plain:
  assumes "rpc_inv asked (em, c)" "\<not> is_bounds rq"
  shows "rpc_inv (asked @ [rq]) (rpc_step (Ask rq) (em, c))"
proof -
  note i = assms(1)[unfolded rpc_inv_def fst_conv snd_conv]
  define f where "f = \<lparr>fn_promise = length asked, fn_asked = rq, fn_task = 0\<rparr>"
  have "\<not> bounds_fn f" using assms(2) by (simp add: f_def)
  from subscribe_place [OF this] obtain em' k ty where s: "subscribe f (em, c\<lparr>next_promise := Suc (length asked)\<rparr>)
        = (em', c\<lparr>next_promise := Suc (length asked)\<rparr>)"
    and k: "fn_of k = f" "ty = MtUpdate \<Longrightarrow> \<not> is_once k"
    and e: "\<And>t. listeners_of em' t = (if t = ty then listeners_of em t @ [k] else listeners_of em t)"
    by metis
  obtain c' where c': "rpc_step (Ask rq) (em, c) = (em', c')" "next_promise c' = Suc (length asked)"
    "verdicts c' = verdicts c" "boundsChangeQ c' = boundsChangeQ c" "zero_timers c' = zero_timers c"
    "race_timers c' = race_timers c @ race_of (length asked) rq"
  proof (rule that)
    show "rpc_step (Ask rq) (em, c) = (em', (asks rq (c\<lparr>next_promise := Suc (length asked)\<rparr>))
        \<lparr>race_timers := race_timers (c\<lparr>next_promise := Suc (length asked)\<rparr>) @ race_of (length asked) rq\<rparr>)"
      using i by (intro start_plain [OF assms(2) _ s[unfolded f_def]]) simp
  qed simp_all
  have f: "made_by (asked @ [rq]) f" "\<not> bounds_fn f" using assms(2) by (simp_all add: f_def made_by_def)
  have "listeners_ok (asked @ [rq]) em'"
    by (rule listeners_ok_push [OF _ _ _ _ k(2) e]) (use i f k(1) in \<open>simp_all add: f_def\<close>)
  moreover have "timers_ok (asked @ [rq]) c'" using i c' by (intro timers_ok_ask) auto
  moreover have "queue_ok (asked @ [rq]) em' c'"
  proof -
    have "filter bounds_fn (waiting_fns em') = filter bounds_fn (waiting_fns em)"
      using f k(1) by (simp add: waiting_fns_def e)
    moreover have "bounds_tasks c' = bounds_tasks c" by (simp add: bounds_tasks_def c'(4))
    ultimately show ?thesis
      using i unfolding queue_ok_def by (simp add: c' made_by_append)
  qed
  moreover have "p < Suc (length asked)" if "verdicts c p \<noteq> None" for p
    using that i less_SucI by blast
  ultimately show ?thesis
    unfolding c'(1) rpc_inv_def by (simp add: c')
qed

lemma inv_ask_bounds:
  assumes "rpc_inv asked (em, c)" "is_bounds rq"
  shows "rpc_inv (asked @ [rq]) (rpc_step (Ask rq) (em, c))"
proof -
  note i = assms(1)[unfolded rpc_inv_def fst_conv snd_conv]
  then have q: "queue_ok asked em c" by simp
  note q' = q[unfolded queue_ok_def]
  obtain task q1 where t: "q_task (boundsChangeQ c) = (task, q1)" by fastforce
  define f where "f = \<lparr>fn_promise = length asked, fn_asked = rq, fn_task = task\<rparr>"
  obtain q2 r where g: "q_register task f q1 = (q2, r)" by fastforce
  from q_register_good [OF _ t g] q' have r: "q_good q2" "q_queue q2 = q_queue (boundsChangeQ c) @ [(task, f)]"
    "r = (if q_queue (boundsChangeQ c) = [] then Some f else None)" by auto
  obtain c' where c': "rpc_step (Ask rq) (em, c) = (em, c')" "next_promise c' = Suc (length asked)"
    "verdicts c' = verdicts c" "boundsChangeQ c' = q2"
    "zero_timers c' = zero_timers c @ (case r of None \<Rightarrow> [] | Some f \<Rightarrow> [f])"
    "race_timers c' = race_timers c @ race_of (length asked) rq"
  proof (rule that)
    show "rpc_step (Ask rq) (em, c) = (em, (asks rq (later (q_register task f q1)
        (c\<lparr>boundsChangeQ := q1, next_promise := Suc (length asked)\<rparr>)))
          \<lparr>race_timers := race_timers c @ race_of (length asked) rq\<rparr>)"
      unfolding f_def using i by (intro start_bounds [OF assms(2) _ t]) simp
  qed (simp_all add: g)
  have f: "made_by (asked @ [rq]) f" "bounds_fn f" "fn_promise f = length asked" "fn_task f = task"
    using assms(2) by (simp_all add: f_def made_by_def)
  have none: "verdicts c (length asked) = None" using i by (metis less_irrefl)
  have tasks: "bounds_tasks c' = bounds_tasks c @ [f]" by (simp add: bounds_tasks_def c'(4) r(2))
  have old: "fn_promise g < length asked" if "g \<in> set (bounds_tasks c)" for g
    using that q' by (auto simp: made_by_def)
  have "queue_ok (asked @ [rq]) em c'"
    unfolding queue_ok_def
  proof (intro conjI)
    show "q_good (boundsChangeQ c')" using r by (simp add: c')
    show "\<forall>t \<in> set (q_queue (boundsChangeQ c')). fn_task (snd t) = fst t" using q' r f by (simp add: c')
    show "\<forall>g \<in> set (bounds_tasks c'). bounds_fn g \<and> made_by (asked @ [rq]) g \<and> verdicts c' (fn_promise g) = None"
      using q' f none made_by_append by (auto simp: tasks c')
    show "distinct (map fn_promise (bounds_tasks c'))"
    proof -
      have "length asked \<notin> fn_promise ` set (bounds_tasks c)" using old by (metis imageE less_irrefl)
      then show ?thesis using q' f by (simp add: tasks)
    qed
    show "filter bounds_fn (waiting_fns em) @ zero_timers c' = (case bounds_tasks c' of [] \<Rightarrow> [] | f # _ \<Rightarrow> [f])"
      using q' r(2,3) by (cases "q_queue (boundsChangeQ c)") (auto simp: c' bounds_tasks_def)
  qed
  moreover have "timers_ok (asked @ [rq]) c'" using i c' by (intro timers_ok_ask) auto
  moreover have "p < Suc (length asked)" if "verdicts c p \<noteq> None" for p
    using that i less_SucI by blast
  ultimately show ?thesis
    unfolding c'(1) rpc_inv_def using i by (simp add: c' listeners_ok_ask)
qed

text \<open>The requests of a run.\<close>

definition asked_in :: "rpc_input list \<Rightarrow> rpc_request list" where
  "asked_in ins = concat (map (\<lambda>i. case i of Ask rq \<Rightarrow> [rq] | _ \<Rightarrow> []) ins)"

theorem rpc_invariant: "rpc_inv (asked_in ins) (rpc_run ins (new_rpc con))"
proof (induction ins rule: rev_induct)
  case Nil
  show ?case using rpc_inv_new by (simp add: rpc_run_def asked_in_def)
next
  case (snoc i ins)
  obtain em c where s: "rpc_run ins (new_rpc con) = (em, c)" by fastforce
  have "rpc_run (ins @ [i]) (new_rpc con) = rpc_step i (em, c)" using s by (simp add: rpc_run_def)
  moreover have "rpc_inv (asked_in ins @ (case i of Ask rq \<Rightarrow> [rq] | _ \<Rightarrow> [])) (rpc_step i (em, c))"
  proof (cases i)
    case (Ask rq)
    then show ?thesis
      using inv_ask_plain inv_ask_bounds snoc.IH unfolding s by (cases "is_bounds rq") simp_all
  next
    case (Arrive m)
    then show ?thesis using inv_message snoc.IH unfolding s by simp
  next
    case (RaceTimer p)
    then show ?thesis using inv_race snoc.IH unfolding s by simp
  next
    case ZeroTimer
    then show ?thesis using inv_zero snoc.IH unfolding s by simp
  qed
  ultimately show ?case by (simp add: asked_in_def)
qed

section \<open>Who gets an answer\<close>

lemma run_parts:
  assumes s_def: "s = rpc_run ins (new_rpc con)"
  shows "listeners_ok (asked_in ins) (fst s)" "queue_ok (asked_in ins) (fst s) (snd s)"
    "timers_ok (asked_in ins) (snd s)"
    "\<forall>l \<in> set (listeners_of (fst s) MtUpdate). \<not> is_once l" "distinct (map fn_promise (waiting_fns (fst s)))"
  using rpc_invariant [of ins con] by (simp_all add: rpc_inv_def s_def listeners_ok_def)

lemma update_after_run:
  assumes s_def: "s = rpc_run ins (new_rpc con)" and s'_def: "s' = rpc_step (Arrive (UpdateMessage u)) s"
  shows "waiting_fns (fst s') = filter (\<lambda>f. \<not> leaves u f) (waiting_fns (fst s))"
    "snd s' = fold (hearing u) (waiting_fns (fst s)) (snd s)"
    "verdicts (snd s') p = (case verdicts (snd s) p of Some v \<Rightarrow> Some v | None \<Rightarrow>
       Option.bind (List.find (\<lambda>f. fn_promise f = p) (waiting_fns (fst s))) (\<lambda>f. hears (fn_asked f) u))"
proof -
  note r = run_parts [OF s_def]
  have "rpc_step (Arrive (UpdateMessage u)) (fst s, snd s) =
    (fold (\<lambda>f. em_off MtUpdate (Some f)) (map listener.Plain (filter (leaves u) (waiting_fns (fst s)))) (fst s),
     fold (hearing u) (waiting_fns (fst s)) (snd s))"
    by (rule update_step [OF r(4)])
  then have st: "s' =
    (fold (\<lambda>f. em_off MtUpdate (Some f)) (map listener.Plain (filter (leaves u) (waiting_fns (fst s)))) (fst s),
     fold (hearing u) (waiting_fns (fst s)) (snd s))"
    by (simp only: s'_def prod.collapse)
  show "waiting_fns (fst s') = filter (\<lambda>f. \<not> leaves u f) (waiting_fns (fst s))"
    unfolding st fst_conv by (rule waiting_after [OF r(4)])
  show h: "snd s' = fold (hearing u) (waiting_fns (fst s)) (snd s)" unfolding st by simp
  show "verdicts (snd s') p = (case verdicts (snd s) p of Some v \<Rightarrow> Some v | None \<Rightarrow>
       Option.bind (List.find (\<lambda>f. fn_promise f = p) (waiting_fns (fst s))) (\<lambda>f. hears (fn_asked f) u))"
    unfolding h by (rule hearing_verdicts [OF r(5)])
qed

text \<open>An update ends the wait of every request that takes it for its answer, whatever it was sent for: an
  order settles all requests that wait for an order at once.  A promise that is settled already keeps its
  verdict, a request that hears nothing in the update goes on waiting, and only the listener of
  \<open>pickupInfoRequest\<close> stays after its answer.\<close>

theorem update_settles_waiting:
  "let s = rpc_run ins (new_rpc con); s' = rpc_step (Arrive (UpdateMessage u)) s in
     waiting_fns (fst s') = filter (\<lambda>f. hears (fn_asked f) u = None \<or> keeps_listening (fn_asked f)) (waiting_fns (fst s))
     \<and> verdicts (snd s') p = (case verdicts (snd s) p of Some v \<Rightarrow> Some v | None \<Rightarrow>
         Option.bind (List.find (\<lambda>f. fn_promise f = p) (waiting_fns (fst s))) (\<lambda>f. hears (fn_asked f) u))"
  unfolding Let_def update_after_run(1) [OF refl refl] update_after_run(3) [OF refl refl] by (simp add: leaves_def)

text \<open>C26: Pickup points are given to the oldest request that waits for them, once its listener is in place, and
  to no other; before that, they are given to nobody.\<close>

theorem points_answer_the_oldest:
  assumes "up_pickupPoints d = Some ps"
  shows "let s = rpc_run ins (new_rpc con); s' = rpc_step (Arrive (UpdateMessage (Some d))) s;
             tasks = bounds_tasks (snd s) in
     (if zero_timers (snd s) = [] \<and> tasks \<noteq> []
      then verdicts (snd s') (fn_promise (hd tasks)) = Some (Resolved (PointsReply ps))
        \<and> bounds_tasks (snd s') = tl tasks
      else bounds_tasks (snd s') = tasks)
     \<and> (\<forall>f \<in> set (bounds_tasks (snd s')). verdicts (snd s') (fn_promise f) = None)"
proof -
  define s where "s = rpc_run ins (new_rpc con)"
  define s' where "s' = rpc_step (Arrive (UpdateMessage (Some d))) s"
  note r = run_parts [OF s_def]
  note q = r(2)[unfolded queue_ok_def]
  note u = update_after_run [OF s_def s'_def]
  note uq = update_queue [OF r(2) u(2)]
  have "s' = rpc_run (ins @ [Arrive (UpdateMessage (Some d))]) (new_rpc con)"
    by (simp add: s'_def s_def rpc_run_def)
  from run_parts(2) [OF this]
  have none: "\<forall>f \<in> set (bounds_tasks (snd s')). verdicts (snd s') (fn_promise f) = None"
    by (simp add: queue_ok_def)
  have heard: "hears (fn_asked f) (Some d) = Some (Resolved (PointsReply ps))" if "bounds_fn f" for f
    using that assms by (cases "fn_asked f") auto
  have "if zero_timers (snd s) = [] \<and> bounds_tasks (snd s) \<noteq> []
      then verdicts (snd s') (fn_promise (hd (bounds_tasks (snd s)))) = Some (Resolved (PointsReply ps))
        \<and> bounds_tasks (snd s') = tl (bounds_tasks (snd s))
      else bounds_tasks (snd s') = bounds_tasks (snd s)"
  proof (cases "zero_timers (snd s) = [] \<and> bounds_tasks (snd s) \<noteq> []")
    case True
    then obtain f rest where f: "bounds_tasks (snd s) = f # rest" by (cases "bounds_tasks (snd s)") auto
    then have fb: "bounds_fn f" "verdicts (snd s) (fn_promise f) = None" "filter bounds_fn (waiting_fns (fst s)) = [f]"
      using q True by auto
    then have "f \<in> set (waiting_fns (fst s))" by (metis (mono_tags, lifting) filter_eq_ConsD in_set_conv_decomp)
    with r(5) have "List.find (\<lambda>g. fn_promise g = fn_promise f) (waiting_fns (fst s)) = Some f"
      by (auto simp: find_Some_iff in_set_conv_nth distinct_conv_nth)
    then have "verdicts (snd s') (fn_promise f) = Some (Resolved (PointsReply ps))"
      using fb heard by (simp add: u(3))
    moreover have "bounds_tasks (snd s') = rest"
      using uq True f heard fb(1) by (auto simp: bounds_tasks_def map_tl)
    ultimately show ?thesis using True f by simp
  next
    case False
    with uq show ?thesis by (auto simp: bounds_tasks_def)
  qed
  with none show ?thesis unfolding Let_def s'_def [symmetric] s_def [symmetric] by blast
qed

section \<open>How waiting ends\<close>

lemma verdict_kept_step:
  assumes "rpc_inv asked (em, c)" "verdicts c p = Some v"
  shows "verdicts (snd (rpc_step i (em, c))) p = Some v"
proof (cases i)
  case (Ask rq)
  have "verdicts (snd (subscribe f (em, c0))) = verdicts c0" for f c0
    by (simp add: subscribe_def split: rpc_request.splits)
  then show ?thesis using assms(2) Ask
    by (simp add: start_request_def Let_def split: prod.splits) (metis rpc.select_convs(4) rpc.surjective rpc.update_convs(3,5) snd_conv)
next
  case (Arrive m)
  show ?thesis
  proof (cases "message_type m = MtUpdate")
    case True
    then obtain u where m: "m = UpdateMessage u" by (cases m) auto
    have l: "listeners_ok asked em" using assms(1) by (simp add: rpc_inv_def)
    show ?thesis
      unfolding Arrive m update_step [OF conjunct1 [OF l[unfolded listeners_ok_def]]] snd_conv
      using l assms(2) by (subst hearing_verdicts) (simp_all add: listeners_ok_def)
  next
    case False
    obtain em' c' where r: "run_listeners rpc_listener (message_type m) m (listeners_of em (message_type m)) (em, c) = (None, (em', c'))"
      "\<forall>p. verdicts c' p \<noteq> verdicts c p \<longrightarrow>
         p \<in> (fn_promise \<circ> fn_of) ` set (listeners_of em (message_type m)) \<and> verdicts c p = None"
      using run_other [OF False] by blast
    have "verdicts c' p = Some v" using spec [OF r(2), of p] assms(2) by auto
    then show ?thesis by (simp add: Arrive onMessage_def em_emit_def r(1))
  qed
qed (use assms(2) in \<open>auto split: option.splits list.splits\<close>)

lemma verdict_kept:
  assumes "verdicts (snd (rpc_run ins (new_rpc con))) p = Some v"
  shows "verdicts (snd (rpc_run (ins @ rest) (new_rpc con))) p = Some v"
  using assms
proof (induction rest rule: rev_induct)
  case (snoc i rest)
  obtain em c where s: "rpc_run (ins @ rest) (new_rpc con) = (em, c)" by fastforce
  have "rpc_run (ins @ rest @ [i]) (new_rpc con) = rpc_step i (em, c)" using s by (simp add: rpc_run_def)
  with verdict_kept_step [OF rpc_invariant [of "ins @ rest" con, unfolded s]] snoc s show ?case by simp
qed simp

text \<open>C27: A request with a time limit ends once: by its answer, or at the latest when its timer is called; and
  nothing that comes later, a late answer included, changes what its caller got.\<close>

theorem timed_requests_end_once:
  assumes "p < length (asked_in ins)" "when_late (asked_in ins ! p) = Some late"
  shows "\<exists>v. (\<forall>rest. verdicts (snd (rpc_run (ins @ RaceTimer p # rest) (new_rpc con))) p = Some v)
    \<and> v = (case verdicts (snd (rpc_run ins (new_rpc con))) p of Some answer \<Rightarrow> answer | None \<Rightarrow> late)"
proof -
  obtain em c where s: "rpc_run ins (new_rpc con) = (em, c)" by fastforce
  have t: "timers_ok (asked_in ins) c" using run_parts(3) [OF refl, of ins con] s by simp
  define v where "v = (case verdicts c p of Some answer \<Rightarrow> answer | None \<Rightarrow> late)"
  have "verdicts (snd (rpc_step (RaceTimer p) (em, c))) p = Some v"
  proof (cases "verdicts c p")
    case None
    then have "(p, late) \<in> set (race_timers c)" using t assms unfolding timers_ok_def by blast
    then have "map_of (race_timers c) p = Some late" using t by (simp add: timers_ok_def)
    with None show ?thesis by (simp add: v_def)
  next
    case (Some a)
    with verdict_kept_step [OF rpc_invariant [of ins con, unfolded s] Some] Some show ?thesis
      by (simp add: v_def del: rpc_step.simps)
  qed
  then have "verdicts (snd (rpc_run (ins @ [RaceTimer p]) (new_rpc con))) p = Some v"
    using s by (simp add: rpc_run_def)
  from verdict_kept [OF this] have "verdicts (snd (rpc_run (ins @ RaceTimer p # rest) (new_rpc con))) p = Some v" for rest
    by simp
  then show ?thesis unfolding s snd_conv v_def [symmetric] by blast
qed

text \<open>The listener of \<open>pickupInfoRequest\<close> is never removed: there is one for every request made so far,
  answered or given up.\<close>

theorem info_listeners_pile_up:
  "length (filter (\<lambda>f. keeps_listening (fn_asked f)) (waiting_fns (fst (rpc_run ins (new_rpc con)))))
     = length (filter keeps_listening (asked_in ins))"
proof (induction ins rule: rev_induct)
  case Nil
  show ?case by (simp add: rpc_run_def asked_in_def new_rpc_def waiting_fns_def)
next
  case (snoc i ins)
  obtain em c where s: "rpc_run ins (new_rpc con) = (em, c)" by fastforce
  note inv = rpc_invariant [of ins con, unfolded s]
  then have l: "listeners_ok (asked_in ins) em" and q: "queue_ok (asked_in ins) em c" by (simp_all add: rpc_inv_def)
  have no_bounds: "is_bounds rq \<Longrightarrow> \<not> keeps_listening rq" for rq by (cases rq) auto
  have "length (filter (\<lambda>f. keeps_listening (fn_asked f)) (waiting_fns (fst (rpc_step i (em, c)))))
      = length (filter (\<lambda>f. keeps_listening (fn_asked f)) (waiting_fns em))
        + (case i of Ask rq \<Rightarrow> if keeps_listening rq then 1 else 0 | _ \<Rightarrow> 0)"
  proof (cases i)
    case (Ask rq)
    show ?thesis
      by (cases rq) (simp_all add: Ask start_request_def subscribe_def waiting_fns_def em_on_def em_once_def Let_def
          split: prod.splits)
  next
    case (Arrive m)
    show ?thesis
    proof (cases "message_type m = MtUpdate")
      case True
      then obtain u where m: "m = UpdateMessage u" by (cases m) auto
      show ?thesis
        unfolding Arrive m update_step [OF conjunct1 [OF l[unfolded listeners_ok_def]]] fst_conv
          waiting_after [OF conjunct1 [OF l[unfolded listeners_ok_def]]] filter_filter
        by (auto simp: leaves_def intro!: arg_cong [where f = length] filter_cong)
    next
      case False
      then show ?thesis
        using run_other [OF False, of "listeners_of em (message_type m)" em c]
        by (auto simp: Arrive onMessage_def em_emit_def waiting_fns_def)
    qed
  next
    case ZeroTimer
    have "\<not> keeps_listening (fn_asked f)" if "zero_timers c = f # fs" for f fs
      using q that no_bounds by (cases "bounds_tasks c"; cases "filter bounds_fn (waiting_fns em)") (auto simp: queue_ok_def)
    then show ?thesis by (cases "zero_timers c") (simp_all add: ZeroTimer waiting_fns_def em_on_def)
  qed simp
  then show ?case using snoc s by (cases i) (simp_all add: rpc_run_def asked_in_def)
qed

section \<open>Examples\<close>

definition points_update :: "RawPickupPoint list \<Rightarrow> rpc_input" where
  "points_update ps = Arrive (UpdateMessage (Some (no_update\<lparr>up_pickupPoints := Some ps\<rparr>)))"

text \<open>An answer that arrives between the end of one task and the timer that starts the next is lost: the
  second request gets the answer to the third, and the third waits for ever.\<close>

theorem early_answer_is_lost:
  "map (verdicts (snd (rpc_run
      [Ask (PickupBoundsChange b1 g1), ZeroTimer, Ask (PickupBoundsChange b2 g2), points_update p1, points_update p2,
       ZeroTimer, Ask (PickupBoundsChange b3 g3), points_update p3, ZeroTimer] (new_rpc con)))) [0, 1, 2]
   = [Some (Resolved (PointsReply p1)), Some (Resolved (PointsReply p3)), None]"
  by (simp add: rpc_run_def new_rpc_def start_request_def subscribe_def points_update_def onMessage_def em_emit_def
      em_on_def queue_defs new_queue_def later_def no_update_def settle_def Let_def form_change_def send_connected_def
      send_def)

lemma points_answer_the_oldest_witness:
  "up_pickupPoints (no_update\<lparr>up_pickupPoints := Some []\<rparr>) = Some []
   \<and> (let s = rpc_run [Ask (PickupBoundsChange \<lparr>gb_sw = zero_point, gb_ne = zero_point\<rparr> zero_point), ZeroTimer] (new_rpc True);
          s' = rpc_step (Arrive (UpdateMessage (Some (no_update\<lparr>up_pickupPoints := Some []\<rparr>)))) s
      in verdicts (snd s') 0 = Some (Resolved (PointsReply [])))"
proof -
  define rq where "rq = PickupBoundsChange \<lparr>gb_sw = zero_point, gb_ne = zero_point\<rparr> zero_point"
  define s where "s = rpc_run [Ask rq, ZeroTimer] (new_rpc True)"
  have "zero_timers (snd s) = [] \<and> bounds_tasks (snd s) = [\<lparr>fn_promise = 0, fn_asked = rq, fn_task = 1\<rparr>]"
    by (simp add: s_def rq_def rpc_run_def new_rpc_def start_request_def subscribe_def bounds_tasks_def
        queue_defs new_queue_def later_def Let_def form_change_def send_connected_def send_def)
  with points_answer_the_oldest [of "no_update\<lparr>up_pickupPoints := Some []\<rparr>" "[]" "[Ask rq, ZeroTimer]" True,
      folded s_def]
  show ?thesis unfolding rq_def [symmetric] s_def [symmetric] Let_def by simp
qed

lemma timed_requests_end_once_witness:
  "verdicts (snd (rpc_run [Ask CouponReset, RaceTimer 0] (new_rpc True))) 0
     = Some (RejectedError ''The order was not provided'')"
proof -
  have "verdicts (snd (rpc_run [Ask CouponReset] (new_rpc True))) 0 = None"
    by (simp add: rpc_run_def new_rpc_def start_request_def subscribe_def em_on_def Let_def form_reset_def
        send_connected_def send_def)
  with timed_requests_end_once [of 0 "[Ask CouponReset]" _ True] show ?thesis
    by (auto simp: asked_in_def simp del: rpc_step.simps)
qed

end
