(* ===== verification/ProcessListeners.thy ===== *)
theory ProcessListeners
  imports CheckoutProcess
begin

text \<open>
  What the forms that use a \<open>CheckoutProcess\<close> rely on.  The listeners of a form change its own world and
  neither the process nor its list of listeners, and never throw: that is the interface \<open>quiet_listener\<close>,
  with \<open>react\<close> for what a listener does to the world.  Under it a form does, event by event, what a list of
  the deliveries says.  \<open>card_listener\<close> adds that the start of the polling only serves logs, and
  \<open>order_listener\<close> a property of the world that knows which orders exist.
\<close>

section \<open>What comes from outside\<close>

text \<open>What the process may be told from outside: replies and its timer, not calls.\<close>

fun is_reply :: "'fn cp_input \<Rightarrow> bool" where
  "is_reply (Subscribe ty f) = False"
| "is_reply (Start d) = False"
| "is_reply Cancel = False"
| "is_reply _ = True"

text \<open>The orders the server has created, as the process was told.\<close>

definition created_in :: "'fn cp_input \<Rightarrow> string list" where
  "created_in i = (case i of OrderReply n (Inr o') \<Rightarrow> [cr_orderId o'] | _ \<Rightarrow> [])"

lemma polls_replies: "\<forall>i \<in> set (polls n ts). is_reply i"
  by (induction n ts rule: polls.induct) auto

lemma reply_subscribes_not: "is_reply i \<Longrightarrow> \<not> is_subscribe i"
  by (cases i) auto

lemma cp_run_append: "cp_run env (is @ js) st = cp_run env js (cp_run env is st)"
  by (simp add: cp_run_def)

lemma cp_run_simps [simp]: "cp_run env [] st = st" "cp_run env (i # is) st = cp_run env is (cp_step env i st)"
  by (simp_all add: cp_run_def)

section \<open>The replay of the deliveries\<close>

definition replay :: "('fn \<Rightarrow> cp_event \<Rightarrow> 'w \<Rightarrow> 'w) \<Rightarrow> ('fn \<times> cp_event) list \<Rightarrow> 'w \<Rightarrow> 'w" where
  "replay react deliveries w = fold (\<lambda>(x, e). react x e) deliveries w"

lemma replay_simps [simp]:
  "replay react [] w = w" "replay react (ds @ es) w = replay react es (replay react ds w)"
  "replay react ((x, e) # ds) w = replay react ds (react x e w)"
  by (simp_all add: replay_def)

definition recorded :: "('fn, 'w) cp_env \<Rightarrow> ('fn, ('fn \<times> cp_event) list) cp_env" where
  "recorded env = \<lparr>call = recorder, return_path = return_path env, exceeded = exceeded env,
     path_or_str = path_or_str env\<rparr>"

lemma recorded_simps [simp]:
  "recording (recorded env)" "call (recorded env) = recorder" "return_path (recorded env) = return_path env"
  "exceeded (recorded env) = exceeded env" "path_or_str (recorded env) = path_or_str env"
  by (simp_all add: recording_def recorded_def)

text \<open>The same code with recording listeners and with those of the form.\<close>

definition replays :: "('fn \<Rightarrow> cp_event \<Rightarrow> 'w \<Rightarrow> 'w) \<Rightarrow> 'w
    \<Rightarrow> ('fn, ('fn \<times> cp_event) list) cp_code \<Rightarrow> ('fn, 'w) cp_code \<Rightarrow> bool" where
  "replays react w m m' = (\<forall>em c ds. \<exists>x em' c' ds'.
     m (em, c, ds) = (x, (em', c', ds')) \<and> m' (em, c, replay react ds w) = (x, (em', c', replay react ds' w)))"

lemma replaysE:
  assumes "replays react w m m'"
  obtains x em' c' ds' where "m (em, c, ds) = (x, (em', c', ds'))"
    "m' (em, c, replay react ds w) = (x, (em', c', replay react ds' w))"
  using assms unfolding replays_def by blast

lemma replays_prims [simp]:
  "replays react w (update f) (update f)" "replays react w (throw e) (throw e)" "replays react w skip skip"
  "replays react w (suspend q j) (suspend q j)" "replays react w cancelPayment cancelPayment"
  by (simp_all add: replays_def code_defs suspend_def cancelPayment_def)

lemma replays_and_then [intro!]:
  assumes "replays react w m m'" "replays react w k k'"
  shows "replays react w (and_then m k) (and_then m' k')"
  unfolding replays_def
proof (intro allI)
  fix em c ds
  obtain x em1 c1 ds1 where m: "m (em, c, ds) = (x, (em1, c1, ds1))"
    "m' (em, c, replay react ds w) = (x, (em1, c1, replay react ds1 w))" using replaysE [OF assms(1)] .
  obtain y em2 c2 ds2 where k: "k (em1, c1, ds1) = (y, (em2, c2, ds2))"
    "k' (em1, c1, replay react ds1 w) = (y, (em2, c2, replay react ds2 w))" using replaysE [OF assms(2)] .
  show "\<exists>x em' c' ds'. and_then m k (em, c, ds) = (x, em', c', ds')
      \<and> and_then m' k' (em, c, replay react ds w) = (x, em', c', replay react ds' w)"
    using m k by (cases x) (simp_all add: and_then_def)
qed

lemma replays_try [intro!]:
  assumes "replays react w m m'" "\<And>e. replays react w (h e) (h' e)"
  shows "replays react w (try_catch m h) (try_catch m' h')"
  unfolding replays_def
proof (intro allI)
  fix em c ds
  obtain x em1 c1 ds1 where m: "m (em, c, ds) = (x, (em1, c1, ds1))"
    "m' (em, c, replay react ds w) = (x, (em1, c1, replay react ds1 w))" using replaysE [OF assms(1)] .
  show "\<exists>x em' c' ds'. try_catch m h (em, c, ds) = (x, em', c', ds')
      \<and> try_catch m' h' (em, c, replay react ds w) = (x, em', c', replay react ds' w)"
  proof (cases x)
    case (Some e)
    obtain y em2 c2 ds2 where "h e (em1, c1, ds1) = (y, (em2, c2, ds2))"
      "h' e (em1, c1, replay react ds1 w) = (y, (em2, c2, replay react ds2 w))" using replaysE [OF assms(2)] .
    then show ?thesis using m Some by (simp add: try_catch_def)
  qed (use m in \<open>simp add: try_catch_def\<close>)
qed

lemma replays_reading [intro!]: "(\<And>c. replays react w (f c) (f' c)) \<Longrightarrow> replays react w (reading f) (reading f')"
  by (simp add: replays_def reading_def)

lemma replays_detach [intro!]: "replays react w m m' \<Longrightarrow> replays react w (detach m) (detach m')"
  unfolding replays_def detach_def by (metis snd_conv)

lemma replays_path [intro!]:
  "(\<And>p. replays react w (k p) (k' p)) \<Longrightarrow> replays react w (with_path (recorded env) key k) (with_path env key k')"
  by (auto simp: with_path_def split: option.splits)

section \<open>The interface of the listeners\<close>

locale quiet_listener =
  fixes env :: "('fn, 'w) cp_env" and react :: "'fn \<Rightarrow> cp_event \<Rightarrow> 'w \<Rightarrow> 'w"
  assumes calls: "call env x e (em, c, w) = (None, (em, c, react x e w))"
begin

lemma replays_run_listeners:
  "\<exists>em' ds'. run_listeners recorder ty e ls (em, c, ds) = (None, (em', c, ds'))
     \<and> run_listeners (call env) ty e ls (em, c, replay react ds w) = (None, (em', c, replay react ds' w))"
proof (induction ls arbitrary: em ds)
  case (Cons l ls)
  have "\<exists>em1. invoke recorder ty e l (em, c, ds) = (None, (em1, c, ds @ [(fn_of l, e)]))
      \<and> invoke (call env) ty e l (em, c, replay react ds w) = (None, (em1, c, replay react (ds @ [(fn_of l, e)]) w))"
    by (cases l) (simp_all add: recorder_def calls)
  then obtain em1 where "invoke recorder ty e l (em, c, ds) = (None, (em1, c, ds @ [(fn_of l, e)]))"
    "invoke (call env) ty e l (em, c, replay react ds w) = (None, (em1, c, replay react (ds @ [(fn_of l, e)]) w))"
    by blast
  with Cons.IH [of em1 "ds @ [(fn_of l, e)]"] show ?case by simp
qed auto

lemma replays_emit [simp]: "replays react w (emit (recorded env) e) (emit env e)"
  unfolding replays_def
proof (intro allI)
  fix em :: "(CheckoutProcessType, 'fn) emitter" and c ds
  obtain em' ds' where "run_listeners recorder (event_type e) e (listeners_of em (event_type e)) (em, c, ds) = (None, (em', c, ds'))"
    "run_listeners (call env) (event_type e) e (listeners_of em (event_type e)) (em, c, replay react ds w)
       = (None, (em', c, replay react ds' w))"
    using replays_run_listeners by blast
  then show "\<exists>x em' c' ds'. emit (recorded env) e (em, c, ds) = (x, em', c', ds')
      \<and> emit env e (em, c, replay react ds w) = (x, em', c', replay react ds' w)"
    by (simp add: emit_def em_emit_def)
qed

lemma replays_watch [simp]: "replays react w watch_turn watch_turn" "replays react w watch_again watch_again"
  "replays react w (watch_error (recorded env) e) (watch_error env e)"
  "replays react w (start_error (recorded env) e) (start_error env e)"
  "replays react w (client_error (recorded env) e) (client_error env e)"
  by (auto simp: watch_turn_def watch_again_def watch_error_def start_error_def client_error_def
      split: option.splits prod.splits)

lemma replays_replies [simp]:
  "replays react w (watchServerPayment (recorded env)) (watchServerPayment env)"
  "replays react w (announce_order (recorded env) d) (announce_order env d)"
  "replays react w (status_done (recorded env) r1) (status_done env r1)"
  "replays react w (order_done (recorded env) d r2) (order_done env d r2)"
  "replays react w (transaction_done (recorded env) d o' r3) (transaction_done env d o' r3)"
  "replays react w (checkout_done (recorded env) r4) (checkout_done env r4)"
  "replays react w (startPayment (recorded env) d) (startPayment env d)"
proof -
  show w: "replays react w (watchServerPayment (recorded env)) (watchServerPayment env)"
    by (auto simp: watchServerPayment_def split: option.splits)
  show a: "replays react w (announce_order (recorded env) d) (announce_order env d)"
    using w by (auto simp: announce_order_def)
  show "replays react w (status_done (recorded env) r1) (status_done env r1)"
    by (auto simp: status_done_def watch_reply_def split: sum.splits)
  show "replays react w (order_done (recorded env) d r2) (order_done env d r2)"
    using a by (auto simp: order_done_def split: sum.splits option.splits)
  show "replays react w (transaction_done (recorded env) d o' r3) (transaction_done env d o' r3)"
    using a by (auto simp: transaction_done_def split: sum.splits option.splits)
  show "replays react w (checkout_done (recorded env) r4) (checkout_done env r4)"
    by (auto simp: checkout_done_def split: sum.splits)
  show "replays react w (startPayment (recorded env) d) (startPayment env d)"
    by (auto simp: startPayment_def start_server_payment_def start_client_payment_def Let_def)
qed

lemma replays_code: "is_reply i \<Longrightarrow> replays react w (cp_code_of (recorded env) i) (cp_code_of env i)"
  by (cases i) (auto simp: resume_def split: option.splits cp_job.splits)

lemma replay_step:
  assumes "is_reply i" "cp_step (recorded env) i (em, c, ds) = (em', c', ds')"
  shows "cp_step env i (em, c, replay react ds w) = (em', c', replay react ds' w)"
proof -
  obtain x em1 c1 ds1 where "cp_code_of (recorded env) i (em, c, ds) = (x, (em1, c1, ds1))"
    "cp_code_of env i (em, c, replay react ds w) = (x, (em1, c1, replay react ds1 w))"
    using replaysE [OF replays_code [OF assms(1)]] .
  then show ?thesis using assms(2) by (simp add: cp_step_def)
qed

text \<open>Whatever replies come, the world is what the deliveries say.\<close>

lemma replay_run:
  assumes "\<forall>i \<in> set ins. is_reply i" "cp_run (recorded env) ins (em, c, ds) = (em', c', ds')"
  shows "cp_run env ins (em, c, replay react ds w) = (em', c', replay react ds' w)"
  using assms
proof (induction ins arbitrary: em c ds)
  case (Cons i ins)
  obtain em1 c1 ds1 where s: "cp_step (recorded env) i (em, c, ds) = (em1, c1, ds1)" by (metis prod_cases3)
  have "cp_step env i (em, c, replay react ds w) = (em1, c1, replay react ds1 w)"
    using replay_step [OF _ s] Cons.prems(1) by simp
  moreover have "cp_run (recorded env) ins (em1, c1, ds1) = (em', c', ds')"
    using Cons.prems(2) s by simp
  ultimately show ?case using Cons.IH [of em1 c1 ds1] Cons.prems(1) by simp
qed simp

lemma run_is_replay:
  "cp_run env (filter is_reply ins) (em, c, w) =
     (let (em', c', ds) = cp_run (recorded env) (filter is_reply ins) (em, c, []) in (em', c', replay react ds w))"
proof -
  obtain em' c' ds where r: "cp_run (recorded env) (filter is_reply ins) (em, c, []) = (em', c', ds)" by (metis prod_cases3)
  have "cp_run env (filter is_reply ins) (em, c, replay react [] w) = (em', c', replay react ds w)"
    by (rule replay_run [OF _ r]) simp
  then show ?thesis by (simp add: r)
qed

end

section \<open>One listener for every event\<close>

text \<open>A form may leave out the event that only tells that the polling starts.\<close>

definition only_listener :: "'fn \<Rightarrow> (CheckoutProcessType, 'fn) emitter \<Rightarrow> bool" where
  "only_listener x em = ((\<forall>ty. ty \<noteq> startWatchServerPayment \<longrightarrow> listeners_of em ty = [Plain x])
     \<and> (listeners_of em startWatchServerPayment = [] \<or> listeners_of em startWatchServerPayment = [Plain x]))"

lemma only_listener_of: "only_listener x em \<Longrightarrow> ty \<noteq> startWatchServerPayment \<Longrightarrow> listeners_of em ty = [Plain x]"
  by (simp add: only_listener_def)

lemma delivered_only:
  "only_listener x em \<Longrightarrow> \<forall>e \<in> set es. event_type e \<noteq> startWatchServerPayment \<Longrightarrow> delivered em es = map (Pair x) es"
  by (induction es) (simp_all add: delivered_def only_listener_of)

lemma watched_types: "\<forall>e \<in> set (watched prev ts). event_type e \<noteq> startWatchServerPayment"
  by (induction prev ts rule: watched.induct) auto

lemma on_only_listener: "only_listener x em \<Longrightarrow> on_only em"
  unfolding on_only_def only_listener_def by (metis emptyE empty_set list.set_intros(1) set_ConsD)

text \<open>The order of the process stays while it polls.\<close>

definition order_kept :: "('fn, 'w) cp_code \<Rightarrow> bool" where
  "order_kept m = (\<forall>em c w. order (fst (snd (snd (m (em, c, w))))) = order c)"

lemma order_kept_prims [simp]: "order_kept (throw e)" "order_kept skip" "order_kept (suspend q j)"
  by (simp_all add: order_kept_def code_defs suspend_def push_job_def)

lemma order_kept_update [simp]: "(\<And>c. order (f c) = order c) \<Longrightarrow> order_kept (update f)"
  by (simp add: order_kept_def code_defs)

lemma order_kept_then [intro!]: "order_kept m \<Longrightarrow> order_kept k \<Longrightarrow> order_kept (and_then m k)"
  unfolding order_kept_def and_then_def by (simp split: prod.split option.split) (metis fst_conv prod.exhaust_sel snd_conv)

lemma order_kept_try [intro!]: "order_kept m \<Longrightarrow> (\<And>e. order_kept (h e)) \<Longrightarrow> order_kept (try_catch m h)"
  unfolding order_kept_def try_catch_def by (simp split: prod.split option.split) (metis fst_conv prod.exhaust_sel snd_conv)

lemma order_kept_reading [intro!]: "(\<And>c. order_kept (f c)) \<Longrightarrow> order_kept (reading f)"
  by (simp add: order_kept_def reading_def)

text \<open>The last of the statuses is the final one; the others only lead to events on the way.\<close>

definition underway :: "cp_event \<Rightarrow> bool" where
  "underway e = ((\<exists>st. e = TransactionStatusChanged st \<and> \<not> final_status st) \<or> (\<exists>v url. e = Transaction3ds v url))"

lemma watched_end:
  assumes "\<forall>t \<in> set ts. \<not> final_status (tr_status t)" "final_status (tr_status u)" "prev \<noteq> Some (tr_status u)"
  shows "\<exists>es. watched prev (ts @ [u]) = es @ [TransactionStatusChanged (tr_status u)] \<and> (\<forall>e \<in> set es. underway e)"
  using assms(1,3)
proof (induction ts arbitrary: prev)
  case Nil
  then show ?case using assms(2) by simp
next
  case (Cons t ts)
  have t: "\<not> final_status (tr_status t)" "tr_status t \<noteq> tr_status u" using Cons.prems(1) assms(2) by auto
  show ?case
  proof (cases "prev = Some (tr_status t)")
    case True
    with Cons show ?thesis by simp
  next
    case False
    obtain es where es: "watched (Some (tr_status t)) (ts @ [u]) = es @ [TransactionStatusChanged (tr_status u)]"
      "\<forall>e \<in> set es. underway e"
      using Cons.IH [of "Some (tr_status t)"] Cons.prems(1) t(2) by auto
    show ?thesis
    proof (cases "needs_3ds t")
      case True
      then show ?thesis
        using False t(1) es
        by (intro exI [of _ "TransactionStatusChanged (tr_status t) # Transaction3ds (the (tr_action t)) (the (tr_actionUrl t)) # es"])
          (auto simp: underway_def)
    next
      case plain: False
      then show ?thesis using False t(1) es by (intro exI [of _ es]) simp
    qed
  qed
qed

text \<open>After the final status nothing is left to wait for.\<close>

lemma polls_end:
  assumes "recording env" "on_only em" "jobs c = [(n, AwaitStatus)]" "next_job c = Suc n" "order c = Some ord"
    and "\<forall>t \<in> set ts. \<not> final_status (tr_status t)" "final_status (tr_status u)" "lastTransactionStatus c \<noteq> Some (tr_status u)"
  shows "jobs (fst (snd (cp_run env (polls n (ts @ [u])) (em, c, w)))) = []"
  using assms(3-6,8)
proof (induction ts arbitrary: n c w)
  case Nil
  then show ?case
    using status_reply_step [OF assms(1,2) Nil.prems(1), of u w] assms(7) by (simp add: Let_def no_job_step)
next
  case (Cons t ts)
  have t: "\<not> final_status (tr_status t)" "tr_status t \<noteq> tr_status u" using Cons.prems(4) assms(7) by auto
  obtain w1 l where s1: "cp_step env (StatusReply n (Inr t)) (em, c, w)
      = (em, push_job LoopTimer (c\<lparr>jobs := [], lastTransactionStatus := l\<rparr>), w1)" "l \<noteq> Some (tr_status u)"
  proof (cases "lastTransactionStatus c = Some (tr_status t)")
    case True
    have same: "c\<lparr>jobs := [], lastTransactionStatus := lastTransactionStatus c\<rparr> = c\<lparr>jobs := []\<rparr>" by (cases c) simp
    show ?thesis
    proof (rule that)
      show "cp_step env (StatusReply n (Inr t)) (em, c, w)
          = (em, push_job LoopTimer (c\<lparr>jobs := [], lastTransactionStatus := lastTransactionStatus c\<rparr>), w)"
        unfolding same using True status_reply_step [OF assms(1,2) Cons.prems(1), of t w] by (simp add: Let_def)
    qed (rule Cons.prems(5))
  next
    case False
    with t show ?thesis
      using that [of "Some (tr_status t)"] status_reply_step [OF assms(1,2) Cons.prems(1), of t w]
      by (cases "needs_3ds t") (auto simp: Let_def)
  qed
  define c1 where "c1 = push_job LoopTimer (c\<lparr>jobs := [], lastTransactionStatus := l\<rparr>)"
  have c1: "jobs c1 = [(Suc n, LoopTimer)]" "order c1 = Some ord" "next_job c1 = Suc (Suc n)" "lastTransactionStatus c1 = l"
    using Cons.prems(1-3) by (simp_all add: c1_def push_job_def)
  define c2 where "c2 = push_job AwaitStatus (c1\<lparr>jobs := [], requests := requests c1 @
     [(next_job c1, ReqTransactionStatus (case ord_transactionId ord of None \<Rightarrow> [] | Some t \<Rightarrow> t))]\<rparr>)"
  have c2: "jobs c2 = [(Suc (Suc n), AwaitStatus)]" "order c2 = Some ord" "next_job c2 = Suc (Suc (Suc n))" "lastTransactionStatus c2 = l"
    using c1 by (simp_all add: c2_def push_job_def)
  have "cp_run env (polls n ((t # ts) @ [u])) (em, c, w) = cp_run env (polls (Suc (Suc n)) (ts @ [u])) (em, c2, w1)"
    using s1(1) tick_step [OF c1(1,2), of env em w1] by (simp add: c1_def [symmetric] c2_def [symmetric])
  then show ?case using Cons.IH [OF c2(1,3,2), of w1] Cons.prems(4) c2(4) s1(2) by simp
qed

locale card_listener = quiet_listener env react
  for env :: "('fn, 'w) cp_env" and react +
  assumes watch_quiet: "react x StartWatchServerPayment w = w"
begin

lemma emit_only: "only_listener x em \<Longrightarrow> emit env e (em, c, w) = (None, (em, c, react x e w))"
  by (cases e) (auto simp: emit_def em_emit_def only_listener_def calls watch_quiet)

lemma listeners_keep_core: "\<exists>em' w'. run_listeners (call env) ty e ls (em, c, w) = (None, (em', c, w'))"
proof (induction ls arbitrary: em w)
  case (Cons l ls)
  obtain em1 where "invoke (call env) ty e l (em, c, w) = (None, (em1, c, react (fn_of l) e w))"
    by (cases l) (simp_all add: calls)
  with Cons.IH [of em1 "react (fn_of l) e w"] show ?case by simp
qed simp

lemma order_kept_emit [simp]: "order_kept (emit env e)"
  unfolding order_kept_def emit_def em_emit_def using listeners_keep_core by (metis fst_conv snd_conv)

lemma polls_keep_order: "order (fst (snd (cp_run env (polls n ts) st))) = order (fst (snd st))"
proof (induction n ts arbitrary: st rule: polls.induct)
  case (2 n t ts)
  have "order_kept (cp_code_of env (StatusReply n (Inr t)))"
    unfolding cp_code_of.simps resume_def status_done_def watch_reply_def watch_error_def watch_again_def
    by (auto simp: take_job_def push_job_def split: option.split cp_job.split)
  moreover have "order_kept (cp_code_of env (Tick (Suc n)))"
    unfolding cp_code_of.simps resume_def watch_turn_def
    by (auto simp: take_job_def push_job_def split: option.split cp_job.split)
  ultimately have "order (fst (snd (cp_step env (Tick (Suc n)) (cp_step env (StatusReply n (Inr t)) st)))) = order (fst (snd st))"
    unfolding order_kept_def cp_step_def by (metis prod.exhaust_sel)
  with 2 show ?case by simp
qed simp

text \<open>The polling loop: the replay of what the specification says of the statuses.\<close>

lemma polls_replayed:
  assumes "only_listener x em" "jobs c = [(n, AwaitStatus)]" "next_job c = Suc n" "order c = Some ord"
  shows "snd (snd (cp_run env (polls n ts) (em, c, w)))
     = replay react (map (Pair x) (watched (lastTransactionStatus c) ts)) w"
proof -
  obtain em' c' ds where r: "cp_run (recorded env) (polls n ts) (em, c, []) = (em', c', ds)" by (metis prod_cases3)
  have "ds = [] @ delivered em (watched (lastTransactionStatus c) ts)"
    using polls_delivered [where w = "[]" and ts = ts, OF recorded_simps(1) [of env] on_only_listener [OF assms(1)] assms(2-4)] r
    by simp
  with replay_run [OF polls_replies r, of w] delivered_only [OF assms(1) watched_types] show ?thesis by simp
qed

text \<open>A payment by card over the server up to the first poll of its status.\<close>

lemma card_payment_starts:
  assumes "only_listener x em" "jobs c = []" "next_job c = n"
    and "sd_isServerApi d" "sd_paymentMethod d = Some m" "sd_paymentMethodType d \<noteq> PmtCash"
    and "return_path env (pm_id m) = Some path" "tid \<noteq> []"
  obtains c0 c1 ord where "startPayment env d (em, c, w) = (None, (em, c0, react x StartServerPayment w))"
    "cp_run env [OrderReply n (Inr o'), TransactionReply (Suc n) (Inr tid)] (em, c0, react x StartServerPayment w)
       = (em, c1, replay react [(x, PaymentOrder (Some ord))] (react x StartServerPayment w))"
    "jobs c1 = [(Suc (Suc n), AwaitStatus)]" "next_job c1 = Suc (Suc (Suc n))" "order c1 = Some ord"
    "lastTransactionStatus c1 = None" "ord_orderId ord = cr_orderId o'" "ord_metadata ord = cr_metadata o'"
proof -
  note emits = emit_only [OF assms(1)]
  define w1 where "w1 = react x StartServerPayment w"
  define c0 where "c0 = push_job (AwaitOrder d) (reset c\<lparr>requests := requests (reset c) @
     [(n, ReqCreateOrder \<lparr>ca_paymentMethodType = sd_paymentMethodType d, ca_paymentMethod = sd_paymentMethod d,
        ca_billingContact = sd_billingContact d, ca_shippingContact = sd_shippingContact d\<rparr>)]\<rparr>)"
  have s1: "startPayment env d (em, c, w) = (None, (em, c0, w1))"
    using assms(3-6) emits
    by (simp add: startPayment_def start_server_payment_def code_defs suspend_def c0_def w1_def reset_def)
  have c0: "jobs c0 = [(n, AwaitOrder d)]" "next_job c0 = Suc n" "lastTransactionStatus c0 = None"
    using assms(2,3) by (simp_all add: c0_def push_job_def reset_def)
  define ord0 where "ord0 = \<lparr>ord_orderId = cr_orderId o', ord_checkoutOrderId = cr_checkoutOrderId o',
      ord_transactionId = None, ord_metadata = None\<rparr>"
  define c2 where "c2 = push_job (AwaitTransaction d o') (c0\<lparr>jobs := [], order := Some ord0,
     requests := requests c0 @ [(Suc n, ReqCreateTransaction (cr_checkoutOrderId o') (pm_id m) path)]\<rparr>)"
  have s2: "cp_step env (OrderReply n (Inr o')) (em, c0, w1) = (em, c2, w1)"
    using c0 assms(5-7)
    by (simp add: cp_step_def code_defs resume_def take_job_def order_done_def suspend_def ord0_def c2_def with_path_def)
  have c2: "jobs c2 = [(Suc n, AwaitTransaction d o')]" "next_job c2 = Suc (Suc n)" "lastTransactionStatus c2 = None"
    "order c2 = Some ord0"
    using c0 by (simp_all add: c2_def push_job_def)
  define ord where "ord = ord0\<lparr>ord_transactionId := Some tid, ord_metadata := cr_metadata o'\<rparr>"
  define c3 where "c3 = push_job AwaitStatus (c2\<lparr>jobs := [], order := Some ord,
     requests := requests c2 @ [(Suc (Suc n), ReqTransactionStatus tid)]\<rparr>)"
  have s3: "cp_step env (TransactionReply (Suc n) (Inr tid)) (em, c2, w1)
      = (em, c3, replay react [(x, PaymentOrder (Some ord))] w1)"
    using c2 assms(6,8)
    by (simp add: cp_step_def code_defs resume_def take_job_def transaction_done_def announce_order_def emits
        watchServerPayment_def watch_turn_def suspend_def c3_def ord_def watch_quiet)
  show ?thesis
  proof (rule that)
    show "startPayment env d (em, c, w) = (None, (em, c0, react x StartServerPayment w))"
      using s1 by (simp add: w1_def)
    show "cp_run env [OrderReply n (Inr o'), TransactionReply (Suc n) (Inr tid)] (em, c0, react x StartServerPayment w)
       = (em, c3, replay react [(x, PaymentOrder (Some ord))] (react x StartServerPayment w))"
      using s2 s3 by (simp add: w1_def)
    show "jobs c3 = [(Suc (Suc n), AwaitStatus)]" "next_job c3 = Suc (Suc (Suc n))" "order c3 = Some ord"
      "lastTransactionStatus c3 = None" using c2 by (simp_all add: c3_def push_job_def)
    show "ord_orderId ord = cr_orderId o'" "ord_metadata ord = cr_metadata o'" by (simp_all add: ord_def ord0_def)
  qed
qed

text \<open>
  The whole payment, from its start to its final status: the world is the replay of the start, the order,
  the events on the way and the final status, and the process keeps the order.
\<close>

lemma card_payment_runs:
  assumes "only_listener x em" "jobs c = []" "next_job c = n"
    and "sd_isServerApi d" "sd_paymentMethod d = Some m" "sd_paymentMethodType d \<noteq> PmtCash"
    and "return_path env (pm_id m) = Some path" "tid \<noteq> []"
    and "\<forall>t \<in> set ts. \<not> final_status (tr_status t)" "final_status (tr_status u)"
  obtains c0 c1 em1 ord es where "startPayment env d (em, c, w) = (None, (em, c0, react x StartServerPayment w))"
    "cp_run env ([OrderReply n (Inr o'), TransactionReply (Suc n) (Inr tid)] @ polls (Suc (Suc n)) (ts @ [u]))
         (em, c0, react x StartServerPayment w)
       = (em1, c1, react x (TransactionStatusChanged (tr_status u)) (replay react (map (Pair x) es)
           (react x (PaymentOrder (Some ord)) (react x StartServerPayment w))))"
    "\<forall>e \<in> set es. underway e" "order c1 = Some ord" "jobs c1 = []" "ord_orderId ord = cr_orderId o'" "ord_metadata ord = cr_metadata o'"
proof -
  obtain c0 c1 ord where s: "startPayment env d (em, c, w) = (None, (em, c0, react x StartServerPayment w))"
    "cp_run env [OrderReply n (Inr o'), TransactionReply (Suc n) (Inr tid)] (em, c0, react x StartServerPayment w)
       = (em, c1, replay react [(x, PaymentOrder (Some ord))] (react x StartServerPayment w))"
    "jobs c1 = [(Suc (Suc n), AwaitStatus)]" "next_job c1 = Suc (Suc (Suc n))" "order c1 = Some ord"
    and lt: "lastTransactionStatus c1 = None" and ord: "ord_orderId ord = cr_orderId o'" "ord_metadata ord = cr_metadata o'"
    by (rule card_payment_starts [OF assms(1-8)])
  obtain es where es: "watched None (ts @ [u]) = es @ [TransactionStatusChanged (tr_status u)]" "\<forall>e \<in> set es. underway e"
    using watched_end [OF assms(9,10), of None] by auto
  define w2 where "w2 = react x (PaymentOrder (Some ord)) (react x StartServerPayment w)"
  have s2: "cp_run env ([OrderReply n (Inr o'), TransactionReply (Suc n) (Inr tid)] @ polls (Suc (Suc n)) (ts @ [u]))
         (em, c0, react x StartServerPayment w) = cp_run env (polls (Suc (Suc n)) (ts @ [u])) (em, c1, w2)"
    using s(2) unfolding cp_run_append by (simp add: w2_def)
  obtain em3 c3 w3 where r: "cp_run env (polls (Suc (Suc n)) (ts @ [u])) (em, c1, w2) = (em3, c3, w3)"
    by (metis prod_cases3)
  have "w3 = react x (TransactionStatusChanged (tr_status u)) (replay react (map (Pair x) es) w2)"
    using polls_replayed [OF assms(1) s(3-5), of "ts @ [u]" w2] lt es(1) r by simp
  moreover have "order c3 = Some ord"
    using polls_keep_order [of "Suc (Suc n)" "ts @ [u]" "(em, c1, w2)"] s(5) r by simp
  moreover have "jobs c3 = []"
  proof -
    obtain em' c' ds where rec: "cp_run (recorded env) (polls (Suc (Suc n)) (ts @ [u])) (em, c1, []) = (em', c', ds)"
      by (metis prod_cases3)
    have "jobs c' = []"
      using polls_end [OF recorded_simps(1) on_only_listener [OF assms(1)] s(3-5) assms(9,10), of env "[]"] lt rec by simp
    then show ?thesis using replay_run [OF polls_replies rec, of w2] r by simp
  qed
  ultimately show ?thesis
    using s2 r es(2) ord unfolding w2_def by (intro that [OF s(1)]) simp_all
qed

end

section \<open>Orders that exist\<close>

definition knows_order :: "string set \<Rightarrow> cp_core \<Rightarrow> bool" where
  "knows_order K c = (\<forall>ord. order c = Some ord \<longrightarrow> ord_orderId ord \<in> K)"

text \<open>Code that keeps a property of the world and that the order of the process is one of \<open>K\<close>.\<close>

definition honest :: "string set \<Rightarrow> ('w \<Rightarrow> bool) \<Rightarrow> ('fn, 'w) cp_code \<Rightarrow> bool" where
  "honest K wk m = (\<forall>em c w. knows_order K c \<longrightarrow> wk w \<longrightarrow>
     (\<exists>x em' c' w'. m (em, c, w) = (x, (em', c', w')) \<and> knows_order K c' \<and> wk w'))"

lemma honestE:
  assumes "honest K wk m" "knows_order K c" "wk w"
  obtains x em' c' w' where "m (em, c, w) = (x, (em', c', w'))" "knows_order K c'" "wk w'"
  using assms unfolding honest_def by blast

lemma honest_prims [simp]: "honest K wk (throw e)" "honest K wk skip" "honest K wk (suspend q j)" "honest K wk cancelPayment"
  by (simp_all add: honest_def code_defs suspend_def cancelPayment_def knows_order_def push_job_def reset_def)

lemma honest_update: "(\<And>c. knows_order K c \<Longrightarrow> knows_order K (f c)) \<Longrightarrow> honest K wk (update f)"
  by (auto simp: honest_def update_def)

lemma honest_reading: "(\<And>c. knows_order K c \<Longrightarrow> honest K wk (f c)) \<Longrightarrow> honest K wk (reading f)"
  by (auto simp: honest_def reading_def)

lemma honest_and_then [intro!]:
  assumes "honest K wk m" "honest K wk k" shows "honest K wk (and_then m k)"
  unfolding honest_def
proof (intro allI impI)
  fix em c w assume "knows_order K c" "wk w"
  then obtain x em1 c1 w1 where m: "m (em, c, w) = (x, (em1, c1, w1))" "knows_order K c1" "wk w1"
    using honestE [OF assms(1)] by metis
  then obtain y em2 c2 w2 where "k (em1, c1, w1) = (y, (em2, c2, w2))" "knows_order K c2" "wk w2"
    using honestE [OF assms(2)] by metis
  with m show "\<exists>x em' c' w'. and_then m k (em, c, w) = (x, em', c', w') \<and> knows_order K c' \<and> wk w'"
    by (cases x) (auto simp: and_then_def)
qed

lemma honest_try [intro!]:
  assumes "honest K wk m" "\<And>e. honest K wk (h e)" shows "honest K wk (try_catch m h)"
  unfolding honest_def
proof (intro allI impI)
  fix em c w assume "knows_order K c" "wk w"
  then obtain x em1 c1 w1 where m: "m (em, c, w) = (x, (em1, c1, w1))" "knows_order K c1" "wk w1"
    using honestE [OF assms(1)] by metis
  show "\<exists>x em' c' w'. try_catch m h (em, c, w) = (x, em', c', w') \<and> knows_order K c' \<and> wk w'"
  proof (cases x)
    case (Some e)
    obtain y em2 c2 w2 where "h e (em1, c1, w1) = (y, (em2, c2, w2))" "knows_order K c2" "wk w2"
      using honestE [OF assms(2) m(2,3)] .
    with m Some show ?thesis by (auto simp: try_catch_def)
  qed (use m in \<open>auto simp: try_catch_def\<close>)
qed

lemma honest_detach [intro!]: "honest K wk m \<Longrightarrow> honest K wk (detach m)"
  unfolding honest_def detach_def by (metis snd_conv)

lemma honest_path [intro!]: "(\<And>p. honest K wk (k p)) \<Longrightarrow> honest K wk (with_path env key k)"
  by (simp add: with_path_def split: option.splits)

locale order_listener = quiet_listener env react
  for env :: "('fn, 'w) cp_env" and react +
  fixes K :: "string set" and wk :: "'w \<Rightarrow> bool"
  assumes knows: "wk w \<Longrightarrow> (\<And>ord. e = PaymentOrder (Some ord) \<Longrightarrow> ord_orderId ord \<in> K) \<Longrightarrow> wk (react x e w)"
begin

lemma honest_emit:
  assumes "\<And>ord. e = PaymentOrder (Some ord) \<Longrightarrow> ord_orderId ord \<in> K"
  shows "honest K wk (emit env e)"
proof -
  have "\<exists>em' w'. run_listeners (call env) ty e ls (em, c, w) = (None, (em', c, w')) \<and> wk w'"
    if "wk w" for ty ls em c w
    using that
  proof (induction ls arbitrary: em w)
    case (Cons l ls)
    obtain em1 where "invoke (call env) ty e l (em, c, w) = (None, (em1, c, react (fn_of l) e w))"
      by (cases l) (simp_all add: calls)
    moreover have "wk (react (fn_of l) e w)" using Cons.prems assms by (rule knows)
    ultimately show ?case using Cons.IH [of "react (fn_of l) e w" em1] by simp
  qed simp
  then show ?thesis unfolding honest_def emit_def em_emit_def by fastforce
qed

lemma honest_other_emit [simp]: "(\<And>ord. e \<noteq> PaymentOrder (Some ord)) \<Longrightarrow> honest K wk (emit env e)"
  by (rule honest_emit) blast

lemma honest_quiet [simp]: "honest K wk watch_turn" "honest K wk watch_again"
  "honest K wk (watch_error env e)" "honest K wk (start_error env e)" "honest K wk (client_error env e)"
proof -
  show "honest K wk watch_turn" unfolding watch_turn_def by (rule honest_reading) (simp split: option.split)
  show "honest K wk watch_again" unfolding watch_again_def
    by (rule honest_update) (simp add: knows_order_def push_job_def)
qed (simp_all add: watch_error_def start_error_def client_error_def honest_emit split: prod.split)

lemma honest_watch [simp]: "honest K wk (watchServerPayment env)"
  unfolding watchServerPayment_def
  by (intro honest_try honest_reading) (auto simp: honest_emit split: option.split)

lemma honest_announce [simp]: "honest K wk (announce_order env d)"
  unfolding announce_order_def
  by (intro honest_and_then honest_reading) (auto intro!: honest_emit simp: knows_order_def)

lemma honest_status [simp]: "honest K wk (status_done env r)"
proof -
  have "honest K wk (watch_reply env t)" for t
    unfolding watch_reply_def
    by (rule honest_reading) (auto intro!: honest_update honest_emit simp: knows_order_def)
  then show ?thesis unfolding status_done_def by (auto split: sum.split)
qed

lemma honest_order [simp]:
  assumes "\<And>o'. r = Inr o' \<Longrightarrow> cr_orderId o' \<in> K"
  shows "honest K wk (order_done env d r)"
  unfolding order_done_def
  using assms by (auto intro!: honest_update simp: knows_order_def split: sum.split option.split)

lemma honest_transaction [simp]: "honest K wk (transaction_done env d o' r)"
proof -
  have "honest K wk (reading (\<lambda>c. case order c of None \<Rightarrow> throw (plain_error ''TypeError'')
      | Some ord \<Rightarrow> update (\<lambda>c. c\<lparr>order := Some (ord\<lparr>ord_transactionId := Some tid, ord_metadata := cr_metadata o'\<rparr>)\<rparr>)))" for tid
    by (rule honest_reading) (auto intro!: honest_update simp: knows_order_def split: option.split)
  then show ?thesis unfolding transaction_done_def by (auto split: sum.split)
qed

lemma honest_checkout [simp]: "honest K wk (checkout_done env r)"
  unfolding checkout_done_def by (auto intro!: honest_emit split: sum.split)

lemma honest_start [simp]: "honest K wk (startPayment env d)"
  unfolding startPayment_def start_server_payment_def start_client_payment_def Let_def
  by (auto intro!: honest_update honest_emit simp: knows_order_def reset_def)

lemma honest_reply:
  assumes "set (created_in i) \<subseteq> K" "is_reply i"
  shows "honest K wk (cp_code_of env i)"
proof -
  have res: "honest K wk (resume n m)" if "honest K wk m" for n m
    using that unfolding resume_def by (intro honest_and_then honest_update) (simp add: knows_order_def take_job_def)
  show ?thesis
  proof (cases i)
    case (OrderReply n r)
    have "cr_orderId o' \<in> K" if "r = Inr o'" for o' using assms(1) OrderReply that by (simp add: created_in_def)
    then show ?thesis using OrderReply
      by (auto intro!: honest_reading res split: option.split cp_job.split)
  qed (use assms(2) in \<open>auto intro!: honest_reading res split: option.split cp_job.split\<close>)
qed

lemma step_honest:
  assumes "is_reply i" "set (created_in i) \<subseteq> K" "knows_order K c" "wk w"
  obtains em' c' w' where "cp_step env i (em, c, w) = (em', c', w')" "knows_order K c'" "wk w'"
  using honestE [OF honest_reply [OF assms(2,1)] assms(3,4), of em] unfolding cp_step_def by (metis snd_conv)

end

end
