(* ===== verification/PaymentFlow.thy ===== *)
theory PaymentFlow
  imports ServiceInvariants Intercom ProcessListeners
begin

text \<open>
  \<open>services/checkout/src/store/checkout/services.ts\<close>: how a payment runs through the form.  The services
  subscribe to the \<open>CheckoutProcess\<close> of the theory of that name, and write what it reports into the store
  and into messages for the shop's page; here the listeners the process theory leaves open are the ones the
  code registers, so that its \<open>cp_step\<close> runs process, store and messages together.

  The services of this file do not wait for anything: they are functions on the state.  The one
  asynchronous service they start is put on the list \<open>pw_started\<close>.  Counters, logs and the tracking of
  times are left out: the listener of \<open>startWatchServerPayment\<close>, which only tracks times, does nothing here.
\<close>

section \<open>The world the listeners act on\<close>

record pay_world =
  pw_root :: RootState
  pw_form :: rpc
  pw_started :: "svc list"
  pw_closed :: nat

text \<open>
  What a call of \<open>startPaymentService\<close> leaves in its listeners: the values it read from the store.
  The environment: that of the services, the address of the page after a challenge, whether there were
  too many of them, and the parameters of an error of the API.
\<close>

record pay_ctx =
  px_methodType :: PaymentMethodType
  px_methodId :: string
  px_checkoutData :: CheckoutData

record pay_env =
  pe_env :: env
  pe_return_path :: "string \<Rightarrow> string option"
  pe_exceeded :: bool
  pe_params :: "api_error \<Rightarrow> string option"

definition on_root :: "(RootState \<Rightarrow> RootState) \<Rightarrow> pay_world \<Rightarrow> pay_world" where
  "on_root f w = w\<lparr>pw_root := f (pw_root w)\<rparr>"

definition caught_of :: "pay_env \<Rightarrow> api_error \<Rightarrow> caught" where
  "caught_of pe e = \<lparr>cg_text = err_text e, cg_is_string = False, cg_code = None, cg_message = err_message e,
     cg_params = pe_params pe e\<rparr>"

section \<open>The services\<close>

definition failPaymentService :: "string option \<Rightarrow> PaymentFailedAction option \<Rightarrow> pay_world \<Rightarrow> pay_world" where
  "failPaymentService why action = on_root (setPaymentStage (StFailed why action))"

definition setPaymentScreenService :: "pay_world \<Rightarrow> pay_world" where
  "setPaymentScreenService = on_root (setPaymentStage StPayment)"

definition sendPaymentDataService :: "pay_env \<Rightarrow> pay_world \<Rightarrow> pay_world" where
  "sendPaymentDataService pe w =
     (if IS_CHECKOUT_SERVER (ev_cfg (pe_env pe))
      then case getPaymentOrder (pw_root w) of
             None \<Rightarrow> failPaymentService None None w
           | Some ord \<Rightarrow> w\<lparr>pw_form := successCheckout (ord_orderId ord) (ord_metadata ord) (pw_form w)\<rparr>
      else case getPaymentProcessData (pw_root w) of
             None \<Rightarrow> failPaymentService None None w
           | Some processData \<Rightarrow> w\<lparr>pw_form := processPayment processData (pw_form w)\<rparr>)"

definition showPaymentInfoService :: "pay_env \<Rightarrow> pay_world \<Rightarrow> pay_world" where
  "showPaymentInfoService pe w = sendPaymentDataService pe (on_root (setPaymentStage StSuccessInfo) w)"

definition completePaymentService :: "pay_world \<Rightarrow> pay_world" where
  "completePaymentService w = w\<lparr>pw_closed := pw_closed w + 1\<rparr>"

section \<open>The listeners of \<open>startPaymentService\<close>\<close>

definition process_data :: "payment_result \<Rightarrow> CheckoutData \<Rightarrow> PaymentProcessData" where
  "process_data d cd =
     \<lparr>cd_orderAmount = cd_orderAmount cd, cd_billingContact = cd_billingContact cd,
      cd_shippingContact = cd_shippingContact cd, cd_shippingMethodInfo = cd_shippingMethodInfo cd,
      ppd_token = pay_token d, ppd_paymentMethodInfo = pay_info d\<rparr>"

fun split_frame :: "PaymentMethodInfo \<Rightarrow> string option" where
  "split_frame (SplitPaymentMethodInfo i url a b) = (if url \<noteq> [] then Some url else None)"
| "split_frame _ = None"

fun on_event :: "pay_env \<Rightarrow> pay_ctx \<Rightarrow> cp_event \<Rightarrow> pay_world \<Rightarrow> pay_world" where
  "on_event pe x StartServerPayment w = setPaymentScreenService w"
| "on_event pe x (ErrorEvent st e) w =
     (if st = create_payment
      then failPaymentService (Some []) (Some \<lparr>pfa_text = TxtBackToShop, pfa_callback =
             SendFormError (errorReason (ev_lib (pe_env pe)) (caught_of pe e)) (errorDetails (caught_of pe e))\<rparr>) w
      else failPaymentService None None w)"
| "on_event pe x (PaymentOrder d) w =
     (let w' = on_root (setPaymentOrder d) w
      in if px_methodType x = PmtCash then showPaymentInfoService pe w' else w')"
| "on_event pe x StartWatchServerPayment w = w"
| "on_event pe x (Transaction3ds v url) w = on_root (setPaymentStage (StAuth3ds v url)) w"
| "on_event pe x (TransactionStatusChanged st) w =
     (let w' = (if st = FAILED then failPaymentService None None w else w)
      in if st = AUTHORIZED \<or> st = CHARGED then showPaymentInfoService pe w' else w')"
| "on_event pe x StartClientPayment w =
     (let w' = setPaymentScreenService w
      in w'\<lparr>pw_started := pw_started w' @ [selectPaymentMethod (px_methodId x) None False]\<rparr>)"
| "on_event pe x (PaymentData d) w =
     (let w' = on_root (setPaymentProcessData (Some (process_data d (px_checkoutData x)))) w
      in case split_frame (pay_info d) of
           Some url \<Rightarrow> on_root (setPaymentStage (StSplitPayment url)) w'
         | None \<Rightarrow> on_root (setPaymentStage StSuccessRedirect) w')"
| "on_event pe x (ChallengeRedirect p) w = on_root (setPaymentStage (StAuthYa p)) w"

definition pay_listener :: "pay_env \<Rightarrow> (CheckoutProcessType, pay_ctx, cp_event, cp_core \<times> pay_world, api_error) handler" where
  "pay_listener pe x e st = (case st of (em, c, w) \<Rightarrow> (None, (em, c, on_event pe x e w)))"

definition pay_process :: "pay_env \<Rightarrow> (pay_ctx, pay_world) cp_env" where
  "pay_process pe = \<lparr>call = pay_listener pe, return_path = pe_return_path pe, exceeded = pe_exceeded pe,
     path_or_str = po_str (ev_lib (pe_env pe))\<rparr>"

type_synonym pay_state = "(pay_ctx, pay_world) cp_state"

section \<open>Starting and ending\<close>

text \<open>The events the code listens to, in the order of its calls of \<open>on\<close>.\<close>

definition pay_events :: "CheckoutProcessType list" where
  "pay_events = [startServerPayment, error, paymentOrder, startWatchServerPayment, transaction3ds,
     transactionStatusChanged, startClientPayment, paymentData, challengeRedirect]"

definition pay_ctx_of :: "pay_env \<Rightarrow> RootState \<Rightarrow> string option \<Rightarrow> pay_ctx" where
  "pay_ctx_of pe s selected =
     \<lparr>px_methodType = getCheckoutPaymentMethod s, px_methodId = js_or selected (getActivePaymentId s),
      px_checkoutData = getCheckoutData (ev_lib (pe_env pe)) s\<rparr>"

definition start_data :: "pay_env \<Rightarrow> RootState \<Rightarrow> string option \<Rightarrow> StartPaymentData" where
  "start_data pe s selected =
     \<lparr>sd_paymentMethod = (if truthy selected then getPaymentMethodById s (the selected) else getActivePaymentMethod s),
      sd_isServerApi = IS_CHECKOUT_SERVER (ev_cfg (pe_env pe)),
      sd_paymentMethodType = getCheckoutPaymentMethod s,
      sd_billingContact = Some (getBillingContact (ev_lib (pe_env pe)) s),
      sd_shippingContact = getShippingMethodContactData (ev_lib (pe_env pe)) s,
      sd_merchantOrigin = CheckoutServices.ev_origin (pe_env pe)\<rparr>"

definition listen_all :: "pay_ctx \<Rightarrow> (CheckoutProcessType, pay_ctx) emitter \<Rightarrow> (CheckoutProcessType, pay_ctx) emitter" where
  "listen_all x em = fold (\<lambda>ty em. snd (em_on ty x em)) pay_events em"

text \<open>The \<open>try\<close> of the code catches what starting throws; the asynchronous part has errors of its own.\<close>

definition startPaymentService :: "pay_env \<Rightarrow> string option \<Rightarrow> pay_state \<Rightarrow> pay_state" where
  "startPaymentService pe selected st =
     (case st of (em, c, w) \<Rightarrow>
        let s = pw_root w
        in case startPayment (pay_process pe) (start_data pe s selected)
                  (listen_all (pay_ctx_of pe s selected) em, c, w) of
             (None, st') \<Rightarrow> st'
           | (Some e, (em', c', w')) \<Rightarrow> (em', c', failPaymentService None None w'))"

definition startPaymentProcessService :: "pay_env \<Rightarrow> pay_state \<Rightarrow> pay_state" where
  "startPaymentProcessService pe st =
     (case st of (em, c, w) \<Rightarrow>
        if getActivePaymentId (pw_root w) = NEW_CARD_KEY
        then (em, c, on_root (setPaymentStage StNewCard) w)
        else startPaymentService pe None st)"

definition resetPaymentService :: "pay_state \<Rightarrow> pay_state" where
  "resetPaymentService st =
     (case st of (em, c, w) \<Rightarrow> snd (cancelPayment (em, c, on_root (setPaymentStage StInitial) w)))"

section \<open>The form while it pays\<close>

datatype pay_input =
    Pay
  | PayWith string
  | ResetPay
  | SendData
  | ShowInfo
  | FailPay "string option"
  | CompletePay
  | PaymentScreen
  | Process "pay_ctx cp_input"

definition on_world :: "(pay_world \<Rightarrow> pay_world) \<Rightarrow> pay_state \<Rightarrow> pay_state" where
  "on_world f st = (case st of (em, c, w) \<Rightarrow> (em, c, f w))"

fun pay_step :: "pay_env \<Rightarrow> pay_input \<Rightarrow> pay_state \<Rightarrow> pay_state" where
  "pay_step pe Pay st = startPaymentProcessService pe st"
| "pay_step pe (PayWith cardId) st = startPaymentService pe (Some cardId) st"
| "pay_step pe ResetPay st = resetPaymentService st"
| "pay_step pe SendData st = on_world (sendPaymentDataService pe) st"
| "pay_step pe ShowInfo st = on_world (showPaymentInfoService pe) st"
| "pay_step pe (FailPay why) st = on_world (failPaymentService why None) st"
| "pay_step pe CompletePay st = on_world completePaymentService st"
| "pay_step pe PaymentScreen st = on_world setPaymentScreenService st"
| "pay_step pe (Process i) st = (if is_reply i then cp_step (pay_process pe) i st else st)"

definition pay_run :: "pay_env \<Rightarrow> pay_input list \<Rightarrow> pay_state \<Rightarrow> pay_state" where
  "pay_run pe ins st = fold (pay_step pe) ins st"

definition new_pay :: "RootState \<Rightarrow> pay_state" where
  "new_pay s = (new_emitter, new_core,
     \<lparr>pw_root = s, pw_form = snd (new_rpc True), pw_started = [], pw_closed = 0\<rparr>)"

section \<open>The form is a replay of the events\<close>

text \<open>The listeners of a payment do not touch the process and never throw.  So the form does, event by event,
  what a list of the deliveries says: it refines the process observed by listeners that only record.\<close>

interpretation form: card_listener "pay_process pe" "on_event pe" for pe
  by unfold_locales (simp_all add: pay_process_def pay_listener_def)

lemma process_runs:
  "pay_run pe (map Process ins) st = cp_run (pay_process pe) (filter is_reply ins) st"
  by (induction ins arbitrary: st) (simp_all add: pay_run_def)

text \<open>C14: After a payment was reset, no reply to it, whenever it comes, changes the form or tells the shop
  anything: the stage stays the initial one.\<close>

theorem reset_payment_is_over:
  "snd (snd (pay_run pe (ResetPay # map Process ins) st)) = on_root (setPaymentStage StInitial) (snd (snd st))"
proof -
  obtain em c w where st: "st = (em, c, w)" by (metis prod_cases3)
  define w1 where "w1 = on_root (setPaymentStage StInitial) w"
  have nl: "no_listeners (em_clear em)" by (simp add: no_listeners_def em_clear_def)
  have "\<forall>i \<in> set (filter is_reply ins). \<not> is_subscribe i" by (auto simp: reply_subscribes_not)
  then obtain c' where "cp_run (pay_process pe) (filter is_reply ins) (em_clear em, reset c, w1) = (em_clear em, c', w1)"
    using cp_run_mute [OF nl, of "filter is_reply ins" "pay_process pe" "reset c" w1] by blast
  moreover have "pay_run pe (ResetPay # map Process ins) st = pay_run pe (map Process ins) (resetPaymentService st)"
    by (simp add: pay_run_def)
  ultimately show ?thesis
    unfolding process_runs by (simp add: st resetPaymentService_def cancelPayment_def w1_def)
qed

section \<open>The shop hears of orders that exist\<close>

definition world_knows :: "string set \<Rightarrow> pay_world \<Rightarrow> bool" where
  "world_knows K w = ((\<forall>ord. getPaymentOrder (pw_root w) = Some ord \<longrightarrow> ord_orderId ord \<in> K)
     \<and> (\<forall>i md. SuccessEvent i md \<in> set (outbox (pw_form w)) \<longrightarrow> i \<in> K))"

lemma world_knows_stage [simp]: "world_knows K (on_root (setPaymentStage st) w) = world_knows K w"
  by (simp add: world_knows_def on_root_def setPaymentStage_def on_checkout_def getPaymentOrder_def)

lemma world_knows_services [simp]:
  "world_knows K w \<Longrightarrow> world_knows K (failPaymentService why act w)"
  "world_knows K w \<Longrightarrow> world_knows K (setPaymentScreenService w)"
  "world_knows K w \<Longrightarrow> world_knows K (completePaymentService w)"
  by (simp_all add: failPaymentService_def setPaymentScreenService_def)
    (simp add: world_knows_def completePaymentService_def)

lemma world_knows_send [simp]: "world_knows K w \<Longrightarrow> world_knows K (sendPaymentDataService pe w)"
  by (auto simp: sendPaymentDataService_def split: option.splits)
    (auto simp: world_knows_def successCheckout_def processPayment_def send_def)

lemma world_knows_show [simp]: "world_knows K w \<Longrightarrow> world_knows K (showPaymentInfoService pe w)"
  by (simp add: showPaymentInfoService_def)

lemma world_knows_event:
  assumes "world_knows K w" "\<And>ord. e = PaymentOrder (Some ord) \<Longrightarrow> ord_orderId ord \<in> K"
  shows "world_knows K (on_event pe x e w)"
proof (cases e)
  case (PaymentOrder d)
  then have "world_knows K (on_root (setPaymentOrder d) w)"
    using assms by (cases d) (auto simp: world_knows_def on_root_def setPaymentOrder_def on_checkout_def getPaymentOrder_def)
  then show ?thesis using PaymentOrder by (simp add: Let_def)
next
  case (PaymentData d)
  have "world_knows K (on_root (setPaymentProcessData p) w)" for p
    using assms(1) by (simp add: world_knows_def on_root_def setPaymentProcessData_def on_checkout_def getPaymentOrder_def)
  then show ?thesis using PaymentData by (simp add: Let_def split: option.splits)
next
  case StartClientPayment
  have "world_knows K (w'\<lparr>pw_started := ps\<rparr>) = world_knows K w'" for w' ps by (simp add: world_knows_def)
  then show ?thesis using StartClientPayment assms(1) by (simp add: Let_def)
qed (use assms(1) in \<open>simp_all add: Let_def\<close>)

interpretation form: order_listener "pay_process pe" "on_event pe" K "world_knows K" for pe K
  by unfold_locales (rule world_knows_event)

definition created_ids :: "pay_input list \<Rightarrow> string list" where
  "created_ids ins = concat (map (\<lambda>i. case i of Process j \<Rightarrow> created_in j | _ \<Rightarrow> []) ins)"

definition pay_knows :: "string set \<Rightarrow> pay_state \<Rightarrow> bool" where
  "pay_knows K st = (knows_order K (fst (snd st)) \<and> world_knows K (snd (snd st)))"

lemma pay_knows_start: "pay_knows K st \<Longrightarrow> pay_knows K (startPaymentService pe sel st)"
proof -
  assume k: "pay_knows K st"
  obtain em c w where st: "st = (em, c, w)" by (metis prod_cases3)
  obtain x em' c' w' where "startPayment (pay_process pe) (start_data pe (pw_root w) sel)
      (listen_all (pay_ctx_of pe (pw_root w) sel) em, c, w) = (x, (em', c', w'))" "knows_order K c'" "world_knows K w'"
    using honestE [OF form.honest_start, of K c w] k unfolding st pay_knows_def fst_conv snd_conv by blast
  then show ?thesis
    by (cases x) (simp_all add: startPaymentService_def st Let_def pay_knows_def)
qed

lemma pay_knows_step:
  assumes "pay_knows K st" "set (created_ids [i]) \<subseteq> K"
  shows "pay_knows K (pay_step pe i st)"
proof -
  obtain em c w where st: "st = (em, c, w)" by (metis prod_cases3)
  have cw: "knows_order K c" "world_knows K w" using assms(1) by (simp_all add: st pay_knows_def)
  show ?thesis
  proof (cases i)
    case Pay
    then show ?thesis
      using pay_knows_start [OF assms(1)] cw by (simp add: startPaymentProcessService_def st pay_knows_def)
  next
    case (PayWith k)
    then show ?thesis using pay_knows_start [OF assms(1)] by simp
  next
    case ResetPay
    then show ?thesis
      using cw by (simp add: resetPaymentService_def cancelPayment_def st pay_knows_def knows_order_def reset_def)
  next
    case (Process j)
    show ?thesis
    proof (cases "is_reply j")
      case True
      moreover from assms(2) Process have "set (created_in j) \<subseteq> K" by (simp add: created_ids_def)
      ultimately obtain em' c' w' where "cp_step (pay_process pe) j (em, c, w) = (em', c', w')"
        "knows_order K c'" "world_knows K w'"
        by (rule form.step_honest [OF _ _ cw])
      then show ?thesis using True Process by (simp add: st pay_knows_def)
    qed (use assms(1) Process in simp)
  qed (use cw in \<open>simp_all add: on_world_def st pay_knows_def\<close>)
qed

text \<open>C13: Whatever the user does and the server answers, in any order: every success the shop is told of names an
  order the server has created for this form.\<close>

theorem success_names_created_order:
  assumes "getPaymentOrder s = None"
    and "SuccessEvent orderId md \<in> set (outbox (pw_form (snd (snd (pay_run pe ins (new_pay s))))))"
  shows "orderId \<in> set (created_ids ins)"
proof -
  have "pay_knows (set (created_ids ins)) (pay_run pe ins (new_pay s))"
  proof (induction ins rule: rev_induct)
    case Nil
    show ?case
      using assms(1) by (simp add: pay_run_def new_pay_def pay_knows_def knows_order_def world_knows_def new_core_def new_rpc_def)
  next
    case (snoc i ins)
    have mono: "pay_knows K st \<Longrightarrow> K \<subseteq> K' \<Longrightarrow> pay_knows K' st" for K K' st
      unfolding pay_knows_def knows_order_def world_knows_def by blast
    have "created_ids (ins @ [i]) = created_ids ins @ created_ids [i]" by (simp add: created_ids_def)
    then have "pay_knows (set (created_ids (ins @ [i]))) (pay_step pe i (pay_run pe ins (new_pay s)))"
      by (intro pay_knows_step mono [OF snoc]) auto
    then show ?case by (simp add: pay_run_def)
  qed
  with assms(2) show ?thesis unfolding pay_knows_def world_knows_def by blast
qed

section \<open>What a payment does to the store\<close>

text \<open>A payment changes the store of the checkout by the updates of \<open>payment_call\<close> only, and starts only the
  service named there.  So the store stays well formed while one runs.\<close>

definition paid_by :: "RootState \<Rightarrow> RootState \<Rightarrow> bool" where
  "paid_by = (\<lambda>s s'. \<exists>f. payment_call (mut f) \<and> s' = f s)\<^sup>*\<^sup>*"

definition paid_world :: "RootState \<Rightarrow> pay_world \<Rightarrow> bool" where
  "paid_world s w = (paid_by s (pw_root w) \<and> (\<forall>p \<in> set (pw_started w). payment_call p))"

lemma paid_on_root [simp]: "payment_call (mut f) \<Longrightarrow> paid_world s w \<Longrightarrow> paid_world s (on_root f w)"
  unfolding paid_world_def paid_by_def on_root_def by (auto intro: rtranclp.rtrancl_into_rtrancl)

lemmas paid_updates [simp] = payment_call.intros

lemma paid_form [simp]: "paid_world s (w\<lparr>pw_form := r\<rparr>) = paid_world s w" "paid_world s (w\<lparr>pw_closed := n\<rparr>) = paid_world s w"
  by (simp_all add: paid_world_def)

lemma paid_services [simp]:
  "paid_world s w \<Longrightarrow> paid_world s (failPaymentService why act w)"
  "paid_world s w \<Longrightarrow> paid_world s (setPaymentScreenService w)"
  "paid_world s w \<Longrightarrow> paid_world s (sendPaymentDataService pe w)"
  "paid_world s w \<Longrightarrow> paid_world s (showPaymentInfoService pe w)"
  "paid_world s w \<Longrightarrow> paid_world s (completePaymentService w)"
  by (auto simp: failPaymentService_def setPaymentScreenService_def sendPaymentDataService_def showPaymentInfoService_def
      completePaymentService_def split: option.split)

lemma paid_event: "paid_world s w \<Longrightarrow> paid_world s (on_event pe x e w)"
proof (cases e)
  case StartClientPayment
  assume "paid_world s w"
  then have "paid_world s (setPaymentScreenService w)" by simp
  then show ?thesis using StartClientPayment by (simp add: Let_def paid_world_def)
qed (auto simp: Let_def split: option.split)

interpretation form_store: order_listener "pay_process pe" "on_event pe" UNIV "paid_world s" for pe s
  by unfold_locales (rule paid_event)

lemma paid_start:
  assumes "paid_world s (snd (snd st))" shows "paid_world s (snd (snd (startPaymentService pe sel st)))"
proof -
  obtain em c w where st: "st = (em, c, w)" by (metis prod_cases3)
  have kw: "knows_order UNIV c" "paid_world s w" using assms by (simp_all add: st knows_order_def)
  obtain x em' c' w' where "startPayment (pay_process pe) (start_data pe (pw_root w) sel)
      (listen_all (pay_ctx_of pe (pw_root w) sel) em, c, w) = (x, (em', c', w'))" "paid_world s w'"
    by (rule honestE [OF form_store.honest_start kw])
  then show ?thesis by (cases x) (simp_all add: startPaymentService_def st Let_def)
qed

lemma paid_step:
  assumes "paid_world s (snd (snd st))" shows "paid_world s (snd (snd (pay_step pe i st)))"
proof -
  obtain em c w where st: "st = (em, c, w)" by (metis prod_cases3)
  show ?thesis
  proof (cases i)
    case Pay
    then show ?thesis
      using paid_start [OF assms] assms by (simp add: startPaymentProcessService_def st)
  next
    case (PayWith k)
    then show ?thesis using paid_start [OF assms] by simp
  next
    case ResetPay
    then show ?thesis using assms by (simp add: resetPaymentService_def cancelPayment_def st)
  next
    case (Process j)
    show ?thesis
    proof (cases "is_reply j")
      case True
      have kw: "knows_order UNIV c" "paid_world s w" using assms by (simp_all add: st knows_order_def)
      obtain em' c' w' where "cp_step (pay_process pe) j (em, c, w) = (em', c', w')" "paid_world s w'"
        by (rule form_store.step_honest [OF True subset_UNIV kw])
      then show ?thesis using True Process by (simp add: st)
    qed (use assms Process in simp)
  qed (use assms in \<open>simp_all add: on_world_def st\<close>)
qed

lemma payment_is_calls: "paid_world s (snd (snd (pay_run pe ins (new_pay s))))"
proof (induction ins rule: rev_induct)
  case Nil
  show ?case by (simp add: pay_run_def new_pay_def paid_world_def paid_by_def)
next
  case (snoc i ins)
  then show ?case using paid_step by (simp add: pay_run_def)
qed

lemma payment_keeps_store:
  assumes "store_ok s" shows "store_ok (pw_root (snd (snd (pay_run pe ins (new_pay s)))))"
proof -
  have step: "store_ok (f r)" if "payment_call (mut f)" "store_ok r" for f r
    using payment_call_kept [OF that(1)] that(2) unfolding kept_def mut_def
    by (auto dest: spec [of _ "\<lparr>root = r, fetchPickupPointsCounter = 0\<rparr>"])
  have "paid_by s (pw_root (snd (snd (pay_run pe ins (new_pay s)))))"
    using payment_is_calls by (simp add: paid_world_def)
  then show ?thesis
    unfolding paid_by_def by (induction rule: rtranclp_induct) (auto intro: assms step)
qed

section \<open>A payment from the button to the shop\<close>

lemma all_pay_events: "ty \<in> set pay_events"
  by (cases ty) (simp_all add: pay_events_def)

lemma listen_all_listeners:
  "listeners_of (listen_all x em) ty = listeners_of em ty @ [listener.Plain x]"
  by (cases ty) (simp_all add: listen_all_def pay_events_def em_on_def)

lemma only_listener_new: "no_listeners em \<Longrightarrow> only_listener x (listen_all x em)"
  by (simp add: only_listener_def listen_all_listeners) (simp add: no_listeners_def listeners_of_def)

text \<open>Statuses that are not final only move the stage.\<close>

lemma replay_underway:
  assumes "\<forall>e \<in> set es. underway e"
  shows "pw_form (replay (on_event pe) (map (Pair x) es) w) = pw_form w
    \<and> getPaymentOrder (pw_root (replay (on_event pe) (map (Pair x) es) w)) = getPaymentOrder (pw_root w)"
  using assms
proof (induction es arbitrary: w)
  case (Cons e es)
  have "pw_form (on_event pe x e w) = pw_form w \<and> getPaymentOrder (pw_root (on_event pe x e w)) = getPaymentOrder (pw_root w)"
    using Cons.prems
    by (auto simp: underway_def final_status_def on_root_def setPaymentStage_def on_checkout_def getPaymentOrder_def)
  with Cons show ?case by simp
qed simp

definition stage_of :: "pay_world \<Rightarrow> PaymentStage" where
  "stage_of w = pst_stage (rt_checkout (pw_root w))"

text \<open>The end of a payment by card over the server: the last status decides.\<close>

lemma final_event:
  assumes "IS_CHECKOUT_SERVER (ev_cfg (pe_env pe))" "getPaymentOrder (pw_root w) = Some ord" "final_status st"
  shows "let w' = on_event pe x (TransactionStatusChanged st) w in
    (if st = FAILED then stage_of w' = StFailed None None \<and> outbox (pw_form w') = outbox (pw_form w)
     else stage_of w' = StSuccessInfo
       \<and> outbox (pw_form w') = outbox (pw_form w) @ [SuccessEvent (ord_orderId ord) (ord_metadata ord)])"
proof -
  have "getPaymentOrder (pw_root (on_root (setPaymentStage StSuccessInfo) w)) = Some ord"
    using assms(2) by (simp add: on_root_def setPaymentStage_def on_checkout_def getPaymentOrder_def)
  then show ?thesis
    using assms(1,3)
    by (auto simp: final_status_def Let_def showPaymentInfoService_def sendPaymentDataService_def
        failPaymentService_def successCheckout_def send_def stage_of_def on_root_def setPaymentStage_def on_checkout_def)
qed

text \<open>The button of a payment by card over the server, and the first two replies.\<close>

lemma card_start_data:
  assumes "IS_CHECKOUT_SERVER (ev_cfg (pe_env pe))" "getActivePaymentMethod (pw_root w) = Some m"
    and "getCheckoutPaymentMethod (pw_root w) \<noteq> PmtCash"
  shows "sd_isServerApi (start_data pe (pw_root w) None)" "sd_paymentMethod (start_data pe (pw_root w) None) = Some m"
    "sd_paymentMethodType (start_data pe (pw_root w) None) \<noteq> PmtCash"
    "px_methodType (pay_ctx_of pe (pw_root w) None) \<noteq> PmtCash"
  using assms by (simp_all add: start_data_def pay_ctx_of_def)

lemma pay_button:
  assumes "getActivePaymentId (pw_root w) \<noteq> NEW_CARD_KEY"
    and "startPayment (pay_process pe) (start_data pe (pw_root w) None) (listen_all (pay_ctx_of pe (pw_root w) None) em, c, w) = (None, st)"
  shows "pay_step pe Pay (em, c, w) = st"
  using assms by (simp add: startPaymentProcessService_def startPaymentService_def)

text \<open>C5: A payment by card over the server, from the button to the message to the shop: whatever statuses that
  are not final come first, and challenges with them, the final status ends it.  The shop is told of
  success once, with the number of the order that was created, or, when the payment failed, of nothing.\<close>

theorem card_payment_reported_once:
  assumes "IS_CHECKOUT_SERVER (ev_cfg (pe_env pe))"
    and "no_listeners em" "jobs c = []" "next_job c = n"
    and "getActivePaymentId (pw_root w) \<noteq> NEW_CARD_KEY" "getActivePaymentMethod (pw_root w) = Some m"
    and "getCheckoutPaymentMethod (pw_root w) \<noteq> PmtCash" "pe_return_path pe (pm_id m) = Some path" "tid \<noteq> []"
    and "\<forall>t \<in> set ts. \<not> final_status (tr_status t)" "final_status (tr_status u)"
  shows "let w' = snd (snd (pay_run pe ([Pay, Process (OrderReply n (Inr o')), Process (TransactionReply (Suc n) (Inr tid))]
            @ map Process (polls (Suc (Suc n)) (ts @ [u]))) (em, c, w))) in
    (if tr_status u = FAILED then stage_of w' = StFailed None None \<and> outbox (pw_form w') = outbox (pw_form w)
     else stage_of w' = StSuccessInfo
       \<and> outbox (pw_form w') = outbox (pw_form w) @ [SuccessEvent (cr_orderId o') (cr_metadata o')])"
proof -
  define x where "x = pay_ctx_of pe (pw_root w) None"
  define d where "d = start_data pe (pw_root w) None"
  note d = card_start_data [OF assms(1,6,7), folded d_def x_def]
  have path: "return_path (pay_process pe) (pm_id m) = Some path" using assms(8) by (simp add: pay_process_def)
  obtain c0 c1 em1 ord es where s: "startPayment (pay_process pe) d (listen_all x em, c, w)
       = (None, (listen_all x em, c0, on_event pe x StartServerPayment w))"
    and r: "cp_run (pay_process pe) ([OrderReply n (Inr o'), TransactionReply (Suc n) (Inr tid)] @ polls (Suc (Suc n)) (ts @ [u]))
         (listen_all x em, c0, on_event pe x StartServerPayment w)
       = (em1, c1, on_event pe x (TransactionStatusChanged (tr_status u)) (replay (on_event pe) (map (Pair x) es)
           (on_event pe x (PaymentOrder (Some ord)) (on_event pe x StartServerPayment w))))"
    and es: "\<forall>e \<in> set es. underway e" and ord: "ord_orderId ord = cr_orderId o'" "ord_metadata ord = cr_metadata o'"
    by (rule form.card_payment_runs [OF only_listener_new [OF assms(2), of x] assms(3,4) d(1-3) path assms(9-11)])
  define w1 where "w1 = on_event pe x (PaymentOrder (Some ord)) (on_event pe x StartServerPayment w)"
  have w1: "getPaymentOrder (pw_root w1) = Some ord" "pw_form w1 = pw_form w"
    using d(4) by (simp_all add: w1_def Let_def on_root_def setPaymentOrder_def on_checkout_def getPaymentOrder_def
        setPaymentScreenService_def setPaymentStage_def)
  define w2 where "w2 = replay (on_event pe) (map (Pair x) es) w1"
  have w2: "getPaymentOrder (pw_root w2) = Some ord" "pw_form w2 = pw_form w"
    using replay_underway [OF es, of pe x w1] w1 by (simp_all add: w2_def)
  have start: "pay_step pe Pay (em, c, w) = (listen_all x em, c0, on_event pe x StartServerPayment w)"
    using s unfolding x_def d_def by (rule pay_button [OF assms(5)])
  have replies: "filter is_reply ([OrderReply n (Inr o'), TransactionReply (Suc n) (Inr tid)] @ polls (Suc (Suc n)) (ts @ [u]))
      = [OrderReply n (Inr o'), TransactionReply (Suc n) (Inr tid)] @ polls (Suc (Suc n)) (ts @ [u])"
    using polls_replies [of "Suc (Suc n)" "ts @ [u]"] by (simp add: filter_id_conv)
  have "pay_run pe ([Pay, Process (OrderReply n (Inr o')), Process (TransactionReply (Suc n) (Inr tid))]
            @ map Process (polls (Suc (Suc n)) (ts @ [u]))) (em, c, w)
      = pay_run pe (map Process ([OrderReply n (Inr o'), TransactionReply (Suc n) (Inr tid)] @ polls (Suc (Suc n)) (ts @ [u])))
          (pay_step pe Pay (em, c, w))"
    by (simp add: pay_run_def del: pay_step.simps)
  also have "\<dots> = (em1, c1, on_event pe x (TransactionStatusChanged (tr_status u)) w2)"
    unfolding process_runs replies start r w2_def w1_def ..
  finally have all: "snd (snd (pay_run pe ([Pay, Process (OrderReply n (Inr o')), Process (TransactionReply (Suc n) (Inr tid))]
            @ map Process (polls (Suc (Suc n)) (ts @ [u]))) (em, c, w)))
      = on_event pe x (TransactionStatusChanged (tr_status u)) w2" by simp
  show ?thesis
    unfolding all Let_def
    using final_event [OF assms(1) w2(1) assms(11), of x, unfolded Let_def w2(2) ord] .
qed

section \<open>What a reset does not stop\<close>

text \<open>C20: The status request of a payment that was reset is not stopped, and the store keeps its order.  When
  another payment is started and the old status then arrives as paid, the form shows success and tells the
  shop so, with the number of the old order, while the order of the new payment is still being created.\<close>

theorem late_status_reports_old_order:
  assumes "IS_CHECKOUT_SERVER (ev_cfg (pe_env pe))"
    and "jobs c = [(n, AwaitStatus)]" "n < next_job c" "getPaymentOrder (pw_root w) = Some old"
    and "getActivePaymentId (pw_root w) \<noteq> NEW_CARD_KEY" "getActivePaymentMethod (pw_root w) = Some m"
    and "tr_status t = AUTHORIZED"
  shows "let (em', c', w') = pay_run pe [ResetPay, Pay, Process (StatusReply n (Inr t))] (em, c, w) in
    stage_of w' = StSuccessInfo \<and> order c' = None
    \<and> outbox (pw_form w') = outbox (pw_form w) @ [SuccessEvent (ord_orderId old) (ord_metadata old)]"
proof -
  define w0 where "w0 = on_root (setPaymentStage StInitial) w"
  have w0: "getActivePaymentId (pw_root w0) \<noteq> NEW_CARD_KEY" "getActivePaymentMethod (pw_root w0) = Some m"
    "getPaymentOrder (pw_root w0) = Some old" "pw_form w0 = pw_form w"
    using assms(4-6)
    by (simp_all add: w0_def on_root_def setPaymentStage_def on_checkout_def getPaymentOrder_def
        getActivePaymentId_def getActivePaymentMethod_def sel_getPaymentMethods_def)
  define x where "x = pay_ctx_of pe (pw_root w0) None"
  define d where "d = start_data pe (pw_root w0) None"
  have d: "sd_isServerApi d" "sd_paymentMethod d = Some m" using assms(1) w0 by (simp_all add: d_def start_data_def)
  define em1 where "em1 = listen_all x (em_clear em)"
  have only: "only_listener x em1"
    unfolding em1_def by (rule only_listener_new) (simp add: no_listeners_def em_clear_def)
  note emits = form.emit_only [OF only]
  define c1 where "c1 = push_job (AwaitOrder d) (reset (reset c)\<lparr>requests := requests (reset (reset c)) @
     [(next_job c, ReqCreateOrder \<lparr>ca_paymentMethodType = sd_paymentMethodType d, ca_paymentMethod = sd_paymentMethod d,
        ca_billingContact = sd_billingContact d, ca_shippingContact = sd_shippingContact d\<rparr>)]\<rparr>)"
  have s0: "pay_step pe ResetPay (em, c, w) = (em_clear em, reset c, w0)"
    by (simp add: resetPaymentService_def cancelPayment_def w0_def)
  have s1: "pay_step pe Pay (em_clear em, reset c, w0) = (em1, c1, setPaymentScreenService w0)"
    using w0 d emits
    by (simp add: startPaymentProcessService_def startPaymentService_def x_def [symmetric] d_def [symmetric]
        em1_def [symmetric] startPayment_def start_server_payment_def code_defs suspend_def c1_def reset_def)
  define w1 where "w1 = setPaymentScreenService w0"
  have w1: "getPaymentOrder (pw_root w1) = Some old" "pw_form w1 = pw_form w"
    using w0(3,4) by (simp_all add: w1_def setPaymentScreenService_def on_root_def setPaymentStage_def on_checkout_def
        getPaymentOrder_def)
  have c1: "map_of (jobs c1) n = Some AwaitStatus" "order c1 = None" "lastTransactionStatus c1 = None"
    using assms(2,3) by (auto simp: c1_def push_job_def reset_def)
  have s2: "pay_step pe (Process (StatusReply n (Inr t))) (em1, c1, w1)
      = (em1, (take_job n c1)\<lparr>lastTransactionStatus := Some AUTHORIZED\<rparr>, on_event pe x (TransactionStatusChanged AUTHORIZED) w1)"
    using c1 assms(7)
    by (simp add: cp_step_def code_defs resume_def take_job_def status_done_def watch_reply_def emits)
  have "pay_run pe [ResetPay, Pay, Process (StatusReply n (Inr t))] (em, c, w)
      = (em1, (take_job n c1)\<lparr>lastTransactionStatus := Some AUTHORIZED\<rparr>, on_event pe x (TransactionStatusChanged AUTHORIZED) w1)"
    unfolding pay_run_def fold_simps s0 s1 w1_def [symmetric] s2 ..
  moreover have "final_status AUTHORIZED" by (simp add: final_status_def)
  note final_event [OF assms(1) w1(1) this, of x]
  ultimately show ?thesis
    using c1(2) w1(2) by (simp add: Let_def take_job_def del: on_event.simps)
qed

section \<open>Examples\<close>

definition sample_pay :: pay_env where
  "sample_pay = \<lparr>pe_env = \<lparr>ev_cfg = sample_cfg, ev_lib = std_tinkoff, ev_tz = 0, ev_query = [], ev_origin = ''https://shop'',
       ev_date = (\<lambda>_. None), ev_cos = (\<lambda>x. x), ev_shuffle = (\<lambda>xs. xs), ev_isEmpty_str = (\<lambda>x. x = None),
       ev_isEmpty_num = (\<lambda>x. x = None), ev_pick_undefined = Some [], ev_head = (\<lambda>_. None), ev_toArray = (\<lambda>xs. xs)\<rparr>,
     pe_return_path = (\<lambda>k. Some (''https://pay/?chn=1&chnCardId='' @ k)), pe_exceeded = False, pe_params = (\<lambda>_. None)\<rparr>"

definition sample_card :: CardPaymentMethod where
  "sample_card = \<lparr>pm_type = PmtCard, pm_key = ''card'', pm_disabled = False, pm_id = ''card'', pm_uid = ''u'',
     pm_lastDigits = ''0001'', pm_system = ''MIR'', pm_issuer = ''TINKOFF''\<rparr>"

definition paying_root :: RootState where
  "paying_root = setPaymentMethods (a_success [sample_card]) (methods_setSelectedId ''card'' (initialState sample_cfg))"

definition paying_world :: pay_world where
  "paying_world = snd (snd (new_pay paying_root))"

lemma sample_pay_facts:
  "IS_CHECKOUT_SERVER (ev_cfg (pe_env sample_pay))" "pw_root paying_world = paying_root"
  "getActivePaymentId paying_root \<noteq> NEW_CARD_KEY" "getActivePaymentMethod paying_root = Some sample_card"
  "getCheckoutPaymentMethod paying_root \<noteq> PmtCash" "getPaymentOrder paying_root = None"
  "outbox (pw_form paying_world) = []"
  "pe_return_path sample_pay (pm_id sample_card) = Some ''https://pay/?chn=1&chnCardId=card''"
  by (simp_all add: sample_pay_def sample_cfg_def paying_world_def new_pay_def paying_root_def mutator_defs slice_defs
      initialState_def getActivePaymentId_def getActivePaymentMethod_def getCheckoutPaymentMethod_def
      sel_getPaymentMethods_def isPayWithSplit_def isSplitAvailable_def or_else_def sample_card_def NEW_CARD_KEY_def
      CASH_KEY_def getPaymentOrder_def initialPaymentState_def new_rpc_def)

definition sample_order :: CreatedOrder where
  "sample_order = \<lparr>cr_checkoutOrderId = ''co'', cr_orderId = ''o1'', cr_metadata = None\<rparr>"

definition sample_status :: "TransactionStatus \<Rightarrow> Transaction" where
  "sample_status st = \<lparr>tr_status = st, tr_action = None, tr_actionUrl = None\<rparr>"

lemma card_payment_reported_once_witness:
  "let w' = snd (snd (pay_run sample_pay ([Pay, Process (OrderReply 0 (Inr sample_order)),
            Process (TransactionReply (Suc 0) (Inr ''t''))]
          @ map Process (polls (Suc (Suc 0)) ([sample_status NEW] @ [sample_status CHARGED])))
       (new_emitter, new_core, paying_world)))
   in stage_of w' = StSuccessInfo \<and> outbox (pw_form w') = [SuccessEvent ''o1'' None]"
proof -
  have "no_listeners new_emitter" by (simp add: no_listeners_def new_emitter_def)
  moreover have "jobs new_core = []" "next_job new_core = 0" by (simp_all add: new_core_def)
  moreover have "\<forall>t \<in> set [sample_status NEW]. \<not> final_status (tr_status t)" "final_status (tr_status (sample_status CHARGED))"
    by (simp_all add: sample_status_def final_status_def)
  ultimately show ?thesis
    using card_payment_reported_once [of sample_pay new_emitter new_core 0 paying_world sample_card
        "''https://pay/?chn=1&chnCardId=card''" "''t''" "[sample_status NEW]" "sample_status CHARGED" sample_order]
      sample_pay_facts
    by (simp add: Let_def sample_order_def sample_status_def del: polls.simps)
qed

lemma success_names_created_order_witness:
  "''o1'' \<in> set (created_ids [Pay, Process (OrderReply 0 (Inr sample_order)),
     Process (TransactionReply (Suc 0) (Inr ''t'')), ShowInfo])"
proof -
  let ?pe = sample_pay and ?x = "pay_ctx_of sample_pay paying_root None"
  let ?ins = "[Pay, Process (OrderReply 0 (Inr sample_order)), Process (TransactionReply (Suc 0) (Inr ''t''))]"
  have new: "new_pay paying_root = (new_emitter, new_core, paying_world)" "pw_root paying_world = paying_root"
    by (simp_all add: new_pay_def paying_world_def)
  have "only_listener ?x (listen_all ?x new_emitter)"
    by (rule only_listener_new) (simp add: no_listeners_def new_emitter_def)
  moreover have "jobs new_core = []" "next_job new_core = 0" "''t'' \<noteq> []"
    "return_path (pay_process ?pe) (pm_id sample_card) = Some ''https://pay/?chn=1&chnCardId=card''"
    using sample_pay_facts by (simp_all add: new_core_def pay_process_def)
  ultimately obtain c0 c1 ord where s: "startPayment (pay_process ?pe) (start_data ?pe paying_root None)
        (listen_all ?x new_emitter, new_core, paying_world)
      = (None, (listen_all ?x new_emitter, c0, on_event ?pe ?x StartServerPayment paying_world))"
    and r: "cp_run (pay_process ?pe) [OrderReply 0 (Inr sample_order), TransactionReply (Suc 0) (Inr ''t'')]
        (listen_all ?x new_emitter, c0, on_event ?pe ?x StartServerPayment paying_world)
      = (listen_all ?x new_emitter, c1, replay (on_event ?pe) [(?x, PaymentOrder (Some ord))]
          (on_event ?pe ?x StartServerPayment paying_world))" and ord: "ord_orderId ord = ''o1''"
    using form.card_payment_starts [of ?x "listen_all ?x new_emitter" new_core 0 "start_data ?pe paying_root None" sample_card
        ?pe "''https://pay/?chn=1&chnCardId=card''" "''t''" paying_world sample_order]
      card_start_data [of ?pe paying_world sample_card] sample_pay_facts
    unfolding new by (metis sample_order_def CreatedOrder.select_convs(2))
  have "pay_run ?pe ?ins (new_pay paying_root) = (listen_all ?x new_emitter, c1, on_root (setPaymentOrder (Some ord))
      (setPaymentScreenService paying_world))"
    using pay_button [of paying_world ?pe new_emitter new_core] s r card_start_data [of ?pe paying_world sample_card]
      sample_pay_facts
    by (simp add: new pay_run_def Let_def del: pay_step.simps(1))
  then have "SuccessEvent ''o1'' (ord_metadata ord) \<in> set (outbox (pw_form (snd (snd
      (pay_step sample_pay ShowInfo (pay_run sample_pay ?ins (new_pay paying_root)))))))"
    using ord sample_pay_facts(1)
    by (simp add: on_world_def showPaymentInfoService_def sendPaymentDataService_def on_root_def setPaymentStage_def
        on_checkout_def setPaymentOrder_def getPaymentOrder_def successCheckout_def send_def)
  then have "SuccessEvent ''o1'' (ord_metadata ord) \<in> set (outbox (pw_form (snd (snd
      (pay_run sample_pay (?ins @ [ShowInfo]) (new_pay paying_root))))))"
    by (simp only: pay_run_def fold_append o_apply fold_simps)
  from success_names_created_order [OF sample_pay_facts(6) this] show ?thesis by simp
qed

lemma late_status_reports_old_order_witness:
  "let old = \<lparr>ord_orderId = ''o0'', ord_checkoutOrderId = ''co'', ord_transactionId = Some ''t'', ord_metadata = None\<rparr>;
       (em', c', w') = pay_run sample_pay [ResetPay, Pay, Process (StatusReply 0 (Inr (sample_status AUTHORIZED)))]
         (new_emitter, new_core\<lparr>jobs := [(0, AwaitStatus)], next_job := 1\<rparr>,
          on_root (setPaymentOrder (Some old)) paying_world)
   in outbox (pw_form w') = [SuccessEvent ''o0'' None]"
proof -
  define old where "old = \<lparr>ord_orderId = ''o0'', ord_checkoutOrderId = ''co'', ord_transactionId = Some ''t'', ord_metadata = None\<rparr>"
  define w where "w = on_root (setPaymentOrder (Some old)) paying_world"
  define c where "c = new_core\<lparr>jobs := [(0, AwaitStatus)], next_job := 1\<rparr>"
  have "getPaymentOrder (pw_root w) = Some old" "getActivePaymentId (pw_root w) \<noteq> NEW_CARD_KEY"
    "getActivePaymentMethod (pw_root w) = Some sample_card" "outbox (pw_form w) = []"
    using sample_pay_facts
    by (simp_all add: w_def on_root_def setPaymentOrder_def on_checkout_def getPaymentOrder_def getActivePaymentId_def
        getActivePaymentMethod_def sel_getPaymentMethods_def)
  moreover have "jobs c = [(0, AwaitStatus)]" "0 < next_job c" by (simp_all add: c_def)
  ultimately show ?thesis
    using late_status_reports_old_order [of sample_pay c 0 w old sample_card "sample_status AUTHORIZED" new_emitter]
      sample_pay_facts(1)
    unfolding old_def [symmetric] w_def [symmetric] c_def [symmetric] Let_def
    by (simp add: sample_status_def old_def split: prod.splits del: pay_step.simps)
qed

end
