(* ===== verification/ServiceResults.thy ===== *)
theory ServiceResults
  imports ServiceInvariants
begin

text \<open>
  What the services of the checkout achieve: the store stays well formed, started services leave
  no exception unhandled and come to rest, a failed reload of a list keeps the old one and queues one error, and
  what choosing, deleting and starting the form do to the store.
\<close>

section \<open>The store, and exceptions\<close>

abbreviation anyhow :: "'q \<Rightarrow> 'r \<Rightarrow> bool" where "anyhow \<equiv> (\<lambda>q r. True)"

definition start_store :: "checkout_config \<Rightarrow> store" where
  "start_store cfg = \<lparr>root = initialState cfg, fetchPickupPointsCounter = 0\<rparr>"

definition sample_env :: env where
  "sample_env = \<lparr>ev_cfg = sample_cfg, ev_lib = std_tinkoff, ev_tz = 0, ev_query = [], ev_origin = ''https://shop'',
     ev_date = (\<lambda>_. None), ev_cos = (\<lambda>x. x), ev_shuffle = (\<lambda>xs. xs), ev_isEmpty_str = (\<lambda>x. x = None),
     ev_isEmpty_num = (\<lambda>x. x = None), ev_pick_undefined = Some [],
     ev_head = (\<lambda>xs. case xs of [] \<Rightarrow> None | x # _ \<Rightarrow> Some x), ev_toArray = (\<lambda>xs. xs)\<rparr>"

lemma anyhow_keeps: "keeps (\<lambda>s :: store. store_ok (root s)) (\<lambda>q r. True) p \<longleftrightarrow> kept p"
  by (simp add: kept_def)

text \<open>C1: Whatever the interface starts, in whatever order the steps of the services come and whatever is
  answered, the store stays well formed: an active onboarding is not a finished one, at most one
  coupon operation is shown and the selected coupon is its result, the selected pickup point is the
  point with the selected id, and a list shown as loaded is there.\<close>

theorem store_stays_ok:
  assumes "\<forall>p \<in># ps. ui_call ev p" "(cstep anyhow)\<^sup>*\<^sup>* (start_store cfg, ps, []) c"
  shows "store_ok (root (fst c))"
proof -
  have "store_ok (root (fst (start_store cfg, ps, [])))"
    by (simp add: start_store_def initial_store_ok)
  moreover have "\<forall>p \<in># fst (snd (start_store cfg, ps, [])). keeps (\<lambda>s :: store. store_ok (root s)) anyhow p"
    using assms(1) ui_call_kept unfolding anyhow_keeps fst_conv snd_conv by (intro ballI) blast
  ultimately show ?thesis
    by (rule reachable_keeps [OF assms(2), where I = "\<lambda>s. store_ok (root s)", THEN conjunct1])
qed

lemma ended_at_rest: "\<forall>p \<in># fst (snd c). \<exists>r. p = End r \<Longrightarrow> \<nexists>c'. cstep ok c c'"
  by (auto elim!: cstep.cases)

lemma safe_reachable_calm:
  assumes "\<forall>p \<in># ps. safe_call ev p" "(cstep anyhow)\<^sup>*\<^sup>* (s, ps, seen) c"
  shows "\<forall>p \<in># fst (snd c). calm p"
  using reachable_calm [OF assms(2)] assms(1) safe_call_calm by auto

lemma rest_is_reached:
  fixes c :: "(store, request, response, effect, caught) config"
  shows "\<exists>d. (cstep anyhow)\<^sup>*\<^sup>* c d \<and> (\<nexists>d'. cstep anyhow d d')"
proof (induction c rule: wf_induct_rule [OF services_come_to_rest [of anyhow]])
  case (1 c)
  show ?case
  proof (cases "\<exists>d. cstep anyhow c d")
    case True
    then obtain b where b: "cstep anyhow c b" by blast
    with 1 obtain d where "(cstep anyhow)\<^sup>*\<^sup>* b d" "\<nexists>d'. cstep anyhow d d'" by blast
    with b show ?thesis by (meson converse_rtranclp_into_rtranclp)
  next
    case False
    then show ?thesis by (intro exI [of _ c]) simp
  qed
qed

lemma no_endless_run:
  fixes path :: "nat \<Rightarrow> (store, request, response, effect, caught) config"
  shows "\<not> (\<forall>n. cstep anyhow (path n) (path (Suc n)))"
  using services_come_to_rest [of anyhow] unfolding wf_iff_no_infinite_down_chain by blast

text \<open>C8: Started by the interface in any number, whatever is answered: at no moment has one of the services of
  the checkout ended with an exception nobody handles; they never run without end, from every moment they
  can come to rest, and whenever they have, every one of them has ended without an exception.  The services
  of a payment are there with what they do to this store.  Not among them are the coupon check, the
  choice of a newly bound card, the map's search and the watcher of the shop's points.\<close>

theorem safe_services_end_quietly:
  assumes "\<forall>p \<in># ps. safe_call ev p" "(cstep anyhow)\<^sup>*\<^sup>* (s, ps, seen) c"
  shows "End (Some e) \<notin># fst (snd c)
    \<and> (path 0 = c \<longrightarrow> \<not> (\<forall>n. cstep anyhow (path n) (path (Suc n))))
    \<and> (\<exists>d. (cstep anyhow)\<^sup>*\<^sup>* c d \<and> (\<nexists>d'. cstep anyhow d d'))
    \<and> (\<forall>d. (cstep anyhow)\<^sup>*\<^sup>* c d \<and> (\<nexists>d'. cstep anyhow d d') \<longrightarrow> (\<forall>p \<in># fst (snd d). p = End None))"
proof (intro conjI)
  show "End (Some e) \<notin># fst (snd c)" using safe_reachable_calm [OF assms] by auto
  show "path 0 = c \<longrightarrow> \<not> (\<forall>n. cstep anyhow (path n) (path (Suc n)))" using no_endless_run by blast
  show "\<exists>d. (cstep anyhow)\<^sup>*\<^sup>* c d \<and> (\<nexists>d'. cstep anyhow d d')" by (rule rest_is_reached)
  show "\<forall>d. (cstep anyhow)\<^sup>*\<^sup>* c d \<and> (\<nexists>d'. cstep anyhow d d') \<longrightarrow> (\<forall>p \<in># fst (snd d). p = End None)"
  proof (intro allI impI ballI)
    fix d p assume d: "(cstep anyhow)\<^sup>*\<^sup>* c d \<and> (\<nexists>d'. cstep anyhow d d')" and p: "p \<in># fst (snd d)"
    have "(cstep anyhow)\<^sup>*\<^sup>* (s, ps, seen) d" using rtranclp_trans [OF assms(2)] d by blast
    from safe_reachable_calm [OF assms(1) this] p have "calm p" by blast
    moreover obtain r where "p = End r" using at_rest_all_ended [of anyhow d p] d p by auto
    ultimately show "p = End None" by auto
  qed
qed

section \<open>The coupon's ping\<close>

definition coupon_answers :: "caught \<Rightarrow> caught \<Rightarrow> request \<Rightarrow> caught + response" where
  "coupon_answers e e' q = (case q of RqCoupon c \<Rightarrow> Inl e | _ \<Rightarrow> Inl e')"

text \<open>If the check of a coupon fails without a text for the buyer, and the shop's page does not answer
  the ping, the error of the ping is handled by nobody, although the field is marked as failed.\<close>

theorem failed_ping_stays_unhandled:
  assumes "js_trim code \<noteq> []" "\<not> cg_is_string e"
  shows "\<exists>s' n. (cstep (\<lambda>q a. a = coupon_answers e e' q))\<^sup>*\<^sup>*
      (s, {#validateCoupon ev code nxt#}, [])
      (s', {#End (Some e'), End None#} + replicate_mset n (End None), [])
    \<and> getCouponStatus (root s') = Error"
proof -
  let ?orc = "coupon_answers e e'"
  let ?s1 = "s\<lparr>root := setCoupon a_pending (root s)\<rparr>"
  define ping :: svc where
    "ping = Request RqPing (\<lambda>r. await (mut (setCoupon (a_error ''coupon_check_failed'')))
              (case r of Inl e' \<Rightarrow> throwing e' | Inr _ \<Rightarrow> fin))"
  have 1: "run ?orc (validateCoupon ev code nxt) s = (?s1, [ping], [], None)"
    using assms by (simp add: validateCoupon_def mut_def run_simps ask_for_def coupon_answers_def ping_def)
  have 2: "run ?orc ping ?s1 = (?s1\<lparr>root := setCoupon (a_error ''coupon_check_failed'') (root ?s1)\<rparr>, [], [], Some e')"
    by (simp add: ping_def mut_def run_simps coupon_answers_def)
  from run_reachable [OF 1, of "\<lambda>q a. a = ?orc q" "{#}" "[]"] obtain n where
    a: "(cstep (\<lambda>q a. a = ?orc q))\<^sup>*\<^sup>* (s, {#validateCoupon ev code nxt#}, [])
      (?s1, add_mset (End None) (add_mset ping (replicate_mset n (End None))), [])" by auto
  from run_reachable [OF 2, of "\<lambda>q a. a = ?orc q" "add_mset (End None) (replicate_mset n (End None))" "[]"] obtain n' where
    b: "(cstep (\<lambda>q a. a = ?orc q))\<^sup>*\<^sup>* (?s1, add_mset ping (add_mset (End None) (replicate_mset n (End None))), [])
      (?s1\<lparr>root := setCoupon (a_error ''coupon_check_failed'') (root ?s1)\<rparr>,
       add_mset (End (Some e')) (replicate_mset n' (End None) + add_mset (End None) (replicate_mset n (End None))), [])"
    by auto
  from rtranclp_trans [OF a] b have "(cstep (\<lambda>q a. a = ?orc q))\<^sup>*\<^sup>* (s, {#validateCoupon ev code nxt#}, [])
      (?s1\<lparr>root := setCoupon (a_error ''coupon_check_failed'') (root ?s1)\<rparr>,
       {#End (Some e'), End None#} + replicate_mset (n' + n) (End None), [])"
    by (simp add: add_mset_commute replicate_mset_add ac_simps)
  moreover have "getCouponStatus (root (?s1\<lparr>root := setCoupon (a_error ''coupon_check_failed'') (root ?s1)\<rparr>)) = Error"
    by (simp add: getCouponStatus_def setCoupon_def on_coupon_def Let_def async_tests)
  ultimately show ?thesis by blast
qed

lemma coupon_witness_trim: "js_trim ''A'' \<noteq> []"
  by (simp add: js_trim_def is_js_space_def)

lemma failed_ping_stays_unhandled_witness:
  "\<exists>s' n. (cstep (\<lambda>q a. a = coupon_answers type_error type_error q))\<^sup>*\<^sup>*
      (start_store sample_cfg, {#validateCoupon sample_env ''A'' None#}, [])
      (s', {#End (Some type_error), End None#} + replicate_mset n (End None), [])
    \<and> getCouponStatus (root s') = Error"
  by (rule failed_ping_stays_unhandled) (simp_all add: type_error_def coupon_witness_trim)

lemma store_stays_ok_witness: "store_ok (setCoupon a_pending (initialState sample_cfg))"
proof -
  let ?p = "validateCoupon sample_env ''A'' (going None)"
  let ?f = "\<lambda>s :: store. s\<lparr>root := setCoupon a_pending (root s)\<rparr>"
  obtain q where q: "?p = Update ?f q"
    by (simp add: validateCoupon_def mut_def set_state_def await_def)
  have "cstep anyhow (start_store sample_cfg, {#?p#}, []) (?f (start_store sample_cfg), {#q#}, [])"
    unfolding q using cstep.intros [OF update, of anyhow _ ?f q "{#}" "[]"] by simp
  moreover have "\<forall>p \<in># {#?p#}. ui_call sample_env p"
    by (auto simp: ui_call_def intro: risky_call.intros)
  ultimately have "store_ok (root (fst (?f (start_store sample_cfg), {#q#}, [] :: effect list)))"
    by (intro store_stays_ok [of "{#?p#}" sample_env sample_cfg]) (simp_all add: r_into_rtranclp)
  then show ?thesis by (simp add: start_store_def)
qed

lemma safe_services_end_quietly_witness:
  "\<exists>c. (cstep anyhow)\<^sup>*\<^sup>* (start_store sample_cfg,
        {#selectShippingType ShPickup (going None), mut (setPaymentStage StPayment)#}, []) c
    \<and> (\<nexists>d. cstep anyhow c d) \<and> (\<forall>p \<in># fst (snd c). p = End None)"
proof -
  let ?p = "selectShippingType ShPickup (going None)" and ?q = "mut (setPaymentStage StPayment)"
  have safe: "\<forall>p \<in># {#?p, ?q#}. safe_call sample_env p"
    by (auto intro: safe_call.intros payment_call.intros)
  obtain c where "(cstep anyhow)\<^sup>*\<^sup>* (start_store sample_cfg, {#?p, ?q#}, []) c" "\<nexists>d. cstep anyhow c d"
    using safe_services_end_quietly [OF safe rtranclp.rtrancl_refl] by blast
  with safe_services_end_quietly [OF safe rtranclp.rtrancl_refl] show ?thesis by blast
qed

section \<open>Reloading a list\<close>

text \<open>
  What the three lists of the user have in common: their reload ends without an exception and starts
  nothing else; it ends loaded or failed; failed, it keeps the list and queues one error whose button
  reloads the page and puts the list back to its initial status.
\<close>

definition errors_of :: "store \<Rightarrow> AppError list" where
  "errors_of s = app_error (rt_app (root s))"

locale list_loader =
  fixes refresh :: svc and data :: "RootState \<Rightarrow> 'a list adata" and sl :: slot
  assumes alone: "run orc refresh s = (s', sp, xs, r) \<Longrightarrow> r = None \<and> sp = [] \<and> xs = []"
    and settled: "run orc refresh s = (s', sp, xs, r) \<Longrightarrow> status (data (root s')) = Success \<or> status (data (root s')) = Error"
    and loaded_list: "run orc refresh s = (s', sp, xs, r) \<Longrightarrow> status (data (root s')) = Success \<Longrightarrow>
      result (data (root s')) \<noteq> None \<and> errors_of s' = errors_of s"
    and failed: "run orc refresh s = (s', sp, xs, r) \<Longrightarrow> status (data (root s')) = Error \<Longrightarrow>
      result (data (root s')) = result (data (root s))
      \<and> (\<exists>e. errors_of s' = errors_of s @ [e] \<and> ae_action e = Some (RefreshThen (Some (ResetSlot sl))))"
    and reset: "status (data (reset_slot sl t)) = Initial \<and> result (data (reset_slot sl t)) = result (data t)"

text \<open>Several reloads, one after the other, each with its own answers.\<close>

fun runs :: "(request \<Rightarrow> caught + response) list \<Rightarrow> svc \<Rightarrow> store \<Rightarrow> store" where
  "runs [] p s = s"
| "runs (orc # orcs) p s = runs orcs p (fst (run orc p s))"

fun failures :: "(RootState \<Rightarrow> 'a adata) \<Rightarrow> (request \<Rightarrow> caught + response) list \<Rightarrow> svc \<Rightarrow> store \<Rightarrow> nat" where
  "failures data [] p s = 0"
| "failures data (orc # orcs) p s =
     (let s' = fst (run orc p s)
      in (if status (data (root s')) = Error then 1 else 0) + failures data orcs p s')"

context list_loader begin

lemma one_reload:
  "let s' = fst (run orc refresh s) in
   (result (data (root s)) \<noteq> None \<longrightarrow> result (data (root s')) \<noteq> None)
   \<and> length (errors_of s') = length (errors_of s) + (if status (data (root s')) = Error then 1 else 0)"
proof -
  obtain s' sp xs r where run: "run orc refresh s = (s', sp, xs, r)" by (metis prod_cases4)
  from settled [OF run] show ?thesis
    using loaded_list [OF run] failed [OF run] by (auto simp: run)
qed

lemma reloads:
  "(result (data (root s)) \<noteq> None \<longrightarrow> result (data (root (runs orcs refresh s))) \<noteq> None)
   \<and> length (errors_of (runs orcs refresh s)) = length (errors_of s) + failures data orcs refresh s"
proof (induction orcs arbitrary: s)
  case (Cons orc orcs)
  show ?case using one_reload [of orc s] Cons.IH [of "fst (run orc refresh s)"] by (auto simp: Let_def)
qed simp

text \<open>The button of the queued error leads back to the initial status; the list stays.\<close>

lemma button_resets:
  assumes "run orc refresh s = (s', sp, xs, r)" "status (data (root s')) = Error"
  shows "\<exists>a. ae_action (last (errors_of s')) = Some a
    \<and> status (data (root (fst (run orc' (perform ev a) s')))) = Initial
    \<and> result (data (root (fst (run orc' (perform ev a) s')))) = result (data (root s))"
proof -
  obtain e where e: "errors_of s' = errors_of s @ [e]" "ae_action e = Some (RefreshThen (Some (ResetSlot sl)))"
    "result (data (root s')) = result (data (root s))"
    using failed [OF assms] by blast
  show ?thesis
    using e reset by (auto simp: mut_def and_on_def)
qed

end

lemma in_order_simps: "in_order [] = fin" "in_order (p # ps) = await p (in_order ps)"
  by (simp_all add: in_order_def)

lemma run_mut [simp]: "run orc (mut f) s = (s\<lparr>root := f (root s)\<rparr>, [], [], None)"
  by (simp add: mut_def)

lemma run_look [simp]: "run orc (look g) s = run orc (g (root s)) s"
  by (simp add: look_def)

lemma run_ask_for [simp]:
  "run orc (ask_for q get k) s =
     (case orc q of Inl e \<Rightarrow> (s, [], [], Some e)
      | Inr a \<Rightarrow> (case get a of None \<Rightarrow> (s, [], [], Some type_error) | Some x \<Rightarrow> run orc (k x) s))"
  by (simp add: ask_for_def split: sum.split option.split)

lemmas run_services = run_simps in_order_simps

interpretation address_loader: list_loader "refreshAddressList ev oi" "\<lambda>s. ast_list (rt_addresses s)" SlotAddressList
  by unfold_locales
    (auto simp: refreshAddressList_def run_services errors_of_def setAddressList_def setErrorScreenWithRefresh_def
      setErrorScreen_def on_addresses_def on_app_def an_error_def async_defs split: sum.splits option.splits)

interpretation contact_loader: list_loader refreshContactList "\<lambda>s. cst_list (rt_contacts s)" SlotContactList
  by unfold_locales
    (auto simp: refreshContactList_def run_services errors_of_def setContactList_def setErrorScreenWithRefresh_def Let_def
      setErrorScreen_def on_contacts_def on_app_def an_error_def async_defs split: sum.splits option.splits response.splits if_splits)

interpretation method_loader: list_loader "refreshPaymentMethods ev cardId" "\<lambda>s. mst_list (rt_paymentMethods s)" SlotPaymentMethods
  by unfold_locales
    (auto simp: refreshPaymentMethods_def run_services errors_of_def setPaymentMethods_def setErrorScreenWithRefresh_def Let_def
      setErrorScreen_def on_methods_def on_app_def an_error_def async_defs split: sum.splits option.splits)

text \<open>C28: A reload never loses what is there. After any number of reloads of the addresses, contacts and
  cards, whatever each is answered, a list that was there is followed by a list, and the queue of
  errors has grown by exactly the number of reloads that failed.\<close>

theorem reloads_keep_lists:
  "(result (ast_list (rt_addresses (root s))) \<noteq> None \<longrightarrow>
      result (ast_list (rt_addresses (root (runs orcs (refreshAddressList ev oi) s)))) \<noteq> None)
   \<and> (result (cst_list (rt_contacts (root s))) \<noteq> None \<longrightarrow>
      result (cst_list (rt_contacts (root (runs orcs refreshContactList s)))) \<noteq> None)
   \<and> (result (mst_list (rt_paymentMethods (root s))) \<noteq> None \<longrightarrow>
      result (mst_list (rt_paymentMethods (root (runs orcs (refreshPaymentMethods ev cardId) s)))) \<noteq> None)
   \<and> length (errors_of (runs orcs (refreshAddressList ev oi) s))
      = length (errors_of s) + failures (\<lambda>s. ast_list (rt_addresses s)) orcs (refreshAddressList ev oi) s
   \<and> length (errors_of (runs orcs refreshContactList s))
      = length (errors_of s) + failures (\<lambda>s. cst_list (rt_contacts s)) orcs refreshContactList s
   \<and> length (errors_of (runs orcs (refreshPaymentMethods ev cardId) s))
      = length (errors_of s) + failures (\<lambda>s. mst_list (rt_paymentMethods s)) orcs (refreshPaymentMethods ev cardId) s"
  using address_loader.reloads contact_loader.reloads method_loader.reloads by blast

section \<open>Contacts\<close>

text \<open>The only contact is never deleted: nothing is sent, nothing follows, the list stays, and the buyer is
  told why.\<close>

theorem last_contact_is_kept:
  assumes "length (getContactList (root s)) = 1"
  shows "\<exists>s'. run orc (deleteContact contactId nxt) s = (s', [], [], None)
    \<and> getContactList (root s') = getContactList (root s) \<and> getDeleteContactStatus (root s') = Error
    \<and> (\<exists>e. errors_of s' = errors_of s @ [e] \<and> ae_message e = Some TxtLastContact)"
  using assms
  by (simp add: deleteContact_def run_services errors_of_def getContactList_def getDeleteContactStatus_def
      setDeleteContact_def setErrorScreen_def on_contacts_def on_app_def)

section \<open>The start of the form\<close>


lemma last_contact_is_kept_witness:
  "getDeleteContactStatus (root (fst (run (\<lambda>q. Inr RsDone) (deleteContact ''c'' fin)
     \<lparr>root = ready_state, fetchPickupPointsCounter = 0\<rparr>))) = Error"
  using last_contact_is_kept [of "\<lparr>root = ready_state, fetchPickupPointsCounter = 0\<rparr>" "\<lambda>q. Inr RsDone" "''c''" fin]
  by (auto simp: getContactList_def ready_lists or_else_def)

lemma reloads_keep_lists_witness:
  "result (cst_list (rt_contacts (root (runs [\<lambda>q. Inl type_error] refreshContactList
     \<lparr>root = ready_state, fetchPickupPointsCounter = 0\<rparr>)))) \<noteq> None"
  using reloads_keep_lists [of "\<lparr>root = ready_state, fetchPickupPointsCounter = 0\<rparr>" "[\<lambda>q. Inl type_error]" sample_env None "[]"]
  by (simp add: ready_lists)








section \<open>The first payment method\<close>

text \<open>C31: The card the form starts with may be used: if it is one of the user's cards and is disabled, then
  all of them are, and there are too many to add another.\<close>

theorem initial_method_usable:
  assumes "distinct (map pm_id (sel_getPaymentMethods t))" "m \<in> set (sel_getPaymentMethods t)"
    and "pm_id m = getInitialPaymentMethodId L t sheet cardId" "pm_disabled m"
    and "pm_id m \<noteq> NEW_CARD_KEY" "\<not> (hasCashPaymentMethod L sheet \<and> cardId = CASH_KEY)"
  shows "(\<forall>m' \<in> set (sel_getPaymentMethods t). pm_disabled m') \<and> MAX_BOUND_CARDS \<le> length (sel_getPaymentMethods t)"
proof -
  let ?ms = "sel_getPaymentMethods t"
  have same: "m' = m" if "m' \<in> set ?ms" "pm_id m' = pm_id m" for m'
    using assms(1,2) that by (metis distinct_map inj_on_def)
  let ?saved = "List.find (\<lambda>m. pm_id m = cardId) ?ms" and ?first = "List.find (\<lambda>m. \<not> pm_disabled m) ?ms"
  have saved: "\<not> (?saved \<noteq> None \<and> \<not> pm_disabled (the ?saved))"
  proof
    assume a: "?saved \<noteq> None \<and> \<not> pm_disabled (the ?saved)"
    then obtain x where x: "?saved = Some x" by blast
    then have "x \<in> set ?ms" by (metis find_Some_iff nth_mem)
    moreover have "pm_id m = pm_id x" using assms(3,6) a x by (simp add: getInitialPaymentMethodId_def Let_def)
    ultimately show False using same a x assms(4) by auto
  qed
  have first: "?first = None"
  proof (rule ccontr)
    assume "?first \<noteq> None"
    then obtain x where x: "?first = Some x" by blast
    then have "x \<in> set ?ms" "\<not> pm_disabled x" by (metis find_Some_iff nth_mem)+
    moreover have "pm_id m = pm_id x"
      using assms(3,6) saved x by (simp only: getInitialPaymentMethodId_def Let_def if_False option.sel) simp
    ultimately show False using same assms(4) by auto
  qed
  have "MAX_BOUND_CARDS \<le> length ?ms"
  proof (rule ccontr)
    assume "\<not> MAX_BOUND_CARDS \<le> length ?ms"
    then have "pm_id m = NEW_CARD_KEY"
      using assms(3,6) saved first by (simp only: getInitialPaymentMethodId_def Let_def if_False) simp
    then show False using assms(5) by simp
  qed
  moreover have "\<forall>m' \<in> set ?ms. pm_disabled m'" using first by (simp add: find_None_iff)
  ultimately show ?thesis by blast
qed

definition bound_card :: "string \<Rightarrow> bool \<Rightarrow> CardPaymentMethod" where
  "bound_card i disabled = \<lparr>pm_type = PmtCard, pm_key = ''CARD'' @ i, pm_disabled = disabled, pm_id = i,
     pm_uid = ''1'', pm_lastDigits = ''1234'', pm_system = ''Visa'', pm_issuer = ''VTB''\<rparr>"

definition five_disabled :: RootState where
  "five_disabled = setPaymentMethods (a_success (map (\<lambda>i. bound_card i True) [''a'', ''b'', ''c'', ''d'', ''e'']))
     (initialState sample_cfg)"

lemma initial_method_usable_witness: "MAX_BOUND_CARDS \<le> length (sel_getPaymentMethods five_disabled)"
proof -
  have ms: "sel_getPaymentMethods five_disabled = map (\<lambda>i. bound_card i True) [''a'', ''b'', ''c'', ''d'', ''e'']"
    by (simp add: five_disabled_def sel_getPaymentMethods_def setPaymentMethods_def on_methods_def or_else_def)
  have "getInitialPaymentMethodId std_tinkoff five_disabled empty_sheet [] = ''a''"
    by (simp add: getInitialPaymentMethodId_def ms Let_def bound_card_def MAX_BOUND_CARDS_def CASH_KEY_def)
  then show ?thesis
    using initial_method_usable [of five_disabled "bound_card ''a'' True" std_tinkoff empty_sheet "[]"]
    by (simp add: ms bound_card_def NEW_CARD_KEY_def CASH_KEY_def)
qed

section \<open>Editing an address into another\<close>

lemma run_saveUserState:
  "\<exists>f. run orc (saveUserState u) s = (s\<lparr>root := on_app f (root s)\<rparr>, [], [], None) \<and> (\<forall>a. app_error (f a) = app_error a)"
proof (cases "\<exists>v. orc (RqUpdateSettings u) = Inr (RsSettings v)")
  case True
  define obd where "obd t st = (if truthy t then setObStepOnboarded st else (\<lambda>s. s))"
    for t :: "string option" and st
  have obd: "\<exists>f. obd t st = on_app f \<and> (\<forall>a. app_error (f a) = app_error a)" for t st
  proof (cases "truthy t")
    case True
    then show ?thesis by (auto simp: obd_def setObStepOnboarded_def Let_def)
  next
    case False
    then show ?thesis by (intro exI [of _ "\<lambda>a. a"]) (simp add: obd_def on_app_def fun_eq_iff)
  qed
  obtain f where f: "obd (ut_addressId u) ObdAddress = on_app f" "\<forall>a. app_error (f a) = app_error a" using obd by blast
  obtain g where g: "obd (ut_contactId u) ObdContact = on_app g" "\<forall>a. app_error (g a) = app_error a" using obd by blast
  have "run orc (saveUserState u) s
      = (s\<lparr>root := obd (ut_contactId u) ObdContact (obd (ut_addressId u) ObdAddress (root s))\<rparr>, [], [], None)"
    using True by (auto simp: saveUserState_def run_services obd_def)
  moreover have "on_app g (on_app f (root s)) = on_app (\<lambda>a. g (f a)) (root s)" by (simp add: on_app_def)
  ultimately show ?thesis using f g by (intro exI [of _ "\<lambda>a. g (f a)"]) simp
next
  case False
  then have "run orc (saveUserState u) s = (s, [], [], None)"
    by (cases "orc (RqUpdateSettings u)")
      (auto simp: saveUserState_def run_services split: option.split elim: settings_of.elims)
  then show ?thesis by (intro exI [of _ "\<lambda>a. a"]) (simp add: on_app_def)
qed

text \<open>An address edited into one the user already has is to be deleted, and the other one selected.  When
  the deletion fails, the form still ends as saved and the other address is selected, while the edited
  address stays as it was and an error is queued.\<close>

theorem edit_into_duplicate_hides_failed_delete:
  assumes "getAddressById (root s) i = Some a" "\<not> addr_isEqual (ev_lib ev) a (geocoded f g)"
    and "List.find (\<lambda>item. addr_isEqual (ev_lib ev) item (geocoded f g)) (getAddressList (root s)) = Some same"
    and "orc (RqGeocode (fd_address f)) = Inr (RsGeocode g p)" "orc (RqDeleteAddress i) = Inl e"
  shows "\<exists>s' sp. run orc (updateAddress ev i f fin) s = (s', sp, [], None)
    \<and> getEditAddressStatus (root s') = Success \<and> getDeleteAddressStatus (root s') = Error
    \<and> getAddressById (root s') i = Some a \<and> ast_selectedId (rt_addresses (root s')) = ad_id same
    \<and> length (errors_of s') = Suc (length (errors_of s))"
proof -
  have keep: "getAddressById (setEditAddress d t) i = getAddressById t i"
    "getAddressList (setEditAddress d t) = getAddressList t" for d t
    by (simp_all add: getAddressById_def getAddressList_def setEditAddress_def on_addresses_def)
  obtain h where h: "\<And>s. run orc (saveUserState (no_settings\<lparr>ut_addressId := Some (ad_id same)\<rparr>)) s
      = (s\<lparr>root := on_app (h s) (root s)\<rparr>, [], [], None)" "\<And>s a. app_error (h s a) = app_error a"
    using run_saveUserState [of orc "no_settings\<lparr>ut_addressId := Some (ad_id same)\<rparr>"] by metis
  show ?thesis
    using assms
    by (simp add: updateAddress_def deleteAddress_def selectAddress_def selectShippingType_def run_services Let_def
        keep maybe_isEqual_def and_then_def h errors_of_def getEditAddressStatus_def getDeleteAddressStatus_def
        getAddressById_def getAddressList_def setEditAddress_def setDeleteAddress_def resetEditAddress_def
        addr_setSelectedId_def setSelectedShippingType_def setErrorScreenWithClose_def setErrorScreen_def slice_defs)
qed

definition with_room :: "string \<Rightarrow> string \<Rightarrow> Address" where
  "with_room i room = (sample_address i ''pay'')\<lparr>ad_room := room\<rparr>"

definition form_of_address :: "Address \<Rightarrow> AddressFormData" where
  "form_of_address b =
     \<lparr>fd_address = [], fd_room = ad_room b, fd_entrance = ad_entrance b, fd_floor = ad_floor b,
      fd_intercom = ad_intercom b, fd_comment = ad_comment b, fd_region = Some (ad_region b),
      fd_country = Some (ad_country b), fd_locality = Some (ad_locality b), fd_street = Some (ad_street b),
      fd_building = Some (ad_building b)\<rparr>"

definition no_geocode :: Geocode where
  "no_geocode = \<lparr>gc_country = None, gc_locality = None, gc_street = None, gc_building = None\<rparr>"

definition two_addresses :: store where
  "two_addresses = \<lparr>root = setAddressList (a_success [with_room ''a'' ''1'', with_room ''b'' ''2'']) (initialState sample_cfg),
     fetchPickupPointsCounter = 0\<rparr>"

definition failing_delete :: "request \<Rightarrow> caught + response" where
  "failing_delete q = (case q of RqGeocode t \<Rightarrow> Inr (RsGeocode no_geocode zero_point) | _ \<Rightarrow> Inl type_error)"

lemma form_of_address_equal:
  "addr_isEqual std_tinkoff x (geocoded (form_of_address b) no_geocode) \<longleftrightarrow> getAddressForCompare x = getAddressForCompare b"
  by (simp add: addr_isEqual_def tinkoff_simps [OF std_tinkoff_ok] form_for_compare_def geocoded_def no_geocode_def
      form_of_address_def getAddressForCompare_def)

lemma edit_into_duplicate_hides_failed_delete_witness:
  "\<exists>s' sp. run failing_delete (updateAddress sample_env ''a'' (form_of_address (with_room ''b'' ''2'')) fin) two_addresses
     = (s', sp, [], None) \<and> getEditAddressStatus (root s') = Success \<and> getDeleteAddressStatus (root s') = Error"
proof -
  have lib: "ev_lib sample_env = std_tinkoff" by (simp add: sample_env_def)
  have l: "getAddressList (root two_addresses) = [with_room ''a'' ''1'', with_room ''b'' ''2'']"
    by (simp add: two_addresses_def getAddressList_def setAddressList_def on_addresses_def or_else_def)
  have ids: "ad_id (with_room i r) = i" "getAddressForCompare (with_room i r) = getAddressForCompare (with_room j r') \<longleftrightarrow> r = r'"
    for i j r r' by (simp_all add: with_room_def sample_address_def parseAddress_def getAddressForCompare_def)
  show ?thesis
    using edit_into_duplicate_hides_failed_delete [of two_addresses "''a''" "with_room ''a'' ''1''" sample_env
        "form_of_address (with_room ''b'' ''2'')" no_geocode "with_room ''b'' ''2''" failing_delete zero_point type_error]
    by (auto simp: getAddressById_def l ids lib form_of_address_equal failing_delete_def)
qed

section \<open>Two choices of an address\<close>

lemma keeps_store:
  "(\<And>s. J s \<Longrightarrow> J (s\<lparr>root := f (root s)\<rparr>)) \<Longrightarrow> keeps J ok (mut f)"
  "(\<And>s. keeps J ok (g s)) \<Longrightarrow> keeps J ok (look g)"
  "(\<And>x. keeps J ok (k x)) \<Longrightarrow> keeps J ok (ask_for q get k)"
  "keeps J ok (in_order [])" "keeps J ok p \<Longrightarrow> keeps J ok (in_order ps) \<Longrightarrow> keeps J ok (in_order (p # ps))"
  "keeps J ok (and_then None)" "keeps J ok p \<Longrightarrow> keeps J ok p' \<Longrightarrow> keeps J ok (Spawn p p')"
  by (auto simp: mut_def look_def ask_for_def in_order_def and_then_def split: option.split)

text \<open>Services besides the ones looked at: they keep what matters.\<close>

lemma pool_run:
  assumes "run orc p s = (s', sp, xs, r)" "\<And>q. ok q (orc q)" "\<forall>q \<in># rest. keeps J ok q"
  shows "\<exists>rest'. (cstep ok)\<^sup>*\<^sup>* (s, add_mset p (N + rest), seen) (s', mset sp + (N + rest'), seen @ xs)
    \<and> (\<forall>q \<in># rest'. keeps J ok q)"
proof -
  obtain n where n: "(cstep ok)\<^sup>*\<^sup>* (s, add_mset p (N + rest), seen)
      (s', add_mset (End r) (mset sp + replicate_mset n (End None) + (N + rest)), seen @ xs)"
    using run_reachable [where ok = ok, OF assms(1,2)] by blast
  show ?thesis
    using n assms(3) by (intro exI [of _ "add_mset (End r) (replicate_mset n (End None) + rest)"])
      (auto simp: ac_simps split: if_splits)
qed

text \<open>What is left of a reload once it has read the address.\<close>

definition reload_for :: "env \<Rightarrow> Address \<Rightarrow> svc" where
  "reload_for ev a =
     await (mut (setShippingOptionsList a_pending))
       (try_catching (ask_for (RqShippingAddress a) options_of (\<lambda>shippingOptions. in_order
           [mut (setShippingOptionsList (a_success shippingOptions)),
            mut (setDisableShippingOptions (length shippingOptions = 0)),
            look (\<lambda>s. case getOptionIdToSelect (ev_tz ev) (getSelectedShippingOptionId s) shippingOptions of
               None \<Rightarrow> throwing type_error
             | Some nextOptionId \<Rightarrow>
                 if nextOptionId = [] then Spawn (resetShippingOption ev None) fin
                 else Spawn (selectShippingOption ev nextOptionId None) fin)]))
         (\<lambda>e. Spawn (setErrorWithPingOpener
             ((an_error ''error_refresh_shipping_options_list'' TxtOptionsNotLoaded (Some ReloadShipping))
              \<lparr>ae_actionText := Some TxtRepeat\<rparr>)
             (Some (mut (setShippingOptionsList (a_error ''error_refresh''))))) fin))"

lemma refresh_reload: "refreshShippingOptionsList ev =
    Look (\<lambda>s. case getSelectedAddress (root s) of None \<Rightarrow> fin | Some a \<Rightarrow> reload_for ev a)"
  unfolding refreshShippingOptionsList_def look_def reload_for_def [abs_def] by (rule refl)

definition shown_for :: "string \<Rightarrow> ShippingOption list \<Rightarrow> store \<Rightarrow> bool" where
  "shown_for i opts s =
     (ast_selectedId (rt_addresses (root s)) = i \<and> getShippingOptionsList (root s) = opts)"

lemma selection_keeps_list:
  "keeps (shown_for i opts) ok (resetShippingOption ev None)"
  "keeps (shown_for i opts) ok (selectShippingOption ev j None)"
  unfolding resetShippingOption_def selectShippingOption_def updatePaymentInfo_def loadCashback_def loadSplitPlan_def
    setErrorWithPingOpener_def and_then_def Let_def
  by (auto simp: shown_for_def getShippingOptionsList_def mutator_defs slice_defs
      intro!: keeps_store keeps_await keeps_try split: option.split)

lemma undated_selects:
  "\<forall>opt \<in> set opts. \<not> hasDate opt \<Longrightarrow> \<exists>i. getOptionIdToSelect tz sel opts = Some i"
  by (auto simp: getOptionIdToSelect_def list_ex_iff)

lemma run_reload:
  assumes "orc (RqShippingAddress a) = Inr (RsOptions opts)" "\<forall>opt \<in> set opts. \<not> hasDate opt"
  shows "\<exists>s' p. run orc (reload_for ev a) s = (s', [p], [], None)
    \<and> getShippingOptionsList (root s') = opts
    \<and> rt_addresses (root s') = rt_addresses (root s) \<and> (\<forall>i opts ok. keeps (shown_for i opts) ok p)"
proof -
  define t where "t = setDisableShippingOptions (length opts = 0) (setShippingOptionsList (a_success opts)
    (setShippingOptionsList a_pending (root s)))"
  obtain j where j: "getOptionIdToSelect (ev_tz ev) (getSelectedShippingOptionId t) opts = Some j"
    using undated_selects [OF assms(2)] by blast
  have "run orc (reload_for ev a) s = (s\<lparr>root := t\<rparr>,
      [if j = [] then resetShippingOption ev None else selectShippingOption ev j None], [], None)"
    using assms(1) j by (simp add: reload_for_def run_services t_def)
  then show ?thesis
    using selection_keeps_list
    by (auto simp: t_def getShippingOptionsList_def setDisableShippingOptions_def setShippingOptionsList_def
        on_direct_def or_else_def)
qed

lemma run_selectAddress:
  "run orc (selectAddress ev i None True) s =
     (s\<lparr>root := setSelectedShippingType ShDirect (addr_setSelectedId i (root s))\<rparr>,
      [refreshShippingOptionsList ev], [], None)"
  by (simp add: selectAddress_def selectShippingType_def run_services Let_def and_then_def)

text \<open>C25: Two addresses chosen one after the other: the options of the first may arrive last.  Then the second
  address is selected and the options shown are those of the first, and so they stay, whatever the
  services still running do.\<close>

theorem stale_delivery_options:
  assumes "getAddressById (root s) (ad_id a) = Some a" "getAddressById (root s) (ad_id b) = Some b"
    and "orc (RqShippingAddress a) = Inr (RsOptions optsA)" "orc (RqShippingAddress b) = Inr (RsOptions optsB)"
    and "\<forall>opt \<in> set optsA \<union> set optsB. \<not> hasDate opt"
  shows "\<exists>c. (cstep (\<lambda>q r. r = orc q))\<^sup>*\<^sup>*
      (s, {#selectAddress ev (ad_id a) None True, selectAddress ev (ad_id b) None True#}, []) c
    \<and> (\<forall>c'. (cstep (\<lambda>q r. r = orc q))\<^sup>*\<^sup>* c c' \<longrightarrow>
         ast_selectedId (rt_addresses (root (fst c'))) = ad_id b \<and> getShippingOptionsList (root (fst c')) = optsA)"
proof -
  let ?ok = "\<lambda>q r. r = orc q" and ?J = "shown_for (ad_id b) optsA"
  let ?sel = "\<lambda>x. selectAddress ev (ad_id x) None True" and ?load = "refreshShippingOptionsList ev"
  let ?at = "\<lambda>x t. setSelectedShippingType ShDirect (addr_setSelectedId (ad_id x) t)"
  have selected: "getSelectedAddress (?at x t) = getAddressById t (ad_id x)"
    "getAddressById (?at x t) y = getAddressById t y" for x t y
    by (simp_all add: getSelectedAddress_def getAddressById_def getAddressList_def setSelectedShippingType_def
        addr_setSelectedId_def on_addresses_def)
  define s1 where "s1 = s\<lparr>root := ?at a (root s)\<rparr>"
  define s2 where "s2 = s1\<lparr>root := ?at b (root s1)\<rparr>"
  obtain r1 where 1: "(cstep ?ok)\<^sup>*\<^sup>* (s, add_mset (?sel a) ({#?sel b#} + {#}), [])
      (s1, mset [?load] + ({#?sel b#} + r1), [])" "\<forall>q \<in># r1. keeps ?J ?ok q"
    using pool_run [OF run_selectAddress [of orc ev "ad_id a" s], of ?ok "{#}" ?J "{#?sel b#}" "[]"]
    by (auto simp: s1_def)
  have "pstep ?ok s1 ?load s1 (reload_for ev a) [] []"
    using look [of ?ok s1 "\<lambda>s. case getSelectedAddress (root s) of None \<Rightarrow> fin | Some a \<Rightarrow> reload_for ev a"]
    by (simp add: refresh_reload s1_def selected assms(1))
  from cstep.intros [OF this, of "{#?sel b#} + r1" "[]"]
  have 2: "(cstep ?ok)\<^sup>*\<^sup>* (s1, mset [?load] + ({#?sel b#} + r1), [])
      (s1, add_mset (?sel b) ({#reload_for ev a#} + r1), [])"
    by (simp add: r_into_rtranclp add_mset_commute)
  obtain r2 where 3: "(cstep ?ok)\<^sup>*\<^sup>* (s1, add_mset (?sel b) ({#reload_for ev a#} + r1), [])
      (s2, mset [?load] + ({#reload_for ev a#} + r2), [])" "\<forall>q \<in># r2. keeps ?J ?ok q"
    using pool_run [OF run_selectAddress [of orc ev "ad_id b" s1] _ 1(2), of "{#reload_for ev a#}" "[]"]
    by (auto simp: s2_def)
  have load_b: "run orc ?load s2 = run orc (reload_for ev b) s2"
    by (simp add: refresh_reload s2_def s1_def selected assms(2))
  obtain s3 p3 where s3: "run orc ?load s2 = (s3, [p3], [], None)" "rt_addresses (root s3) = rt_addresses (root s2)"
    "keeps ?J ?ok p3"
    unfolding load_b using run_reload [where orc = orc and a = b and opts = optsB and ev = ev and s = s2] assms(4) assms(5) by auto
  obtain r3 where 4: "(cstep ?ok)\<^sup>*\<^sup>* (s2, add_mset ?load ({#reload_for ev a#} + r2), [])
      (s3, mset [p3] + ({#reload_for ev a#} + r3), [])" "\<forall>q \<in># r3. keeps ?J ?ok q"
    using pool_run [OF s3(1) _ 3(2), of "{#reload_for ev a#}" "[]"] by auto
  obtain s4 p4 where s4: "run orc (reload_for ev a) s3 = (s4, [p4], [], None)"
    "getShippingOptionsList (root s4) = optsA" "rt_addresses (root s4) = rt_addresses (root s3)" "keeps ?J ?ok p4"
    using run_reload [where orc = orc and a = a and opts = optsA and ev = ev and s = s3] assms(3) assms(5) by auto
  have rest3: "\<forall>q \<in># add_mset p3 r3. keeps ?J ?ok q" using 4(2) s3(3) by simp
  obtain r4 where 5: "(cstep ?ok)\<^sup>*\<^sup>* (s3, add_mset (reload_for ev a) ({#} + add_mset p3 r3), [])
      (s4, mset [p4] + ({#} + r4), [])" "\<forall>q \<in># r4. keeps ?J ?ok q"
    using pool_run [OF s4(1) _ rest3, of "{#}" "[]"] by auto
  let ?c = "(s4, add_mset p4 r4, [] :: effect list)"
  have "(cstep ?ok)\<^sup>*\<^sup>* (s, {#?sel a, ?sel b#}, []) (s1, mset [?load] + ({#?sel b#} + r1), [])"
    using 1(1) by simp
  also note 2
  also note 3(1)
  also have "(cstep ?ok)\<^sup>*\<^sup>* (s2, mset [?load] + ({#reload_for ev a#} + r2), [])
      (s3, mset [p3] + ({#reload_for ev a#} + r3), [])" using 4(1) by (simp add: add_mset_commute)
  also have "(cstep ?ok)\<^sup>*\<^sup>* (s3, mset [p3] + ({#reload_for ev a#} + r3), []) ?c"
    using 5(1) by (simp add: add_mset_commute)
  finally have path: "(cstep ?ok)\<^sup>*\<^sup>* (s, {#?sel a, ?sel b#}, []) ?c" .
  have c: "?J (fst ?c)" "\<forall>q \<in># fst (snd ?c). keeps ?J ?ok q"
    using s4(2-4) s3(2) 5(2)
    by (simp_all add: shown_for_def s2_def setSelectedShippingType_def addr_setSelectedId_def on_addresses_def)
  have "?J (fst c')" if "(cstep ?ok)\<^sup>*\<^sup>* ?c c'" for c'
    by (rule reachable_keeps [OF that c, THEN conjunct1])
  with path show ?thesis unfolding shown_for_def by blast
qed

definition two_replies :: "request \<Rightarrow> caught + response" where
  "two_replies q = (case q of
     RqShippingAddress x \<Rightarrow> Inr (RsOptions (if ad_id x = ''a'' then [(sample_option ''o'' ''COURIER'' ''0'')\<lparr>sho_date := None\<rparr>] else []))
   | _ \<Rightarrow> Inl type_error)"

lemma stale_delivery_options_witness:
  "\<exists>c. (cstep (\<lambda>q r. r = two_replies q))\<^sup>*\<^sup>*
      (two_addresses, {#selectAddress sample_env ''a'' None True, selectAddress sample_env ''b'' None True#}, []) c
    \<and> ast_selectedId (rt_addresses (root (fst c))) = ''b''
    \<and> getShippingOptionsList (root (fst c)) = [(sample_option ''o'' ''COURIER'' ''0'')\<lparr>sho_date := None\<rparr>]"
proof -
  let ?o = "(sample_option ''o'' ''COURIER'' ''0'')\<lparr>sho_date := None\<rparr>"
  have l: "getAddressList (root two_addresses) = [with_room ''a'' ''1'', with_room ''b'' ''2'']"
    by (simp add: two_addresses_def getAddressList_def setAddressList_def on_addresses_def or_else_def)
  have ids: "ad_id (with_room i r) = i" for i r by (simp add: with_room_def sample_address_def parseAddress_def)
  have "hasDate ?o = False" by (simp add: hasDate_def)
  then show ?thesis
    using stale_delivery_options [of two_addresses "with_room ''a'' ''1''" "with_room ''b'' ''2''" two_replies "[?o]" "[]" sample_env]
    by (auto simp: getAddressById_def l ids two_replies_def)
qed

end
