(* ===== verification/SdkSheet.thy ===== *)
theory SdkSheet
  imports CheckoutHelpers Uri
begin

text \<open>
  \<open>services/sdk/src/helpers/payment-sheet.ts\<close>: what the SDK makes of the data a shop passes to
  \<open>createPayment\<close> and \<open>createCheckout\<close>.  The data come from the shop's script, so every part may be
  missing, and the metadata may be of any type.
\<close>

section \<open>The data\<close>

datatype PaymentEnv = Production | Sandbox

datatype PaymentType = PayPayment | PayPaymentV3 | PayCheckout | PayCheckoutV3

record CartItem =
  ci_productId :: string
  ci_total :: Price
  ci_quantity :: "OrderItemQuantity option"

record PaymentCart =
  pc_externalId :: string
  pc_items :: "CartItem list option"

datatype meta = NoMeta | MetaText string | MetaOther

record PaymentDataV3 =
  v3_env :: "PaymentEnv option"
  v3_version :: int
  v3_merchantId :: string
  v3_currencyCode :: CurrencyCode
  v3_cart :: "PaymentCart option"
  v3_metadata :: meta

text \<open>Data of the older versions: a sheet with its version.\<close>

record InitPaymentData =
  ip_env :: "PaymentEnv option"
  ip_version :: int
  ip_sheet :: Sheet
  ip_metadata :: meta

datatype RawPaymentData = RawV3 PaymentDataV3 | RawInit InitPaymentData

section \<open>Reading them\<close>

fun raw_version :: "RawPaymentData \<Rightarrow> int" where
  "raw_version (RawV3 d) = v3_version d"
| "raw_version (RawInit d) = ip_version d"

fun raw_metadata :: "RawPaymentData \<Rightarrow> meta" where
  "raw_metadata (RawV3 d) = v3_metadata d"
| "raw_metadata (RawInit d) = ip_metadata d"

definition isV3PaymentData :: "RawPaymentData \<Rightarrow> bool" where
  "isV3PaymentData d = (raw_version d = 3)"

fun isInitPaymentDataWithCheckout :: "RawPaymentData \<Rightarrow> bool" where
  "isInitPaymentDataWithCheckout (RawInit d) =
     (if isV3PaymentData (RawInit d) then False
      else case sh_requiredFields (ip_sheet d) of
             None \<Rightarrow> False
           | Some rf \<Rightarrow> rf_shippingContact rf \<noteq> None \<or> rf_shippingTypes rf \<noteq> None)"
| "isInitPaymentDataWithCheckout (RawV3 d) = False"

definition getPaymentType :: "RawPaymentData \<Rightarrow> PaymentType" where
  "getPaymentType d =
     (if isV3PaymentData d then PayPaymentV3
      else if isInitPaymentDataWithCheckout d then PayCheckout else PayPayment)"

definition PAYMENT_SHEET_META_SIZE :: nat where "PAYMENT_SHEET_META_SIZE = 128"

text \<open>\<open>assertPaymentDataV3\<close> throws with a text, or returns.\<close>

definition assertPaymentDataV3 :: "RawPaymentData \<Rightarrow> string option" where
  "assertPaymentDataV3 d =
     (if isV3PaymentData d
      then case raw_metadata d of
             NoMeta \<Rightarrow> None
           | MetaOther \<Rightarrow> Some ''sheet.metadata must be a string''
           | MetaText s \<Rightarrow> if length (encodeURIComponent s) \<le> PAYMENT_SHEET_META_SIZE then None
                            else Some ''sheet.metadata is too long''
      else None)"

definition cart_total :: "CartItem list \<Rightarrow> Price" where
  "cart_total items = js_toFixed2 (foldl (\<lambda>res item. js_add res
     (case js_Number (ci_total item) of NaN \<Rightarrow> Fin 0 | n \<Rightarrow> n)) (Fin 0) items)"

text \<open>The \<open>try\<close> of the code turns a missing cart or list of items into \<open>undefined\<close>.\<close>

definition cartToOrder :: "PaymentCart option \<Rightarrow> SheetOrder option" where
  "cartToOrder cart = Option.bind cart (\<lambda>c. map_option (\<lambda>items.
     \<lparr>so_id = pc_externalId c,
      so_items = map (\<lambda>item. \<lparr>si_id = ci_productId item, si_amount = ci_total item, si_type = None,
         si_label = None, si_quantity = ci_quantity item\<rparr>) items,
      so_total = \<lparr>st_amount = cart_total items, st_label = None\<rparr>\<rparr>) (pc_items c))"

definition toInitPaymentData :: "PaymentDataV3 \<Rightarrow> InitPaymentData option" where
  "toInitPaymentData d =
     (if \<not> isV3PaymentData (RawV3 d) then None
      else map_option (\<lambda>paymentOrder.
        \<lparr>ip_env = v3_env d, ip_version = v3_version d,
         ip_sheet = empty_sheet\<lparr>sh_merchant := Some \<lparr>mr_id = v3_merchantId d, mr_name = [], mr_url = None\<rparr>,
           sh_currencyCode := Some (v3_currencyCode d), sh_order := Some paymentOrder\<rparr>,
         ip_metadata = v3_metadata d\<rparr>) (cartToOrder (v3_cart d)))"

record UpdateV3 =
  u3_cart :: "PaymentCart option"
  u3_metadata :: "string option"

definition toUpdatePayment :: "UpdateV3 \<Rightarrow> SheetOrder option \<times> string option" where
  "toUpdatePayment u = (cartToOrder (u3_cart u), u3_metadata u)"

section \<open>Starting a payment\<close>

text \<open>\<open>create-payment.ts\<close>, \<open>create-checkout.ts\<close>: what comes of a call, given what the SDK's frame answers:
  whether the user is ready to pay, and whether the page is a frame inside a web view.\<close>

datatype created = Throws string | RejectedSheet | RejectedUser | Created PaymentType InitPaymentData

text \<open>Data of one shape with the version of the other: the cart is then missing, or the fields of a sheet are.\<close>

definition getInitPaymentData :: "RawPaymentData \<Rightarrow> InitPaymentData option" where
  "getInitPaymentData d =
     (if isV3PaymentData d then (case d of RawV3 v \<Rightarrow> toInitPaymentData v | RawInit i \<Rightarrow> None)
      else case d of
        RawV3 v \<Rightarrow> Some \<lparr>ip_env = v3_env v, ip_version = v3_version v,
           ip_sheet = empty_sheet\<lparr>sh_currencyCode := Some (v3_currencyCode v)\<rparr>, ip_metadata = v3_metadata v\<rparr>
      | RawInit i \<Rightarrow> Some i)"

definition answered :: "bool \<Rightarrow> bool \<Rightarrow> PaymentType \<Rightarrow> InitPaymentData \<Rightarrow> created" where
  "answered readyToPay webviewFrame ty d =
     (if readyToPay \<and> \<not> webviewFrame then Created ty d else RejectedUser)"

definition createPayment :: "bool \<Rightarrow> bool \<Rightarrow> RawPaymentData \<Rightarrow> created" where
  "createPayment readyToPay webviewFrame d =
     (case assertPaymentDataV3 d of
        Some e \<Rightarrow> Throws e
      | None \<Rightarrow> (case getInitPaymentData d of
          None \<Rightarrow> RejectedSheet
        | Some i \<Rightarrow> answered readyToPay webviewFrame (getPaymentType d) i))"

definition createCheckout :: "bool \<Rightarrow> bool \<Rightarrow> PaymentDataV3 \<Rightarrow> created" where
  "createCheckout readyToPay webviewFrame d =
     (case assertPaymentDataV3 (RawV3 d) of
        Some e \<Rightarrow> Throws e
      | None \<Rightarrow> (case toInitPaymentData d of
          None \<Rightarrow> RejectedSheet
        | Some i \<Rightarrow> answered readyToPay webviewFrame PayCheckoutV3 i))"

section \<open>The total the SDK shows\<close>

text \<open>The total of the cart is the sum the checkout form computes of the same prices.\<close>

lemma cart_total_sum: "cart_total items = sumAmount (map ci_total items)"
proof -
  have "foldl (\<lambda>res item. js_add res (case js_Number (ci_total item) of NaN \<Rightarrow> Fin 0 | n \<Rightarrow> n)) x items
      = foldl (\<lambda>res amount. js_add res (toNum amount (Fin 0))) x (map ci_total items)" for x
    by (induction items arbitrary: x) (simp_all add: toNum_def Let_def split: jsnum.split)
  then show ?thesis by (simp add: cart_total_def sumAmount_def sum_num_def)
qed

lemma cart_accepted: "cartToOrder cart = None \<longleftrightarrow> Option.bind cart pc_items = None"
  by (cases cart) (simp_all add: cartToOrder_def)

lemma metadata_accepted:
  assumes "v3_version d = 3"
  shows "assertPaymentDataV3 (RawV3 d) = None \<longleftrightarrow>
     (case v3_metadata d of NoMeta \<Rightarrow> True | MetaText s \<Rightarrow> length (encodeURIComponent s) \<le> 128 | MetaOther \<Rightarrow> False)"
  using assms by (simp add: assertPaymentDataV3_def isV3PaymentData_def PAYMENT_SHEET_META_SIZE_def split: meta.split)

text \<open>C33: Data of the third version are taken exactly when their metadata is missing or a text that is short once
  encoded (metadata of any other type is refused), the cart has a list of items, and the user is ready to
  pay and not inside a web view.  The sheet then carries the items and, for prices in hundredths, their exact
  sum.\<close>

theorem createCheckout_total:
  assumes "v3_version d = 3"
  shows "((\<exists>ty i. createCheckout ready frame d = Created ty i) \<longleftrightarrow>
       ready \<and> \<not> frame \<and> Option.bind (v3_cart d) pc_items \<noteq> None
       \<and> (case v3_metadata d of NoMeta \<Rightarrow> True | MetaText s \<Rightarrow> length (encodeURIComponent s) \<le> 128 | MetaOther \<Rightarrow> False))
    \<and> (\<forall>ty i. createCheckout ready frame d = Created ty i \<longrightarrow> ty = PayCheckoutV3
        \<and> (\<exists>cart items ord. v3_cart d = Some cart \<and> pc_items cart = Some items \<and> sh_order (ip_sheet i) = Some ord
            \<and> map si_amount (so_items ord) = map ci_total items
            \<and> (\<forall>cs. map ci_total items = map cents_str cs \<longrightarrow> exact_range cs
                \<longrightarrow> st_amount (so_total ord) = cents_str (sum_list cs))))"
proof (intro conjI allI impI)
  show "(\<exists>ty i. createCheckout ready frame d = Created ty i) \<longleftrightarrow>
       ready \<and> \<not> frame \<and> Option.bind (v3_cart d) pc_items \<noteq> None
       \<and> (case v3_metadata d of NoMeta \<Rightarrow> True | MetaText s \<Rightarrow> length (encodeURIComponent s) \<le> 128 | MetaOther \<Rightarrow> False)"
    using assms
    by (auto simp: createCheckout_def metadata_accepted [symmetric] cart_accepted [symmetric] toInitPaymentData_def
        isV3PaymentData_def answered_def split: option.splits)
  fix ty i assume c: "createCheckout ready frame d = Created ty i"
  show "ty = PayCheckoutV3"
    using c by (auto simp: createCheckout_def answered_def split: option.splits if_splits)
  obtain ord where ord: "cartToOrder (v3_cart d) = Some ord" "sh_order (ip_sheet i) = Some ord"
    using c by (auto simp: createCheckout_def answered_def toInitPaymentData_def split: option.splits if_splits)
  then obtain cart items where ci: "v3_cart d = Some cart" "pc_items cart = Some items"
    "map si_amount (so_items ord) = map ci_total items" "st_amount (so_total ord) = cart_total items"
    by (auto simp: cartToOrder_def o_def split: bind_splits)
  have "st_amount (so_total ord) = cents_str (sum_list cs)" if "map ci_total items = map cents_str cs" "exact_range cs" for cs
    using that ci(4) by (simp add: cart_total_sum sumAmount_cents)
  with ord(2) ci(1-3) show "\<exists>cart items ord. v3_cart d = Some cart \<and> pc_items cart = Some items
      \<and> sh_order (ip_sheet i) = Some ord \<and> map si_amount (so_items ord) = map ci_total items
      \<and> (\<forall>cs. map ci_total items = map cents_str cs \<longrightarrow> exact_range cs
            \<longrightarrow> st_amount (so_total ord) = cents_str (sum_list cs))" by blast
qed

definition sample_v3 :: PaymentDataV3 where
  "sample_v3 = \<lparr>v3_env = None, v3_version = 3, v3_merchantId = ''m'', v3_currencyCode = RUB,
     v3_cart = Some \<lparr>pc_externalId = ''o'', pc_items = Some
       [\<lparr>ci_productId = ''a'', ci_total = cents_str 10, ci_quantity = None\<rparr>,
        \<lparr>ci_productId = ''b'', ci_total = cents_str 20, ci_quantity = None\<rparr>]\<rparr>,
     v3_metadata = NoMeta\<rparr>"

lemma createCheckout_total_witness:
  "\<exists>i ord. createCheckout True False sample_v3 = Created PayCheckoutV3 i
     \<and> sh_order (ip_sheet i) = Some ord \<and> st_amount (so_total ord) = cents_str 30
     \<and> \<not> (\<exists>ty i. createCheckout True False (sample_v3\<lparr>v3_metadata := MetaOther\<rparr>) = Created ty i)"
proof -
  obtain ty i where i: "createCheckout True False sample_v3 = Created ty i"
    using createCheckout_total [of sample_v3 True False] by (auto simp: sample_v3_def)
  from createCheckout_total [of sample_v3 True False] i obtain cart items ord where
    "ty = PayCheckoutV3" "v3_cart sample_v3 = Some cart" "pc_items cart = Some items" "sh_order (ip_sheet i) = Some ord"
    "\<forall>cs. map ci_total items = map cents_str cs \<longrightarrow> exact_range cs \<longrightarrow> st_amount (so_total ord) = cents_str (sum_list cs)"
    by (auto simp: sample_v3_def)
  moreover have "exact_range [10, 20]" by (simp add: exact_range_def sum_bound_def)
  ultimately have "ty = PayCheckoutV3" "sh_order (ip_sheet i) = Some ord" "st_amount (so_total ord) = cents_str 30"
    by (auto simp: sample_v3_def dest!: spec [of _ "[10, 20]"])
  with i createCheckout_total [of "sample_v3\<lparr>v3_metadata := MetaOther\<rparr>" True False] show ?thesis
    by (auto simp: sample_v3_def)
qed

end
