(* ===== verification/SdkPayment.thy ===== *)
theory SdkPayment
  imports SdkSheet Intercom
begin

text \<open>
  \<open>services/sdk/src/payment/_base.ts\<close>: \<open>BasePayment\<close>, the object a shop pays with.  It opens the payment form,
  watches its window, passes the messages of the form to the listeners of the shop and the calls of the
  shop to the form.

  The connection is that of the theories \<open>Connections\<close> and \<open>ConnectionManager\<close>; here an agent is a window, or
  a redirect when no window could be opened, with what was sent through it.  A call of \<open>this.emit\<close> is
  recorded in \<open>sk_emits\<close> (its listeners are called as the theory \<open>Emitter\<close> says); a destroyed payment has
  no listeners.  Everything the event loop can call is an input of \<open>sdk_step\<close>: calls of the shop and of the
  button, messages of the form, the window that closes, the timer that checks it, and the two delays of
  a payment that went through, the counter's and the page's focus.  Logs, counters and buttons are left
  out.  \<open>window.close\<close> takes effect at once.
\<close>

section \<open>The window of the form\<close>

record sdk_agent =
  ag_window :: bool
  ag_attached :: bool
  ag_closed :: bool
  ag_sent :: "shop_message list"
  ag_focused :: nat

definition ag_isConnected :: "sdk_agent \<Rightarrow> bool" where
  "ag_isConnected a = (ag_window a \<and> ag_attached a \<and> \<not> ag_closed a)"

definition ag_send :: "shop_message \<Rightarrow> sdk_agent \<Rightarrow> sdk_agent" where
  "ag_send m a = (if ag_isConnected a then a\<lparr>ag_sent := ag_sent a @ [m]\<rparr> else a)"

definition ag_focus :: "sdk_agent \<Rightarrow> sdk_agent" where
  "ag_focus a = (if ag_isConnected a then a\<lparr>ag_focused := ag_focused a + 1\<rparr> else a)"

definition ag_close :: "sdk_agent \<Rightarrow> sdk_agent" where
  "ag_close a = (if ag_isConnected a then a\<lparr>ag_closed := True\<rparr> else a)"

section \<open>The state\<close>

record sdk =
  sk_firefox :: bool
  sk_counter :: nat
  sk_overlay :: "bool option"
  sk_agent :: "sdk_agent option"
  sk_manager :: bool
  sk_timer :: "PaymentEvent option"
  sk_completed :: bool
  sk_loading :: bool
  sk_sheet :: "Sheet option"
  sk_metadata :: "string option"
  sk_listening :: bool
  sk_emits :: "PaymentEvent list"
  sk_counting :: "PaymentEvent list"
  sk_focusing :: "PaymentEvent list"
  sk_opened :: "(Sheet option \<times> string option) list"
  sk_uncaught :: nat

definition new_sdk :: "bool \<Rightarrow> Sheet \<Rightarrow> string option \<Rightarrow> sdk" where
  "new_sdk ff sheet metadata =
     \<lparr>sk_firefox = ff, sk_counter = 0, sk_overlay = Some False, sk_agent = None, sk_manager = True, sk_timer = None,
      sk_completed = False, sk_loading = False, sk_sheet = Some sheet, sk_metadata = metadata, sk_listening = True,
      sk_emits = [], sk_counting = [], sk_focusing = [], sk_opened = [], sk_uncaught = 0\<rparr>"

definition sk_emit :: "PaymentEvent \<Rightarrow> sdk \<Rightarrow> sdk" where
  "sk_emit e s = (if sk_listening s then s\<lparr>sk_emits := sk_emits s @ [e]\<rparr> else s)"

definition overlay_hide :: "sdk \<Rightarrow> sdk" where
  "overlay_hide s = s\<lparr>sk_overlay := map_option (\<lambda>_. False) (sk_overlay s)\<rparr>"

definition sk_connected :: "sdk \<Rightarrow> bool" where
  "sk_connected s = (case sk_agent s of None \<Rightarrow> False | Some a \<Rightarrow> ag_isConnected a)"

definition on_agent :: "(sdk_agent \<Rightarrow> sdk_agent) \<Rightarrow> sdk \<Rightarrow> sdk" where
  "on_agent f s = s\<lparr>sk_agent := map_option f (sk_agent s)\<rparr>"

section \<open>The parts\<close>

definition stopCheckingTargetOpening :: "sdk \<Rightarrow> sdk" where
  "stopCheckingTargetOpening s = s\<lparr>sk_timer := None\<rparr>"

definition startCheckingTargetOpening :: "PaymentEvent \<Rightarrow> sdk \<Rightarrow> sdk" where
  "startCheckingTargetOpening e s = (stopCheckingTargetOpening s)\<lparr>sk_timer := Some e\<rparr>"

definition completeCheckout :: "sdk \<Rightarrow> sdk" where
  "completeCheckout s = overlay_hide (s\<lparr>sk_completed := True, sk_loading := False\<rparr>)"

definition closeCheckoutWindow :: "sdk \<Rightarrow> sdk" where
  "closeCheckoutWindow s = (if sk_connected s then stopCheckingTargetOpening (on_agent ag_close s) else s)"

definition destroyChannel :: "sdk \<Rightarrow> sdk" where
  "destroyChannel s = overlay_hide ((stopCheckingTargetOpening s)\<lparr>sk_agent := None\<rparr>)"

definition onTargetOpeningCheck :: "PaymentEvent \<Rightarrow> sdk \<Rightarrow> sdk" where
  "onTargetOpeningCheck e s =
     (if \<not> sk_completed s \<and> \<not> sk_connected s then sk_emit e (destroyChannel (completeCheckout s)) else s)"

section \<open>Calls of the shop\<close>

definition sk_setup :: "SetupPaymentData \<Rightarrow> sdk \<Rightarrow> sdk" where
  "sk_setup d s = (if sk_connected s then on_agent (ag_send (SetupMessage (Some d))) s else s)"

text \<open>A destroyed payment has no sheet: changing it throws.\<close>

definition sk_update :: "UpdatePaymentData \<Rightarrow> sdk \<Rightarrow> sdk" where
  "sk_update d s =
     (if sk_sheet s = None \<and> (up_order d \<noteq> None \<or> truthy (up_metadata d))
      then s\<lparr>sk_uncaught := sk_uncaught s + 1\<rparr>
      else let s1 = (case up_order d of
                 None \<Rightarrow> s
               | Some ord \<Rightarrow> s\<lparr>sk_sheet := map_option (\<lambda>sh. sh\<lparr>sh_order := Some ord\<rparr>) (sk_sheet s)\<rparr>);
               s2 = (if truthy (up_metadata d) then s1\<lparr>sk_metadata := up_metadata d\<rparr> else s1)
           in if sk_connected s2 then on_agent (ag_send (UpdateMessage (Some d))) s2 else s2)"

definition sk_complete :: "string \<Rightarrow> sdk \<Rightarrow> sdk" where
  "sk_complete why s =
     (case sk_agent s of
        None \<Rightarrow> s
      | Some a \<Rightarrow> if ag_isConnected a then on_agent (ag_send (CompleteMessage why)) s else destroyChannel s)"

text \<open>\<open>connectionManager.open\<close>: a window, a redirect, or an exception, which \<open>checkout\<close> catches.\<close>

datatype open_result = OpensWindow | OpensQuery | OpenThrows

definition new_agent :: "bool \<Rightarrow> sdk_agent" where
  "new_agent window = \<lparr>ag_window = window, ag_attached = True, ag_closed = False, ag_sent = [], ag_focused = 0\<rparr>"

definition sk_checkout :: "open_result \<Rightarrow> sdk \<Rightarrow> sdk" where
  "sk_checkout r s =
     (case sk_agent s of
        Some a \<Rightarrow> on_agent ag_focus s
      | None \<Rightarrow>
          let s1 = s\<lparr>sk_counter := sk_counter s + 1, sk_completed := False, sk_loading := True\<rparr>
          in if \<not> sk_manager s1 \<or> r = OpenThrows then s1
             else let s2 = s1\<lparr>sk_agent := Some (new_agent (r = OpensWindow)),
                              sk_opened := sk_opened s1 @ [(sk_sheet s1, sk_metadata s1)]\<rparr>;
                      s3 = startCheckingTargetOpening AbortClose s2
                  in if sk_firefox s3 then s3 else s3\<lparr>sk_overlay := map_option (\<lambda>_. True) (sk_overlay s3)\<rparr>)"

definition sk_destroy :: "sdk \<Rightarrow> sdk" where
  "sk_destroy s =
     (let s1 = destroyChannel (sk_complete ''close'' (s\<lparr>sk_listening := False\<rparr>))
      in s1\<lparr>sk_sheet := None, sk_metadata := None, sk_manager := False, sk_overlay := None\<rparr>)"

section \<open>Messages of the form\<close>

fun is_paid :: "PaymentEvent \<Rightarrow> bool" where
  "is_paid (SuccessEvent i m) = True"
| "is_paid (ProcessEvent d) = True"
| "is_paid _ = False"

fun keepWindowOpen :: "PaymentEvent \<Rightarrow> bool" where
  "keepWindowOpen (SuccessEvent i m) = True"
| "keepWindowOpen (ProcessEvent d) = (case ppd_paymentMethodInfo d of SplitPaymentMethodInfo _ _ _ _ \<Rightarrow> True | _ \<Rightarrow> False)"
| "keepWindowOpen _ = False"

fun sk_onMessage :: "PaymentEvent \<Rightarrow> sdk \<Rightarrow> sdk" where
  "sk_onMessage ReadyEvent s = sk_emit ReadyEvent (s\<lparr>sk_loading := False\<rparr>)"
| "sk_onMessage (ChangeEvent d) s = sk_emit (ChangeEvent d) s"
| "sk_onMessage (ResetEvent d) s = sk_emit (ResetEvent d) s"
| "sk_onMessage (SetupEvent b) s = sk_emit (SetupEvent b) s"
| "sk_onMessage (SuccessEvent i m) s = s\<lparr>sk_counting := sk_counting s @ [SuccessEvent i m]\<rparr>"
| "sk_onMessage (ProcessEvent d) s = s\<lparr>sk_counting := sk_counting s @ [ProcessEvent d]\<rparr>"
| "sk_onMessage AbortClose s = startCheckingTargetOpening AbortClose s"
| "sk_onMessage (FormErrorEvent why d) s = sk_emit (FormErrorEvent why d) (closeCheckoutWindow (completeCheckout s))"
| "sk_onMessage PingEvent s =
     (case sk_agent s of None \<Rightarrow> s\<lparr>sk_uncaught := sk_uncaught s + 1\<rparr> | Some a \<Rightarrow> on_agent (ag_send PingMessage) s)"

definition eventProcessCb :: "PaymentEvent \<Rightarrow> sdk \<Rightarrow> sdk" where
  "eventProcessCb e s =
     (let s1 = completeCheckout s;
          s2 = (if keepWindowOpen e then s1 else closeCheckoutWindow s1)
      in s2\<lparr>sk_focusing := sk_focusing s2 @ [e]\<rparr>)"

section \<open>The event loop\<close>

datatype sdk_input =
    Checkout open_result
  | SetupCall SetupPaymentData
  | UpdateCall UpdatePaymentData
  | CompleteCall string
  | DestroyCall
  | OverlayClick
  | Unload
  | FromForm PaymentEvent
  | WindowCloses
  | TimerTick
  | CounterDone nat
  | FocusDone nat

definition drop_nth :: "nat \<Rightarrow> 'a list \<Rightarrow> 'a list" where
  "drop_nth i xs = take i xs @ drop (Suc i) xs"

fun sdk_step :: "sdk_input \<Rightarrow> sdk \<Rightarrow> sdk" where
  "sdk_step (Checkout r) s = sk_checkout r s"
| "sdk_step (SetupCall d) s = sk_setup d s"
| "sdk_step (UpdateCall d) s = sk_update d s"
| "sdk_step (CompleteCall why) s = sk_complete why s"
| "sdk_step DestroyCall s = sk_destroy s"
| "sdk_step OverlayClick s = on_agent ag_focus s"
| "sdk_step Unload s = destroyChannel s"
| "sdk_step (FromForm e) s = (if sk_manager s then sk_onMessage e s else s)"
| "sdk_step WindowCloses s = on_agent (\<lambda>a. a\<lparr>ag_closed := True\<rparr>) s"
| "sdk_step TimerTick s = (case sk_timer s of None \<Rightarrow> s | Some e \<Rightarrow> onTargetOpeningCheck e s)"
| "sdk_step (CounterDone i) s =
     (if i < length (sk_counting s)
      then eventProcessCb (sk_counting s ! i) (s\<lparr>sk_counting := drop_nth i (sk_counting s)\<rparr>) else s)"
| "sdk_step (FocusDone i) s =
     (if i < length (sk_focusing s)
      then sk_emit (sk_focusing s ! i) (s\<lparr>sk_focusing := drop_nth i (sk_focusing s)\<rparr>) else s)"

definition sdk_run :: "sdk_input list \<Rightarrow> sdk \<Rightarrow> sdk" where
  "sdk_run ins s = fold sdk_step ins s"

lemmas sdk_parts = sk_emit_def overlay_hide_def on_agent_def stopCheckingTargetOpening_def
  startCheckingTargetOpening_def completeCheckout_def closeCheckoutWindow_def destroyChannel_def
  onTargetOpeningCheck_def sk_setup_def sk_update_def sk_complete_def sk_checkout_def sk_destroy_def eventProcessCb_def

section \<open>What the inputs keep\<close>

definition paid_of :: "sdk_input \<Rightarrow> PaymentEvent list" where
  "paid_of i = (case i of FromForm e \<Rightarrow> if is_paid e then [e] else [] | _ \<Rightarrow> [])"

definition on_their_way :: "sdk \<Rightarrow> PaymentEvent multiset" where
  "on_their_way s = mset (sk_counting s) + mset (sk_focusing s)"

definition given_out :: "sdk \<Rightarrow> PaymentEvent multiset" where
  "given_out s = filter_mset is_paid (mset (sk_emits s))"

definition aborts :: "sdk \<Rightarrow> nat" where
  "aborts s = count_list (sk_emits s) AbortClose"

definition sdk_ok :: "sdk \<Rightarrow> bool" where
  "sdk_ok s = ((\<forall>e \<in> set (sk_counting s) \<union> set (sk_focusing s). is_paid e)
     \<and> aborts s + (if sk_completed s then 0 else 1) \<le> sk_counter s + 1
     \<and> (\<forall>e. sk_timer s = Some e \<longrightarrow> e = AbortClose)
     \<and> (sk_agent s \<noteq> None \<longrightarrow> sk_completed s \<or> sk_timer s = Some AbortClose)
     \<and> (sk_listening s \<longrightarrow> sk_manager s \<and> sk_sheet s \<noteq> None))"

lemma mset_drop_nth: "i < length xs \<Longrightarrow> mset xs = {#xs ! i#} + mset (drop_nth i xs)"
  by (metis append_take_drop_id Cons_nth_drop_Suc drop_nth_def mset.simps(2) mset_append union_mset_add_mset_right add_mset_add_single union_commute)

lemma set_drop_nth: "set (drop_nth i xs) \<subseteq> set xs"
  by (auto simp: drop_nth_def dest: in_set_takeD in_set_dropD)

lemma count_list_append_one [simp]: "count_list (xs @ [e]) a = count_list xs a + (if e = a then 1 else 0)"
  by (induction xs) auto

lemma paid_is_no_abort: "is_paid e \<Longrightarrow> e \<noteq> AbortClose"
  by (cases e) auto

lemma new_sdk_ok: "sdk_ok (new_sdk ff sh md)"
  by (simp add: sdk_ok_def new_sdk_def aborts_def)

lemma step_ok: "sdk_ok s \<Longrightarrow> sdk_ok (sdk_step i s)"
proof (cases i)
  case (FromForm e)
  then show "sdk_ok s \<Longrightarrow> sdk_ok (sdk_step i s)"
    by (cases e) (auto simp: sdk_ok_def aborts_def sdk_parts Let_def split: option.splits if_splits)
next
  case (CounterDone k)
  then show "sdk_ok s \<Longrightarrow> sdk_ok (sdk_step i s)"
    using set_drop_nth [of k "sk_counting s"]
    by (auto simp: sdk_ok_def aborts_def sdk_parts Let_def subset_iff split: option.splits if_splits)
next
  case (FocusDone k)
  then show "sdk_ok s \<Longrightarrow> sdk_ok (sdk_step i s)"
    using set_drop_nth [of k "sk_focusing s"] paid_is_no_abort [of "sk_focusing s ! k"] nth_mem [of k "sk_focusing s"]
    by (auto simp: sdk_ok_def aborts_def sdk_parts Let_def subset_iff split: option.splits if_splits)
qed (auto simp: sdk_ok_def aborts_def sdk_parts Let_def split: option.splits if_splits)

lemma run_append: "sdk_run (a @ b) s = sdk_run b (sdk_run a s)"
  by (simp add: sdk_run_def)

lemma run_Nil [simp]: "sdk_run [] s = s"
  by (simp add: sdk_run_def)

lemma run_Cons [simp]: "sdk_run (i # is) s = sdk_run is (sdk_step i s)"
  by (simp add: sdk_run_def)

lemma run_ok: "sdk_ok s \<Longrightarrow> sdk_ok (sdk_run ins s)"
  by (induction ins arbitrary: s) (auto simp: step_ok)

lemma run_invariant: "(\<And>i s. P s \<Longrightarrow> i \<in> set ins \<Longrightarrow> P (sdk_step i s)) \<Longrightarrow> P s \<Longrightarrow> P (sdk_run ins s)"
  by (induction ins arbitrary: s) auto

text \<open>An abandoned payment is reported by the timer, which the opening of a form and a message of the form start,
  and the report ends both the payment and the timer.\<close>

lemma step_timer:
  "sdk_ok s \<Longrightarrow> aborts s + (if sk_timer s = None then 0 else 1) \<le> length (sk_opened s) + n \<Longrightarrow>
     aborts (sdk_step i s) + (if sk_timer (sdk_step i s) = None then 0 else 1)
       \<le> length (sk_opened (sdk_step i s)) + n + (if i = FromForm AbortClose then 1 else 0)"
proof (cases i)
  case (FromForm e)
  then show "aborts s + (if sk_timer s = None then 0 else 1) \<le> length (sk_opened s) + n \<Longrightarrow> ?thesis"
    by (cases e) (auto simp: aborts_def sdk_parts Let_def split: option.splits if_splits)
next
  case (FocusDone k)
  then show "sdk_ok s \<Longrightarrow> aborts s + (if sk_timer s = None then 0 else 1) \<le> length (sk_opened s) + n \<Longrightarrow> ?thesis"
    using paid_is_no_abort [of "sk_focusing s ! k"] nth_mem [of k "sk_focusing s"]
    by (auto simp: sdk_ok_def aborts_def sdk_parts Let_def split: option.splits if_splits)
qed (auto simp: sdk_ok_def aborts_def sdk_parts Let_def split: option.splits if_splits)

lemma run_timer:
  "aborts (sdk_run ins (new_sdk ff sh md)) + (if sk_timer (sdk_run ins (new_sdk ff sh md)) = None then 0 else 1)
     \<le> length (sk_opened (sdk_run ins (new_sdk ff sh md))) + count_list ins (FromForm AbortClose)"
proof (induction ins rule: rev_induct)
  case Nil
  show ?case by (simp add: new_sdk_def aborts_def)
next
  case (snoc i ins)
  from step_timer [OF run_ok [OF new_sdk_ok] snoc, of i] show ?case
    by (simp add: run_append del: sdk_step.simps split: if_splits)
qed

definition is_click :: "sdk_input \<Rightarrow> bool" where
  "is_click i = (case i of Checkout r \<Rightarrow> True | _ \<Rightarrow> False)"

lemma unclicked_step:
  "sdk_ok s \<Longrightarrow> \<not> is_click i \<Longrightarrow> aborts (sdk_step i s) + (if sk_completed (sdk_step i s) then 0 else 1)
     \<le> aborts s + (if sk_completed s then 0 else 1)"
proof (cases i)
  case (FromForm e)
  then show ?thesis by (cases e) (auto simp: aborts_def sdk_parts Let_def split: option.splits if_splits)
next
  case (FocusDone k)
  then show "sdk_ok s \<Longrightarrow> ?thesis"
    using paid_is_no_abort [of "sk_focusing s ! k"] nth_mem [of k "sk_focusing s"]
    by (auto simp: sdk_ok_def aborts_def sdk_parts Let_def split: option.splits if_splits)
qed (auto simp: is_click_def sdk_ok_def aborts_def sdk_parts Let_def split: option.splits if_splits)

lemma unclicked_run:
  "sdk_ok s \<Longrightarrow> \<not> list_ex is_click ins \<Longrightarrow> aborts (sdk_run ins s) \<le> aborts s + (if sk_completed s then 0 else 1)"
proof (induction ins arbitrary: s)
  case (Cons i ins)
  then have c: "\<not> is_click i" "\<not> list_ex is_click ins" by simp_all
  have "aborts (sdk_run ins (sdk_step i s)) \<le> aborts (sdk_step i s) + (if sk_completed (sdk_step i s) then 0 else 1)"
    by (rule Cons.IH [OF step_ok [OF Cons.prems(1)] c(2)])
  also have "\<dots> \<le> aborts s + (if sk_completed s then 0 else 1)"
    by (rule unclicked_step [OF Cons.prems(1) c(1)])
  finally show ?case by (simp only: run_Cons)
qed simp

text \<open>C16: However the calls of the shop, the messages of the form, the closing window and the timers
  interleave: the shop hears of no more abandoned payments than forms were opened and forms have asked to be
  closed (a form that comes back by a redirect can ask before the first click), and than clicks that began a
  checkout and one.  Between two clicks it hears of at most one, and of none once the payment has ended.\<close>

theorem aborts_are_bounded:
  assumes "\<not> list_ex is_click rest"
  shows "aborts (sdk_run ins (new_sdk ff sh md))
      \<le> length (sk_opened (sdk_run ins (new_sdk ff sh md))) + count_list ins (FromForm AbortClose)
    \<and> aborts (sdk_run ins (new_sdk ff sh md)) \<le> sk_counter (sdk_run ins (new_sdk ff sh md)) + 1
    \<and> aborts (sdk_run (ins @ rest) (new_sdk ff sh md))
      \<le> aborts (sdk_run ins (new_sdk ff sh md)) + (if sk_completed (sdk_run ins (new_sdk ff sh md)) then 0 else 1)"
proof -
  have ok: "sdk_ok (sdk_run ins (new_sdk ff sh md))" by (rule run_ok [OF new_sdk_ok])
  then have "aborts (sdk_run ins (new_sdk ff sh md)) \<le> sk_counter (sdk_run ins (new_sdk ff sh md)) + 1"
    unfolding sdk_ok_def by linarith
  moreover have "aborts (sdk_run ins (new_sdk ff sh md))
      \<le> length (sk_opened (sdk_run ins (new_sdk ff sh md))) + count_list ins (FromForm AbortClose)"
    using run_timer [of ins ff sh md] by linarith
  ultimately show ?thesis using unclicked_run [OF ok assms] by (simp add: run_append)
qed

text \<open>A form that comes back asks to be closed, then a form is opened and closed: two reports for one opened
  form and one request, and no more however often the timer ticks.\<close>

theorem aborts_are_bounded_witness:
  "aborts (sdk_run [FromForm AbortClose, TimerTick, Checkout OpensWindow, WindowCloses, TimerTick, TimerTick, TimerTick]
     (new_sdk False empty_sheet None)) = 2"
proof -
  let ?ins = "[FromForm AbortClose, TimerTick, Checkout OpensWindow, WindowCloses, TimerTick]"
  have "aborts (sdk_run ?ins (new_sdk False empty_sheet None)) = 2" "sk_completed (sdk_run ?ins (new_sdk False empty_sheet None))"
    by (simp_all add: aborts_def sdk_parts Let_def new_sdk_def new_agent_def sk_connected_def ag_isConnected_def)
  then show ?thesis
    using aborts_are_bounded [of "[TimerTick, TimerTick]" ?ins False empty_sheet None]
    by (simp add: is_click_def aborts_def sdk_parts Let_def new_sdk_def new_agent_def sk_connected_def ag_isConnected_def)
qed

lemma step_paid:
  assumes "sdk_ok s" "sk_listening s" "i \<noteq> DestroyCall"
  shows "given_out (sdk_step i s) + on_their_way (sdk_step i s) = given_out s + on_their_way s + mset (paid_of i)
     \<and> sk_listening (sdk_step i s)"
proof (cases i)
  case (FromForm e)
  with assms show ?thesis
    by (cases e) (auto simp: sdk_ok_def given_out_def on_their_way_def paid_of_def sdk_parts Let_def split: option.splits if_splits)
next
  case (CounterDone k)
  with assms show ?thesis
    using mset_drop_nth [of k "sk_counting s"]
    by (auto simp: given_out_def on_their_way_def paid_of_def sdk_parts Let_def split: option.splits if_splits)
next
  case (FocusDone k)
  with assms show ?thesis
    using mset_drop_nth [of k "sk_focusing s"] nth_mem [of k "sk_focusing s"]
    by (auto simp: sdk_ok_def given_out_def on_their_way_def paid_of_def sdk_parts Let_def split: option.splits if_splits)
next
  case (Checkout r)
  with assms show ?thesis
    by (auto simp: given_out_def on_their_way_def paid_of_def sdk_parts Let_def split: option.splits if_splits)
next
  case TimerTick
  with assms show ?thesis
    by (auto simp: sdk_ok_def given_out_def on_their_way_def paid_of_def sdk_parts Let_def split: option.splits if_splits)
qed (use assms in \<open>auto simp: given_out_def on_their_way_def paid_of_def sdk_parts Let_def split: option.splits if_splits\<close>)

lemma run_paid:
  assumes "sdk_ok s" "sk_listening s" "DestroyCall \<notin> set ins"
  shows "given_out (sdk_run ins s) + on_their_way (sdk_run ins s)
     = given_out s + on_their_way s + mset (concat (map paid_of ins))"
  using assms
proof (induction ins arbitrary: s)
  case (Cons i ins)
  then have "i \<noteq> DestroyCall" "DestroyCall \<notin> set ins"
    by auto
  with Cons.IH [OF step_ok, of s i] step_paid [of s i] Cons.prems show ?case
    by (auto simp: ac_simps)
qed simp

text \<open>C7: Until the shop destroys the payment, every message of the form that tells of a payment is given to
  the shop exactly once or is still waiting for the counter or for the focus of the page: none is lost
  and none is repeated, whatever else happens meanwhile.\<close>

theorem paid_is_given_once:
  assumes "DestroyCall \<notin> set ins"
  shows "given_out (sdk_run ins (new_sdk ff sh md)) + on_their_way (sdk_run ins (new_sdk ff sh md))
     = mset (filter is_paid (concat (map (\<lambda>i. case i of FromForm e \<Rightarrow> [e] | _ \<Rightarrow> []) ins)))"
proof -
  have "mset (concat (map paid_of ins))
     = mset (filter is_paid (concat (map (\<lambda>i. case i of FromForm e \<Rightarrow> [e] | _ \<Rightarrow> []) ins)))"
    by (induction ins) (auto simp: paid_of_def split: sdk_input.splits)
  with run_paid [OF new_sdk_ok _ assms, of ff sh md] show ?thesis
    by (simp add: new_sdk_def given_out_def on_their_way_def)
qed

theorem paid_is_given_once_witness:
  "given_out (sdk_run [Checkout OpensWindow, FromForm (SuccessEvent ''order'' None), CounterDone 0, FocusDone 0]
       (new_sdk False empty_sheet None))
     + on_their_way (sdk_run [Checkout OpensWindow, FromForm (SuccessEvent ''order'' None), CounterDone 0, FocusDone 0]
       (new_sdk False empty_sheet None))
   = {#SuccessEvent ''order'' None#}"
  using paid_is_given_once [of "[Checkout OpensWindow, FromForm (SuccessEvent ''order'' None), CounterDone 0, FocusDone 0]"
      False empty_sheet None]
  by simp

text \<open>C15: A form whose window is gone is always noticed: after any run, if the payment has not ended and there
  is a form whose window is closed, the next tick of the timer ends the payment, tells the shop that it was
  abandoned (when the shop still listens) and lets the next click open a new form.\<close>

theorem closed_form_is_noticed:
  assumes run: "s = sdk_run ins (new_sdk ff sh md)"
    and agent: "sk_agent s = Some a" and closed: "ag_closed a" and going: "\<not> sk_completed s"
  shows "sk_completed (sdk_step TimerTick s)
    \<and> sk_emits (sdk_step TimerTick s) = sk_emits s @ (if sk_listening s then [AbortClose] else [])
    \<and> (sk_manager s \<longrightarrow> sk_agent (sdk_run [TimerTick, Checkout OpensWindow] s) = Some (new_agent True))"
proof -
  have "sdk_ok s"
    unfolding run by (rule run_ok [OF new_sdk_ok])
  with agent going have "sk_timer s = Some AbortClose"
    by (auto simp: sdk_ok_def)
  with agent closed going show ?thesis
    by (simp add: sdk_parts sk_connected_def ag_isConnected_def Let_def)
qed

theorem closed_form_is_noticed_witness:
  "sk_emits (sdk_step TimerTick (sdk_run [Checkout OpensWindow, WindowCloses] (new_sdk False empty_sheet None)))
     = [AbortClose]"
proof -
  let ?s = "sdk_run [Checkout OpensWindow, WindowCloses] (new_sdk False empty_sheet None)"
  have "sk_agent ?s = Some \<lparr>ag_window = True, ag_attached = True, ag_closed = True, ag_sent = [], ag_focused = 0\<rparr>"
    "\<not> sk_completed ?s" "sk_listening ?s" "sk_emits ?s = []"
    by (simp_all add: sdk_parts Let_def new_sdk_def new_agent_def)
  then show ?thesis
    using closed_form_is_noticed [OF refl, of "[Checkout OpensWindow, WindowCloses]" False empty_sheet None]
    by simp
qed




lemma sheet_step:
  assumes "i \<noteq> DestroyCall" "sk_sheet s \<noteq> None"
  shows "sk_sheet (sdk_step i s) =
     (case i of UpdateCall d \<Rightarrow> (case up_order d of None \<Rightarrow> sk_sheet s
        | Some ord \<Rightarrow> map_option (\<lambda>sh. sh\<lparr>sh_order := Some ord\<rparr>) (sk_sheet s)) | _ \<Rightarrow> sk_sheet s)"
proof (cases i)
  case (FromForm e)
  with assms show ?thesis
    by (cases e) (auto simp: sdk_parts Let_def split: option.splits if_splits)
qed (use assms in \<open>auto simp: sdk_parts Let_def split: option.splits if_splits\<close>)

definition latest_order :: "sdk_input list \<Rightarrow> SheetOrder option \<Rightarrow> SheetOrder option" where
  "latest_order ins ord = fold (\<lambda>i ord. case i of UpdateCall d \<Rightarrow>
     (case up_order d of None \<Rightarrow> ord | Some new \<Rightarrow> Some new) | _ \<Rightarrow> ord) ins ord"

lemma sheet_run:
  "DestroyCall \<notin> set ins \<Longrightarrow> sk_sheet s = Some sh \<Longrightarrow>
     sk_sheet (sdk_run ins s) = Some (sh\<lparr>sh_order := latest_order ins (sh_order sh)\<rparr>)"
proof (induction ins arbitrary: s sh)
  case (Cons i ins)
  then have "i \<noteq> DestroyCall" "DestroyCall \<notin> set ins" "sk_sheet s \<noteq> None"
    by auto
  with Cons show ?case
    by (cases i) (simp_all add: latest_order_def sheet_step del: sdk_step.simps split: option.splits)
qed (simp add: latest_order_def)

lemma listening_run:
  "DestroyCall \<notin> set ins \<Longrightarrow> sdk_ok s \<Longrightarrow> sk_listening s \<Longrightarrow> sk_listening (sdk_run ins s) \<and> sdk_ok (sdk_run ins s)"
proof (induction ins arbitrary: s)
  case (Cons i ins)
  then show ?case
    using step_ok [of s i] step_paid [of s i] by (simp del: sdk_step.simps) metis
qed simp

text \<open>The form a click opens gets the sheet the shop gave with the order of the shop's latest update,
  however many updates, forms, messages and closed windows came before; the answers to the form's requests
  are updates like any other.\<close>

theorem opened_form_gets_latest_order:
  assumes stays: "DestroyCall \<notin> set ins" and free: "sk_agent (sdk_run ins (new_sdk ff sh md)) = None"
    and opens: "r \<noteq> OpenThrows"
  shows "map fst (sk_opened (sdk_run (ins @ [Checkout r]) (new_sdk ff sh md)))
     = map fst (sk_opened (sdk_run ins (new_sdk ff sh md)))
       @ [Some (sh\<lparr>sh_order := latest_order ins (sh_order sh)\<rparr>)]"
proof -
  let ?s = "sdk_run ins (new_sdk ff sh md)"
  have "sk_sheet ?s = Some (sh\<lparr>sh_order := latest_order ins (sh_order sh)\<rparr>)"
    by (rule sheet_run [OF stays]) (simp add: new_sdk_def)
  moreover have "sk_manager ?s"
    using listening_run [OF stays new_sdk_ok] by (auto simp: sdk_ok_def new_sdk_def)
  ultimately show ?thesis
    using free opens by (simp add: run_append sdk_parts Let_def)
qed

theorem opened_form_gets_latest_order_witness:
  "\<forall>ord. map fst (sk_opened (sdk_run [UpdateCall (no_update\<lparr>up_order := Some ord\<rparr>), Checkout OpensWindow]
     (new_sdk False empty_sheet None))) = [Some (empty_sheet\<lparr>sh_order := Some ord\<rparr>)]"
proof
  fix ord
  show "map fst (sk_opened (sdk_run [UpdateCall (no_update\<lparr>up_order := Some ord\<rparr>), Checkout OpensWindow]
     (new_sdk False empty_sheet None))) = [Some (empty_sheet\<lparr>sh_order := Some ord\<rparr>)]"
    using opened_form_gets_latest_order [of "[UpdateCall (no_update\<lparr>up_order := Some ord\<rparr>)]" False empty_sheet None OpensWindow]
    by (simp add: sdk_parts Let_def new_sdk_def no_update_def latest_order_def)
qed

definition sdk_gone :: "sdk \<Rightarrow> bool" where
  "sdk_gone s = (\<not> sk_listening s \<and> \<not> sk_manager s \<and> sk_agent s = None \<and> sk_sheet s = None)"

lemma gone_step:
  "sdk_gone s \<and> sk_emits s = es \<and> sk_opened s = xs \<Longrightarrow>
     sdk_gone (sdk_step i s) \<and> sk_emits (sdk_step i s) = es \<and> sk_opened (sdk_step i s) = xs"
  by (cases i) (auto simp: sdk_gone_def sdk_parts Let_def split: option.splits if_splits)

text \<open>A payment the shop destroys says nothing more: no event reaches the shop, not even that of a payment
  that went through and waits for the focus of the page, and no click opens a form.\<close>

theorem destroyed_payment_is_silent:
  "sk_emits (sdk_run (DestroyCall # ins) s) = sk_emits s \<and> sk_opened (sdk_run (DestroyCall # ins) s) = sk_opened s
     \<and> sk_agent (sdk_run (DestroyCall # ins) s) = None"
proof -
  have "sdk_gone (sdk_step DestroyCall s) \<and> sk_emits (sdk_step DestroyCall s) = sk_emits s
     \<and> sk_opened (sdk_step DestroyCall s) = sk_opened s"
    by (simp add: sdk_gone_def sdk_parts Let_def split: option.splits)
  then show ?thesis
    using run_invariant [of "\<lambda>t. sdk_gone t \<and> sk_emits t = sk_emits s \<and> sk_opened t = sk_opened s" ins
        "sdk_step DestroyCall s"] gone_step
    by (simp add: sdk_gone_def)
qed

lemma step_emits: "\<exists>after. sk_emits (sdk_step i s) = sk_emits s @ after"
proof (cases i)
  case (FromForm e)
  then show ?thesis by (cases e) (auto simp: sdk_parts Let_def split: option.splits if_splits)
qed (auto simp: sdk_parts Let_def split: option.splits if_splits)

lemma run_emits: "\<exists>after. sk_emits (sdk_run ins s) = sk_emits s @ after"
proof (induction ins arbitrary: s)
  case (Cons i ins)
  obtain a b where "sk_emits (sdk_step i s) = sk_emits s @ a" "sk_emits (sdk_run ins (sdk_step i s)) = sk_emits (sdk_step i s) @ b"
    using step_emits [of i s] Cons.IH [of "sdk_step i s"] by blast
  then show ?case by simp
qed simp

text \<open>C22: A payment is marked as completed only when its counter has been sent.  So whenever a form is open and
  the payment has not ended, a form that closes itself after it has told of a payment, with the timer's tick
  before the counter's answer, is reported as abandoned, and the shop can already open a second form; once
  the counter and the page's focus have come, the shop hears that it was paid, after it heard that it was
  abandoned.\<close>

theorem paid_form_reported_abandoned:
  assumes run: "s = sdk_run ins (new_sdk ff sh md)" and stays: "DestroyCall \<notin> set (ins @ rest)"
    and opened: "sk_agent s \<noteq> None" "\<not> sk_completed s" and paid: "is_paid e"
    and arrived: "on_their_way (sdk_run (FromForm e # WindowCloses # TimerTick # rest) s) = {#}"
  shows "sk_agent (sdk_run [FromForm e, WindowCloses, TimerTick] s) = None
    \<and> (\<exists>after. sk_emits (sdk_run (FromForm e # WindowCloses # TimerTick # rest) s) = sk_emits s @ AbortClose # after
        \<and> e \<in> set after)"
proof -
  define t where "t = sdk_run [FromForm e, WindowCloses, TimerTick] s"
  have s: "sk_listening s" "sdk_ok s"
    using listening_run [OF _ new_sdk_ok, of ins ff sh md] stays unfolding run by (auto simp: new_sdk_def)
  obtain a where a: "sk_agent s = Some a" using opened(1) by blast
  with s opened(2) have timer: "sk_timer s = Some AbortClose" "sk_manager s" by (auto simp: sdk_ok_def)
  have now: "sk_agent t = None" "sk_emits t = sk_emits s @ [AbortClose]" "sk_counting t = sk_counting s @ [e]"
    "sk_focusing t = sk_focusing s" "sk_listening t"
    using paid a timer s(1) opened(2)
    unfolding t_def by (cases e; simp add: sdk_parts Let_def sk_connected_def ag_isConnected_def)+
  have split_run: "sdk_run (FromForm e # WindowCloses # TimerTick # rest) s = sdk_run rest t" by (simp add: t_def)
  obtain after where after: "sk_emits (sdk_run rest t) = sk_emits t @ after" using run_emits by blast
  have ok: "sdk_ok t" unfolding t_def by (rule run_ok [OF s(2)])
  have "given_out (sdk_run rest t) = given_out t + on_their_way t + mset (concat (map paid_of rest))"
    using run_paid [OF ok now(5), of rest] stays arrived unfolding split_run by simp
  then have "count (given_out t) e + count (on_their_way t) e \<le> count (given_out (sdk_run rest t)) e" by simp
  moreover have "0 < count (on_their_way t) e" by (simp add: on_their_way_def now(3))
  moreover have "count (given_out (sdk_run rest t)) e = count (given_out t) e + count (mset after) e"
    using paid by (simp add: given_out_def after)
  ultimately have "0 < count (mset after) e" by linarith
  then have "e \<in> set after" using count_inI by fastforce
  then show ?thesis using now(1,2) after unfolding split_run by (simp add: t_def)
qed

theorem paid_form_reported_abandoned_witness:
  "sk_emits (sdk_run [Checkout OpensWindow, FromForm (SuccessEvent ''order'' None), WindowCloses, TimerTick,
       CounterDone 0, FocusDone 0] (new_sdk False empty_sheet None)) = [AbortClose, SuccessEvent ''order'' None]"
proof -
  let ?s = "sdk_run [Checkout OpensWindow] (new_sdk False empty_sheet None)"
  let ?ins = "[FromForm (SuccessEvent ''order'' None), WindowCloses, TimerTick, CounterDone 0, FocusDone 0]"
  have facts: "sk_agent ?s \<noteq> None" "\<not> sk_completed ?s" "sk_emits ?s = []"
    and arrived: "on_their_way (sdk_run ?ins ?s) = {#}" "length (sk_emits (sdk_run ?ins ?s)) = 2"
    by (simp_all add: on_their_way_def sdk_parts Let_def new_sdk_def new_agent_def sk_connected_def ag_isConnected_def drop_nth_def)
  obtain after where after: "sk_emits (sdk_run ?ins ?s) = AbortClose # after" "SuccessEvent ''order'' None \<in> set after"
    using paid_form_reported_abandoned [OF refl _ facts(1,2) _ arrived(1)] facts(3) by auto
  have "length after = 1" using arrived(2) after(1) by simp
  with after(2) have "after = [SuccessEvent ''order'' None]" by (cases after) auto
  with after(1) show ?thesis by simp
qed


end
