(* ===== verification/PayForm.thy ===== *)
theory PayForm
  imports ServiceMonad ProcessListeners Intercom Cards UserHelpers
begin

text \<open>
  \<open>services/pay-form\<close>: the payment form without delivery.  Its store (\<open>store/app\<close>, \<open>store/payment\<close>,
  \<open>store/user\<close>) is a Redux store: a reducer over actions.  Its thunks are services of the theory
  \<open>ServiceMonad\<close>, except for \<open>checkoutAction\<close>, whose work is done by the listeners of a \<open>CheckoutProcess\<close>
  (\<open>ProcessListeners\<close>).  A thunk that is dispatched and not awaited is a \<open>Spawn\<close>, unless it never waits; then
  it is done at once.  Counters, logs and tracking are left out.
\<close>

section \<open>The store\<close>

datatype FormScreen =
    ScOrder | ScBindCard | ScPaymentMethods | ScSuccess | ScCheckout3ds | ScCheckoutServerSuccess
  | ScSheetLoadingError | ScSheetValidatingError | ScMethodsLoadingError | ScInitializationError | ScCheckoutError

datatype FormPending =
    PdSheetLoading | PdMethodsLoading | PdBindingFormLoading | PdCardBinding | PdCheckout | PdChallenge | PdCheckout3ds

text \<open>The two descriptions of an error; its action is \<open>connection.formError\<close> with a reason and details.\<close>

datatype fe_text = PaymentWentWrong | InitWentWrong

record ActionError =
  act_description :: fe_text
  act_reason :: string
  act_details :: "string option"

record FormApp =
  fa_screen :: FormScreen
  fa_error :: "ActionError option"
  fa_pending :: "FormPending option"
  fa_auth3ds :: "(string \<times> string) option"

record FormPayment =
  fp_sheet :: Sheet
  fp_email :: string
  fp_name :: string

datatype FormMethod = CardMethodOf CardPaymentMethod | NewCardMethodOf NewCardPaymentMethod

record FormUser =
  fu_paymentMethods :: "FormMethod list"
  fu_activeKey :: "string option"
  fu_savedCard :: "string option"
  fu_cashback :: PaymentCashback

record FormState =
  fst_app :: FormApp
  fst_payment :: FormPayment
  fst_user :: FormUser

definition initialFormState :: FormState where
  "initialFormState =
     \<lparr>fst_app = \<lparr>fa_screen = ScOrder, fa_error = None, fa_pending = None, fa_auth3ds = None\<rparr>,
      fst_payment = \<lparr>fp_sheet = empty_sheet\<lparr>sh_currencyCode := Some RUB,
          sh_merchant := Some \<lparr>mr_id = [], mr_name = [], mr_url = None\<rparr>,
          sh_order := Some \<lparr>so_id = [], so_items = [], so_total = \<lparr>st_amount = ''0'', st_label = None\<rparr>\<rparr>,
          sh_paymentMethods := Some []\<rparr>, fp_email = [], fp_name = []\<rparr>,
      fst_user = \<lparr>fu_paymentMethods = [], fu_activeKey = None, fu_savedCard = None,
          fu_cashback = \<lparr>cb_amount = [], cb_category = [], cb_percents = None\<rparr>\<rparr>\<rparr>"

section \<open>The actions and the reducers\<close>

datatype form_action =
    SetScreen FormScreen
  | SetError ActionError
  | SetPending FormPending
  | ResetPending "FormPending option"
  | SetAuth3ds "string \<times> string"
  | ResetAuth3ds
  | SetSheet Sheet
  | ChangeEmail string
  | ChangeName string
  | SetPaymentMethods "FormMethod list"
  | SetActivePaymentMethodKey string
  | ResetActivePaymentMethodKey
  | SetCashback PaymentCashback
  | SetUserCard "string option"

fun app_reducer :: "form_action \<Rightarrow> FormApp \<Rightarrow> FormApp" where
  "app_reducer (SetScreen sc) a = a\<lparr>fa_screen := sc\<rparr>"
| "app_reducer (SetError e) a = a\<lparr>fa_error := Some e\<rparr>"
| "app_reducer (SetPending p) a = a\<lparr>fa_pending := Some p\<rparr>"
| "app_reducer (ResetPending p) a = (if p = None \<or> fa_pending a = p then a\<lparr>fa_pending := None\<rparr> else a)"
| "app_reducer (SetAuth3ds d) a = a\<lparr>fa_auth3ds := Some d\<rparr>"
| "app_reducer ResetAuth3ds a = a\<lparr>fa_auth3ds := None\<rparr>"
| "app_reducer _ a = a"

fun payment_reducer :: "form_action \<Rightarrow> FormPayment \<Rightarrow> FormPayment" where
  "payment_reducer (SetSheet sh) p = p\<lparr>fp_sheet := sh\<rparr>"
| "payment_reducer (ChangeEmail e) p = p\<lparr>fp_email := e\<rparr>"
| "payment_reducer (ChangeName n) p = p\<lparr>fp_name := n\<rparr>"
| "payment_reducer _ p = p"

fun user_reducer :: "form_action \<Rightarrow> FormUser \<Rightarrow> FormUser" where
  "user_reducer (SetPaymentMethods ms) u = u\<lparr>fu_paymentMethods := ms\<rparr>"
| "user_reducer (SetActivePaymentMethodKey k) u = u\<lparr>fu_activeKey := Some k\<rparr>"
| "user_reducer ResetActivePaymentMethodKey u = u\<lparr>fu_activeKey := None\<rparr>"
| "user_reducer (SetCashback c) u = u\<lparr>fu_cashback := c\<rparr>"
| "user_reducer (SetUserCard c) u = u\<lparr>fu_savedCard := c\<rparr>"
| "user_reducer _ u = u"

definition form_reducer :: "form_action \<Rightarrow> FormState \<Rightarrow> FormState" where
  "form_reducer a s =
     \<lparr>fst_app = app_reducer a (fst_app s), fst_payment = payment_reducer a (fst_payment s),
      fst_user = user_reducer a (fst_user s)\<rparr>"

section \<open>The selectors\<close>

abbreviation screen_of :: "FormState \<Rightarrow> FormScreen" where "screen_of s \<equiv> fa_screen (fst_app s)"
abbreviation pending_of :: "FormState \<Rightarrow> FormPending option" where "pending_of s \<equiv> fa_pending (fst_app s)"
abbreviation methods_of :: "FormState \<Rightarrow> FormMethod list" where "methods_of s \<equiv> fu_paymentMethods (fst_user s)"
abbreviation form_sheet :: "FormState \<Rightarrow> Sheet" where "form_sheet s \<equiv> fp_sheet (fst_payment s)"

fun fm_key :: "FormMethod \<Rightarrow> string" where
  "fm_key (CardMethodOf m) = pm_key m" | "fm_key (NewCardMethodOf m) = nc_key m"

fun fm_disabled :: "FormMethod \<Rightarrow> bool" where
  "fm_disabled (CardMethodOf m) = pm_disabled m" | "fm_disabled (NewCardMethodOf m) = nc_disabled m"

fun fm_is_new :: "FormMethod \<Rightarrow> bool" where
  "fm_is_new (CardMethodOf m) = False" | "fm_is_new (NewCardMethodOf m) = True"

text \<open>A new card has no \<open>id\<close>.\<close>

fun fm_id :: "FormMethod \<Rightarrow> string option" where
  "fm_id (CardMethodOf m) = Some (pm_id m)" | "fm_id (NewCardMethodOf m) = None"

definition form_getTotalAmount :: "tinkoff \<Rightarrow> FormState \<Rightarrow> string" where
  "form_getTotalAmount L s = po_str L ''0'' (map_option (\<lambda>ord. st_amount (so_total ord)) (sh_order (form_sheet s)))"

text \<open>\<open>getRequiredBillingFields\<close> makes an object with \<open>email\<close> only: its \<open>name\<close> is undefined.\<close>

record billing_fields =
  bf_email :: bool
  bf_name :: "bool option"

definition billingFields :: "tinkoff \<Rightarrow> Sheet \<Rightarrow> billing_fields option" where
  "billingFields L sheet = map_option (\<lambda>e. \<lparr>bf_email = e, bf_name = None\<rparr>) (getRequiredBillingFields L sheet)"

record BillingContactInfo =
  bi_email :: "string option"
  bi_name :: "string option"

definition form_getBillingContact :: "tinkoff \<Rightarrow> FormState \<Rightarrow> BillingContactInfo" where
  "form_getBillingContact L s =
     (case billingFields L (form_sheet s) of
        None \<Rightarrow> \<lparr>bi_email = None, bi_name = None\<rparr>
      | Some f \<Rightarrow> \<lparr>bi_email = (if bf_email f then Some (fp_email (fst_payment s)) else None),
                   bi_name = (if bf_name f = Some True then Some (fp_name (fst_payment s)) else None)\<rparr>)"

text \<open>\<open>helpers/required-fields.ts\<close>: what the form asks the user for; email and name.\<close>

definition getBillingRequiredFields :: "tinkoff \<Rightarrow> Sheet \<Rightarrow> bool \<times> bool" where
  "getBillingRequiredFields L sheet =
     (let b = path_in (sh_requiredFields sheet) rf_billingContact
      in (po_bool L False (Option.bind b rbf_email), po_bool L False (Option.bind b rbf_name)))"

definition form_getActivePaymentMethod :: "FormState \<Rightarrow> FormMethod option" where
  "form_getActivePaymentMethod s = find (\<lambda>m. Some (fm_key m) = fu_activeKey (fst_user s)) (methods_of s)"

definition getEnabledPaymentMethods :: "FormState \<Rightarrow> FormMethod list" where
  "getEnabledPaymentMethods s = filter (\<lambda>m. \<not> fm_disabled m \<and> \<not> fm_is_new m) (methods_of s)"

definition head_of :: "'a list \<Rightarrow> 'a option" where
  "head_of xs = (case xs of [] \<Rightarrow> None | x # _ \<Rightarrow> Some x)"

definition getFirstPaymentMethod :: "FormState \<Rightarrow> FormMethod option" where
  "getFirstPaymentMethod s =
     (let enabled = getEnabledPaymentMethods s in if enabled \<noteq> [] then Some (enabled ! 0) else head_of (methods_of s))"

definition getPaymentMethodByCardId :: "FormState \<Rightarrow> string \<Rightarrow> FormMethod option" where
  "getPaymentMethodByCardId s cardId = find (\<lambda>m. fm_id m = Some cardId) (methods_of s)"

text \<open>Whether the button to pay is disabled (\<open>containers/order.tsx\<close>).\<close>

definition checkButtonDisabled :: "bool \<Rightarrow> bool \<Rightarrow> bool \<Rightarrow> bool \<Rightarrow> FormMethod option \<Rightarrow> bool" where
  "checkButtonDisabled emailValid emailRequired nameValid nameRequired activeMethod =
     (if emailRequired \<and> \<not> emailValid \<or> nameRequired \<and> \<not> nameValid then True
      else case activeMethod of None \<Rightarrow> False | Some m \<Rightarrow> fm_disabled m)"

section \<open>Payment methods\<close>

text \<open>\<open>helpers/payment-method.ts\<close>.\<close>

definition findNewPaymentMethod :: "FormMethod list \<Rightarrow> FormMethod list \<Rightarrow> FormMethod option" where
  "findNewPaymentMethod old new =
     (let oldIds = map fm_id old in find (\<lambda>m. \<not> fm_is_new m \<and> fm_id m \<notin> set oldIds) new)"

definition FORM_MAX_BOUND_CARDS :: nat where "FORM_MAX_BOUND_CARDS = 5"

definition form_methods :: "tinkoff \<Rightarrow> Sheet \<Rightarrow> string option \<Rightarrow> UserCard list \<Rightarrow> FormMethod list" where
  "form_methods L sheet savedCardId cs =
     (let cards = (case savedCardId of None \<Rightarrow> cs | Some i \<Rightarrow> sortUserCards cs i);
          methods = map CardMethodOf (getPaymentMethodsByUserCards cards (getDisabledCardsIds L cards sheet))
      in if length methods < FORM_MAX_BOUND_CARDS then methods @ [NewCardMethodOf createNewCardPaymentMethod] else methods)"

section \<open>The thunks\<close>

datatype form_request =
    FqPing
  | FqSheet
  | FqServerSheet Sheet
  | FqValidate string Sheet
  | FqSettings
  | FqSaveSettings "string option"
  | FqCashback Sheet "string option"
  | FqCards
  | FqSyncCard string

datatype form_response =
    FrSheet Sheet
  | FrSettings "string option"
  | FrCashback PaymentCashback
  | FrCards "UserCard list"
  | FrOther

fun fr_sheet :: "form_response \<Rightarrow> Sheet option" where "fr_sheet (FrSheet sh) = Some sh" | "fr_sheet _ = None"
fun fr_settings :: "form_response \<Rightarrow> string option option" where "fr_settings (FrSettings c) = Some c" | "fr_settings _ = None"
fun fr_cashback :: "form_response \<Rightarrow> PaymentCashback option" where "fr_cashback (FrCashback c) = Some c" | "fr_cashback _ = None"
fun fr_cards :: "form_response \<Rightarrow> UserCard list option" where "fr_cards (FrCards cs) = Some cs" | "fr_cards _ = None"
definition fr_any :: "form_response \<Rightarrow> unit option" where "fr_any r = Some ()"

text \<open>\<open>dispatch(checkoutAction(cardId))\<close>.\<close>

datatype form_effect = FeCheckout string

record form_env =
  fv_lib :: tinkoff
  fv_code :: "int \<Rightarrow> int option \<Rightarrow> int"
  fv_isPayServer :: bool
  fv_email :: string
  fv_name :: string
  fv_challengeNum :: jsnum
  fv_challengeCardId :: string
  fv_origin :: string

type_synonym thunk = "(FormState, form_request, form_response, form_effect, caught) prog"

definition form_type_error :: caught where
  "form_type_error = \<lparr>cg_text = ''TypeError'', cg_is_string = False, cg_code = None, cg_message = None, cg_params = None\<rparr>"

definition dispatch :: "form_action \<Rightarrow> thunk" where
  "dispatch a = set_state (form_reducer a)"

definition form_ask :: "form_request \<Rightarrow> (form_response \<Rightarrow> 'b option) \<Rightarrow> ('b \<Rightarrow> thunk) \<Rightarrow> thunk" where
  "form_ask q get k = asking q (\<lambda>a. case get a of None \<Rightarrow> throwing form_type_error | Some x \<Rightarrow> k x)"

definition thunks :: "thunk list \<Rightarrow> thunk" where
  "thunks ps = foldr await ps fin"

text \<open>\<open>try { p } catch (e) { h(e) } finally { f }\<close>.\<close>

definition try_finally :: "thunk \<Rightarrow> (caught \<Rightarrow> thunk) \<Rightarrow> thunk \<Rightarrow> thunk" where
  "try_finally p h f = handing_on (try_catching p h) (\<lambda>r. await f (End r))"

abbreviation redirectTo :: "FormScreen \<Rightarrow> thunk" where "redirectTo sc \<equiv> dispatch (SetScreen sc)"

definition redirectToNewCardAction :: thunk where
  "redirectToNewCardAction = Look (\<lambda>s.
     if list_ex fm_is_new (methods_of s)
     then thunks [dispatch (SetPending PdBindingFormLoading), redirectTo ScBindCard] else fin)"

definition loadCashbackAction :: "string option \<Rightarrow> thunk" where
  "loadCashbackAction cardId = Look (\<lambda>s.
     form_ask (FqCashback (form_sheet s) cardId) fr_cashback (\<lambda>c. dispatch (SetCashback c)))"

definition setActivePaymentMethodAction :: "FormMethod option \<Rightarrow> bool \<Rightarrow> thunk" where
  "setActivePaymentMethodAction m skipSave =
     (case m of
        Some (NewCardMethodOf n) \<Rightarrow> redirectToNewCardAction
      | Some (CardMethodOf c) \<Rightarrow>
          await (dispatch (SetActivePaymentMethodKey (pm_key c)))
            (Spawn (loadCashbackAction (Some (pm_id c)))
              ((if skipSave then (\<lambda>p. p) else Spawn (form_ask (FqSaveSettings (Some (pm_id c))) fr_any (\<lambda>_. fin)))
                (redirectTo ScOrder)))
      | None \<Rightarrow> thunks [dispatch ResetActivePaymentMethodKey, redirectTo ScOrder])"

definition refreshPaymentMethodsAction :: "form_env \<Rightarrow> thunk" where
  "refreshPaymentMethodsAction ev =
     await (dispatch (SetPending PdMethodsLoading))
       (try_finally
         (Look (\<lambda>s. let savedCardId = fu_savedCard (fst_user s) in
            form_ask FqCards fr_cards (\<lambda>cs. Look (\<lambda>s.
              dispatch (SetPaymentMethods (form_methods (fv_lib ev) (form_sheet s) savedCardId cs))))))
         (\<lambda>e. thunks [redirectTo ScMethodsLoadingError, throwing e])
         (dispatch (ResetPending None)))"

definition selectBindedPaymentMethodAction :: "form_env \<Rightarrow> string \<Rightarrow> thunk" where
  "selectBindedPaymentMethodAction ev cardId =
     try_catching
       (form_ask (FqSyncCard cardId) fr_any (\<lambda>_. Look (\<lambda>s. let old = methods_of s in
          await (refreshPaymentMethodsAction ev) (Look (\<lambda>s.
            let newMethod = findNewPaymentMethod old (methods_of s);
                nextMethod = (if newMethod \<noteq> None then newMethod else form_getActivePaymentMethod s);
                setMethod = (if nextMethod \<noteq> None then nextMethod else getFirstPaymentMethod s)
            in Spawn (setActivePaymentMethodAction setMethod False) fin)))))
       (\<lambda>e. thunks [redirectTo ScMethodsLoadingError, throwing e])"

definition loadUserStateAction :: thunk where
  "loadUserStateAction =
     try_catching (form_ask FqSettings fr_settings (\<lambda>c. dispatch (SetUserCard c))) (\<lambda>e. fin)"

text \<open>The validation of the sheet, or its reply of the server of orders.\<close>

definition checked_sheet :: "form_env \<Rightarrow> Sheet \<Rightarrow> (Sheet \<Rightarrow> thunk) \<Rightarrow> thunk" where
  "checked_sheet ev sheet k =
     (if fv_isPayServer ev then form_ask (FqServerSheet sheet) fr_sheet k
      else form_ask (FqValidate (fv_origin ev) sheet) fr_any (\<lambda>_. k sheet))"

definition waitForSheetAction :: "form_env \<Rightarrow> thunk" where
  "waitForSheetAction ev =
     await (dispatch (SetPending PdSheetLoading))
       (try_finally
         (form_ask FqSheet fr_sheet (\<lambda>sheet0. checked_sheet ev sheet0 (\<lambda>sheet.
            let (emailRequired, nameRequired) = getBillingRequiredFields (fv_lib ev) sheet in
            thunks [dispatch (SetSheet sheet),
              if emailRequired then dispatch (ChangeEmail (fv_email ev)) else fin,
              if nameRequired then dispatch (ChangeName (fv_name ev)) else fin,
              redirectTo ScOrder])))
         (\<lambda>e. thunks [redirectTo (if isError4xx (fv_code ev) e then ScSheetValidatingError else ScSheetLoadingError), throwing e])
         (dispatch (ResetPending None)))"

definition init_error :: "form_env \<Rightarrow> caught \<Rightarrow> ActionError" where
  "init_error ev e = \<lparr>act_description = InitWentWrong, act_reason = errorReason (fv_lib ev) e, act_details = errorDetails e\<rparr>"

definition challenge_waits :: "form_env \<Rightarrow> bool" where
  "challenge_waits ev = (js_less (Fin 0) (fv_challengeNum ev) \<and> fv_challengeCardId ev \<noteq> [])"

text \<open>The end of the start, when the first method was chosen.\<close>

definition after_choice :: "form_env \<Rightarrow> thunk" where
  "after_choice ev = Look (\<lambda>s. await
     (if map_option fm_disabled (form_getActivePaymentMethod s) = Some True then redirectToNewCardAction else fin)
     (if challenge_waits ev then Emit (FeCheckout (fv_challengeCardId ev)) fin else fin))"

definition initializeAction :: "form_env \<Rightarrow> thunk" where
  "initializeAction ev =
     Spawn (try_catching (form_ask FqPing fr_any (\<lambda>_. fin)) (\<lambda>e. fin))
       (try_catching
         (await (All [waitForSheetAction ev, loadUserStateAction] End)
           (Look (\<lambda>s. Spawn (loadCashbackAction (fu_savedCard (fst_user s)))
             (await (refreshPaymentMethodsAction ev)
               (Look (\<lambda>s. await (setActivePaymentMethodAction (getFirstPaymentMethod s) True) (after_choice ev)))))))
         (\<lambda>e. thunks [redirectTo ScInitializationError, dispatch (SetError (init_error ev e))]))"

section \<open>The list of payment methods\<close>

text \<open>The list holds cards with keys made from their ids, and the entry for a new card exactly when there is
  room for one: a user without cards has that entry. Only before the cards are first loaded is the list
  empty; the active method is a card.\<close>

definition card_keyed :: "CardPaymentMethod \<Rightarrow> bool" where
  "card_keyed m = (pm_key m = ''CARD'' @ pm_id m)"

definition methods_ok :: "FormMethod list \<Rightarrow> bool" where
  "methods_ok ms = (\<exists>cs. list_all card_keyed cs
     \<and> ms = map CardMethodOf cs @ (if length cs < FORM_MAX_BOUND_CARDS then [NewCardMethodOf createNewCardPaymentMethod] else []))"

definition form_ok :: "FormState \<Rightarrow> bool" where
  "form_ok s = ((methods_of s = [] \<or> methods_ok (methods_of s)) \<and> (\<forall>k. fu_activeKey (fst_user s) = Some k \<longrightarrow> take 4 k = ''CARD''))"

lemma form_methods_ok: "methods_ok (form_methods L sheet saved cs)"
proof -
  have "list_all card_keyed (getPaymentMethodsByUserCards cs' ids)" for cs' ids
    by (simp add: getPaymentMethodsByUserCards_def list_all_iff card_keyed_def getPaymentMethodByUserCard_def
        getPaymentMethodByBankCard_def)
  then show ?thesis
    unfolding methods_ok_def form_methods_def Let_def by (auto split: option.split)
qed

lemma methods_ok_card: "methods_ok ms \<Longrightarrow> CardMethodOf c \<in> set ms \<Longrightarrow> card_keyed c"
  by (auto simp: methods_ok_def list_all_iff split: if_splits)

lemma reducer_slices [simp]:
  "fst_app (form_reducer a s) = app_reducer a (fst_app s)"
  "fst_payment (form_reducer a s) = payment_reducer a (fst_payment s)"
  "fst_user (form_reducer a s) = user_reducer a (fst_user s)"
  by (simp_all add: form_reducer_def)

abbreviation any_reply :: "form_request \<Rightarrow> caught + form_response \<Rightarrow> bool" where
  "any_reply \<equiv> (\<lambda>q r. True)"

abbreviation form_kept :: "thunk \<Rightarrow> bool" where "form_kept p \<equiv> keeps form_ok any_reply p"

lemma form_kept_dispatch [simp]:
  "form_kept (dispatch a) \<longleftrightarrow> (\<forall>s. form_ok s \<longrightarrow> form_ok (form_reducer a s))"
  by (simp add: dispatch_def)

lemma form_kept_ask [intro!]: "(\<And>x. form_kept (k x)) \<Longrightarrow> form_kept (form_ask q get k)"
  by (auto simp: form_ask_def split: option.split)

lemma form_kept_thunks [simp]: "(\<forall>p \<in> set ps. form_kept p) \<Longrightarrow> form_kept (thunks ps)"
  by (induction ps) (auto simp: thunks_def)

lemma form_kept_finally [intro!]:
  "form_kept p \<Longrightarrow> (\<And>e. form_kept (h e)) \<Longrightarrow> form_kept f \<Longrightarrow> form_kept (try_finally p h f)"
  unfolding try_finally_def by (auto intro!: keeps_handing_on)

end
