(* ===== verification/PayFormStart.thy ===== *)
theory PayFormStart
  imports PayForm
begin

text \<open>What the thunks of the payment form achieve: its list of methods stays well formed, and what its start
  selects, shows and leaves unhandled.\<close>

section \<open>The thunks keep the list well formed\<close>

definition plain_action :: "form_action \<Rightarrow> bool" where
  "plain_action a = (case a of SetPaymentMethods ms \<Rightarrow> methods_ok ms | SetActivePaymentMethodKey k \<Rightarrow> take 4 k = ''CARD'' | _ \<Rightarrow> True)"

lemma plain_kept [simp]: "plain_action a \<Longrightarrow> form_ok s \<Longrightarrow> form_ok (form_reducer a s)"
  by (cases a) (auto simp: plain_action_def form_ok_def)

lemma new_card_kept [simp]: "form_kept redirectToNewCardAction"
  by (auto simp: redirectToNewCardAction_def plain_action_def)

lemma cashback_kept [simp]: "form_kept (loadCashbackAction i)"
  by (auto simp: loadCashbackAction_def plain_action_def)

lemma select_kept: "(\<And>c. m = Some (CardMethodOf c) \<Longrightarrow> card_keyed c) \<Longrightarrow> form_kept (setActivePaymentMethodAction m k)"
  unfolding setActivePaymentMethodAction_def
  by (auto intro!: keeps_await simp: plain_action_def card_keyed_def split: option.split FormMethod.split)

lemma refresh_kept [simp]: "form_kept (refreshPaymentMethodsAction ev)"
  unfolding refreshPaymentMethodsAction_def Let_def
  by (intro keeps_await form_kept_finally) (auto simp: plain_action_def form_methods_ok)

lemma find_method: "find P ms = Some m \<Longrightarrow> m \<in> set ms \<and> P m"
  by (induction ms) (auto split: if_splits)

lemma chosen_keyed:
  assumes "form_ok s"
  shows "findNewPaymentMethod old (methods_of s) = Some (CardMethodOf c) \<Longrightarrow> card_keyed c"
    "form_getActivePaymentMethod s = Some (CardMethodOf c) \<Longrightarrow> card_keyed c"
    "getFirstPaymentMethod s = Some (CardMethodOf c) \<Longrightarrow> card_keyed c"
proof -
  have m: "CardMethodOf c \<in> set (methods_of s) \<Longrightarrow> card_keyed c"
    using assms methods_ok_card unfolding form_ok_def by force
  show "findNewPaymentMethod old (methods_of s) = Some (CardMethodOf c) \<Longrightarrow> card_keyed c"
    unfolding findNewPaymentMethod_def Let_def by (drule find_method) (simp add: m)
  show "form_getActivePaymentMethod s = Some (CardMethodOf c) \<Longrightarrow> card_keyed c"
    unfolding form_getActivePaymentMethod_def by (drule find_method) (simp add: m)
  have "x \<in> set (methods_of s)" if "getFirstPaymentMethod s = Some x" for x
  proof (cases "getEnabledPaymentMethods s = []")
    case True
    then show ?thesis using that by (auto simp: getFirstPaymentMethod_def head_of_def split: list.splits)
  next
    case False
    then have "getEnabledPaymentMethods s ! 0 \<in> set (getEnabledPaymentMethods s)" by (intro nth_mem) simp
    then show ?thesis using that False by (auto simp: getFirstPaymentMethod_def getEnabledPaymentMethods_def)
  qed
  then show "getFirstPaymentMethod s = Some (CardMethodOf c) \<Longrightarrow> card_keyed c" using m by blast
qed

lemma bind_kept [simp]: "form_kept (selectBindedPaymentMethodAction ev i)"
proof -
  have "form_kept (Look (\<lambda>s.
      let newMethod = findNewPaymentMethod old (methods_of s);
          nextMethod = (if newMethod \<noteq> None then newMethod else form_getActivePaymentMethod s);
          setMethod = (if nextMethod \<noteq> None then nextMethod else getFirstPaymentMethod s)
      in Spawn (setActivePaymentMethodAction setMethod False) fin))" for old
    using chosen_keyed by (auto simp: Let_def intro!: select_kept)
  then show ?thesis
    unfolding selectBindedPaymentMethodAction_def Let_def
    by (intro keeps_try form_kept_ask) (auto simp: plain_action_def)
qed

lemma settings_kept [simp]: "form_kept loadUserStateAction"
  unfolding loadUserStateAction_def by (intro keeps_try form_kept_ask) (auto simp: plain_action_def)

lemma sheet_kept [simp]: "form_kept (waitForSheetAction ev)"
  unfolding waitForSheetAction_def checked_sheet_def Let_def
  by (intro keeps_await form_kept_finally form_kept_ask) (auto simp: plain_action_def split: prod.split)

lemma init_kept [simp]: "form_kept (initializeAction ev)"
proof -
  have "form_kept (setActivePaymentMethodAction (getFirstPaymentMethod s) True)" if "form_ok s" for s
    using chosen_keyed(3) [OF that] by (rule select_kept)
  then show ?thesis
    unfolding initializeAction_def
    by (auto intro!: keeps_try keeps_await simp: after_choice_def plain_action_def)
qed

text \<open>What the interface starts.\<close>

datatype form_call =
    StartForm
  | ChooseMethod nat
  | AddCard
  | CardBound string
  | Navigate FormScreen
  | TypeEmail string
  | TypeName string
  | Pending FormPending
  | PendingOver

fun form_thunk :: "form_env \<Rightarrow> form_call \<Rightarrow> thunk" where
  "form_thunk ev StartForm = initializeAction ev"
| "form_thunk ev (ChooseMethod i) = Look (\<lambda>s.
     if i < length (methods_of s) then setActivePaymentMethodAction (Some (methods_of s ! i)) False else fin)"
| "form_thunk ev AddCard = redirectToNewCardAction"
| "form_thunk ev (CardBound i) = selectBindedPaymentMethodAction ev i"
| "form_thunk ev (Navigate sc) = redirectTo sc"
| "form_thunk ev (TypeEmail e) = dispatch (ChangeEmail e)"
| "form_thunk ev (TypeName n) = dispatch (ChangeName n)"
| "form_thunk ev (Pending p) = dispatch (SetPending p)"
| "form_thunk ev PendingOver = dispatch (ResetPending None)"

lemma form_thunk_kept: "form_kept (form_thunk ev c)"
proof (cases c)
  case (ChooseMethod i)
  have "form_kept (setActivePaymentMethodAction (Some (methods_of s ! i)) False)"
    if "form_ok s" "i < length (methods_of s)" for s
  proof (rule select_kept)
    fix c assume "Some (methods_of s ! i) = Some (CardMethodOf c)"
    then have "CardMethodOf c \<in> set (methods_of s)" using nth_mem [OF that(2)] by simp
    with that(1) show "card_keyed c" unfolding form_ok_def using methods_ok_card by force
  qed
  then show ?thesis using ChooseMethod by simp
qed (simp_all add: plain_action_def)

section \<open>Thunks running alone\<close>

definition starting :: "thunk \<Rightarrow> (FormState, form_request, form_response, form_effect, caught) ServiceMonad.outcome
    \<Rightarrow> (FormState, form_request, form_response, form_effect, caught) ServiceMonad.outcome" where
  "starting p m = (case m of (s, sp, xs, r) \<Rightarrow> (s, p # sp, xs, r))"

lemma starting_simps [simp]: "and_on (starting p m) k = starting p (and_on m k)"
  "starting p (s, sp, xs, r) = (s, p # sp, xs, r)"
  by (simp_all add: starting_def and_on_def split: prod.split)

lemma started_set: "fst (snd (starting p m)) = p # fst (snd m)"
  by (simp add: starting_def split: prod.split)

lemma run_starting: "run orc (Spawn p q) s = starting p (run orc q s)"
  by (simp add: starting_def and_on_def split: prod.split)

lemma run_dispatch [simp]: "run orc (dispatch a) s = (form_reducer a s, [], [], None)"
  by (simp add: dispatch_def)

lemma run_form_ask: "run orc (form_ask q get k) s =
    (case orc q of Inl e \<Rightarrow> (s, [], [], Some e)
     | Inr a \<Rightarrow> (case get a of None \<Rightarrow> (s, [], [], Some form_type_error) | Some x \<Rightarrow> run orc (k x) s))"
  by (simp add: form_ask_def split: sum.split option.split)

lemma run_thunks: "run orc (thunks []) s = (s, [], [], None)" "run orc (thunks (p # ps)) s = run orc (await p (thunks ps)) s"
  by (simp_all add: thunks_def)

lemma run_finally: "run orc (try_finally p h f) s
    = and_on (run orc (try_catching p h) s) (\<lambda>r. run orc (await f (End r)))"
  by (simp add: try_finally_def run_handing_on)

lemmas form_runs = run_form_ask run_thunks run_finally run_simps

section \<open>The list is loaded, and never lost\<close>

text \<open>An update leaves the list of methods alone, or puts a well-formed one there.\<close>

definition list_moves :: "FormState \<Rightarrow> FormState \<Rightarrow> bool" where
  "list_moves s s' = (methods_of s' = methods_of s \<or> methods_ok (methods_of s'))"

abbreviation form_moves :: "thunk \<Rightarrow> bool" where "form_moves p \<equiv> moves list_moves p"

lemma list_moves_order: "reflp list_moves" "transp list_moves"
  by (auto simp: list_moves_def intro!: reflpI transpI)

lemma moves_dispatch [simp]:
  "(case a of SetPaymentMethods ms \<Rightarrow> methods_ok ms | _ \<Rightarrow> True) \<Longrightarrow> form_moves (dispatch a)"
  by (cases a) (auto simp: dispatch_def list_moves_def)

lemma moves_ask [intro!]: "(\<And>x. form_moves (k x)) \<Longrightarrow> form_moves (form_ask q get k)"
  by (auto simp: form_ask_def split: option.split)

lemma moves_thunks [simp]: "(\<forall>p \<in> set ps. form_moves p) \<Longrightarrow> form_moves (thunks ps)"
  by (induction ps) (auto simp: thunks_def intro: moves_combinators)

lemma moves_finally [intro!]:
  "form_moves p \<Longrightarrow> (\<And>e. form_moves (h e)) \<Longrightarrow> form_moves f \<Longrightarrow> form_moves (try_finally p h f)"
  unfolding try_finally_def by (auto intro!: moves_handing_on moves_combinators)

lemma thunks_move [simp]:
  "form_moves redirectToNewCardAction" "form_moves (loadCashbackAction i)"
  "form_moves (refreshPaymentMethodsAction ev)" "form_moves loadUserStateAction" "form_moves (waitForSheetAction ev)"
proof -
  show "form_moves redirectToNewCardAction" by (auto simp: redirectToNewCardAction_def)
  show "form_moves (loadCashbackAction i)" by (auto simp: loadCashbackAction_def)
  show "form_moves (refreshPaymentMethodsAction ev)"
    unfolding refreshPaymentMethodsAction_def Let_def
    by (intro moves_combinators moves_finally) (auto simp: form_methods_ok)
  show "form_moves loadUserStateAction"
    unfolding loadUserStateAction_def by (intro moves_combinators moves_ask) auto
  show "form_moves (waitForSheetAction ev)"
    unfolding waitForSheetAction_def checked_sheet_def Let_def
    by (intro moves_combinators moves_finally moves_ask) (auto split: prod.split)
qed

lemma select_moves [simp]: "form_moves (setActivePaymentMethodAction m k)"
  unfolding setActivePaymentMethodAction_def
  by (auto intro!: moves_combinators split: option.split FormMethod.split)

lemma bind_moves [simp]: "form_moves (selectBindedPaymentMethodAction ev i)"
  unfolding selectBindedPaymentMethodAction_def Let_def
  by (auto intro!: moves_combinators)

lemma init_moves [simp]: "form_moves (initializeAction ev)"
  unfolding initializeAction_def by (auto intro!: moves_combinators simp: after_choice_def)

lemma form_thunk_moves: "form_moves (form_thunk ev c)"
  by (cases c) simp_all

lemma refresh_loads:
  assumes "run orc (refreshPaymentMethodsAction ev) s = (s', sp, xs, None)"
  shows "methods_ok (methods_of s')"
  using assms
  by (auto simp: refreshPaymentMethodsAction_def form_runs Let_def form_methods_ok split: sum.splits option.splits)

text \<open>C11: Whatever the user starts in the payment form, in whatever order the steps of its thunks come and
  whatever is answered: its methods are cards followed by one entry for a new card, which is there exactly
  when fewer than five cards are, so that a user without cards has it.  The list is empty only before the
  first load, a load that ends without an error has put such a list there, and once there is one it is never
  lost.  The active method is a card, never the entry for a new one.\<close>

theorem form_methods_stay_ok:
  assumes "(cstep any_reply)\<^sup>*\<^sup>* (initialFormState, image_mset (form_thunk ev) calls, []) c"
    "(cstep any_reply)\<^sup>*\<^sup>* c d"
  shows "(methods_of (fst c) = [] \<or> methods_ok (methods_of (fst c)))
    \<and> (methods_of (fst c) \<noteq> [] \<longrightarrow> methods_ok (methods_of (fst d)))
    \<and> (run orc (refreshPaymentMethodsAction ev) (fst c) = (s', sp, xs, None) \<longrightarrow> methods_ok (methods_of s'))
    \<and> map_option fm_is_new (form_getActivePaymentMethod (fst c)) \<noteq> Some True"
proof -
  let ?start = "(initialFormState, image_mset (form_thunk ev) calls, [])"
  have "form_ok initialFormState" by (simp add: form_ok_def initialFormState_def)
  then have ok: "form_ok (fst c)"
    using reachable_keeps [OF assms(1), of form_ok] form_thunk_kept by auto
  have "\<forall>p \<in># fst (snd ?start). form_moves p" using form_thunk_moves by auto
  from reachable_moves [OF assms(1) this list_moves_order]
  have "list_moves (fst c) (fst d)" using reachable_moves [OF assms(2) _ list_moves_order] by blast
  then have kept: "methods_of (fst c) \<noteq> [] \<longrightarrow> methods_ok (methods_of (fst d))"
    using ok by (auto simp: list_moves_def form_ok_def)
  have "\<not> fm_is_new m" if "form_getActivePaymentMethod (fst c) = Some m" for m
  proof -
    have m: "m \<in> set (methods_of (fst c))" and k: "fu_activeKey (fst_user (fst c)) = Some (fm_key m)"
      using that unfolding form_getActivePaymentMethod_def by (auto dest!: find_method)
    then have "take 4 (fm_key m) = ''CARD''" using ok by (auto simp: form_ok_def)
    then show ?thesis
      using m ok by (auto simp: form_ok_def methods_ok_def createNewCardPaymentMethod_def NEW_CARD_KEY_def split: if_splits)
  qed
  then show ?thesis using ok kept refresh_loads by (auto simp: form_ok_def)
qed

section \<open>The start of the form\<close>

definition sheet_stored :: "form_env \<Rightarrow> Sheet \<Rightarrow> FormState \<Rightarrow> FormState" where
  "sheet_stored ev sheet s =
     (let (emailRequired, nameRequired) = getBillingRequiredFields (fv_lib ev) sheet;
          s1 = form_reducer (SetSheet sheet) s;
          s2 = (if emailRequired then form_reducer (ChangeEmail (fv_email ev)) s1 else s1);
          s3 = (if nameRequired then form_reducer (ChangeName (fv_name ev)) s2 else s2)
      in form_reducer (ResetPending None) (form_reducer (SetScreen ScOrder) s3))"

text \<open>The sheet the form works with: the validated one, or the one of the server of orders.\<close>

definition sheet_reply :: "form_env \<Rightarrow> (form_request \<Rightarrow> caught + form_response) \<Rightarrow> caught + Sheet" where
  "sheet_reply ev orc =
     (case orc FqSheet of
        Inl e \<Rightarrow> Inl e
      | Inr a \<Rightarrow> (case fr_sheet a of None \<Rightarrow> Inl form_type_error
          | Some sheet0 \<Rightarrow> if fv_isPayServer ev
              then (case orc (FqServerSheet sheet0) of Inl e \<Rightarrow> Inl e
                 | Inr b \<Rightarrow> (case fr_sheet b of None \<Rightarrow> Inl form_type_error | Some sheet \<Rightarrow> Inr sheet))
              else (case orc (FqValidate (fv_origin ev) sheet0) of Inl e \<Rightarrow> Inl e | Inr b \<Rightarrow> Inr sheet0)))"

lemma reset_same [simp]: "form_reducer (ResetPending None) (form_reducer (SetPending p) s) = form_reducer (ResetPending None) s"
  by (simp add: form_reducer_def)

lemma run_waitForSheet:
  "run orc (waitForSheetAction ev) s =
     (case sheet_reply ev orc of
        Inr sheet \<Rightarrow> (sheet_stored ev sheet (form_reducer (SetPending PdSheetLoading) s), [], [], None)
      | Inl e \<Rightarrow> (form_reducer (ResetPending None) (form_reducer
           (SetScreen (if isError4xx (fv_code ev) e then ScSheetValidatingError else ScSheetLoadingError))
           (form_reducer (SetPending PdSheetLoading) s)), [], [], Some e))"
  by (auto simp: waitForSheetAction_def checked_sheet_def form_runs sheet_reply_def sheet_stored_def fr_any_def Let_def
      split: sum.split option.split prod.split)

definition settings_loaded :: "(form_request \<Rightarrow> caught + form_response) \<Rightarrow> FormState \<Rightarrow> FormState" where
  "settings_loaded orc s =
     (case orc FqSettings of Inl e \<Rightarrow> s
      | Inr a \<Rightarrow> (case fr_settings a of None \<Rightarrow> s | Some c \<Rightarrow> form_reducer (SetUserCard c) s))"

lemma run_loadUserState: "run orc loadUserStateAction s = (settings_loaded orc s, [], [], None)"
  by (simp add: loadUserStateAction_def form_runs settings_loaded_def split: sum.split option.split)

text \<open>A sheet that the server refuses is never shown as refused: the screen for it is set, and the start of
  the form, which catches the same error, puts the screen of a failed start over it.\<close>

theorem refused_sheet_screen_is_lost:
  assumes "sheet_reply ev orc = Inl e" "isError4xx (fv_code ev) e"
  shows "screen_of (fst (run orc (waitForSheetAction ev) s)) = ScSheetValidatingError
    \<and> screen_of (fst (run orc (initializeAction ev) s)) = ScInitializationError
    \<and> fa_error (fst_app (fst (run orc (initializeAction ev) s))) = Some (init_error ev e)"
  using assms
  by (simp add: initializeAction_def run_waitForSheet run_loadUserState form_runs)

definition lone_env :: form_env where
  "lone_env = \<lparr>fv_lib = std_tinkoff, fv_code = (\<lambda>d c. case c of None \<Rightarrow> d | Some x \<Rightarrow> x), fv_isPayServer = False, fv_email = ''e'',
     fv_name = ''n'', fv_challengeNum = Fin 0, fv_challengeCardId = [], fv_origin = ''https://shop''\<rparr>"

definition refused :: caught where
  "refused = \<lparr>cg_text = ''x'', cg_is_string = False, cg_code = Some 403, cg_message = None, cg_params = None\<rparr>"

definition refusing :: "form_request \<Rightarrow> caught + form_response" where
  "refusing q = (case q of FqSheet \<Rightarrow> Inr (FrSheet empty_sheet) | FqValidate h sh \<Rightarrow> Inl refused | _ \<Rightarrow> Inr FrOther)"

theorem refused_sheet_screen_is_lost_witness:
  "screen_of (fst (run refusing (initializeAction lone_env) initialFormState)) = ScInitializationError"
proof -
  have "sheet_reply lone_env refusing = Inl refused" "isError4xx (fv_code lone_env) refused"
    by (simp_all add: sheet_reply_def lone_env_def refusing_def refused_def isError4xx_def errorCode_def)
  from refused_sheet_screen_is_lost [OF this] show ?thesis by blast
qed

text \<open>A user whose bound card is not in the list the server gives: the list is the entry for a new card, now and later.\<close>

definition no_cards :: "form_request \<Rightarrow> caught + form_response" where
  "no_cards q = (case q of FqCards \<Rightarrow> Inr (FrCards []) | _ \<Rightarrow> Inr FrOther)"

theorem form_methods_stay_ok_witness:
  "\<exists>c. (cstep any_reply)\<^sup>*\<^sup>* (initialFormState, image_mset (form_thunk lone_env) {#CardBound ''1''#}, []) c
    \<and> methods_of (fst c) = [NewCardMethodOf createNewCardPaymentMethod]
    \<and> (\<forall>d. (cstep any_reply)\<^sup>*\<^sup>* c d \<longrightarrow> methods_ok (methods_of (fst d)))"
proof -
  let ?p = "selectBindedPaymentMethodAction lone_env ''1''"
  let ?ms = "[NewCardMethodOf createNewCardPaymentMethod]"
  obtain s' sp xs r where run: "run no_cards ?p initialFormState = (s', sp, xs, r)" and l: "methods_of s' = ?ms"
    by (simp add: selectBindedPaymentMethodAction_def refreshPaymentMethodsAction_def form_runs no_cards_def Let_def
        fr_any_def form_methods_def lone_env_def initialFormState_def getDisabledCardsIds_def getPaymentMethodsByUserCards_def
        form_reducer_def FORM_MAX_BOUND_CARDS_def run_starting)
  from run_reachable [OF run, of any_reply "{#}" "[]"] obtain c where
    c: "(cstep any_reply)\<^sup>*\<^sup>* (initialFormState, image_mset (form_thunk lone_env) {#CardBound ''1''#}, []) c" "fst c = s'"
    by fastforce
  have "methods_ok (methods_of (fst d))" if "(cstep any_reply)\<^sup>*\<^sup>* c d" for d
    using form_methods_stay_ok [OF c(1) that] l c(2) by auto
  with c l show ?thesis by blast
qed

text \<open>The methods loaded, the first one chosen.\<close>

definition first_choice :: "FormMethod list \<Rightarrow> FormMethod option" where
  "first_choice ms = (let enabled = filter (\<lambda>m. \<not> fm_disabled m \<and> \<not> fm_is_new m) ms in
     if enabled \<noteq> [] then Some (enabled ! 0) else head_of ms)"

lemma first_choice: "getFirstPaymentMethod s = first_choice (methods_of s)"
  by (simp add: getFirstPaymentMethod_def first_choice_def getEnabledPaymentMethods_def Let_def)

lemma run_refresh:
  assumes "orc FqCards = Inr (FrCards cs)"
  shows "run orc (refreshPaymentMethodsAction ev) s =
    (form_reducer (ResetPending None) (form_reducer (SetPaymentMethods
       (form_methods (fv_lib ev) (form_sheet s) (fu_savedCard (fst_user s)) cs)) (form_reducer (SetPending PdMethodsLoading) s)), [], [], None)"
  using assms by (simp add: refreshPaymentMethodsAction_def form_runs Let_def)

lemma run_new_card: "run orc redirectToNewCardAction s = (if list_ex fm_is_new (methods_of s)
    then form_reducer (SetScreen ScBindCard) (form_reducer (SetPending PdBindingFormLoading) s) else s, [], [], None)"
  by (simp add: redirectToNewCardAction_def form_runs)

lemma run_choose: "run orc (setActivePaymentMethodAction (Some (CardMethodOf c)) True) s
    = (form_reducer (SetScreen ScOrder) (form_reducer (SetActivePaymentMethodKey (pm_key c)) s),
       [loadCashbackAction (Some (pm_id c))], [], None)"
  "run orc (setActivePaymentMethodAction (Some (NewCardMethodOf n)) True) s = run orc redirectToNewCardAction s"
  by (simp_all add: setActivePaymentMethodAction_def form_runs)

lemma form_methods_shape:
  obtains ks where "form_methods L sheet saved cs = map CardMethodOf ks
      @ (if length cs < FORM_MAX_BOUND_CARDS then [NewCardMethodOf createNewCardPaymentMethod] else [])"
    "length ks = length cs" "distinct (map uc_id cs) \<Longrightarrow> distinct (map pm_key ks)"
proof -
  define cards where "cards = (case saved of None \<Rightarrow> cs | Some i \<Rightarrow> sortUserCards cs i)"
  define ks where "ks = getPaymentMethodsByUserCards cards (getDisabledCardsIds L cards sheet)"
  have "mset cards = mset cs"
    by (simp add: cards_def sortUserCards_def Let_def mset_move split: option.split)
  then have "length cards = length cs" "mset (map uc_id cards) = mset (map uc_id cs)"
    by (metis mset_eq_length, simp)
  then have "distinct (map uc_id cards)" if "distinct (map uc_id cs)" using that mset_eq_imp_distinct_iff by metis
  moreover have keys: "map pm_key ks = map (\<lambda>i. ''CARD'' @ i) (map uc_id cards)"
    by (simp add: ks_def getPaymentMethodsByUserCards_def getPaymentMethodByUserCard_def getPaymentMethodByBankCard_def
        getBankCardByUserCard_def)
  have "inj (\<lambda>i. ''CARD'' @ i)" by (simp add: inj_def)
  moreover have "length ks = length cs"
    using \<open>length cards = length cs\<close> by (simp add: ks_def getPaymentMethodsByUserCards_def)
  moreover have "form_methods L sheet saved cs = map CardMethodOf ks
      @ (if length cs < FORM_MAX_BOUND_CARDS then [NewCardMethodOf createNewCardPaymentMethod] else [])"
    using \<open>length ks = length cs\<close> by (simp add: form_methods_def Let_def cards_def [symmetric] ks_def [symmetric])
  ultimately show ?thesis
    using that [of ks] unfolding keys by (simp add: distinct_map inj_on_def)
qed

text \<open>What choosing the first method leaves: the rest of the start, from a state with the methods in it.\<close>

lemma first_choice_cases:
  assumes "ms = map CardMethodOf ks @ (if length ks < FORM_MAX_BOUND_CARDS then [NewCardMethodOf createNewCardPaymentMethod] else [])"
  shows "\<exists>m \<in> set ms. \<not> fm_disabled m \<and> \<not> fm_is_new m \<Longrightarrow>
      \<exists>k \<in> set ks. first_choice ms = Some (CardMethodOf k) \<and> \<not> pm_disabled k"
    "\<not> (\<exists>m \<in> set ms. \<not> fm_disabled m \<and> \<not> fm_is_new m) \<Longrightarrow> ks = [] \<Longrightarrow>
      first_choice ms = Some (NewCardMethodOf createNewCardPaymentMethod)"
    "\<not> (\<exists>m \<in> set ms. \<not> fm_disabled m \<and> \<not> fm_is_new m) \<Longrightarrow> ks = k # ks' \<Longrightarrow>
      first_choice ms = Some (CardMethodOf k) \<and> pm_disabled k"
proof -
  let ?en = "filter (\<lambda>m. \<not> fm_disabled m \<and> \<not> fm_is_new m) ms"
  {
    assume "\<exists>m \<in> set ms. \<not> fm_disabled m \<and> \<not> fm_is_new m"
    then have ne: "?en \<noteq> []" by (simp add: filter_empty_conv)
    then have "?en ! 0 \<in> set ?en" by (intro nth_mem) simp
    then have m: "?en ! 0 \<in> set ms" "\<not> fm_disabled (?en ! 0)" "\<not> fm_is_new (?en ! 0)" by auto
    then obtain k where "k \<in> set ks" "?en ! 0 = CardMethodOf k" using assms by (auto split: if_splits)
    then show "\<exists>k \<in> set ks. first_choice ms = Some (CardMethodOf k) \<and> \<not> pm_disabled k"
      using ne m(2) unfolding first_choice_def Let_def by auto
  next
    assume "\<not> (\<exists>m \<in> set ms. \<not> fm_disabled m \<and> \<not> fm_is_new m)"
    then have e: "?en = []" by (simp add: filter_empty_conv)
    then show "ks = [] \<Longrightarrow> first_choice ms = Some (NewCardMethodOf createNewCardPaymentMethod)"
      using assms by (simp add: first_choice_def head_of_def FORM_MAX_BOUND_CARDS_def)
    show "ks = k # ks' \<Longrightarrow> first_choice ms = Some (CardMethodOf k) \<and> pm_disabled k"
      using e assms by (auto simp: first_choice_def head_of_def split: if_splits)
  }
qed

lemma active_is:
  assumes "distinct (map pm_key ks)" "k \<in> set ks" "fu_activeKey (fst_user s) = Some (pm_key k)"
    and "methods_of s = map CardMethodOf ks @ others"
  shows "form_getActivePaymentMethod s = Some (CardMethodOf k)"
proof -
  have "find (\<lambda>m. Some (fm_key m) = Some (pm_key k)) (map CardMethodOf ks @ others) = Some (CardMethodOf k)"
    using assms(1,2) by (induction ks) (auto simp: image_iff)
  then show ?thesis using assms(3,4) by (simp add: form_getActivePaymentMethod_def)
qed

text \<open>C12: The start of the form, when the sheet, the settings and the cards have come: the methods are the cards,
  the saved one first, and the first one that can be used is selected; when none can and there is room the
  user is sent to add a card.  A payment that was interrupted by a challenge goes on at once.\<close>

theorem form_start_result:
  assumes sheet: "sheet_reply ev orc = Inr sheet" and cards: "orc FqCards = Inr (FrCards cs)" "distinct (map uc_id cs)"
    and saved: "saved = fu_savedCard (fst_user (settings_loaded orc s))"
    and methods: "methods = form_methods (fv_lib ev) sheet saved cs"
  shows "(case run orc (initializeAction ev) s of (s', started, seen, r) \<Rightarrow>
     r = None \<and> form_sheet s' = sheet \<and> methods_of s' = methods
     \<and> seen = (if challenge_waits ev then [FeCheckout (fv_challengeCardId ev)] else [])
     \<and> (if \<exists>m \<in> set methods. \<not> fm_disabled m \<and> \<not> fm_is_new m
        then screen_of s' = ScOrder \<and> pending_of s' = None
          \<and> fu_activeKey (fst_user s') = Some (fm_key (the (first_choice methods)))
        else if length cs < FORM_MAX_BOUND_CARDS then screen_of s' = ScBindCard \<and> pending_of s' = Some PdBindingFormLoading
        else screen_of s' = ScOrder))"
proof -
  obtain ks where ks: "methods = map CardMethodOf ks
      @ (if length cs < FORM_MAX_BOUND_CARDS then [NewCardMethodOf createNewCardPaymentMethod] else [])"
    "length ks = length cs" "distinct (map pm_key ks)"
    using form_methods_shape [of "fv_lib ev" sheet saved cs] cards(2) unfolding methods by metis
  define s1 where "s1 = settings_loaded orc (sheet_stored ev sheet (form_reducer (SetPending PdSheetLoading) s))"
  have s1: "fu_savedCard (fst_user s1) = saved" "form_sheet s1 = sheet" "pending_of s1 = None"
    unfolding s1_def saved
    by (auto simp: settings_loaded_def sheet_stored_def Let_def split: sum.split option.split prod.split)
  define s2 where "s2 = form_reducer (ResetPending None) (form_reducer (SetPaymentMethods methods) (form_reducer (SetPending PdMethodsLoading) s1))"
  have s2: "methods_of s2 = methods" "form_sheet s2 = sheet" "pending_of s2 = None"
    using s1 by (simp_all add: s2_def)
  define handler where "handler = (\<lambda>e. thunks [redirectTo ScInitializationError, dispatch (SetError (init_error ev e))])"
  have init: "run orc (initializeAction ev) s =
      starting (try_catching (form_ask FqPing fr_any (\<lambda>_. fin)) (\<lambda>e. fin)) (starting (loadCashbackAction saved)
          (run orc (try_catching (await (setActivePaymentMethodAction (first_choice methods) True) (after_choice ev)) handler) s2))"
    by (simp add: initializeAction_def run_starting run_await run_try run_waitForSheet sheet run_loadUserState s1_def [symmetric] s1
        run_refresh [where orc = orc, OF cards(1)] methods [symmetric] s2_def [symmetric] first_choice s2 handler_def [symmetric]
        del: run.simps(6))
  have shape: "methods = map CardMethodOf ks
      @ (if length ks < FORM_MAX_BOUND_CARDS then [NewCardMethodOf createNewCardPaymentMethod] else [])"
    using ks(1,2) by simp
  have any_new: "list_ex fm_is_new methods \<longleftrightarrow> length cs < FORM_MAX_BOUND_CARDS"
    unfolding ks(1) by (auto simp: list_ex_iff)
  have active: "form_getActivePaymentMethod t = Some (CardMethodOf k)"
    if "k \<in> set ks" "t = form_reducer (SetScreen ScOrder) (form_reducer (SetActivePaymentMethodKey (pm_key k)) s2)" for k t
    using active_is [OF ks(3) that(1), of t] ks(1) s2(1) that(2) by simp
  show ?thesis
  proof (cases "\<exists>m \<in> set methods. \<not> fm_disabled m \<and> \<not> fm_is_new m")
    case True
    from first_choice_cases(1) [OF shape this] obtain k where
      k: "k \<in> set ks" "first_choice methods = Some (CardMethodOf k)" "\<not> pm_disabled k" by blast
    show ?thesis
      unfolding init using k True active [OF k(1) refl] s2
      by (simp add: after_choice_def form_runs run_choose)
  next
    case none: False
    show ?thesis
    proof (cases ks)
      case Nil
      have m: "methods = [NewCardMethodOf createNewCardPaymentMethod]"
        using shape Nil by (simp add: FORM_MAX_BOUND_CARDS_def)
      have "map_option fm_disabled (form_getActivePaymentMethod t) \<noteq> Some True" if "methods_of t = methods" for t
        using that m by (auto simp: form_getActivePaymentMethod_def createNewCardPaymentMethod_def)
      then show ?thesis
        unfolding init using first_choice_cases(2) [OF shape none Nil] none s2 m ks(2) Nil
        by (simp add: after_choice_def form_runs run_choose run_new_card FORM_MAX_BOUND_CARDS_def)
    next
      case (Cons k ks')
      from first_choice_cases(3) [OF shape none Cons] active [of k, OF _ refl] Cons
      show ?thesis
        unfolding init using none s2 any_new
        by (auto simp: after_choice_def form_runs run_choose run_new_card)
    qed
  qed
qed

definition answering :: "form_request \<Rightarrow> caught + form_response" where
  "answering q = (case q of FqSheet \<Rightarrow> Inr (FrSheet empty_sheet) | FqSettings \<Rightarrow> Inr (FrSettings None) | FqCards \<Rightarrow> Inr (FrCards [])
     | _ \<Rightarrow> Inr FrOther)"

theorem form_start_result_witness:
  "screen_of (fst (run answering (initializeAction lone_env) initialFormState)) = ScBindCard"
proof -
  have "sheet_reply lone_env answering = Inr empty_sheet" "answering FqCards = Inr (FrCards [])" "distinct (map uc_id [])"
    by (simp_all add: sheet_reply_def lone_env_def answering_def)
  moreover have "form_methods L sheet saved [] = [NewCardMethodOf createNewCardPaymentMethod]" for L sheet saved
    by (rule form_methods_shape [of L sheet saved "[]"]) (simp add: FORM_MAX_BOUND_CARDS_def)
  ultimately show ?thesis
    using form_start_result [OF _ _ _ refl refl, of lone_env answering empty_sheet "[]" initialFormState]
    by (auto simp: FORM_MAX_BOUND_CARDS_def createNewCardPaymentMethod_def split: prod.splits)
qed

text \<open>Nobody handles the rejection of the cashback the start asks for.\<close>

theorem failed_cashback_is_unhandled:
  assumes "sheet_reply ev orc = Inr sheet" "orc FqCards = Inr (FrCards cs)"
    and "\<And>sh i. orc (FqCashback sh i) = Inl e"
  shows "\<exists>p \<in> set (fst (snd (run orc (initializeAction ev) s))). \<forall>t. snd (snd (snd (run orc p t))) = Some e"
proof
  show "\<forall>t. snd (snd (snd (run orc (loadCashbackAction i) t))) = Some e" for i
    using assms(3) by (simp add: loadCashbackAction_def form_runs)
  show "loadCashbackAction (fu_savedCard (fst_user (settings_loaded orc (sheet_stored ev sheet (form_reducer (SetPending PdSheetLoading) s)))))
      \<in> set (fst (snd (run orc (initializeAction ev) s)))"
    using assms(1,2)
    by (simp add: initializeAction_def run_starting run_await run_try run_waitForSheet run_loadUserState
        started_set del: run.simps(6))
qed

end
