(* ===== verification/PayFormPayment.thy ===== *)
theory PayFormPayment
  imports PayForm
begin

text \<open>
  \<open>services/pay-form/src/store/payment/async-actions.ts\<close>: \<open>checkoutAction\<close>, the payment in the payment form.
  It puts its listeners on the \<open>CheckoutProcess\<close> and starts it; the listeners write into the store and send
  messages to the shop.  Two of them wait (\<open>await wait(1000)\<close>) before they send, and \<open>processPayment\<close> of the
  form's connection waits once more; such delays are on the list \<open>fw_delays\<close>.  The calls of
  \<open>updateUserSettings\<close> nobody waits for are on the list \<open>fw_saved\<close>.
\<close>

section \<open>The world of the listeners\<close>

datatype form_delay =
    TellSuccess
  | TellData PaymentProcessData
  | SendData PaymentProcessData

record form_world =
  fw_state :: FormState
  fw_sent :: "PaymentEvent list"
  fw_delays :: "form_delay list"
  fw_saved :: "string list"
  fw_redirects :: "string list"
  fw_closed :: nat

record form_ctx =
  cx_amount :: string
  cx_billing :: BillingContactInfo
  cx_cardId :: string

record form_pay_env =
  fe_env :: form_env
  fe_return_path :: "string \<Rightarrow> string option"
  fe_exceeded :: bool
  fe_params :: "api_error \<Rightarrow> string option"

definition does :: "form_action \<Rightarrow> form_world \<Rightarrow> form_world" where
  "does a w = w\<lparr>fw_state := form_reducer a (fw_state w)\<rparr>"

definition tells :: "PaymentEvent \<Rightarrow> form_world \<Rightarrow> form_world" where
  "tells m w = w\<lparr>fw_sent := fw_sent w @ [m]\<rparr>"

definition delays :: "form_delay \<Rightarrow> form_world \<Rightarrow> form_world" where
  "delays d w = w\<lparr>fw_delays := fw_delays w @ [d]\<rparr>"

section \<open>The connection with the shop\<close>

text \<open>\<open>lib/intercom/connection.ts\<close>; the emitter may be a redirect, which the theory \<open>Connections\<close> treats.\<close>

definition fc_formError :: "string \<Rightarrow> string option \<Rightarrow> form_world \<Rightarrow> form_world" where
  "fc_formError why details = tells (FormErrorEvent why details)"

definition fc_formClose :: "form_world \<Rightarrow> form_world" where
  "fc_formClose = tells AbortClose"

definition fc_processPayment :: "PaymentProcessData \<Rightarrow> form_world \<Rightarrow> form_world" where
  "fc_processPayment d = delays (SendData d)"

definition fc_successCheckout :: "string \<Rightarrow> string option \<Rightarrow> form_world \<Rightarrow> form_world" where
  "fc_successCheckout i metadata = tells (SuccessEvent i metadata)"

section \<open>The services of the payment\<close>

definition form_caught :: "form_pay_env \<Rightarrow> api_error \<Rightarrow> caught" where
  "form_caught pe e = \<lparr>cg_text = err_text e, cg_is_string = False, cg_code = None, cg_message = err_message e,
     cg_params = fe_params pe e\<rparr>"

definition form_failPayment :: "form_pay_env \<Rightarrow> api_error \<Rightarrow> form_world \<Rightarrow> form_world" where
  "form_failPayment pe e w =
     (let c = form_caught pe e;
          w1 = does (SetScreen ScCheckoutError) w;
          w2 = does (SetError \<lparr>act_description = PaymentWentWrong,
                 act_reason = errorReason (fv_lib (fe_env pe)) c, act_details = errorDetails c\<rparr>) w1
      in does (ResetPending None) w2)"

definition form_completePayment :: "form_world \<Rightarrow> form_world" where
  "form_completePayment w = w\<lparr>fw_closed := fw_closed w + 1\<rparr>"

text \<open>The message for the shop; it has no place for the name, which is never given.\<close>

definition form_process_data :: "form_ctx \<Rightarrow> payment_result \<Rightarrow> PaymentProcessData" where
  "form_process_data x d =
     \<lparr>cd_orderAmount = cx_amount x, cd_billingContact = \<lparr>bc_email = bi_email (cx_billing x), bc_phone = None\<rparr>,
      cd_shippingContact = None, cd_shippingMethodInfo = None, ppd_token = pay_token d, ppd_paymentMethodInfo = pay_info d\<rparr>"

fun form_event :: "form_pay_env \<Rightarrow> form_ctx \<Rightarrow> cp_event \<Rightarrow> form_world \<Rightarrow> form_world" where
  "form_event pe x (ErrorEvent st e) w =
     (if st = create_payment then form_failPayment pe e w
      else does (ResetPending None) (does (SetScreen ScCheckoutError) w))"
| "form_event pe x (PaymentOrder d) w = w"
| "form_event pe x StartServerPayment w = w"
| "form_event pe x StartWatchServerPayment w = w"
| "form_event pe x (Transaction3ds v url) w =
     does (SetScreen ScCheckout3ds) (does (SetAuth3ds (v, url)) (does (SetPending PdCheckout3ds) w))"
| "form_event pe x (TransactionStatusChanged st) w =
     (if st = AUTHORIZED \<or> st = CHARGED
      then delays TellSuccess (does (ResetPending None) (does (SetScreen ScSuccess) w)) else w)"
| "form_event pe x StartClientPayment w = w"
| "form_event pe x (PaymentData d) w =
     delays (TellData (form_process_data x d)) (w\<lparr>fw_saved := fw_saved w @ [cx_cardId x]\<rparr>)"
| "form_event pe x (ChallengeRedirect p) w =
     (let w1 = does (SetPending PdChallenge) w in w1\<lparr>fw_redirects := fw_redirects w1 @ [p]\<rparr>)"

definition form_listener :: "form_pay_env \<Rightarrow> (CheckoutProcessType, form_ctx, cp_event, cp_core \<times> form_world, api_error) handler" where
  "form_listener pe x e st = (case st of (em, c, w) \<Rightarrow> (None, (em, c, form_event pe x e w)))"

definition form_process :: "form_pay_env \<Rightarrow> (form_ctx, form_world) cp_env" where
  "form_process pe = \<lparr>call = form_listener pe, return_path = fe_return_path pe, exceeded = fe_exceeded pe,
     path_or_str = po_str (fv_lib (fe_env pe))\<rparr>"

type_synonym form_pay = "(form_ctx, form_world) cp_state"

text \<open>The events \<open>checkoutAction\<close> listens to, in the order of its calls of \<open>on\<close>.\<close>

definition form_events :: "CheckoutProcessType list" where
  "form_events = [error, paymentOrder, startServerPayment, transaction3ds, transactionStatusChanged,
     startClientPayment, paymentData, challengeRedirect]"

definition form_listen :: "form_ctx \<Rightarrow> (CheckoutProcessType, form_ctx) emitter \<Rightarrow> (CheckoutProcessType, form_ctx) emitter" where
  "form_listen x em = fold (\<lambda>ty em. snd (em_on ty x em)) form_events em"

definition form_ctx_of :: "form_pay_env \<Rightarrow> FormState \<Rightarrow> string \<Rightarrow> form_ctx" where
  "form_ctx_of pe s cardId =
     \<lparr>cx_amount = form_getTotalAmount (fv_lib (fe_env pe)) s, cx_billing = form_getBillingContact (fv_lib (fe_env pe)) s,
      cx_cardId = cardId\<rparr>"

text \<open>\<open>as CardPaymentMethod\<close>: a card with that id, or nothing.\<close>

definition form_start_data :: "form_pay_env \<Rightarrow> FormState \<Rightarrow> string \<Rightarrow> StartPaymentData" where
  "form_start_data pe s cardId =
     \<lparr>sd_paymentMethod = (case getPaymentMethodByCardId s cardId of Some (CardMethodOf m) \<Rightarrow> Some m | _ \<Rightarrow> None),
      sd_isServerApi = fv_isPayServer (fe_env pe), sd_paymentMethodType = PmtCard,
      sd_billingContact = Some \<lparr>bc_email = bi_email (form_getBillingContact (fv_lib (fe_env pe)) s), bc_phone = None\<rparr>,
      sd_shippingContact = None, sd_merchantOrigin = fv_origin (fe_env pe)\<rparr>"

definition checkoutAction :: "form_pay_env \<Rightarrow> string \<Rightarrow> form_pay \<Rightarrow> form_pay" where
  "checkoutAction pe cardId st =
     (case st of (em, c, w) \<Rightarrow>
        let w1 = does (SetPending PdCheckout) w; s = fw_state w1
        in case startPayment (form_process pe) (form_start_data pe s cardId)
                  (form_listen (form_ctx_of pe s cardId) em, c, w1) of
             (None, st') \<Rightarrow> st'
           | (Some e, (em', c', w')) \<Rightarrow> (em', c', form_failPayment pe e w'))"

section \<open>The form while it pays\<close>

text \<open>The rest of a listener after its wait: the order is read from the process then; without one it throws.\<close>

fun form_delay_over :: "form_delay \<Rightarrow> cp_core \<Rightarrow> form_world \<Rightarrow> form_world" where
  "form_delay_over TellSuccess c w =
     (case order c of None \<Rightarrow> w
      | Some ord \<Rightarrow> form_completePayment (fc_successCheckout (ord_orderId ord) (ord_metadata ord) w))"
| "form_delay_over (TellData d) c w = does (ResetPending None) (does (SetScreen ScSuccess) (fc_processPayment d w))"
| "form_delay_over (SendData d) c w = tells (ProcessEvent d) w"

datatype form_pay_input =
    ClickPay string
  | FormProcess "form_ctx cp_input"
  | DelayOver nat
  | ErrorButton
  | Auth3dsReady
  | Auth3dsComplete
  | LeavePage

definition without_delay :: "nat \<Rightarrow> form_world \<Rightarrow> form_world" where
  "without_delay n w = w\<lparr>fw_delays := take n (fw_delays w) @ drop (Suc n) (fw_delays w)\<rparr>"

fun form_pay_step :: "form_pay_env \<Rightarrow> form_pay_input \<Rightarrow> form_pay \<Rightarrow> form_pay" where
  "form_pay_step pe (ClickPay cardId) st = checkoutAction pe cardId st"
| "form_pay_step pe (FormProcess i) st = (if is_reply i then cp_step (form_process pe) i st else st)"
| "form_pay_step pe (DelayOver n) (em, c, w) =
     (if n < length (fw_delays w) then (em, c, form_delay_over (fw_delays w ! n) c (without_delay n w)) else (em, c, w))"
| "form_pay_step pe ErrorButton (em, c, w) =
     (case fa_error (fst_app (fw_state w)) of
        None \<Rightarrow> (em, c, w) | Some a \<Rightarrow> (em, c, fc_formError (act_reason a) (act_details a) w))"
| "form_pay_step pe Auth3dsReady (em, c, w) = (em, c, does (ResetPending None) w)"
| "form_pay_step pe Auth3dsComplete (em, c, w) = (em, c, does (SetPending PdCheckout) w)"
| "form_pay_step pe LeavePage (em, c, w) = (em, c, fc_formClose w)"

definition form_pay_run :: "form_pay_env \<Rightarrow> form_pay_input list \<Rightarrow> form_pay \<Rightarrow> form_pay" where
  "form_pay_run pe ins st = fold (form_pay_step pe) ins st"

definition new_form_pay :: "FormState \<Rightarrow> form_pay" where
  "new_form_pay s = (new_emitter, new_core,
     \<lparr>fw_state = s, fw_sent = [], fw_delays = [], fw_saved = [], fw_redirects = [], fw_closed = 0\<rparr>)"

section \<open>The listeners keep to themselves\<close>

interpretation payform: card_listener "form_process pe" "form_event pe" for pe
  by unfold_locales (simp_all add: form_process_def form_listener_def)

lemma world_simps [simp]:
  "fw_sent (does a w) = fw_sent w" "fw_delays (does a w) = fw_delays w" "fw_closed (does a w) = fw_closed w"
  "fw_state (does a w) = form_reducer a (fw_state w)"
  "fw_sent (delays d w) = fw_sent w" "fw_delays (delays d w) = fw_delays w @ [d]" "fw_state (delays d w) = fw_state w"
  "fw_closed (delays d w) = fw_closed w"
  "fw_sent (tells m w) = fw_sent w @ [m]" "fw_state (tells m w) = fw_state w" "fw_delays (tells m w) = fw_delays w"
  "fw_closed (tells m w) = fw_closed w"
  "fw_sent (without_delay n w) = fw_sent w" "fw_state (without_delay n w) = fw_state w"
  "fw_closed (without_delay n w) = fw_closed w"
  by (simp_all add: does_def delays_def tells_def without_delay_def)

lemma form_reducer_app [simp]: "fst_app (form_reducer a s) = app_reducer a (fst_app s)"
  "fst_payment (form_reducer a s) = payment_reducer a (fst_payment s)" "fst_user (form_reducer a s) = user_reducer a (fst_user s)"
  by (simp_all add: form_reducer_def)

lemma form_listen_only: "no_listeners em \<Longrightarrow> only_listener x (form_listen x em)"
proof -
  assume "no_listeners em"
  then have none: "listeners_of em ty = []" for ty by (simp add: no_listeners_def listeners_of_def)
  have "listeners_of (form_listen x em) ty = (if ty = startWatchServerPayment then [] else [listener.Plain x])" for ty
    by (cases ty) (simp_all add: form_listen_def form_events_def em_on_def none)
  then show ?thesis by (simp add: only_listener_def)
qed

lemma form_process_runs:
  "form_pay_run pe (map FormProcess ins) st = cp_run (form_process pe) (filter is_reply ins) st"
  by (induction ins arbitrary: st) (simp_all add: form_pay_run_def)

section \<open>The shop hears of orders that exist\<close>

definition told_orders :: "string set \<Rightarrow> form_world \<Rightarrow> bool" where
  "told_orders K w = (\<forall>i md. SuccessEvent i md \<in> set (fw_sent w) \<longrightarrow> i \<in> K)"

lemma told_event: "told_orders K w \<Longrightarrow> told_orders K (form_event pe x e w)"
  by (cases e) (simp_all add: told_orders_def form_failPayment_def Let_def)

interpretation payform: order_listener "form_process pe" "form_event pe" K "told_orders K" for pe K
  by unfold_locales (rule told_event)

definition form_created :: "form_pay_input list \<Rightarrow> string list" where
  "form_created ins = concat (map (\<lambda>i. case i of FormProcess j \<Rightarrow> created_in j | _ \<Rightarrow> []) ins)"

definition form_honest :: "string set \<Rightarrow> form_pay \<Rightarrow> bool" where
  "form_honest K st = (knows_order K (fst (snd st)) \<and> told_orders K (snd (snd st)))"

lemma form_honest_step:
  assumes "form_honest K st" "set (form_created [i]) \<subseteq> K"
  shows "form_honest K (form_pay_step pe i st)"
proof -
  obtain em c w where st: "st = (em, c, w)" by (metis prod_cases3)
  have cw: "knows_order K c" "told_orders K w" using assms(1) by (simp_all add: st form_honest_def)
  show ?thesis
  proof (cases i)
    case (ClickPay k)
    define s where "s = fw_state (does (SetPending PdCheckout) w)"
    have "told_orders K (does (SetPending PdCheckout) w)" using cw(2) by (simp add: told_orders_def)
    then obtain x em' c' w' where "startPayment (form_process pe) (form_start_data pe s k)
        (form_listen (form_ctx_of pe s k) em, c, does (SetPending PdCheckout) w) = (x, (em', c', w'))"
      "knows_order K c'" "told_orders K w'"
      using honestE [OF payform.honest_start, of K c "does (SetPending PdCheckout) w"] cw(1) by blast
    then show ?thesis
      by (cases x) (simp_all add: ClickPay st checkoutAction_def Let_def s_def form_honest_def told_orders_def form_failPayment_def)
  next
    case (FormProcess j)
    show ?thesis
    proof (cases "is_reply j")
      case True
      moreover from assms(2) FormProcess have "set (created_in j) \<subseteq> K" by (simp add: form_created_def)
      ultimately obtain em' c' w' where "cp_step (form_process pe) j (em, c, w) = (em', c', w')"
        "knows_order K c'" "told_orders K w'"
        by (rule payform.step_honest [OF _ _ cw])
      then show ?thesis using True FormProcess by (simp add: st form_honest_def)
    qed (use assms(1) FormProcess in simp)
  next
    case (DelayOver n)
    have "told_orders K (form_delay_over d c w')" if "told_orders K w'" for d w'
      using that cw(1)
      by (cases d) (auto simp: told_orders_def knows_order_def fc_processPayment_def fc_successCheckout_def
          form_completePayment_def split: option.split)
    moreover have "told_orders K (without_delay n w)" using cw(2) by (simp add: told_orders_def)
    ultimately show ?thesis using cw by (simp add: DelayOver st form_honest_def)
  qed (use cw in \<open>auto simp: st form_honest_def told_orders_def fc_formError_def fc_formClose_def split: option.split\<close>)
qed

text \<open>C4: Whatever the user does in the payment form, whatever the server answers and however long the delays
  take: every success the shop is told of names an order the server has created for this form.\<close>

theorem form_success_names_created_order:
  assumes "SuccessEvent i md \<in> set (fw_sent (snd (snd (form_pay_run pe ins (new_form_pay s)))))"
  shows "i \<in> set (form_created ins)"
proof -
  have "form_honest (set (form_created ins)) (form_pay_run pe ins (new_form_pay s))"
  proof (induction ins rule: rev_induct)
    case Nil
    show ?case by (simp add: form_pay_run_def new_form_pay_def form_honest_def knows_order_def told_orders_def new_core_def)
  next
    case (snoc i ins)
    have mono: "form_honest K st \<Longrightarrow> K \<subseteq> K' \<Longrightarrow> form_honest K' st" for K K' st
      unfolding form_honest_def knows_order_def told_orders_def by blast
    have "form_created (ins @ [i]) = form_created ins @ form_created [i]" by (simp add: form_created_def)
    then have "form_honest (set (form_created (ins @ [i]))) (form_pay_step pe i (form_pay_run pe ins (new_form_pay s)))"
      by (intro form_honest_step mono [OF snoc]) auto
    then show ?case by (simp add: form_pay_run_def)
  qed
  with assms show ?thesis by (auto simp: form_honest_def told_orders_def)
qed

section \<open>A payment from the button to the shop\<close>

text \<open>The statuses on the way write nothing but the screens of a challenge.\<close>

lemma form_underway:
  assumes "\<forall>e \<in> set es. underway e" "pending_of (fw_state w) = Some PdCheckout \<or> pending_of (fw_state w) = Some PdCheckout3ds"
  shows "let w' = replay (form_event pe) (map (Pair x) es) w in
     fw_sent w' = fw_sent w \<and> fw_delays w' = fw_delays w \<and> fw_closed w' = fw_closed w
     \<and> fa_error (fst_app (fw_state w')) = fa_error (fst_app (fw_state w))
     \<and> (screen_of (fw_state w') = screen_of (fw_state w) \<or> screen_of (fw_state w') = ScCheckout3ds)
     \<and> (pending_of (fw_state w') = Some PdCheckout \<or> pending_of (fw_state w') = Some PdCheckout3ds)"
  using assms
proof (induction es arbitrary: w)
  case (Cons e es)
  from Cons.prems(1) have "underway e" by simp
  then consider st where "e = TransactionStatusChanged st" "\<not> final_status st" | v url where "e = Transaction3ds v url"
    by (auto simp: underway_def)
  then show ?case
  proof cases
    case 1
    with Cons show ?thesis by (auto simp: Let_def final_status_def)
  next
    case 2
    with Cons.IH [of "form_event pe x e w"] Cons.prems(1) show ?thesis by (auto simp: Let_def)
  qed
qed simp

lemma form_card_payment:
  assumes "fv_isPayServer (fe_env pe)" "no_listeners em" "jobs c = []" "next_job c = n"
    and "getPaymentMethodByCardId (fw_state w) k = Some (CardMethodOf m)"
    and "fe_return_path pe (pm_id m) = Some path" "tid \<noteq> []"
    and "\<forall>t \<in> set ts. \<not> final_status (tr_status t)" "final_status (tr_status u)"
  obtains em1 c1 w1 x ord where "form_pay_run pe ([ClickPay k, FormProcess (OrderReply n (Inr o')), FormProcess (TransactionReply (Suc n) (Inr tid))]
       @ map FormProcess (polls (Suc (Suc n)) (ts @ [u]))) (em, c, w)
      = (em1, c1, form_event pe x (TransactionStatusChanged (tr_status u)) w1)"
    "fw_sent w1 = fw_sent w" "fw_delays w1 = fw_delays w" "fw_closed w1 = fw_closed w"
    "fa_error (fst_app (fw_state w1)) = fa_error (fst_app (fw_state w))"
    "screen_of (fw_state w1) = screen_of (fw_state w) \<or> screen_of (fw_state w1) = ScCheckout3ds"
    "pending_of (fw_state w1) = Some PdCheckout \<or> pending_of (fw_state w1) = Some PdCheckout3ds"
    "order c1 = Some ord" "jobs c1 = []" "ord_orderId ord = cr_orderId o'" "ord_metadata ord = cr_metadata o'"
proof -
  define w0 where "w0 = does (SetPending PdCheckout) w"
  define x where "x = form_ctx_of pe (fw_state w0) k"
  define d where "d = form_start_data pe (fw_state w0) k"
  have d: "sd_isServerApi d" "sd_paymentMethod d = Some m" "sd_paymentMethodType d \<noteq> PmtCash"
    using assms(1,5) by (simp_all add: d_def form_start_data_def w0_def getPaymentMethodByCardId_def)
  have path: "return_path (form_process pe) (pm_id m) = Some path" using assms(6) by (simp add: form_process_def)
  obtain c0 c1 em1 ord es where s: "startPayment (form_process pe) d (form_listen x em, c, w0)
       = (None, (form_listen x em, c0, form_event pe x StartServerPayment w0))"
    and r: "cp_run (form_process pe) ([OrderReply n (Inr o'), TransactionReply (Suc n) (Inr tid)] @ polls (Suc (Suc n)) (ts @ [u]))
         (form_listen x em, c0, form_event pe x StartServerPayment w0)
       = (em1, c1, form_event pe x (TransactionStatusChanged (tr_status u)) (replay (form_event pe) (map (Pair x) es)
           (form_event pe x (PaymentOrder (Some ord)) (form_event pe x StartServerPayment w0))))"
    and es: "\<forall>e \<in> set es. underway e" and c1: "order c1 = Some ord" "jobs c1 = []"
    and ord: "ord_orderId ord = cr_orderId o'" "ord_metadata ord = cr_metadata o'"
    by (rule payform.card_payment_runs [OF form_listen_only [OF assms(2), of x] assms(3,4) d path assms(7-9)])
  define w1 where "w1 = replay (form_event pe) (map (Pair x) es) w0"
  have start: "form_pay_step pe (ClickPay k) (em, c, w) = (form_listen x em, c0, w0)"
    using s by (simp add: checkoutAction_def Let_def w0_def [symmetric] x_def [symmetric] d_def [symmetric] del: world_simps(4))
  have replies: "filter is_reply ([OrderReply n (Inr o'), TransactionReply (Suc n) (Inr tid)] @ polls (Suc (Suc n)) (ts @ [u]))
      = [OrderReply n (Inr o'), TransactionReply (Suc n) (Inr tid)] @ polls (Suc (Suc n)) (ts @ [u])"
    using polls_replies [of "Suc (Suc n)" "ts @ [u]"] by (simp add: filter_id_conv)
  have "form_pay_run pe ([ClickPay k, FormProcess (OrderReply n (Inr o')), FormProcess (TransactionReply (Suc n) (Inr tid))]
       @ map FormProcess (polls (Suc (Suc n)) (ts @ [u]))) (em, c, w)
      = form_pay_run pe (map FormProcess ([OrderReply n (Inr o'), TransactionReply (Suc n) (Inr tid)] @ polls (Suc (Suc n)) (ts @ [u])))
          (form_pay_step pe (ClickPay k) (em, c, w))"
    by (simp add: form_pay_run_def del: form_pay_step.simps)
  also have "\<dots> = (em1, c1, form_event pe x (TransactionStatusChanged (tr_status u)) w1)"
    unfolding form_process_runs replies start using r by (simp add: w1_def del: form_event.simps(6))
  finally show ?thesis
    using that c1 ord form_underway [OF es, of w0 pe x] by (simp add: w0_def w1_def [unfolded w0_def] Let_def)
qed

text \<open>C3: A payment by card over the server in the payment form, from the button to the message to the shop: when
  the final status is good, the form shows success, and after its delay tells the shop once, with the number
  of the created order, and closes itself.\<close>

theorem form_card_payment_told_once:
  assumes "fv_isPayServer (fe_env pe)" "no_listeners em" "jobs c = []" "next_job c = n"
    and "getPaymentMethodByCardId (fw_state w) k = Some (CardMethodOf m)"
    and "fe_return_path pe (pm_id m) = Some path" "tid \<noteq> []"
    and "\<forall>t \<in> set ts. \<not> final_status (tr_status t)" "tr_status u = AUTHORIZED \<or> tr_status u = CHARGED"
    and "fw_delays w = []"
  shows "let w' = snd (snd (form_pay_run pe ([ClickPay k, FormProcess (OrderReply n (Inr o')),
            FormProcess (TransactionReply (Suc n) (Inr tid))] @ map FormProcess (polls (Suc (Suc n)) (ts @ [u])) @ [DelayOver 0]) (em, c, w)))
     in screen_of (fw_state w') = ScSuccess \<and> pending_of (fw_state w') = None \<and> fw_delays w' = []
       \<and> fw_sent w' = fw_sent w @ [SuccessEvent (cr_orderId o') (cr_metadata o')] \<and> fw_closed w' = fw_closed w + 1"
proof -
  have "final_status (tr_status u)" using assms(9) by (auto simp: final_status_def)
  then obtain em1 c1 w1 x ord where r: "form_pay_run pe ([ClickPay k, FormProcess (OrderReply n (Inr o')), FormProcess (TransactionReply (Suc n) (Inr tid))]
       @ map FormProcess (polls (Suc (Suc n)) (ts @ [u]))) (em, c, w)
      = (em1, c1, form_event pe x (TransactionStatusChanged (tr_status u)) w1)"
    and w1: "fw_sent w1 = fw_sent w" "fw_delays w1 = fw_delays w" "fw_closed w1 = fw_closed w"
    and c1: "order c1 = Some ord" "ord_orderId ord = cr_orderId o'" "ord_metadata ord = cr_metadata o'"
    by (rule form_card_payment [OF assms(1-8)])
  have split: "form_pay_run pe (is @ js @ [DelayOver 0]) st = form_pay_step pe (DelayOver 0) (form_pay_run pe (is @ js) st)" for "is" js st
    by (simp add: form_pay_run_def)
  show ?thesis
    unfolding split r using assms(9,10) w1 c1
    by (auto simp: Let_def form_completePayment_def fc_successCheckout_def without_delay_def delays_def)
qed

text \<open>A form whose process waits for nothing, with no delay running and no error to report, stays as it is; only a
  3-D Secure frame that loads can lift its preloader.\<close>

definition blocked :: "bool \<Rightarrow> form_world \<Rightarrow> form_pay \<Rightarrow> bool" where
  "blocked covered w st = (case st of (em, c, w') \<Rightarrow>
     jobs c = [] \<and> fw_sent w' = fw_sent w \<and> fw_closed w' = fw_closed w \<and> fw_delays w' = []
     \<and> fa_error (fst_app (fw_state w')) = None
     \<and> (screen_of (fw_state w') = screen_of (fw_state w) \<or> screen_of (fw_state w') = ScCheckout3ds)
     \<and> (covered \<longrightarrow> pending_of (fw_state w') = Some PdCheckout \<or> pending_of (fw_state w') = Some PdCheckout3ds))"

lemma idle_step: "jobs c = [] \<Longrightarrow> is_reply i \<Longrightarrow> cp_step env i (em, c, w) = (em, c, w)"
  by (cases i) (simp_all add: cp_step_def reading_def skip_def)

lemma blocked_step:
  assumes "blocked covered w st" "i \<noteq> LeavePage" "\<And>k. i \<noteq> ClickPay k" "covered \<Longrightarrow> i \<noteq> Auth3dsReady"
  shows "blocked covered w (form_pay_step pe i st)"
proof -
  obtain em c w' where st: "st = (em, c, w')" by (metis prod_cases3)
  show ?thesis using assms by (cases i) (auto simp: st blocked_def idle_step)
qed

lemma blocked_run:
  assumes "blocked covered w st" "LeavePage \<notin> set ins" "\<forall>k. ClickPay k \<notin> set ins" "covered \<Longrightarrow> Auth3dsReady \<notin> set ins"
  shows "blocked covered w (form_pay_run pe ins st)"
  using assms
proof (induction ins arbitrary: st)
  case Nil
  then show ?case by (simp add: form_pay_run_def)
next
  case (Cons i ins)
  have "blocked covered w (form_pay_step pe i st)" using Cons.prems by (intro blocked_step) auto
  then show ?case using Cons by (simp add: form_pay_run_def)
qed

text \<open>C18: A payment that fails at the server is never shown as failed.  After the status \<open>FAILED\<close>, whatever
  replies, timers and delays come and whatever the user does in the frame of a 3-D Secure check, until the
  user leaves the page (or could start another payment, which the preloader prevents): the form shows no
  error and no success, it tells the shop nothing and does not close, and it stays under its blocking
  preloader, which only the frame of a 3-D Secure check, if it loads after that, takes away.\<close>

theorem failed_payment_blocks_form:
  assumes "fv_isPayServer (fe_env pe)" "no_listeners em" "jobs c = []" "next_job c = n"
    and "getPaymentMethodByCardId (fw_state w) k = Some (CardMethodOf m)"
    and "fe_return_path pe (pm_id m) = Some path" "tid \<noteq> []"
    and "\<forall>t \<in> set ts. \<not> final_status (tr_status t)" "tr_status u = FAILED"
    and "fw_delays w = []" "fa_error (fst_app (fw_state w)) = None"
    and "LeavePage \<notin> set afterwards" "\<forall>k. ClickPay k \<notin> set afterwards"
  shows "let w' = snd (snd (form_pay_run pe ([ClickPay k, FormProcess (OrderReply n (Inr o')),
            FormProcess (TransactionReply (Suc n) (Inr tid))] @ map FormProcess (polls (Suc (Suc n)) (ts @ [u])) @ afterwards) (em, c, w)))
     in fw_sent w' = fw_sent w \<and> fw_closed w' = fw_closed w \<and> fa_error (fst_app (fw_state w')) = None
       \<and> (screen_of (fw_state w') = screen_of (fw_state w) \<or> screen_of (fw_state w') = ScCheckout3ds)
       \<and> (Auth3dsReady \<notin> set afterwards \<longrightarrow>
            pending_of (fw_state w') = Some PdCheckout \<or> pending_of (fw_state w') = Some PdCheckout3ds)"
proof -
  let ?ins = "[ClickPay k, FormProcess (OrderReply n (Inr o')), FormProcess (TransactionReply (Suc n) (Inr tid))]
       @ map FormProcess (polls (Suc (Suc n)) (ts @ [u]))"
  have "final_status (tr_status u)" using assms(9) by (simp add: final_status_def)
  then obtain em1 c1 w1 x where r: "form_pay_run pe ?ins (em, c, w) = (em1, c1, form_event pe x (TransactionStatusChanged (tr_status u)) w1)"
    and w1: "fw_sent w1 = fw_sent w" "fw_delays w1 = fw_delays w" "fw_closed w1 = fw_closed w"
      "fa_error (fst_app (fw_state w1)) = fa_error (fst_app (fw_state w))"
      "screen_of (fw_state w1) = screen_of (fw_state w) \<or> screen_of (fw_state w1) = ScCheckout3ds"
      "pending_of (fw_state w1) = Some PdCheckout \<or> pending_of (fw_state w1) = Some PdCheckout3ds"
    and "jobs c1 = []"
    by (rule form_card_payment [OF assms(1-8)])
  then have start: "blocked (Auth3dsReady \<notin> set afterwards) w (form_pay_run pe ?ins (em, c, w))"
    unfolding r using assms(9-11) by (simp add: blocked_def)
  have "form_pay_run pe (?ins @ afterwards) (em, c, w) = form_pay_run pe afterwards (form_pay_run pe ?ins (em, c, w))"
    by (simp only: form_pay_run_def fold_append o_apply)
  moreover have "blocked (Auth3dsReady \<notin> set afterwards) w (form_pay_run pe afterwards (form_pay_run pe ?ins (em, c, w)))"
    by (rule blocked_run [OF start assms(12,13)])
  ultimately show ?thesis by (simp add: blocked_def Let_def split: prod.splits)
qed

text \<open>The form asks for a name when the shop's sheet requires one, and does not let the user pay without it;
  but the name is never part of what it sends.\<close>

theorem required_name_is_never_sent:
  assumes "rf_billingContact (the (sh_requiredFields (form_sheet s))) = Some b" "sh_requiredFields (form_sheet s) = Some rf"
    and "rbf_name b = Some True" "path_or_spec (po_bool L)"
  shows "snd (getBillingRequiredFields L (form_sheet s))
     \<and> checkButtonDisabled emailValid emailRequired False (snd (getBillingRequiredFields L (form_sheet s))) m
     \<and> bi_name (form_getBillingContact L s) = None"
  using assms
  by (auto simp: getBillingRequiredFields_def path_in_def checkButtonDisabled_def form_getBillingContact_def billingFields_def
      path_or_spec_def Let_def split: option.split)

section \<open>Examples\<close>

definition server_form :: form_pay_env where
  "server_form = \<lparr>fe_env = \<lparr>fv_lib = std_tinkoff, fv_code = (\<lambda>d c. case c of None \<Rightarrow> d | Some x \<Rightarrow> x), fv_isPayServer = True,
       fv_email = [], fv_name = [], fv_challengeNum = Fin 0, fv_challengeCardId = [], fv_origin = ''https://shop''\<rparr>,
     fe_return_path = (\<lambda>k. Some (''https://pay/?chn=1&chnCardId='' @ k)), fe_exceeded = False, fe_params = (\<lambda>_. None)\<rparr>"

definition form_card :: CardPaymentMethod where
  "form_card = \<lparr>pm_type = PmtCard, pm_key = ''CARD1'', pm_disabled = False, pm_id = ''1'', pm_uid = ''u'',
     pm_lastDigits = ''0001'', pm_system = ''MIR'', pm_issuer = ''TINKOFF''\<rparr>"

definition form_with_card :: FormState where
  "form_with_card = form_reducer (SetPaymentMethods [CardMethodOf form_card]) initialFormState"

definition form_order :: CreatedOrder where
  "form_order = \<lparr>cr_checkoutOrderId = ''co'', cr_orderId = ''o1'', cr_metadata = None\<rparr>"

definition form_status :: "TransactionStatus \<Rightarrow> Transaction" where
  "form_status st = \<lparr>tr_status = st, tr_action = None, tr_actionUrl = None\<rparr>"

definition form_world0 :: form_world where
  "form_world0 = snd (snd (new_form_pay form_with_card))"

definition form_inputs :: "TransactionStatus \<Rightarrow> form_pay_input list" where
  "form_inputs st = [ClickPay ''1'', FormProcess (OrderReply 0 (Inr form_order)), FormProcess (TransactionReply (Suc 0) (Inr ''t''))]
     @ map FormProcess (polls (Suc (Suc 0)) ([form_status NEW] @ [form_status st]))"

lemma sample_form_facts:
  "fv_isPayServer (fe_env server_form)" "no_listeners new_emitter" "jobs new_core = []" "next_job new_core = 0"
  "getPaymentMethodByCardId (fw_state form_world0) ''1'' = Some (CardMethodOf form_card)"
  "fe_return_path server_form (pm_id form_card) = Some ''https://pay/?chn=1&chnCardId=1''" "''t'' \<noteq> []"
  "\<forall>t \<in> set [form_status NEW]. \<not> final_status (tr_status t)" "fw_delays form_world0 = []" "fw_sent form_world0 = []"
  "new_form_pay form_with_card = (new_emitter, new_core, form_world0)"
  by (simp_all add: server_form_def no_listeners_def new_emitter_def new_core_def form_world0_def new_form_pay_def
      form_with_card_def getPaymentMethodByCardId_def form_card_def form_status_def final_status_def)

theorem form_card_payment_told_once_witness:
  "fw_sent (snd (snd (form_pay_run server_form (form_inputs CHARGED @ [DelayOver 0]) (new_form_pay form_with_card))))
     = [SuccessEvent ''o1'' None]"
proof -
  have "tr_status (form_status CHARGED) = AUTHORIZED \<or> tr_status (form_status CHARGED) = CHARGED" by (simp add: form_status_def)
  from form_card_payment_told_once [OF sample_form_facts(1-8) this sample_form_facts(9), of form_order]
  show ?thesis unfolding sample_form_facts(11) form_inputs_def by (simp add: sample_form_facts(10) form_order_def Let_def)
qed

theorem failed_payment_blocks_form_witness:
  "let w' = snd (snd (form_pay_run server_form (form_inputs FAILED @ [FormProcess (Tick 0), DelayOver 0, ErrorButton])
       (new_form_pay form_with_card)))
   in fw_sent w' = [] \<and> (pending_of (fw_state w') = Some PdCheckout \<or> pending_of (fw_state w') = Some PdCheckout3ds)"
proof -
  let ?after = "[FormProcess (Tick 0), DelayOver 0, ErrorButton]"
  have "tr_status (form_status FAILED) = FAILED" "fa_error (fst_app (fw_state form_world0)) = None"
    "LeavePage \<notin> set ?after" "\<forall>k. ClickPay k \<notin> set ?after" "Auth3dsReady \<notin> set ?after"
    by (simp_all add: form_status_def form_world0_def new_form_pay_def form_with_card_def initialFormState_def)
  with failed_payment_blocks_form [OF sample_form_facts(1-8) _ sample_form_facts(9), of "form_status FAILED" ?after form_order]
  show ?thesis unfolding sample_form_facts(11) form_inputs_def append_assoc
    by (simp only: Let_def sample_form_facts(10)) blast
qed

theorem required_name_is_never_sent_witness:
  "bi_name (form_getBillingContact std_tinkoff (form_reducer (SetSheet (empty_sheet\<lparr>sh_requiredFields := Some
     \<lparr>rf_billingContact = Some \<lparr>rbf_email = None, rbf_name = Some True\<rparr>, rf_shippingContact = None, rf_shippingTypes = None\<rparr>\<rparr>))
     initialFormState)) = None"
proof -
  define s where "s = form_reducer (SetSheet (empty_sheet\<lparr>sh_requiredFields := Some
     \<lparr>rf_billingContact = Some \<lparr>rbf_email = None, rbf_name = Some True\<rparr>, rf_shippingContact = None, rf_shippingTypes = None\<rparr>\<rparr>)) initialFormState"
  have "rf_billingContact (the (sh_requiredFields (form_sheet s))) = Some \<lparr>rbf_email = None, rbf_name = Some True\<rparr>"
    "sh_requiredFields (form_sheet s) = Some \<lparr>rf_billingContact = Some \<lparr>rbf_email = None, rbf_name = Some True\<rparr>,
       rf_shippingContact = None, rf_shippingTypes = None\<rparr>"
    "rbf_name \<lparr>rbf_email = None, rbf_name = Some True\<rparr> = Some True"
    by (simp_all add: s_def)
  moreover have "path_or_spec (po_bool std_tinkoff)" using std_tinkoff_ok by (simp add: tinkoff_ok_def)
  ultimately show ?thesis
    using required_name_is_never_sent [of s] unfolding s_def [symmetric] by blast
qed

theorem form_success_names_created_order_witness:
  "''o1'' \<in> set (form_created (form_inputs CHARGED @ [DelayOver 0]))"
proof -
  have "final_status (tr_status (form_status CHARGED))" by (simp add: form_status_def final_status_def)
  then obtain em1 c1 w1 x ord where r: "form_pay_run server_form (form_inputs CHARGED) (new_form_pay form_with_card)
      = (em1, c1, form_event server_form x (TransactionStatusChanged (tr_status (form_status CHARGED))) w1)"
    and w1: "fw_delays w1 = []" and c1: "order c1 = Some ord" "ord_orderId ord = ''o1''"
    unfolding sample_form_facts(11) form_inputs_def
    using form_card_payment [OF sample_form_facts(1-8), of "form_status CHARGED" form_order] sample_form_facts(9)
    by (metis form_order_def CreatedOrder.select_convs(2))
  have "SuccessEvent ''o1'' (ord_metadata ord) \<in> set (fw_sent (snd (snd (form_pay_step server_form (DelayOver 0)
      (form_pay_run server_form (form_inputs CHARGED) (new_form_pay form_with_card))))))"
    unfolding r using w1 c1
    by (simp add: form_status_def form_completePayment_def fc_successCheckout_def)
  then have "SuccessEvent ''o1'' (ord_metadata ord) \<in> set (fw_sent (snd (snd
      (form_pay_run server_form (form_inputs CHARGED @ [DelayOver 0]) (new_form_pay form_with_card)))))"
    by (simp add: form_pay_run_def del: form_pay_step.simps)
  then show ?thesis by (rule form_success_names_created_order)
qed

end
