(* ===== verification/ConsoleStore.thy ===== *)
theory ConsoleStore
  imports Prelude Uri
begin

text \<open>
  \<open>console-frontend\<close>: the store of the console in which a shop registers.  Five slices with their
  reducers (\<open>src/store/*/reducer.ts\<close>), the actions, the requests of \<open>src/api\<close> and the sagas.

  A saga is the tree of the effects its generator yields.  The middleware that runs them
  (\<open>redux-saga\<close>) is not part of the repository; the one thing the sagas need of it, what \<open>takeLatest\<close>
  does with the running tasks when it starts another, is the parameter \<open>fork\<close> of the steps, and
  \<open>takes_latest\<close> its documented behaviour.  A task makes one effect in each of its turns, and turns,
  replies and actions of the interface come in any order.
\<close>

section \<open>Data\<close>

record PartnerSuggest =
  cn_name :: string
  cn_inn :: string
  cn_ogrn :: string
  cn_kpp :: string
  cn_address :: string
  cn_correspondence_address :: string
  cn_full_name :: string
  cn_leader_name :: string

record PartnerData = PartnerSuggest +
  cn_terms :: bool
  cn_email :: string
  cn_phone :: string
  cn_site :: string
  cn_provider :: "(string \<times> string) option"
  cn_service :: "string option"
  cn_service_name :: "string option"
  cn_is_new_inn :: "bool option"

record RegistrationContact =
  rc_first_name :: "string option"
  rc_last_name :: "string option"
  rc_email :: string
  rc_phone :: string
  rc_middle_name :: "string option"

record RegistrationData =
  rg_postal_code :: "string option"
  rg_ogrn :: string
  rg_tax_ref_number :: string
  rg_kpp :: string
  rg_contact :: RegistrationContact
  rg_ceo_name :: string
  rg_full_company_name :: string
  rg_legal_address :: string
  rg_postal_address :: string

record PartnerSubmitRequest =
  pq_name :: string
  pq_registration_data :: RegistrationData

record Partner = PartnerSubmitRequest +
  pq_partner_id :: string

record PartnerPatch =
  pt_name :: string
  pt_email :: "string option"
  pt_phone :: "string option"

record MerchantProps =
  mt_partner_id :: string
  mt_merchant_id :: string
  mt_updated :: string
  mt_created :: string
  mt_name :: string
  mt_callback_url :: "string option"

record Integration =
  ig_integration_id :: string
  ig_for_testing :: bool
  ig_revision :: int
  ig_psp_external_id :: string
  ig_created :: string
  ig_updated :: string
  ig_merchant_id :: string
  ig_status :: bool

datatype ProviderApplicationState = Successed | Processing | Canceled

record ProviderApplication =
  pv_name :: "string option"
  pv_monthly_turnover :: "string option"
  pv_average_bill :: "string option"
  pv_email :: "string option"
  pv_phone :: "string option"

record ApiKey =
  ak_key_id :: string
  ak_value :: string
  ak_created :: string

text \<open>Of a suggested place the console uses the text only.\<close>

record GeoSuggest =
  gs_text :: string

section \<open>The state\<close>

record PartnerSubmitState =
  sb_pending :: bool
  sb_partner :: "MerchantProps option"
  sb_provider :: "Integration option"
  sb_providerApplication :: "(string \<times> ProviderApplicationState) option"
  sb_error :: "string option"
  sb_partnerBeenChecked :: bool

record PartnerDataState =
  dt_pending :: bool
  dt_data :: "PartnerData option"
  dt_error :: "string option"

record 'b SuggestState =
  sug_value :: "string option"
  sug_pending :: bool
  sug_found :: 'b
  sug_error :: "string option"

record DevelopersState =
  dv_pending :: bool
  dv_apiKeys :: "ApiKey list"
  dv_newApiKey :: "ApiKey option"
  dv_error :: "string option"

record ConsoleState =
  co_partnerSuggest :: "PartnerSuggest list option SuggestState"
  co_partnerData :: PartnerDataState
  co_partnerSubmit :: PartnerSubmitState
  co_geoSuggest :: "GeoSuggest list SuggestState"
  co_developers :: DevelopersState

definition initialConsole :: ConsoleState where
  "initialConsole =
     \<lparr>co_partnerSuggest = \<lparr>sug_value = None, sug_pending = False, sug_found = None, sug_error = None\<rparr>,
      co_partnerData = \<lparr>dt_pending = False, dt_data = None, dt_error = None\<rparr>,
      co_partnerSubmit = \<lparr>sb_pending = False, sb_partner = None, sb_provider = None, sb_providerApplication = None,
          sb_error = None, sb_partnerBeenChecked = False\<rparr>,
      co_geoSuggest = \<lparr>sug_value = None, sug_pending = False, sug_found = [], sug_error = None\<rparr>,
      co_developers = \<lparr>dv_pending = False, dv_apiKeys = [], dv_newApiKey = None, dv_error = None\<rparr>\<rparr>"

section \<open>Actions\<close>

text \<open>Of a callback an action carries it matters here whether there is one.  \<open>payload?\<close> is an option, and so is
  the \<open>data\<close> in it.\<close>

datatype console_action =
    FetchPartnerSubmitRequest PartnerSubmitRequest
  | FetchPartnerSubmitSuccess "MerchantProps option"
  | FetchPartnerSubmitFailure string
  | PatchPartnerSubmitRequest PartnerPatch string
  | PatchPartnerSubmitSuccess Partner
  | PatchPartnerSubmitFailure string
  | FetchPartnerMerchantsRequest
  | FetchPartnerMerchantsSuccess "MerchantProps option option"
  | FetchPartnerMerchantsFailure string
  | FetchProviderSubmitRequest string "string \<times> string" bool
  | FetchProviderSubmitSuccess "Integration option option"
  | FetchProviderSubmitFailure string
  | FetchProviderApplicationSubmitRequest string string ProviderApplication
  | FetchProviderApplicationSubmitSuccess string
  | FetchProviderApplicationSubmitFailure string
  | SetPartnerDataRequest PartnerData bool
  | SetPartnerDataSuccess PartnerData
  | SetPartnerDataFailure string
  | FetchPartnerRequest string
  | FetchPartnerSuccess "PartnerSuggest list"
  | FetchPartnerFailure string
  | FetchGeoRequest string
  | FetchGeoSuccess "GeoSuggest list"
  | FetchGeoFailure string
  | FetchApiKeys string
  | FetchApiKeysSuccess "ApiKey list"
  | FetchApiKeysFailure string
  | PostApiKey string
  | PostApiKeySuccess ApiKey
  | PostApiKeyFailure string
  | DeleteApiKey string string
  | DeleteApiKeySuccess
  | DeleteApiKeyFailure string

section \<open>The reducers\<close>

fun partnerSubmitReducer :: "console_action \<Rightarrow> PartnerSubmitState \<Rightarrow> PartnerSubmitState" where
  "partnerSubmitReducer (FetchPartnerSubmitRequest v) s = s\<lparr>sb_pending := True\<rparr>"
| "partnerSubmitReducer (FetchPartnerSubmitSuccess d) s = s\<lparr>sb_pending := False, sb_partner := d, sb_error := None\<rparr>"
| "partnerSubmitReducer (FetchPartnerSubmitFailure e) s = s\<lparr>sb_pending := False, sb_partner := None, sb_error := Some e\<rparr>"
| "partnerSubmitReducer (PatchPartnerSubmitRequest v i) s = s\<lparr>sb_pending := True\<rparr>"
| "partnerSubmitReducer (PatchPartnerSubmitSuccess d) s = s\<lparr>sb_pending := False, sb_error := None\<rparr>"
| "partnerSubmitReducer (PatchPartnerSubmitFailure e) s = s\<lparr>sb_pending := False, sb_error := Some e\<rparr>"
| "partnerSubmitReducer FetchPartnerMerchantsRequest s = s\<lparr>sb_pending := True\<rparr>"
| "partnerSubmitReducer (FetchPartnerMerchantsSuccess p) s =
     s\<lparr>sb_pending := False, sb_partner := (case p of None \<Rightarrow> None | Some d \<Rightarrow> d), sb_error := None, sb_partnerBeenChecked := True\<rparr>"
| "partnerSubmitReducer (FetchPartnerMerchantsFailure e) s =
     s\<lparr>sb_pending := False, sb_partner := None, sb_error := Some e, sb_partnerBeenChecked := True\<rparr>"
| "partnerSubmitReducer (FetchProviderSubmitRequest m v h) s = s\<lparr>sb_pending := True\<rparr>"
| "partnerSubmitReducer (FetchProviderSubmitSuccess p) s =
     s\<lparr>sb_pending := False, sb_provider := (case p of None \<Rightarrow> None | Some d \<Rightarrow> d), sb_error := None\<rparr>"
| "partnerSubmitReducer (FetchProviderSubmitFailure e) s = s\<lparr>sb_pending := False, sb_provider := None, sb_error := Some e\<rparr>"
| "partnerSubmitReducer (FetchProviderApplicationSubmitRequest m n f) s =
     s\<lparr>sb_providerApplication := Some (n, Processing), sb_pending := True\<rparr>"
| "partnerSubmitReducer (FetchProviderApplicationSubmitSuccess n) s =
     s\<lparr>sb_providerApplication := Some (n, Successed), sb_pending := False\<rparr>"
| "partnerSubmitReducer (FetchProviderApplicationSubmitFailure n) s =
     s\<lparr>sb_providerApplication := Some (n, Canceled), sb_pending := False\<rparr>"
| "partnerSubmitReducer _ s = s"

fun partnerDataReducer :: "console_action \<Rightarrow> PartnerDataState \<Rightarrow> PartnerDataState" where
  "partnerDataReducer (SetPartnerDataRequest v cb) s = s\<lparr>dt_data := Some v, dt_pending := True\<rparr>"
| "partnerDataReducer (SetPartnerDataSuccess d) s = s\<lparr>dt_pending := False, dt_data := Some d, dt_error := None\<rparr>"
| "partnerDataReducer (SetPartnerDataFailure e) s = s\<lparr>dt_pending := False, dt_data := None, dt_error := Some e\<rparr>"
| "partnerDataReducer _ s = s"

fun partnerSuggestReducer ::
  "console_action \<Rightarrow> PartnerSuggest list option SuggestState \<Rightarrow> PartnerSuggest list option SuggestState" where
  "partnerSuggestReducer (FetchPartnerRequest v) s = s\<lparr>sug_value := Some v, sug_pending := True\<rparr>"
| "partnerSuggestReducer (FetchPartnerSuccess xs) s = s\<lparr>sug_pending := False, sug_found := Some xs, sug_error := None\<rparr>"
| "partnerSuggestReducer (FetchPartnerFailure e) s = s\<lparr>sug_pending := False, sug_found := Some [], sug_error := Some e\<rparr>"
| "partnerSuggestReducer _ s = s"

fun geoSuggestReducer :: "console_action \<Rightarrow> GeoSuggest list SuggestState \<Rightarrow> GeoSuggest list SuggestState" where
  "geoSuggestReducer (FetchGeoRequest v) s = s\<lparr>sug_value := Some v, sug_pending := True\<rparr>"
| "geoSuggestReducer (FetchGeoSuccess xs) s = s\<lparr>sug_pending := False, sug_found := xs, sug_error := None\<rparr>"
| "geoSuggestReducer (FetchGeoFailure e) s = s\<lparr>sug_pending := False, sug_found := [], sug_error := Some e\<rparr>"
| "geoSuggestReducer _ s = s"

fun developersReducer :: "console_action \<Rightarrow> DevelopersState \<Rightarrow> DevelopersState" where
  "developersReducer (FetchApiKeys m) s = s\<lparr>dv_pending := True\<rparr>"
| "developersReducer (FetchApiKeysSuccess ks) s = s\<lparr>dv_pending := False, dv_apiKeys := ks, dv_error := None\<rparr>"
| "developersReducer (FetchApiKeysFailure e) s = s\<lparr>dv_pending := False, dv_apiKeys := [], dv_error := Some e\<rparr>"
| "developersReducer (PostApiKey m) s = s\<lparr>dv_pending := True\<rparr>"
| "developersReducer (PostApiKeySuccess k) s = s\<lparr>dv_pending := False, dv_newApiKey := Some k, dv_error := None\<rparr>"
| "developersReducer (PostApiKeyFailure e) s = s\<lparr>dv_pending := False, dv_newApiKey := None, dv_error := Some e\<rparr>"
| "developersReducer (DeleteApiKey m k) s = s\<lparr>dv_pending := True\<rparr>"
| "developersReducer DeleteApiKeySuccess s = s\<lparr>dv_pending := False, dv_error := None\<rparr>"
| "developersReducer (DeleteApiKeyFailure e) s = s\<lparr>dv_pending := False, dv_error := Some e\<rparr>"
| "developersReducer _ s = s"

definition rootReducer :: "console_action \<Rightarrow> ConsoleState \<Rightarrow> ConsoleState" where
  "rootReducer a s =
     \<lparr>co_partnerSuggest = partnerSuggestReducer a (co_partnerSuggest s),
      co_partnerData = partnerDataReducer a (co_partnerData s),
      co_partnerSubmit = partnerSubmitReducer a (co_partnerSubmit s),
      co_geoSuggest = geoSuggestReducer a (co_geoSuggest s),
      co_developers = developersReducer a (co_developers s)\<rparr>"

lemma root_slices [simp]:
  "co_partnerSuggest (rootReducer a s) = partnerSuggestReducer a (co_partnerSuggest s)"
  "co_partnerData (rootReducer a s) = partnerDataReducer a (co_partnerData s)"
  "co_partnerSubmit (rootReducer a s) = partnerSubmitReducer a (co_partnerSubmit s)"
  "co_geoSuggest (rootReducer a s) = geoSuggestReducer a (co_geoSuggest s)"
  "co_developers (rootReducer a s) = developersReducer a (co_developers s)"
  by (simp_all add: rootReducer_def)

end
