(* ===== verification/ConsoleSagas.thy ===== *)
theory ConsoleSagas
  imports ConsoleStore
begin

text \<open>
  The sagas of the console (\<open>console-frontend/src/store/*/sagas.ts\<close>) and their running.  Callbacks of the
  actions are logged and taken to return; what they dispatch comes as further actions of the interface.
\<close>

section \<open>Requests and replies\<close>

datatype console_request =
    GetPartners
  | PostPartner PartnerSubmitRequest
  | PatchPartner PartnerPatch string
  | GetMerchants string
  | PostMerchant string string
  | PostOrigin string string string
  | GetIntegrations string
  | PostIntegration string "string \<times> string"
  | PostApplication string ProviderApplication
  | PostService string
  | GetPartnerSuggest string
  | GetGeoSuggest string
  | GetKeys string
  | PostKey string
  | DeleteKey string string

datatype console_reply =
    RPartners "Partner list"
  | RPartner Partner
  | RMerchants "MerchantProps list"
  | RMerchant MerchantProps
  | RIntegrations "Integration list"
  | RIntegration Integration
  | RApplication ProviderApplicationState
  | RItems "PartnerSuggest list"
  | RPlaces "GeoSuggest list"
  | RKeys "ApiKey list"
  | RKey ApiKey
  | ROther

text \<open>\<open>const/index.ts\<close> and \<open>api/index.ts\<close>: verb, whether it goes to the own server, and address.\<close>

datatype http_verb = GET | POST | PATCH | DELETE

definition apiVersion :: string where "apiVersion = ''/api/web/v1''"

definition partners_url :: string where "partners_url = apiVersion @ ''/partners''"

definition merchants_url :: "string \<Rightarrow> string" where "merchants_url p = partners_url @ ''/'' @ p @ ''/merchants''"

definition merchant_url :: "string \<Rightarrow> string \<Rightarrow> string" where
  "merchant_url m what = apiVersion @ ''/merchants/'' @ m @ what"

fun console_http :: "console_request \<Rightarrow> http_verb \<times> bool \<times> string" where
  "console_http GetPartners = (GET, True, partners_url)"
| "console_http (PostPartner v) = (POST, True, partners_url)"
| "console_http (PatchPartner v i) = (PATCH, True, partners_url @ ''/'' @ i)"
| "console_http (GetMerchants p) = (GET, True, merchants_url p)"
| "console_http (PostMerchant p n) = (POST, True, merchants_url p)"
| "console_http (PostOrigin p m u) = (POST, False, merchants_url p @ ''/'' @ m @ ''/origins'')"
| "console_http (GetIntegrations m) = (GET, True, merchant_url m ''/integrations'')"
| "console_http (PostIntegration m v) = (POST, True, merchant_url m ''/integrations'')"
| "console_http (PostApplication m f) = (POST, False, merchant_url m ''/application'')"
| "console_http (PostService n) = (POST, False, partners_url @ ''/service'')"
| "console_http (GetPartnerSuggest v) = (GET, True, partners_url @ ''/suggest'' @
     (if v = [] then [] else ''?query='' @ encodeURIComponent v))"
| "console_http (GetGeoSuggest v) = (GET, False, apiVersion @ ''/geo/suggest'' @ (if v = [] then [] else ''?q='' @ v))"
| "console_http (GetKeys m) = (GET, True, merchant_url m ''/keys'')"
| "console_http (PostKey m) = (POST, True, merchant_url m ''/keys'')"
| "console_http (DeleteKey m k) = (DELETE, True, merchant_url m ''/keys'')"

section \<open>Effects\<close>

datatype console_callback = PartnerSaved Partner | PartnerPatched Partner | ProviderSaved | ProviderRefused | ServiceSent

datatype saga =
    SgDone
  | SgCall console_request "string + console_reply \<Rightarrow> saga"
  | SgWait console_request "string + console_reply \<Rightarrow> saga"
  | SgPut console_action saga
  | SgCallback console_callback saga
  | SgDetach console_request saga
  | SgSelect "ConsoleState \<Rightarrow> saga"

text \<open>\<open>yield call(..)\<close> in a \<open>try\<close>: a rejection goes to the handler, and so does the exception of a reply that
  lacks what is read from it.\<close>

definition type_message :: string where "type_message = ''TypeError''"

definition calling ::
  "console_request \<Rightarrow> (console_reply \<Rightarrow> 'b option) \<Rightarrow> (string \<Rightarrow> saga) \<Rightarrow> ('b \<Rightarrow> saga) \<Rightarrow> saga" where
  "calling q get h k = SgCall q (\<lambda>r. case r of Inl m \<Rightarrow> h m
     | Inr a \<Rightarrow> (case get a of None \<Rightarrow> h type_message | Some x \<Rightarrow> k x))"

fun r_partners where "r_partners (RPartners xs) = Some xs" | "r_partners _ = None"
fun r_partner where "r_partner (RPartner x) = Some x" | "r_partner _ = None"
fun r_merchants where "r_merchants (RMerchants xs) = Some xs" | "r_merchants _ = None"
fun r_merchant where "r_merchant (RMerchant x) = Some x" | "r_merchant _ = None"
fun r_integrations where "r_integrations (RIntegrations xs) = Some xs" | "r_integrations _ = None"
fun r_integration where "r_integration (RIntegration x) = Some x" | "r_integration _ = None"
fun r_application where "r_application (RApplication x) = Some x" | "r_application _ = None"
fun r_items where "r_items (RItems xs) = Some xs" | "r_items _ = None"
fun r_places where "r_places (RPlaces xs) = Some xs" | "r_places _ = None"
fun r_keys where "r_keys (RKeys xs) = Some xs" | "r_keys _ = None"
fun r_key where "r_key (RKey x) = Some x" | "r_key _ = None"
definition r_any :: "console_reply \<Rightarrow> unit option" where "r_any r = Some ()"

definition first :: "'a list \<Rightarrow> 'a option" where "first xs = (case xs of [] \<Rightarrow> None | x # _ \<Rightarrow> Some x)"

section \<open>The sagas\<close>

definition putting :: "console_action \<Rightarrow> saga" where "putting a = SgPut a SgDone"

definition setPartnerSubmitSaga :: "PartnerSubmitRequest \<Rightarrow> saga" where
  "setPartnerSubmitSaga v =
     (let failed = (\<lambda>m. putting (FetchPartnerSubmitFailure m)) in
      calling (PostPartner v) r_partner failed (\<lambda>p. SgCallback (PartnerSaved p)
        (calling (PostMerchant (pq_partner_id p) (pq_name p)) r_merchant failed (\<lambda>m.
           SgDetach (PostOrigin (pq_partner_id p) (mt_merchant_id m) (mt_name m))
             (putting (FetchPartnerSubmitSuccess (Some m)))))))"

definition patchPartnerSubmitSaga :: "PartnerPatch \<Rightarrow> string \<Rightarrow> saga" where
  "patchPartnerSubmitSaga v i =
     calling (PatchPartner v i) r_partner (\<lambda>m. putting (PatchPartnerSubmitFailure m))
       (\<lambda>p. SgCallback (PartnerPatched p) (putting (PatchPartnerSubmitSuccess p)))"

text \<open>What is kept of a registration when it is loaded again.\<close>

definition loaded_partner :: "Partner \<Rightarrow> PartnerData" where
  "loaded_partner p = (let d = pq_registration_data p in
     \<lparr>cn_name = pq_name p, cn_inn = rg_tax_ref_number d, cn_ogrn = rg_ogrn d, cn_kpp = rg_kpp d,
      cn_address = rg_legal_address d, cn_correspondence_address = rg_postal_address d,
      cn_full_name = rg_full_company_name d, cn_leader_name = rg_ceo_name d,
      cn_terms = True, cn_email = rc_email (rg_contact d), cn_phone = rc_phone (rg_contact d), cn_site = [],
      cn_provider = None, cn_service = None, cn_service_name = None, cn_is_new_inn = None\<rparr>)"

text \<open>Its last branch only makes an action and does not put it.\<close>

definition getPartnerMerchantsSaga :: saga where
  "getPartnerMerchantsSaga =
     (let failed = (\<lambda>m. putting (FetchPartnerMerchantsFailure m)) in
      calling GetPartners r_partners failed (\<lambda>ps. case first ps of
        Some p \<Rightarrow>
          (if pq_partner_id p = [] then putting (FetchPartnerMerchantsSuccess None)
           else SgPut (SetPartnerDataRequest (loaded_partner p) False)
             (calling (GetMerchants (pq_partner_id p)) r_merchants failed (\<lambda>ms. let merchant = first ms in
               SgPut (FetchPartnerMerchantsSuccess (Some merchant))
                 (case merchant of
                    Some m \<Rightarrow>
                      if mt_merchant_id m = [] then SgDone
                      else SgSelect (\<lambda>s. calling (GetIntegrations (mt_merchant_id m)) r_integrations failed (\<lambda>is.
                        if dt_data (co_partnerData s) \<noteq> None then putting (FetchProviderSubmitSuccess (Some (first is)))
                        else SgDone))
                  | None \<Rightarrow> SgDone))))
      | None \<Rightarrow> putting (FetchPartnerMerchantsSuccess None)))"

definition setProviderSubmitSaga :: "string \<Rightarrow> string \<times> string \<Rightarrow> bool \<Rightarrow> saga" where
  "setProviderSubmitSaga m v onCatch =
     calling (PostIntegration m v) r_integration
       (\<lambda>e. if onCatch then SgCallback ProviderRefused (putting (FetchProviderSubmitFailure e))
            else putting (FetchProviderSubmitFailure e))
       (\<lambda>i. SgCallback ProviderSaved (putting (FetchProviderSubmitSuccess (Some (Some i)))))"

definition setFutureProviderSubmitSaga :: "string \<Rightarrow> string \<Rightarrow> ProviderApplication \<Rightarrow> saga" where
  "setFutureProviderSubmitSaga m n f =
     calling (PostApplication m f) r_application (\<lambda>e. putting (FetchProviderApplicationSubmitFailure n))
       (\<lambda>st. if st = Successed then putting (FetchProviderApplicationSubmitSuccess n) else SgDone)"

definition setPartnerDataSaga :: "PartnerData \<Rightarrow> bool \<Rightarrow> saga" where
  "setPartnerDataSaga v callback =
     (case cn_service_name v of
        Some n \<Rightarrow> if n = [] then putting (SetPartnerDataSuccess v)
          else calling (PostService n) r_any (\<lambda>m. putting (SetPartnerDataFailure m))
            (\<lambda>_. if callback then SgCallback ServiceSent (putting (SetPartnerDataSuccess v))
                 else putting (SetPartnerDataSuccess v))
      | None \<Rightarrow> putting (SetPartnerDataSuccess v))"

definition fetchPartnerSuggestSaga :: "string \<Rightarrow> saga" where
  "fetchPartnerSuggestSaga v =
     calling (GetPartnerSuggest v) r_items (\<lambda>m. putting (FetchPartnerFailure m)) (\<lambda>xs. putting (FetchPartnerSuccess xs))"

definition fetchGeoSuggestSaga :: "string \<Rightarrow> saga" where
  "fetchGeoSuggestSaga v =
     calling (GetGeoSuggest v) r_places (\<lambda>m. putting (FetchGeoFailure m)) (\<lambda>xs. putting (FetchGeoSuccess xs))"

definition fetchApiKeysLocal :: "string \<Rightarrow> saga" where
  "fetchApiKeysLocal m =
     calling (GetKeys m) r_keys (\<lambda>e. putting (FetchApiKeysFailure e)) (\<lambda>ks. putting (FetchApiKeysSuccess ks))"

definition postApiKey :: "string \<Rightarrow> saga" where
  "postApiKey m =
     calling (PostKey m) r_key (\<lambda>e. putting (PostApiKeyFailure e))
       (\<lambda>k. SgPut (PostApiKeySuccess k) (putting (FetchApiKeys m)))"

definition deleteApiKey :: "string \<Rightarrow> string \<Rightarrow> saga" where
  "deleteApiKey m k =
     calling (DeleteKey m k) r_any (\<lambda>e. putting (DeleteApiKeyFailure e))
       (\<lambda>_. SgPut DeleteApiKeySuccess (putting (FetchApiKeys m)))"

section \<open>The watchers\<close>

datatype saga_kind =
    KSubmit | KPatch | KMerchants | KProvider | KApplication | KData | KSuggest | KGeo | KFetchKeys | KPostKey | KDeleteKey

fun saga_of :: "console_action \<Rightarrow> (saga_kind \<times> saga) option" where
  "saga_of (FetchPartnerSubmitRequest v) = Some (KSubmit, setPartnerSubmitSaga v)"
| "saga_of (PatchPartnerSubmitRequest v i) = Some (KPatch, patchPartnerSubmitSaga v i)"
| "saga_of FetchPartnerMerchantsRequest = Some (KMerchants, getPartnerMerchantsSaga)"
| "saga_of (FetchProviderSubmitRequest m v h) = Some (KProvider, setProviderSubmitSaga m v h)"
| "saga_of (FetchProviderApplicationSubmitRequest m n f) = Some (KApplication, setFutureProviderSubmitSaga m n f)"
| "saga_of (SetPartnerDataRequest v cb) = Some (KData, setPartnerDataSaga v cb)"
| "saga_of (FetchPartnerRequest v) = Some (KSuggest, fetchPartnerSuggestSaga v)"
| "saga_of (FetchGeoRequest v) = Some (KGeo, fetchGeoSuggestSaga v)"
| "saga_of (FetchApiKeys m) = Some (KFetchKeys, fetchApiKeysLocal m)"
| "saga_of (PostApiKey m) = Some (KPostKey, postApiKey m)"
| "saga_of (DeleteApiKey m k) = Some (KDeleteKey, deleteApiKey m k)"
| "saga_of _ = None"

section \<open>Running\<close>

type_synonym task = "saga_kind \<times> saga"

record console =
  cs_store :: ConsoleState
  cs_tasks :: "task list"
  cs_sent :: "console_request list"
  cs_heard :: "(console_request \<times> (string + console_reply)) list"
  cs_called :: "console_callback list"

definition new_console :: console where
  "new_console = \<lparr>cs_store = initialConsole, cs_tasks = [], cs_sent = [], cs_heard = [], cs_called = []\<rparr>"

text \<open>An action goes to the reducers first, then to the watchers.\<close>

definition console_dispatch :: "(task list \<Rightarrow> task \<Rightarrow> task list) \<Rightarrow> console_action \<Rightarrow> console \<Rightarrow> console" where
  "console_dispatch fork a c =
     (let c1 = c\<lparr>cs_store := rootReducer a (cs_store c)\<rparr>
      in case saga_of a of None \<Rightarrow> c1 | Some t \<Rightarrow> c1\<lparr>cs_tasks := fork (cs_tasks c1) t\<rparr>)"

fun saga_turn :: "(task list \<Rightarrow> task \<Rightarrow> task list) \<Rightarrow> nat \<Rightarrow> saga_kind \<Rightarrow> saga \<Rightarrow> console \<Rightarrow> console" where
  "saga_turn fork i k SgDone c = c"
| "saga_turn fork i k (SgCall q g) c = c\<lparr>cs_tasks := (cs_tasks c)[i := (k, SgWait q g)], cs_sent := cs_sent c @ [q]\<rparr>"
| "saga_turn fork i k (SgWait q g) c = c"
| "saga_turn fork i k (SgPut a p) c = console_dispatch fork a (c\<lparr>cs_tasks := (cs_tasks c)[i := (k, p)]\<rparr>)"
| "saga_turn fork i k (SgCallback b p) c = c\<lparr>cs_tasks := (cs_tasks c)[i := (k, p)], cs_called := cs_called c @ [b]\<rparr>"
| "saga_turn fork i k (SgDetach q p) c = c\<lparr>cs_tasks := (cs_tasks c)[i := (k, p)], cs_sent := cs_sent c @ [q]\<rparr>"
| "saga_turn fork i k (SgSelect g) c = c\<lparr>cs_tasks := (cs_tasks c)[i := (k, g (cs_store c))]\<rparr>"

fun saga_answer :: "nat \<Rightarrow> saga_kind \<Rightarrow> saga \<Rightarrow> string + console_reply \<Rightarrow> console \<Rightarrow> console" where
  "saga_answer i k (SgWait q g) r c = c\<lparr>cs_tasks := (cs_tasks c)[i := (k, g r)], cs_heard := cs_heard c @ [(q, r)]\<rparr>"
| "saga_answer i k p r c = c"

datatype console_input = Dispatch console_action | Turn nat | Answer nat "string + console_reply"

fun console_step :: "(task list \<Rightarrow> task \<Rightarrow> task list) \<Rightarrow> console_input \<Rightarrow> console \<Rightarrow> console" where
  "console_step fork (Dispatch a) c = console_dispatch fork a c"
| "console_step fork (Turn i) c =
     (if i < length (cs_tasks c) then saga_turn fork i (fst (cs_tasks c ! i)) (snd (cs_tasks c ! i)) c else c)"
| "console_step fork (Answer i r) c =
     (if i < length (cs_tasks c) then saga_answer i (fst (cs_tasks c ! i)) (snd (cs_tasks c ! i)) r c else c)"

definition console_run :: "(task list \<Rightarrow> task \<Rightarrow> task list) \<Rightarrow> console_input list \<Rightarrow> console \<Rightarrow> console" where
  "console_run fork ins c = fold (console_step fork) ins c"

text \<open>\<open>takeLatest\<close>: the running task of the same watcher is cancelled, and the others go on.\<close>

definition takes_latest :: "(task list \<Rightarrow> task \<Rightarrow> task list) \<Rightarrow> bool" where
  "takes_latest fork = (\<forall>ts t. fork ts t = filter (\<lambda>u. fst u \<noteq> fst t) ts @ [t])"

definition latest_fork :: "task list \<Rightarrow> task \<Rightarrow> task list" where
  "latest_fork ts t = filter (\<lambda>u. fst u \<noteq> fst t) ts @ [t]"

lemma latest_fork: "takes_latest latest_fork"
  by (simp add: takes_latest_def latest_fork_def)

lemma console_run_simps [simp]:
  "console_run fork [] c = c" "console_run fork (i # ins) c = console_run fork ins (console_step fork i c)"
  by (simp_all add: console_run_def)

lemma console_run_append: "console_run fork (xs @ ys) c = console_run fork ys (console_run fork xs c)"
  by (simp add: console_run_def)

end
