(* ===== verification/ConsoleResults.thy ===== *)
theory ConsoleResults
  imports ConsoleSagas
begin

text \<open>
  What the store of the console keeps: the suggestions shown once a search has settled are those for the
  text typed last (a locale for watched searches, interpreted on both), what comes back of a registration, and where it goes wrong.
\<close>

section \<open>Actions of a saga\<close>

text \<open>Every action the saga may put satisfies \<open>P\<close>.\<close>

primrec puts_only :: "(console_action \<Rightarrow> bool) \<Rightarrow> saga \<Rightarrow> bool" where
  "puts_only P SgDone = True"
| "puts_only P (SgCall q g) = (\<forall>r. puts_only P (g r))"
| "puts_only P (SgWait q g) = (\<forall>r. puts_only P (g r))"
| "puts_only P (SgPut a p) = (P a \<and> puts_only P p)"
| "puts_only P (SgCallback b p) = puts_only P p"
| "puts_only P (SgDetach q p) = puts_only P p"
| "puts_only P (SgSelect g) = (\<forall>s. puts_only P (g s))"

lemma puts_putting [simp]: "puts_only P (putting a) = P a"
  by (simp add: putting_def)

lemma puts_calling:
  "(\<And>m. puts_only P (h m)) \<Longrightarrow> (\<And>x. puts_only P (k x)) \<Longrightarrow> puts_only P (calling q get h k)"
  by (auto simp: calling_def split: sum.split option.split)

lemmas saga_defs = setPartnerSubmitSaga_def patchPartnerSubmitSaga_def getPartnerMerchantsSaga_def
  setProviderSubmitSaga_def setFutureProviderSubmitSaga_def setPartnerDataSaga_def fetchPartnerSuggestSaga_def
  fetchGeoSuggestSaga_def fetchApiKeysLocal_def postApiKey_def deleteApiKey_def

section \<open>Searches\<close>

text \<open>A slice that only its own watcher changes, whose saga asks for what the action names and stores the
  reply or the error.\<close>

locale watched_search =
  fixes kind :: saga_kind and ask :: "string \<Rightarrow> console_action" and search_saga :: "string \<Rightarrow> saga"
    and request :: "string \<Rightarrow> console_request" and get :: "console_reply \<Rightarrow> 'x option"
    and found_action :: "'x \<Rightarrow> console_action" and failed_action :: "string \<Rightarrow> console_action"
    and slice :: "ConsoleState \<Rightarrow> 'b SuggestState" and found :: "'x \<Rightarrow> 'b" and nothing start :: 'b
    and mine :: "console_action \<Rightarrow> bool"
  assumes saga_calls: "search_saga v = calling (request v) get (\<lambda>m. putting (failed_action m)) (\<lambda>x. putting (found_action x))"
    and watched: "saga_of a = Some (kind, p) \<longleftrightarrow> (\<exists>v. a = ask v \<and> p = search_saga v)"
    and results_unwatched: "saga_of (found_action x) = None" "saga_of (failed_action m) = None"
    and others: "saga_of a = Some (k, p) \<Longrightarrow> k \<noteq> kind \<Longrightarrow> puts_only (\<lambda>a. \<not> mine a) p"
    and mine: "mine a \<longleftrightarrow> (\<exists>v. a = ask v) \<or> (\<exists>x. a = found_action x) \<or> (\<exists>m. a = failed_action m)"
    and slice_ask: "slice (rootReducer (ask v) s) = (slice s)\<lparr>sug_value := Some v, sug_pending := True\<rparr>"
    and slice_found: "slice (rootReducer (found_action x) s) = (slice s)\<lparr>sug_pending := False, sug_found := found x, sug_error := None\<rparr>"
    and slice_failed: "slice (rootReducer (failed_action m) s) = (slice s)\<lparr>sug_pending := False, sug_found := nothing, sug_error := Some m\<rparr>"
    and slice_other: "\<not> mine a \<Longrightarrow> slice (rootReducer a s) = slice s"
begin

text \<open>Where the running search may stand, for the text \<open>v\<close> and the replies heard so far.\<close>

definition stage :: "(console_request \<times> (string + console_reply)) list \<Rightarrow> string option \<Rightarrow> saga \<Rightarrow> bool" where
  "stage heard val p =
     (p = SgDone \<or> (\<exists>m. p = putting (failed_action m))
      \<or> (\<exists>v. val = Some v \<and> (p = search_saga v \<or> (\<exists>g. p = SgWait (request v) g \<and> search_saga v = SgCall (request v) g)
          \<or> (\<exists>x a. p = putting (found_action x) \<and> get a = Some x \<and> (request v, Inr a) \<in> set heard))))"

text \<open>What is shown: settled and without an error it is the reply for the text; with an error it is nothing; and
  at any moment it is what the store started with, nothing, or a reply that was heard.\<close>

definition shown_ok :: "(console_request \<times> (string + console_reply)) list \<Rightarrow> 'b SuggestState \<Rightarrow> bool" where
  "shown_ok heard sl =
     ((sug_pending sl \<or> sug_error sl \<noteq> None \<or> sug_value sl = None
       \<or> (\<exists>v x a. sug_value sl = Some v \<and> sug_found sl = found x \<and> get a = Some x \<and> (request v, Inr a) \<in> set heard))
      \<and> (sug_error sl \<noteq> None \<longrightarrow> sug_found sl = nothing)
      \<and> (sug_found sl \<in> {start, nothing}
          \<or> (\<exists>v x a. sug_found sl = found x \<and> get a = Some x \<and> (request v, Inr a) \<in> set heard)))"

definition task_ok :: "console \<Rightarrow> task \<Rightarrow> bool" where
  "task_ok c t = (if fst t = kind then stage (cs_heard c) (sug_value (slice (cs_store c))) (snd t)
     else puts_only (\<lambda>a. \<not> mine a) (snd t))"

definition search_ok :: "console \<Rightarrow> bool" where
  "search_ok c = (list_all (task_ok c) (cs_tasks c) \<and> shown_ok (cs_heard c) (slice (cs_store c)))"

lemma stage_more: "stage h val p \<Longrightarrow> set h \<subseteq> set h' \<Longrightarrow> stage h' val p"
  unfolding stage_def by blast

lemma shown_more: "shown_ok h sl \<Longrightarrow> set h \<subseteq> set h' \<Longrightarrow> shown_ok h' sl"
  unfolding shown_ok_def by blast

lemma task_same:
  "cs_heard c' = cs_heard c \<Longrightarrow> slice (cs_store c') = slice (cs_store c) \<Longrightarrow> task_ok c' t = task_ok c t"
  by (simp add: task_ok_def)

lemma search_ok_same:
  "search_ok c \<Longrightarrow> cs_heard c' = cs_heard c \<Longrightarrow> slice (cs_store c') = slice (cs_store c) \<Longrightarrow>
     (\<And>t. t \<in> set (cs_tasks c') \<Longrightarrow> t \<in> set (cs_tasks c) \<or> task_ok c t) \<Longrightarrow> search_ok c'"
  unfolding search_ok_def list_all_iff using task_same [of c' c] by metis

lemma dispatch_other:
  assumes "takes_latest fork" "search_ok c" "\<not> mine a"
  shows "search_ok (console_dispatch fork a c)"
proof (cases "saga_of a")
  case None
  then show ?thesis
    using search_ok_same [OF assms(2), of "console_dispatch fork a c"] assms(3)
    by (simp add: console_dispatch_def slice_other)
next
  case (Some t)
  obtain k p where t: "t = (k, p)" by (cases t)
  have "k \<noteq> kind" using Some t watched assms(3) mine by blast
  then have "task_ok c t" using others [of a k p] Some t by (simp add: task_ok_def)
  moreover have "set (cs_tasks (console_dispatch fork a c)) \<subseteq> insert t (set (cs_tasks c))"
    using assms(1) Some t by (auto simp: console_dispatch_def takes_latest_def)
  moreover have "cs_heard (console_dispatch fork a c) = cs_heard c"
    "slice (cs_store (console_dispatch fork a c)) = slice (cs_store c)"
    using assms(3) Some by (simp_all add: console_dispatch_def slice_other)
  ultimately show ?thesis using search_ok_same [OF assms(2)] by blast
qed

lemma dispatch_ask:
  assumes "takes_latest fork" "search_ok c"
  shows "search_ok (console_dispatch fork (ask v) c)"
proof -
  have s: "saga_of (ask v) = Some (kind, search_saga v)" using watched by blast
  have "task_ok (console_dispatch fork (ask v) c) t" if "t \<in> set (cs_tasks c)" "fst t \<noteq> kind" for t
    using assms(2) that by (auto simp: search_ok_def list_all_iff task_ok_def)
  moreover have "task_ok (console_dispatch fork (ask v) c) (kind, search_saga v)"
    by (simp add: task_ok_def stage_def console_dispatch_def s slice_ask)
  moreover have "shown_ok (cs_heard c) ((slice (cs_store c))\<lparr>sug_value := Some v, sug_pending := True\<rparr>)"
    using assms(2) by (simp add: search_ok_def shown_ok_def)
  ultimately show ?thesis
    using assms(1) unfolding search_ok_def
    by (auto simp: list_all_iff console_dispatch_def s slice_ask takes_latest_def)
qed

text \<open>The task that has the turn is put back as \<open>p\<close>.\<close>

lemma put_back:
  assumes "search_ok c" "i < length (cs_tasks c)" "task_ok c (k, p)"
    and "cs_tasks c' = (cs_tasks c)[i := (k, p)]" "cs_heard c' = cs_heard c" "cs_store c' = cs_store c"
  shows "search_ok c'"
  by (rule search_ok_same [OF assms(1)]) (use assms in \<open>auto dest: set_update_subset_insert [THEN subsetD]\<close>)

lemma result_put:
  assumes "search_ok c" "\<And>s. slice (rootReducer a s) = upd (slice s)" "saga_of a = None"
    and "\<And>sl. sug_value (upd sl) = sug_value sl" "shown_ok (cs_heard c) (upd (slice (cs_store c)))"
  shows "search_ok (console_dispatch fork a c)"
  using assms by (simp add: search_ok_def console_dispatch_def list_all_iff task_ok_def)

lemma turn_ok:
  assumes "takes_latest fork" "search_ok c" "i < length (cs_tasks c)"
  shows "search_ok (saga_turn fork i (fst (cs_tasks c ! i)) (snd (cs_tasks c ! i)) c)"
proof -
  obtain k p where t: "cs_tasks c ! i = (k, p)" by (cases "cs_tasks c ! i")
  have ok: "task_ok c (k, p)" using assms(2,3) t nth_mem unfolding search_ok_def list_all_iff by metis
  have again: "search_ok (c\<lparr>cs_tasks := (cs_tasks c)[i := (k, p')]\<rparr>)" if "task_ok c (k, p')" for p'
    by (rule put_back [OF assms(2,3) that]) simp_all
  have done_ok: "task_ok c (kind, SgDone)" by (simp add: task_ok_def stage_def)
  show ?thesis
  proof (cases "k = kind")
    case False
    then have only: "puts_only (\<lambda>a. \<not> mine a) p" using ok by (simp add: task_ok_def)
    show ?thesis
    proof (cases p)
      case (SgPut a p')
      then have "task_ok c (k, p')" "\<not> mine a" using only False by (simp_all add: task_ok_def)
      then show ?thesis using dispatch_other [OF assms(1) again] SgPut t by simp
    next
      case (SgCall q g)
      then have "task_ok c (k, SgWait q g)" using only False by (simp add: task_ok_def)
      from put_back [OF assms(2,3) this] show ?thesis using SgCall t by simp
    next
      case (SgCallback b p')
      then have "task_ok c (k, p')" using only False by (simp add: task_ok_def)
      from put_back [OF assms(2,3) this] show ?thesis using SgCallback t by simp
    next
      case (SgDetach q p')
      then have "task_ok c (k, p')" using only False by (simp add: task_ok_def)
      from put_back [OF assms(2,3) this] show ?thesis using SgDetach t by simp
    next
      case (SgSelect g)
      then have "task_ok c (k, g (cs_store c))" using only False by (simp add: task_ok_def)
      from put_back [OF assms(2,3) this] show ?thesis using SgSelect t by simp
    qed (use t assms(2) in simp_all)
  next
    case True
    then have st: "stage (cs_heard c) (sug_value (slice (cs_store c))) p" using ok by (simp add: task_ok_def)
    then consider "p = SgDone" | (fail) m where "p = putting (failed_action m)"
      | (new) v where "sug_value (slice (cs_store c)) = Some v" "p = search_saga v"
      | (wait) q g where "p = SgWait q g"
      | (res) v x a where "sug_value (slice (cs_store c)) = Some v" "p = putting (found_action x)"
          "get a = Some x" "(request v, Inr a) \<in> set (cs_heard c)"
      unfolding stage_def by blast
    then show ?thesis
    proof cases
      case fail
      have "search_ok (console_dispatch fork (failed_action m) (c\<lparr>cs_tasks := (cs_tasks c)[i := (k, SgDone)]\<rparr>))"
        using again done_ok True by (intro result_put [OF _ slice_failed]) (simp_all add: results_unwatched shown_ok_def)
      then show ?thesis using fail t by (simp add: putting_def)
    next
      case new
      then obtain g where g: "search_saga v = SgCall (request v) g" by (simp add: saga_calls calling_def)
      then have "task_ok c (k, SgWait (request v) g)" using new True by (auto simp: task_ok_def stage_def)
      then show ?thesis using new g t by (auto intro!: put_back [OF assms(2,3), of k])
    next
      case res
      have "search_ok (console_dispatch fork (found_action x) (c\<lparr>cs_tasks := (cs_tasks c)[i := (k, SgDone)]\<rparr>))"
        using again done_ok True res by (intro result_put [OF _ slice_found]) (auto simp: results_unwatched shown_ok_def)
      then show ?thesis using res t by (simp add: putting_def)
    qed (use t assms(2) in simp_all)
  qed
qed

lemma answer_ok:
  assumes "search_ok c" "i < length (cs_tasks c)"
  shows "search_ok (saga_answer i (fst (cs_tasks c ! i)) (snd (cs_tasks c ! i)) r c)"
proof -
  obtain k p where t: "cs_tasks c ! i = (k, p)" by (cases "cs_tasks c ! i")
  have ok: "task_ok c (k, p)" using assms t nth_mem unfolding search_ok_def list_all_iff by metis
  show ?thesis
  proof (cases p)
    case (SgWait q g)
    define c' where "c' = c\<lparr>cs_heard := cs_heard c @ [(q, r)]\<rparr>"
    have ok': "search_ok c'"
    proof -
      have "set (cs_heard c) \<subseteq> set (cs_heard c')" by (auto simp: c'_def)
      then have "task_ok c u \<Longrightarrow> task_ok c' u" for u
        using stage_more unfolding task_ok_def by (auto simp: c'_def)
      then show ?thesis
        using assms(1) shown_more [OF _ \<open>set (cs_heard c) \<subseteq> set (cs_heard c')\<close>]
        by (simp add: search_ok_def list_all_iff c'_def)
    qed
    have "task_ok c' (k, g r)"
    proof (cases "k = kind")
      case False
      then show ?thesis using ok SgWait by (simp add: task_ok_def)
    next
      case True
      then obtain v where v: "sug_value (slice (cs_store c)) = Some v" "q = request v" "search_saga v = SgCall (request v) g"
        using ok SgWait by (auto simp: task_ok_def stage_def saga_calls calling_def putting_def)
      have "g r = (case r of Inl m \<Rightarrow> putting (failed_action m)
          | Inr a \<Rightarrow> (case get a of None \<Rightarrow> putting (failed_action type_message) | Some x \<Rightarrow> putting (found_action x)))"
        using v(3) by (auto simp: saga_calls calling_def)
      then show ?thesis
        using True v by (auto simp: task_ok_def stage_def c'_def split: sum.split option.split)
    qed
    from put_back [OF ok' _ this, of i] SgWait t assms(2) show ?thesis by (simp add: c'_def)
  qed (use t assms(1) in simp_all)
qed

theorem search_stays_ok:
  assumes "takes_latest fork" "search_ok c" "\<forall>a. Dispatch a \<in> set ins \<longrightarrow> saga_of a \<noteq> None"
  shows "search_ok (console_run fork ins c)"
  using assms(2,3)
proof (induction ins arbitrary: c)
  case (Cons i ins)
  have "search_ok (console_step fork i c)"
  proof (cases i)
    case (Dispatch a)
    then have "saga_of a \<noteq> None" using Cons.prems(2) by simp
    then show ?thesis
      using Dispatch dispatch_ask [OF assms(1) Cons.prems(1)] dispatch_other [OF assms(1) Cons.prems(1)] mine
        results_unwatched by (cases "mine a") auto
  qed (use Cons.prems(1) turn_ok [OF assms(1)] answer_ok in auto)
  then show ?case using Cons by simp
qed simp

end

fun suggest_action :: "console_action \<Rightarrow> bool" where
  "suggest_action (FetchPartnerRequest v) = True"
| "suggest_action (FetchPartnerSuccess xs) = True"
| "suggest_action (FetchPartnerFailure m) = True"
| "suggest_action _ = False"

fun geo_action :: "console_action \<Rightarrow> bool" where
  "geo_action (FetchGeoRequest v) = True"
| "geo_action (FetchGeoSuccess xs) = True"
| "geo_action (FetchGeoFailure m) = True"
| "geo_action _ = False"

text \<open>What each watcher's saga may put.\<close>

fun may_put :: "saga_kind \<Rightarrow> console_action \<Rightarrow> bool" where
  "may_put KSubmit a = (\<not> suggest_action a \<and> \<not> geo_action a)"
| "may_put KSuggest a = suggest_action a"
| "may_put KGeo a = geo_action a"
| "may_put _ a = (\<not> suggest_action a \<and> \<not> geo_action a)"

lemma saga_puts:
  "puts_only (may_put KSubmit) (setPartnerSubmitSaga v)"
  "puts_only (may_put KPatch) (patchPartnerSubmitSaga w i)"
  "puts_only (may_put KMerchants) getPartnerMerchantsSaga"
  "puts_only (may_put KProvider) (setProviderSubmitSaga m cr h)"
  "puts_only (may_put KApplication) (setFutureProviderSubmitSaga m n f)"
  "puts_only (may_put KData) (setPartnerDataSaga d cb)"
  "puts_only (may_put KSuggest) (fetchPartnerSuggestSaga txt)"
  "puts_only (may_put KGeo) (fetchGeoSuggestSaga txt)"
  "puts_only (may_put KFetchKeys) (fetchApiKeysLocal m)"
  "puts_only (may_put KPostKey) (postApiKey m)"
  "puts_only (may_put KDeleteKey) (deleteApiKey m i)"
  by (auto simp: saga_defs Let_def intro!: puts_calling split: option.split)

lemma saga_of_puts: "saga_of a = Some (k, p) \<Longrightarrow> puts_only (may_put k) p"
  by (cases a) (auto simp: saga_puts)

lemma puts_mono: "puts_only P p \<Longrightarrow> (\<And>a. P a \<Longrightarrow> Q a) \<Longrightarrow> puts_only Q p"
  by (induction p) auto

lemma other_puts:
  assumes "saga_of a = Some (k, p)"
  shows "k \<noteq> KSuggest \<Longrightarrow> puts_only (\<lambda>a. \<not> suggest_action a) p"
    and "k \<noteq> KGeo \<Longrightarrow> puts_only (\<lambda>a. \<not> geo_action a) p"
proof -
  have one: "\<not> (suggest_action b \<and> geo_action b)" for b by (cases b) simp_all
  show "k \<noteq> KSuggest \<Longrightarrow> puts_only (\<lambda>a. \<not> suggest_action a) p"
    using one by (intro puts_mono [OF saga_of_puts [OF assms]]) (cases k; auto)
  show "k \<noteq> KGeo \<Longrightarrow> puts_only (\<lambda>a. \<not> geo_action a) p"
    using one by (intro puts_mono [OF saga_of_puts [OF assms]]) (cases k; auto)
qed

interpretation partner_search: watched_search KSuggest FetchPartnerRequest fetchPartnerSuggestSaga GetPartnerSuggest
  r_items FetchPartnerSuccess FetchPartnerFailure co_partnerSuggest Some "Some []" None suggest_action
proof
  show "saga_of a = Some (KSuggest, p) \<longleftrightarrow> (\<exists>v. a = FetchPartnerRequest v \<and> p = fetchPartnerSuggestSaga v)" for a p
    by (cases a) auto
  show "suggest_action a \<longleftrightarrow> (\<exists>v. a = FetchPartnerRequest v) \<or> (\<exists>x. a = FetchPartnerSuccess x) \<or> (\<exists>m. a = FetchPartnerFailure m)" for a
    by (cases a) auto
  show "\<not> suggest_action a \<Longrightarrow> co_partnerSuggest (rootReducer a s) = co_partnerSuggest s" for a s
    by (cases a) auto
qed (use other_puts in \<open>auto simp: fetchPartnerSuggestSaga_def\<close>)

interpretation geo_search: watched_search KGeo FetchGeoRequest fetchGeoSuggestSaga GetGeoSuggest
  r_places FetchGeoSuccess FetchGeoFailure co_geoSuggest "\<lambda>xs. xs" "[]" "[]" geo_action
proof
  show "saga_of a = Some (KGeo, p) \<longleftrightarrow> (\<exists>v. a = FetchGeoRequest v \<and> p = fetchGeoSuggestSaga v)" for a p
    by (cases a) auto
  show "geo_action a \<longleftrightarrow> (\<exists>v. a = FetchGeoRequest v) \<or> (\<exists>x. a = FetchGeoSuccess x) \<or> (\<exists>m. a = FetchGeoFailure m)" for a
    by (cases a) auto
  show "\<not> geo_action a \<Longrightarrow> co_geoSuggest (rootReducer a s) = co_geoSuggest s" for a s
    by (cases a) auto
qed (use other_puts in \<open>auto simp: fetchGeoSuggestSaga_def\<close>)

lemma reply_shapes: "r_items a = Some xs \<longleftrightarrow> a = RItems xs" "r_places a = Some ys \<longleftrightarrow> a = RPlaces ys"
  by (cases a; simp)+

text \<open>C9: Whatever the interface asks, in whatever order replies come and tasks go on: once nothing is awaited and
  there is no error, the list of companies or of places is a reply to the request for the text asked for last,
  never a late one for an earlier text.  While a new text is awaited the list of an earlier one is still shown:
  at every moment it is the one the console started with, an empty one, or a reply that was heard to a request
  for some text; after an error it is empty.\<close>

theorem suggestions_match_text:
  assumes "takes_latest fork" "\<forall>a. Dispatch a \<in> set ins \<longrightarrow> saga_of a \<noteq> None"
    and "c = console_run fork ins new_console"
    and "companies = co_partnerSuggest (cs_store c)" "places = co_geoSuggest (cs_store c)"
  shows "(\<not> sug_pending companies \<and> sug_error companies = None \<and> sug_value companies = Some v \<longrightarrow>
       (\<exists>xs. sug_found companies = Some xs \<and> (GetPartnerSuggest v, Inr (RItems xs)) \<in> set (cs_heard c)))
     \<and> (\<not> sug_pending places \<and> sug_error places = None \<and> sug_value places = Some w \<longrightarrow>
       (GetGeoSuggest w, Inr (RPlaces (sug_found places))) \<in> set (cs_heard c))
     \<and> (sug_found companies \<in> {None, Some []}
        \<or> (\<exists>v' xs. sug_found companies = Some xs \<and> (GetPartnerSuggest v', Inr (RItems xs)) \<in> set (cs_heard c)))
     \<and> (sug_found places = []
        \<or> (\<exists>w'. (GetGeoSuggest w', Inr (RPlaces (sug_found places))) \<in> set (cs_heard c)))
     \<and> (sug_error companies \<noteq> None \<longrightarrow> sug_found companies = Some [])
     \<and> (sug_error places \<noteq> None \<longrightarrow> sug_found places = [])"
proof -
  have "partner_search.search_ok new_console" "geo_search.search_ok new_console"
    by (simp_all add: partner_search.search_ok_def geo_search.search_ok_def partner_search.shown_ok_def
        geo_search.shown_ok_def new_console_def initialConsole_def)
  then have "partner_search.search_ok c" "geo_search.search_ok c"
    using partner_search.search_stays_ok [OF assms(1) _ assms(2)] geo_search.search_stays_ok [OF assms(1) _ assms(2)]
      assms(3) by simp_all
  then show ?thesis
    using assms(4,5)
    by (auto simp: partner_search.search_ok_def geo_search.search_ok_def partner_search.shown_ok_def
        geo_search.shown_ok_def reply_shapes)
qed

theorem suggestions_match_text_witness:
  "\<exists>xs. sug_found (co_partnerSuggest (cs_store (console_run latest_fork
       [Dispatch (FetchPartnerRequest ''a''), Turn 0, Dispatch (FetchPartnerRequest ''ab''), Turn 0,
        Answer 0 (Inr (RItems [])), Turn 0] new_console))) = Some xs"
  using suggestions_match_text [OF latest_fork _ refl refl refl, of "[Dispatch (FetchPartnerRequest ''a''), Turn 0,
      Dispatch (FetchPartnerRequest ''ab''), Turn 0, Answer 0 (Inr (RItems [])), Turn 0]" "''ab''"]
  by (simp add: new_console_def initialConsole_def console_dispatch_def latest_fork_def fetchPartnerSuggestSaga_def
      calling_def putting_def)

section \<open>Registering\<close>

lemmas console_runs = console_dispatch_def takes_latest_def calling_def putting_def saga_defs Let_def

text \<open>C10: What a registration does when it is alone: a refusal of the server is the error shown; when only the shop
  cannot be made, the partner exists at the server and the form is told so, while the store knows only the
  error; when both are made the store has the shop, and the name of the shop, not an address, is sent as its origin.\<close>

theorem registration_result:
  assumes "takes_latest fork" "cs_tasks c = []"
    and "c' = console_run fork [Dispatch (FetchPartnerSubmitRequest v), Turn 0, Answer 0 partner_reply, Turn 0, Turn 0,
            Answer 0 merchant_reply, Turn 0, Turn 0] c"
    and "s = co_partnerSubmit (cs_store c')"
  shows "\<not> sb_pending s \<and>
    (case partner_reply of
       Inl e \<Rightarrow> sb_partner s = None \<and> sb_error s = Some e \<and> cs_called c' = cs_called c \<and> cs_sent c' = cs_sent c @ [PostPartner v]
     | Inr (RPartner p) \<Rightarrow> cs_called c' = cs_called c @ [PartnerSaved p] \<and>
         (case merchant_reply of
            Inl e \<Rightarrow> sb_partner s = None \<and> sb_error s = Some e
              \<and> cs_sent c' = cs_sent c @ [PostPartner v, PostMerchant (pq_partner_id p) (pq_name p)]
          | Inr (RMerchant m) \<Rightarrow> sb_partner s = Some m \<and> sb_error s = None
              \<and> cs_sent c' = cs_sent c @ [PostPartner v, PostMerchant (pq_partner_id p) (pq_name p),
                                         PostOrigin (pq_partner_id p) (mt_merchant_id m) (mt_name m)]
          | _ \<Rightarrow> sb_partner s = None \<and> sb_error s = Some type_message)
     | _ \<Rightarrow> sb_partner s = None \<and> sb_error s = Some type_message)"
proof -
  have fork: "fork ts t = filter (\<lambda>u. fst u \<noteq> fst t) ts @ [t]" for ts t
    using assms(1) unfolding takes_latest_def by blast
  note start = console_dispatch_def calling_def putting_def setPartnerSubmitSaga_def fork Let_def
  show ?thesis
  proof (cases partner_reply)
    case (Inl e)
    then show ?thesis using assms(2) by (simp add: assms(3,4) start)
  next
    case (Inr a)
    show ?thesis
    proof (cases "\<exists>p. a = RPartner p")
      case False
      then have "r_partner a = None" by (cases a) auto
      then show ?thesis using False Inr assms(2) by (cases a) (simp_all add: assms(3,4) start)
    next
      case True
      then obtain p where p: "a = RPartner p" by blast
      show ?thesis
      proof (cases merchant_reply)
        case (Inl e)
        then show ?thesis using Inr p assms(2) by (simp add: assms(3,4) start)
      next
        case (Inr b)
        then show ?thesis using \<open>partner_reply = Inr a\<close> p assms(2) by (cases b) (simp_all add: assms(3,4) start)
      qed
    qed
  qed
qed

text \<open>A registered shop whose integrations cannot be loaded is forgotten: its data had arrived and been stored,
  and the failure of the last request takes the shop out of the store again.\<close>

theorem failed_integrations_lose_partner:
  assumes "takes_latest fork" "cs_tasks c = []" "pq_partner_id p \<noteq> []" "mt_merchant_id m \<noteq> []"
    and "ins = [Dispatch FetchPartnerMerchantsRequest, Turn 0, Answer 0 (Inr (RPartners (p # ps))), Turn 0, Turn 1,
           Turn 0, Answer 0 (Inr (RMerchants (m # ms))), Turn 0]"
  shows "sb_partner (co_partnerSubmit (cs_store (console_run fork ins c))) = Some m
    \<and> (let s = co_partnerSubmit (cs_store (console_run fork (ins @ [Turn 0, Turn 0, Answer 0 (Inl e), Turn 0]) c))
       in sb_partner s = None \<and> sb_error s = Some e \<and> sb_partnerBeenChecked s)"
proof -
  have "cn_service_name (loaded_partner p) = None" by (simp add: loaded_partner_def Let_def)
  then show ?thesis using assms by (simp add: console_runs first_def)
qed

text \<open>An application to a provider that the server takes but does not decide at once is never over for the
  store: whatever tasks and replies come after it, the store stays pending and the application in progress.\<close>

theorem open_application_pends:
  assumes "takes_latest fork" "cs_tasks c = []" "st \<noteq> Successed" "\<forall>a. Dispatch a \<notin> set ins"
    and "s = co_partnerSubmit (cs_store (console_run fork ([Dispatch (FetchProviderApplicationSubmitRequest m n f), Turn 0,
            Answer 0 (Inr (RApplication st))] @ ins) c))"
  shows "sb_pending s \<and> sb_providerApplication s = Some (n, Processing)"
proof -
  define c1 where "c1 = console_run fork [Dispatch (FetchProviderApplicationSubmitRequest m n f), Turn 0,
      Answer 0 (Inr (RApplication st))] c"
  have c1: "cs_tasks c1 = [(KApplication, SgDone)]" "sb_pending (co_partnerSubmit (cs_store c1))"
    "sb_providerApplication (co_partnerSubmit (cs_store c1)) = Some (n, Processing)"
    using assms(1-3) by (simp_all add: c1_def console_runs)
  have "console_run fork ins c1 = c1"
    using assms(4) c1(1)
  proof (induction ins)
    case (Cons i ins)
    have "console_step fork i c1 = c1" using Cons.prems by (cases i) (auto simp: less_Suc_eq)
    then show ?case using Cons by simp
  qed simp
  then show ?thesis using assms(5) c1 by (simp only: console_run_append c1_def [symmetric])
qed

section \<open>Examples\<close>

definition sample_registration :: PartnerSubmitRequest where
  "sample_registration = \<lparr>pq_name = ''Shop'', pq_registration_data =
     \<lparr>rg_postal_code = None, rg_ogrn = ''1'', rg_tax_ref_number = ''2'', rg_kpp = ''3'',
      rg_contact = \<lparr>rc_first_name = None, rc_last_name = None, rc_email = ''e'', rc_phone = ''f'', rc_middle_name = None\<rparr>,
      rg_ceo_name = ''g'', rg_full_company_name = ''h'', rg_legal_address = ''i'', rg_postal_address = ''j''\<rparr>\<rparr>"

definition sample_partner :: Partner where
  "sample_partner = PartnerSubmitRequest.extend sample_registration \<lparr>pq_partner_id = ''p1''\<rparr>"

definition sample_merchant :: MerchantProps where
  "sample_merchant = \<lparr>mt_partner_id = ''p1'', mt_merchant_id = ''m1'', mt_updated = [], mt_created = [], mt_name = ''Shop'',
     mt_callback_url = None\<rparr>"

definition sample_application :: ProviderApplication where
  "sample_application = \<lparr>pv_name = None, pv_monthly_turnover = None, pv_average_bill = None, pv_email = None, pv_phone = None\<rparr>"

lemma sample_console: "cs_tasks new_console = []"
  by (simp add: new_console_def)

theorem registration_result_witness:
  "\<exists>s. sb_error s = Some ''down'' \<and> sb_partner s = None \<and> s = co_partnerSubmit (cs_store (console_run latest_fork
     [Dispatch (FetchPartnerSubmitRequest sample_registration), Turn 0, Answer 0 (Inr (RPartner sample_partner)), Turn 0, Turn 0,
      Answer 0 (Inl ''down''), Turn 0, Turn 0] new_console))"
  using registration_result [OF latest_fork sample_console refl refl, of sample_registration "Inr (RPartner sample_partner)" "Inl ''down''"]
  unfolding sum.case console_reply.case by blast

theorem failed_integrations_lose_partner_witness:
  "sb_partner (co_partnerSubmit (cs_store (console_run latest_fork [Dispatch FetchPartnerMerchantsRequest, Turn 0,
     Answer 0 (Inr (RPartners [sample_partner])), Turn 0, Turn 1, Turn 0, Answer 0 (Inr (RMerchants [sample_merchant])), Turn 0]
     new_console))) = Some sample_merchant"
proof -
  have "pq_partner_id sample_partner \<noteq> []" "mt_merchant_id sample_merchant \<noteq> []"
    by (simp_all add: sample_partner_def sample_merchant_def PartnerSubmitRequest.defs)
  from failed_integrations_lose_partner [OF latest_fork sample_console this refl] show ?thesis by blast
qed

theorem open_application_pends_witness:
  "sb_pending (co_partnerSubmit (cs_store (console_run latest_fork ([Dispatch (FetchProviderApplicationSubmitRequest ''m1'' ''bank''
     sample_application), Turn 0, Answer 0 (Inr (RApplication Processing))] @ [Turn 0]) new_console)))"
proof -
  have "Processing \<noteq> Successed" "\<forall>a. Dispatch a \<notin> set [Turn 0]" by simp_all
  from open_application_pends [OF latest_fork sample_console this refl] show ?thesis by blast
qed

end
