(* ===== verification/ConsoleForm.thy ===== *)
theory ConsoleForm
  imports ConsoleResults
begin

text \<open>
  The steps of the registration (\<open>console-frontend/src/client/features/registration\<close>): the handlers of the first
  step over its local state, its values and the data of the partner in the store, and those of the second and
  third.  A handler returns what it sets and the actions and pages it asks for.  A text that is absent and
  an empty one are the same here: the handlers do not tell them apart.  Texts for the screen and the two
  windows with conditions are left out.
\<close>

section \<open>The first step\<close>

record FormFirstStepValues =
  v1_email :: string
  v1_phone :: string
  v1_site :: string
  v1_company_title_or_inn :: string
  v1_name :: string
  v1_company_title :: string
  v1_ogrn :: string
  v1_kpp :: string
  v1_address :: string
  v1_correspondence_address :: string
  v1_director :: string
  v1_inn :: string
  v1_captcha :: string
  v1_terms :: bool

definition initialValues :: FormFirstStepValues where
  "initialValues = \<lparr>v1_email = [], v1_phone = [], v1_site = [], v1_company_title_or_inn = [], v1_name = [],
     v1_company_title = [], v1_ogrn = [], v1_kpp = [], v1_address = [], v1_correspondence_address = [],
     v1_director = [], v1_inn = [], v1_captcha = [], v1_terms = False\<rparr>"

datatype button_text = NextStepText | ContinueText

definition maxCaptchaTries :: nat where "maxCaptchaTries = 3000"

record FirstStep =
  f1_isLoading :: bool
  f1_isChecked :: bool
  f1_isEditing :: bool
  f1_isRegistered :: bool
  f1_companySelected :: bool
  f1_errorOnSuggest :: bool
  f1_isNewCompany :: bool
  f1_isCaptcha :: bool
  f1_captchaIncrement :: nat
  f1_buttonText :: button_text
  f1_isSameAddress :: bool
  f1_addressText :: string

definition or_text :: "string \<Rightarrow> string \<Rightarrow> string" where
  "or_text a b = (if a = [] then b else a)"

definition of_partner :: "PartnerData option \<Rightarrow> (PartnerData \<Rightarrow> string) \<Rightarrow> string" where
  "of_partner pd f = (case pd of None \<Rightarrow> [] | Some d \<Rightarrow> f d)"

definition newFirstStep :: "PartnerData option \<Rightarrow> FirstStep" where
  "newFirstStep pd =
     \<lparr>f1_isLoading = False, f1_isChecked = False, f1_isEditing = False, f1_isRegistered = False,
      f1_companySelected = False, f1_errorOnSuggest = False, f1_isNewCompany = False, f1_isCaptcha = False,
      f1_captchaIncrement = 0, f1_buttonText = ContinueText,
      f1_isSameAddress = (case pd of None \<Rightarrow> False | Some d \<Rightarrow> cn_address d = cn_correspondence_address d),
      f1_addressText = []\<rparr>"

text \<open>The effects: \<open>[partnerData]\<close> (its two), \<open>[partnerSubmit, submitProvider]\<close>, \<open>[captchaIncrement, companySelected]\<close>.\<close>

definition partner_effect :: "PartnerData option \<Rightarrow> FirstStep \<Rightarrow> FirstStep" where
  "partner_effect pd st =
     (case pd of
        None \<Rightarrow> st
      | Some d \<Rightarrow>
          let st1 = st\<lparr>f1_isChecked := cn_terms d\<rparr>;
              st2 = (if cn_is_new_inn d = Some True then st1\<lparr>f1_isNewCompany := True\<rparr> else st1)
          in if cn_kpp d \<noteq> [] \<and> cn_ogrn d \<noteq> [] \<and> cn_name d \<noteq> [] \<and> cn_leader_name d \<noteq> [] \<and> cn_address d \<noteq> []
                \<and> cn_full_name d \<noteq> []
             then st2\<lparr>f1_companySelected := True\<rparr> else st2)"

definition loaded_values :: "PartnerData \<Rightarrow> FormFirstStepValues \<Rightarrow> FormFirstStepValues" where
  "loaded_values d v =
     v\<lparr>v1_email := cn_email d, v1_phone := cn_phone d, v1_site := cn_site d, v1_kpp := cn_kpp d, v1_ogrn := cn_ogrn d,
       v1_name := cn_name d, v1_director := cn_leader_name d, v1_address := cn_address d,
       v1_correspondence_address := cn_correspondence_address d, v1_company_title := cn_full_name d,
       v1_inn := cn_inn d, v1_company_title_or_inn := cn_inn d, v1_terms := cn_terms d\<rparr>"

definition registered_effect :: "MerchantProps option \<Rightarrow> Integration option \<Rightarrow> FirstStep \<Rightarrow> FirstStep" where
  "registered_effect partner provider st =
     (if (case partner of None \<Rightarrow> False | Some m \<Rightarrow> mt_partner_id m \<noteq> [] \<and> mt_merchant_id m \<noteq> []) \<or> provider \<noteq> None
      then st\<lparr>f1_isRegistered := True\<rparr> else st)"

definition captcha_effect :: "FirstStep \<Rightarrow> FirstStep" where
  "captcha_effect st =
     (if maxCaptchaTries \<le> f1_captchaIncrement st then st\<lparr>f1_isCaptcha := True, f1_buttonText := ContinueText\<rparr>
      else if f1_companySelected st then st\<lparr>f1_isCaptcha := False, f1_buttonText := NextStepText\<rparr>
      else st\<lparr>f1_isCaptcha := False, f1_buttonText := ContinueText\<rparr>)"

definition handleEdit ::
  "PartnerData option \<Rightarrow> FirstStep \<Rightarrow> FormFirstStepValues \<Rightarrow> PartnerData option \<Rightarrow> FirstStep \<times> FormFirstStepValues" where
  "handleEdit pd st v item =
     (let pick = (\<lambda>f. or_text (of_partner item f) (of_partner pd f)) in
      (st\<lparr>f1_isEditing := True\<rparr>,
       v\<lparr>v1_inn := pick cn_inn, v1_company_title_or_inn := pick cn_inn, v1_name := pick cn_name,
         v1_company_title := pick cn_full_name, v1_ogrn := pick cn_ogrn, v1_kpp := pick cn_kpp,
         v1_address := pick cn_address, v1_director := pick cn_leader_name,
         v1_terms := ((case item of None \<Rightarrow> False | Some d \<Rightarrow> cn_terms d) \<or> (case pd of None \<Rightarrow> False | Some d \<Rightarrow> cn_terms d))\<rparr>))"

definition selectCompany ::
  "PartnerData option \<Rightarrow> FormFirstStepValues \<Rightarrow> FirstStep \<Rightarrow> FormFirstStepValues \<Rightarrow> bool \<Rightarrow> string \<Rightarrow> PartnerData option
     \<Rightarrow> FirstStep \<times> FormFirstStepValues" where
  "selectCompany pd iv st v isNew inn item =
     (let st1 = (if isNew then st\<lparr>f1_isNewCompany := True\<rparr>
                 else st\<lparr>f1_buttonText := NextStepText, f1_companySelected := True,
                         f1_captchaIncrement := f1_captchaIncrement st + 1, f1_isNewCompany := False\<rparr>);
          st2 = (if of_partner item cn_address \<noteq> [] then st1\<lparr>f1_addressText := of_partner item cn_address\<rparr> else st1);
          cleared = v\<lparr>v1_inn := or_text inn (of_partner pd cn_inn), v1_name := [], v1_company_title := [], v1_ogrn := [],
                      v1_kpp := [], v1_address := [], v1_director := []\<rparr>;
          (st3, v3) = (if f1_isEditing st
             then if \<not> isNew then handleEdit pd st2 v item else (st2, cleared\<lparr>v1_terms := v1_terms iv\<rparr>)
             else (st2, cleared))
      in (st3\<lparr>f1_errorOnSuggest := isNew\<rparr>, v3))"

datatype address_field = AddressField | CorrespondenceField

definition firstStep_selectAddress ::
  "PartnerData option \<Rightarrow> FirstStep \<Rightarrow> FormFirstStepValues \<Rightarrow> address_field \<Rightarrow> string \<Rightarrow> FirstStep \<times> FormFirstStepValues" where
  "firstStep_selectAddress pd st v field text =
     (case field of
        AddressField \<Rightarrow>
          (st\<lparr>f1_addressText := or_text text (of_partner pd cn_address)\<rparr>, v\<lparr>v1_address := or_text text (of_partner pd cn_address)\<rparr>)
      | CorrespondenceField \<Rightarrow>
          (st, v\<lparr>v1_correspondence_address := or_text text (of_partner pd cn_correspondence_address)\<rparr>))"

definition checkSameAddress ::
  "PartnerData option \<Rightarrow> FirstStep \<Rightarrow> FormFirstStepValues \<Rightarrow> FirstStep \<times> FormFirstStepValues" where
  "checkSameAddress pd st v =
     (let checked = \<not> f1_isSameAddress st in
      (st\<lparr>f1_isSameAddress := checked\<rparr>,
       v\<lparr>v1_correspondence_address := (if checked then or_text (f1_addressText st) (of_partner pd cn_address) else [])\<rparr>))"

definition disableNext :: "FirstStep \<Rightarrow> bool \<Rightarrow> FormFirstStepValues \<Rightarrow> bool" where
  "disableNext st isValid v =
     (\<not> isValid \<or> (\<not> f1_errorOnSuggest st \<and> \<not> isValid \<and> \<not> f1_isCaptcha st)
      \<or> (f1_companySelected st \<and> \<not> f1_isChecked st \<and> \<not> f1_isCaptcha st) \<or> (f1_isCaptcha st \<and> v1_captcha v = []))"

text \<open>The data the button puts into the store.  \<open>errors\<close> is an object and has no \<open>length\<close>: its test always holds.\<close>

definition edited_data :: "FirstStep \<Rightarrow> FormFirstStepValues \<Rightarrow> PartnerData" where
  "edited_data st v =
     \<lparr>cn_name = v1_name v, cn_inn = v1_inn v, cn_ogrn = v1_ogrn v, cn_kpp = v1_kpp v, cn_address = v1_address v,
      cn_correspondence_address = v1_correspondence_address v, cn_full_name = v1_company_title v,
      cn_leader_name = v1_director v, cn_terms = False, cn_email = v1_email v, cn_phone = v1_phone v, cn_site = v1_site v,
      cn_provider = None, cn_service = None, cn_service_name = None, cn_is_new_inn = Some (f1_isNewCompany st)\<rparr>"

definition handleNext :: "FirstStep \<Rightarrow> FormFirstStepValues \<Rightarrow> FirstStep \<times> console_action list" where
  "handleNext st v =
     (if f1_isCaptcha st then (st\<lparr>f1_captchaIncrement := 0\<rparr>, [])
      else let st1 = (if f1_errorOnSuggest st
                 then st\<lparr>f1_isEditing := True, f1_buttonText := NextStepText, f1_companySelected := True, f1_errorOnSuggest := False\<rparr>
                 else st);
               st2 = (if f1_isEditing st then st1\<lparr>f1_errorOnSuggest := False\<rparr> else st1)
           in (st2, if f1_companySelected st \<and> f1_isEditing st then [SetPartnerDataRequest (edited_data st v) False] else []))"

definition submit_request :: "PartnerData option \<Rightarrow> FirstStep \<Rightarrow> FormFirstStepValues \<Rightarrow> PartnerSubmitRequest" where
  "submit_request pd st v =
     \<lparr>pq_name = of_partner pd cn_name,
      pq_registration_data =
        \<lparr>rg_postal_code = None, rg_ogrn = of_partner pd cn_ogrn, rg_tax_ref_number = of_partner pd cn_inn,
         rg_kpp = of_partner pd cn_kpp,
         rg_contact = \<lparr>rc_first_name = None, rc_last_name = None, rc_email = v1_email v, rc_phone = v1_phone v,
                       rc_middle_name = None\<rparr>,
         rg_ceo_name = of_partner pd cn_full_name, rg_full_company_name = of_partner pd cn_full_name,
         rg_legal_address = of_partner pd cn_address, rg_postal_address = f1_addressText st\<rparr>\<rparr>"

definition firstStep_onSubmit ::
  "PartnerData option \<Rightarrow> MerchantProps option \<Rightarrow> FirstStep \<Rightarrow> FormFirstStepValues \<Rightarrow> FirstStep \<times> console_action" where
  "firstStep_onSubmit pd partner st v =
     (st\<lparr>f1_isLoading := True\<rparr>,
      case partner of
        Some m \<Rightarrow> if f1_isRegistered st
          then PatchPartnerSubmitRequest \<lparr>pt_name = mt_name m, pt_email = Some (v1_email v), pt_phone = Some (v1_phone v)\<rparr> (mt_partner_id m)
          else FetchPartnerSubmitRequest (submit_request pd st v)
      | None \<Rightarrow> FetchPartnerSubmitRequest (submit_request pd st v))"

datatype console_page = StepOne | StepTwo | StepThree | AboutPage

text \<open>The callback of the submission; \<open>response\<close> is there.  The page that is opened ends the loading.\<close>

definition onSubmitCallback ::
  "PartnerData option \<Rightarrow> FirstStep \<Rightarrow> FormFirstStepValues \<Rightarrow> bool \<Rightarrow> Partner \<Rightarrow> (console_action \<times> console_page) option" where
  "onSubmitCallback pd st v isPatch response =
     (case pd of
        Some d \<Rightarrow>
          if f1_errorOnSuggest st then None
          else Some (SetPartnerDataRequest
            (if isPatch
             then d\<lparr>cn_email := rc_email (rg_contact (pq_registration_data response)),
                    cn_phone := rc_phone (rg_contact (pq_registration_data response))\<rparr>
             else d\<lparr>cn_site := v1_site v, cn_email := v1_email v, cn_phone := v1_phone v, cn_terms := v1_terms v,
                    cn_is_new_inn := Some (f1_isNewCompany st)\<rparr>) False, StepTwo)
      | None \<Rightarrow> None)"

section \<open>The second and third steps\<close>

text \<open>\<open>creds\<close> is the text of the values.\<close>

definition secondStep_onSubmit ::
  "PartnerData option \<Rightarrow> MerchantProps option \<Rightarrow> Integration option \<Rightarrow> string option \<Rightarrow> string \<Rightarrow> console_action list \<times> console_page option" where
  "secondStep_onSubmit pd partner provider selectedProvider creds =
     (if provider \<noteq> None then ([], Some StepThree)
      else case (partner, selectedProvider) of
        (Some m, Some p) \<Rightarrow>
          if mt_merchant_id m = [] then ([], None)
          else (FetchProviderSubmitRequest (mt_merchant_id m) (p, creds) True
                # (case pd of None \<Rightarrow> [] | Some d \<Rightarrow> [SetPartnerDataRequest (d\<lparr>cn_provider := Some (p, creds)\<rparr>) False]), None)
      | _ \<Rightarrow> ([], None))"

definition secondStep_disableNext ::
  "Integration option \<Rightarrow> string option \<Rightarrow> (string \<times> ProviderApplicationState) option \<Rightarrow> nat \<Rightarrow> bool" where
  "secondStep_disableNext provider selectedProvider application errors =
     (if provider \<noteq> None then False
      else (selectedProvider = None \<and> map_option snd application \<noteq> Some Successed) \<or> 0 < errors)"

definition onSend :: "PartnerData option \<Rightarrow> string option \<Rightarrow> (console_action \<times> console_page) option" where
  "onSend pd selectedService =
     (case pd of None \<Rightarrow> None | Some d \<Rightarrow> Some (SetPartnerDataRequest (d\<lparr>cn_service := selectedService\<rparr>) False, AboutPage))"

definition onSendAnother :: "PartnerData option \<Rightarrow> string option \<Rightarrow> console_action option" where
  "onSendAnother pd anotherService =
     (case pd of None \<Rightarrow> None | Some d \<Rightarrow> Some (SetPartnerDataRequest (d\<lparr>cn_service_name := anotherService\<rparr>) True))"

text \<open>\<open>useCheckPartner\<close>.\<close>

definition useCheckPartner :: "PartnerData option \<Rightarrow> console_action option" where
  "useCheckPartner pd = (if pd = None then Some FetchPartnerMerchantsRequest else None)"

section \<open>What comes back\<close>

text \<open>C23: What comes of a registration when the page is loaded again and the server returns what it was sent: all
  the data of the company are there again, but the head of the company is the company's own name, the address
  for letters is the one chosen as the legal address on that page, or none, and the site is lost.\<close>

theorem registration_comes_back:
  assumes "takes_latest fork" "cs_tasks c = []" "pd = Some d" "pq_partner_id p \<noteq> []"
    and "PartnerSubmitRequest.truncate p = submit_request pd st v"
    and "loaded = dt_data (co_partnerData (cs_store (console_run fork
            [Dispatch FetchPartnerMerchantsRequest, Turn 0, Answer 0 (Inr (RPartners (p # ps))), Turn 0] c)))"
  shows "loaded = Some (d\<lparr>cn_leader_name := cn_full_name d, cn_correspondence_address := f1_addressText st, cn_site := [],
      cn_email := v1_email v, cn_phone := v1_phone v, cn_terms := True, cn_provider := None, cn_service := None,
      cn_service_name := None, cn_is_new_inn := None\<rparr>)"
proof -
  have p: "pq_name p = of_partner pd cn_name" "pq_registration_data p = pq_registration_data (submit_request pd st v)"
    using assms(5) by (simp_all add: PartnerSubmitRequest.defs submit_request_def)
  have "loaded = Some (loaded_partner p)"
    using assms(1,2,4) unfolding assms(6) by (simp add: console_runs first_def)
  also have "loaded_partner p = d\<lparr>cn_leader_name := cn_full_name d, cn_correspondence_address := f1_addressText st, cn_site := [],
      cn_email := v1_email v, cn_phone := v1_phone v, cn_terms := True, cn_provider := None, cn_service := None,
      cn_service_name := None, cn_is_new_inn := None\<rparr>"
    using assms(3) p by (simp add: loaded_partner_def submit_request_def of_partner_def Let_def)
  finally show ?thesis .
qed

text \<open>C21: A shop that is registered is registered a second time when its integrations cannot be loaded: the form
  knows that it is registered, but the store has lost the shop, and its button asks the server for a new partner.\<close>

theorem lost_partner_registers_again:
  assumes "takes_latest fork" "cs_tasks c = []" "pq_partner_id p \<noteq> []" "mt_merchant_id m \<noteq> []" "mt_partner_id m \<noteq> []"
    and "loading = [Dispatch FetchPartnerMerchantsRequest, Turn 0, Answer 0 (Inr (RPartners (p # ps))), Turn 0, Turn 1,
           Turn 0, Answer 0 (Inr (RMerchants (m # ms))), Turn 0]"
    and "s = cs_store (console_run fork loading c)"
    and "s' = cs_store (console_run fork (loading @ [Turn 0, Turn 0, Answer 0 (Inl e), Turn 0]) c)"
    and "st' = registered_effect (sb_partner (co_partnerSubmit s)) (sb_provider (co_partnerSubmit s)) st"
  shows "f1_isRegistered st'
    \<and> (\<exists>w. snd (firstStep_onSubmit pd (sb_partner (co_partnerSubmit s)) st' v) = PatchPartnerSubmitRequest w (mt_partner_id m))
    \<and> snd (firstStep_onSubmit pd (sb_partner (co_partnerSubmit s')) st' v) = FetchPartnerSubmitRequest (submit_request pd st' v)"
proof -
  have "sb_partner (co_partnerSubmit s) = Some m" "sb_partner (co_partnerSubmit s') = None"
    using failed_integrations_lose_partner [OF assms(1-4,6), of e] assms(7,8) by (simp_all add: Let_def)
  then show ?thesis using assms(4,5,9) by (simp add: registered_effect_def firstStep_onSubmit_def)
qed

section \<open>Examples\<close>

definition sample_partner_data :: PartnerData where
  "sample_partner_data = \<lparr>cn_name = ''Shop'', cn_inn = ''2'', cn_ogrn = ''1'', cn_kpp = ''3'', cn_address = ''i'', cn_correspondence_address = ''k'',
     cn_full_name = ''h'', cn_leader_name = ''g'', cn_terms = True, cn_email = [], cn_phone = [], cn_site = ''s'',
     cn_provider = None, cn_service = None, cn_service_name = None, cn_is_new_inn = None\<rparr>"

definition registered_partner :: Partner where
  "registered_partner = PartnerSubmitRequest.extend (submit_request (Some sample_partner_data) (newFirstStep (Some sample_partner_data)) initialValues)
     \<lparr>pq_partner_id = ''p1''\<rparr>"

theorem registration_comes_back_witness:
  "\<exists>d. dt_data (co_partnerData (cs_store (console_run latest_fork
      [Dispatch FetchPartnerMerchantsRequest, Turn 0, Answer 0 (Inr (RPartners [registered_partner])), Turn 0] new_console))) = Some d
    \<and> cn_leader_name d = ''h'' \<and> cn_correspondence_address d = []"
proof -
  have "pq_partner_id registered_partner \<noteq> []"
    "PartnerSubmitRequest.truncate registered_partner = submit_request (Some sample_partner_data) (newFirstStep (Some sample_partner_data)) initialValues"
    by (simp_all add: registered_partner_def PartnerSubmitRequest.defs submit_request_def)
  from registration_comes_back [OF latest_fork sample_console refl this refl] show ?thesis
    by (simp add: newFirstStep_def sample_partner_data_def)
qed

theorem lost_partner_registers_again_witness:
  "\<exists>st'. f1_isRegistered st' \<and> snd (firstStep_onSubmit None (sb_partner (co_partnerSubmit (cs_store (console_run latest_fork
      ([Dispatch FetchPartnerMerchantsRequest, Turn 0, Answer 0 (Inr (RPartners [registered_partner])), Turn 0, Turn 1,
        Turn 0, Answer 0 (Inr (RMerchants [sample_merchant])), Turn 0] @ [Turn 0, Turn 0, Answer 0 (Inl ''down''), Turn 0])
      new_console)))) st' initialValues) = FetchPartnerSubmitRequest (submit_request None st' initialValues)"
proof -
  have "pq_partner_id registered_partner \<noteq> []" "mt_merchant_id sample_merchant \<noteq> []" "mt_partner_id sample_merchant \<noteq> []"
    by (simp_all add: registered_partner_def sample_merchant_def PartnerSubmitRequest.defs)
  from lost_partner_registers_again [OF latest_fork sample_console this refl refl refl refl, where ps = "[]" and ms = "[]"
      and e = "''down''" and st = "newFirstStep None" and pd = None and v = initialValues]
  show ?thesis by blast
qed

end
