(* ===== verification/ConsoleHelpers.thy ===== *)
theory ConsoleHelpers
  imports JsDate Url
begin

text \<open>
  Helpers of the console: the pages a pagination shows (\<open>client/hooks/usePagination.ts\<close>) and the masks of
  numbers (\<open>client/helpers/utils.ts\<close>).  \<open>range\<close> of lodash is a parameter, with its documented behaviour on
  ascending bounds; the dates, which are formatted by the platform, are left out.
\<close>

section \<open>Pagination\<close>

datatype page_item = Page int | Dots

definition minLeftItemsCount :: int where "minLeftItemsCount = 3"
definition minRightItemsCount :: int where "minRightItemsCount = minLeftItemsCount"
definition centerItemsCount :: int where "centerItemsCount = 5"

definition range_spec :: "(int \<Rightarrow> int \<Rightarrow> int list) \<Rightarrow> bool" where
  "range_spec rng = (\<forall>a b. a \<le> b \<longrightarrow> rng a b = [a..b - 1])"

text \<open>The page size is not zero.  Nothing is returned when no branch is taken.\<close>

definition usePagination :: "(int \<Rightarrow> int \<Rightarrow> int list) \<Rightarrow> int \<Rightarrow> int \<Rightarrow> int \<Rightarrow> int \<Rightarrow> page_item list option" where
  "usePagination rng totalCount pageSize currentPage siblingCount =
     (let totalPageCount = \<lceil>fl (of_int totalCount / of_int pageSize)\<rceil>;
          totalPageNumbers = siblingCount + centerItemsCount
      in if totalPageCount \<le> totalPageNumbers then Some (map Page (rng 1 (totalPageCount + 1)))
         else let leftSiblingIndex = max (currentPage - siblingCount) 1;
                  rightSiblingIndex = min (currentPage + siblingCount) (totalPageCount + 1);
                  shouldShowLeftDots = 2 < leftSiblingIndex;
                  shouldShowRightDots = rightSiblingIndex < totalPageCount - 2
              in if \<not> shouldShowLeftDots \<and> shouldShowRightDots
                 then Some (map Page (rng 1 (minLeftItemsCount + 2 * siblingCount + 1)) @ [Dots, Page totalPageCount])
                 else if shouldShowLeftDots \<and> \<not> shouldShowRightDots
                 then Some ([Page 1, Dots] @ map Page (rng (totalPageCount - (minRightItemsCount + 2 * siblingCount) + 1) (totalPageCount + 1)))
                 else if shouldShowLeftDots \<and> shouldShowRightDots
                 then Some ([Page 1, Dots] @ map Page (rng leftSiblingIndex (rightSiblingIndex + 1)) @ [Dots, Page totalPageCount])
                 else None)"

lemma ceiling_quotient:
  assumes "0 \<le> a" "a < 2 ^ 31" "0 < b" "b < 2 ^ 31"
  shows "\<lceil>fl (of_int a / of_int b)\<rceil> = \<lceil>(of_int a :: rat) / of_int b\<rceil>"
proof -
  let ?x = "(of_int a :: rat) / of_int b"
  define n where "n = \<lceil>?x\<rceil>"
  have x: "?x \<le> of_int n" "of_int n - 1 < ?x" "0 \<le> ?x"
    using assms unfolding n_def by (simp_all add: ceiling_correct)
  have b: "(0::rat) < of_int b" using assms(3) by simp
  show ?thesis
  proof (cases "?x = of_int n")
    case True
    have "?x \<le> of_int a" using assms(1,3) b by (simp add: divide_le_eq mult_le_cancel_left1 mult.commute)
    then have n31: "n < 2 ^ 31" using True assms(2) by linarith
    have "fl (of_int n) = of_int n"
    proof (cases "n = 0")
      case False
      then have "1 \<le> n" using True x(3) by linarith
      then show ?thesis using n31 by (intro fl_just_above) simp_all
    qed simp
    then show ?thesis using True by simp
  next
    case False
    have "?x * of_int b = of_int a" using b by simp
    then have "of_int a < of_int n * (of_int b :: rat)" using x(1) False b
      by (metis less_eq_rat_def mult_less_cancel_right_disj)
    then have "a < n * b" by (metis of_int_less_iff of_int_mult)
    then have up: "?x \<le> of_int n - 1 / of_int b"
    proof -
      have "(of_int (a + 1) :: rat) \<le> of_int (n * b)"
        using \<open>a < n * b\<close> by (simp only: of_int_le_iff)
      then show ?thesis using b by (simp add: field_simps)
    qed
    have "(of_int n - 1) * of_int b < (of_int a :: rat)" using x(2) b by (simp add: field_simps)
    then have "(n - 1) * b < a" by (metis of_int_1 of_int_diff of_int_less_iff of_int_mult)
    then have "(of_int ((n - 1) * b + 1) :: rat) \<le> of_int a" by (simp only: of_int_le_iff)
    then have "of_int n - 1 + 1 / of_int b \<le> (of_int a :: rat) / of_int b"
      using b by (simp add: le_divide_eq distrib_right)
    then have lo: "of_int n - 1 + 1 / of_int b \<le> ?x" .
    have "\<bar>fl ?x - ?x\<bar> \<le> ?x / 2 ^ 53 + 1 / 2 ^ 60" using fl_err [of ?x] x(3) by simp
    also have "\<dots> < 1 / of_int b"
    proof -
      have "?x / 2 ^ 53 = of_int a / 2 ^ 53 / of_int b" by simp
      also have "\<dots> \<le> (1 / 2) / of_int b"
        using assms(1,2) b by (intro divide_right_mono) (simp_all add: field_simps)
      finally have 1: "?x / 2 ^ 53 \<le> (1 / 2) / of_int b" .
      have "(of_int b :: rat) < 2 ^ 31" using assms(4) by (metis of_int_less_iff of_int_numeral of_int_power)
      then have "1 / 2 ^ 60 < (1 / 2) / (of_int b :: rat)" using b by (simp add: field_simps)
      with 1 show ?thesis by linarith
    qed
    finally have "\<bar>fl ?x - ?x\<bar> < 1 / of_int b" .
    then have "of_int n - 1 < fl ?x" "fl ?x \<le> of_int n" using up lo by linarith+
    then show ?thesis unfolding n_def [symmetric] by (intro ceiling_unique) simp_all
  qed
qed

definition pages_in :: "page_item list \<Rightarrow> int list" where
  "pages_in xs = concat (map (\<lambda>x. case x of Page p \<Rightarrow> [p] | Dots \<Rightarrow> []) xs)"

lemma pages_in_simps [simp]:
  "pages_in [] = []" "pages_in (Page p # xs) = p # pages_in xs" "pages_in (Dots # xs) = pages_in xs"
  "pages_in (xs @ ys) = pages_in xs @ pages_in ys" "pages_in (map Page ps) = ps"
  by (simp_all add: pages_in_def) (induction ps; simp)

text \<open>What a pagination shows, with at most two neighbours: when there are more pages than fit, pages in
  ascending order, among them the first, the last, the current one and its neighbours, and never more items than
  the row has room for.  In one case it shows nothing at all: two neighbours, eight pages, and the fourth is current.\<close>

theorem pages_shown:
  assumes "range_spec rng" "0 \<le> totalCount" "totalCount < 2 ^ 31" "0 < pageSize" "pageSize < 2 ^ 31"
    and "n = \<lceil>(of_int totalCount :: rat) / of_int pageSize\<rceil>"
    and "0 \<le> siblings" "siblings \<le> 2" "1 \<le> cur" "cur \<le> n"
  shows "case usePagination rng totalCount pageSize cur siblings of
     None \<Rightarrow> siblings = 2 \<and> n = 8 \<and> cur = 4
   | Some xs \<Rightarrow> \<not> (siblings = 2 \<and> n = 8 \<and> cur = 4) \<and> sorted_wrt (<) (pages_in xs)
       \<and> {1, n} \<union> ({cur - siblings..cur + siblings} \<inter> {1..n}) \<subseteq> set (pages_in xs) \<and> set (pages_in xs) \<subseteq> {1..n}
       \<and> int (length xs) \<le> 2 * siblings + 5"
proof -
  have n: "\<lceil>fl (of_int totalCount / of_int pageSize)\<rceil> = n"
    using ceiling_quotient [OF assms(2-5)] assms(6) by simp
  have rng: "a \<le> b \<Longrightarrow> rng a b = [a..b - 1]" for a b
    using assms(1) by (simp add: range_spec_def)
  have srt: "sorted_wrt (<) [a..b]" for a b :: int
    by (simp add: strict_sorted_iff)
  note counts = minLeftItemsCount_def minRightItemsCount_def centerItemsCount_def
  show ?thesis
    using assms(7-10) by (auto simp: usePagination_def n Let_def counts rng srt sorted_wrt_append)
qed

section \<open>Masks\<close>

definition line_end :: "char \<Rightarrow> bool" where "line_end c = (c = CHR 0x0A \<or> c = CHR 0x0D)"

text \<open>\<open>value.replace(/.{n}/g, (v) => `${v} `)\<close>, for a positive \<open>n\<close>.\<close>

function mask_groups :: "nat \<Rightarrow> string \<Rightarrow> string" where
  "mask_groups n s =
     (if n = 0 \<or> length s < n then s
      else if list_ex line_end (take n s) then hd s # mask_groups n (tl s)
      else take n s @ '' '' @ mask_groups n (drop n s))"
  by pat_completeness auto
termination by (relation "measure (\<lambda>(n, s). length s)") auto

declare mask_groups.simps [simp del]

definition toTextMask :: "string \<Rightarrow> nat \<Rightarrow> string" where
  "toTextMask value n = js_trim (mask_groups n value)"

definition toOgrnMask :: "string \<Rightarrow> string" where
  "toOgrnMask value = take 3 value @ '' '' @ toTextMask (drop 3 value) 4"

fun removeUrlProtocol :: "string \<Rightarrow> string" where
  "removeUrlProtocol [] = []"
| "removeUrlProtocol (c # s) =
     (if take 7 (c # s) = ''http://'' then drop 7 (c # s)
      else if take 8 (c # s) = ''https://'' then drop 8 (c # s)
      else c # removeUrlProtocol s)"

text \<open>The groups a masked text shows.\<close>

function chunks :: "nat \<Rightarrow> string \<Rightarrow> string list" where
  "chunks n s = (if n = 0 \<or> s = [] then [] else take n s # chunks n (drop n s))"
  by pat_completeness auto
termination by (relation "measure (\<lambda>(n, s). length s)") auto

declare chunks.simps [simp del]

lemma chunks_Nil [simp]: "chunks n [] = []"
  by (simp add: chunks.simps)

lemma chunks_nonempty: "0 < n \<Longrightarrow> s \<noteq> [] \<Longrightarrow> chunks n s = take n s # chunks n (drop n s)"
  by (subst chunks.simps) simp

lemma chunks_facts:
  "0 < n \<Longrightarrow> concat (chunks n s) = s" "0 < n \<Longrightarrow> g \<in> set (chunks n s) \<Longrightarrow> length g \<le> n \<and> set g \<subseteq> set s"
proof (induction n s rule: chunks.induct)
  case (1 n s)
  { case 1 then show ?case using "1.IH"(1) by (cases "s = []") (simp_all add: chunks_nonempty) }
  { case 2 then show ?case using "1.IH"(2) by (cases "s = []") (auto simp: chunks_nonempty dest: in_set_takeD in_set_dropD) }
qed

lemma mask_groups_chunks:
  assumes "0 < n" "\<forall>c \<in> set s. \<not> line_end c"
  shows "mask_groups n s = join_with CHR '' '' (chunks n s) @ (if s \<noteq> [] \<and> n dvd length s then '' '' else [])"
  using assms
proof (induction n s rule: mask_groups.induct)
  case (1 n s)
  show ?case
  proof (cases "length s < n")
    case True
    then have "s \<noteq> [] \<Longrightarrow> \<not> n dvd length s" by (auto dest: dvd_imp_le)
    then show ?thesis using True 1 by (cases "s = []") (simp_all add: mask_groups.simps chunks_nonempty)
  next
    case False
    then have ne: "s \<noteq> []" using 1 by auto
    have le: "\<not> list_ex line_end (take n s)" using 1 by (auto simp: list_ex_iff dest: in_set_takeD)
    have IH: "mask_groups n (drop n s) = join_with CHR '' '' (chunks n (drop n s))
        @ (if drop n s \<noteq> [] \<and> n dvd length (drop n s) then '' '' else [])"
    proof -
      have "\<forall>c \<in> set (drop n s). \<not> line_end c" using "1.prems"(2) by (auto dest: in_set_dropD)
      moreover have "\<not> (n = 0 \<or> length s < n)" using "1.prems"(1) False by simp
      ultimately show ?thesis using "1.IH"(2) le "1.prems"(1) by blast
    qed
    have m: "mask_groups n s = take n s @ '' '' @ mask_groups n (drop n s)"
      using False le 1 by (subst mask_groups.simps) simp
    show ?thesis
    proof (cases "drop n s = []")
      case True
      then show ?thesis using m IH ne False 1 by (simp add: chunks_nonempty)
    next
      case rest: False
      have "n dvd length s \<longleftrightarrow> n dvd length (drop n s)" using False by (simp add: dvd_minus_self)
      then show ?thesis
        unfolding m IH using ne rest 1 by (simp add: chunks_nonempty [of n s] chunks_nonempty [of n "drop n s"])
    qed
  qed
qed

lemma join_ends:
  "xs \<noteq> [] \<Longrightarrow> \<forall>x \<in> set xs. x \<noteq> [] \<Longrightarrow> join_with d xs \<noteq> [] \<and> hd (join_with d xs) = hd (hd xs) \<and> last (join_with d xs) = last (last xs)"
  by (induction d xs rule: join_with.induct) auto

lemma trim_trailing: "s \<noteq> [] \<Longrightarrow> \<not> is_js_space (hd s) \<Longrightarrow> \<not> is_js_space (last s) \<Longrightarrow> js_trim (s @ '' '') = s"
proof -
  assume a: "s \<noteq> []" "\<not> is_js_space (hd s)" "\<not> is_js_space (last s)"
  have "is_js_space CHR '' ''" by (simp add: is_js_space_def)
  moreover have "dropWhile is_js_space (s @ '' '') = s @ '' ''" using a(1,2) by (cases s) simp_all
  moreover have "dropWhile is_js_space (rev s) = rev s" using a(1,3) by (cases s rule: rev_cases) simp_all
  ultimately show ?thesis by (simp add: js_trim_def)
qed

lemma chunks_spaceless:
  "0 < n \<Longrightarrow> \<forall>c \<in> set s. \<not> is_js_space c \<Longrightarrow> x \<in> set (chunks n s) \<Longrightarrow> x \<noteq> [] \<and> \<not> is_js_space (hd x) \<and> \<not> is_js_space (last x)"
proof (induction n s rule: chunks.induct)
  case (1 n s)
  then have "s \<noteq> []" by auto
  have "x = take n s \<or> x \<in> set (chunks n (drop n s))" using 1 \<open>s \<noteq> []\<close> by (auto simp: chunks_nonempty)
  then show ?case
  proof
    assume x: "x = take n s"
    then have "x \<noteq> []" using 1 \<open>s \<noteq> []\<close> by simp
    then have "hd x \<in> set s" "last x \<in> set s" using x hd_in_set [of x] last_in_set [of x] in_set_takeD by metis+
    then show ?thesis using 1(3) \<open>x \<noteq> []\<close> by blast
  next
    assume "x \<in> set (chunks n (drop n s))"
    then show ?thesis using 1 \<open>s \<noteq> []\<close> by (auto dest: in_set_dropD)
  qed
qed

text \<open>A masked number is the number in groups: the text without white space, cut after every \<open>n\<close> characters and
  joined by single spaces, from which the number is read back by leaving the spaces out.\<close>

theorem mask_is_grouping:
  assumes "0 < n" "\<forall>c \<in> set s. \<not> is_js_space c"
  shows "toTextMask s n = join_with CHR '' '' (chunks n s) \<and> concat (split_on CHR '' '' (toTextMask s n)) = s
    \<and> (\<forall>g \<in> set (split_on CHR '' '' (toTextMask s n)). length g \<le> n)"
proof -
  have le: "\<forall>c \<in> set s. \<not> line_end c" using assms(2) by (auto simp: line_end_def is_js_space_def)
  have mask: "toTextMask s n = join_with CHR '' '' (chunks n s)"
  proof (cases "s = []")
    case True
    then show ?thesis using assms(1) by (simp add: toTextMask_def mask_groups.simps js_trim_def)
  next
    case False
    then have ne: "chunks n s \<noteq> []" using assms(1) by (simp add: chunks_nonempty)
    have el: "\<forall>x \<in> set (chunks n s). x \<noteq> [] \<and> \<not> is_js_space (hd x) \<and> \<not> is_js_space (last x)"
      using chunks_spaceless assms by blast
    then have "join_with CHR '' '' (chunks n s) \<noteq> []" "\<not> is_js_space (hd (join_with CHR '' '' (chunks n s)))"
      "\<not> is_js_space (last (join_with CHR '' '' (chunks n s)))"
      using join_ends [OF ne, of "CHR '' ''"] ne by simp_all
    then show ?thesis
      by (simp add: toTextMask_def mask_groups_chunks [OF assms(1) le] trim_trailing js_trim_id)
  qed
  have "\<forall>x \<in> set (chunks n s). CHR '' '' \<notin> set x"
    using chunks_facts(2) [OF assms(1)] assms(2) by (fastforce simp: is_js_space_def)
  then have "split_on CHR '' '' (toTextMask s n) = (if s = [] then [[]] else chunks n s)"
    using mask split_join [of "chunks n s" "CHR '' ''"] chunks_nonempty [OF assms(1), of s] by (cases "s = []") simp_all
  then show ?thesis using mask chunks_facts [OF assms(1)] by simp
qed

theorem mask_is_grouping_witness: "toTextMask ''7707083893'' 4 = ''7707 0838 93''"
proof -
  have "(0::nat) < 4" "\<forall>c \<in> set ''7707083893''. \<not> is_js_space c" by (simp_all add: is_js_space_def)
  from mask_is_grouping [OF this] show ?thesis by (simp add: chunks.simps)
qed

theorem pages_shown_witness: "usePagination (\<lambda>a b. [a..b - 1]) 75 10 4 2 = None"
proof -
  have r: "range_spec (\<lambda>a b. [a..b - 1])" by (simp add: range_spec_def)
  have n: "8 = \<lceil>(of_int 75 :: rat) / of_int 10\<rceil>" by (rule ceiling_unique [symmetric]) simp_all
  from pages_shown [OF r _ _ _ _ n, of 2 4] show ?thesis by (simp split: option.splits)
qed

end
