(* ===== verification/Cookies.thy ===== *)
theory Cookies
  imports JsDate
begin

text \<open>
  \<open>pay-frontend/server/src/middlewares\<close>: \<open>yandexuid.ts\<close> and \<open>ym-uid.ts\<close>, which give a browser its two
  identifiers.  A request holds what the middlewares before them have put into it, or not.  The time, in
  milliseconds, and the random number are arguments.
\<close>

section \<open>Requests and cookies\<close>

record uatraits =
  ua_isBrowser :: bool
  ua_isRobot :: bool
  ua_SameSiteSupport :: bool
  ua_BrowserBase :: string
  ua_BrowserBaseVersion :: string

record page_request =
  rq_cookies :: "(string \<times> string) list option"
  rq_uatraits :: "uatraits option"
  rq_method :: string
  rq_query :: "(string \<times> string) list"
  rq_hostname :: string
  rq_host :: string

datatype missing_middleware = NoCookieParser | NoUatraits

datatype cookie_expiry = ExpiresAt int | YearsFromNow nat

record page_cookie =
  ck_name :: string
  ck_value :: string
  ck_domain :: string
  ck_path :: string
  ck_expires :: cookie_expiry
  ck_sameSiteNone :: bool

text \<open>What a middleware leaves: an error for the next one, or the request, with the cookie it sets.\<close>

type_synonym cookie_result = "missing_middleware + page_request \<times> page_cookie option"

definition setting_cookie :: "page_request \<Rightarrow> page_cookie \<Rightarrow> cookie_result" where
  "setting_cookie req ck = Inr (req\<lparr>rq_cookies := map_option (\<lambda>cs. alist_put cs (ck_name ck) (ck_value ck)) (rq_cookies req)\<rparr>, Some ck)"

section \<open>Domains\<close>

definition label_char :: "char \<Rightarrow> bool" where
  "label_char c = (c = CHR ''-'' \<or> (97 \<le> (of_char c :: int) \<and> (of_char c :: int) \<le> 122))"

definition top_levels :: "string list" where
  "top_levels = [''az'', ''by'', ''co.il'', ''com'', ''com.am'', ''com.ge'', ''com.tr'', ''ee'', ''fr'', ''kg'', ''kz'', ''lt'',
     ''lv'', ''md'', ''ru'', ''tj'', ''tm'', ''ua'', ''uz'', ''rs'', ''cn'', ''eu'']"

text \<open>\<open>DOMAIN_RE\<close> at the start of the text; \<open>domain\<close> takes the first place where it matches.\<close>

definition domain_at :: "string \<Rightarrow> bool" where
  "domain_at s = (let label = takeWhile label_char s; rest = dropWhile label_char s
     in label \<noteq> [] \<and> rest \<noteq> [] \<and> hd rest = CHR ''.'' \<and> tl rest \<in> set top_levels)"

fun domain_of :: "string \<Rightarrow> string option" where
  "domain_of [] = None"
| "domain_of (c # s) = (if domain_at (c # s) then Some (c # s) else domain_of s)"

definition YANDEX_DOMAINS :: "string list" where
  "YANDEX_DOMAINS = [''ya.ru'', ''yandex.az'', ''yandex.by'', ''yandex.co.il'', ''yandex.com'', ''yandex.com.am'', ''yandex.com.ge'',
     ''yandex.com.tr'', ''yandex.ee'', ''yandex.fr'', ''yandex.kg'', ''yandex.kz'', ''yandex.lt'', ''yandex.lv'', ''yandex.md'',
     ''yandex.ru'', ''yandex.tj'', ''yandex.tm'', ''yandex.ua'', ''yandex.uz'', ''yandex.rs'', ''yandex-ad.cn'', ''yandex-team.ru'',
     ''yandex.eu'']"

definition isYandexDomain :: "string \<Rightarrow> bool" where
  "isYandexDomain d = (d \<in> set YANDEX_DOMAINS)"

definition request_host :: "page_request \<Rightarrow> string" where
  "request_host req = (if rq_hostname req = [] then rq_host req else rq_hostname req)"

section \<open>The identifier of a browser\<close>

definition yandexuid_valid :: "int \<Rightarrow> string option \<Rightarrow> bool" where
  "yandexuid_valid now u =
     (case u of None \<Rightarrow> False
      | Some u \<Rightarrow> 17 \<le> length u \<and> length u \<le> 20 \<and> list_all is_digit u \<and> hd u \<noteq> CHR ''0''
          \<and> of_int (digits_val (drop (length u - 10) u)) < fl (of_int now / 1000))"

definition new_yandexuid :: "int \<Rightarrow> rat \<Rightarrow> string" where
  "new_yandexuid now random = int_digits \<lfloor>fl (random * 10 ^ 9) + 1 / 2\<rfloor> @ take 10 (int_digits now)"

definition may_set_cookie :: "page_request \<Rightarrow> uatraits \<Rightarrow> bool \<Rightarrow> bool" where
  "may_set_cookie req ua setOnPost =
     (ua_isBrowser ua \<and> \<not> ua_isRobot ua \<and> (rq_method req = ''GET'' \<or> rq_method req = ''POST'' \<and> setOnPost)
      \<and> alist_get (rq_query req) ''nocookiesupport'' \<noteq> Some ''yes'')"

text \<open>\<open>parseInt\<close> of a decimal text.\<close>

definition version_number :: "string \<Rightarrow> int option" where
  "version_number v =
     (let ds = takeWhile is_digit (takeWhile (\<lambda>c. c \<noteq> CHR ''.'') v) in if ds = [] then None else Some (digits_val ds))"

definition sameSite_supported :: "uatraits \<Rightarrow> bool" where
  "sameSite_supported ua =
     (ua_SameSiteSupport ua \<or>
      (ua_BrowserBase ua = ''Chromium'' \<and> ua_BrowserBaseVersion ua \<noteq> [] \<and>
       (case version_number (ua_BrowserBaseVersion ua) of None \<Rightarrow> False | Some n \<Rightarrow> 76 \<le> n)))"

record yandexuid_options =
  yo_yaDomain :: string
  yo_expires :: "int option"
  yo_setOnPost :: bool

definition expressYandexUid :: "yandexuid_options \<Rightarrow> int \<Rightarrow> rat \<Rightarrow> page_request \<Rightarrow> cookie_result" where
  "expressYandexUid opts now random req =
     (case rq_cookies req of
        None \<Rightarrow> Inl NoCookieParser
      | Some cookies \<Rightarrow>
          if yandexuid_valid now (alist_get cookies ''yandexuid'') then Inr (req, None)
          else case rq_uatraits req of
            None \<Rightarrow> Inl NoUatraits
          | Some ua \<Rightarrow>
              if \<not> may_set_cookie req ua (yo_setOnPost opts) then Inr (req, None)
              else let yaDomain = (if yo_yaDomain opts = [] then domain_of (request_host req) else Some (yo_yaDomain opts))
                in case yaDomain of
                  None \<Rightarrow> Inr (req, None)
                | Some d \<Rightarrow> if isYandexDomain d
                    then setting_cookie req \<lparr>ck_name = ''yandexuid'', ck_value = new_yandexuid now random, ck_domain = ''.'' @ d, ck_path = ''/'',
                        ck_expires = (case yo_expires opts of Some t \<Rightarrow> ExpiresAt t | None \<Rightarrow> YearsFromNow 10),
                        ck_sameSiteNone = sameSite_supported ua\<rparr>
                    else Inr (req, None))"

section \<open>The identifier of the counter\<close>

definition signed_str :: "int \<Rightarrow> string" where
  "signed_str n = (if n < 0 then CHR ''-'' # int_digits (- n) else int_digits n)"

text \<open>\<open>(Date.now() * 0.001) | 0\<close> is \<open>toUnixTs\<close>.\<close>

definition generateYmUid :: "int \<Rightarrow> rat \<Rightarrow> string" where
  "generateYmUid now random =
     signed_str (toUnixTs (Some now)) @ signed_str (js_bit_or_0 (js_mul (Fin random) (Fin 1073741824)))"

record ym_uid_options =
  yu_fromQuery :: string
  yu_setOnPost :: bool

definition query_ym_uid :: "ym_uid_options \<Rightarrow> page_request \<Rightarrow> string" where
  "query_ym_uid opts req = (if yu_fromQuery opts = [] then [] else js_or (alist_get (rq_query req) (yu_fromQuery opts)) [])"

definition expressYmUid :: "ym_uid_options \<Rightarrow> int \<Rightarrow> rat \<Rightarrow> page_request \<Rightarrow> cookie_result" where
  "expressYmUid opts now random req =
     (let queryYmUid = query_ym_uid opts req in
      case rq_cookies req of
        None \<Rightarrow> Inl NoCookieParser
      | Some cookies \<Rightarrow> (case rq_uatraits req of
          None \<Rightarrow> Inl NoUatraits
        | Some ua \<Rightarrow>
            let own = alist_get cookies ''_ym_uid'' in
            if (queryYmUid = [] \<and> truthy own) \<or> (queryYmUid \<noteq> [] \<and> own = Some queryYmUid) then Inr (req, None)
            else if \<not> may_set_cookie req ua (yu_setOnPost opts) then Inr (req, None)
            else case domain_of (request_host req) of
                None \<Rightarrow> Inr (req, None)
              | Some d \<Rightarrow> if isYandexDomain d
                  then setting_cookie req \<lparr>ck_name = ''_ym_uid'', ck_value = (if queryYmUid = [] then generateYmUid now random else queryYmUid),
                      ck_domain = ''.'' @ d, ck_path = ''/'', ck_expires = YearsFromNow 1, ck_sameSiteNone = True\<rparr>
                  else Inr (req, None)))"

section \<open>Where a cookie is set\<close>

lemma domain_suffix:
  assumes "domain_of s = Some d"
  shows "\<exists>pre. s = pre @ d \<and> domain_at d \<and> (pre = [] \<or> \<not> label_char (last pre))"
  using assms
proof (induction s)
  case (Cons c s)
  show ?case
  proof (cases "domain_at (c # s)")
    case True
    then show ?thesis using Cons.prems by (auto intro: exI [of _ "[]"])
  next
    case False
    then obtain pre where pre: "s = pre @ d" "domain_at d" "pre = [] \<or> \<not> label_char (last pre)" using Cons by auto
    have "\<not> label_char c" if "pre = []"
    proof
      assume "label_char c"
      with that pre(1,2) have "domain_at (c # s)" by (simp add: domain_at_def Let_def)
      with False show False ..
    qed
    then show ?thesis using pre by (intro exI [of _ "c # pre"]) auto
  qed
qed simp

lemma yandexuid_set:
  assumes "expressYandexUid opts now random req = Inr (req', Some ck)"
  obtains cookies ua d where "rq_cookies req = Some cookies" "rq_uatraits req = Some ua"
    "\<not> yandexuid_valid now (alist_get cookies ''yandexuid'')" "may_set_cookie req ua (yo_setOnPost opts)"
    "(if yo_yaDomain opts = [] then domain_of (request_host req) else Some (yo_yaDomain opts)) = Some d"
    "isYandexDomain d" "ck_domain ck = ''.'' @ d" "ck_name ck = ''yandexuid''" "ck_value ck = new_yandexuid now random"
  using assms unfolding expressYandexUid_def setting_cookie_def Let_def
  by (auto split: option.splits if_split_asm)

lemma ym_uid_set:
  assumes "expressYmUid opts now random req = Inr (req', Some ck)"
  obtains cookies ua d where "rq_cookies req = Some cookies" "rq_uatraits req = Some ua"
    "may_set_cookie req ua (yu_setOnPost opts)" "domain_of (request_host req) = Some d" "isYandexDomain d"
    "ck_domain ck = ''.'' @ d" "ck_name ck = ''_ym_uid''"
    "ck_value ck = (if query_ym_uid opts req = [] then generateYmUid now random else query_ym_uid opts req)"
    "\<not> (query_ym_uid opts req = [] \<and> truthy (alist_get cookies ''_ym_uid''))"
    "\<not> (query_ym_uid opts req \<noteq> [] \<and> alist_get cookies ''_ym_uid'' = Some (query_ym_uid opts req))"
  using assms unfolding expressYmUid_def setting_cookie_def Let_def
  by (auto split: option.splits if_split_asm)

text \<open>Where the two middlewares set a cookie: only for a browser that takes cookies, on a request of the right
  kind, whose own cookie is missing or refused; and the cookie is for a domain of Yandex that ends the host's name
  after a character other than a small letter or a hyphen.\<close>

theorem cookies_for_yandex:
  assumes "yo_yaDomain yopts = []"
    and "expressYandexUid yopts now random req = Inr (req', Some ck) \<or> expressYmUid mopts now random req = Inr (req', Some ck)"
  shows "\<exists>cookies ua d pre. rq_cookies req = Some cookies \<and> rq_uatraits req = Some ua \<and> ua_isBrowser ua \<and> \<not> ua_isRobot ua
    \<and> (rq_method req = ''GET'' \<or> rq_method req = ''POST'') \<and> ck_domain ck = ''.'' @ d \<and> d \<in> set YANDEX_DOMAINS
    \<and> request_host req = pre @ d \<and> (pre = [] \<or> \<not> label_char (last pre))
    \<and> (ck_name ck = ''yandexuid'' \<and> \<not> yandexuid_valid now (alist_get cookies ''yandexuid'')
       \<or> ck_name ck = ''_ym_uid'' \<and> alist_get cookies ''_ym_uid'' \<noteq> Some (ck_value ck))"
proof -
  from assms(2) show ?thesis
  proof
    assume "expressYandexUid yopts now random req = Inr (req', Some ck)"
    then obtain cookies ua d where f: "rq_cookies req = Some cookies" "rq_uatraits req = Some ua"
      "\<not> yandexuid_valid now (alist_get cookies ''yandexuid'')" "may_set_cookie req ua (yo_setOnPost yopts)"
      "domain_of (request_host req) = Some d" "isYandexDomain d" "ck_domain ck = ''.'' @ d" "ck_name ck = ''yandexuid''"
      using assms(1) by (elim yandexuid_set) auto
    from domain_suffix [OF f(5)] f show ?thesis by (auto simp: may_set_cookie_def isYandexDomain_def)
  next
    assume "expressYmUid mopts now random req = Inr (req', Some ck)"
    then obtain cookies ua d where f: "rq_cookies req = Some cookies" "rq_uatraits req = Some ua"
      "may_set_cookie req ua (yu_setOnPost mopts)" "domain_of (request_host req) = Some d" "isYandexDomain d"
      "ck_domain ck = ''.'' @ d" "ck_name ck = ''_ym_uid''"
      "ck_value ck = (if query_ym_uid mopts req = [] then generateYmUid now random else query_ym_uid mopts req)"
      "\<not> (query_ym_uid mopts req = [] \<and> truthy (alist_get cookies ''_ym_uid''))"
      "\<not> (query_ym_uid mopts req \<noteq> [] \<and> alist_get cookies ''_ym_uid'' = Some (query_ym_uid mopts req))"
      by (elim ym_uid_set)
    have "generateYmUid now random \<noteq> []" by (simp add: generateYmUid_def signed_str_def int_digits_nonempty)
    then have "alist_get cookies ''_ym_uid'' \<noteq> Some (ck_value ck)" using f(8-10) by (auto split: if_splits)
    with domain_suffix [OF f(4)] f(1-7) show ?thesis by (auto simp: may_set_cookie_def isYandexDomain_def)
  qed
qed

definition sample_browser :: uatraits where
  "sample_browser = \<lparr>ua_isBrowser = True, ua_isRobot = False, ua_SameSiteSupport = False, ua_BrowserBase = ''Chromium'',
     ua_BrowserBaseVersion = ''90.0.1''\<rparr>"

definition sample_request :: "string \<Rightarrow> page_request" where
  "sample_request host = \<lparr>rq_cookies = Some [], rq_uatraits = Some sample_browser, rq_method = ''GET'', rq_query = [],
     rq_hostname = host, rq_host = []\<rparr>"

definition sample_options :: yandexuid_options where
  "sample_options = \<lparr>yo_yaDomain = [], yo_expires = None, yo_setOnPost = False\<rparr>"

definition sample_cookie :: "int \<Rightarrow> rat \<Rightarrow> page_cookie" where
  "sample_cookie now random = \<lparr>ck_name = ''yandexuid'', ck_value = new_yandexuid now random, ck_domain = ''.yandex.ru'', ck_path = ''/'',
     ck_expires = YearsFromNow 10, ck_sameSiteNone = True\<rparr>"

lemma sample_cookie_set:
  "expressYandexUid sample_options now random (sample_request ''evil1yandex.ru'')
    = Inr ((sample_request ''evil1yandex.ru'')\<lparr>rq_cookies := Some [(''yandexuid'', new_yandexuid now random)]\<rparr>,
        Some (sample_cookie now random))"
proof -
  have d: "domain_of ''evil1yandex.ru'' = Some ''yandex.ru''" by code_simp
  have v: "sameSite_supported sample_browser" by code_simp
  have "isYandexDomain ''yandex.ru''" by code_simp
  with d v show ?thesis
    by (simp add: expressYandexUid_def sample_options_def sample_request_def sample_cookie_def setting_cookie_def
        request_host_def may_set_cookie_def yandexuid_valid_def sample_browser_def)
qed

theorem cookies_for_yandex_witness:
  "\<exists>cookies ua d pre. rq_cookies (sample_request ''evil1yandex.ru'') = Some cookies
    \<and> rq_uatraits (sample_request ''evil1yandex.ru'') = Some ua \<and> ua_isBrowser ua \<and> \<not> ua_isRobot ua
    \<and> (rq_method (sample_request ''evil1yandex.ru'') = ''GET'' \<or> rq_method (sample_request ''evil1yandex.ru'') = ''POST'')
    \<and> ck_domain (sample_cookie 1700000000000 (1 / 2)) = ''.'' @ d \<and> d \<in> set YANDEX_DOMAINS
    \<and> request_host (sample_request ''evil1yandex.ru'') = pre @ d \<and> (pre = [] \<or> \<not> label_char (last pre))
    \<and> (ck_name (sample_cookie 1700000000000 (1 / 2)) = ''yandexuid''
         \<and> \<not> yandexuid_valid 1700000000000 (alist_get cookies ''yandexuid'')
       \<or> ck_name (sample_cookie 1700000000000 (1 / 2)) = ''_ym_uid''
         \<and> alist_get cookies ''_ym_uid'' \<noteq> Some (ck_value (sample_cookie 1700000000000 (1 / 2))))"
  by (rule cookies_for_yandex [OF _ disjI1 [OF sample_cookie_set]]) (simp add: sample_options_def)

section \<open>A fresh identifier\<close>

lemma length_int_digits_less: "0 \<le> n \<Longrightarrow> n < 10 ^ Suc k \<Longrightarrow> length (int_digits n) \<le> Suc k"
proof (induction k arbitrary: n)
  case 0
  then show ?case by (subst int_digits.simps) simp
next
  case (Suc k)
  have "0 \<le> n div 10" "n div 10 < 10 ^ Suc k" using Suc.prems by simp_all
  then show ?case using Suc.IH by (subst int_digits.simps) simp
qed

lemma long_digits: "10 ^ k \<le> n \<Longrightarrow> Suc k \<le> length (int_digits n)"
proof (induction k arbitrary: n)
  case 0
  then show ?case using int_digits_nonempty [of n] by (cases "int_digits n") auto
next
  case (Suc k)
  have "10 ^ k \<le> n div 10" using Suc.prems by simp
  moreover have "10 \<le> n" using Suc.prems order_trans [of 10 "10 ^ Suc k" n] by simp
  ultimately show ?case using Suc.IH by (subst int_digits.simps) simp
qed

lemma int_digits_first: "0 < n \<Longrightarrow> hd (int_digits n) \<noteq> CHR ''0''"
proof (induction n rule: int_digits.induct)
  case (1 n)
  show ?case
  proof (cases "n < 10")
    case True
    have "(of_char (char_of (n + 48) :: char) :: int) \<noteq> of_char (CHR ''0'')" using True 1(2) by simp
    then have "char_of (n + 48) \<noteq> CHR ''0''" by (rule contrapos_nn) (simp only:)
    then show ?thesis using True by (subst int_digits.simps) simp
  next
    case False
    then show ?thesis using 1 by (subst int_digits.simps) (simp add: int_digits_nonempty)
  qed
qed

lemma int_digits_seconds:
  assumes "10 ^ 12 \<le> now" "now < 10 ^ 13"
  shows "take 10 (int_digits now) = int_digits (now div 1000)" "length (int_digits (now div 1000)) = 10"
proof -
  have "10 ^ 9 \<le> now div 1000" "now div 1000 < 10 ^ Suc 9" using assms by simp_all
  then have "Suc 9 \<le> length (int_digits (now div 1000))" "length (int_digits (now div 1000)) \<le> Suc 9"
    using long_digits [of 9 "now div 1000"] length_int_digits_less [of "now div 1000" 9] by simp_all
  then show l: "length (int_digits (now div 1000)) = 10" by simp
  have "int_digits now = int_digits (now div 10) @ [char_of (now mod 10 + 48)]"
    "int_digits (now div 10) = int_digits (now div 100) @ [char_of (now div 10 mod 10 + 48)]"
    "int_digits (now div 100) = int_digits (now div 1000) @ [char_of (now div 100 mod 10 + 48)]"
    using assms by (subst int_digits.simps, simp flip: zdiv_zmult2_eq)+
  then show "take 10 (int_digits now) = int_digits (now div 1000)" using l by simp
qed

lemma later_second:
  assumes "0 \<le> now" "now < now'" "now' < 10 ^ 13"
  shows "of_int (now div 1000) < fl (of_int now' / 1000)"
proof -
  have "(of_int now' / 1000 :: rat) < 10 ^ 10" using assms(3) by simp
  moreover have "0 \<le> (of_int now' / 1000 :: rat)" using assms(1,2) by simp
  ultimately have "\<bar>of_int now' / 1000 :: rat\<bar> / 2 ^ 53 + 1 / 2 ^ 60 < 1 / 1000" by simp
  then have "of_int now' / 1000 - 1 / 1000 < fl (of_int now' / 1000)"
    using fl_err [of "of_int now' / 1000"] by linarith
  moreover have "of_int (now div 1000) \<le> (of_int now' / 1000 - 1 / 1000 :: rat)"
  proof -
    have "now div 1000 * 1000 + 1 \<le> now'" using assms(2) by linarith
    then have "(of_int (now div 1000 * 1000 + 1) :: rat) \<le> of_int now'" by (simp only: of_int_le_iff)
    then show ?thesis by simp
  qed
  ultimately show ?thesis by linarith
qed

text \<open>C32: The identifier \<open>expressYandexUid\<close> gives a browser is accepted when it comes back, at any later time, exactly
  when its random part has at least seven digits: about one fresh identifier in a thousand is too short and is
  replaced on the next visit.  (The clock counts from September 2001 to November 2286, where the seconds have ten
  digits.)\<close>

theorem fresh_yandexuid_accepted:
  assumes "expressYandexUid opts now random req = Inr (req', Some ck)"
    and "10 ^ 12 \<le> now" "now < now'" "now' < 10 ^ 13" "0 \<le> random" "\<lfloor>fl (random * 10 ^ 9) + 1 / 2\<rfloor> \<le> 10 ^ 9"
  shows "yandexuid_valid now' (Some (ck_value ck)) = (10 ^ 6 \<le> \<lfloor>fl (random * 10 ^ 9) + 1 / 2\<rfloor>)"
proof -
  define r where "r = \<lfloor>fl (random * 10 ^ 9) + 1 / 2\<rfloor>"
  have "0 \<le> fl (random * 10 ^ 9)" using assms(5) by (intro fl_nonneg) simp
  then have r0: "0 \<le> r" by (simp add: r_def le_floor_iff)
  have s: "take 10 (int_digits now) = int_digits (now div 1000)" "length (int_digits (now div 1000)) = 10"
    using int_digits_seconds assms(2-4) by simp_all
  have val: "ck_value ck = int_digits r @ int_digits (now div 1000)"
    using assms(1) s by (elim yandexuid_set) (simp add: new_yandexuid_def r_def)
  have hi: "length (int_digits r) \<le> 10" using length_int_digits_less [of r 9] r0 assms(6) by (simp add: r_def)
  have lo: "(7 \<le> length (int_digits r)) = (10 ^ 6 \<le> r)"
  proof
    show "10 ^ 6 \<le> r" if "7 \<le> length (int_digits r)"
      using that length_int_digits_less [of r 5] r0 by (cases "r < 10 ^ 6") simp_all
    show "7 \<le> length (int_digits r)" if "10 ^ 6 \<le> r"
      using that long_digits [of 6 r] by simp
  qed
  have digits: "list_all is_digit (ck_value ck)"
    using r0 assms(2) by (simp add: val int_digits_digit)
  have seconds: "of_int (digits_val (drop (length (ck_value ck) - 10) (ck_value ck))) < fl (of_int now' / 1000)"
    using later_second [of now now'] assms(2-4) s(2) by (simp add: val digits_val_int_digits)
  have first: "hd (ck_value ck) \<noteq> CHR ''0''" if "10 ^ 6 \<le> r"
    using that int_digits_first [of r] by (simp add: val int_digits_nonempty)
  have "yandexuid_valid now' (Some (ck_value ck)) = (10 ^ 6 \<le> r)"
    using lo hi digits seconds first s(2) by (simp add: yandexuid_valid_def val) blast
  then show ?thesis by (simp only: r_def)
qed

theorem fresh_yandexuid_accepted_witness:
  "yandexuid_valid 1700000000001 (Some (ck_value (sample_cookie 1700000000000 (1 / 2))))
    \<and> \<not> yandexuid_valid 1700000000001 (Some (ck_value (sample_cookie 1700000000000 (1 / 2048))))"
proof -
  have r: "\<lfloor>fl (1 / 2 * 10 ^ 9) + 1 / 2\<rfloor> = 500000000" "\<lfloor>fl (1 / 2048 * 10 ^ 9) + 1 / 2\<rfloor> = 488281" by code_simp+
  have "yandexuid_valid 1700000000001 (Some (ck_value (sample_cookie 1700000000000 (1 / 2)))) = (10 ^ 6 \<le> (500000000::int))"
    using r by (subst fresh_yandexuid_accepted [OF sample_cookie_set, of 1700000000000 1700000000001 "1 / 2"])
      (simp_all only:, simp_all)
  moreover have "yandexuid_valid 1700000000001 (Some (ck_value (sample_cookie 1700000000000 (1 / 2048)))) = (10 ^ 6 \<le> (488281::int))"
    using r by (subst fresh_yandexuid_accepted [OF sample_cookie_set, of 1700000000000 1700000000001 "1 / 2048"])
      (simp_all only:, simp_all)
  ultimately show ?thesis by simp
qed

end
