(* ===== verification/PageServer.thy ===== *)
theory PageServer
  imports Uri Transform
begin

text \<open>
  \<open>pay-frontend/server/src\<close>: the base class of the routes (\<open>core/base-route.ts\<close>), the checks of the
  user (\<open>routes/helpers\<close>), and on them the routes of the mobile user, of the house nearby and of the shorter
  session, the page of the console and the page of the button.  A route is a class of three methods; what a
  request does to its response, its counters and its logs is a list of events.  The replies of other servers,
  the configuration, \<open>JSON.parse\<close> and the origin of an address are arguments.
\<close>

section \<open>Events of a request\<close>

text \<open>An \<open>ApiError\<close> (its code, method, message and JSON) or another error (its message).\<close>

datatype route_error = ApiError int string string string | OtherError string

datatype 'd server_event =
    ResStatus int
  | ResSet string string
  | ResSend 'd
  | ResRedirect int string
  | ResEnd
  | YasmSum string
  | YasmHist string
  | TimingStart string
  | TimingStop string
  | MetrikaCount "string list"
  | LogInfo string
  | LogWarn string
  | LogError string string

type_synonym 'd trace = "'d server_event list"

text \<open>A method extends the events and returns, or throws.\<close>

type_synonym 'd route_step = "'d trace \<Rightarrow> 'd trace \<times> (route_error + unit)"

definition happens :: "'d trace \<Rightarrow> 'd route_step" where
  "happens evs tr = (tr @ evs, Inr ())"

definition throwing :: "route_error \<Rightarrow> 'd route_step" where
  "throwing e tr = (tr, Inl e)"

definition route_then :: "'d route_step \<Rightarrow> 'd route_step \<Rightarrow> 'd route_step" where
  "route_then f g tr = (case f tr of (tr', Inl e) \<Rightarrow> (tr', Inl e) | (tr', Inr _) \<Rightarrow> g tr')"

fun answers_client :: "'d server_event \<Rightarrow> bool" where
  "answers_client (ResSend d) = True"
| "answers_client (ResRedirect c u) = True"
| "answers_client _ = False"

definition client_answers :: "'d trace \<Rightarrow> 'd server_event list" where
  "client_answers tr = filter answers_client tr"

text \<open>\<open>res.headersSent\<close> and \<open>res.finished\<close>: an answer or \<open>end\<close> has gone out.\<close>

definition headersSent :: "'d trace \<Rightarrow> bool" where
  "headersSent tr = list_ex (\<lambda>ev. answers_client ev \<or> ev = ResEnd) tr"

section \<open>The class of the routes\<close>

record error_data =
  ed_error :: string
  ed_message :: "string option"

record 'd route_class =
  rc_name :: string
  rc_type :: string
  rc_escape :: "'d \<Rightarrow> 'd"
  rc_prepare :: "'d route_step"
  rc_process :: "'d route_step"
  rc_processError :: "int \<Rightarrow> error_data \<Rightarrow> 'd route_step"

text \<open>\<open>send\<close>: \<open>rc_escape\<close> is \<open>serialize\<close> for a route of JSON, the identity otherwise.\<close>

definition route_send :: "string \<Rightarrow> ('d \<Rightarrow> 'd) \<Rightarrow> int \<Rightarrow> 'd \<Rightarrow> (string \<times> string) list \<Rightarrow> 'd route_step" where
  "route_send mime escape code d headers tr =
     (if headersSent tr then (tr, Inr ())
      else happens ([ResStatus code, ResSet ''Content-Type'' mime] @ map (\<lambda>(k, v). ResSet k v) headers @ [ResSend (escape d)]) tr)"

definition route_redirect :: "string \<Rightarrow> 'd route_step" where
  "route_redirect url = happens [ResRedirect 302 url]"

definition preAction :: "'d route_class \<Rightarrow> 'd route_step" where
  "preAction cls = happens [YasmSum ''route_count'', YasmSum (''route_'' @ rc_name cls @ ''_count''), TimingStart (rc_name cls)]"

fun extractErrorMessage :: "route_error \<Rightarrow> string" where
  "extractErrorMessage (ApiError code meth message json) = (if message = [] then json else message)"
| "extractErrorMessage (OtherError message) = (if message = [] then ''{}'' else message)"

text \<open>The message an error is logged with, empty for an error without one.\<close>

fun error_message :: "route_error \<Rightarrow> string" where
  "error_message (ApiError code meth message json) = message"
| "error_message (OtherError message) = message"

text \<open>\<open>core.req.apiVer\<close> and \<open>core.req.apiMethod\<close>, \<open>undefined\<close> in the name of a counter when missing.\<close>

record api_names =
  an_ver :: "string option"
  an_method :: "string option"

definition method_signal :: "api_names \<Rightarrow> string \<Rightarrow> string" where
  "method_signal api suffix = ''methods_'' @ (case an_ver api of None \<Rightarrow> ''undefined'' | Some v \<Rightarrow> v) @ ''_''
     @ (case an_method api of None \<Rightarrow> ''undefined'' | Some m \<Rightarrow> m) @ ''_'' @ suffix @ ''_count''"

fun route_error_page :: "'d route_class \<Rightarrow> api_names \<Rightarrow> route_error \<Rightarrow> 'd route_step" where
  "route_error_page cls api (ApiError code meth message json) =
     route_then (happens [LogError ''API_ERROR'' message, YasmSum (method_signal api (take 1 (int_digits code) @ ''xx''))])
       (rc_processError cls code \<lparr>ed_error = ''API_ERROR'', ed_message = Some message\<rparr>)"
| "route_error_page cls api (OtherError message) =
     route_then (happens [YasmSum ''route_common_request_error'', YasmSum (''route_'' @ rc_name cls @ ''_common_request_error''),
         LogError ''COMMON_REQUEST_ERROR'' message, YasmSum (method_signal api ''5xx'')])
       (\<lambda>tr. if headersSent tr then (tr, Inr ())
             else rc_processError cls 500 \<lparr>ed_error = ''COMMON_REQUEST_ERROR'', ed_message = None\<rparr> tr)"

text \<open>How the wait for the end of the response goes.\<close>

datatype response_end = RespFinished | RespFailed string | RespNever

definition uncaught_events :: "route_error \<Rightarrow> 'd trace" where
  "uncaught_events e = [YasmSum ''route_uncaught_request_exception'', LogError ''UNCAUGHT_REQUEST_EXCEPTION'' (error_message e)]"

definition join_errors :: "string list \<Rightarrow> string" where
  "join_errors es = (case es of [] \<Rightarrow> [] | e # es \<Rightarrow> e @ concat (map (\<lambda>x. CHR '' '' # x) es))"

definition finish_events :: "'d route_class \<Rightarrow> string list \<Rightarrow> 'd trace" where
  "finish_events cls errors =
     [TimingStop (rc_name cls), LogInfo (''REQUEST_FINISHED '' @ join_errors errors), YasmHist ''route_timings'',
      YasmHist (''route_'' @ rc_name cls @ ''_timings'')]"

text \<open>The first half of \<open>_router\<close>: the methods and the two ways to answer their errors.\<close>

definition route_body :: "'d route_class \<Rightarrow> api_names \<Rightarrow> 'd trace \<times> (route_error + string list)" where
  "route_body cls api =
     (case route_then (preAction cls) (route_then (rc_prepare cls) (rc_process cls)) [] of
        (tr, Inr _) \<Rightarrow> (tr, Inr [])
      | (tr, Inl err) \<Rightarrow> (case route_error_page cls api err tr of
          (tr', Inr _) \<Rightarrow> (tr', Inr [extractErrorMessage err])
        | (tr', Inl err') \<Rightarrow>
            (case rc_processError cls 500 \<lparr>ed_error = ''COMMON_REQUEST_EXCEPTION'', ed_message = None\<rparr>
                (tr' @ [YasmSum ''route_common_request_exception'', YasmSum (''route_'' @ rc_name cls @ ''_common_request_exception'')]) of
              (tr'', Inr _) \<Rightarrow> (tr'', Inr [extractErrorMessage err, extractErrorMessage err'])
            | (tr'', Inl err'') \<Rightarrow> (tr'', Inl err''))))"

definition base_router :: "'d route_class \<Rightarrow> api_names \<Rightarrow> response_end \<Rightarrow> 'd trace" where
  "base_router cls api fin =
     (case route_body cls api of
        (tr, Inl err) \<Rightarrow> tr @ uncaught_events err
      | (tr, Inr errors) \<Rightarrow> tr @ [ResEnd] @ (case fin of
            RespFinished \<Rightarrow> finish_events cls errors
          | RespFailed msg \<Rightarrow> finish_events cls (errors @ [msg])
          | RespNever \<Rightarrow> []))"

section \<open>The user\<close>

record passport =
  pp_error :: string
  pp_status :: string
  pp_uid :: string
  pp_login :: string
  pp_raw_login :: string
  pp_email :: string
  pp_displayName :: string
  pp_phones :: "string list"
  pp_staff :: bool
  pp_avatar_empty :: "bool option"
  pp_avatar_default :: "string option"

definition isAuth :: "passport option \<Rightarrow> bool \<Rightarrow> bool" where
  "isAuth bb ignoreNeedReset =
     (case bb of None \<Rightarrow> False
      | Some u \<Rightarrow> if pp_error u \<noteq> ''OK'' then False
          else if ignoreNeedReset \<and> pp_status u = ''NEED_RESET'' then True
          else pp_status u \<noteq> ''NEED_RESET'')"

definition isNeedReset :: "passport option \<Rightarrow> route_error + bool" where
  "isNeedReset bb = (case bb of None \<Rightarrow> Inl (OtherError ''TypeError'') | Some u \<Rightarrow> Inr (pp_status u = ''NEED_RESET''))"

definition hasUserPhone :: "passport option \<Rightarrow> bool" where
  "hasUserPhone bb = (case bb of None \<Rightarrow> False | Some u \<Rightarrow> ''1'' \<in> set (pp_phones u))"

definition hasAvatar :: "passport option \<Rightarrow> bool" where
  "hasAvatar bb = (case bb of None \<Rightarrow> False | Some u \<Rightarrow> pp_avatar_empty u = Some False)"

definition getAvatarId :: "passport option \<Rightarrow> string" where
  "getAvatarId bb = (case bb of None \<Rightarrow> [] | Some u \<Rightarrow> (case pp_avatar_default u of None \<Rightarrow> [] | Some a \<Rightarrow> a))"

definition getAvatarURL :: "string \<Rightarrow> string \<Rightarrow> bool \<Rightarrow> string" where
  "getAvatarURL avatarUrl avatarId isRetina =
     avatarUrl @ ''/get-yapic/'' @ avatarId @ ''/'' @ (if isRetina then ''islands-retina-middle'' else ''islands-middle'')"

definition isStaffAccount :: "passport option \<Rightarrow> bool" where
  "isStaffAccount bb = (case bb of None \<Rightarrow> False | Some u \<Rightarrow> pp_staff u)"

definition user_names :: "passport option \<Rightarrow> string list" where
  "user_names bb = (case bb of None \<Rightarrow> [[], [], []]
     | Some u \<Rightarrow> [pp_uid u, map js_lower_char (pp_login u), map js_lower_char (pp_raw_login u)])"

text \<open>\<open>whiteList.includes\<close> of a missing list throws.\<close>

definition isUserInWhitelist :: "passport option \<Rightarrow> string list option \<Rightarrow> route_error + bool" where
  "isUserInWhitelist bb users = (case users of None \<Rightarrow> Inl (OtherError ''TypeError'')
     | Some us \<Rightarrow> Inr (list_ex (\<lambda>n. n \<in> set us) (user_names bb)))"

datatype server_env = Production | Testing | Development

record feature_status =
  ft_public :: bool
  ft_staff :: bool
  ft_whitelist :: bool
  ft_whitelist_users :: "string list option"

definition userHasAccessToFeature :: "server_env \<Rightarrow> feature_status option \<Rightarrow> passport option \<Rightarrow> route_error + bool" where
  "userHasAccessToFeature env status bb =
     (if env \<noteq> Production then Inr True
      else case status of None \<Rightarrow> Inr False
        | Some st \<Rightarrow> if ft_public st \<or> (ft_staff st \<and> isStaffAccount bb) then Inr True
            else if ft_whitelist st then isUserInWhitelist bb (ft_whitelist_users st) else Inr False)"

definition server_isSplitAvailable :: "server_env \<Rightarrow> feature_status option \<Rightarrow> passport option \<Rightarrow> route_error + bool" where
  "server_isSplitAvailable env status bb = (if hasUserPhone bb then userHasAccessToFeature env status bb else Inr False)"

section \<open>Signing in\<close>

record web_request =
  wr_blackbox :: "passport option"
  wr_query :: "(string \<times> string) list"
  wr_header_host :: "string option"
  wr_header_origin :: "string option"
  wr_header_referer :: string
  wr_hostname :: string
  wr_host :: string
  wr_originalUrl :: string
  wr_csrfToken :: string
  wr_requestId :: string
  wr_split_status :: "feature_status option"

record 'f server_config =
  sc_env :: server_env
  sc_version :: string
  sc_passportAuthUrl :: string
  sc_passportAuthOrigin :: string
  sc_avatarUrl :: string
  sc_metrikaId :: string
  sc_services :: 'f
  sc_frames :: "string list"
  sc_split :: 'f
  sc_shortCashback :: "string list"
  sc_withoutPersonalize :: "string list"
  sc_monochromeLogo :: "string list"

definition getRequestOrigin :: "web_request \<Rightarrow> string" where
  "getRequestOrigin req = ''https://'' @ js_or (wr_header_host req) (js_or (Some (wr_hostname req)) (wr_host req))"

definition getRequestUrl :: "web_request \<Rightarrow> string" where
  "getRequestUrl req = getRequestOrigin req @ wr_originalUrl req"

text \<open>\<open>url_origin\<close> is the origin of an address, \<open>None\<close> when \<open>new URL\<close> throws.\<close>

definition getRefererOrigin :: "(string \<Rightarrow> string option) \<Rightarrow> web_request \<Rightarrow> string" where
  "getRefererOrigin url_origin req =
     (if truthy (wr_header_origin req) then the (wr_header_origin req)
      else case url_origin (wr_header_referer req) of Some u \<Rightarrow> u | None \<Rightarrow> getRequestOrigin req)"

definition metrikaSessionId :: "web_request \<Rightarrow> string" where
  "metrikaSessionId req = js_or (alist_get (wr_query req) ''msid'') ''no-sid''"

definition metrikaCheckoutId :: "web_request \<Rightarrow> string" where
  "metrikaCheckoutId req = js_or (alist_get (wr_query req) ''mcid'') ''no-cid''"

definition countCheckout :: "string list \<Rightarrow> web_request \<Rightarrow> 'd trace" where
  "countCheckout nm req = [MetrikaCount ([metrikaSessionId req, metrikaCheckoutId req] @ nm)]"

definition getPassportRedirectUrl :: "'f server_config \<Rightarrow> web_request \<Rightarrow> bool \<Rightarrow> string option \<Rightarrow> string" where
  "getPassportRedirectUrl cfg req update originalUrl =
     sc_passportAuthUrl cfg @ ''/auth/'' @ (if update then ''update'' else ''list'') @ ''/?retpath=''
       @ encodeURIComponent (js_or originalUrl (getRequestUrl req)) @ ''&origin='' @ sc_passportAuthOrigin cfg"

text \<open>The address of the passport page for a user who has to sign in.\<close>

definition checkAuth :: "'f server_config \<Rightarrow> web_request \<Rightarrow> string option \<Rightarrow> 'd trace \<times> (route_error + string option)" where
  "checkAuth cfg req originalUrl =
     (if isAuth (wr_blackbox req) False then ([], Inr None)
      else case isNeedReset (wr_blackbox req) of
        Inl err \<Rightarrow> ([], Inl err)
      | Inr canBeReset \<Rightarrow>
          ((if canBeReset
            then countCheckout [''puid-'' @ (case wr_blackbox req of None \<Rightarrow> ''null'' | Some u \<Rightarrow> pp_uid u) @ ''-0'', ''update_cookie_attempt''] req
            else countCheckout [''puid-null-0'', ''login_attempt''] req @ [LogWarn ''Blackbox auth error'']),
           Inr (Some (getPassportRedirectUrl cfg req canBeReset originalUrl))))"

section \<open>Routes of JSON\<close>

datatype 'a api_reply = ReplySuccess int 'a | ReplyFail int string

definition json_mime :: string where "json_mime = ''application/json''"

definition html_mime :: string where "html_mime = ''text/html''"

definition nothing_first :: "'d route_step" where
  "nothing_first tr = (tr, Inr ())"

record user_info =
  ui_uid :: string
  ui_name :: string
  ui_avatar :: "(string \<times> string) option"

definition user_info_process :: "'f server_config \<Rightarrow> (user_info api_reply \<Rightarrow> user_info api_reply) \<Rightarrow> web_request \<Rightarrow> user_info api_reply route_step" where
  "user_info_process cfg ser req =
     (case wr_blackbox req of
        Some u \<Rightarrow>
          if isAuth (Some u) True then route_send json_mime ser 200 (ReplySuccess 200
              \<lparr>ui_uid = pp_uid u, ui_name = pp_displayName u,
                ui_avatar = (if hasAvatar (Some u) then Some (getAvatarURL (sc_avatarUrl cfg) (getAvatarId (Some u)) False,
                    getAvatarURL (sc_avatarUrl cfg) (getAvatarId (Some u)) True) else None)\<rparr>) []
          else route_send json_mime ser 403 (ReplyFail 403 ''FORBIDDEN'') []
      | None \<Rightarrow> route_send json_mime ser 403 (ReplyFail 403 ''FORBIDDEN'') [])"

definition user_info_route :: "'f server_config \<Rightarrow> (user_info api_reply \<Rightarrow> user_info api_reply) \<Rightarrow> web_request \<Rightarrow> user_info api_reply route_class" where
  "user_info_route cfg ser req =
     \<lparr>rc_name = ''router mobile_api-user_info'', rc_type = json_mime, rc_escape = ser, rc_prepare = nothing_first,
      rc_process = user_info_process cfg ser req,
      rc_processError = (\<lambda>code ed. route_send json_mime ser code (ReplyFail code (ed_error ed)) [])\<rparr>"

text \<open>\<open>decreaseSession\<close> turns a failure of the blackbox into a reply; \<open>None\<close> is \<open>{ error: true }\<close>.\<close>

type_synonym decreased = "string option"

definition decreaseSession :: "route_error + string \<Rightarrow> 'd trace \<times> decreased" where
  "decreaseSession res = (case res of Inr sid \<Rightarrow> ([], Some sid)
     | Inl err \<Rightarrow> ([LogError ''Decrease session error'' (error_message err)], None))"

definition session_cookie :: "string \<Rightarrow> string" where
  "session_cookie sid = ''Session_id='' @ sid @ ''; Domain=.yandex.ru; Secure; HttpOnly; Max-Age=9000000; Path=/''"

definition decrease_session_process ::
  "(decreased api_reply \<Rightarrow> decreased api_reply) \<Rightarrow> web_request \<Rightarrow> route_error + string \<Rightarrow> decreased api_reply route_step" where
  "decrease_session_process ser req res =
     (if \<not> isAuth (wr_blackbox req) True then route_send json_mime ser 403 (ReplyFail 403 ''FORBIDDEN'') []
      else case decreaseSession res of (evs, d) \<Rightarrow>
        route_then (happens evs) (route_send json_mime ser 200 (ReplySuccess 200 d)
          (case d of None \<Rightarrow> [] | Some sid \<Rightarrow> [(''Set-Cookie'', session_cookie sid)])))"

definition decrease_session_route ::
  "(decreased api_reply \<Rightarrow> decreased api_reply) \<Rightarrow> web_request \<Rightarrow> route_error + string \<Rightarrow> decreased api_reply route_class" where
  "decrease_session_route ser req res =
     \<lparr>rc_name = ''router decrease-session'', rc_type = json_mime, rc_escape = ser, rc_prepare = nothing_first,
      rc_process = decrease_session_process ser req res,
      rc_processError = (\<lambda>code ed. route_send json_mime ser code (ReplyFail code ''INTERNAL SERVER ERROR'') [])\<rparr>"

section \<open>The house nearby\<close>

definition is_coordinate :: "string \<Rightarrow> bool" where
  "is_coordinate s =
     (let s = (if s \<noteq> [] \<and> hd s = CHR ''-'' then tl s else s); rest = dropWhile is_digit s in
      takeWhile is_digit s \<noteq> []
      \<and> (rest = [] \<or> hd rest = CHR ''.'' \<and> tl rest \<noteq> [] \<and> list_all is_digit (tl rest)))"

definition getCoordinates :: "(string \<times> string) list \<Rightarrow> (string \<times> string) option" where
  "getCoordinates query =
     (case (alist_get query ''latitude'', alist_get query ''longitude'') of
        (Some lat, Some lon) \<Rightarrow> if is_coordinate lat \<and> is_coordinate lon then Some (lat, lon) else None
      | _ \<Rightarrow> None)"

datatype geo_kind = GeoCountry | GeoProvince | GeoLocality | GeoStreet | GeoHouse | GeoOther

record geo_component =
  gc_kind :: "geo_kind list option"
  gc_name :: "string option"

record geo_address =
  ga_formattedAddress :: "string option"
  ga_postalCode :: "string option"
  ga_component :: "geo_component list option"

record 'n geo_metadata =
  gm_lat :: "'n option"
  gm_lon :: "'n option"
  gm_address :: "geo_address option"

record house_components =
  hc_postalCode :: "string option"
  hc_country :: "string option"
  hc_province :: "string option"
  hc_locality :: "string option"
  hc_street :: "string option"
  hc_house :: "string option"

record 'n house_found =
  hf_latitude :: "'n option"
  hf_longitude :: "'n option"
  hf_formattedAddress :: "string option"
  hf_components :: house_components

text \<open>\<open>kind?.includes\<close>; the one test without the question mark throws for a component without kinds.\<close>

definition kind_is :: "geo_component \<Rightarrow> geo_kind \<Rightarrow> bool" where
  "kind_is c k = (case gc_kind c of None \<Rightarrow> False | Some ks \<Rightarrow> k \<in> set ks)"

definition add_component :: "geo_component \<Rightarrow> house_components \<Rightarrow> route_error + house_components" where
  "add_component c acc =
     (if kind_is c GeoCountry then Inr (acc\<lparr>hc_country := gc_name c\<rparr>)
      else if kind_is c GeoProvince then Inr (acc\<lparr>hc_province := gc_name c\<rparr>)
      else if gc_kind c = None then Inl (OtherError ''TypeError'')
      else if kind_is c GeoLocality then Inr (acc\<lparr>hc_locality := gc_name c\<rparr>)
      else if kind_is c GeoStreet then Inr (acc\<lparr>hc_street := gc_name c\<rparr>)
      else if kind_is c GeoHouse then Inr (acc\<lparr>hc_house := gc_name c\<rparr>)
      else Inr acc)"

fun add_components :: "geo_component list \<Rightarrow> house_components \<Rightarrow> route_error + house_components" where
  "add_components [] acc = Inr acc"
| "add_components (c # cs) acc = (case add_component c acc of Inl e \<Rightarrow> Inl e | Inr acc' \<Rightarrow> add_components cs acc')"

definition house_query :: "string \<times> string \<Rightarrow> (string \<times> string) list" where
  "house_query coords = [(''ll'', snd coords @ '','' @ fst coords), (''mode'', ''reverse''), (''type'', ''geo''),
     (''geocoder_kind'', ''house''), (''spn'', ''0.007,0.007''), (''results'', ''1'')]"

text \<open>\<open>addrs\<close> answers a query with an error or the decoded objects of the reply, each with its metadata.\<close>

type_synonym 'n addrs = "(string \<times> string) list \<Rightarrow> route_error + 'n geo_metadata option list option"

definition findHouseNearby :: "'n addrs \<Rightarrow> string \<times> string \<Rightarrow> route_error + 'n house_found option" where
  "findHouseNearby addrs coords =
     (case addrs (house_query coords) of
        Inl e \<Rightarrow> Inl e
      | Inr (Some [m]) \<Rightarrow>
          (let addr = Option.bind m gm_address;
               start = \<lparr>hc_postalCode = Option.bind addr ga_postalCode, hc_country = None, hc_province = None, hc_locality = None,
                 hc_street = None, hc_house = None\<rparr>
           in case (case Option.bind addr ga_component of None \<Rightarrow> Inr start | Some cs \<Rightarrow> add_components cs start) of
                Inl e \<Rightarrow> Inl e
              | Inr comps \<Rightarrow> Inr (Some \<lparr>hf_latitude = Option.bind m gm_lat, hf_longitude = Option.bind m gm_lon,
                  hf_formattedAddress = Option.bind addr ga_formattedAddress, hf_components = comps\<rparr>))
      | Inr _ \<Rightarrow> Inr None)"

type_synonym 'n house_reply = "'n house_found option api_reply"

definition house_process :: "('n house_reply \<Rightarrow> 'n house_reply) \<Rightarrow> 'n addrs \<Rightarrow> web_request \<Rightarrow> 'n house_reply route_step" where
  "house_process ser addrs req =
     (if \<not> isAuth (wr_blackbox req) True then route_send json_mime ser 403 (ReplyFail 403 ''FORBIDDEN'') []
      else case getCoordinates (wr_query req) of
        None \<Rightarrow> route_send json_mime ser 400 (ReplyFail 400 ''BAD REQUEST'') []
      | Some coords \<Rightarrow> (case findHouseNearby addrs coords of
            Inl e \<Rightarrow> throwing e
          | Inr res \<Rightarrow> route_send json_mime ser 200 (ReplySuccess 200 res) []))"

definition house_route :: "('n house_reply \<Rightarrow> 'n house_reply) \<Rightarrow> 'n addrs \<Rightarrow> web_request \<Rightarrow> 'n house_reply route_class" where
  "house_route ser addrs req =
     \<lparr>rc_name = ''router geocoder-find-house-nearby'', rc_type = json_mime, rc_escape = ser, rc_prepare = nothing_first,
      rc_process = house_process ser addrs req,
      rc_processError = (\<lambda>code ed. route_send json_mime ser code (ReplyFail code ''INTERNAL SERVER ERROR'') [])\<rparr>"

end
