(* ===== verification/PageRoutes.thy ===== *)
theory PageRoutes
  imports PageServer
begin

text \<open>
  The page of the console and the page of the payment button (\<open>routes/console\<close>,
  \<open>routes/sdk-payment-method\<close>), the contract of a route whose error page cannot fail and what it gives for the
  routes of \<open>PageServer\<close>, and the answers of the routes.  A page is kept as its template and its data;
  \<open>templates\<close> gives the text of a template, empty when there is none.
\<close>

section \<open>The page of the console\<close>

datatype flag_value = FlagText string | FlagNumber int | FlagBool bool

record abt_exps =
  ae_flags :: "(string \<times> flag_value) list"
  ae_experiments :: string

definition experiments :: "route_error + abt_exps \<Rightarrow> 'd trace \<times> abt_exps" where
  "experiments res = (case res of Inr ex \<Rightarrow> ([], ex)
     | Inl err \<Rightarrow> ([LogError ''Get experiments error'' (error_message err)], \<lparr>ae_flags = [], ae_experiments = []\<rparr>))"

datatype 'c page_body = Rendered string 'c | RenderedError string error_data int | PlainError error_data

record 'f console_config =
  cc_env :: server_env
  cc_version :: string
  cc_uid :: string
  cc_email :: string
  cc_reqid :: string
  cc_csrfToken :: string
  cc_metrikaId :: string
  cc_metrikaSessionId :: string
  cc_metrikaCheckoutId :: string
  cc_services :: 'f
  cc_experiment :: abt_exps

definition console_client_config :: "'f server_config \<Rightarrow> web_request \<Rightarrow> passport \<Rightarrow> abt_exps \<Rightarrow> 'f console_config" where
  "console_client_config cfg req u ex =
     \<lparr>cc_env = sc_env cfg, cc_version = sc_version cfg, cc_uid = pp_uid u, cc_email = pp_email u, cc_reqid = wr_requestId req,
      cc_csrfToken = wr_csrfToken req, cc_metrikaId = sc_metrikaId cfg, cc_metrikaSessionId = metrikaSessionId req,
      cc_metrikaCheckoutId = metrikaCheckoutId req, cc_services = sc_services cfg, cc_experiment = ex\<rparr>"

text \<open>\<open>render\<close> logs what it renders.\<close>

definition rendering :: "'d trace" where "rendering = [LogInfo ''RENDER_DATA'']"

definition console_process ::
  "'f server_config \<Rightarrow> (string \<Rightarrow> string) \<Rightarrow> route_error + abt_exps \<Rightarrow> web_request \<Rightarrow> 'f console_config page_body route_step" where
  "console_process cfg templates uaas req =
     (case checkAuth cfg req None of (evs, auth) \<Rightarrow> route_then (happens evs) (case (auth, wr_blackbox req) of
        (Inl err, _) \<Rightarrow> throwing err
      | (Inr (Some url), _) \<Rightarrow> route_redirect url
      | (Inr None, None) \<Rightarrow> throwing (OtherError ''TypeError'')
      | (Inr None, Some u) \<Rightarrow> (case experiments uaas of (evs', ex) \<Rightarrow>
          route_then (happens (evs' @ rendering))
            (route_send html_mime id 200 (Rendered (templates ''console'') (console_client_config cfg req u ex)) []))))"

definition console_processError :: "(string \<Rightarrow> string) \<Rightarrow> int \<Rightarrow> error_data \<Rightarrow> 'c page_body route_step" where
  "console_processError templates code ed =
     (if templates ''console'' \<noteq> []
      then route_then (happens rendering) (route_send html_mime id code (RenderedError (templates ''console'') ed code) [])
      else route_send html_mime id code (PlainError ed) [])"

definition console_route ::
  "'f server_config \<Rightarrow> (string \<Rightarrow> string) \<Rightarrow> route_error + abt_exps \<Rightarrow> web_request \<Rightarrow> 'f console_config page_body route_class" where
  "console_route cfg templates uaas req =
     \<lparr>rc_name = ''router console'', rc_type = html_mime, rc_escape = id, rc_prepare = nothing_first,
      rc_process = console_process cfg templates uaas req, rc_processError = console_processError templates\<rparr>"

section \<open>The page of the button\<close>

record page_sheet =
  ps_merchantId :: "string option"
  ps_metadata :: "string option"

record 'o button_payload =
  bp_sheet :: "page_sheet option"
  bp_options :: 'o
  bp_styles :: 'o

record button_view =
  bv_shortCashback :: bool
  bv_noPersonalized :: bool
  bv_monochromeLogo :: bool

definition merchant_in :: "page_sheet option \<Rightarrow> string list \<Rightarrow> bool" where
  "merchant_in sheet ids = (case Option.bind sheet ps_merchantId of None \<Rightarrow> False | Some m \<Rightarrow> m \<in> set ids)"

definition getButtonView :: "'f server_config \<Rightarrow> page_sheet option \<Rightarrow> button_view" where
  "getButtonView cfg sheet = \<lparr>bv_shortCashback = merchant_in sheet (sc_shortCashback cfg),
     bv_noPersonalized = merchant_in sheet (sc_withoutPersonalize cfg), bv_monochromeLogo = merchant_in sheet (sc_monochromeLogo cfg)\<rparr>"

text \<open>\<open>parse\<close> is \<open>JSON.parse\<close>: \<open>None\<close> when it throws, \<open>Some None\<close> for \<open>null\<close>; \<open>new_button\<close> reads \<open>newButton\<close>.\<close>

definition newButton_flags :: "string option \<Rightarrow> string list" where
  "newButton_flags b = (if b = Some ''new-button'' then [''new-button'']
     else if b = Some ''new-button--show-empty'' then [''new-button'', ''new-button--show-empty'']
     else if b = Some ''new-button--logo-as-text'' then [''new-button'', ''new-button--logo-as-text''] else [])"

definition set_flags :: "string list \<Rightarrow> abt_exps \<Rightarrow> abt_exps" where
  "set_flags fs ex = ex\<lparr>ae_flags := foldl (\<lambda>m f. alist_put m f (FlagBool True)) (ae_flags ex) fs\<rparr>"

definition updateTestExps ::
  "(string \<Rightarrow> 'm option option) \<Rightarrow> ('m \<Rightarrow> string option) \<Rightarrow> abt_exps \<Rightarrow> page_sheet option \<Rightarrow> route_error + abt_exps" where
  "updateTestExps parse new_button ex sheet =
     (case js_or (Option.bind sheet ps_metadata) [] of [] \<Rightarrow> Inr ex
      | raw \<Rightarrow> (case parse raw of None \<Rightarrow> Inr ex
          | Some None \<Rightarrow> Inl (OtherError ''TypeError'')
          | Some (Some m) \<Rightarrow> Inr (set_flags (newButton_flags (new_button m)) ex)))"

record ('f, 'o, 'm) button_config =
  bc_version :: string
  bc_env :: server_env
  bc_reqid :: string
  bc_parentOrigin :: string
  bc_csrfToken :: string
  bc_metrikaSessionId :: string
  bc_avatarUrl :: string
  bc_hasAvatar :: bool
  bc_isAuth :: bool
  bc_frameUrlWhitelist :: "string list"
  bc_split :: 'f
  bc_ext :: "('o button_payload \<times> button_view \<times> abt_exps) option"
  bc_split_feature :: bool
  bc_testingFlags :: "'m option"

definition button_client_config ::
  "'f server_config \<Rightarrow> (string \<Rightarrow> string option) \<Rightarrow> web_request \<Rightarrow> ('o button_payload \<times> button_view \<times> abt_exps) option \<Rightarrow> 'm option
    \<Rightarrow> route_error + ('f, 'o, 'm) button_config" where
  "button_client_config cfg url_origin req ext flags =
     (case server_isSplitAvailable (sc_env cfg) (wr_split_status req) (wr_blackbox req) of
        Inl err \<Rightarrow> Inl err
      | Inr split \<Rightarrow> Inr \<lparr>bc_version = sc_version cfg, bc_env = sc_env cfg, bc_reqid = wr_requestId req,
          bc_parentOrigin = getRefererOrigin url_origin req, bc_csrfToken = wr_csrfToken req,
          bc_metrikaSessionId = js_or (alist_get (wr_query req) ''msid'') [],
          bc_avatarUrl = getAvatarURL (sc_avatarUrl cfg) (getAvatarId (wr_blackbox req)) True,
          bc_hasAvatar = (getAvatarId (wr_blackbox req) \<noteq> [] \<and> hasAvatar (wr_blackbox req)),
          bc_isAuth = isAuth (wr_blackbox req) True, bc_frameUrlWhitelist = sc_frames cfg, bc_split = sc_split cfg,
          bc_ext = ext, bc_split_feature = split, bc_testingFlags = flags\<rparr>)"

definition button_page ::
  "(string \<Rightarrow> string) \<Rightarrow> route_error + ('f, 'o, 'm) button_config \<Rightarrow> ('f, 'o, 'm) button_config page_body route_step" where
  "button_page templates config =
     (case config of Inl err \<Rightarrow> throwing err
      | Inr c \<Rightarrow> route_then (happens rendering) (route_send html_mime id 200 (Rendered (templates ''sdk-payment-method'') c) []))"

text \<open>The flags of a test server: of the experiments, and the metadata of the sheet as a whole.\<close>

definition button_flags ::
  "'f server_config \<Rightarrow> (string \<Rightarrow> 'm option option) \<Rightarrow> ('m \<Rightarrow> string option) \<Rightarrow> page_sheet option \<Rightarrow> abt_exps
    \<Rightarrow> route_error + abt_exps \<times> 'm option" where
  "button_flags cfg parse new_button sheet ex =
     (if sc_env cfg = Production then Inr (ex, None)
      else case updateTestExps parse new_button ex sheet of
        Inl err \<Rightarrow> Inl err
      | Inr ex' \<Rightarrow> (case sheet of None \<Rightarrow> Inl (OtherError ''TypeError'')
          | Some s \<Rightarrow> Inr (ex', Option.bind (ps_metadata s) (\<lambda>t. case parse t of None \<Rightarrow> None | Some m \<Rightarrow> m))))"

definition button_process ::
  "'f server_config \<Rightarrow> (string \<Rightarrow> string option) \<Rightarrow> (string \<Rightarrow> 'm option option) \<Rightarrow> ('m \<Rightarrow> string option) \<Rightarrow> (string \<Rightarrow> string)
    \<Rightarrow> route_error + abt_exps \<Rightarrow> 'o button_payload \<Rightarrow> web_request \<Rightarrow> ('f, 'o, 'm) button_config page_body route_step" where
  "button_process cfg url_origin parse new_button templates uaas payload req =
     (case experiments uaas of (evs, ex) \<Rightarrow> route_then (happens evs)
        (case button_flags cfg parse new_button (bp_sheet payload) ex of
           Inl err \<Rightarrow> throwing err
         | Inr (ex', flags) \<Rightarrow> button_page templates
             (button_client_config cfg url_origin req (Some (payload, getButtonView cfg (bp_sheet payload), ex')) flags)))"

definition button_route ::
  "'f server_config \<Rightarrow> (string \<Rightarrow> string option) \<Rightarrow> (string \<Rightarrow> 'm option option) \<Rightarrow> ('m \<Rightarrow> string option) \<Rightarrow> (string \<Rightarrow> string)
    \<Rightarrow> route_error + abt_exps \<Rightarrow> 'o button_payload \<Rightarrow> web_request \<Rightarrow> ('f, 'o, 'm) button_config page_body route_class" where
  "button_route cfg url_origin parse new_button templates uaas payload req =
     \<lparr>rc_name = ''router sdk-payment-method'', rc_type = html_mime, rc_escape = id, rc_prepare = nothing_first,
      rc_process = button_process cfg url_origin parse new_button templates uaas payload req,
      rc_processError = (\<lambda>code ed. button_page templates (button_client_config cfg url_origin req None None))\<rparr>"

section \<open>What a step adds\<close>

definition step_adds :: "nat set \<Rightarrow> 'd route_step \<Rightarrow> 'd trace \<Rightarrow> bool" where
  "step_adds N h tr = (\<exists>evs r. h tr = (tr @ evs, r) \<and> ResEnd \<notin> set evs \<and> length (client_answers evs) \<in> N)"

lemma client_answers_simps [simp]:
  "client_answers [] = []" "client_answers (ev # tr) = (if answers_client ev then ev # client_answers tr else client_answers tr)"
  "client_answers (tr @ tr') = client_answers tr @ client_answers tr'"
  by (simp_all add: client_answers_def)

lemma headersSent_simps [simp]:
  "headersSent [] = False" "headersSent (ev # tr) = (answers_client ev \<or> ev = ResEnd \<or> headersSent tr)"
  "headersSent (tr @ tr') = (headersSent tr \<or> headersSent tr')"
  by (auto simp: headersSent_def)

lemma headersSent_open: "ResEnd \<notin> set tr \<Longrightarrow> headersSent tr = (client_answers tr \<noteq> [])"
  by (induction tr) auto

lemma headers_quiet [simp]:
  "client_answers (map (\<lambda>(k, v). ResSet k v) hs) = []" "ResEnd \<notin> (\<lambda>(k, v). ResSet k v) ` set hs"
  by (induction hs) auto

lemmas route_defs = route_then_def happens_def throwing_def route_send_def route_redirect_def nothing_first_def

locale answering_route =
  fixes cls :: "'d route_class"
  assumes prepare: "\<And>tr. step_adds {0} (rc_prepare cls) tr"
    and process: "\<And>tr. \<not> headersSent tr \<Longrightarrow> step_adds {0, 1} (rc_process cls) tr"
    and processed: "\<And>tr tr'. \<not> headersSent tr \<Longrightarrow> rc_process cls tr = (tr', Inr ()) \<Longrightarrow> headersSent tr'"
    and error_page: "\<And>code ed tr. \<exists>evs. rc_processError cls code ed tr = (tr @ evs, Inr ()) \<and> ResEnd \<notin> set evs
      \<and> length (client_answers evs) = (if headersSent tr then 0 else 1)"
begin

lemma first_half:
  obtains tr r where "route_then (preAction cls) (route_then (rc_prepare cls) (rc_process cls)) [] = (tr, r)"
    and "ResEnd \<notin> set tr" and "length (client_answers tr) \<le> 1" and "r = Inr () \<Longrightarrow> client_answers tr \<noteq> []"
proof -
  define t0 :: "'d trace" where "t0 = [YasmSum ''route_count'', YasmSum (''route_'' @ rc_name cls @ ''_count''), TimingStart (rc_name cls)]"
  have pre: "preAction cls [] = (t0, Inr ())" by (simp add: preAction_def happens_def t0_def)
  have t0: "client_answers t0 = []" "ResEnd \<notin> set t0" by (simp_all add: t0_def)
  obtain e1 r1 where p1: "rc_prepare cls t0 = (t0 @ e1, r1)" "ResEnd \<notin> set e1" "client_answers e1 = []"
    using prepare [of t0] by (auto simp: step_adds_def)
  show ?thesis
  proof (cases r1)
    case (Inl e)
    show ?thesis
      by (rule that [of "t0 @ e1" "Inl e"]) (use pre p1 t0 Inl in \<open>simp_all add: route_then_def\<close>)
  next
    case (Inr u)
    have quiet: "\<not> headersSent (t0 @ e1)" using p1 t0 by (simp add: headersSent_open)
    obtain e2 r2 where p2: "rc_process cls (t0 @ e1) = (t0 @ e1 @ e2, r2)" "ResEnd \<notin> set e2" "length (client_answers e2) \<le> 1"
      using process [OF quiet] by (auto simp: step_adds_def)
    have "client_answers e2 \<noteq> []" if "r2 = Inr ()"
      using processed [OF quiet, of "t0 @ e1 @ e2"] p2 that p1 t0 by (simp add: headersSent_open)
    then show ?thesis
      by (intro that [of "t0 @ e1 @ e2" r2]) (use pre p1 p2 t0 Inr in \<open>simp_all add: route_then_def\<close>)
  qed
qed

lemma error_half:
  assumes "ResEnd \<notin> set tr" and "length (client_answers tr) \<le> 1"
  obtains tr' where "route_error_page cls api err tr = (tr', Inr ())" and "ResEnd \<notin> set tr'" and "length (client_answers tr') = 1"
proof -
  have answered: "length (client_answers (tr @ evs)) = 1" if "ResEnd \<notin> set evs" "client_answers evs = []" "client_answers tr \<noteq> []" for evs
    using assms that by (cases "client_answers tr") auto
  have page: "\<exists>tr'. rc_processError cls code ed (tr @ evs) = (tr', Inr ()) \<and> ResEnd \<notin> set tr' \<and> length (client_answers tr') = 1"
    if "ResEnd \<notin> set evs" "client_answers evs = []" for code ed evs
  proof -
    have sent: "headersSent (tr @ evs) = (client_answers tr \<noteq> [])" using assms(1) that by (simp add: headersSent_open)
    obtain e where "rc_processError cls code ed (tr @ evs) = (tr @ evs @ e, Inr ())" "ResEnd \<notin> set e"
      "length (client_answers e) = (if client_answers tr \<noteq> [] then 0 else 1)"
      using error_page [of code ed "tr @ evs"] unfolding sent by auto
    then show ?thesis using assms that by (cases "client_answers tr") auto
  qed
  show ?thesis
  proof (cases err)
    case (ApiError code meth message json)
    let ?e = "[LogError ''API_ERROR'' message, YasmSum (method_signal api (take 1 (int_digits code) @ ''xx''))]"
    from page [of ?e code "\<lparr>ed_error = ''API_ERROR'', ed_message = Some message\<rparr>"] obtain tr' where
      "rc_processError cls code \<lparr>ed_error = ''API_ERROR'', ed_message = Some message\<rparr> (tr @ ?e) = (tr', Inr ())"
      "ResEnd \<notin> set tr'" "length (client_answers tr') = 1" by auto
    with ApiError show ?thesis by (intro that [of tr']) (simp_all add: route_then_def happens_def)
  next
    case (OtherError message)
    let ?e = "[YasmSum ''route_common_request_error'', YasmSum (''route_'' @ rc_name cls @ ''_common_request_error''),
         LogError ''COMMON_REQUEST_ERROR'' message, YasmSum (method_signal api ''5xx'')]"
    from page [of ?e 500 "\<lparr>ed_error = ''COMMON_REQUEST_ERROR'', ed_message = None\<rparr>"] obtain tr' where p:
      "rc_processError cls 500 \<lparr>ed_error = ''COMMON_REQUEST_ERROR'', ed_message = None\<rparr> (tr @ ?e) = (tr', Inr ())"
      "ResEnd \<notin> set tr'" "length (client_answers tr') = 1" by auto
    show ?thesis
    proof (cases "client_answers tr = []")
      case True
      with assms(1) have "\<not> headersSent (tr @ ?e)" by (simp add: headersSent_open)
      with p OtherError show ?thesis by (intro that [of tr']) (simp_all add: route_then_def happens_def)
    next
      case False
      with assms(1) have "headersSent (tr @ ?e)" by (simp add: headersSent_open)
      with answered [of ?e] False assms(1) OtherError show ?thesis
        by (intro that [of "tr @ ?e"]) (simp_all add: route_then_def happens_def)
    qed
  qed
qed

lemma one_answer:
  "\<exists>tr rest. base_router cls api fin = tr @ ResEnd # rest \<and> length (client_answers tr) = 1 \<and> client_answers rest = []
     \<and> ResEnd \<notin> set tr"
proof -
  obtain tr r where f: "route_then (preAction cls) (route_then (rc_prepare cls) (rc_process cls)) [] = (tr, r)"
    "ResEnd \<notin> set tr" "length (client_answers tr) \<le> 1" "r = Inr () \<Longrightarrow> client_answers tr \<noteq> []" using first_half by blast
  have ends: "\<exists>rest. base_router cls api fin = tr @ ResEnd # rest \<and> client_answers rest = []"
    if "route_body cls api = (tr, Inr errors)" for tr errors
    using that by (cases fin) (simp_all add: base_router_def finish_events_def)
  show ?thesis
  proof (cases r)
    case (Inr u)
    then have "route_body cls api = (tr, Inr [])" using f(1) by (simp add: route_body_def)
    moreover have "length (client_answers tr) = 1" using f(3,4) Inr by (cases "client_answers tr") simp_all
    ultimately show ?thesis using ends f(2) by blast
  next
    case (Inl err)
    obtain tr' where e: "route_error_page cls api err tr = (tr', Inr ())" "ResEnd \<notin> set tr'" "length (client_answers tr') = 1"
      using error_half [OF f(2,3)] by blast
    then have "route_body cls api = (tr', Inr [extractErrorMessage err])" using f(1) Inl by (simp add: route_body_def)
    then show ?thesis using ends e(2,3) by blast
  qed
qed

end

text \<open>The routes with the contract.\<close>

lemma sending_adds: "\<not> headersSent tr \<Longrightarrow> step_adds {0, 1} (route_send mime ser code d hs) tr"
  unfolding step_adds_def route_send_def happens_def
  by (intro exI [of _ "[ResStatus code, ResSet ''Content-Type'' mime] @ map (\<lambda>(k, v). ResSet k v) hs @ [ResSend (ser d)]"] exI [of _ "Inr ()"]) simp

lemma sending_sends: "route_send mime ser code d hs tr = (tr', r) \<Longrightarrow> headersSent tr'"
  by (auto simp: route_send_def happens_def split: if_splits)

lemma sending_page:
  "\<exists>evs. route_send mime ser code d hs tr = (tr @ evs, Inr ()) \<and> ResEnd \<notin> set evs
    \<and> length (client_answers evs) = (if headersSent tr then 0 else 1)"
proof (cases "headersSent tr")
  case False
  then show ?thesis
    by (intro exI [of _ "[ResStatus code, ResSet ''Content-Type'' mime] @ map (\<lambda>(k, v). ResSet k v) hs @ [ResSend (ser d)]"])
      (simp add: route_send_def happens_def)
qed (simp add: route_send_def)

lemma throwing_adds: "step_adds {0, 1} (throwing e) tr"
  by (simp add: step_adds_def throwing_def)

lemma nothing_adds: "step_adds {0} nothing_first tr"
  by (simp add: step_adds_def nothing_first_def)

lemma quiet_adds:
  assumes "client_answers evs = []" "ResEnd \<notin> set evs" "\<not> headersSent tr" "\<And>tr. \<not> headersSent tr \<Longrightarrow> step_adds {0, 1} h tr"
  shows "step_adds {0, 1} (route_then (happens evs) h) tr"
proof -
  have "\<not> headersSent (tr @ evs)" using assms(1-3) by (simp add: headersSent_open)
  from assms(4) [OF this] obtain e r where "h (tr @ evs) = (tr @ evs @ e, r)" "ResEnd \<notin> set e" "length (client_answers e) \<in> {0, 1}"
    by (auto simp: step_adds_def)
  then show ?thesis unfolding step_adds_def
    by (intro exI [of _ "evs @ e"] exI [of _ r]) (use assms(1,2) in \<open>simp add: route_then_def happens_def\<close>)
qed

lemma redirect_adds: "step_adds {0, 1} (route_redirect url) tr"
  by (simp add: step_adds_def route_redirect_def happens_def)

text \<open>A process that answers once, or throws first.\<close>

inductive sends_or_throws :: "'d route_step \<Rightarrow> bool" where
  sends: "sends_or_throws (route_send mime ser code d hs)"
| redirects: "sends_or_throws (route_redirect url)"
| throws: "sends_or_throws (throwing e)"
| later: "client_answers evs = [] \<Longrightarrow> ResEnd \<notin> set evs \<Longrightarrow> sends_or_throws h \<Longrightarrow> sends_or_throws (route_then (happens evs) h)"

lemma sends_or_throws_adds: "sends_or_throws h \<Longrightarrow> \<not> headersSent tr \<Longrightarrow> step_adds {0, 1} h tr"
  by (induction arbitrary: tr rule: sends_or_throws.induct)
    (rule sending_adds redirect_adds throwing_adds quiet_adds; assumption)+

lemma sends_or_throws_sends: "sends_or_throws h \<Longrightarrow> h tr = (tr', Inr ()) \<Longrightarrow> headersSent tr'"
  by (induction arbitrary: tr rule: sends_or_throws.induct)
    (auto simp: route_then_def happens_def route_redirect_def throwing_def dest: sending_sends)

lemma answering_routeI:
  assumes "rc_prepare cls = nothing_first" "sends_or_throws (rc_process cls)"
    and "\<And>code ed tr. \<exists>evs. rc_processError cls code ed tr = (tr @ evs, Inr ()) \<and> ResEnd \<notin> set evs
      \<and> length (client_answers evs) = (if headersSent tr then 0 else 1)"
  shows "answering_route cls"
proof
  show "step_adds {0} (rc_prepare cls) tr" for tr by (simp only: assms(1) nothing_adds)
qed (rule sends_or_throws_adds [OF assms(2)] sends_or_throws_sends [OF assms(2)] assms(3); assumption)+

lemma checkAuth_quiet: "checkAuth cfg req url = (evs, r) \<Longrightarrow> client_answers evs = [] \<and> ResEnd \<notin> set evs"
  by (auto simp: checkAuth_def countCheckout_def split: sum.splits if_splits)

lemma experiments_quiet: "experiments res = (evs, ex) \<Longrightarrow> client_answers evs = [] \<and> ResEnd \<notin> set evs"
  by (auto simp: experiments_def split: sum.splits)

interpretation user_info: answering_route "user_info_route cfg ser req" for cfg ser req
  by (rule answering_routeI)
    (auto simp: user_info_route_def user_info_process_def sending_page intro: sends split: option.splits)

interpretation decrease_session: answering_route "decrease_session_route ser req res" for ser req res
  by (rule answering_routeI)
    (auto simp: decrease_session_route_def decrease_session_process_def decreaseSession_def sending_page
      intro: sends_or_throws.intros split: sum.splits)

interpretation house: answering_route "house_route ser addrs req" for ser addrs req
  by (rule answering_routeI)
    (auto simp: house_route_def house_process_def sending_page intro: sends throws split: option.splits sum.splits)

lemma console_process_sends: "sends_or_throws (console_process cfg templates uaas req)"
  unfolding console_process_def
  by (auto simp: rendering_def dest!: checkAuth_quiet experiments_quiet intro!: sends_or_throws.intros
      split: prod.splits sum.splits option.splits)

lemma console_error_page:
  "\<exists>evs. console_processError templates code ed tr = (tr @ evs, Inr ()) \<and> ResEnd \<notin> set evs
    \<and> length (client_answers evs) = (if headersSent tr then 0 else 1)"
proof (cases "templates ''console'' = []")
  case False
  obtain e where "route_send html_mime id code (RenderedError (templates ''console'') ed code) [] (tr @ rendering) = (tr @ rendering @ e, Inr ())"
    "ResEnd \<notin> set e" "length (client_answers e) = (if headersSent tr then 0 else 1)"
    using sending_page [of html_mime id code "RenderedError (templates ''console'') ed code" "[]" "tr @ rendering"]
    by (auto simp: rendering_def)
  with False show ?thesis by (intro exI [of _ "rendering @ e"]) (simp add: console_processError_def route_then_def happens_def rendering_def)
qed (simp add: console_processError_def sending_page)

interpretation console: answering_route "console_route cfg templates uaas req" for cfg templates uaas req
  by (rule answering_routeI) (simp_all only: console_route_def route_class.simps console_process_sends console_error_page)

section \<open>The answers of the routes\<close>

definition answered_once :: "'d trace \<Rightarrow> bool" where
  "answered_once tr = (\<exists>pre rest. tr = pre @ ResEnd # rest \<and> length (client_answers pre) = 1 \<and> client_answers rest = []
     \<and> ResEnd \<notin> set pre)"

text \<open>C24: Whatever the user, the query, the replies of the other servers and the end of the connection are, the route
  of the mobile user, that of the shorter session, that of the house nearby and the page of the console each answer
  their request exactly once and end the response after it: also when the process or a reply throws, and when
  there is no template for the error page.\<close>

theorem routes_answer_once:
  "answered_once (base_router (user_info_route cfg1 ser1 req1) api1 fin1)
    \<and> answered_once (base_router (decrease_session_route ser2 req2 res2) api2 fin2)
    \<and> answered_once (base_router (house_route ser3 addrs req3) api3 fin3)
    \<and> answered_once (base_router (console_route cfg4 templates uaas req4) api4 fin4)"
  unfolding answered_once_def
  by (intro conjI user_info.one_answer decrease_session.one_answer house.one_answer console.one_answer)

text \<open>What the route of the house nearby answers.\<close>

fun error_code :: "route_error \<Rightarrow> int" where
  "error_code (ApiError code meth message json) = code"
| "error_code (OtherError message) = 500"

definition house_answer :: "'n addrs \<Rightarrow> web_request \<Rightarrow> int \<times> 'n house_reply" where
  "house_answer addrs req =
     (if \<not> isAuth (wr_blackbox req) True then (403, ReplyFail 403 ''FORBIDDEN'')
      else case getCoordinates (wr_query req) of
        None \<Rightarrow> (400, ReplyFail 400 ''BAD REQUEST'')
      | Some coords \<Rightarrow> (case findHouseNearby addrs coords of
            Inl e \<Rightarrow> (error_code e, ReplyFail (error_code e) ''INTERNAL SERVER ERROR'')
          | Inr res \<Rightarrow> (200, ReplySuccess 200 res)))"

lemma sends_open: "\<not> headersSent tr \<Longrightarrow> route_send mime ser code d [] tr = (tr @ [ResStatus code, ResSet ''Content-Type'' mime, ResSend (ser d)], Inr ())"
  by (simp add: route_send_def happens_def)

lemma house_body:
  "\<exists>pre errs. route_body (house_route ser addrs req) api
     = (pre @ [ResStatus (fst (house_answer addrs req)), ResSet ''Content-Type'' json_mime, ResSend (ser (snd (house_answer addrs req)))], Inr errs)"
proof (cases "isAuth (wr_blackbox req) True \<and> (\<exists>coords e. getCoordinates (wr_query req) = Some coords \<and> findHouseNearby addrs coords = Inl e)")
  case True
  then obtain coords e where f: "isAuth (wr_blackbox req) True" "getCoordinates (wr_query req) = Some coords"
    "findHouseNearby addrs coords = Inl e" by blast
  show ?thesis
    by (cases e) (use f in \<open>simp_all add: route_body_def preAction_def house_route_def house_process_def house_answer_def
      nothing_first_def throwing_def route_then_def happens_def route_send_def\<close>)
next
  case False
  then show ?thesis
    by (cases "isAuth (wr_blackbox req) True"; cases "getCoordinates (wr_query req)"; cases "findHouseNearby addrs (the (getCoordinates (wr_query req)))")
      (simp_all add: route_body_def preAction_def house_route_def house_process_def house_answer_def
        nothing_first_def route_then_def happens_def route_send_def)
qed

text \<open>The answer of the route of the house nearby: 403 for a user who is not signed in, 400 for coordinates that
  are not two numbers, the code of the error of the geocoder (500 for any other) when it fails, and else 200 with
  the house; as JSON, once, and then the response is ended.\<close>

theorem house_route_result:
  "\<exists>pre rest. base_router (house_route ser addrs req) api fin
     = pre @ [ResStatus (fst (house_answer addrs req)), ResSet ''Content-Type'' json_mime,
         ResSend (ser (snd (house_answer addrs req))), ResEnd] @ rest \<and> client_answers (pre @ rest) = []"
proof -
  obtain pre errs where b: "route_body (house_route ser addrs req) api = (pre @ [ResStatus (fst (house_answer addrs req)),
    ResSet ''Content-Type'' json_mime, ResSend (ser (snd (house_answer addrs req)))], Inr errs)" using house_body by blast
  obtain rest where r: "base_router (house_route ser addrs req) api fin = pre @ [ResStatus (fst (house_answer addrs req)),
    ResSet ''Content-Type'' json_mime, ResSend (ser (snd (house_answer addrs req))), ResEnd] @ rest" "client_answers rest = []"
    using b by (cases fin) (simp_all add: base_router_def finish_events_def)
  obtain tr rest' where o: "base_router (house_route ser addrs req) api fin = tr @ ResEnd # rest'" "length (client_answers tr) = 1"
    "client_answers rest' = []" using house.one_answer by blast
  have "length (client_answers (base_router (house_route ser addrs req) api fin)) = 1" using o by simp
  then have "client_answers pre = []" using r by simp
  with r show ?thesis by auto
qed

section \<open>A button that is never answered\<close>

text \<open>The split is given to a list of users of the bunker that is missing.\<close>

definition missing_whitelist :: "server_env \<Rightarrow> feature_status option \<Rightarrow> passport option \<Rightarrow> bool" where
  "missing_whitelist env status bb =
     (env = Production \<and> hasUserPhone bb \<and> (case status of None \<Rightarrow> False
        | Some st \<Rightarrow> \<not> ft_public st \<and> \<not> (ft_staff st \<and> isStaffAccount bb) \<and> ft_whitelist st \<and> ft_whitelist_users st = None))"

lemma split_fails: "(server_isSplitAvailable env status bb = Inl e) = (missing_whitelist env status bb \<and> e = OtherError ''TypeError'')"
  by (auto simp: server_isSplitAvailable_def userHasAccessToFeature_def isUserInWhitelist_def missing_whitelist_def split: option.splits)

lemma config_fails:
  assumes "missing_whitelist (sc_env cfg) (wr_split_status req) (wr_blackbox req)"
  shows "button_client_config cfg url_origin req ext flags = Inl (OtherError ''TypeError'')"
proof -
  have "server_isSplitAvailable (sc_env cfg) (wr_split_status req) (wr_blackbox req) = Inl (OtherError ''TypeError'')"
    using assms by (simp only: split_fails)
  then show ?thesis by (simp only: button_client_config_def sum.case)
qed

lemma config_made:
  assumes "\<not> missing_whitelist (sc_env cfg) (wr_split_status req) (wr_blackbox req)"
  obtains c where "button_client_config cfg url_origin req ext flags = Inr c"
  using assms split_fails [of "sc_env cfg" "wr_split_status req" "wr_blackbox req"]
  by (cases "server_isSplitAvailable (sc_env cfg) (wr_split_status req) (wr_blackbox req)") (auto simp: button_client_config_def)

lemma button_answers:
  fixes payload :: "'o button_payload" and cfg :: "'f server_config" and new_button :: "'m \<Rightarrow> string option"
  assumes "\<not> missing_whitelist (sc_env cfg) (wr_split_status req) (wr_blackbox req)"
  shows "answering_route (button_route cfg url_origin parse new_button templates uaas payload req)"
proof (rule answering_routeI)
  let ?cls = "button_route cfg url_origin parse new_button templates uaas payload req"
  show "rc_prepare ?cls = nothing_first" by (simp add: button_route_def)
  have page: "sends_or_throws (button_page templates config)" for config :: "route_error + ('f, 'o, 'm) button_config"
    by (auto simp: button_page_def rendering_def intro!: sends_or_throws.intros split: sum.split)
  show "sends_or_throws (rc_process ?cls)"
    by (auto simp: button_route_def button_process_def page dest!: experiments_quiet intro!: sends_or_throws.intros
        split: prod.split sum.split)
  show "\<exists>evs. rc_processError ?cls code ed tr = (tr @ evs, Inr ()) \<and> ResEnd \<notin> set evs
      \<and> length (client_answers evs) = (if headersSent tr then 0 else 1)" for code ed tr
  proof -
    obtain c :: "('f, 'o, 'm) button_config" where c: "button_client_config cfg url_origin req None None = Inr c"
      using config_made [OF assms] by blast
    obtain e where "route_send html_mime id 200 (Rendered (templates ''sdk-payment-method'') c) [] (tr @ rendering) = (tr @ rendering @ e, Inr ())"
      "ResEnd \<notin> set e" "length (client_answers e) = (if headersSent tr then 0 else 1)"
      using sending_page [of html_mime id 200 "Rendered (templates ''sdk-payment-method'') c" "[]" "tr @ rendering"]
      by (auto simp: rendering_def)
    with c show ?thesis
      by (intro exI [of _ "rendering @ e"]) (simp add: button_route_def button_page_def route_then_def happens_def rendering_def)
  qed
qed

lemma button_fails:
  fixes payload :: "'o button_payload" and cfg :: "'f server_config" and new_button :: "'m \<Rightarrow> string option"
  assumes "missing_whitelist (sc_env cfg) (wr_split_status req) (wr_blackbox req)"
  shows "client_answers (base_router (button_route cfg url_origin parse new_button templates uaas payload req) api fin) = []
    \<and> ResEnd \<notin> set (base_router (button_route cfg url_origin parse new_button templates uaas payload req) api fin)"
proof -
  obtain evs :: "('f, 'o, 'm) button_config page_body trace" and ex where ex: "experiments uaas = (evs, ex)"
    using prod.exhaust by blast
  have "sc_env cfg = Production" using assms by (simp add: missing_whitelist_def)
  then show ?thesis
    using experiments_quiet [OF ex] ex
    by (simp add: config_fails [OF assms] base_router_def route_body_def button_route_def button_process_def button_page_def button_flags_def preAction_def
        nothing_first_def throwing_def route_then_def happens_def uncaught_events_def headersSent_open)
qed

text \<open>C19: The page of the payment button answers its request exactly once, whatever the payload and the experiments, with
  one exception: on the production server, when the bunker gives the split to a white list and the list is missing,
  a user with a confirmed phone who is not let in otherwise gets no answer at all.  The error page needs the same
  check that made the page fail, so the request is neither answered nor ended.\<close>

theorem button_unanswered:
  fixes payload :: "'o button_payload" and cfg :: "'f server_config" and new_button :: "'m \<Rightarrow> string option"
  shows "(client_answers (base_router (button_route cfg url_origin parse new_button templates uaas payload req) api fin) = [])
      = missing_whitelist (sc_env cfg) (wr_split_status req) (wr_blackbox req)
    \<and> answered_once (base_router (button_route cfg url_origin parse new_button templates uaas payload req) api fin)
      = (\<not> missing_whitelist (sc_env cfg) (wr_split_status req) (wr_blackbox req))"
proof (cases "missing_whitelist (sc_env cfg) (wr_split_status req) (wr_blackbox req)")
  case True
  have "client_answers (base_router (button_route cfg url_origin parse new_button templates uaas payload req) api fin) = []"
    by (rule button_fails [OF True, THEN conjunct1])
  moreover have "ResEnd \<notin> set (base_router (button_route cfg url_origin parse new_button templates uaas payload req) api fin)"
    by (rule button_fails [OF True, THEN conjunct2])
  ultimately show ?thesis using True by (auto simp: answered_once_def)
next
  case False
  from answering_route.one_answer [OF button_answers [OF False]]
  have once: "answered_once (base_router (button_route cfg url_origin parse new_button templates uaas payload req) api fin)"
    unfolding answered_once_def .
  then have "client_answers (base_router (button_route cfg url_origin parse new_button templates uaas payload req) api fin) \<noteq> []"
    by (auto simp: answered_once_def)
  with once False show ?thesis by blast
qed

end
