(* ===== verification/InputMask.thy ===== *)
theory InputMask
  imports Main
begin

text \<open>
  \<open>pay-frontend/services/console-registration/src/components/input/_mix/mask/helpers.ts\<close>: fitting a typed text to
  a mask.  A text is its list of UTF-16 code units, because masks may be Cyrillic.
\<close>

definition CHARS_AUTOREPLACE :: "nat list" where
  "CHARS_AUTOREPLACE = [32, 45, 43]"

definition char_class :: "nat \<Rightarrow> nat \<Rightarrow> bool" where
  "char_class k c = (if k = 48 then 48 \<le> c \<and> c \<le> 57
     else if k = 65 then 65 \<le> c \<and> c \<le> 90
     else if k = 97 then 97 \<le> c \<and> c \<le> 122
     else if k = 1040 then 1040 \<le> c \<and> c \<le> 1071
     else if k = 1072 then 1072 \<le> c \<and> c \<le> 1103
     else False)"

text \<open>The status and the character, \<open>None\<close> for the empty one; a mask that has ended matches nothing.\<close>

definition checkChar :: "nat \<Rightarrow> nat option \<Rightarrow> bool \<times> nat option" where
  "checkChar c k = (case k of None \<Rightarrow> (False, None)
     | Some k \<Rightarrow> if k \<in> set CHARS_AUTOREPLACE then (k = c, Some k) else (char_class k c, None))"

text \<open>The loop of \<open>maskFn\<close> on the rest of the text and the rest of the mask.  It steps back after a character the
  mask puts in by itself.\<close>

function mask_loop :: "nat list \<Rightarrow> nat list \<Rightarrow> nat list" where
  "mask_loop [] m = []"
| "mask_loop (c # v) m =
     (case checkChar c (case m of [] \<Rightarrow> None | k # _ \<Rightarrow> Some k) of
        (True, ch) \<Rightarrow> (case ch of Some k \<Rightarrow> k | None \<Rightarrow> c) # mask_loop v (tl m)
      | (False, Some k) \<Rightarrow> k # mask_loop (c # v) (tl m)
      | (False, None) \<Rightarrow> mask_loop v m)"
  by pat_completeness auto
termination
  by (relation "measure (\<lambda>(v, m). length v + length m)") (auto simp: checkChar_def split: list.splits option.splits if_splits)

definition maskFn :: "nat list \<Rightarrow> nat list \<Rightarrow> nat list" where
  "maskFn v m = (if m = [] \<or> v = [] then v else mask_loop v m)"

definition getMaskedValue :: "nat list \<Rightarrow> nat list list \<Rightarrow> nat list" where
  "getMaskedValue v ms = foldl (\<lambda>best m. if length best < length (maskFn v m) then maskFn v m else best) [] ms"

definition fits_mask :: "nat \<Rightarrow> nat \<Rightarrow> bool" where
  "fits_mask c k = (if k \<in> set CHARS_AUTOREPLACE then c = k else char_class k c)"

lemma mask_loop_nil [simp]: "mask_loop v [] = []"
  by (induction v) (simp_all add: checkChar_def)

lemma mask_loop_fits: "\<exists>n. list_all2 fits_mask (mask_loop v m) (take n m)"
proof (induction v m rule: mask_loop.induct)
  case (1 m)
  show ?case by (intro exI [of _ 0]) simp
next
  case (2 c v m)
  show ?case
  proof (cases m)
    case (Cons k m')
    consider "k \<in> set CHARS_AUTOREPLACE" "c = k" | "k \<in> set CHARS_AUTOREPLACE" "c \<noteq> k"
      | "k \<notin> set CHARS_AUTOREPLACE" "char_class k c" | "k \<notin> set CHARS_AUTOREPLACE" "\<not> char_class k c" by blast
    then show ?thesis
    proof cases
      case 1
      obtain n where "list_all2 fits_mask (mask_loop v m') (take n m')" using 2(1) [of True "Some k"] 1 Cons by (auto simp: checkChar_def)
      with 1 Cons show ?thesis by (intro exI [of _ "Suc n"]) (simp add: checkChar_def fits_mask_def [of _ k])
    next
      case a: 2
      obtain n where "list_all2 fits_mask (mask_loop (c # v) m') (take n m')"
        using 2(3) a Cons by (simp add: checkChar_def del: mask_loop.simps) blast
      with a Cons show ?thesis by (intro exI [of _ "Suc n"]) (simp add: checkChar_def fits_mask_def [of _ k])
    next
      case 3
      obtain n where "list_all2 fits_mask (mask_loop v m') (take n m')" using 2(1) [of True None] 3 Cons by (auto simp: checkChar_def)
      with 3 Cons show ?thesis by (intro exI [of _ "Suc n"]) (simp add: checkChar_def fits_mask_def [of _ k])
    next
      case 4
      then show ?thesis using 2(2) Cons by (simp add: checkChar_def)
    qed
  qed (auto intro: exI [of _ 0])
qed

lemma mask_loop_fixed: "list_all2 fits_mask w (take n m) \<Longrightarrow> mask_loop w m = w"
proof (induction w arbitrary: n m)
  case (Cons c w)
  then obtain k m' n' where m: "m = k # m'" "n = Suc n'" "fits_mask c k" "list_all2 fits_mask w (take n' m')"
    by (cases m; cases n) auto
  have "mask_loop w m' = w" by (rule Cons.IH [OF m(4)])
  with m(1,3) show ?case by (simp add: checkChar_def fits_mask_def split: if_splits)
qed simp

text \<open>What a mask leaves fits the mask, character by character, and putting it through the mask again, as the field
  does with every key, changes nothing.\<close>

theorem maskFn_stable:
  assumes "m \<noteq> []"
  shows "(\<exists>n. list_all2 fits_mask (maskFn v m) (take n m)) \<and> maskFn (maskFn v m) m = maskFn v m"
proof -
  obtain n where n: "list_all2 fits_mask (maskFn v m) (take n m)"
  proof (cases "v = []")
    case True
    then show ?thesis by (intro that [of 0]) (simp add: maskFn_def)
  next
    case False
    then show ?thesis using mask_loop_fits [of v m] that assms by (auto simp: maskFn_def)
  qed
  then have "mask_loop (maskFn v m) m = maskFn v m" by (rule mask_loop_fixed)
  then have "maskFn (maskFn v m) m = maskFn v m" using assms by (simp add: maskFn_def [of "maskFn v m"])
  with n show ?thesis by blast
qed

end
