(* ===== verification/Spec2Isabelle.thy ===== *)
theory Spec2Isabelle
  imports TimeoutFetch ConnectionManager PaymentFlow ServiceResults SdkPayment PayFormStart PayFormPayment ConsoleForm ConsoleHelpers Cookies PageRoutes InputMask
begin

text \<open>
  Yandex Pay front end: the payment button, the two payment forms, the code they share, and the console of the shops.

  \<^bold>\<open>The program.\<close>  A shop's page loads the SDK (\<open>pay-frontend/services/sdk\<close>), makes a payment object and shows a
  button.  A click opens a form in a window or by a redirect: the checkout (\<open>services/checkout\<close>), which asks for the
  delivery, the coupon and the card, or the payment form (\<open>services/pay-form\<close>), which only asks for the card.  Page
  and form talk over messages between windows or over the address (\<open>packages/utils/connections\<close>).  The form asks
  the shop for prices, or the checkout server in its place (\<open>packages/pay-common\<close>, \<open>ServerApiModule\<close>), pays by a
  process that polls the state of the transaction (\<open>CheckoutProcess\<close>), and tells the shop what came of it.  A shop
  registers in the console (\<open>console-frontend\<close>).  The pages come from a server (\<open>pay-frontend/server\<close>), which also
  answers a few questions in JSON.

  \<^bold>\<open>Theories and code.\<close>  Names are those of the source; a prefix or a suffix avoids a clash.  Paths are below \<open>src/\<close>.

    \<^item> \<open>Prelude\<close>: strings, optional values and their truth tests, dictionaries as association lists.
    \<^item> \<open>JsNumber\<close>, \<open>Rounding\<close>, \<open>JsDate\<close>: numbers of JavaScript (IEEE doubles as rationals with rounding), their
      texts, the error of one rounding, dates.
    \<^item> \<open>Amount\<close>: \<open>packages/utils/math\<close>, prices as texts.  \<open>ArrayUtils\<close>: \<open>packages/utils/array\<close>.  \<open>AsyncData\<close>:
      \<open>packages/utils/async\<close>.  \<open>Uri\<close>, \<open>Url\<close>: \<open>packages/utils/url\<close>.  \<open>Emitter\<close>: \<open>packages/utils/event-emitter\<close>.
    \<^item> \<open>Fetch\<close>, \<open>TimeoutFetch\<close>: \<open>packages/fetch\<close>, requests with retries and one attempt with its timer.
    \<^item> \<open>Connections\<close>, \<open>ConnectionManager\<close>: \<open>packages/utils/connections\<close>.
    \<^item> \<open>PayTypes\<close>, \<open>Transform\<close>: the data of orders and sheets (\<open>packages/pay-api\<close>, \<open>services/sdk/src/typings\<close>) and
      \<open>packages/pay-common/transform\<close>.  \<open>ServerApi\<close>: \<open>checkout-process/module.ts\<close>.  \<open>CheckoutProcess\<close>:
      \<open>checkout-process/index.ts\<close>.  \<open>ProcessListeners\<close>: what the forms that listen to the process share.
    \<^item> \<open>CheckoutHelpers\<close>, \<open>Cards\<close>, \<open>UserHelpers\<close>, \<open>ShippingHelpers\<close>, \<open>PickupHelpers\<close>: the helpers of the checkout
      and of \<open>packages/utils\<close> about sheets, cards, addresses and contacts, delivery options, and points on the map.
    \<^item> \<open>CheckoutState\<close>, \<open>CheckoutSelectors\<close>: the store of the checkout with every mutator and selector.
    \<^item> \<open>ServiceMonad\<close>: \<open>packages/react-services\<close>, services as programs over a store.  \<open>CheckoutServices\<close>: the services
      of the checkout; \<open>ServiceInvariants\<close>, \<open>ServiceResults\<close>: what they keep and achieve.
    \<^item> \<open>RpcQueue\<close>, \<open>Intercom\<close>: \<open>services/checkout/src/lib/intercom\<close>, the questions of the form to the shop.
    \<^item> \<open>PaymentFlow\<close>: \<open>store/checkout/services.ts\<close>, the payment in the checkout.
    \<^item> \<open>SdkSheet\<close>, \<open>SdkPayment\<close>: \<open>services/sdk\<close>, the data of a shop and the payment object \<open>BasePayment\<close>.
    \<^item> \<open>PayForm\<close>, \<open>PayFormStart\<close>, \<open>PayFormPayment\<close>: \<open>services/pay-form\<close>, store, start and payment.
    \<^item> \<open>ConsoleStore\<close>, \<open>ConsoleSagas\<close>, \<open>ConsoleResults\<close>, \<open>ConsoleForm\<close>, \<open>ConsoleHelpers\<close>: \<open>console-frontend\<close>, the
      store, the sagas, the steps of the registration, pagination and masks.  \<open>InputMask\<close>: the masks of
      \<open>services/console-registration\<close>.
    \<^item> \<open>Cookies\<close>, \<open>PageServer\<close>, \<open>PageRoutes\<close>: \<open>pay-frontend/server\<close>, the two cookies with an identifier, the base class
      of the routes, the checks of the user, three routes of JSON, and the pages of the console and of the button.

  \<^bold>\<open>How state and time are modelled.\<close>  The engine runs one callback at a time and switches at an \<open>await\<close>, a timer or a
  message.  There are three shapes of model.  An object with handlers (the process, the server module, the payment
  object, the connection with its queue, one attempt of a request) is a record, a function per handler, and a step
  over a datatype of inputs: calls, replies, timers, messages; a run is a list of inputs, and theorems quantify over
  every such list.  Services and thunks are trees of what they do (\<open>ServiceMonad.prog\<close>): updates, reads, requests with
  every reply, started services, \<open>Promise.all\<close>; \<open>cstep\<close> lets any of the running ones make its next step, which
  includes every order the engine can produce, and \<open>run\<close> is one that runs alone.  Sagas are trees of the effects they
  yield, with one effect in a turn.  Errors are values: the left of a sum, an option, or the outcome of a service.

  \<^bold>\<open>What is a parameter.\<close>  Code that is not in the repository is an argument of the definitions that use it: the
  platform's \<open>fetch\<close>, \<open>URL.origin\<close>, \<open>Date.parse\<close> and \<open>JSON.parse\<close>, \<open>pathOr\<close> of \<open>@tinkoff/utils\<close>, \<open>range\<close> of lodash, the
  \<open>takeLatest\<close> of redux-saga, the server and the shop (their replies are quantified), and the settings of the page.
  What the code relies on is a named hypothesis (\<open>tinkoff_ok\<close>, \<open>range_spec\<close>, \<open>takes_latest\<close>), and the witnesses use
  instances that satisfy it.

  \<^bold>\<open>Bounds and termination.\<close>  Every function is total, and there is no fuel: loops are structural or have a measure, and
  what may go on for ever, the polling of a transaction, is a sequence of inputs.  A service is a tree whose branches
  all end, so running services come to rest (\<open>services_come_to_rest\<close>); one that dispatches itself without end, which
  \<open>packages/react-services\<close> would run, has no such tree, and the checkout has none.  Price arithmetic is exact up to the bounds its theorems
  name, at which the accumulated rounding is still below half a hundredth; a page count is exact for totals and
  page sizes below \<open>2 ^ 31\<close>.

  \<^bold>\<open>What the theorems show.\<close>

    \<^item> The payment: the polling loop delivers the events of a functional specification; a cancelled process is silent;
      in both forms a good card payment is told to the shop once and every success names an order the server made;
      where a failed or late status goes wrong.
    \<^item> The payment object of the SDK: paid messages reach the shop once, a closed form is noticed, how many
      abandoned payments it can report, what an ended form, a destroyed payment or a form that closes itself does.
    \<^item> The stores: the checkout's is well formed under every interleaving of its services, which leave no
      exception unhandled (four named ones apart) and come to rest; what a payment does to that store; reloads keep
      lists; whom the start sends through the onboarding and what it selects; the methods of the payment form are cards
      and an entry for a new card exactly while there is room; where stale delivery options show.
    \<^item> Questions to the shop: answers go to the oldest question, and a question with a time limit ends once.
    \<^item> Money and orders: sums of prices are exact, when the created amount is the shown total, what \<open>createCheckout\<close>
      accepts and sends, at most one delivery option.
    \<^item> The network: the race of timer, abort and reply, the bound on retries and no retry after an abort, foreign origins are refused, a payload in
      the address reaches the other page.
    \<^item> The console: settled suggestions match the text asked for last, what a registration sends and what of it comes back, how
      a registered shop is registered again, and the pages a pagination shows.
    \<^item> The page server: which routes answer exactly once whatever fails, the one page that may never be answered, when a
      fresh identifier of a browser is accepted on its next visit.

  \<^bold>\<open>Interfaces.\<close>  Contracts between parts are locales, each interpreted on the model's definitions: \<open>money\<close>,
  \<open>registry\<close> (both emitters), \<open>connection\<close> and \<open>one_shot_connection\<close> (window and address), \<open>serial_queue\<close>
  (\<open>RpcQueue\<close>), \<open>list_loader\<close> (addresses, contacts, cards), \<open>quiet_listener\<close>, \<open>card_listener\<close> and \<open>order_listener\<close>
  (the two forms as listeners of the process), \<open>watched_search\<close> (the two suggestions of the console),
  \<open>answering_route\<close> (a route of the server whose error page cannot fail).

  \<^bold>\<open>Not modelled.\<close>  React components, styles and texts for the screen; counters, logs and measurements (metrika, rum,
  error logs); of the page server the replacement of keys in templates, the pages of the forms and of the SDK frames,
  which differ in the data they put into a template, and headers around third-party middlewares; the pages of the consoles in \<open>pay-frontend/services\<close> and \<open>frontend\<close>, which hold
  layout and one form each; demo pages, the playground and the mocks; the polyfill of \<open>fetch\<close>; the map script; the
  frames of the split service and of the button; build and lint configuration; the services in other languages
  (\<open>bill_payments\<close>, \<open>duckgo\<close>, \<open>sprint\<close>, \<open>integration\<close>).  Exceptions of callbacks the shop or the interface passes in are
  not modelled, except in the emitters.  Of the user the passport service returns, phones are a list and never null.
\<close>

end
